(* ===== verification/Vmi_Prelude.thy ===== *)
theory Vmi_Prelude
  imports Main "HOL-Library.Word" "HOL-Library.Mapping" "HOL-Library.AList_Mapping"
begin

text \<open>
  Shared vocabulary of the development: the fixed-width integers of the C sources, the two
  bit-field macros of \<^verbatim>\<open>libvmi.h\<close>, little-endian byte sequences (what a
  \<^verbatim>\<open>memcpy\<close> into an integer variable does on the x86 hosts the library runs on),
  the status codes, and the generic facts the component theories rest on.
  Facts about bit masks are collected in \<open>vmi_bits\<close>.
\<close>

unbundle bit_operations_syntax

named_theorems vmi_bits \<open>bit-level readings of the mask and field operations\<close>

type_synonym u8 = "8 word"
type_synonym u16 = "16 word"
type_synonym u32 = "32 word"
type_synonym u64 = "64 word"
type_synonym addr_t = "64 word"
type_synonym vmi_pid_t = "32 word" \<comment> \<open>\<^verbatim>\<open>int32_t\<close>, read with \<^term>\<open>sint\<close>\<close>

section \<open>Status codes\<close>

datatype status = VMI_SUCCESS | VMI_FAILURE

section \<open>Bit fields\<close>

definition VMI_GET_BIT :: "'a::len word \<Rightarrow> nat \<Rightarrow> bool" where
  "VMI_GET_BIT reg n \<longleftrightarrow> reg AND push_bit n 1 \<noteq> 0"

definition VMI_BIT_MASK :: "nat \<Rightarrow> nat \<Rightarrow> u64" where
  "VMI_BIT_MASK a b = drop_bit (63 - b) (- 1) AND NOT (push_bit a 1 - 1)"

lemma VMI_GET_BIT_iff [vmi_bits]: "VMI_GET_BIT w n \<longleftrightarrow> bit w n"
proof -
  have "w AND push_bit n 1 = (if bit w n then push_bit n 1 else 0)"
    by (rule bit_word_eqI) (auto simp: bit_simps)
  moreover have "bit w n \<Longrightarrow> push_bit n (1::'a word) \<noteq> 0"
    by (auto simp: bit_eq_iff bit_simps dest: bit_imp_le_length)
  ultimately show ?thesis by (simp add: VMI_GET_BIT_def)
qed

lemma bit_VMI_BIT_MASK [vmi_bits]:
  "b < 64 \<Longrightarrow> bit (VMI_BIT_MASK a b) n \<longleftrightarrow> a \<le> n \<and> n \<le> b"
  by (auto simp: VMI_BIT_MASK_def bit_simps simp flip: mask_eq_exp_minus_1)

lemma VMI_BIT_MASK_low: "b < 64 \<Longrightarrow> VMI_BIT_MASK 0 b = mask (Suc b)"
  by (rule bit_word_eqI) (auto simp: vmi_bits bit_simps)

lemma ucast_bit_le [vmi_bits]:
  "bit (ucast w :: 'b::len word) n \<longleftrightarrow> n < LENGTH('b) \<and> bit (w :: 'a::len word) n"
  by (auto simp: bit_simps dest: bit_imp_le_length)

text \<open>Clearing the low bits, the C idiom \<^verbatim>\<open>(x >> n) << n\<close>.\<close>

definition clear_low :: "nat \<Rightarrow> 'a::len word \<Rightarrow> 'a word" where
  "clear_low n w = push_bit n (drop_bit n w)"

lemma bit_clear_low [vmi_bits]: "bit (clear_low n (w :: 'a::len word)) i \<longleftrightarrow> n \<le> i \<and> bit w i"
  by (auto simp: clear_low_def bit_simps dest: bit_imp_le_length)

lemma clear_low_idem [simp]: "clear_low n (clear_low n w) = clear_low n w"
  by (rule bit_word_eqI) (auto simp: vmi_bits)

lemma clear_low_or_low: "clear_low 12 w OR (VMI_BIT_MASK 0 11 AND w) = w"
  by (rule bit_word_eqI) (auto simp: vmi_bits bit_simps)

text \<open>Evaluation of mask expressions on concrete words.\<close>

lemmas vmi_eval = clear_low_def VMI_BIT_MASK_def VMI_GET_BIT_def mask_eq_exp_minus_1

section \<open>Little-endian byte sequences\<close>

fun word_of_bytes :: "u8 list \<Rightarrow> 'a::len word" where
  "word_of_bytes [] = 0"
| "word_of_bytes (b # bs) = ucast b OR push_bit 8 (word_of_bytes bs)"

fun bytes_of_word :: "nat \<Rightarrow> 'a::len word \<Rightarrow> u8 list" where
  "bytes_of_word 0 w = []"
| "bytes_of_word (Suc n) w = ucast w # bytes_of_word n (drop_bit 8 w)"

lemma length_bytes_of_word [simp]: "length (bytes_of_word n w) = n"
  by (induction n arbitrary: w) auto

lemma word_of_bytes_of_word_take:
  "word_of_bytes (bytes_of_word n w) = take_bit (8 * n) (w :: 'a::len word)"
proof (induction n arbitrary: w)
  case 0
  then show ?case by simp
next
  case (Suc n)
  show ?case
    by (rule bit_word_eqI) (auto simp: Suc.IH bit_simps)
qed

lemma word_of_bytes_of_word:
  "LENGTH('a) \<le> 8 * n \<Longrightarrow> word_of_bytes (bytes_of_word n w) = (w :: 'a::len word)"
  by (simp add: word_of_bytes_of_word_take take_bit_word_eq_self)

end
