(* ===== verification/Vmi_Types.thy ===== *)
theory Vmi_Types
  imports Vmi_Prelude
begin

text \<open>
  The data types of \<^verbatim>\<open>libvmi.h\<close> that several components share: page modes and
  page sizes, the access context that selects how an address is translated, and the page
  information record that a page-table walk fills in.  \<^verbatim>\<open>page_mode_t\<close> and
  \<^verbatim>\<open>translation_mechanism_t\<close> are \<^verbatim>\<open>uint32_t\<close> in the source, so every
  32-bit value is a value of the model too and the \<^verbatim>\<open>default\<close> branches are
  reachable.
\<close>

type_synonym page_mode_t = u32
type_synonym page_size_t = u64
type_synonym translation_mechanism_t = u32

abbreviation (input) VMI_PM_NONE :: page_mode_t where "VMI_PM_NONE \<equiv> 0"
abbreviation (input) VMI_PM_UNKNOWN :: page_mode_t where "VMI_PM_UNKNOWN \<equiv> 1"
abbreviation (input) VMI_PM_LEGACY :: page_mode_t where "VMI_PM_LEGACY \<equiv> 2"
abbreviation (input) VMI_PM_PAE :: page_mode_t where "VMI_PM_PAE \<equiv> 3"
abbreviation (input) VMI_PM_IA32E :: page_mode_t where "VMI_PM_IA32E \<equiv> 4"
abbreviation (input) VMI_PM_AARCH32 :: page_mode_t where "VMI_PM_AARCH32 \<equiv> 5"
abbreviation (input) VMI_PM_AARCH64 :: page_mode_t where "VMI_PM_AARCH64 \<equiv> 6"
abbreviation (input) VMI_PM_EPT_4L :: page_mode_t where "VMI_PM_EPT_4L \<equiv> 7"
abbreviation (input) VMI_PM_EPT_5L :: page_mode_t where "VMI_PM_EPT_5L \<equiv> 8"

abbreviation (input) VMI_PS_4KB :: page_size_t where "VMI_PS_4KB \<equiv> 0x1000"
abbreviation (input) VMI_PS_1KB :: page_size_t where "VMI_PS_1KB \<equiv> 0x400"
abbreviation (input) VMI_PS_16KB :: page_size_t where "VMI_PS_16KB \<equiv> 0x4000"
abbreviation (input) VMI_PS_64KB :: page_size_t where "VMI_PS_64KB \<equiv> 0x10000"
abbreviation (input) VMI_PS_1MB :: page_size_t where "VMI_PS_1MB \<equiv> 0x100000"
abbreviation (input) VMI_PS_16MB :: page_size_t where "VMI_PS_16MB \<equiv> 0x1000000"
abbreviation (input) VMI_PS_512MB :: page_size_t where "VMI_PS_512MB \<equiv> 0x20000000"
abbreviation (input) VMI_PS_2MB :: page_size_t where "VMI_PS_2MB \<equiv> 0x200000"
abbreviation (input) VMI_PS_4MB :: page_size_t where "VMI_PS_4MB \<equiv> 0x400000"
abbreviation (input) VMI_PS_1GB :: page_size_t where "VMI_PS_1GB \<equiv> 0x40000000"

abbreviation (input) VMI_TM_NONE :: translation_mechanism_t where "VMI_TM_NONE \<equiv> 0"
abbreviation (input) VMI_TM_PROCESS_DTB :: translation_mechanism_t where "VMI_TM_PROCESS_DTB \<equiv> 1"
abbreviation (input) VMI_TM_PROCESS_PID :: translation_mechanism_t where "VMI_TM_PROCESS_PID \<equiv> 2"
abbreviation (input) VMI_TM_KERNEL_SYMBOL :: translation_mechanism_t where "VMI_TM_KERNEL_SYMBOL \<equiv> 3"

definition valid_npm :: "page_mode_t \<Rightarrow> bool" where
  "valid_npm npm \<longleftrightarrow> npm = VMI_PM_EPT_4L"

definition valid_pm :: "page_mode_t \<Rightarrow> bool" where
  "valid_pm pm \<longleftrightarrow> pm \<ge> VMI_PM_LEGACY \<and> pm < VMI_PM_EPT_5L"

text \<open>
  The access context.  The fields \<^verbatim>\<open>pt\<close>, \<^verbatim>\<open>dtb\<close> and \<^verbatim>\<open>pid\<close>
  of the C structure are members of one union: the model keeps the 64-bit cell
  \<open>ac_pt\<close> and reads the process id off its low half.
\<close>

record access_context =
  ac_tm :: translation_mechanism_t
  ac_addr :: addr_t
  ac_pt :: addr_t
  ac_pm :: page_mode_t
  ac_npt :: addr_t
  ac_npm :: page_mode_t
  ac_ksym :: string

definition ac_pid :: "access_context \<Rightarrow> vmi_pid_t" where
  "ac_pid ctx = ucast (ac_pt ctx)"

text \<open>\<^verbatim>\<open>ACCESS_CONTEXT(ctx, ...)\<close>: every field that is not named is zero.\<close>

definition ACCESS_CONTEXT :: access_context where
  "ACCESS_CONTEXT = \<lparr> ac_tm = VMI_TM_NONE, ac_addr = 0, ac_pt = 0, ac_pm = VMI_PM_NONE,
     ac_npt = 0, ac_npm = VMI_PM_NONE, ac_ksym = [] \<rparr>"

text \<open>
  The result of a walk.  The x86 structures of the C union lay their fields out at the same
  offsets (\<^verbatim>\<open>pdpe\<close> of PAE is \<^verbatim>\<open>pdpte\<close> of IA-32e), so one set of
  fields stands for all of them.  The two ARM structures share storage with them as well; no
  function reads a field of one view after writing another, so they have fields of their own.
\<close>

record page_info =
  pi_vaddr :: addr_t
  pi_paddr :: addr_t
  pi_naddr :: addr_t
  pi_size :: page_size_t
  pi_pt :: addr_t
  pi_pm :: page_mode_t
  pi_npt :: addr_t
  pi_npm :: page_mode_t
  pi_pte_location :: addr_t
  pi_pte_value :: u64
  pi_pgd_location :: addr_t
  pi_pgd_value :: u64
  pi_pdpte_location :: addr_t
  pi_pdpte_value :: u64
  pi_pml4e_location :: addr_t
  pi_pml4e_value :: u64
  pi_a32_fld_location :: u32
  pi_a32_fld_value :: u32
  pi_a32_sld_location :: u32
  pi_a32_sld_value :: u32
  pi_zld_location :: u64
  pi_zld_value :: u64
  pi_fld_location :: u64
  pi_fld_value :: u64
  pi_sld_location :: u64
  pi_sld_value :: u64
  pi_tld_location :: u64
  pi_tld_value :: u64

definition page_info_zero :: page_info where
  "page_info_zero = \<lparr> pi_vaddr = 0, pi_paddr = 0, pi_naddr = 0, pi_size = 0, pi_pt = 0,
     pi_pm = 0, pi_npt = 0, pi_npm = 0, pi_pte_location = 0, pi_pte_value = 0,
     pi_pgd_location = 0, pi_pgd_value = 0, pi_pdpte_location = 0, pi_pdpte_value = 0,
     pi_pml4e_location = 0, pi_pml4e_value = 0,
     pi_a32_fld_location = 0, pi_a32_fld_value = 0, pi_a32_sld_location = 0, pi_a32_sld_value = 0,
     pi_zld_location = 0, pi_zld_value = 0, pi_fld_location = 0, pi_fld_value = 0,
     pi_sld_location = 0, pi_sld_value = 0, pi_tld_location = 0, pi_tld_value = 0 \<rparr>"

definition canonical_addr :: "addr_t \<Rightarrow> addr_t" where
  "canonical_addr va = (if VMI_GET_BIT va 47 then va OR 0xffff000000000000 else va)"

lemma valid_npm_simps [simp]: "valid_npm VMI_PM_NONE = False" "valid_npm VMI_PM_EPT_4L"
  by (simp_all add: valid_npm_def)

lemma valid_pm_simps [simp]:
  "valid_pm VMI_PM_NONE = False" "valid_pm VMI_PM_UNKNOWN = False" "valid_pm VMI_PM_LEGACY"
  "valid_pm VMI_PM_PAE" "valid_pm VMI_PM_IA32E" "valid_pm VMI_PM_EPT_4L"
  by (simp_all add: valid_pm_def word_le_nat_alt)

lemma bit_high_mask: "bit (0xffff000000000000 :: int) n \<longleftrightarrow> 48 \<le> n \<and> n < 64"
proof -
  have eq: "(0xffff000000000000 :: int) = push_bit 48 (mask 16)"
    by (simp add: mask_eq_exp_minus_1)
  show ?thesis unfolding eq by (auto simp: bit_push_bit_iff bit_mask_iff)
qed

lemma canonical_addr_low: "canonical_addr va AND VMI_BIT_MASK 0 47 = va AND VMI_BIT_MASK 0 47"
  by (rule bit_word_eqI)
    (auto simp: canonical_addr_def vmi_bits bit_or_iff bit_and_iff bit_high_mask)

lemma canonical_addr_idem: "canonical_addr (canonical_addr va) = canonical_addr va"
  by (rule bit_word_eqI) (auto simp: canonical_addr_def vmi_bits bit_simps bit_high_mask)

end
