(* ===== verification/Addr_Cache.thy ===== *)
theory Addr_Cache
  imports Vmi_Types
begin

text \<open>
  The four address caches of \<^verbatim>\<open>cache.c\<close>: process id to page-table base, symbol to
  virtual address, address to symbol, and virtual to physical address.  A
  \<^verbatim>\<open>GHashTable\<close> is a finite mapping.  The library is built with
  \<^verbatim>\<open>ENABLE_ADDRESS_CACHE\<close> and \<^verbatim>\<open>ENABLE_SAFETY_CHECKS\<close>, the
  defaults of its build files.  \<^verbatim>\<open>g_malloc\<close> and \<^verbatim>\<open>g_strdup\<close> abort
  instead of returning \<^verbatim>\<open>NULL\<close>, so the \<^verbatim>\<open>cleanup\<close> labels are
  unreachable and have no counterpart.

  The locale \<open>sound_cache\<close> states what a client may rely on: a lookup only answers with
  what some store put there.  Its lemmas carry coherence with a reference function through
  every operation and show that looking a value up through the cache computes the reference;
  each cache interprets it.
\<close>

section \<open>The contract of a cache\<close>

locale sound_cache =
  fixes get :: "'c \<Rightarrow> 'k \<Rightarrow> 'v option"
    and put :: "'k \<Rightarrow> 'v \<Rightarrow> 'c \<Rightarrow> 'c"
    and del :: "'k \<Rightarrow> 'c \<Rightarrow> 'c"
    and empty :: 'c
    and covers :: "'k \<Rightarrow> 'v \<Rightarrow> 'k \<Rightarrow> 'v \<Rightarrow> bool"
  assumes get_empty: "get empty k = None"
    and get_put: "get (put k v c) k' = Some v' \<Longrightarrow> get c k' = Some v' \<or> covers k v k' v'"
    and get_del: "get (del k c) k' = Some v' \<Longrightarrow> get c k' = Some v'"
begin

definition coherent :: "('k \<Rightarrow> 'v option) \<Rightarrow> 'c \<Rightarrow> bool" where
  "coherent ref c \<longleftrightarrow> (\<forall>k v. get c k = Some v \<longrightarrow> ref k = Some v)"

definition faithful :: "('k \<Rightarrow> 'v option) \<Rightarrow> 'k \<Rightarrow> 'v \<Rightarrow> bool" where
  "faithful ref k v \<longleftrightarrow> (\<forall>k' v'. covers k v k' v' \<longrightarrow> ref k' = Some v')"

definition through :: "('k \<Rightarrow> 'v option) \<Rightarrow> 'k \<Rightarrow> 'c \<Rightarrow> 'v option \<times> 'c" where
  "through ref k c = (case get c k of
      Some v \<Rightarrow> (Some v, c)
    | None \<Rightarrow> (case ref k of Some v \<Rightarrow> (Some v, put k v c) | None \<Rightarrow> (None, c)))"

lemma coherentD: "coherent ref c \<Longrightarrow> get c k = Some v \<Longrightarrow> ref k = Some v"
  by (simp add: coherent_def)

lemma coherent_empty: "coherent ref empty"
  by (simp add: coherent_def get_empty)

lemma coherent_put: "coherent ref c \<Longrightarrow> faithful ref k v \<Longrightarrow> coherent ref (put k v c)"
  unfolding coherent_def faithful_def using get_put by blast

lemma coherent_del: "coherent ref c \<Longrightarrow> coherent ref (del k c)"
  unfolding coherent_def using get_del by blast

lemma coherent_dels: "coherent ref c \<Longrightarrow> coherent ref (fold del ks c)"
  by (induction ks arbitrary: c) (auto intro: coherent_del)

lemma through_result: "coherent ref c \<Longrightarrow> fst (through ref k c) = ref k"
  by (cases "get c k") (auto simp: through_def dest: coherentD split: option.splits)

lemma through_coherent:
  assumes "coherent ref c" and "\<And>v. ref k = Some v \<Longrightarrow> faithful ref k v"
  shows "coherent ref (snd (through ref k c))"
  using assms by (auto simp: through_def intro: coherent_put split: option.splits)

end

section \<open>State\<close>

record key_128 =
  key_low :: u64
  key_high :: u64

definition key_128_init :: "u64 \<Rightarrow> u64 \<Rightarrow> key_128" where
  "key_128_init low high = \<lparr> key_low = low, key_high = high \<rparr>"

lemma key_128_init_eq [simp]: "key_128_init a b = key_128_init c d \<longleftrightarrow> a = c \<and> b = d"
  by (simp add: key_128_init_def)

definition key_128_equals :: "key_128 \<Rightarrow> key_128 \<Rightarrow> bool" where
  "key_128_equals k1 k2 \<longleftrightarrow> key_low k1 = key_low k2 \<and> key_high k1 = key_high k2"

text \<open>The key comparison handed to GLib is equality of keys, so a table keyed by
  \<^typ>\<open>key_128\<close> is a mapping over that type.\<close>

lemma key_128_equals_iff: "key_128_equals k1 k2 \<longleftrightarrow> k1 = k2"
  by (auto simp: key_128_equals_def)

record sym_cache_entry =
  sce_sym :: string
  sce_va :: addr_t
  sce_base_addr :: addr_t
  sce_pid :: vmi_pid_t

record addr_caches =
  pid_cache :: "(vmi_pid_t, addr_t) mapping"
  sym_cache :: "(key_128, (string, sym_cache_entry) mapping) mapping"
  rva_cache :: "(key_128, (addr_t, sym_cache_entry) mapping) mapping"
  v2p_cache :: "(key_128, (addr_t, addr_t) mapping) mapping"

definition addr_caches_init :: addr_caches where
  "addr_caches_init = \<lparr> pid_cache = Mapping.empty, sym_cache = Mapping.empty,
     rva_cache = Mapping.empty, v2p_cache = Mapping.empty \<rparr>"

definition sym_cache_entry_create ::
  "string \<Rightarrow> addr_t \<Rightarrow> addr_t \<Rightarrow> vmi_pid_t \<Rightarrow> sym_cache_entry" where
  "sym_cache_entry_create symb va base_addr pid =
     \<lparr> sce_sym = symb, sce_va = va, sce_base_addr = base_addr, sce_pid = pid \<rparr>"

text \<open>The second-level table of a key, empty when the key has none.\<close>

definition inner :: "('a, ('b, 'v) mapping) mapping \<Rightarrow> 'a \<Rightarrow> ('b, 'v) mapping" where
  "inner t k = (case Mapping.lookup t k of None \<Rightarrow> Mapping.empty | Some m \<Rightarrow> m)"

lemma inner_update [simp]:
  "inner (Mapping.update k m t) k' = (if k = k' then m else inner t k')"
  by (simp add: inner_def lookup_update')

lemma inner_delete [simp]:
  "inner (Mapping.delete k t) k' = (if k = k' then Mapping.empty else inner t k')"
  by (cases "k = k'") (simp_all add: inner_def)

lemma inner_empty [simp]: "inner Mapping.empty k = Mapping.empty"
  by (simp add: inner_def)

lemma lookup_delete_iff:
  "Mapping.lookup (Mapping.delete k m) k' = (if k = k' then None else Mapping.lookup m k')"
  by (cases "k = k'") simp_all

section \<open>Process id to page-table base\<close>

definition pid_cache_get :: "addr_caches \<Rightarrow> vmi_pid_t \<Rightarrow> addr_t option" where
  "pid_cache_get c pid = (case Mapping.lookup (pid_cache c) pid of
      None \<Rightarrow> None
    | Some dtb \<Rightarrow> if dtb \<noteq> 0 then Some dtb else None)"

definition pid_cache_set :: "vmi_pid_t \<Rightarrow> addr_t \<Rightarrow> addr_caches \<Rightarrow> addr_caches" where
  "pid_cache_set pid dtb c = c\<lparr> pid_cache := Mapping.update pid dtb (pid_cache c) \<rparr>"

definition pid_cache_del :: "vmi_pid_t \<Rightarrow> addr_caches \<Rightarrow> status \<times> addr_caches" where
  "pid_cache_del pid c =
     (case Mapping.lookup (pid_cache c) pid of
        None \<Rightarrow> (VMI_FAILURE, c)
      | Some _ \<Rightarrow> (VMI_SUCCESS, c\<lparr> pid_cache := Mapping.delete pid (pid_cache c) \<rparr>))"

definition pid_cache_flush :: "addr_caches \<Rightarrow> addr_caches" where
  "pid_cache_flush c = c\<lparr> pid_cache := Mapping.empty \<rparr>"

section \<open>Symbol to virtual address\<close>

definition sym_key :: "addr_t \<Rightarrow> vmi_pid_t \<Rightarrow> key_128" where
  "sym_key base_addr pid = key_128_init base_addr (scast pid)"

definition sym_cache_get :: "addr_caches \<Rightarrow> addr_t \<Rightarrow> vmi_pid_t \<Rightarrow> string \<Rightarrow> addr_t option" where
  "sym_cache_get c base_addr pid symb =
     (case Mapping.lookup (sym_cache c) (sym_key base_addr pid) of
        None \<Rightarrow> None
      | Some symbol_table \<Rightarrow>
          (case Mapping.lookup symbol_table symb of
             None \<Rightarrow> None
           | Some entry \<Rightarrow> Some (sce_va entry)))"

text \<open>\<^verbatim>\<open>sym_cache_set\<close> stores under \<^verbatim>\<open>g_strndup(sym, 100)\<close>, the first
  100 bytes of the symbol, while lookups use the symbol as given.\<close>

definition sym_cache_set ::
  "addr_t \<Rightarrow> vmi_pid_t \<Rightarrow> string \<Rightarrow> addr_t \<Rightarrow> addr_caches \<Rightarrow> addr_caches" where
  "sym_cache_set base_addr pid symb va c =
     (let key = sym_key base_addr pid;
          symbol_table = (case Mapping.lookup (sym_cache c) key of
                            None \<Rightarrow> Mapping.empty | Some t \<Rightarrow> t);
          entry = sym_cache_entry_create symb va base_addr pid;
          sym_dup = take 100 symb
      in c\<lparr> sym_cache := Mapping.update key (Mapping.update sym_dup entry symbol_table)
                            (sym_cache c) \<rparr>)"

definition sym_cache_del ::
  "addr_t \<Rightarrow> vmi_pid_t \<Rightarrow> string \<Rightarrow> addr_caches \<Rightarrow> status \<times> addr_caches" where
  "sym_cache_del base_addr pid symb c =
     (let key = sym_key base_addr pid in
      case Mapping.lookup (sym_cache c) key of
        None \<Rightarrow> (VMI_FAILURE, c)
      | Some symbol_table \<Rightarrow>
          (case Mapping.lookup symbol_table symb of
             None \<Rightarrow> (VMI_FAILURE, c)
           | Some _ \<Rightarrow>
               (let symbol_table' = Mapping.delete symb symbol_table in
                (VMI_SUCCESS,
                 if Mapping.is_empty symbol_table'
                 then c\<lparr> sym_cache := Mapping.delete key (sym_cache c) \<rparr>
                 else c\<lparr> sym_cache := Mapping.update key symbol_table' (sym_cache c) \<rparr>))))"

definition sym_cache_flush :: "addr_caches \<Rightarrow> addr_caches" where
  "sym_cache_flush c = c\<lparr> sym_cache := Mapping.empty \<rparr>"

section \<open>Address to symbol\<close>

definition rva_cache_get :: "addr_caches \<Rightarrow> addr_t \<Rightarrow> addr_t \<Rightarrow> addr_t \<Rightarrow> string option" where
  "rva_cache_get c base_addr dtb rva =
     (case Mapping.lookup (rva_cache c) (key_128_init base_addr dtb) of
        None \<Rightarrow> None
      | Some rva_table \<Rightarrow>
          (case Mapping.lookup rva_table rva of
             None \<Rightarrow> None
           | Some entry \<Rightarrow> Some (sce_sym entry)))"

definition rva_cache_set ::
  "addr_t \<Rightarrow> addr_t \<Rightarrow> addr_t \<Rightarrow> string \<Rightarrow> addr_caches \<Rightarrow> addr_caches" where
  "rva_cache_set base_addr dtb rva symb c =
     (let key = key_128_init base_addr dtb;
          entry = sym_cache_entry_create symb rva base_addr (ucast dtb);
          rva_table = (case Mapping.lookup (rva_cache c) key of
                         None \<Rightarrow> Mapping.empty | Some t \<Rightarrow> t)
      in c\<lparr> rva_cache := Mapping.update key (Mapping.update rva entry rva_table) (rva_cache c) \<rparr>)"

definition rva_cache_del ::
  "addr_t \<Rightarrow> addr_t \<Rightarrow> addr_t \<Rightarrow> addr_caches \<Rightarrow> status \<times> addr_caches" where
  "rva_cache_del base_addr dtb rva c =
     (let key = key_128_init base_addr dtb in
      case Mapping.lookup (rva_cache c) key of
        None \<Rightarrow> (VMI_FAILURE, c)
      | Some rva_table \<Rightarrow>
          (case Mapping.lookup rva_table rva of
             None \<Rightarrow> (VMI_FAILURE, c)
           | Some _ \<Rightarrow>
               (let rva_table' = Mapping.delete rva rva_table in
                (VMI_SUCCESS,
                 if Mapping.is_empty rva_table'
                 then c\<lparr> rva_cache := Mapping.delete key (rva_cache c) \<rparr>
                 else c\<lparr> rva_cache := Mapping.update key rva_table' (rva_cache c) \<rparr>))))"

definition rva_cache_flush :: "addr_caches \<Rightarrow> addr_caches" where
  "rva_cache_flush c = c\<lparr> rva_cache := Mapping.empty \<rparr>"

section \<open>Virtual to physical address\<close>

definition v2p_cache_get :: "addr_caches \<Rightarrow> addr_t \<Rightarrow> addr_t \<Rightarrow> addr_t \<Rightarrow> addr_t option" where
  "v2p_cache_get c va pt npt =
     (case Mapping.lookup (v2p_cache c) (key_128_init pt npt) of
        None \<Rightarrow> None
      | Some v \<Rightarrow>
          (let offset = VMI_BIT_MASK 0 11 AND va; va' = clear_low 12 va in
           case Mapping.lookup v va' of
             None \<Rightarrow> None
           | Some pa \<Rightarrow> if pa = 0 then None else Some (pa OR offset)))"

definition v2p_cache_set ::
  "addr_t \<Rightarrow> addr_t \<Rightarrow> addr_t \<Rightarrow> addr_t \<Rightarrow> addr_caches \<Rightarrow> addr_caches" where
  "v2p_cache_set va pt npt pa c =
     (if va = 0 \<or> pt = 0 \<or> pa = 0 then c
      else
        let key = key_128_init pt npt;
            v = (case Mapping.lookup (v2p_cache c) key of None \<Rightarrow> Mapping.empty | Some t \<Rightarrow> t);
            va' = clear_low 12 va;
            pa' = clear_low 12 pa
        in c\<lparr> v2p_cache := Mapping.update key (Mapping.update va' pa' v) (v2p_cache c) \<rparr>)"

text \<open>\<^verbatim>\<open>v2p_cache_del\<close> and \<^verbatim>\<open>v2p_cache_flush\<close> build the key with
  \<^verbatim>\<open>npt\<close> and \<^verbatim>\<open>pt\<close> in the opposite order from the two functions above;
  the model keeps that.\<close>

definition v2p_cache_del ::
  "addr_t \<Rightarrow> addr_t \<Rightarrow> addr_t \<Rightarrow> addr_caches \<Rightarrow> status \<times> addr_caches" where
  "v2p_cache_del va pt npt c =
     (let key = key_128_init npt pt in
      case Mapping.lookup (v2p_cache c) key of
        None \<Rightarrow> (VMI_SUCCESS, c)
      | Some v \<Rightarrow>
          (let v' = Mapping.delete (clear_low 12 va) v in
           (VMI_SUCCESS,
            if Mapping.is_empty v'
            then c\<lparr> v2p_cache := Mapping.delete key (v2p_cache c) \<rparr>
            else c\<lparr> v2p_cache := Mapping.update key v' (v2p_cache c) \<rparr>)))"

definition v2p_cache_flush :: "addr_t \<Rightarrow> addr_t \<Rightarrow> addr_caches \<Rightarrow> addr_caches" where
  "v2p_cache_flush pt npt c =
     (if pt = - 1 then c\<lparr> v2p_cache := Mapping.empty \<rparr>
      else c\<lparr> v2p_cache := Mapping.delete (key_128_init npt pt) (v2p_cache c) \<rparr>)"

section \<open>The caches as flat tables\<close>

text \<open>Each getter, read through the second-level tables.\<close>

lemma sym_cache_get_inner:
  "sym_cache_get c b p symb = map_option sce_va (Mapping.lookup (inner (sym_cache c) (sym_key b p)) symb)"
  by (auto simp: sym_cache_get_def inner_def split: option.splits)

lemma rva_cache_get_inner:
  "rva_cache_get c b d rva =
     map_option sce_sym (Mapping.lookup (inner (rva_cache c) (key_128_init b d)) rva)"
  by (auto simp: rva_cache_get_def inner_def split: option.splits)

lemma v2p_cache_get_inner:
  "v2p_cache_get c va pt npt =
     (case Mapping.lookup (inner (v2p_cache c) (key_128_init pt npt)) (clear_low 12 va) of
        None \<Rightarrow> None
      | Some pa \<Rightarrow> if pa = 0 then None else Some (pa OR (VMI_BIT_MASK 0 11 AND va)))"
  by (auto simp: v2p_cache_get_def inner_def Let_def split: option.splits)

text \<open>Each update, as an update of one second-level table.\<close>

lemma sym_cache_set_inner:
  "sym_cache_set b p symb va c = c\<lparr> sym_cache := Mapping.update (sym_key b p)
     (Mapping.update (take 100 symb) (sym_cache_entry_create symb va b p)
        (inner (sym_cache c) (sym_key b p))) (sym_cache c) \<rparr>"
  by (simp add: sym_cache_set_def inner_def Let_def)

lemma rva_cache_set_inner:
  "rva_cache_set b d rva symb c = c\<lparr> rva_cache := Mapping.update (key_128_init b d)
     (Mapping.update rva (sym_cache_entry_create symb rva b (ucast d))
        (inner (rva_cache c) (key_128_init b d))) (rva_cache c) \<rparr>"
  by (simp add: rva_cache_set_def inner_def Let_def)

lemma is_empty_lookup: "Mapping.is_empty m \<Longrightarrow> Mapping.lookup m k = None"
  by (simp add: Mapping.is_empty_def keys_dom_lookup domIff)

lemma inner_remove:
  assumes "Mapping.lookup t k = Some m"
  shows "Mapping.lookup (inner (if Mapping.is_empty (Mapping.delete x m) then Mapping.delete k t
             else Mapping.update k (Mapping.delete x m) t) k') y =
    (if k' = k \<and> y = x then None else Mapping.lookup (inner t k') y)"
proof -
  have "Mapping.lookup (inner (Mapping.update k (Mapping.delete x m) t) k') y =
    (if k' = k \<and> y = x then None else Mapping.lookup (inner t k') y)"
    using assms by (auto simp: lookup_delete_iff inner_def lookup_update')
  moreover have "Mapping.lookup (inner (Mapping.delete k t) k') y =
     Mapping.lookup (inner (Mapping.update k (Mapping.delete x m) t) k') y"
    if "Mapping.is_empty (Mapping.delete x m)"
    using is_empty_lookup [OF that, of y] by auto
  ultimately show ?thesis by simp
qed

lemma sym_cache_del_get:
  "sym_cache_get (snd (sym_cache_del b p symb c)) b' p' symb' =
     (if sym_key b' p' = sym_key b p \<and> symb' = symb then None else sym_cache_get c b' p' symb')"
proof (cases "Mapping.lookup (inner (sym_cache c) (sym_key b p)) symb")
  case None
  then show ?thesis
    by (auto simp: sym_cache_del_def sym_cache_get_inner inner_def Let_def split: option.splits)
next
  case (Some e)
  then obtain m where m: "Mapping.lookup (sym_cache c) (sym_key b p) = Some m"
      "Mapping.lookup m symb = Some e"
    by (auto simp: inner_def split: option.splits)
  let ?t = "if Mapping.is_empty (Mapping.delete symb m)
       then Mapping.delete (sym_key b p) (sym_cache c)
       else Mapping.update (sym_key b p) (Mapping.delete symb m) (sym_cache c)"
  have "snd (sym_cache_del b p symb c) = c\<lparr>sym_cache := ?t\<rparr>"
    using m by (simp add: sym_cache_del_def Let_def)
  then show ?thesis
    using inner_remove [OF m(1), of symb "sym_key b' p'" symb']
    by (simp add: sym_cache_get_inner)
qed

lemma rva_cache_del_get:
  "rva_cache_get (snd (rva_cache_del b d rva c)) b' d' rva' =
     (if b' = b \<and> d' = d \<and> rva' = rva then None else rva_cache_get c b' d' rva')"
proof (cases "Mapping.lookup (inner (rva_cache c) (key_128_init b d)) rva")
  case None
  then show ?thesis
    by (auto simp: rva_cache_del_def rva_cache_get_inner inner_def Let_def split: option.splits)
next
  case (Some e)
  then obtain m where m: "Mapping.lookup (rva_cache c) (key_128_init b d) = Some m"
      "Mapping.lookup m rva = Some e"
    by (auto simp: inner_def split: option.splits)
  let ?t = "if Mapping.is_empty (Mapping.delete rva m)
       then Mapping.delete (key_128_init b d) (rva_cache c)
       else Mapping.update (key_128_init b d) (Mapping.delete rva m) (rva_cache c)"
  have "snd (rva_cache_del b d rva c) = c\<lparr>rva_cache := ?t\<rparr>"
    using m by (simp add: rva_cache_del_def Let_def)
  then show ?thesis
    using inner_remove [OF m(1), of rva "key_128_init b' d'" rva']
    by (simp add: rva_cache_get_inner)
qed

lemma v2p_cache_del_get:
  "v2p_cache_get (snd (v2p_cache_del va pt npt c)) va' pt' npt' =
     (if pt' = npt \<and> npt' = pt \<and> clear_low 12 va' = clear_low 12 va then None
      else v2p_cache_get c va' pt' npt')"
proof (cases "Mapping.lookup (v2p_cache c) (key_128_init npt pt)")
  case None
  then show ?thesis
    by (auto simp: v2p_cache_del_def v2p_cache_get_inner inner_def Let_def)
next
  case (Some m)
  let ?t = "if Mapping.is_empty (Mapping.delete (clear_low 12 va) m)
       then Mapping.delete (key_128_init npt pt) (v2p_cache c)
       else Mapping.update (key_128_init npt pt) (Mapping.delete (clear_low 12 va) m) (v2p_cache c)"
  have "snd (v2p_cache_del va pt npt c) = c\<lparr>v2p_cache := ?t\<rparr>"
    using Some by (simp add: v2p_cache_del_def Let_def)
  then show ?thesis
    using inner_remove [OF Some, of "clear_low 12 va" "key_128_init pt' npt'" "clear_low 12 va'"]
    by (simp add: v2p_cache_get_inner)
qed

lemma v2p_cache_flush_get:
  "v2p_cache_get (v2p_cache_flush pt npt c) va' pt' npt' =
     (if pt = - 1 \<or> (pt' = npt \<and> npt' = pt) then None else v2p_cache_get c va' pt' npt')"
  by (simp add: v2p_cache_flush_def v2p_cache_get_inner)

lemma v2p_cache_set_get:
  assumes "va \<noteq> 0" and "pt \<noteq> 0" and "pa \<noteq> 0"
  shows "v2p_cache_get (v2p_cache_set va pt npt pa c) va' pt' npt' =
     (if pt' = pt \<and> npt' = npt \<and> clear_low 12 va' = clear_low 12 va
      then if clear_low 12 pa = 0 then None
           else Some (clear_low 12 pa OR (VMI_BIT_MASK 0 11 AND va'))
      else v2p_cache_get c va' pt' npt')"
proof -
  have "v2p_cache_set va pt npt pa c = c\<lparr> v2p_cache := Mapping.update (key_128_init pt npt)
     (Mapping.update (clear_low 12 va) (clear_low 12 pa)
        (inner (v2p_cache c) (key_128_init pt npt))) (v2p_cache c) \<rparr>"
    using assms by (simp add: v2p_cache_set_def inner_def Let_def)
  then show ?thesis
    by (auto simp: v2p_cache_get_inner lookup_update')
qed

lemma scast_eq_iff_32: "(scast (p :: vmi_pid_t) :: u64) = scast q \<longleftrightarrow> p = q"
proof
  assume "(scast p :: u64) = scast q"
  then have "(ucast (scast p :: u64) :: vmi_pid_t) = ucast (scast q :: u64)" by simp
  moreover have "(ucast (scast r :: u64) :: vmi_pid_t) = r" for r :: vmi_pid_t
    by (rule bit_word_eqI) (auto simp: bit_simps vmi_bits)
  ultimately show "p = q" by simp
qed simp

lemma sym_key_eq [simp]: "sym_key b p = sym_key b' p' \<longleftrightarrow> b = b' \<and> p = p'"
  by (simp add: sym_key_def scast_eq_iff_32)

lemma get_addr_caches_init:
  "pid_cache_get addr_caches_init p = None" "sym_cache_get addr_caches_init b p s = None"
  "rva_cache_get addr_caches_init b d r = None" "v2p_cache_get addr_caches_init va pt npt = None"
  by (simp_all add: addr_caches_init_def pid_cache_get_def sym_cache_get_inner rva_cache_get_inner
      v2p_cache_get_inner)

section \<open>Every cache keeps the contract\<close>

interpretation pidc: sound_cache pid_cache_get pid_cache_set "\<lambda>k c. snd (pid_cache_del k c)"
  addr_caches_init "\<lambda>k v k' v'. k' = k \<and> v' = v"
  by unfold_locales
    (auto simp: pid_cache_get_def pid_cache_set_def pid_cache_del_def addr_caches_init_def
        lookup_update' lookup_delete_iff split: option.splits if_splits)

interpretation symc: sound_cache "\<lambda>c (b, p, s). sym_cache_get c b p s"
  "\<lambda>(b, p, s) va. sym_cache_set b p s va" "\<lambda>(b, p, s) c. snd (sym_cache_del b p s c)"
  addr_caches_init
  "\<lambda>(b, p, s) v (b', p', s') v'. b' = b \<and> p' = p \<and> s' = take 100 s \<and> v' = v"
proof unfold_locales
  fix k k' :: "addr_t \<times> vmi_pid_t \<times> string" and v v' c
  assume "(case k' of (b, p, s) \<Rightarrow>
      sym_cache_get ((case k of (b, p, s) \<Rightarrow> sym_cache_set b p s) v c) b p s) = Some v'"
  then show "(case k' of (b, p, s) \<Rightarrow> sym_cache_get c b p s) = Some v' \<or>
     (case k of (b, p, s) \<Rightarrow> \<lambda>v (b', p', s') v'. b' = b \<and> p' = p \<and> s' = take 100 s \<and> v' = v)
       v k' v'"
    by (auto simp: sym_cache_get_inner sym_cache_set_inner lookup_update'
        sym_cache_entry_create_def split: prod.splits if_splits)
qed (auto simp: sym_cache_del_get get_addr_caches_init split: if_splits)

interpretation rvac: sound_cache "\<lambda>c (b, d, rva). rva_cache_get c b d rva"
  "\<lambda>(b, d, rva) s. rva_cache_set b d rva s" "\<lambda>(b, d, rva) c. snd (rva_cache_del b d rva c)"
  addr_caches_init "\<lambda>k v k' v'. k' = k \<and> v' = v"
proof unfold_locales
  fix k k' :: "addr_t \<times> addr_t \<times> addr_t" and v v' c
  assume "(case k' of (b, d, rva) \<Rightarrow>
      rva_cache_get ((case k of (b, d, rva) \<Rightarrow> rva_cache_set b d rva) v c) b d rva) = Some v'"
  then show "(case k' of (b, d, rva) \<Rightarrow> rva_cache_get c b d rva) = Some v' \<or> (k' = k \<and> v' = v)"
    by (auto simp: rva_cache_get_inner rva_cache_set_inner lookup_update'
        sym_cache_entry_create_def split: prod.splits if_splits)
qed (auto simp: rva_cache_del_get get_addr_caches_init split: if_splits)

text \<open>The delete of the virtual-to-physical cache is written with the argument order its caller
  in \<^verbatim>\<open>accessors.c\<close> uses.\<close>

definition v2p_covers :: "addr_t \<times> addr_t \<times> addr_t \<Rightarrow> addr_t \<Rightarrow> addr_t \<times> addr_t \<times> addr_t \<Rightarrow> addr_t \<Rightarrow> bool"
  where "v2p_covers k pa k' pa' = (case k of (va, pt, npt) \<Rightarrow> case k' of (va', pt', npt') \<Rightarrow>
     pt' = pt \<and> npt' = npt \<and> clear_low 12 va' = clear_low 12 va \<and>
     pa' = clear_low 12 pa OR (VMI_BIT_MASK 0 11 AND va'))"

interpretation v2pc: sound_cache "\<lambda>c (va, pt, npt). v2p_cache_get c va pt npt"
  "\<lambda>(va, pt, npt) pa. v2p_cache_set va pt npt pa"
  "\<lambda>(va, pt, npt) c. snd (v2p_cache_del va npt pt c)"
  addr_caches_init v2p_covers
proof unfold_locales
  fix k k' :: "addr_t \<times> addr_t \<times> addr_t" and v v' c
  assume *: "(case k' of (va, pt, npt) \<Rightarrow>
      v2p_cache_get ((case k of (va, pt, npt) \<Rightarrow> v2p_cache_set va pt npt) v c) va pt npt) = Some v'"
  obtain va pt npt va' pt' npt' where k: "k = (va, pt, npt)" "k' = (va', pt', npt')"
    by (cases k, cases k')
  show "(case k' of (va, pt, npt) \<Rightarrow> v2p_cache_get c va pt npt) = Some v' \<or> v2p_covers k v k' v'"
  proof (cases "va = 0 \<or> pt = 0 \<or> v = 0")
    case True
    with * show ?thesis by (auto simp: k v2p_cache_set_def)
  next
    case False
    with * show ?thesis
      by (auto simp: k v2p_cache_set_get v2p_covers_def split: if_splits)
  qed
qed (auto simp: v2p_cache_del_get get_addr_caches_init split: if_splits)

section \<open>Sequences of cache operations\<close>

datatype v2p_op =
    V2P_Set addr_t addr_t addr_t addr_t
  | V2P_Del addr_t addr_t addr_t
  | V2P_Flush addr_t addr_t

fun v2p_step :: "v2p_op \<Rightarrow> addr_caches \<Rightarrow> addr_caches" where
  "v2p_step (V2P_Set va pt npt pa) c = v2p_cache_set va pt npt pa c"
| "v2p_step (V2P_Del va pt npt) c = snd (v2p_cache_del va pt npt c)"
| "v2p_step (V2P_Flush pt npt) c = v2p_cache_flush pt npt c"

text \<open>A translation maps whole 4 KB pages: two addresses of one page go to one frame, at their
  own offsets.\<close>

definition page_translation :: "(addr_t \<times> addr_t \<times> addr_t \<Rightarrow> addr_t option) \<Rightarrow> bool" where
  "page_translation tr \<longleftrightarrow> (\<forall>va pt npt pa va'. tr (va, pt, npt) = Some pa \<longrightarrow>
     clear_low 12 va' = clear_low 12 va \<longrightarrow>
     tr (va', pt, npt) = Some (clear_low 12 pa OR (VMI_BIT_MASK 0 11 AND va')))"

fun v2p_op_ok :: "(addr_t \<times> addr_t \<times> addr_t \<Rightarrow> addr_t option) \<Rightarrow> v2p_op \<Rightarrow> bool" where
  "v2p_op_ok tr (V2P_Set va pt npt pa) \<longleftrightarrow> tr (va, pt, npt) = Some pa"
| "v2p_op_ok tr _ \<longleftrightarrow> True"

lemma faithful_page_translation:
  "page_translation tr \<Longrightarrow> tr (va, pt, npt) = Some pa \<Longrightarrow> v2pc.faithful tr (va, pt, npt) pa"
  unfolding v2pc.faithful_def v2p_covers_def page_translation_def by auto

lemma v2p_step_coherent:
  assumes "page_translation tr" and "v2p_op_ok tr op" and "v2pc.coherent tr c"
  shows "v2pc.coherent tr (v2p_step op c)"
proof (cases op)
  case (V2P_Set va pt npt pa)
  then show ?thesis
    using v2pc.coherent_put [OF assms(3), of "(va, pt, npt)" pa]
      faithful_page_translation [OF assms(1), of va pt npt pa] assms(2) by simp
next
  case (V2P_Del va pt npt)
  then show ?thesis using v2pc.coherent_del [OF assms(3), of "(va, npt, pt)"] by simp
next
  case (V2P_Flush pt npt)
  then show ?thesis
    using assms(3) by (auto simp: v2pc.coherent_def v2p_cache_flush_get split: if_splits)
qed

lemma v2p_run_coherent:
  assumes "page_translation tr" and "list_all (v2p_op_ok tr) ops" and "v2pc.coherent tr c"
  shows "v2pc.coherent tr (fold v2p_step ops c)"
  using assms(2,3)
  by (induction ops arbitrary: c) (auto intro: v2p_step_coherent [OF assms(1)])

text \<open>The identity translation at page granularity, used where a concrete one is needed.\<close>

definition id_translation :: "addr_t \<times> addr_t \<times> addr_t \<Rightarrow> addr_t option" where
  "id_translation k = (case k of (va, pt, npt) \<Rightarrow> Some va)"

lemma page_translation_id: "page_translation id_translation"
proof -
  have "v = clear_low 12 w OR (VMI_BIT_MASK 0 11 AND v)"
    if "clear_low 12 v = clear_low 12 w" for v w :: addr_t
    using clear_low_or_low [of v] that by metis
  then show ?thesis unfolding page_translation_def id_translation_def by simp
qed

section \<open>Properties\<close>

text \<open>C5. The virtual-to-physical cache is sound under every history: starting from empty tables and
  applying any sequence of stores, deletions and flushes in which every stored pair agrees with
  a page translation, a lookup that answers gives exactly what the translation gives.\<close>

theorem v2p_cache_sound:
  assumes "page_translation tr" and "list_all (v2p_op_ok tr) ops"
    and "v2p_cache_get (fold v2p_step ops addr_caches_init) va pt npt = Some pa"
  shows "tr (va, pt, npt) = Some pa"
  using v2pc.coherentD [OF v2p_run_coherent [OF assms(1,2) v2pc.coherent_empty],
      of "(va, pt, npt)" pa] assms(3) by simp

theorem v2p_cache_sound_witness:
  "v2p_cache_get (fold v2p_step [V2P_Set 0x5123 7 0 0x5123, V2P_Flush 9 7] addr_caches_init)
     0x5fff 7 0 = Some 0x5fff \<and> id_translation (0x5fff, 7, 0) = Some 0x5fff"
proof -
  let ?ops = "[V2P_Set 0x5123 7 0 0x5123, V2P_Flush 9 7]"
  have hit: "v2p_cache_get (fold v2p_step ?ops addr_caches_init) 0x5fff 7 0 = Some 0x5fff"
    by (simp add: v2p_cache_flush_get v2p_cache_set_get vmi_eval)
  have ok: "list_all (v2p_op_ok id_translation) ?ops" by (simp add: id_translation_def)
  show ?thesis using v2p_cache_sound [OF page_translation_id ok hit] hit by simp
qed

text \<open>Store and lookup: a stored translation answers for every address of the page it was
  stored for, with the frame of the physical address and the offset of the address asked for,
  and leaves every other page and every other address space as it was.\<close>

theorem v2p_cache_roundtrip:
  assumes "va \<noteq> 0" and "pt \<noteq> 0" and "clear_low 12 pa \<noteq> 0"
  shows "v2p_cache_get (v2p_cache_set va pt npt pa c) va' pt' npt' =
     (if pt' = pt \<and> npt' = npt \<and> clear_low 12 va' = clear_low 12 va
      then Some (clear_low 12 pa OR (VMI_BIT_MASK 0 11 AND va'))
      else v2p_cache_get c va' pt' npt')"
proof -
  from assms(3) have "pa \<noteq> 0" by (auto simp: clear_low_def)
  with assms show ?thesis by (simp add: v2p_cache_set_get)
qed

theorem v2p_cache_roundtrip_witness:
  "v2p_cache_get (v2p_cache_set 0x7fff12345678 0x1000 0 0xabcdef00 addr_caches_init)
     0x7fff12345abc 0x1000 0 = Some 0xabcdeabc"
  using v2p_cache_roundtrip [of "0x7fff12345678" "0x1000" "0xabcdef00" 0 addr_caches_init
      "0x7fff12345abc" "0x1000" 0]
  by (simp add: vmi_eval)

text \<open>Flushing one address space (\<^verbatim>\<open>pt\<close>, \<^verbatim>\<open>npt\<close>) removes nothing of that
  address space unless the two bases are equal or the wildcard is given: the key is built with
  the bases swapped, so every cached translation of the space survives.  What is dropped is the
  mirrored space.\<close>

theorem v2p_cache_flush_misses:
  assumes "pt \<noteq> - 1" and "pt \<noteq> npt"
  shows "v2p_cache_get (v2p_cache_flush pt npt c) va pt npt = v2p_cache_get c va pt npt
    \<and> v2p_cache_get (v2p_cache_flush pt npt c) va npt pt = None"
  using assms by (simp add: v2p_cache_flush_get)

theorem v2p_cache_flush_misses_witness:
  "let c = v2p_cache_set 0x400000 0x1000 0 0x9000 addr_caches_init
   in v2p_cache_get (v2p_cache_flush 0x1000 0 c) 0x400000 0x1000 0 = Some 0x9000"
proof -
  let ?c = "v2p_cache_set 0x400000 0x1000 0 0x9000 addr_caches_init"
  have "v2p_cache_get ?c 0x400000 0x1000 0 = Some 0x9000"
    by (simp add: v2p_cache_set_get vmi_eval)
  then show ?thesis
    using v2p_cache_flush_misses [of "0x1000" 0 ?c "0x400000"] by simp
qed

text \<open>The symbol cache answers for the first 100 bytes of what was stored: after storing a
  symbol, looking up its 100-byte prefix returns the stored address, and a symbol longer than
  that is never found.  For symbols of at most 100 bytes this is the expected round trip; for
  longer ones a different symbol gets the address.\<close>

theorem sym_cache_truncates:
  "sym_cache_get (sym_cache_set b p symb va c) b p (take 100 symb) = Some va \<and>
   (length symb > 100 \<longrightarrow>
      sym_cache_get (sym_cache_set b p symb va c) b p symb = sym_cache_get c b p symb)"
proof -
  have "length symb > 100 \<Longrightarrow> take 100 symb \<noteq> symb"
    by (metis length_take min.absorb2 less_imp_le nat_neq_iff)
  then show ?thesis
    by (auto simp: sym_cache_get_inner sym_cache_set_inner lookup_update' sym_cache_entry_create_def)
qed

theorem sym_cache_truncates_witness:
  "sym_cache_get (sym_cache_set 0 0 (replicate 101 CHR ''a'') 0xffff addr_caches_init) 0 0
     (replicate 100 CHR ''a'') = Some 0xffff \<and>
   sym_cache_get (sym_cache_set 0 0 (replicate 101 CHR ''a'') 0xffff addr_caches_init) 0 0
     (replicate 101 CHR ''a'') = None"
  using sym_cache_truncates [of 0 0 "replicate 101 CHR ''a''" "0xffff" addr_caches_init]
  by (simp add: get_addr_caches_init)

end
