(* ===== verification/Page_Cache.thy ===== *)
theory Page_Cache
  imports Vmi_Types "HOL-Library.Multiset"
begin

text \<open>
  The page cache of \<^verbatim>\<open>driver/memory_cache.c\<close> as built with
  \<^verbatim>\<open>ENABLE_PAGE_CACHE\<close> (the default).  A cached page is an opaque handle
  \<open>'d\<close>: for the Xen driver a pointer to a foreign mapping, for the file driver a pointer
  into a buffer.  The two callbacks of the driver are the parameter \<open>getd\<close> (it returns
  \<open>None\<close> for \<^verbatim>\<open>NULL\<close>) and the field \<open>pc_calls\<close>, which records the calls
  made to the callbacks in order.  The current time is an argument.

  The locale \<open>page_provider\<close> is the interface the memory-access code relies on: asking for a
  page gives the page's content and keeps the provider's invariant.  The cache interprets it.
\<close>

section \<open>State\<close>

datatype vm_type = NORMAL | HVM | PV32 | PV64

record 'd memory_cache_entry =
  mce_paddr :: addr_t
  mce_length :: u32
  mce_last_updated :: int
  mce_last_used :: int
  mce_data :: "'d option"

datatype 'd mc_call = MC_Get addr_t u32 "'d option" | MC_Release "'d option" u32

record 'd page_cache =
  pc_table :: "(addr_t, 'd memory_cache_entry) mapping"
  pc_lru :: "addr_t list" \<comment> \<open>head of the queue first\<close>
  pc_age :: u32
  pc_size_max :: u32
  pc_calls :: "'d mc_call list" \<comment> \<open>latest call first\<close>

record mem_config =
  mc_page_size :: u32
  mc_vm_type :: vm_type
  mc_memmap :: "(addr_t \<times> addr_t) list option"
  mc_max_physical_address :: addr_t

definition MAX_PAGE_CACHE_SIZE :: u32 where "MAX_PAGE_CACHE_SIZE = 512"

section \<open>Operations\<close>

definition get_memory_data ::
  "(addr_t \<Rightarrow> u32 \<Rightarrow> 'd option) \<Rightarrow> addr_t \<Rightarrow> u32 \<Rightarrow> 'd page_cache \<Rightarrow> 'd option \<times> 'd page_cache" where
  "get_memory_data getd paddr len pc =
     (getd paddr len, pc\<lparr> pc_calls := MC_Get paddr len (getd paddr len) # pc_calls pc \<rparr>)"

definition release_data :: "'d option \<Rightarrow> u32 \<Rightarrow> 'd page_cache \<Rightarrow> 'd page_cache" where
  "release_data d len pc = pc\<lparr> pc_calls := MC_Release d len # pc_calls pc \<rparr>"

definition memory_cache_entry_free :: "'d memory_cache_entry \<Rightarrow> 'd page_cache \<Rightarrow> 'd page_cache" where
  "memory_cache_entry_free e pc = release_data (mce_data e) (mce_length e) pc"

text \<open>\<^verbatim>\<open>g_hash_table_remove\<close> on a table created with
  \<open>memory_cache_entry_free\<close> as destroy function.\<close>

definition table_remove :: "addr_t \<Rightarrow> 'd page_cache \<Rightarrow> 'd page_cache" where
  "table_remove k pc = (case Mapping.lookup (pc_table pc) k of
      None \<Rightarrow> pc
    | Some e \<Rightarrow> memory_cache_entry_free e (pc\<lparr> pc_table := Mapping.delete k (pc_table pc) \<rparr>))"

lemma table_remove_lru [simp]: "pc_lru (table_remove k pc) = pc_lru pc"
  by (simp add: table_remove_def memory_cache_entry_free_def release_data_def split: option.splits)

function clean_cache :: "'d page_cache \<Rightarrow> 'd page_cache" where
  "clean_cache pc =
     (if length (pc_lru pc) > unat (pc_size_max pc div 2)
      then clean_cache (table_remove (last (pc_lru pc)) (pc\<lparr> pc_lru := butlast (pc_lru pc) \<rparr>))
      else pc)"
  by pat_completeness auto
termination
  by (relation "measure (\<lambda>pc. length (pc_lru pc))") auto

declare clean_cache.simps [simp del]

definition move_to_head :: "addr_t \<Rightarrow> addr_t list \<Rightarrow> addr_t list" where
  "move_to_head k q = (if k \<in> set q then k # remove1 k q else q)"

definition validate_and_return_data ::
  "(addr_t \<Rightarrow> u32 \<Rightarrow> 'd option) \<Rightarrow> int \<Rightarrow> addr_t \<Rightarrow> 'd memory_cache_entry \<Rightarrow> 'd page_cache \<Rightarrow>
     'd option \<times> 'd page_cache" where
  "validate_and_return_data getd now key entry pc =
     (if pc_age pc \<noteq> 0 \<and> now - mce_last_updated entry > uint (pc_age pc) then
        let pc1 = release_data (mce_data entry) (mce_length entry) pc;
            (d, pc2) = get_memory_data getd (mce_paddr entry) (mce_length entry) pc1;
            entry' = entry\<lparr> mce_data := d, mce_last_updated := now, mce_last_used := now \<rparr>
        in (d, pc2\<lparr> pc_table := Mapping.update key entry' (pc_table pc2),
                    pc_lru := move_to_head (mce_paddr entry) (pc_lru pc2) \<rparr>)
      else
        (mce_data entry,
         pc\<lparr> pc_table := Mapping.update key (entry\<lparr> mce_last_used := now \<rparr>) (pc_table pc) \<rparr>))"

definition range_ok :: "mem_config \<Rightarrow> addr_t \<Rightarrow> u32 \<Rightarrow> bool" where
  "range_ok cfg paddr len =
     (if mc_vm_type cfg = HVM \<or> mc_vm_type cfg = NORMAL then
        (case mc_memmap cfg of
           None \<Rightarrow> \<not> paddr + ucast len > mc_max_physical_address cfg
         | Some ranges \<Rightarrow> list_ex (\<lambda>(lo, hi). paddr \<ge> lo \<and> paddr + ucast len \<le> hi) ranges)
      else True)"

definition create_new_entry ::
  "mem_config \<Rightarrow> (addr_t \<Rightarrow> u32 \<Rightarrow> 'd option) \<Rightarrow> int \<Rightarrow> addr_t \<Rightarrow> u32 \<Rightarrow> 'd page_cache \<Rightarrow>
     'd memory_cache_entry option \<times> 'd page_cache" where
  "create_new_entry cfg getd now paddr len pc =
     (if \<not> range_ok cfg paddr len then (None, pc)
      else
        let (d, pc') = get_memory_data getd paddr len pc
        in (Some \<lparr> mce_paddr = paddr, mce_length = len, mce_last_updated = now,
                    mce_last_used = now, mce_data = d \<rparr>, pc'))"

definition memory_cache_init :: "u32 \<Rightarrow> 'd page_cache" where
  "memory_cache_init age_limit = \<lparr> pc_table = Mapping.empty, pc_lru = [], pc_age = age_limit,
     pc_size_max = MAX_PAGE_CACHE_SIZE, pc_calls = [] \<rparr>"

definition page_aligned :: "mem_config \<Rightarrow> addr_t \<Rightarrow> bool" where
  "page_aligned cfg paddr \<longleftrightarrow> paddr = paddr AND NOT (ucast (mc_page_size cfg) - 1)"

definition memory_cache_insert ::
  "mem_config \<Rightarrow> (addr_t \<Rightarrow> u32 \<Rightarrow> 'd option) \<Rightarrow> int \<Rightarrow> addr_t \<Rightarrow> 'd page_cache \<Rightarrow>
     'd option \<times> 'd page_cache" where
  "memory_cache_insert cfg getd now paddr pc =
     (if \<not> page_aligned cfg paddr then (None, pc)
      else case Mapping.lookup (pc_table pc) paddr of
        Some entry \<Rightarrow> validate_and_return_data getd now paddr entry pc
      | None \<Rightarrow>
          (let pc1 = (if length (pc_lru pc) \<ge> unat (pc_size_max pc)
                      then clean_cache pc else pc);
               (e, pc2) = create_new_entry cfg getd now paddr (mc_page_size cfg) pc1
           in case e of
                None \<Rightarrow> (None, pc2)
              | Some entry \<Rightarrow>
                  (mce_data entry,
                   pc2\<lparr> pc_table := Mapping.update paddr entry (pc_table pc2),
                        pc_lru := paddr # pc_lru pc2 \<rparr>)))"

text \<open>\<^verbatim>\<open>memory_cache_remove\<close> hands the \<^emph>\<open>address of\<close> its parameter to the hash
  table, which compares keys as pointers; \<open>stack_addr\<close> is that address.\<close>

definition memory_cache_remove ::
  "mem_config \<Rightarrow> addr_t \<Rightarrow> addr_t \<Rightarrow> 'd page_cache \<Rightarrow> 'd page_cache" where
  "memory_cache_remove cfg stack_addr paddr pc =
     (if \<not> page_aligned cfg paddr then pc else table_remove stack_addr pc)"

text \<open>\<^verbatim>\<open>g_hash_table_remove_all\<close> visits the entries in an order GLib leaves open;
  \<open>order\<close> is that order.\<close>

definition memory_cache_flush :: "addr_t list \<Rightarrow> 'd page_cache \<Rightarrow> 'd page_cache" where
  "memory_cache_flush order pc =
     (fold table_remove order (pc\<lparr> pc_lru := [] \<rparr>))\<lparr> pc_table := Mapping.empty \<rparr>"

definition memory_cache_destroy :: "addr_t list \<Rightarrow> 'd page_cache \<Rightarrow> 'd page_cache" where
  "memory_cache_destroy order pc =
     (memory_cache_flush order (pc\<lparr> pc_size_max := 0 \<rparr>))\<lparr> pc_age := 0, pc_size_max := 0 \<rparr>"

section \<open>What the single steps change\<close>

named_theorems pc_defs \<open>definitions of the elementary page-cache steps\<close>

lemmas [pc_defs] = get_memory_data_def release_data_def memory_cache_entry_free_def

lemma table_remove_fields [simp]:
  "pc_age (table_remove k pc) = pc_age pc" "pc_size_max (table_remove k pc) = pc_size_max pc"
  by (simp_all add: table_remove_def pc_defs split: option.splits)

lemma table_remove_lookup:
  "Mapping.lookup (pc_table (table_remove k pc)) k' =
     (if k' = k then None else Mapping.lookup (pc_table pc) k')"
  by (cases "k' = k") (auto simp: table_remove_def pc_defs split: option.splits)

lemma table_remove_calls:
  "pc_calls (table_remove k pc) = (case Mapping.lookup (pc_table pc) k of
      None \<Rightarrow> pc_calls pc | Some e \<Rightarrow> MC_Release (mce_data e) (mce_length e) # pc_calls pc)"
  by (auto simp: table_remove_def pc_defs split: option.splits)

abbreviation half :: "'d page_cache \<Rightarrow> nat" where
  "half pc \<equiv> unat (pc_size_max pc div 2)"

lemma clean_cache_small: "length (pc_lru pc) \<le> half pc \<Longrightarrow> clean_cache pc = pc"
  by (simp add: clean_cache.simps)

lemma clean_cache_big:
  "length (pc_lru pc) > half pc \<Longrightarrow> clean_cache pc =
     clean_cache (table_remove (last (pc_lru pc)) (pc\<lparr> pc_lru := butlast (pc_lru pc) \<rparr>))"
  by (simp add: clean_cache.simps [of pc])

lemma take_butlast_le: "n < length q \<Longrightarrow> take n (butlast q) = take n q"
  by (simp add: butlast_conv_take)

lemma set_drop_butlast:
  assumes "n < length q" shows "set (drop n q) = insert (last q) (set (drop n (butlast q)))"
proof -
  from assms have ne: "q \<noteq> []" by auto
  then have "drop n q = drop n (butlast q @ [last q])" by simp
  also have "\<dots> = drop n (butlast q) @ [last q]" using assms by simp
  finally show ?thesis by simp
qed

lemma clean_cache_spec:
  "pc_lru (clean_cache pc) = take (half pc) (pc_lru pc)
   \<and> pc_age (clean_cache pc) = pc_age pc \<and> pc_size_max (clean_cache pc) = pc_size_max pc
   \<and> (\<forall>k. Mapping.lookup (pc_table (clean_cache pc)) k =
        (if k \<in> set (drop (half pc) (pc_lru pc)) then None else Mapping.lookup (pc_table pc) k))"
proof (induction pc rule: clean_cache.induct)
  case (1 pc)
  show ?case
  proof (cases "length (pc_lru pc) > half pc")
    case True
    let ?pc = "table_remove (last (pc_lru pc)) (pc\<lparr> pc_lru := butlast (pc_lru pc) \<rparr>)"
    note IH = "1.IH" [OF True]
    show ?thesis
      unfolding clean_cache_big [OF True]
      using IH True
      by (auto simp: table_remove_lookup take_butlast_le set_drop_butlast)
  next
    case False
    then show ?thesis by (simp add: clean_cache_small)
  qed
qed

lemmas clean_cache_lru = clean_cache_spec [THEN conjunct1]
lemmas clean_cache_age = clean_cache_spec [THEN conjunct2, THEN conjunct1]
lemmas clean_cache_size_max = clean_cache_spec [THEN conjunct2, THEN conjunct2, THEN conjunct1]
lemmas clean_cache_lookup =
  clean_cache_spec [THEN conjunct2, THEN conjunct2, THEN conjunct2, rule_format]

section \<open>Invariant and coherence\<close>

definition pc_inv :: "mem_config \<Rightarrow> 'd page_cache \<Rightarrow> bool" where
  "pc_inv cfg pc \<longleftrightarrow>
     distinct (pc_lru pc) \<and>
     (\<forall>k. k \<in> set (pc_lru pc) \<longleftrightarrow> Mapping.lookup (pc_table pc) k \<noteq> None) \<and>
     (\<forall>k e. Mapping.lookup (pc_table pc) k = Some e \<longrightarrow>
        mce_paddr e = k \<and> mce_length e = mc_page_size cfg \<and> page_aligned cfg k \<and>
        range_ok cfg k (mc_page_size cfg)) \<and>
     length (pc_lru pc) \<le> max 1 (unat (pc_size_max pc))"

definition pc_coherent :: "(addr_t \<Rightarrow> u32 \<Rightarrow> 'd option) \<Rightarrow> 'd page_cache \<Rightarrow> bool" where
  "pc_coherent getd pc \<longleftrightarrow>
     (\<forall>k e. Mapping.lookup (pc_table pc) k = Some e \<longrightarrow> mce_data e = getd k (mce_length e))"

lemma pc_inv_entry:
  "pc_inv cfg pc \<Longrightarrow> Mapping.lookup (pc_table pc) k = Some e \<Longrightarrow>
     mce_paddr e = k \<and> mce_length e = mc_page_size cfg \<and> page_aligned cfg k \<and>
     range_ok cfg k (mc_page_size cfg)"
  by (simp add: pc_inv_def)

lemma pc_inv_init: "pc_inv cfg (memory_cache_init age)"
  by (simp add: pc_inv_def memory_cache_init_def)

lemma pc_coherent_init: "pc_coherent getd (memory_cache_init age)"
  by (simp add: pc_coherent_def memory_cache_init_def)

lemma mem_take_distinct:
  assumes "distinct q" shows "k \<in> set (take n q) \<longleftrightarrow> k \<in> set q \<and> k \<notin> set (drop n q)"
proof -
  have "set (take n q) \<inter> set (drop n q) = {}"
    using assms by (rule set_take_disj_set_drop_if_distinct) simp
  moreover have "set q = set (take n q) \<union> set (drop n q)"
    by (metis append_take_drop_id set_append)
  ultimately show ?thesis by auto
qed

lemma pc_inv_clean: "pc_inv cfg pc \<Longrightarrow> pc_inv cfg (clean_cache pc)"
  unfolding pc_inv_def
  by (auto simp: clean_cache_lru clean_cache_size_max clean_cache_lookup mem_take_distinct)

lemma pc_coherent_clean: "pc_coherent getd pc \<Longrightarrow> pc_coherent getd (clean_cache pc)"
  by (auto simp: pc_coherent_def clean_cache_lookup)

lemma half_less: "unat (m div 2 :: u32) < unat m \<or> m = 0"
  by (cases "m = 0") (simp_all add: unat_div unat_gt_0)

lemma clean_cache_length: "length (pc_lru (clean_cache pc)) \<le> half pc"
  by (simp add: clean_cache_lru)

text \<open>The two ways an insertion can go, on a cache that satisfies the invariant.\<close>

lemma insert_hit_inv:
  assumes inv: "pc_inv cfg pc" and hit: "Mapping.lookup (pc_table pc) k = Some e"
  shows "pc_inv cfg (snd (validate_and_return_data getd now k e pc))"
proof -
  have k: "k \<in> set (pc_lru pc)" using inv hit by (auto simp: pc_inv_def)
  have e: "mce_paddr e = k" using pc_inv_entry [OF inv hit] by simp
  have lru: "set (move_to_head k (pc_lru pc)) = set (pc_lru pc)"
      "distinct (move_to_head k (pc_lru pc))"
      "length (move_to_head k (pc_lru pc)) = length (pc_lru pc)"
    using k inv by (auto simp: move_to_head_def pc_inv_def length_remove1 dest: in_set_remove1)
      (cases "pc_lru pc"; auto)+
  show ?thesis
    using inv hit lru unfolding validate_and_return_data_def pc_inv_def
    by (auto simp: e pc_defs Let_def lookup_update' split: if_splits)
qed

lemma insert_miss_inv:
  assumes inv: "pc_inv cfg pc" and miss: "Mapping.lookup (pc_table pc) k = None"
    and al: "page_aligned cfg k" and rg: "range_ok cfg k (mc_page_size cfg)"
    and len: "Suc (length (pc_lru pc)) \<le> max 1 (unat (pc_size_max pc))"
    and e: "mce_paddr e = k" "mce_length e = mc_page_size cfg"
  shows "pc_inv cfg (pc\<lparr> pc_table := Mapping.update k e (pc_table pc),
                          pc_lru := k # pc_lru pc \<rparr>)"
  using assms unfolding pc_inv_def by (auto simp: lookup_update')

lemma pc_inv_calls [simp]: "pc_inv cfg (pc_calls_update f pc) = pc_inv cfg pc"
  by (simp add: pc_inv_def)

lemma pc_coherent_calls [simp]: "pc_coherent getd (pc_calls_update f pc) = pc_coherent getd pc"
  by (simp add: pc_coherent_def)

definition make_room :: "'d page_cache \<Rightarrow> 'd page_cache" where
  "make_room pc = (if length (pc_lru pc) \<ge> unat (pc_size_max pc) then clean_cache pc else pc)"

lemma make_room:
  assumes "pc_inv cfg pc"
  shows "pc_inv cfg (make_room pc)"
    and "Suc (length (pc_lru (make_room pc))) \<le> max 1 (unat (pc_size_max (make_room pc)))"
    and "pc_coherent getd pc \<Longrightarrow> pc_coherent getd (make_room pc)"
    and "Mapping.lookup (pc_table pc) k = None \<Longrightarrow> Mapping.lookup (pc_table (make_room pc)) k = None"
proof -
  show "Suc (length (pc_lru (make_room pc))) \<le> max 1 (unat (pc_size_max (make_room pc)))"
  proof (cases "unat (pc_size_max pc) \<le> length (pc_lru pc)")
    case True
    then have "make_room pc = clean_cache pc" by (simp add: make_room_def)
    moreover have "half pc < unat (pc_size_max pc) \<or> half pc = 0"
      using half_less [of "pc_size_max pc"] by auto
    ultimately show ?thesis
      using clean_cache_length [of pc] clean_cache_size_max [of pc] by (auto simp: max_def)
  next
    case False
    then have "make_room pc = pc" by (simp add: make_room_def)
    with False show ?thesis by simp
  qed
qed (use assms in \<open>auto simp: make_room_def pc_inv_clean pc_coherent_clean clean_cache_lookup\<close>)

lemma insert_miss_eq:
  assumes "page_aligned cfg k" and "Mapping.lookup (pc_table pc) k = None"
  shows "memory_cache_insert cfg getd now k pc =
    (if range_ok cfg k (mc_page_size cfg)
     then let d = getd k (mc_page_size cfg);
              e = \<lparr> mce_paddr = k, mce_length = mc_page_size cfg, mce_last_updated = now,
                    mce_last_used = now, mce_data = d \<rparr>;
              pc1 = (make_room pc)\<lparr> pc_calls := MC_Get k (mc_page_size cfg) d #
                        pc_calls (make_room pc) \<rparr>
          in (d, pc1\<lparr> pc_table := Mapping.update k e (pc_table pc1), pc_lru := k # pc_lru pc1 \<rparr>)
     else (None, make_room pc))"
  using assms by (simp add: memory_cache_insert_def create_new_entry_def make_room_def pc_defs Let_def)

lemma insert_hit_eq:
  assumes "pc_inv cfg pc" and "Mapping.lookup (pc_table pc) k = Some e"
  shows "memory_cache_insert cfg getd now k pc = validate_and_return_data getd now k e pc"
  using pc_inv_entry [OF assms] assms by (simp add: memory_cache_insert_def)

lemma memory_cache_insert_inv:
  assumes inv: "pc_inv cfg pc"
  shows "pc_inv cfg (snd (memory_cache_insert cfg getd now k pc))"
proof (cases "Mapping.lookup (pc_table pc) k")
  case None
  note room = make_room [OF inv]
  show ?thesis
  proof (cases "page_aligned cfg k")
    case True
    let ?pc = "(make_room pc)\<lparr> pc_calls := MC_Get k (mc_page_size cfg) (getd k (mc_page_size cfg)) #
        pc_calls (make_room pc) \<rparr>"
    have "pc_inv cfg ?pc" "Mapping.lookup (pc_table ?pc) k = None"
        "Suc (length (pc_lru ?pc)) \<le> max 1 (unat (pc_size_max ?pc))"
      using room None by (simp_all add: pc_inv_def)
    note miss = insert_miss_inv [OF this(1,2) True _ this(3)]
    show ?thesis
      using miss [of "\<lparr> mce_paddr = k, mce_length = mc_page_size cfg, mce_last_updated = now,
          mce_last_used = now, mce_data = getd k (mc_page_size cfg) \<rparr>"] room(1)
      by (simp add: insert_miss_eq [OF True None] Let_def)
  next
    case False
    then show ?thesis using inv by (simp add: memory_cache_insert_def)
  qed
next
  case (Some e)
  then show ?thesis using insert_hit_inv [OF inv Some] insert_hit_eq [OF inv Some] by simp
qed

lemma memory_cache_insert_value:
  assumes inv: "pc_inv cfg pc" and coh: "pc_coherent getd pc"
  shows "fst (memory_cache_insert cfg getd now k pc) =
      (if page_aligned cfg k \<and> range_ok cfg k (mc_page_size cfg)
       then getd k (mc_page_size cfg) else None)
    \<and> pc_coherent getd (snd (memory_cache_insert cfg getd now k pc))"
proof (cases "Mapping.lookup (pc_table pc) k")
  case None
  note room = make_room [OF inv]
  show ?thesis
  proof (cases "page_aligned cfg k")
    case True
    then show ?thesis
      using room(3) [OF coh]
      by (auto simp: insert_miss_eq [OF True None] Let_def pc_coherent_def lookup_update')
  next
    case False
    then show ?thesis using coh by (simp add: memory_cache_insert_def)
  qed
next
  case (Some e)
  have ent: "mce_paddr e = k \<and> mce_length e = mc_page_size cfg \<and> page_aligned cfg k \<and>
     range_ok cfg k (mc_page_size cfg)" by (rule pc_inv_entry [OF inv Some])
  have data: "mce_data e = getd k (mc_page_size cfg)"
    using coh Some ent by (auto simp: pc_coherent_def)
  show ?thesis
    using coh ent data Some
    by (auto simp: insert_hit_eq [OF inv Some] validate_and_return_data_def pc_defs Let_def
        pc_coherent_def lookup_update')
qed

section \<open>The interface to the memory-access code\<close>

locale page_provider =
  fixes read_page :: "addr_t \<Rightarrow> 's \<Rightarrow> 'p option \<times> 's"
    and inv :: "'s \<Rightarrow> bool"
    and content :: "addr_t \<Rightarrow> 'p option"
  assumes read_content: "inv s \<Longrightarrow> fst (read_page a s) = content a"
    and read_inv: "inv s \<Longrightarrow> inv (snd (read_page a s))"
begin

fun read_all :: "addr_t list \<Rightarrow> 's \<Rightarrow> 'p option list \<times> 's" where
  "read_all [] s = ([], s)"
| "read_all (a # as) s = (let (p, s1) = read_page a s; (ps, s2) = read_all as s1 in (p # ps, s2))"

lemma read_all_content: "inv s \<Longrightarrow> fst (read_all as s) = map content as"
proof (induction as arbitrary: s)
  case (Cons a as)
  then show ?case
    using read_content [OF Cons.prems, of a] Cons.IH [OF read_inv [OF Cons.prems, of a]]
    by (simp add: case_prod_beta Let_def)
qed simp

lemma read_all_inv: "inv s \<Longrightarrow> inv (snd (read_all as s))"
  by (induction as arbitrary: s) (simp_all add: case_prod_beta Let_def read_inv)

end

interpretation pcache: page_provider "memory_cache_insert cfg getd now"
  "\<lambda>pc. pc_inv cfg pc \<and> pc_coherent getd pc"
  "\<lambda>k. if page_aligned cfg k \<and> range_ok cfg k (mc_page_size cfg)
       then getd k (mc_page_size cfg) else None"
  for cfg getd now
  using memory_cache_insert_value memory_cache_insert_inv by unfold_locales blast+

section \<open>Ownership of the mapped pages\<close>

fun got :: "'d mc_call list \<Rightarrow> 'd option multiset" where
  "got [] = {#}"
| "got (MC_Get a l d # cs) = add_mset d (got cs)"
| "got (MC_Release d l # cs) = got cs"

fun released :: "'d mc_call list \<Rightarrow> 'd option multiset" where
  "released [] = {#}"
| "released (MC_Get a l d # cs) = released cs"
| "released (MC_Release d l # cs) = add_mset d (released cs)"

definition entry_data :: "(addr_t, 'd memory_cache_entry) mapping \<Rightarrow> addr_t \<Rightarrow> 'd option" where
  "entry_data t k = (case Mapping.lookup t k of None \<Rightarrow> None | Some e \<Rightarrow> mce_data e)"

definition live :: "'d page_cache \<Rightarrow> 'd option multiset" where
  "live pc = image_mset (entry_data (pc_table pc)) (mset (pc_lru pc))"

definition balanced :: "'d page_cache \<Rightarrow> bool" where
  "balanced pc \<longleftrightarrow> got (pc_calls pc) = released (pc_calls pc) + live pc"

lemma balanced_evict:
  assumes inv: "pc_inv cfg pc" and bal: "balanced pc" and ne: "pc_lru pc \<noteq> []"
  shows "balanced (table_remove (last (pc_lru pc)) (pc\<lparr> pc_lru := butlast (pc_lru pc) \<rparr>))"
    (is "balanced ?pc")
proof -
  let ?k = "last (pc_lru pc)"
  have "?k \<in> set (pc_lru pc)" using ne by simp
  then obtain e where e: "Mapping.lookup (pc_table pc) ?k = Some e"
    using inv by (auto simp: pc_inv_def)
  have split: "pc_lru pc = butlast (pc_lru pc) @ [?k]" using ne by simp
  have notin: "?k \<notin> set (butlast (pc_lru pc))"
    using inv split by (metis distinct_append distinct.simps(2) pc_inv_def not_distinct_conv_prefix)
  have "live pc = image_mset (entry_data (pc_table pc)) (mset (butlast (pc_lru pc) @ [?k]))"
    using split by (simp add: live_def)
  also have "\<dots> = add_mset (mce_data e) (image_mset (entry_data (pc_table pc)) (mset (butlast (pc_lru pc))))"
    using e by (simp add: entry_data_def)
  also have "image_mset (entry_data (pc_table pc)) (mset (butlast (pc_lru pc))) = live ?pc"
    unfolding live_def using notin
    by (auto intro!: image_mset_cong simp: entry_data_def table_remove_lookup)
  finally show ?thesis
    using bal e by (simp add: balanced_def table_remove_calls)
qed

lemma evict_inv:
  assumes inv: "pc_inv cfg pc" and ne: "pc_lru pc \<noteq> []"
  shows "pc_inv cfg (table_remove (last (pc_lru pc)) (pc\<lparr> pc_lru := butlast (pc_lru pc) \<rparr>))"
proof -
  have split: "pc_lru pc = butlast (pc_lru pc) @ [last (pc_lru pc)]" using ne by simp
  have d: "distinct (butlast (pc_lru pc) @ [last (pc_lru pc)])"
    using inv split by (simp add: pc_inv_def)
  have s: "set (pc_lru pc) = insert (last (pc_lru pc)) (set (butlast (pc_lru pc)))"
    by (subst split) simp
  show ?thesis
    using inv d s unfolding pc_inv_def by (auto simp: table_remove_lookup)
qed

lemma balanced_clean: "pc_inv cfg pc \<Longrightarrow> balanced pc \<Longrightarrow> balanced (clean_cache pc)"
proof (induction pc rule: clean_cache.induct)
  case (1 pc)
  show ?case
  proof (cases "length (pc_lru pc) > half pc")
    case True
    then have ne: "pc_lru pc \<noteq> []" by auto
    show ?thesis
      unfolding clean_cache_big [OF True]
      using "1.IH" [OF True evict_inv [OF "1.prems"(1) ne] balanced_evict [OF "1.prems" ne]] .
  qed (use 1 in \<open>simp add: clean_cache_small\<close>)
qed

lemma balanced_make_room: "pc_inv cfg pc \<Longrightarrow> balanced pc \<Longrightarrow> balanced (make_room pc)"
  by (simp add: make_room_def balanced_clean)

lemma entry_data_update_notin:
  "k \<notin> set q \<Longrightarrow> image_mset (entry_data (Mapping.update k e t)) (mset q) =
     image_mset (entry_data t) (mset q)"
  by (auto intro!: image_mset_cong simp: entry_data_def lookup_update')

lemma live_member:
  assumes inv: "pc_inv cfg pc" and k: "Mapping.lookup (pc_table pc) k = Some e"
    and q: "mset q = mset (pc_lru pc)"
  shows "image_mset (entry_data (Mapping.update k e' (pc_table pc))) (mset q) =
      live pc - {# mce_data e #} + {# mce_data e' #}"
    and "mce_data e \<in># live pc"
proof -
  have mem: "k \<in> set (pc_lru pc)" and d: "distinct (pc_lru pc)"
    using inv k by (auto simp: pc_inv_def)
  have ms: "mset (pc_lru pc) = add_mset k (mset (remove1 k (pc_lru pc)))" using mem by simp
  have nin: "k \<notin> set (remove1 k (pc_lru pc))" using d by simp
  have l: "live pc =
      add_mset (mce_data e) (image_mset (entry_data (pc_table pc)) (mset (remove1 k (pc_lru pc))))"
    unfolding live_def ms using k by (simp add: entry_data_def)
  show "mce_data e \<in># live pc" by (simp add: l)
  show "image_mset (entry_data (Mapping.update k e' (pc_table pc))) (mset q) =
      live pc - {# mce_data e #} + {# mce_data e' #}"
    unfolding q l unfolding ms
    using entry_data_update_notin [OF nin, of e' "pc_table pc"] by (simp add: entry_data_def)
qed

lemma mset_move_to_head: "mset (move_to_head k q) = mset q"
  by (simp add: move_to_head_def)

lemma balanced_hit:
  assumes inv: "pc_inv cfg pc" and bal: "balanced pc"
    and k: "Mapping.lookup (pc_table pc) k = Some e"
  shows "balanced (snd (validate_and_return_data getd now k e pc))"
proof -
  have e: "mce_paddr e = k" using pc_inv_entry [OF inv k] by simp
  note lm = live_member [OF inv k]
  have split: "live pc = add_mset (mce_data e) (live pc - {# mce_data e #})"
    using lm(2) [of "pc_lru pc"] by simp
  show ?thesis
  proof (cases "pc_age pc \<noteq> 0 \<and> now - mce_last_updated e > uint (pc_age pc)")
    case True
    have "got (pc_calls pc) = released (pc_calls pc) + add_mset (mce_data e) (live pc - {# mce_data e #})"
      using bal split by (simp add: balanced_def)
    then show ?thesis
      using True lm(1) [OF mset_move_to_head [of k "pc_lru pc"]]
      by (simp add: validate_and_return_data_def pc_defs Let_def balanced_def e live_def)
  next
    case False
    then have "snd (validate_and_return_data getd now k e pc) =
        pc\<lparr> pc_table := Mapping.update k (e\<lparr> mce_last_used := now \<rparr>) (pc_table pc) \<rparr>"
      unfolding validate_and_return_data_def by (subst if_not_P) simp_all
    then show ?thesis
      using bal split lm(1) [OF refl, of "e\<lparr> mce_last_used := now \<rparr>"]
      by (simp add: balanced_def live_def)
  qed
qed

lemma balanced_miss:
  assumes bal: "balanced pc" and nin: "k \<notin> set (pc_lru pc)"
  shows "balanced (pc\<lparr> pc_calls := MC_Get k l (mce_data e) # pc_calls pc,
     pc_table := Mapping.update k e (pc_table pc), pc_lru := k # pc_lru pc \<rparr>)"
  using bal entry_data_update_notin [OF nin, of e "pc_table pc"]
  by (simp add: balanced_def live_def entry_data_def)

lemma balanced_insert:
  assumes inv: "pc_inv cfg pc" and bal: "balanced pc"
  shows "balanced (snd (memory_cache_insert cfg getd now k pc))"
proof (cases "Mapping.lookup (pc_table pc) k")
  case None
  note room = make_room [OF inv] and bal' = balanced_make_room [OF inv bal]
  have "k \<notin> set (pc_lru (make_room pc))"
    using room(1) room(4) [OF None] by (auto simp: pc_inv_def)
  note miss = balanced_miss [OF bal' this, where l = "mc_page_size cfg" and
      e = "\<lparr> mce_paddr = k, mce_length = mc_page_size cfg, mce_last_updated = now,
         mce_last_used = now, mce_data = getd k (mc_page_size cfg) \<rparr>"]
  show ?thesis
  proof (cases "page_aligned cfg k")
    case True
    show ?thesis using miss bal' by (simp add: insert_miss_eq [OF True None] Let_def)
  next
    case False
    then show ?thesis using bal by (simp add: memory_cache_insert_def)
  qed
next
  case (Some e)
  then show ?thesis using balanced_hit [OF inv bal Some] insert_hit_eq [OF inv Some] by simp
qed

text \<open>Emptying the table in any order that visits every key releases every live page.\<close>

lemma fold_table_remove_released:
  assumes "distinct order"
  shows "released (pc_calls (fold table_remove order pc)) = released (pc_calls pc) +
      image_mset (entry_data (pc_table pc))
        (filter_mset (\<lambda>k. Mapping.lookup (pc_table pc) k \<noteq> None) (mset order))
    \<and> got (pc_calls (fold table_remove order pc)) = got (pc_calls pc)"
  using assms
proof (induction order arbitrary: pc)
  case (Cons k ks)
  have eq: "image_mset (entry_data (pc_table (table_remove k pc)))
      (filter_mset (\<lambda>x. Mapping.lookup (pc_table (table_remove k pc)) x \<noteq> None) (mset ks)) =
    image_mset (entry_data (pc_table pc))
      (filter_mset (\<lambda>x. Mapping.lookup (pc_table pc) x \<noteq> None) (mset ks))"
  proof -
    have "filter_mset (\<lambda>x. Mapping.lookup (pc_table (table_remove k pc)) x \<noteq> None) (mset ks) =
        filter_mset (\<lambda>x. Mapping.lookup (pc_table pc) x \<noteq> None) (mset ks)"
      using Cons.prems by (intro filter_mset_cong) (auto simp: table_remove_lookup)
    moreover have "image_mset (entry_data (pc_table (table_remove k pc))) (filter_mset P (mset ks)) =
        image_mset (entry_data (pc_table pc)) (filter_mset P (mset ks))" for P
      using Cons.prems
      by (intro image_mset_cong) (auto simp: entry_data_def table_remove_lookup)
    ultimately show ?thesis by simp
  qed
  show ?case
    using Cons.IH [of "table_remove k pc"] Cons.prems eq
    by (auto simp: table_remove_calls entry_data_def [of "pc_table pc" k] split: option.splits)
qed simp

section \<open>Runs\<close>

type_synonym 'd pc_request = "(addr_t \<Rightarrow> u32 \<Rightarrow> 'd option) \<times> int \<times> addr_t"

fun pc_run :: "mem_config \<Rightarrow> 'd pc_request list \<Rightarrow> 'd page_cache \<Rightarrow> 'd page_cache" where
  "pc_run cfg [] pc = pc"
| "pc_run cfg ((getd, now, k) # rs) pc = pc_run cfg rs (snd (memory_cache_insert cfg getd now k pc))"

lemma pc_run_inv: "pc_inv cfg pc \<Longrightarrow> balanced pc \<Longrightarrow> pc_inv cfg (pc_run cfg rs pc) \<and> balanced (pc_run cfg rs pc)"
  by (induction cfg rs pc rule: pc_run.induct) (simp_all add: memory_cache_insert_inv balanced_insert)

lemma balanced_init: "balanced (memory_cache_init age)"
  by (simp add: balanced_def memory_cache_init_def live_def)

lemma insert_size_max: "pc_size_max (snd (memory_cache_insert cfg getd now k pc)) = pc_size_max pc"
  by (auto simp: memory_cache_insert_def validate_and_return_data_def create_new_entry_def pc_defs
      Let_def clean_cache_size_max split: option.splits)

lemma pc_run_size_max: "pc_size_max (pc_run cfg rs pc) = pc_size_max pc"
  by (induction cfg rs pc rule: pc_run.induct) (simp_all add: insert_size_max)

text \<open>A configuration and a provider for concrete instances: 4 KB pages below 64 KB.\<close>

definition cfg0 :: mem_config where
  "cfg0 = \<lparr> mc_page_size = 0x1000, mc_vm_type = HVM, mc_memmap = None,
     mc_max_physical_address = 0x10000 \<rparr>"

definition getd0 :: "addr_t \<Rightarrow> u32 \<Rightarrow> nat option" where
  "getd0 a l = (if a = 0x3000 then None else Some (unat a))"

lemma cfg0_page_size [simp]: "mc_page_size cfg0 = 0x1000"
  by (simp add: cfg0_def)

lemma cfg0_page: "page_aligned cfg0 0x2000 \<and> range_ok cfg0 0x2000 0x1000"
    "page_aligned cfg0 0x3000 \<and> range_ok cfg0 0x3000 0x1000"
  by (simp_all add: page_aligned_def range_ok_def cfg0_def)

section \<open>Properties\<close>

text \<open>C4. The page cache is transparent: on a cache that satisfies its invariant and agrees with the
  provider, asking for a page gives what the provider gives for every aligned page inside guest
  memory and nothing otherwise, whether the page was cached, aged, evicted or new, and the
  invariant and the agreement hold again afterwards.\<close>

theorem memory_cache_insert_transparent:
  assumes "pc_inv cfg pc" and "pc_coherent getd pc"
  shows "case memory_cache_insert cfg getd now paddr pc of (d, pc') \<Rightarrow>
     d = (if page_aligned cfg paddr \<and> range_ok cfg paddr (mc_page_size cfg)
          then getd paddr (mc_page_size cfg) else None)
     \<and> pc_inv cfg pc' \<and> pc_coherent getd pc'"
  using pcache.read_content [of cfg pc getd now paddr] pcache.read_inv [of cfg pc getd now paddr] assms
  by (simp add: case_prod_beta)

theorem memory_cache_insert_transparent_witness:
  "fst (memory_cache_insert cfg0 getd0 7 0x2000 (memory_cache_init 0)) = Some 0x2000"
  using memory_cache_insert_transparent [OF pc_inv_init [of cfg0 0] pc_coherent_init [of getd0 0],
      where now = 7 and paddr = "0x2000"] cfg0_page(1)
  by (simp add: case_prod_beta getd0_def)

text \<open>C26. After any sequence of requests, with any providers, times and addresses, the queue lists each
  cached page exactly once, at most 512 pages are cached, and every page handle obtained from
  the driver is either still cached or was given back exactly once.\<close>

theorem page_cache_run_invariant:
  "let pc = pc_run cfg rs (memory_cache_init age) in
     distinct (pc_lru pc) \<and> set (pc_lru pc) = Mapping.keys (pc_table pc)
     \<and> length (pc_lru pc) \<le> 512 \<and> got (pc_calls pc) = released (pc_calls pc) + live pc"
proof -
  let ?pc = "pc_run cfg rs (memory_cache_init age)"
  have "pc_inv cfg ?pc" "balanced ?pc"
    using pc_run_inv [OF pc_inv_init balanced_init] by blast+
  moreover have "pc_size_max ?pc = 512"
    by (simp add: pc_run_size_max memory_cache_init_def MAX_PAGE_CACHE_SIZE_def)
  ultimately show ?thesis
    by (auto simp: pc_inv_def balanced_def keys_dom_lookup Let_def)
qed

text \<open>C27. Flushing the cache after any run gives every page handle back: the handles obtained and
  the handles released are the same multiset, whatever order the hash table visits its entries
  in, and the cache is empty.\<close>

theorem memory_cache_flush_releases_all:
  assumes pc: "pc = pc_run cfg rs (memory_cache_init age)"
    and "distinct order" and "set order = Mapping.keys (pc_table pc)"
  shows "got (pc_calls (memory_cache_flush order pc)) =
      released (pc_calls (memory_cache_flush order pc))
    \<and> pc_table (memory_cache_flush order pc) = Mapping.empty
    \<and> pc_lru (memory_cache_flush order pc) = []"
proof -
  have inv: "pc_inv cfg pc" and bal: "balanced pc"
    unfolding pc using pc_run_inv [OF pc_inv_init balanced_init] by blast+
  have keys: "set order = set (pc_lru pc)"
    using inv assms(3) by (auto simp: pc_inv_def keys_dom_lookup)
  then have ord: "mset order = mset (pc_lru pc)"
    using inv assms(2) by (simp add: pc_inv_def set_eq_iff_mset_eq_distinct)
  have all: "filter_mset (\<lambda>k. Mapping.lookup (pc_table pc) k \<noteq> None) (mset order) = mset order"
    using assms(3) by (auto simp: keys_dom_lookup filter_mset_eq_conv)
  have lru: "pc_lru (fold table_remove ks q) = pc_lru q" for ks and q :: "'a page_cache"
    by (induction ks arbitrary: q) simp_all
  show ?thesis
    using fold_table_remove_released [OF assms(2), of "pc\<lparr> pc_lru := [] \<rparr>"] bal all
    by (simp add: memory_cache_flush_def lru balanced_def live_def ord)
qed

theorem memory_cache_flush_releases_all_witness:
  "let pc = pc_run cfg0 [(getd0, 1, 0x2000), (getd0, 2, 0x2000), (getd0, 3, 0x3000)]
        (memory_cache_init 0)
   in got (pc_calls (memory_cache_flush [0x2000, 0x3000] pc)) =
      released (pc_calls (memory_cache_flush [0x2000, 0x3000] pc))"
proof -
  let ?rs = "[(getd0, 1, 0x2000), (getd0, 2, 0x2000), (getd0, 3, 0x3000)]"
  have "Mapping.keys (pc_table (pc_run cfg0 ?rs (memory_cache_init 0))) = {0x2000, 0x3000}"
    using cfg0_page
    by (auto simp: memory_cache_insert_def memory_cache_init_def create_new_entry_def pc_defs
        MAX_PAGE_CACHE_SIZE_def validate_and_return_data_def lookup_update')
  then show ?thesis
    using memory_cache_flush_releases_all [OF refl, of "[0x2000, 0x3000]" cfg0 ?rs 0] by (simp add: Let_def)
qed

text \<open>Removing a page does not remove it: the key handed to the hash table is the address of the
  function's own parameter, so unless that address happens to be the number of a cached page,
  \<^verbatim>\<open>memory_cache_remove\<close> leaves the cache exactly as it was, and the next request for the
  page is answered from the old entry.\<close>

theorem memory_cache_remove_keeps_page:
  assumes "Mapping.lookup (pc_table pc) stack_addr = None"
  shows "memory_cache_remove cfg stack_addr paddr pc = pc"
  using assms by (simp add: memory_cache_remove_def table_remove_def)

theorem memory_cache_remove_keeps_page_witness:
  "let pc = snd (memory_cache_insert cfg0 getd0 1 0x2000 (memory_cache_init 0));
       pc' = memory_cache_remove cfg0 0x7ffe1238 0x2000 pc
   in fst (memory_cache_insert cfg0 (\<lambda>a l. Some 99) 2 0x2000 pc') = Some 0x2000"
proof -
  let ?pc = "snd (memory_cache_insert cfg0 getd0 1 0x2000 (memory_cache_init 0))"
  have pc: "?pc = \<lparr> pc_table = Mapping.update 0x2000 \<lparr> mce_paddr = 0x2000, mce_length = 0x1000,
      mce_last_updated = 1, mce_last_used = 1, mce_data = Some 0x2000 \<rparr> Mapping.empty,
      pc_lru = [0x2000], pc_age = 0, pc_size_max = 512, pc_calls = [MC_Get 0x2000 0x1000 (Some 0x2000)] \<rparr>"
    using cfg0_page(1)
    by (simp add: memory_cache_insert_def memory_cache_init_def create_new_entry_def pc_defs
        MAX_PAGE_CACHE_SIZE_def getd0_def)
  have "Mapping.lookup (pc_table ?pc) 0x7ffe1238 = None" by (simp add: pc)
  note gone = memory_cache_remove_keeps_page [OF this, of cfg0 "0x2000"]
  show ?thesis
    using cfg0_page(1) unfolding Let_def gone unfolding pc
    by (simp add: memory_cache_insert_def validate_and_return_data_def)
qed

text \<open>A failed mapping is remembered: with no age limit (the Xen driver's setting), once the
  driver could not map a page inside guest memory, the page stays unreadable through the cache
  even when a later call of the driver would succeed.\<close>

theorem memory_cache_remembers_failure:
  assumes "pc_inv cfg pc" and "pc_age pc = 0" and "Mapping.lookup (pc_table pc) paddr = None"
    and "page_aligned cfg paddr" and "range_ok cfg paddr (mc_page_size cfg)"
    and "getd paddr (mc_page_size cfg) = None"
  shows "fst (memory_cache_insert cfg getd' now' paddr
           (snd (memory_cache_insert cfg getd now paddr pc))) = None"
proof -
  have "pc_age (make_room pc) = 0" using assms(2) by (simp add: make_room_def clean_cache_age)
  then show ?thesis
    using assms
    by (simp add: insert_miss_eq [OF assms(4,3)] Let_def)
      (simp add: memory_cache_insert_def validate_and_return_data_def)
qed

theorem memory_cache_remembers_failure_witness:
  "fst (memory_cache_insert cfg0 (\<lambda>a l. Some 5) 2 0x3000
      (snd (memory_cache_insert cfg0 getd0 1 0x3000 (memory_cache_init 0)))) = None"
  by (rule memory_cache_remembers_failure [OF pc_inv_init])
    (use cfg0_page(2) in \<open>simp_all add: memory_cache_init_def getd0_def\<close>)

text \<open>Eviction keeps the half of the queue nearest its head, in order, and forgets exactly the
  rest; and with no age limit a hit does not move a page in the queue.  The queue is ordered by
  insertion, not by use.\<close>

theorem memory_cache_evicts_oldest:
  "pc_lru (clean_cache pc) = take (half pc) (pc_lru pc) \<and>
   (\<forall>k. Mapping.lookup (pc_table (clean_cache pc)) k =
      (if k \<in> set (drop (half pc) (pc_lru pc)) then None else Mapping.lookup (pc_table pc) k)) \<and>
   (pc_age pc = 0 \<longrightarrow> Mapping.lookup (pc_table pc) paddr \<noteq> None \<longrightarrow>
      pc_lru (snd (memory_cache_insert cfg getd now paddr pc)) = pc_lru pc)"
  by (auto simp: clean_cache_lru clean_cache_lookup memory_cache_insert_def
      validate_and_return_data_def)

theorem memory_cache_evicts_oldest_witness:
  "let pc = pc_run cfg0 [(getd0, 1, 0x2000), (getd0, 2, 0x3000)] (memory_cache_init 0)
   in pc_lru (snd (memory_cache_insert cfg0 getd0 3 0x2000 pc)) = [0x3000, 0x2000]"
proof -
  let ?pc = "pc_run cfg0 [(getd0, 1, 0x2000), (getd0, 2, 0x3000)] (memory_cache_init 0)"
  have pc: "pc_lru ?pc = [0x3000, 0x2000]" "pc_age ?pc = 0"
      "Mapping.lookup (pc_table ?pc) 0x2000 \<noteq> None"
    using cfg0_page
    by (simp_all add: memory_cache_insert_def memory_cache_init_def create_new_entry_def pc_defs
        MAX_PAGE_CACHE_SIZE_def)
  show ?thesis
    using memory_cache_evicts_oldest [where pc = ?pc and paddr = "0x2000" and cfg = cfg0 and getd = getd0 and now = 3] pc by (simp add: Let_def)
qed

end
