(* ===== verification/Vmi_State.thy ===== *)
theory Vmi_State
  imports Addr_Cache Page_Cache
begin

text \<open>
  The instance structure \<^verbatim>\<open>struct vmi_instance\<close> of \<^verbatim>\<open>private.h\<close>
  and the two tables of function pointers it carries: the driver
  (\<^verbatim>\<open>driver_interface.h\<close>) and the guest operating system
  (\<^verbatim>\<open>os_interface.h\<close>).  A table of function pointers is a record of functions that
  the operations take as an argument; an entry that the C code may find \<^verbatim>\<open>NULL\<close> is
  an option.  The driver state \<open>'s\<close> holds whatever the driver keeps, its page cache
  included.  The locale \<open>page_driver\<close> states what the memory accesses need from a driver.
\<close>

section \<open>The instance\<close>

datatype vmi_mode = VMI_XEN | VMI_KVM | VMI_FILE | VMI_BAREFLANK

datatype os_t = VMI_OS_UNKNOWN | VMI_OS_LINUX | VMI_OS_WINDOWS | VMI_OS_FREEBSD

record 's vmi_instance =
  vi_mode :: vmi_mode
  vi_os_type :: os_t
  vi_vm_type :: vm_type
  vi_page_mode :: page_mode_t
  vi_kpgd :: addr_t
  vi_page_shift :: nat
  vi_page_size :: u32
  vi_pse :: bool
  vi_transition_pages :: bool
  vi_t0sz :: u32
  vi_t1sz :: u32
  vi_tg0 :: page_size_t
  vi_tg1 :: page_size_t
  vi_max_physical_address :: addr_t
  vi_caches :: addr_caches
  vi_driver :: 's

text \<open>\<^verbatim>\<open>init_page_offset\<close> of \<^verbatim>\<open>core.c\<close>.\<close>

definition init_page_offset :: "'s vmi_instance \<Rightarrow> status \<times> 's vmi_instance" where
  "init_page_offset vmi = (VMI_SUCCESS, vmi\<lparr> vi_page_shift := 12, vi_page_size := 0x1000 \<rparr>)"

section \<open>Interfaces\<close>

type_synonym reg_t = u64

record 's driver_interface =
  drv_initialized :: bool
  drv_read_page_ptr :: "(addr_t \<Rightarrow> 's \<Rightarrow> u8 list option \<times> 's) option"
  drv_write_ptr :: "(addr_t \<Rightarrow> u8 list \<Rightarrow> 's \<Rightarrow> status \<times> 's) option"
  drv_mmap_guest :: "(addr_t list \<Rightarrow> 's \<Rightarrow> addr_t option \<times> 's) option"
  drv_get_vcpureg_ptr :: "(reg_t \<Rightarrow> nat \<Rightarrow> 's \<Rightarrow> u64 option \<times> 's) option"

record 's os_interface =
  os_pgd_to_pid :: "(addr_t \<Rightarrow> 's vmi_instance \<Rightarrow> vmi_pid_t option \<times> 's vmi_instance) option"
  os_pid_to_pgd :: "(vmi_pid_t \<Rightarrow> 's vmi_instance \<Rightarrow> addr_t option \<times> 's vmi_instance) option"
  os_ksym2v :: "(string \<Rightarrow> 's vmi_instance \<Rightarrow> addr_t option \<times> 's vmi_instance) option"
  os_usym2rva ::
    "(access_context \<Rightarrow> string \<Rightarrow> 's vmi_instance \<Rightarrow> addr_t option \<times> 's vmi_instance) option"
  os_v2sym ::
    "(addr_t \<Rightarrow> access_context \<Rightarrow> 's vmi_instance \<Rightarrow> string option \<times> 's vmi_instance) option"
  os_v2ksym ::
    "(addr_t \<Rightarrow> access_context \<Rightarrow> 's vmi_instance \<Rightarrow> string option \<times> 's vmi_instance) option"

text \<open>The environment of an operation: the driver, the operating-system interface (absent until
  \<^verbatim>\<open>vmi_init_os\<close>), and the content a \<^verbatim>\<open>page_info_t\<close> on the stack happens to
  have where the source does not initialise it.\<close>

record 's vmi_env =
  env_driver :: "'s driver_interface"
  env_os :: "'s os_interface option"
  env_stack_info :: page_info

section \<open>Driver wrappers\<close>

definition driver_read_page ::
  "'s vmi_env \<Rightarrow> addr_t \<Rightarrow> 's vmi_instance \<Rightarrow> u8 list option \<times> 's vmi_instance" where
  "driver_read_page env page vmi =
     (case drv_read_page_ptr (env_driver env) of
        None \<Rightarrow> (None, vmi)
      | Some f \<Rightarrow>
          if \<not> drv_initialized (env_driver env) then (None, vmi)
          else let (p, d) = f page (vi_driver vmi) in (p, vmi\<lparr> vi_driver := d \<rparr>))"

definition driver_write ::
  "'s vmi_env \<Rightarrow> addr_t \<Rightarrow> u8 list \<Rightarrow> 's vmi_instance \<Rightarrow> status \<times> 's vmi_instance" where
  "driver_write env paddr buf vmi =
     (case drv_write_ptr (env_driver env) of
        None \<Rightarrow> (VMI_FAILURE, vmi)
      | Some f \<Rightarrow>
          if \<not> drv_initialized (env_driver env) then (VMI_FAILURE, vmi)
          else let (st, d) = f paddr buf (vi_driver vmi) in (st, vmi\<lparr> vi_driver := d \<rparr>))"

definition driver_mmap_guest ::
  "'s vmi_env \<Rightarrow> addr_t list \<Rightarrow> 's vmi_instance \<Rightarrow> addr_t option \<times> 's vmi_instance" where
  "driver_mmap_guest env pfns vmi =
     (case drv_mmap_guest (env_driver env) of
        None \<Rightarrow> (None, vmi)
      | Some f \<Rightarrow>
          if \<not> drv_initialized (env_driver env) then (None, vmi)
          else let (p, d) = f pfns (vi_driver vmi) in (p, vmi\<lparr> vi_driver := d \<rparr>))"

definition driver_get_vcpureg ::
  "'s vmi_env \<Rightarrow> reg_t \<Rightarrow> nat \<Rightarrow> 's vmi_instance \<Rightarrow> u64 option \<times> 's vmi_instance" where
  "driver_get_vcpureg env reg vcpu vmi =
     (case drv_get_vcpureg_ptr (env_driver env) of
        None \<Rightarrow> (None, vmi)
      | Some f \<Rightarrow>
          if \<not> drv_initialized (env_driver env) then (None, vmi)
          else let (v, d) = f reg vcpu (vi_driver vmi) in (v, vmi\<lparr> vi_driver := d \<rparr>))"

definition vmi_read_page ::
  "'s vmi_env \<Rightarrow> addr_t \<Rightarrow> 's vmi_instance \<Rightarrow> u8 list option \<times> 's vmi_instance" where
  "vmi_read_page env frame_num vmi = driver_read_page env frame_num vmi"

section \<open>What a driver promises\<close>

text \<open>A driver that shows a fixed guest memory: whatever it keeps, a page it returns has a full
  page of bytes and these are the guest's, and reading keeps its invariant.\<close>

locale page_driver =
  fixes rd :: "addr_t \<Rightarrow> 's \<Rightarrow> u8 list option \<times> 's"
    and dinv :: "'s \<Rightarrow> bool"
    and page :: "addr_t \<Rightarrow> u8 list option"
  assumes rd_page: "dinv s \<Longrightarrow> fst (rd f s) = page f"
    and rd_inv: "dinv s \<Longrightarrow> dinv (snd (rd f s))"
    and page_full: "page f = Some p \<Longrightarrow> length p = 4096"
begin

definition drives :: "'s vmi_env \<Rightarrow> bool" where
  "drives env \<longleftrightarrow> drv_initialized (env_driver env) \<and> drv_read_page_ptr (env_driver env) = Some rd"

definition paged :: "'s vmi_instance \<Rightarrow> bool" where
  "paged vmi \<longleftrightarrow> vi_page_shift vmi = 12 \<and> vi_page_size vmi = 0x1000 \<and> dinv (vi_driver vmi)"

lemma vmi_read_page_result:
  assumes "drives env" and "paged vmi"
  obtains vmi' where "vmi_read_page env f vmi = (page f, vmi')" "paged vmi'"
    "vmi' = vmi\<lparr> vi_driver := vi_driver vmi' \<rparr>"
proof
  let ?v = "vmi\<lparr> vi_driver := snd (rd f (vi_driver vmi)) \<rparr>"
  show "vmi_read_page env f vmi = (page f, ?v)"
    using assms rd_page [of "vi_driver vmi" f]
    by (simp add: vmi_read_page_def driver_read_page_def drives_def paged_def case_prod_beta Let_def)
  show "paged ?v" using assms rd_inv by (simp add: paged_def)
  show "?v = vmi\<lparr> vi_driver := vi_driver ?v \<rparr>" by simp
qed

end

end
