(* ===== verification/Arch_Mode.thy ===== *)
theory Arch_Mode
  imports Vmi_State
begin

text \<open>
  Detection of the paging mode from the control registers, \<^verbatim>\<open>arch/arch_interface.c\<close>.
  The pointer \<^verbatim>\<open>out_pm\<close> is modelled by a flag that says whether it is given and by the
  value stored through it, \<open>None\<close> when nothing is stored.  The comparison of
  \<^verbatim>\<open>cr3\<close> with the maximal physical address only prints a note and is left out.
\<close>

abbreviation (input) CR0 :: reg_t where "CR0 \<equiv> 18"
abbreviation (input) CR3 :: reg_t where "CR3 \<equiv> 20"
abbreviation (input) CR4 :: reg_t where "CR4 \<equiv> 21"
abbreviation (input) MSR_EFER :: reg_t where "MSR_EFER \<equiv> 74"
abbreviation (input) CPSR :: reg_t where "CPSR \<equiv> 78"
abbreviation (input) TCR_EL1 :: reg_t where "TCR_EL1 \<equiv> 79"

section \<open>Detection\<close>

definition get_page_mode_x86 :: "u64 \<Rightarrow> u64 \<Rightarrow> u64 \<Rightarrow> page_mode_t" where
  "get_page_mode_x86 cr0 cr4 efer =
     (if \<not> VMI_GET_BIT cr0 31 then VMI_PM_NONE
      else if \<not> VMI_GET_BIT cr4 5 then VMI_PM_LEGACY
      else if \<not> VMI_GET_BIT efer 8 then VMI_PM_PAE
      else VMI_PM_IA32E)"

definition get_vcpu_page_mode_x86 :: "'s vmi_env \<Rightarrow> nat \<Rightarrow> bool \<Rightarrow> 's vmi_instance \<Rightarrow>
    status \<times> page_mode_t option \<times> 's vmi_instance" where
  "get_vcpu_page_mode_x86 env vcpu out_pm vmi =
     (case driver_get_vcpureg env CR0 vcpu vmi of
        (None, vmi) \<Rightarrow> (VMI_FAILURE, None, vmi)
      | (Some cr0, vmi) \<Rightarrow>
      if \<not> VMI_GET_BIT cr0 31
      then (VMI_SUCCESS, None, vmi\<lparr> vi_page_mode := VMI_PM_NONE, vi_pse := False \<rparr>)
      else case driver_get_vcpureg env CR4 vcpu vmi of
        (None, vmi) \<Rightarrow> (VMI_FAILURE, None, vmi)
      | (Some cr4, vmi) \<Rightarrow>
      let pae = VMI_GET_BIT cr4 5; pse = VMI_GET_BIT cr4 4 in
      case driver_get_vcpureg env MSR_EFER vcpu vmi of (efer, vmi) \<Rightarrow>
      let lme = (case efer of Some e \<Rightarrow> VMI_GET_BIT e 8 | None \<Rightarrow> vi_vm_type vmi = PV64) in
      case driver_get_vcpureg env CR3 vcpu vmi of
        (None, vmi) \<Rightarrow> (VMI_FAILURE, None, vmi)
      | (Some cr3, vmi) \<Rightarrow>
      let pm = (if \<not> pae then VMI_PM_LEGACY else if lme then VMI_PM_IA32E else VMI_PM_PAE) in
      if out_pm then (VMI_SUCCESS, Some pm, vmi)
      else (VMI_SUCCESS, None, vmi\<lparr> vi_page_mode := pm, vi_pse := pse \<rparr>))"

definition set_arm64 :: "u64 \<Rightarrow> 's vmi_instance \<Rightarrow> 's vmi_instance" where
  "set_arm64 tcr_el1 vmi =
     (let g0 = drop_bit 14 (tcr_el1 AND VMI_BIT_MASK 14 15);
          g1 = drop_bit 30 (tcr_el1 AND VMI_BIT_MASK 30 31) in
      vmi\<lparr> vi_t0sz := ucast (tcr_el1 AND VMI_BIT_MASK 0 5),
           vi_t1sz := ucast (drop_bit 16 (tcr_el1 AND VMI_BIT_MASK 16 21)),
           vi_tg0 := (if g0 = 0 then VMI_PS_4KB else if g0 = 1 then VMI_PS_64KB
                      else if g0 = 2 then VMI_PS_16KB else vi_tg0 vmi),
           vi_tg1 := (if g1 = 1 then VMI_PS_16KB else if g1 = 2 then VMI_PS_4KB
                      else if g1 = 3 then VMI_PS_64KB else vi_tg1 vmi) \<rparr>)"

definition get_vcpu_page_mode_arm :: "'s vmi_env \<Rightarrow> nat \<Rightarrow> bool \<Rightarrow> 's vmi_instance \<Rightarrow>
    status \<times> page_mode_t option \<times> 's vmi_instance" where
  "get_vcpu_page_mode_arm env vcpu out_pm vmi =
     (case driver_get_vcpureg env CPSR vcpu vmi of
        (None, vmi) \<Rightarrow> (VMI_FAILURE, None, vmi)
      | (Some cpsr, vmi) \<Rightarrow>
      let (pm, vmi) =
        (if cpsr AND 0x10 \<noteq> 0 then (VMI_PM_AARCH32, vmi)
         else case driver_get_vcpureg env TCR_EL1 vcpu vmi of
                (None, vmi) \<Rightarrow> (VMI_PM_AARCH64, vmi)
              | (Some tcr_el1, vmi) \<Rightarrow> (VMI_PM_AARCH64, set_arm64 tcr_el1 vmi))
      in if out_pm then (VMI_SUCCESS, Some pm, vmi)
         else (VMI_SUCCESS, None, vmi\<lparr> vi_page_mode := pm \<rparr>))"

definition get_vcpu_page_mode :: "'s vmi_env \<Rightarrow> nat \<Rightarrow> bool \<Rightarrow> 's vmi_instance \<Rightarrow>
    status \<times> page_mode_t option \<times> 's vmi_instance" where
  "get_vcpu_page_mode env vcpu out_pm vmi =
     (if vi_mode vmi = VMI_FILE then (VMI_FAILURE, None, vmi)
      else case get_vcpu_page_mode_x86 env vcpu out_pm vmi of
        (VMI_SUCCESS, r, vmi) \<Rightarrow> (VMI_SUCCESS, r, vmi)
      | (VMI_FAILURE, r, vmi) \<Rightarrow> get_vcpu_page_mode_arm env vcpu out_pm vmi)"

text \<open>\<^verbatim>\<open>arch_init\<close> passes the address of the instance's own page mode.\<close>

definition arch_init :: "'s vmi_env \<Rightarrow> 's vmi_instance \<Rightarrow> status \<times> 's vmi_instance" where
  "arch_init env vmi =
     (if vi_page_mode vmi \<noteq> VMI_PM_UNKNOWN then (VMI_SUCCESS, vmi)
      else case get_vcpu_page_mode env 0 True vmi of
        (st, None, vmi) \<Rightarrow> (st, vmi)
      | (st, Some pm, vmi) \<Rightarrow> (st, vmi\<lparr> vi_page_mode := pm \<rparr>))"

section \<open>Properties\<close>

lemma get_vcpureg_frame:
  "vi_pse (snd (driver_get_vcpureg env r vcpu vmi)) = vi_pse vmi"
  "vi_page_mode (snd (driver_get_vcpureg env r vcpu vmi)) = vi_page_mode vmi"
  "vi_mode (snd (driver_get_vcpureg env r vcpu vmi)) = vi_mode vmi"
  "vi_vm_type (snd (driver_get_vcpureg env r vcpu vmi)) = vi_vm_type vmi"
  by (simp_all add: driver_get_vcpureg_def case_prod_beta Let_def split: option.splits)

text \<open>A driver whose registers are fixed values.\<close>

definition regs_env :: "(reg_t \<Rightarrow> u64 option) \<Rightarrow> unit vmi_env" where
  "regs_env r = \<lparr> env_driver = \<lparr> drv_initialized = True, drv_read_page_ptr = None, drv_write_ptr = None,
     drv_mmap_guest = None, drv_get_vcpureg_ptr = Some (\<lambda>i vcpu s. (r i, s)) \<rparr>,
     env_os = None, env_stack_info = page_info_zero \<rparr>"

lemma regs_env_read: "driver_get_vcpureg (regs_env r) i vcpu vmi = (r i, vmi)"
  by (simp add: driver_get_vcpureg_def regs_env_def)

text \<open>C33. The mode stored for a virtual CPU is the one the registers define: when CR0, CR3, CR4 and the
  EFER register can be read, detecting without an output pointer stores exactly the mode that
  \<^verbatim>\<open>get_page_mode_x86\<close> computes from them.\<close>

theorem page_mode_from_registers:
  assumes "r CR0 = Some cr0" and "r CR3 = Some cr3" and "r CR4 = Some cr4" and "r MSR_EFER = Some efer"
    and "vi_mode vmi \<noteq> VMI_FILE"
  shows "\<exists>vmi'. get_vcpu_page_mode (regs_env r) vcpu False vmi = (VMI_SUCCESS, None, vmi') \<and>
    vi_page_mode vmi' = get_page_mode_x86 cr0 cr4 efer"
  using assms
  by (auto simp: get_vcpu_page_mode_def get_vcpu_page_mode_x86_def regs_env_read get_page_mode_x86_def Let_def)

definition mode_vmi0 :: "unit vmi_instance" where
  "mode_vmi0 = \<lparr> vi_mode = VMI_XEN, vi_os_type = VMI_OS_LINUX, vi_vm_type = HVM,
     vi_page_mode = VMI_PM_UNKNOWN, vi_kpgd = 0, vi_page_shift = 12, vi_page_size = 0x1000,
     vi_pse = False, vi_transition_pages = False, vi_t0sz = 0, vi_t1sz = 0, vi_tg0 = 0, vi_tg1 = 0,
     vi_max_physical_address = 0, vi_caches = addr_caches_init, vi_driver = () \<rparr>"

definition regs0 :: "reg_t \<Rightarrow> u64 option" where
  "regs0 i = (if i = CR0 then Some 0x80050033 else if i = CR4 then Some 0x6f8
     else if i = MSR_EFER then Some 0xd01 else if i = CR3 then Some 0x1000 else None)"

theorem page_mode_from_registers_witness:
  "vi_page_mode (snd (snd (get_vcpu_page_mode (regs_env regs0) 0 False mode_vmi0))) = VMI_PM_IA32E"
proof -
  have "get_page_mode_x86 0x80050033 0x6f8 0xd01 = VMI_PM_IA32E"
    by (simp add: get_page_mode_x86_def VMI_GET_BIT_def)
  then show ?thesis
    using page_mode_from_registers [of regs0 "0x80050033" "0x1000" "0x6f8" "0xd01" mode_vmi0 0]
    by (auto simp: regs0_def mode_vmi0_def)
qed

lemma x86_out_pse: "vi_pse (snd (snd (get_vcpu_page_mode_x86 env vcpu True vmi))) \<Longrightarrow> vi_pse vmi"
  by (auto simp: get_vcpu_page_mode_x86_def get_vcpureg_frame case_prod_beta Let_def
      split: option.splits if_splits)

lemma arm_pse: "vi_pse (snd (snd (get_vcpu_page_mode_arm env vcpu out vmi))) \<Longrightarrow> vi_pse vmi"
  by (auto simp: get_vcpu_page_mode_arm_def set_arm64_def get_vcpureg_frame case_prod_beta Let_def
      split: option.splits if_splits)

lemma page_mode_pse: "vi_pse (snd (snd (get_vcpu_page_mode env vcpu True vmi))) \<Longrightarrow> vi_pse vmi"
  by (auto simp: get_vcpu_page_mode_def case_prod_beta split: status.splits if_splits
      dest: x86_out_pse arm_pse)

text \<open>Initialisation never turns the large-page flag on: \<^verbatim>\<open>arch_init\<close> detects the mode
  through an output pointer, and on that path the flag \<^verbatim>\<open>x86.pse\<close> read from CR4 is
  dropped, so after it the flag is set only if it was set before.  The 32-bit walk treats a
  4 MB page as one only when the flag is set.\<close>

theorem arch_init_keeps_pse_off:
  assumes "\<not> vi_pse vmi"
  shows "\<not> vi_pse (snd (arch_init env vmi))"
  using assms page_mode_pse [of env 0 vmi]
  by (auto simp: arch_init_def split: prod.splits option.splits)

theorem arch_init_keeps_pse_off_witness:
  "VMI_GET_BIT (0x6f8 :: u64) 4 \<and> \<not> vi_pse (snd (arch_init (regs_env regs0) mode_vmi0))"
  using arch_init_keeps_pse_off [of mode_vmi0 "regs_env regs0"]
  by (simp add: VMI_GET_BIT_def mode_vmi0_def)

text \<open>Asking for the mode of a virtual CPU with paging disabled destroys the instance's mode: with
  an output pointer the detection stores nothing through it, sets the page mode of the whole
  instance to none, and reports success.\<close>

theorem page_mode_query_clobbers:
  assumes "r CR0 = Some cr0" and "\<not> VMI_GET_BIT cr0 31" and "vi_mode vmi \<noteq> VMI_FILE"
  shows "get_vcpu_page_mode (regs_env r) vcpu True vmi =
     (VMI_SUCCESS, None, vmi\<lparr> vi_page_mode := VMI_PM_NONE, vi_pse := False \<rparr>)"
  using assms by (simp add: get_vcpu_page_mode_def get_vcpu_page_mode_x86_def regs_env_read)

theorem page_mode_query_clobbers_witness:
  "vi_page_mode (snd (snd (get_vcpu_page_mode (regs_env (\<lambda>i. Some 0x10)) 1 True
     (mode_vmi0\<lparr> vi_page_mode := VMI_PM_IA32E \<rparr>)))) = VMI_PM_NONE"
  using page_mode_query_clobbers [of "\<lambda>i. Some 0x10" "0x10" "mode_vmi0\<lparr> vi_page_mode := VMI_PM_IA32E \<rparr>" 1]
  by (simp add: VMI_GET_BIT_def mode_vmi0_def)

end
