(* ===== verification/Vmi_Calls.thy ===== *)
theory Vmi_Calls
  imports Vmi_State
begin

text \<open>
  The typed reads of \<^verbatim>\<open>read.c\<close> that the page-table walks use.  They are wrappers
  around \<^verbatim>\<open>vmi_read\<close>, which itself calls the walks; here \<^verbatim>\<open>vmi_read\<close> is
  an argument, of type \<open>read_fn\<close>, and so is \<^verbatim>\<open>vmi_nested_pagetable_lookup\<close>, of
  type \<open>lookup_fn\<close>.  A value read is the little-endian word of the bytes delivered.
\<close>


type_synonym 's read_fn =
  "access_context \<Rightarrow> nat \<Rightarrow> 's vmi_instance \<Rightarrow> status \<times> u8 list \<times> 's vmi_instance"

text \<open>Arguments \<^verbatim>\<open>npt\<close>, \<^verbatim>\<open>npm\<close>, \<^verbatim>\<open>pt\<close>,
  \<^verbatim>\<open>pm\<close>, \<^verbatim>\<open>vaddr\<close>; on success the values stored through
  \<^verbatim>\<open>paddr\<close> and \<^verbatim>\<open>naddr\<close> (the latter is only written, and only read by the
  callers, under a nested page mode).\<close>

type_synonym 's lookup_fn =
  "addr_t \<Rightarrow> page_mode_t \<Rightarrow> addr_t \<Rightarrow> page_mode_t \<Rightarrow> addr_t \<Rightarrow> 's vmi_instance \<Rightarrow>
     (addr_t \<times> addr_t) option \<times> 's vmi_instance"

definition vmi_read_8 ::
  "'s read_fn \<Rightarrow> access_context \<Rightarrow> 's vmi_instance \<Rightarrow> u8 option \<times> 's vmi_instance" where
  "vmi_read_8 rd ctx vmi = (case rd ctx 1 vmi of
      (VMI_SUCCESS, bs, vmi') \<Rightarrow> (Some (word_of_bytes bs), vmi')
    | (VMI_FAILURE, bs, vmi') \<Rightarrow> (None, vmi'))"

definition vmi_read_16 ::
  "'s read_fn \<Rightarrow> access_context \<Rightarrow> 's vmi_instance \<Rightarrow> u16 option \<times> 's vmi_instance" where
  "vmi_read_16 rd ctx vmi = (case rd ctx 2 vmi of
      (VMI_SUCCESS, bs, vmi') \<Rightarrow> (Some (word_of_bytes bs), vmi')
    | (VMI_FAILURE, bs, vmi') \<Rightarrow> (None, vmi'))"

definition vmi_read_32 ::
  "'s read_fn \<Rightarrow> access_context \<Rightarrow> 's vmi_instance \<Rightarrow> u32 option \<times> 's vmi_instance" where
  "vmi_read_32 rd ctx vmi = (case rd ctx 4 vmi of
      (VMI_SUCCESS, bs, vmi') \<Rightarrow> (Some (word_of_bytes bs), vmi')
    | (VMI_FAILURE, bs, vmi') \<Rightarrow> (None, vmi'))"

definition vmi_read_64 ::
  "'s read_fn \<Rightarrow> access_context \<Rightarrow> 's vmi_instance \<Rightarrow> u64 option \<times> 's vmi_instance" where
  "vmi_read_64 rd ctx vmi = (case rd ctx 8 vmi of
      (VMI_SUCCESS, bs, vmi') \<Rightarrow> (Some (word_of_bytes bs), vmi')
    | (VMI_FAILURE, bs, vmi') \<Rightarrow> (None, vmi'))"

text \<open>\<^verbatim>\<open>vmi_read_pa\<close> and the typed reads of physical memory.\<close>

definition vmi_read_pa :: "'s read_fn \<Rightarrow> addr_t \<Rightarrow> nat \<Rightarrow> 's vmi_instance \<Rightarrow>
    status \<times> u8 list \<times> 's vmi_instance" where
  "vmi_read_pa rd paddr = rd (ACCESS_CONTEXT\<lparr> ac_addr := paddr \<rparr>)"

definition vmi_read_8_pa ::
  "'s read_fn \<Rightarrow> addr_t \<Rightarrow> 's vmi_instance \<Rightarrow> u8 option \<times> 's vmi_instance" where
  "vmi_read_8_pa rd paddr = vmi_read_8 rd (ACCESS_CONTEXT\<lparr> ac_addr := paddr \<rparr>)"

definition vmi_read_16_pa ::
  "'s read_fn \<Rightarrow> addr_t \<Rightarrow> 's vmi_instance \<Rightarrow> u16 option \<times> 's vmi_instance" where
  "vmi_read_16_pa rd paddr = vmi_read_16 rd (ACCESS_CONTEXT\<lparr> ac_addr := paddr \<rparr>)"

definition vmi_read_32_pa ::
  "'s read_fn \<Rightarrow> addr_t \<Rightarrow> 's vmi_instance \<Rightarrow> u32 option \<times> 's vmi_instance" where
  "vmi_read_32_pa rd paddr = vmi_read_32 rd (ACCESS_CONTEXT\<lparr> ac_addr := paddr \<rparr>)"

definition vmi_read_64_pa ::
  "'s read_fn \<Rightarrow> addr_t \<Rightarrow> 's vmi_instance \<Rightarrow> u64 option \<times> 's vmi_instance" where
  "vmi_read_64_pa rd paddr = vmi_read_64 rd (ACCESS_CONTEXT\<lparr> ac_addr := paddr \<rparr>)"

end
