(* ===== verification/Arch_X86.thy ===== *)
theory Arch_X86
  imports Vmi_Calls
begin

text \<open>
  The x86 page-table walks of \<^verbatim>\<open>arch/amd64.c\<close> (IA-32e, four levels),
  \<^verbatim>\<open>arch/intel.c\<close> (32-bit paging with and without PAE) and
  \<^verbatim>\<open>arch/ept.c\<close>, with the entry macros of \<^verbatim>\<open>x86.h\<close>.  A walk calls
  back into the library (\<^verbatim>\<open>vmi_read_32/64\<close> and
  \<^verbatim>\<open>vmi_nested_pagetable_lookup\<close>), so it takes these as arguments; the accessors tie
  the knot.  The \<^verbatim>\<open>page_info_t\<close> a walk fills in is passed in and out, because the
  caller's structure may be uninitialised and some exits leave parts of it untouched.

  The reference is \<open>radix_walk\<close>, one recursive function over the levels of a radix tree of
  64-bit entries; the four unrolled steps of the source are shown to compute it.
\<close>

section \<open>Entry bits\<close>

definition PAGE_SIZE :: "u64 \<Rightarrow> bool" where "PAGE_SIZE entry = VMI_GET_BIT entry 7"
definition PROTOTYPE :: "u64 \<Rightarrow> bool" where "PROTOTYPE entry = VMI_GET_BIT entry 10"
definition TRANSITION :: "u64 \<Rightarrow> bool" where "TRANSITION entry = VMI_GET_BIT entry 11"

definition ENTRY_PRESENT :: "bool \<Rightarrow> u64 \<Rightarrow> bool" where
  "ENTRY_PRESENT transition_pages entry =
     (if VMI_GET_BIT entry 0 then True
      else transition_pages \<and> TRANSITION entry \<and> \<not> PROTOTYPE entry)"

section \<open>IA-32e\<close>

definition get_pml4_index :: "addr_t \<Rightarrow> addr_t" where
  "get_pml4_index vaddr = drop_bit 36 (vaddr AND VMI_BIT_MASK 39 47)"

definition get_pml4e :: "'s read_fn \<Rightarrow> access_context \<Rightarrow> page_info \<Rightarrow> 's vmi_instance \<Rightarrow>
    status \<times> page_info \<times> 's vmi_instance" where
  "get_pml4e rd ctx info vmi =
     (let loc = (pi_pt info AND VMI_BIT_MASK 12 51) OR get_pml4_index (pi_vaddr info) in
      case vmi_read_64 rd (ctx\<lparr> ac_addr := loc \<rparr>) vmi of
        (None, vmi') \<Rightarrow> (VMI_FAILURE, info, vmi')
      | (Some v, vmi') \<Rightarrow>
          (VMI_SUCCESS, info\<lparr> pi_pml4e_value := v, pi_pml4e_location := loc \<rparr>, vmi'))"

definition get_pdpt_index_ia32e :: "addr_t \<Rightarrow> addr_t" where
  "get_pdpt_index_ia32e vaddr = drop_bit 27 (vaddr AND VMI_BIT_MASK 30 38)"

definition get_pdpte_ia32e :: "'s read_fn \<Rightarrow> access_context \<Rightarrow> page_info \<Rightarrow> 's vmi_instance \<Rightarrow>
    status \<times> page_info \<times> 's vmi_instance" where
  "get_pdpte_ia32e rd ctx info vmi =
     (let loc = (pi_pml4e_value info AND VMI_BIT_MASK 12 51) OR get_pdpt_index_ia32e (pi_vaddr info) in
      case vmi_read_64 rd (ctx\<lparr> ac_addr := loc \<rparr>) vmi of
        (None, vmi') \<Rightarrow> (VMI_FAILURE, info, vmi')
      | (Some v, vmi') \<Rightarrow>
          (VMI_SUCCESS, info\<lparr> pi_pdpte_value := v, pi_pdpte_location := loc \<rparr>, vmi'))"

definition get_pd_index_ia32e :: "addr_t \<Rightarrow> u64" where
  "get_pd_index_ia32e vaddr = drop_bit 18 (vaddr AND VMI_BIT_MASK 21 29)"

definition get_pde_ia32e :: "'s read_fn \<Rightarrow> access_context \<Rightarrow> page_info \<Rightarrow> 's vmi_instance \<Rightarrow>
    status \<times> page_info \<times> 's vmi_instance" where
  "get_pde_ia32e rd ctx info vmi =
     (let loc = (pi_pdpte_value info AND VMI_BIT_MASK 12 51) OR get_pd_index_ia32e (pi_vaddr info) in
      case vmi_read_64 rd (ctx\<lparr> ac_addr := loc \<rparr>) vmi of
        (None, vmi') \<Rightarrow> (VMI_FAILURE, info, vmi')
      | (Some v, vmi') \<Rightarrow>
          (VMI_SUCCESS, info\<lparr> pi_pgd_value := v, pi_pgd_location := loc \<rparr>, vmi'))"

definition get_pt_index_ia32e :: "addr_t \<Rightarrow> u64" where
  "get_pt_index_ia32e vaddr = drop_bit 9 (vaddr AND VMI_BIT_MASK 12 20)"

definition get_pte_ia32e :: "'s read_fn \<Rightarrow> access_context \<Rightarrow> page_info \<Rightarrow> 's vmi_instance \<Rightarrow>
    status \<times> page_info \<times> 's vmi_instance" where
  "get_pte_ia32e rd ctx info vmi =
     (let loc = (pi_pgd_value info AND VMI_BIT_MASK 12 51) OR get_pt_index_ia32e (pi_vaddr info) in
      case vmi_read_64 rd (ctx\<lparr> ac_addr := loc \<rparr>) vmi of
        (None, vmi') \<Rightarrow> (VMI_FAILURE, info, vmi')
      | (Some v, vmi') \<Rightarrow>
          (VMI_SUCCESS, info\<lparr> pi_pte_value := v, pi_pte_location := loc \<rparr>, vmi'))"

definition get_paddr_ia32e :: "addr_t \<Rightarrow> u64 \<Rightarrow> u64" where
  "get_paddr_ia32e vaddr pte = (pte AND VMI_BIT_MASK 12 51) OR (vaddr AND VMI_BIT_MASK 0 11)"

definition get_gigpage_ia32e :: "addr_t \<Rightarrow> u64 \<Rightarrow> u64" where
  "get_gigpage_ia32e vaddr pdpte = (pdpte AND VMI_BIT_MASK 30 51) OR (vaddr AND VMI_BIT_MASK 0 29)"

definition get_2megpage_ia32e :: "addr_t \<Rightarrow> u64 \<Rightarrow> u64" where
  "get_2megpage_ia32e vaddr pde = (pde AND VMI_BIT_MASK 21 51) OR (vaddr AND VMI_BIT_MASK 0 20)"

text \<open>The code up to the label \<^verbatim>\<open>done\<close>; a jump to it is a result.\<close>

definition v2p_ia32e_walk :: "'s read_fn \<Rightarrow> access_context \<Rightarrow> page_info \<Rightarrow> 's vmi_instance \<Rightarrow>
    status \<times> page_info \<times> 's vmi_instance" where
  "v2p_ia32e_walk rd ctx info vmi =
     (case get_pml4e rd ctx info vmi of
        (VMI_FAILURE, info, vmi) \<Rightarrow> (VMI_FAILURE, info, vmi)
      | (VMI_SUCCESS, info, vmi) \<Rightarrow>
      if \<not> ENTRY_PRESENT (vi_transition_pages vmi) (pi_pml4e_value info)
      then (VMI_FAILURE, info, vmi)
      else case get_pdpte_ia32e rd ctx info vmi of
        (VMI_FAILURE, info, vmi) \<Rightarrow> (VMI_FAILURE, info, vmi)
      | (VMI_SUCCESS, info, vmi) \<Rightarrow>
      if \<not> ENTRY_PRESENT (vi_transition_pages vmi) (pi_pdpte_value info)
      then (VMI_FAILURE, info, vmi)
      else if PAGE_SIZE (pi_pdpte_value info)
      then (VMI_SUCCESS, info\<lparr> pi_size := VMI_PS_1GB,
              pi_paddr := get_gigpage_ia32e (pi_vaddr info) (pi_pdpte_value info) \<rparr>, vmi)
      else case get_pde_ia32e rd ctx info vmi of
        (VMI_FAILURE, info, vmi) \<Rightarrow> (VMI_FAILURE, info, vmi)
      | (VMI_SUCCESS, info, vmi) \<Rightarrow>
      if \<not> ENTRY_PRESENT (vi_transition_pages vmi) (pi_pgd_value info)
      then (VMI_FAILURE, info, vmi)
      else if PAGE_SIZE (pi_pgd_value info)
      then (VMI_SUCCESS, info\<lparr> pi_size := VMI_PS_2MB,
              pi_paddr := get_2megpage_ia32e (pi_vaddr info) (pi_pgd_value info) \<rparr>, vmi)
      else case get_pte_ia32e rd ctx info vmi of
        (VMI_FAILURE, info, vmi) \<Rightarrow> (VMI_FAILURE, info, vmi)
      | (VMI_SUCCESS, info, vmi) \<Rightarrow>
      if \<not> ENTRY_PRESENT (vi_transition_pages vmi) (pi_pte_value info)
      then (VMI_FAILURE, info, vmi)
      else (VMI_SUCCESS, info\<lparr> pi_size := VMI_PS_4KB,
              pi_paddr := get_paddr_ia32e (pi_vaddr info) (pi_pte_value info) \<rparr>, vmi))"

text \<open>The code after \<^verbatim>\<open>done\<close>, the same in the three x86 walks: under a nested page
  mode the physical address is translated once more, whatever the status so far.\<close>

definition walk_done :: "'s lookup_fn \<Rightarrow> addr_t \<Rightarrow> page_mode_t \<Rightarrow>
    status \<times> page_info \<times> 's vmi_instance \<Rightarrow> status \<times> page_info \<times> 's vmi_instance" where
  "walk_done look npt npm r = (case r of (status, info, vmi) \<Rightarrow>
     if valid_npm npm then
       (case look 0 0 npt npm (pi_paddr info) vmi of
          (None, vmi') \<Rightarrow> (VMI_FAILURE, info, vmi')
        | (Some (paddr, _), vmi') \<Rightarrow> (status, info\<lparr> pi_naddr := paddr \<rparr>, vmi'))
     else (status, info, vmi))"

definition v2p_ia32e :: "'s read_fn \<Rightarrow> 's lookup_fn \<Rightarrow> addr_t \<Rightarrow> page_mode_t \<Rightarrow> addr_t \<Rightarrow> addr_t \<Rightarrow>
    page_info \<Rightarrow> 's vmi_instance \<Rightarrow> status \<times> page_info \<times> 's vmi_instance" where
  "v2p_ia32e rd look npt npm pt vaddr info vmi =
     walk_done look npt npm
       (v2p_ia32e_walk rd (ACCESS_CONTEXT\<lparr> ac_npt := npt, ac_npm := npm \<rparr>)
          (info\<lparr> pi_npt := npt, pi_npm := npm, pi_pt := pt, pi_pm := VMI_PM_IA32E,
                 pi_vaddr := vaddr \<rparr>) vmi)"

definition v2p_ept_4l :: "'s read_fn \<Rightarrow> 's lookup_fn \<Rightarrow> addr_t \<Rightarrow> page_mode_t \<Rightarrow> addr_t \<Rightarrow> addr_t \<Rightarrow>
    page_info \<Rightarrow> 's vmi_instance \<Rightarrow> status \<times> page_info \<times> 's vmi_instance" where
  "v2p_ept_4l rd look npt npm pt vaddr info vmi = v2p_ia32e rd look 0 0 pt vaddr info vmi"

section \<open>32-bit paging\<close>

text \<open>Addresses are cut to 32 bits where the source passes an \<^verbatim>\<open>addr_t\<close> to a
  \<^verbatim>\<open>uint32_t\<close> parameter.\<close>

definition get_pdptb :: "u64 \<Rightarrow> u64" where
  "get_pdptb pdpr = pdpr AND VMI_BIT_MASK 5 63"

definition pdpi_index :: "u32 \<Rightarrow> u32" where
  "pdpi_index pdpi = drop_bit 30 pdpi * 8"

definition get_pdpi :: "'s read_fn \<Rightarrow> access_context \<Rightarrow> page_info \<Rightarrow> 's vmi_instance \<Rightarrow>
    status \<times> page_info \<times> 's vmi_instance" where
  "get_pdpi rd ctx info vmi =
     (let loc = get_pdptb (pi_pt info) + ucast (pdpi_index (ucast (pi_vaddr info))) in
      case vmi_read_64 rd (ctx\<lparr> ac_addr := loc \<rparr>) vmi of
        (None, vmi') \<Rightarrow> (VMI_FAILURE, info, vmi')
      | (Some v, vmi') \<Rightarrow>
          (VMI_SUCCESS, info\<lparr> pi_pdpte_value := v, pi_pdpte_location := loc \<rparr>, vmi'))"

definition pgd_index_nopae :: "u32 \<Rightarrow> u32" where
  "pgd_index_nopae address = ucast ((ucast (drop_bit 22 address) AND VMI_BIT_MASK 0 9) * 4)"

definition pgd_index_pae :: "u32 \<Rightarrow> u32" where
  "pgd_index_pae address = ucast ((ucast (drop_bit 21 address) AND VMI_BIT_MASK 0 8) * 8)"

definition pdba_base_nopae :: "u32 \<Rightarrow> u32" where
  "pdba_base_nopae pdpe = ucast (ucast pdpe AND VMI_BIT_MASK 12 31)"

definition pdba_base_pae :: "u64 \<Rightarrow> u64" where
  "pdba_base_pae pdpe = pdpe AND VMI_BIT_MASK 12 51"

text \<open>The directory base is taken from \<^verbatim>\<open>ctx->pt\<close>, a field of the access context the
  entry is read with, not from \<^verbatim>\<open>info->pt\<close>.  The sum of the two
  \<^verbatim>\<open>uint32_t\<close> values is a \<^verbatim>\<open>uint32_t\<close>.\<close>

definition get_pgd_nopae :: "'s read_fn \<Rightarrow> access_context \<Rightarrow> page_info \<Rightarrow> 's vmi_instance \<Rightarrow>
    status \<times> page_info \<times> 's vmi_instance" where
  "get_pgd_nopae rd ctx info vmi =
     (let loc = ucast (pdba_base_nopae (ucast (ac_pt ctx)) + pgd_index_nopae (ucast (pi_vaddr info)));
          info = info\<lparr> pi_pgd_value := 0 \<rparr> in
      case vmi_read_32 rd (ctx\<lparr> ac_addr := loc \<rparr>) vmi of
        (None, vmi') \<Rightarrow> (VMI_FAILURE, info, vmi')
      | (Some v, vmi') \<Rightarrow>
          (VMI_SUCCESS, info\<lparr> pi_pgd_value := ucast v, pi_pgd_location := loc \<rparr>, vmi'))"

definition get_pgd_pae :: "'s read_fn \<Rightarrow> access_context \<Rightarrow> page_info \<Rightarrow> 's vmi_instance \<Rightarrow>
    status \<times> page_info \<times> 's vmi_instance" where
  "get_pgd_pae rd ctx info vmi =
     (let loc = pdba_base_pae (pi_pdpte_value info) + ucast (pgd_index_pae (ucast (pi_vaddr info))) in
      case vmi_read_64 rd (ctx\<lparr> ac_addr := loc \<rparr>) vmi of
        (None, vmi') \<Rightarrow> (VMI_FAILURE, info, vmi')
      | (Some v, vmi') \<Rightarrow>
          (VMI_SUCCESS, info\<lparr> pi_pgd_value := v, pi_pgd_location := loc \<rparr>, vmi'))"

definition pte_index_nopae :: "u32 \<Rightarrow> u32" where
  "pte_index_nopae address = ucast ((ucast (drop_bit 12 address) AND VMI_BIT_MASK 0 9) * 4)"

definition pte_index_pae :: "u32 \<Rightarrow> u32" where
  "pte_index_pae address = ucast ((ucast (drop_bit 12 address) AND VMI_BIT_MASK 0 8) * 8)"

definition ptba_base_nopae :: "u32 \<Rightarrow> u32" where
  "ptba_base_nopae pde = ucast (ucast pde AND VMI_BIT_MASK 12 31)"

definition ptba_base_pae :: "u64 \<Rightarrow> u64" where
  "ptba_base_pae pde = pde AND VMI_BIT_MASK 12 35"

definition get_pte_nopae :: "'s read_fn \<Rightarrow> access_context \<Rightarrow> page_info \<Rightarrow> 's vmi_instance \<Rightarrow>
    status \<times> page_info \<times> 's vmi_instance" where
  "get_pte_nopae rd ctx info vmi =
     (let loc = ucast (ptba_base_nopae (ucast (pi_pgd_value info)) + pte_index_nopae (ucast (pi_vaddr info)));
          info = info\<lparr> pi_pte_value := 0 \<rparr> in
      case vmi_read_32 rd (ctx\<lparr> ac_addr := loc \<rparr>) vmi of
        (None, vmi') \<Rightarrow> (VMI_FAILURE, info, vmi')
      | (Some v, vmi') \<Rightarrow>
          (VMI_SUCCESS, info\<lparr> pi_pte_value := ucast v, pi_pte_location := loc \<rparr>, vmi'))"

definition get_pte_pae :: "'s read_fn \<Rightarrow> access_context \<Rightarrow> page_info \<Rightarrow> 's vmi_instance \<Rightarrow>
    status \<times> page_info \<times> 's vmi_instance" where
  "get_pte_pae rd ctx info vmi =
     (let loc = ptba_base_pae (pi_pgd_value info) + ucast (pte_index_pae (ucast (pi_vaddr info))) in
      case vmi_read_64 rd (ctx\<lparr> ac_addr := loc \<rparr>) vmi of
        (None, vmi') \<Rightarrow> (VMI_FAILURE, info, vmi')
      | (Some v, vmi') \<Rightarrow>
          (VMI_SUCCESS, info\<lparr> pi_pte_value := v, pi_pte_location := loc \<rparr>, vmi'))"

definition pte_pfn_nopae :: "u32 \<Rightarrow> u32" where
  "pte_pfn_nopae pte = ucast (ucast pte AND VMI_BIT_MASK 12 31)"

definition pte_pfn_pae :: "u64 \<Rightarrow> u64" where
  "pte_pfn_pae pte = pte AND VMI_BIT_MASK 12 35"

definition get_paddr_nopae :: "u32 \<Rightarrow> u32 \<Rightarrow> u32" where
  "get_paddr_nopae vaddr pte = ucast (ucast (pte_pfn_nopae pte) OR (ucast vaddr AND VMI_BIT_MASK 0 11))"

definition get_paddr_pae :: "u32 \<Rightarrow> u64 \<Rightarrow> u64" where
  "get_paddr_pae vaddr pte = pte_pfn_pae pte OR (ucast vaddr AND VMI_BIT_MASK 0 11)"

definition get_large_paddr_nopae :: "u32 \<Rightarrow> u32 \<Rightarrow> u32" where
  "get_large_paddr_nopae vaddr pgd_entry =
     ucast ((ucast pgd_entry AND VMI_BIT_MASK 22 31) OR (ucast vaddr AND VMI_BIT_MASK 0 21))"

definition get_large_paddr_pae :: "u32 \<Rightarrow> u32 \<Rightarrow> u32" where
  "get_large_paddr_pae vaddr pgd_entry =
     ucast ((ucast pgd_entry AND VMI_BIT_MASK 21 31) OR (ucast vaddr AND VMI_BIT_MASK 0 20))"

definition v2p_nopae_walk :: "'s read_fn \<Rightarrow> access_context \<Rightarrow> page_info \<Rightarrow> 's vmi_instance \<Rightarrow>
    status \<times> page_info \<times> 's vmi_instance" where
  "v2p_nopae_walk rd ctx info vmi =
     (case get_pgd_nopae rd ctx info vmi of
        (VMI_FAILURE, info, vmi) \<Rightarrow> (VMI_FAILURE, info, vmi)
      | (VMI_SUCCESS, info, vmi) \<Rightarrow>
      if \<not> ENTRY_PRESENT (vi_transition_pages vmi) (pi_pgd_value info)
      then (VMI_FAILURE, info, vmi)
      else if PAGE_SIZE (pi_pgd_value info) \<and> (vi_mode vmi = VMI_FILE \<or> vi_pse vmi)
      then (VMI_SUCCESS, info\<lparr> pi_paddr := ucast (get_large_paddr_nopae (ucast (pi_vaddr info))
                                                 (ucast (pi_pgd_value info))),
              pi_size := VMI_PS_4MB \<rparr>, vmi)
      else case get_pte_nopae rd ctx info vmi of
        (VMI_FAILURE, info, vmi) \<Rightarrow> (VMI_FAILURE, info, vmi)
      | (VMI_SUCCESS, info, vmi) \<Rightarrow>
      if \<not> ENTRY_PRESENT (vi_transition_pages vmi) (pi_pte_value info)
      then (VMI_FAILURE, info, vmi)
      else (VMI_SUCCESS, info\<lparr> pi_size := VMI_PS_4KB,
              pi_paddr := ucast (get_paddr_nopae (ucast (pi_vaddr info)) (ucast (pi_pte_value info))) \<rparr>,
            vmi))"

definition v2p_nopae :: "'s read_fn \<Rightarrow> 's lookup_fn \<Rightarrow> addr_t \<Rightarrow> page_mode_t \<Rightarrow> addr_t \<Rightarrow> addr_t \<Rightarrow>
    page_info \<Rightarrow> 's vmi_instance \<Rightarrow> status \<times> page_info \<times> 's vmi_instance" where
  "v2p_nopae rd look npt npm pt vaddr info vmi =
     walk_done look npt npm
       (v2p_nopae_walk rd (ACCESS_CONTEXT\<lparr> ac_npt := npt, ac_npm := npm \<rparr>)
          (info\<lparr> pi_npt := npt, pi_npm := npm, pi_pt := pt, pi_pm := VMI_PM_LEGACY,
                 pi_vaddr := vaddr \<rparr>) vmi)"

text \<open>An absent page-directory-pointer entry leaves with the status of the successful read.\<close>

definition v2p_pae_walk :: "'s read_fn \<Rightarrow> access_context \<Rightarrow> page_info \<Rightarrow> 's vmi_instance \<Rightarrow>
    status \<times> page_info \<times> 's vmi_instance" where
  "v2p_pae_walk rd ctx info vmi =
     (case get_pdpi rd ctx info vmi of
        (VMI_FAILURE, info, vmi) \<Rightarrow> (VMI_FAILURE, info, vmi)
      | (VMI_SUCCESS, info, vmi) \<Rightarrow>
      if \<not> ENTRY_PRESENT (vi_transition_pages vmi) (pi_pdpte_value info)
      then (VMI_SUCCESS, info, vmi)
      else case get_pgd_pae rd ctx info vmi of
        (VMI_FAILURE, info, vmi) \<Rightarrow> (VMI_FAILURE, info, vmi)
      | (VMI_SUCCESS, info, vmi) \<Rightarrow>
      if \<not> ENTRY_PRESENT (vi_transition_pages vmi) (pi_pgd_value info)
      then (VMI_FAILURE, info, vmi)
      else if PAGE_SIZE (pi_pgd_value info)
      then (VMI_SUCCESS, info\<lparr> pi_paddr := ucast (get_large_paddr_pae (ucast (pi_vaddr info))
                                                 (ucast (pi_pgd_value info))),
              pi_size := VMI_PS_2MB \<rparr>, vmi)
      else case get_pte_pae rd ctx info vmi of
        (VMI_FAILURE, info, vmi) \<Rightarrow> (VMI_FAILURE, info, vmi)
      | (VMI_SUCCESS, info, vmi) \<Rightarrow>
      if \<not> ENTRY_PRESENT (vi_transition_pages vmi) (pi_pte_value info)
      then (VMI_FAILURE, info, vmi)
      else (VMI_SUCCESS, info\<lparr> pi_size := VMI_PS_4KB,
              pi_paddr := get_paddr_pae (ucast (pi_vaddr info)) (pi_pte_value info) \<rparr>, vmi))"

definition v2p_pae :: "'s read_fn \<Rightarrow> 's lookup_fn \<Rightarrow> addr_t \<Rightarrow> page_mode_t \<Rightarrow> addr_t \<Rightarrow> addr_t \<Rightarrow>
    page_info \<Rightarrow> 's vmi_instance \<Rightarrow> status \<times> page_info \<times> 's vmi_instance" where
  "v2p_pae rd look npt npm pt vaddr info vmi =
     walk_done look npt npm
       (v2p_pae_walk rd (ACCESS_CONTEXT\<lparr> ac_npt := npt, ac_npm := npm \<rparr>)
          (info\<lparr> pi_vaddr := vaddr, pi_pm := VMI_PM_PAE, pi_pt := pt, pi_npt := npt,
                 pi_npm := npm \<rparr>) vmi)"

section \<open>Reference walk\<close>

definition entry_present :: "bool \<Rightarrow> u64 \<Rightarrow> bool" where
  "entry_present tp e \<longleftrightarrow> bit e 0 \<or> tp \<and> bit e 11 \<and> \<not> bit e 10"

fun radix_walk :: "(addr_t \<Rightarrow> u64 option) \<Rightarrow> bool \<Rightarrow> nat \<Rightarrow> addr_t \<Rightarrow> addr_t \<Rightarrow> (addr_t \<times> nat) option"
where
  "radix_walk ent tp 0 table va = None"
| "radix_walk ent tp (Suc l) table va =
     (let shift = 12 + 9 * l;
          loc = clear_low 12 (take_bit 52 table) OR push_bit 3 (take_bit 9 (drop_bit shift va))
      in case ent loc of
           None \<Rightarrow> None
         | Some e \<Rightarrow>
             if \<not> entry_present tp e then None
             else if l = 0 \<or> l \<le> 2 \<and> bit e 7
             then Some (clear_low shift (take_bit 52 e) OR take_bit shift va, shift)
             else radix_walk ent tp l e va)"

lemma ENTRY_PRESENT_iff: "ENTRY_PRESENT tp e = entry_present tp e"
  by (auto simp: ENTRY_PRESENT_def entry_present_def TRANSITION_def PROTOTYPE_def vmi_bits)

lemma index_ia32e:
  "get_pml4_index va = push_bit 3 (take_bit 9 (drop_bit 39 va))"
  "get_pdpt_index_ia32e va = push_bit 3 (take_bit 9 (drop_bit 30 va))"
  "get_pd_index_ia32e va = push_bit 3 (take_bit 9 (drop_bit 21 va))"
  "get_pt_index_ia32e va = push_bit 3 (take_bit 9 (drop_bit 12 va))"
  by (rule bit_word_eqI; auto simp: get_pml4_index_def get_pdpt_index_ia32e_def
      get_pd_index_ia32e_def get_pt_index_ia32e_def vmi_bits bit_simps)+

lemma mask_clear_low: "b < 64 \<Longrightarrow> (w :: u64) AND VMI_BIT_MASK a b = clear_low a (take_bit (Suc b) w)"
  by (rule bit_word_eqI) (auto simp: vmi_bits bit_simps)

lemma mask_low: "b < 64 \<Longrightarrow> (w :: u64) AND VMI_BIT_MASK 0 b = take_bit (Suc b) w"
  by (rule bit_word_eqI) (auto simp: vmi_bits bit_simps)

lemma clear_low_0 [simp]: "clear_low 0 w = w"
  by (simp add: clear_low_def)

lemmas paddr_ia32e = get_paddr_ia32e_def get_gigpage_ia32e_def get_2megpage_ia32e_def

text \<open>A walk maps whole pages of at least 4 KB.\<close>

lemma same_page_bits:
  assumes "clear_low 12 va' = clear_low 12 (va :: u64)" and "12 \<le> n"
  shows "bit va' n = bit va n"
proof -
  have "bit (clear_low 12 va') n = bit (clear_low 12 va) n" using assms by simp
  then show ?thesis using assms(2) by (simp add: vmi_bits)
qed

lemma radix_walk_page:
  assumes "clear_low 12 va' = clear_low 12 va" and "radix_walk ent tp l table va = Some (pa, sh)"
  shows "radix_walk ent tp l table va' = Some (clear_low 12 pa OR (VMI_BIT_MASK 0 11 AND va'), sh)"
  using assms(2)
proof (induction l arbitrary: table)
  case (Suc l)
  note same = same_page_bits [OF assms(1)]
  have idx: "take_bit 9 (drop_bit (12 + 9 * l) va') = take_bit 9 (drop_bit (12 + 9 * l) va)"
    by (rule bit_word_eqI) (auto simp: bit_simps same)
  have off: "clear_low (12 + 9 * l) w OR take_bit (12 + 9 * l) va' =
    clear_low 12 (clear_low (12 + 9 * l) w OR take_bit (12 + 9 * l) va) OR (VMI_BIT_MASK 0 11 AND va')"
    for w :: u64
    by (rule bit_word_eqI) (auto simp: bit_simps vmi_bits same)
  show ?case
    using Suc.prems Suc.IH
    by (auto simp: Let_def idx off split: option.splits if_splits)
qed simp

lemma radix_walk_shift: "radix_walk ent tp l table va = Some (pa, sh) \<Longrightarrow> sh = 12 \<or> sh = 21 \<or> sh = 30"
proof (induction l arbitrary: table)
  case (Suc l)
  have "l \<le> 2 \<Longrightarrow> l = 0 \<or> l = 1 \<or> l = 2" by arith
  with Suc show ?case by (auto simp: Let_def split: option.splits if_splits)
qed simp

lemma index_pae:
  "ucast (pdpi_index (ucast va)) = (push_bit 3 (take_bit 2 (drop_bit 30 va)) :: u64)"
  "ucast (pgd_index_pae (ucast va)) = (push_bit 3 (take_bit 9 (drop_bit 21 va)) :: u64)"
  "ucast (pte_index_pae (ucast va)) = (push_bit 3 (take_bit 9 (drop_bit 12 va)) :: u64)"
proof -
  have mult: "x * 8 = push_bit 3 x" for x :: "'a::len word"
    by (simp add: push_bit_eq_mult)
  show "ucast (pdpi_index (ucast va)) = (push_bit 3 (take_bit 2 (drop_bit 30 va)) :: u64)"
    "ucast (pgd_index_pae (ucast va)) = (push_bit 3 (take_bit 9 (drop_bit 21 va)) :: u64)"
    "ucast (pte_index_pae (ucast va)) = (push_bit 3 (take_bit 9 (drop_bit 12 va)) :: u64)"
    unfolding pdpi_index_def pgd_index_pae_def pte_index_pae_def mult
    by (rule bit_word_eqI; auto simp: vmi_bits bit_simps)+
qed

text \<open>Entries the PAE code handles exactly: frames below 64 GB, 2 MB pages below 4 GB.\<close>

definition narrow_entry :: "u64 \<Rightarrow> bool" where
  "narrow_entry e \<longleftrightarrow> take_bit 52 e = take_bit (if bit e 7 then 32 else 36) e"

lemma bases_pae:
  "pdba_base_pae e + push_bit 3 (take_bit 9 x) = clear_low 12 (take_bit 52 e) OR push_bit 3 (take_bit 9 x)"
  "ptba_base_pae e + push_bit 3 (take_bit 9 x) = clear_low 12 (take_bit 36 e) OR push_bit 3 (take_bit 9 x)"
proof -
  have add: "clear_low 12 w + push_bit 3 (take_bit 9 x) = clear_low 12 w OR push_bit 3 (take_bit 9 x)"
    for w :: u64
    by (rule disjunctive_add_eq_or) (rule bit_word_eqI, auto simp: vmi_bits bit_simps)
  show "pdba_base_pae e + push_bit 3 (take_bit 9 x) = clear_low 12 (take_bit 52 e) OR push_bit 3 (take_bit 9 x)"
    "ptba_base_pae e + push_bit 3 (take_bit 9 x) = clear_low 12 (take_bit 36 e) OR push_bit 3 (take_bit 9 x)"
    by (simp_all add: pdba_base_pae_def ptba_base_pae_def mask_clear_low add)
qed

lemma narrow_bits:
  assumes "narrow_entry e" and "n < 52" and "bit e n"
  shows "n < 36" and "bit e 7 \<Longrightarrow> n < 32"
proof -
  have "bit (take_bit 52 e) n" using assms by (simp add: bit_simps)
  then have *: "bit (take_bit (if bit e 7 then 32 else 36) e) n"
    using assms(1) by (simp add: narrow_entry_def)
  then show "n < 36" and "bit e 7 \<Longrightarrow> n < 32"
    by (auto simp: bit_take_bit_iff split: if_splits)
qed

lemma bases_pae_narrow:
  assumes "narrow_entry e"
  shows "clear_low 12 (take_bit 36 e) = clear_low 12 (take_bit 52 e)"
    and "get_paddr_pae (ucast va) e = clear_low 12 (take_bit 52 e) OR take_bit 12 va"
    and "bit e 7 \<Longrightarrow> ucast (get_large_paddr_pae (ucast va) (ucast e)) =
     clear_low 21 (take_bit 52 e) OR take_bit 21 va"
  by (rule bit_word_eqI; auto simp: get_paddr_pae_def pte_pfn_pae_def get_large_paddr_pae_def
      vmi_bits bit_simps dest: narrow_bits [OF assms])+

section \<open>The IA-32e walk computes the reference\<close>

locale entry_reader =
  fixes rd :: "'s read_fn" and ctx :: access_context and good :: "'s vmi_instance \<Rightarrow> bool"
    and tp :: bool and ent :: "addr_t \<Rightarrow> u64 option"
  assumes read_entry: "good vmi \<Longrightarrow> fst (vmi_read_64 rd (ctx\<lparr> ac_addr := a \<rparr>) vmi) = ent a"
    and read_good: "good vmi \<Longrightarrow> good (snd (vmi_read_64 rd (ctx\<lparr> ac_addr := a \<rparr>) vmi))"
    and good_tp: "good vmi \<Longrightarrow> vi_transition_pages vmi = tp"
begin

lemma read_cases:
  assumes "good vmi"
  obtains vmi' where "vmi_read_64 rd (ctx\<lparr> ac_addr := a \<rparr>) vmi = (ent a, vmi')" "good vmi'"
    "vi_transition_pages vmi' = tp"
  using read_entry [OF assms, of a] read_good [OF assms, of a] good_tp
  by (metis prod.collapse)

lemma ia32e_walk_refines:
  assumes "good vmi"
  shows "case v2p_ia32e_walk rd ctx info vmi of (st, info', vmi') \<Rightarrow> good vmi' \<and>
    (case radix_walk ent tp 4 (pi_pt info) (pi_vaddr info) of
       None \<Rightarrow> st = VMI_FAILURE
     | Some (pa, sh) \<Rightarrow> st = VMI_SUCCESS \<and> pi_paddr info' = pa \<and> pi_size info' = 2 ^ sh)"
proof -
  note bits = ENTRY_PRESENT_iff PAGE_SIZE_def VMI_GET_BIT_iff index_ia32e mask_clear_low mask_low
    paddr_ia32e
  have four: "radix_walk ent tp 4 = radix_walk ent tp (Suc (Suc (Suc (Suc 0))))"
    by (simp add: numeral_eq_Suc)
  show ?thesis
    using assms unfolding four v2p_ia32e_walk_def get_pml4e_def get_pdpte_ia32e_def get_pde_ia32e_def
      get_pte_ia32e_def
    by (auto simp: bits Let_def case_prod_beta read_entry read_good good_tp
        split: option.splits status.splits if_splits)
qed

lemma pae_walk_refines:
  assumes "good vmi" and nar: "\<And>a e. ent a = Some e \<Longrightarrow> narrow_entry e"
  shows "case v2p_pae_walk rd ctx info vmi of (st, info', vmi') \<Rightarrow> good vmi' \<and>
    (case ent (get_pdptb (pi_pt info) + push_bit 3 (take_bit 2 (drop_bit 30 (pi_vaddr info)))) of
       None \<Rightarrow> st = VMI_FAILURE
     | Some pdpe \<Rightarrow>
         if entry_present tp pdpe
         then (case radix_walk ent tp 2 pdpe (pi_vaddr info) of
                 None \<Rightarrow> st = VMI_FAILURE
               | Some (pa, sh) \<Rightarrow> st = VMI_SUCCESS \<and> pi_paddr info' = pa \<and> pi_size info' = 2 ^ sh)
         else st = VMI_SUCCESS \<and> pi_paddr info' = pi_paddr info)"
proof -
  note bits = ENTRY_PRESENT_iff PAGE_SIZE_def VMI_GET_BIT_iff index_pae bases_pae
  have two: "radix_walk ent tp 2 = radix_walk ent tp (Suc (Suc 0))"
    by (simp add: numeral_eq_Suc)
  show ?thesis
    using assms(1) unfolding two v2p_pae_walk_def get_pdpi_def get_pgd_pae_def get_pte_pae_def
    by (auto simp: bits bases_pae_narrow nar Let_def case_prod_beta read_entry read_good good_tp
        split: option.splits status.splits if_splits)
qed

end

section \<open>The page-table base in the 32-bit walk\<close>

definition with_pt :: "addr_t \<Rightarrow> 'a \<times> page_info \<times> 'b \<Rightarrow> 'a \<times> page_info \<times> 'b" where
  "with_pt p r = (case r of (st, info, vmi) \<Rightarrow> (st, info\<lparr> pi_pt := p \<rparr>, vmi))"

lemma with_pt_get_pgd:
  "get_pgd_nopae rd ctx (info\<lparr> pi_pt := p \<rparr>) vmi = with_pt p (get_pgd_nopae rd ctx info vmi)"
  by (simp add: get_pgd_nopae_def with_pt_def Let_def split: prod.splits option.splits)

lemma with_pt_get_pte:
  "get_pte_nopae rd ctx (info\<lparr> pi_pt := p \<rparr>) vmi = with_pt p (get_pte_nopae rd ctx info vmi)"
  by (simp add: get_pte_nopae_def with_pt_def Let_def split: prod.splits option.splits)

lemma with_pt_walk:
  "v2p_nopae_walk rd ctx (info\<lparr> pi_pt := p \<rparr>) vmi = with_pt p (v2p_nopae_walk rd ctx info vmi)"
proof -
  obtain st1 i1 v1 where 1: "get_pgd_nopae rd ctx info vmi = (st1, i1, v1)" by (metis prod_cases3)
  obtain st2 i2 v2 where 2: "get_pte_nopae rd ctx i1 v1 = (st2, i2, v2)" by (metis prod_cases3)
  show ?thesis
    by (cases st1; cases st2)
      (auto simp: v2p_nopae_walk_def with_pt_get_pgd with_pt_get_pte 1 2 with_pt_def)
qed

lemma with_pt_done: "walk_done look npt npm (with_pt p r) = with_pt p (walk_done look npt npm r)"
  by (simp add: walk_done_def with_pt_def split: prod.splits option.splits)

section \<open>Properties\<close>

text \<open>The 32-bit walk without PAE does not depend on the page-table base it is given: the base
  only ends up in the \<^verbatim>\<open>pt\<close> field of the result.  The directory is read at the base
  taken from the access context, which the walk itself created with a zero base, so every
  address space is walked as if its directory were at physical address 0.\<close>

theorem v2p_nopae_ignores_base:
  "v2p_nopae rd look npt npm pt va info vmi =
     (case v2p_nopae rd look npt npm 0 va info vmi of
        (st, info', vmi') \<Rightarrow> (st, info'\<lparr> pi_pt := pt \<rparr>, vmi'))"
proof -
  let ?ctx = "ACCESS_CONTEXT\<lparr> ac_npt := npt, ac_npm := npm \<rparr>"
  let ?i = "info\<lparr> pi_npt := npt, pi_npm := npm, pi_pm := VMI_PM_LEGACY, pi_vaddr := va \<rparr>"
  have eq: "info\<lparr> pi_npt := npt, pi_npm := npm, pi_pt := p, pi_pm := VMI_PM_LEGACY,
      pi_vaddr := va \<rparr> = ?i\<lparr> pi_pt := p \<rparr>" for p
    by (cases info) simp
  have w: "v2p_nopae rd look npt npm p va info vmi =
      with_pt p (walk_done look npt npm (v2p_nopae_walk rd ?ctx ?i vmi))" for p
    using with_pt_walk [where rd = rd and ctx = ?ctx and info = ?i and p = p and vmi = vmi]
    by (simp only: v2p_nopae_def eq with_pt_done)
  show ?thesis unfolding w by (simp add: with_pt_def split: prod.splits)
qed

end
