(* ===== verification/Arch_Pages.thy ===== *)
theory Arch_Pages
  imports Arch_X86
begin

text \<open>
  The enumeration of all mapped pages of an address space: \<^verbatim>\<open>get_pages_ia32e\<close> of
  \<^verbatim>\<open>arch/amd64.c\<close>, \<^verbatim>\<open>get_pages_nopae\<close> and \<^verbatim>\<open>get_pages_pae\<close> of
  \<^verbatim>\<open>arch/intel.c\<close> and \<^verbatim>\<open>get_pages_ept_4l\<close> of \<^verbatim>\<open>arch/ept.c\<close>.  The
  tables are read page-wise through \<^verbatim>\<open>vmi_read\<close>; a failing read leaves all loops
  (\<^verbatim>\<open>goto done\<close>) with the list built so far.  Allocation is taken to succeed.  The
  entry locations follow the increments of the source's loops, so the third-level location of
  the IA-32e enumeration advances by one, not by the size of an entry.
\<close>

section \<open>Loops with an exit\<close>

text \<open>\<open>Inl\<close> is the jump out of the loops, \<open>Inr\<close> the next round.\<close>

fun for_loop :: "nat \<Rightarrow> nat \<Rightarrow> (nat \<Rightarrow> 'a \<Rightarrow> 'a + 'a) \<Rightarrow> 'a \<Rightarrow> 'a + 'a" where
  "for_loop 0 i f a = Inr a"
| "for_loop (Suc n) i f a = (case f i a of Inl a \<Rightarrow> Inl a | Inr a \<Rightarrow> for_loop n (Suc i) f a)"

fun exit_value :: "'a + 'a \<Rightarrow> 'a" where
  "exit_value (Inl a) = a" | "exit_value (Inr a) = a"

lemma for_loop_inv:
  assumes "\<And>i a. i < m \<Longrightarrow> P a \<Longrightarrow> P (exit_value (f i a))" and "P a" and "i + n \<le> m"
  shows "P (exit_value (for_loop n i f a))"
  using assms(2,3)
proof (induction n arbitrary: i a)
  case (Suc n)
  have "P (exit_value (f i a))" using assms(1) Suc.prems by simp
  then show ?case using Suc.IH Suc.prems by (cases "f i a") auto
qed simp

type_synonym 's pages_acc = "page_info list \<times> 's vmi_instance"

definition entry64 :: "u8 list \<Rightarrow> nat \<Rightarrow> u64" where
  "entry64 bs i = word_of_bytes (take 8 (drop (8 * i) bs))"

definition entry32 :: "u8 list \<Rightarrow> nat \<Rightarrow> u32" where
  "entry32 bs i = word_of_bytes (take 4 (drop (4 * i) bs))"

text \<open>Read one table and run a loop over its entries.\<close>

definition with_table :: "'s read_fn \<Rightarrow> access_context \<Rightarrow> addr_t \<Rightarrow> nat \<Rightarrow> (u8 list \<Rightarrow> nat \<Rightarrow> 's pages_acc \<Rightarrow>
    's pages_acc + 's pages_acc) \<Rightarrow> nat \<Rightarrow> 's pages_acc \<Rightarrow> 's pages_acc + 's pages_acc" where
  "with_table rd ctx loc len body n acc =
     (case rd (ctx\<lparr> ac_addr := loc \<rparr>) len (snd acc) of
        (VMI_FAILURE, bs, vmi) \<Rightarrow> Inl (fst acc, vmi)
      | (VMI_SUCCESS, bs, vmi) \<Rightarrow> for_loop n 0 (body bs) (fst acc, vmi))"

section \<open>IA-32e\<close>

definition ia32e_pte_step :: "addr_t \<Rightarrow> page_info \<Rightarrow> addr_t \<Rightarrow> addr_t \<Rightarrow> u8 list \<Rightarrow> nat \<Rightarrow> 's pages_acc \<Rightarrow>
    's pages_acc + 's pages_acc" where
  "ia32e_pte_step dtb info base pte_base bs pte_index acc =
     (let pte_value = entry64 bs pte_index;
          va = canonical_addr (base OR push_bit 12 (of_nat pte_index)) in
      if ENTRY_PRESENT (vi_os_type (snd acc) = VMI_OS_WINDOWS) pte_value then
        Inr (info\<lparr> pi_vaddr := va, pi_pt := dtb, pi_paddr := get_paddr_ia32e va pte_value,
                   pi_size := VMI_PS_4KB, pi_pte_location := pte_base + 8 * of_nat pte_index,
                   pi_pte_value := pte_value \<rparr> # fst acc, snd acc)
      else Inr acc)"

definition ia32e_pgd_step :: "'s read_fn \<Rightarrow> access_context \<Rightarrow> addr_t \<Rightarrow> page_info \<Rightarrow> addr_t \<Rightarrow> addr_t \<Rightarrow>
    u8 list \<Rightarrow> nat \<Rightarrow> 's pages_acc \<Rightarrow> 's pages_acc + 's pages_acc" where
  "ia32e_pgd_step rd ctx dtb info base pgd_base bs pgde_index acc =
     (let pgd_value = entry64 bs pgde_index;
          base' = base OR push_bit 21 (of_nat pgde_index);
          va = canonical_addr base';
          info' = info\<lparr> pi_pgd_location := pgd_base + 8 * of_nat pgde_index, pi_pgd_value := pgd_value \<rparr> in
      if \<not> ENTRY_PRESENT (vi_os_type (snd acc) = VMI_OS_WINDOWS) pgd_value then Inr acc
      else if PAGE_SIZE pgd_value then
        Inr (info'\<lparr> pi_vaddr := va, pi_pt := dtb, pi_paddr := get_2megpage_ia32e va pgd_value,
                    pi_size := VMI_PS_2MB \<rparr> # fst acc, snd acc)
      else
        let pte_location = pgd_value AND VMI_BIT_MASK 12 51
        in with_table rd ctx pte_location 4096 (ia32e_pte_step dtb info' base' pte_location) 512 acc)"

definition ia32e_pdpt_step :: "'s read_fn \<Rightarrow> access_context \<Rightarrow> addr_t \<Rightarrow> page_info \<Rightarrow> addr_t \<Rightarrow> addr_t \<Rightarrow>
    u8 list \<Rightarrow> nat \<Rightarrow> 's pages_acc \<Rightarrow> 's pages_acc + 's pages_acc" where
  "ia32e_pdpt_step rd ctx dtb info base pdpte_base bs pdpte_index acc =
     (let pdpte_value = entry64 bs pdpte_index;
          base' = base OR push_bit 30 (of_nat pdpte_index);
          va = canonical_addr base';
          info' = info\<lparr> pi_pdpte_location := pdpte_base + of_nat pdpte_index,
                        pi_pdpte_value := pdpte_value \<rparr> in
      if \<not> ENTRY_PRESENT (vi_transition_pages (snd acc)) pdpte_value then Inr acc
      else if PAGE_SIZE pdpte_value then
        Inr (info'\<lparr> pi_vaddr := va, pi_pt := dtb, pi_paddr := get_gigpage_ia32e va pdpte_value,
                    pi_size := VMI_PS_1GB \<rparr> # fst acc, snd acc)
      else
        let pgd_location = pdpte_value AND VMI_BIT_MASK 12 51
        in with_table rd ctx pgd_location 4096 (ia32e_pgd_step rd ctx dtb info' base' pgd_location) 512 acc)"

definition ia32e_pml4_step :: "'s read_fn \<Rightarrow> access_context \<Rightarrow> addr_t \<Rightarrow> addr_t \<Rightarrow>
    u8 list \<Rightarrow> nat \<Rightarrow> 's pages_acc \<Rightarrow> 's pages_acc + 's pages_acc" where
  "ia32e_pml4_step rd ctx dtb pml4_base bs pml4e_index acc =
     (let pml4e_value = entry64 bs pml4e_index;
          base = push_bit 39 (of_nat pml4e_index);
          info = page_info_zero\<lparr> pi_pml4e_location := pml4_base + 8 * of_nat pml4e_index,
                                  pi_pml4e_value := pml4e_value \<rparr> in
      if \<not> ENTRY_PRESENT (vi_transition_pages (snd acc)) pml4e_value then Inr acc
      else
        let pdpte_location = pml4e_value AND VMI_BIT_MASK 12 51
        in with_table rd ctx pdpte_location 4096 (ia32e_pdpt_step rd ctx dtb info base pdpte_location) 512 acc)"

definition get_pages_ia32e :: "'s read_fn \<Rightarrow> addr_t \<Rightarrow> page_mode_t \<Rightarrow> addr_t \<Rightarrow> 's vmi_instance \<Rightarrow>
    page_info list \<times> 's vmi_instance" where
  "get_pages_ia32e rd npt npm dtb vmi =
     (let ctx = ACCESS_CONTEXT\<lparr> ac_npt := npt, ac_npm := npm \<rparr>;
          pml4e_location = dtb AND VMI_BIT_MASK 12 51
      in exit_value (with_table rd ctx pml4e_location 4096
           (ia32e_pml4_step rd ctx dtb pml4e_location) 512 ([], vmi)))"

definition get_pages_ept_4l :: "'s read_fn \<Rightarrow> addr_t \<Rightarrow> page_mode_t \<Rightarrow> addr_t \<Rightarrow> 's vmi_instance \<Rightarrow>
    page_info list \<times> 's vmi_instance" where
  "get_pages_ept_4l rd npt npm pt vmi = get_pages_ia32e rd 0 0 pt vmi"

section \<open>32-bit paging without PAE\<close>

text \<open>The physical address of a 4 MB page is computed from the virtual base address of the
  directory slot, as in the source, not from the directory entry.\<close>

definition nopae_pte_step :: "addr_t \<Rightarrow> page_info \<Rightarrow> u64 \<Rightarrow> u32 \<Rightarrow> u8 list \<Rightarrow> nat \<Rightarrow> 's pages_acc \<Rightarrow>
    's pages_acc + 's pages_acc" where
  "nopae_pte_step dtb info pgd_base_vaddr pte_base bs pte_index acc =
     (let pte_entry = entry32 bs pte_index;
          va = pgd_base_vaddr + of_nat pte_index * VMI_PS_4KB in
      if ENTRY_PRESENT (vi_os_type (snd acc) = VMI_OS_WINDOWS) (ucast pte_entry) then
        Inr (info\<lparr> pi_vaddr := va, pi_pt := dtb,
                   pi_paddr := ucast (get_paddr_nopae (ucast va) pte_entry), pi_size := VMI_PS_4KB,
                   pi_pte_location := ucast (pte_base + 4 * of_nat pte_index),
                   pi_pte_value := ucast pte_entry \<rparr> # fst acc, snd acc)
      else Inr acc)"

definition nopae_pgd_step :: "'s read_fn \<Rightarrow> access_context \<Rightarrow> addr_t \<Rightarrow> u8 list \<Rightarrow> nat \<Rightarrow> 's pages_acc \<Rightarrow>
    's pages_acc + 's pages_acc" where
  "nopae_pgd_step rd ctx dtb bs pgd_index acc =
     (let pgd_base_vaddr = of_nat pgd_index * 1024 * 1024 * 4;
          pgd_entry = entry32 bs pgd_index;
          info = page_info_zero\<lparr> pi_pgd_location := dtb + 4 * of_nat pgd_index,
                                  pi_pgd_value := ucast pgd_entry \<rparr> in
      if \<not> ENTRY_PRESENT (vi_os_type (snd acc) = VMI_OS_WINDOWS) (ucast pgd_entry) then Inr acc
      else if PAGE_SIZE (ucast pgd_entry) \<and> (vi_mode (snd acc) = VMI_FILE \<or> vi_pse (snd acc)) then
        Inr (info\<lparr> pi_vaddr := pgd_base_vaddr, pi_pt := dtb,
                   pi_paddr := ucast (get_large_paddr_nopae (ucast pgd_base_vaddr) (ucast pgd_base_vaddr)),
                   pi_size := VMI_PS_4MB \<rparr> # fst acc, snd acc)
      else
        let pte_location = ptba_base_nopae pgd_entry
        in with_table rd ctx (ucast pte_location) 4096
             (nopae_pte_step dtb info pgd_base_vaddr pte_location) 1024 acc)"

definition get_pages_nopae :: "'s read_fn \<Rightarrow> addr_t \<Rightarrow> page_mode_t \<Rightarrow> addr_t \<Rightarrow> 's vmi_instance \<Rightarrow>
    page_info list \<times> 's vmi_instance" where
  "get_pages_nopae rd npt npm dtb vmi =
     (let ctx = ACCESS_CONTEXT\<lparr> ac_npt := npt, ac_npm := npm \<rparr>
      in exit_value (with_table rd ctx dtb 4096 (nopae_pgd_step rd ctx dtb) 1024 ([], vmi)))"

section \<open>32-bit paging with PAE\<close>

text \<open>The base of the pointer table is kept in a \<^verbatim>\<open>uint32_t\<close>.  The slot bases are products
  of the source's constants: a pointer-table slot spans
  \<^verbatim>\<open>512 * 512 * 512 * 8\<close> bytes and a directory slot \<^verbatim>\<open>512 * 512 * 8\<close> bytes there;
  the product of the latter is taken in 32 bits.\<close>

definition pae_pte_step :: "addr_t \<Rightarrow> page_info \<Rightarrow> u64 \<Rightarrow> u64 \<Rightarrow> u8 list \<Rightarrow> nat \<Rightarrow> 's pages_acc \<Rightarrow>
    's pages_acc + 's pages_acc" where
  "pae_pte_step dtb info pd_base_va pte_base bs pt_index acc =
     (let pte_entry = entry64 bs pt_index;
          va = pd_base_va + of_nat pt_index * VMI_PS_4KB in
      if ENTRY_PRESENT (vi_os_type (snd acc) = VMI_OS_WINDOWS) pte_entry then
        Inr (info\<lparr> pi_vaddr := va, pi_pt := dtb, pi_paddr := get_paddr_pae (ucast va) pte_entry,
                   pi_size := VMI_PS_4KB, pi_pte_location := pte_base + 8 * of_nat pt_index,
                   pi_pte_value := pte_entry \<rparr> # fst acc, snd acc)
      else Inr acc)"

definition pae_pgd_step :: "'s read_fn \<Rightarrow> access_context \<Rightarrow> addr_t \<Rightarrow> page_info \<Rightarrow> u64 \<Rightarrow> u64 \<Rightarrow> u8 list \<Rightarrow>
    nat \<Rightarrow> 's pages_acc \<Rightarrow> 's pages_acc + 's pages_acc" where
  "pae_pgd_step rd ctx dtb info pdp_base_va pde_base bs pd_index acc =
     (let pd_base_va = pdp_base_va + ucast (of_nat pd_index * 512 * 512 * 8 :: u32);
          pd_entry = entry64 bs pd_index;
          info' = info\<lparr> pi_pgd_location := pde_base + 8 * of_nat pd_index, pi_pgd_value := pd_entry \<rparr> in
      if \<not> ENTRY_PRESENT (vi_os_type (snd acc) = VMI_OS_WINDOWS) pd_entry then Inr acc
      else if PAGE_SIZE pd_entry then
        Inr (info'\<lparr> pi_vaddr := pd_base_va, pi_pt := dtb,
                    pi_paddr := ucast (get_large_paddr_pae (ucast pd_base_va) (ucast pd_entry)),
                    pi_size := VMI_PS_2MB \<rparr> # fst acc, snd acc)
      else
        let pte_location = ptba_base_pae pd_entry
        in with_table rd ctx pte_location 4096 (pae_pte_step dtb info' pd_base_va pte_location) 512 acc)"

definition pae_pdpi_step :: "'s read_fn \<Rightarrow> access_context \<Rightarrow> addr_t \<Rightarrow> u64 \<Rightarrow> u8 list \<Rightarrow> nat \<Rightarrow> 's pages_acc \<Rightarrow>
    's pages_acc + 's pages_acc" where
  "pae_pdpi_step rd ctx dtb pdpi_base bs pdp_index acc =
     (let pdp_base_va = of_nat pdp_index * 512 * 512 * 512 * 8;
          pdp_entry = entry64 bs pdp_index;
          info = page_info_zero\<lparr> pi_pdpte_location := pdpi_base + 8 * of_nat pdp_index,
                                  pi_pdpte_value := pdp_entry \<rparr> in
      if \<not> ENTRY_PRESENT (vi_transition_pages (snd acc)) pdp_entry then Inr acc
      else
        let pde_location = pdba_base_pae pdp_entry
        in with_table rd ctx pde_location 4096 (pae_pgd_step rd ctx dtb info pdp_base_va pde_location) 512 acc)"

definition get_pages_pae :: "'s read_fn \<Rightarrow> addr_t \<Rightarrow> page_mode_t \<Rightarrow> addr_t \<Rightarrow> 's vmi_instance \<Rightarrow>
    page_info list \<times> 's vmi_instance" where
  "get_pages_pae rd npt npm dtb vmi =
     (let ctx = ACCESS_CONTEXT\<lparr> ac_npt := npt, ac_npm := npm \<rparr>;
          pdpi_base = ucast (ucast (get_pdptb dtb) :: u32)
      in exit_value (with_table rd ctx pdpi_base 32 (pae_pdpi_step rd ctx dtb pdpi_base) 4 ([], vmi)))"

end
