(* ===== verification/Arch_Arm.thy ===== *)
theory Arch_Arm
  imports Vmi_Calls
begin

text \<open>
  The ARM page-table walks, \<^verbatim>\<open>arch/arm_aarch32.c\<close> and
  \<^verbatim>\<open>arch/arm_aarch64.c\<close>.  The descriptor reads of these walks do not report a
  failure: when a descriptor cannot be read the corresponding field of the
  \<^verbatim>\<open>page_info_t\<close> keeps the value it had.
\<close>

section \<open>AArch32\<close>

definition first_level_table_index :: "u32 \<Rightarrow> u32" where
  "first_level_table_index vaddr = drop_bit 20 vaddr"

definition get_first_level_descriptor :: "'s read_fn \<Rightarrow> u32 \<Rightarrow> u32 \<Rightarrow> page_info \<Rightarrow> 's vmi_instance \<Rightarrow>
    page_info \<times> 's vmi_instance" where
  "get_first_level_descriptor rd dtb vaddr info vmi =
     (let loc = ucast ((ucast dtb AND VMI_BIT_MASK 14 31) OR
                  ucast (push_bit 2 (first_level_table_index vaddr)));
          info = info\<lparr> pi_a32_fld_location := loc \<rparr> in
      case vmi_read_32_pa rd (ucast loc) vmi of
        (None, vmi') \<Rightarrow> (info, vmi')
      | (Some v, vmi') \<Rightarrow> (info\<lparr> pi_a32_fld_value := v \<rparr>, vmi'))"

definition coarse_second_level_table_index :: "u32 \<Rightarrow> u32" where
  "coarse_second_level_table_index vaddr = ucast (ucast (drop_bit 12 vaddr) AND VMI_BIT_MASK 0 7)"

definition get_coarse_second_level_descriptor :: "'s read_fn \<Rightarrow> u32 \<Rightarrow> page_info \<Rightarrow> 's vmi_instance \<Rightarrow>
    page_info \<times> 's vmi_instance" where
  "get_coarse_second_level_descriptor rd vaddr info vmi =
     (let loc = ucast ((ucast (pi_a32_fld_value info) AND VMI_BIT_MASK 10 31) OR
                  ucast (push_bit 2 (coarse_second_level_table_index vaddr)));
          info = info\<lparr> pi_a32_sld_location := loc \<rparr> in
      case vmi_read_32_pa rd (ucast loc) vmi of
        (None, vmi') \<Rightarrow> (info, vmi')
      | (Some v, vmi') \<Rightarrow> (info\<lparr> pi_a32_sld_value := v \<rparr>, vmi'))"

definition fine_second_level_table_index :: "u32 \<Rightarrow> u32" where
  "fine_second_level_table_index vaddr = ucast (ucast (drop_bit 10 vaddr) AND VMI_BIT_MASK 0 9)"

definition get_fine_second_level_descriptor :: "'s read_fn \<Rightarrow> u32 \<Rightarrow> page_info \<Rightarrow> 's vmi_instance \<Rightarrow>
    page_info \<times> 's vmi_instance" where
  "get_fine_second_level_descriptor rd vaddr info vmi =
     (let loc = ucast ((ucast (pi_a32_fld_value info) AND VMI_BIT_MASK 12 31) OR
                  ucast (push_bit 2 (fine_second_level_table_index vaddr)));
          info = info\<lparr> pi_a32_sld_location := loc \<rparr> in
      case vmi_read_32_pa rd (ucast loc) vmi of
        (None, vmi') \<Rightarrow> (info, vmi')
      | (Some v, vmi') \<Rightarrow> (info\<lparr> pi_a32_sld_value := v \<rparr>, vmi'))"

definition mapped :: "u64 \<Rightarrow> nat \<Rightarrow> nat \<Rightarrow> addr_t \<Rightarrow> page_size_t \<Rightarrow> page_info \<Rightarrow> page_info" where
  "mapped desc lo hi vaddr psize info =
     info\<lparr> pi_size := psize,
           pi_paddr := (desc AND VMI_BIT_MASK lo hi) OR (vaddr AND VMI_BIT_MASK 0 (lo - 1)) \<rparr>"

definition v2p_aarch32 :: "'s read_fn \<Rightarrow> addr_t \<Rightarrow> page_mode_t \<Rightarrow> addr_t \<Rightarrow> addr_t \<Rightarrow>
    page_info \<Rightarrow> 's vmi_instance \<Rightarrow> status \<times> page_info \<times> 's vmi_instance" where
  "v2p_aarch32 rd npt npm pt vaddr info vmi =
     (case get_first_level_descriptor rd (ucast pt) (ucast vaddr) info vmi of (info, vmi) \<Rightarrow>
      let fld = ucast (pi_a32_fld_value info); kind = fld AND VMI_BIT_MASK 0 1 in
      if kind = 1 then
        (case get_coarse_second_level_descriptor rd (ucast vaddr) info vmi of (info, vmi) \<Rightarrow>
         let sld = ucast (pi_a32_sld_value info); k2 = sld AND VMI_BIT_MASK 0 1 in
         if k2 = 1 then (VMI_SUCCESS, mapped sld 16 31 vaddr VMI_PS_64KB info, vmi)
         else if k2 = 2 \<or> k2 = 3 then (VMI_SUCCESS, mapped sld 12 31 vaddr VMI_PS_4KB info, vmi)
         else (VMI_FAILURE, info, vmi))
      else if kind = 2 then
        (if \<not> VMI_GET_BIT fld 18
         then (VMI_SUCCESS, mapped fld 20 31 vaddr VMI_PS_1MB info, vmi)
         else (VMI_SUCCESS, mapped fld 24 31 vaddr VMI_PS_16MB info, vmi))
      else if kind = 3 then
        (case get_fine_second_level_descriptor rd (ucast vaddr) info vmi of (info, vmi) \<Rightarrow>
         let sld = ucast (pi_a32_sld_value info); k2 = sld AND VMI_BIT_MASK 0 1 in
         if k2 = 1 then (VMI_SUCCESS, mapped sld 16 31 vaddr VMI_PS_64KB info, vmi)
         else if k2 = 2 then (VMI_SUCCESS, mapped sld 12 31 vaddr VMI_PS_4KB info, vmi)
         else if k2 = 3 then (VMI_SUCCESS, mapped sld 10 31 vaddr VMI_PS_1KB info, vmi)
         else (VMI_FAILURE, info, vmi))
      else (VMI_FAILURE, info, vmi))"

section \<open>AArch64\<close>

definition zero_level_4kb_table_index :: "u64 \<Rightarrow> u64" where
  "zero_level_4kb_table_index vaddr = drop_bit 39 vaddr AND VMI_BIT_MASK 0 8"

definition get_zero_level_4kb_descriptor :: "'s read_fn \<Rightarrow> u64 \<Rightarrow> u64 \<Rightarrow> page_info \<Rightarrow> 's vmi_instance \<Rightarrow>
    page_info \<times> 's vmi_instance" where
  "get_zero_level_4kb_descriptor rd dtb vaddr info vmi =
     (let loc = (dtb AND VMI_BIT_MASK 12 47) OR push_bit 3 (zero_level_4kb_table_index vaddr);
          info = info\<lparr> pi_zld_location := loc \<rparr> in
      case vmi_read_64_pa rd loc vmi of
        (None, vmi') \<Rightarrow> (info, vmi')
      | (Some v, vmi') \<Rightarrow> (info\<lparr> pi_zld_value := v \<rparr>, vmi'))"

definition first_level_4kb_table_index :: "u64 \<Rightarrow> u64" where
  "first_level_4kb_table_index vaddr = drop_bit 30 vaddr AND VMI_BIT_MASK 0 8"

definition get_first_level_4kb_descriptor :: "'s read_fn \<Rightarrow> u64 \<Rightarrow> u64 \<Rightarrow> page_info \<Rightarrow> 's vmi_instance \<Rightarrow>
    page_info \<times> 's vmi_instance" where
  "get_first_level_4kb_descriptor rd dtb vaddr info vmi =
     (let loc = (dtb AND VMI_BIT_MASK 12 47) OR push_bit 3 (first_level_4kb_table_index vaddr);
          info = info\<lparr> pi_fld_location := loc \<rparr> in
      case vmi_read_64_pa rd loc vmi of
        (None, vmi') \<Rightarrow> (info, vmi')
      | (Some v, vmi') \<Rightarrow> (info\<lparr> pi_fld_value := v \<rparr>, vmi'))"

definition first_level_64kb_table_index :: "u64 \<Rightarrow> u64" where
  "first_level_64kb_table_index vaddr = drop_bit 42 vaddr AND VMI_BIT_MASK 0 5"

definition get_first_level_64kb_descriptor :: "'s read_fn \<Rightarrow> u64 \<Rightarrow> u64 \<Rightarrow> page_info \<Rightarrow> 's vmi_instance \<Rightarrow>
    page_info \<times> 's vmi_instance" where
  "get_first_level_64kb_descriptor rd dtb vaddr info vmi =
     (let loc = (dtb AND VMI_BIT_MASK 9 47) OR push_bit 3 (first_level_64kb_table_index vaddr);
          info = info\<lparr> pi_fld_location := loc \<rparr> in
      case vmi_read_64_pa rd loc vmi of
        (None, vmi') \<Rightarrow> (info, vmi')
      | (Some v, vmi') \<Rightarrow> (info\<lparr> pi_fld_value := v \<rparr>, vmi'))"

definition second_level_4kb_table_index :: "u64 \<Rightarrow> u64" where
  "second_level_4kb_table_index vaddr = drop_bit 21 vaddr AND VMI_BIT_MASK 0 8"

definition get_second_level_4kb_descriptor :: "'s read_fn \<Rightarrow> u64 \<Rightarrow> u64 \<Rightarrow> page_info \<Rightarrow> 's vmi_instance \<Rightarrow>
    page_info \<times> 's vmi_instance" where
  "get_second_level_4kb_descriptor rd dtb vaddr info vmi =
     (let loc = (dtb AND VMI_BIT_MASK 12 47) OR push_bit 3 (second_level_4kb_table_index vaddr);
          info = info\<lparr> pi_sld_location := loc \<rparr> in
      case vmi_read_64_pa rd loc vmi of
        (None, vmi') \<Rightarrow> (info, vmi')
      | (Some v, vmi') \<Rightarrow> (info\<lparr> pi_sld_value := v \<rparr>, vmi'))"

definition second_level_64kb_table_index :: "u64 \<Rightarrow> u64" where
  "second_level_64kb_table_index vaddr = drop_bit 29 vaddr AND VMI_BIT_MASK 0 12"

definition get_second_level_64kb_descriptor :: "'s read_fn \<Rightarrow> u64 \<Rightarrow> u64 \<Rightarrow> page_info \<Rightarrow> 's vmi_instance \<Rightarrow>
    page_info \<times> 's vmi_instance" where
  "get_second_level_64kb_descriptor rd dtb vaddr info vmi =
     (let loc = (dtb AND VMI_BIT_MASK 16 47) OR push_bit 3 (second_level_64kb_table_index vaddr);
          info = info\<lparr> pi_sld_location := loc \<rparr> in
      case vmi_read_64_pa rd loc vmi of
        (None, vmi') \<Rightarrow> (info, vmi')
      | (Some v, vmi') \<Rightarrow> (info\<lparr> pi_sld_value := v \<rparr>, vmi'))"

definition third_level_4kb_table_index :: "u64 \<Rightarrow> u64" where
  "third_level_4kb_table_index vaddr = drop_bit 12 vaddr AND VMI_BIT_MASK 0 8"

definition get_third_level_4kb_descriptor :: "'s read_fn \<Rightarrow> u64 \<Rightarrow> page_info \<Rightarrow> 's vmi_instance \<Rightarrow>
    page_info \<times> 's vmi_instance" where
  "get_third_level_4kb_descriptor rd vaddr info vmi =
     (let loc = (pi_sld_value info AND VMI_BIT_MASK 12 47) OR push_bit 3 (third_level_4kb_table_index vaddr);
          info = info\<lparr> pi_tld_location := loc \<rparr> in
      case vmi_read_64_pa rd loc vmi of
        (None, vmi') \<Rightarrow> (info, vmi')
      | (Some v, vmi') \<Rightarrow> (info\<lparr> pi_tld_value := v \<rparr>, vmi'))"

definition third_level_64kb_table_index :: "u64 \<Rightarrow> u64" where
  "third_level_64kb_table_index vaddr = drop_bit 16 vaddr AND VMI_BIT_MASK 0 12"

definition get_third_level_64kb_descriptor :: "'s read_fn \<Rightarrow> u64 \<Rightarrow> page_info \<Rightarrow> 's vmi_instance \<Rightarrow>
    page_info \<times> 's vmi_instance" where
  "get_third_level_64kb_descriptor rd vaddr info vmi =
     (let loc = (pi_sld_value info AND VMI_BIT_MASK 16 47) OR push_bit 3 (third_level_64kb_table_index vaddr);
          info = info\<lparr> pi_tld_location := loc \<rparr> in
      case vmi_read_64_pa rd loc vmi of
        (None, vmi') \<Rightarrow> (info, vmi')
      | (Some v, vmi') \<Rightarrow> (info\<lparr> pi_tld_value := v \<rparr>, vmi'))"

text \<open>The stages of \<^verbatim>\<open>v2p_aarch64\<close>, one per value of \<^verbatim>\<open>levels\<close>;
  the table base \<^verbatim>\<open>pt\<close> is handed on.  The final descriptor of a 4 KB or 64 KB page
  is used without a look at its type bits.\<close>

definition aarch64_second :: "'s read_fn \<Rightarrow> page_size_t \<Rightarrow> addr_t \<Rightarrow> addr_t \<Rightarrow> page_info \<Rightarrow>
    's vmi_instance \<Rightarrow> status \<times> page_info \<times> 's vmi_instance" where
  "aarch64_second rd ps pt vaddr info vmi =
     (if ps = VMI_PS_4KB then
        (case get_second_level_4kb_descriptor rd pt vaddr info vmi of (info, vmi) \<Rightarrow>
         let kind = pi_sld_value info AND VMI_BIT_MASK 0 1 in
         if kind = 3 then
           (case get_third_level_4kb_descriptor rd vaddr info vmi of (info, vmi) \<Rightarrow>
              (VMI_SUCCESS, mapped (pi_tld_value info) 12 47 vaddr VMI_PS_4KB info, vmi))
         else if kind = 1 then
           (VMI_SUCCESS, mapped (pi_sld_value info) 21 47 vaddr VMI_PS_2MB info, vmi)
         else (VMI_FAILURE, info, vmi))
      else if ps = VMI_PS_64KB then
        (case get_second_level_64kb_descriptor rd pt vaddr info vmi of (info, vmi) \<Rightarrow>
         let kind = pi_sld_value info AND VMI_BIT_MASK 0 1 in
         if kind = 3 then
           (case get_third_level_64kb_descriptor rd vaddr info vmi of (info, vmi) \<Rightarrow>
              (VMI_SUCCESS, mapped (pi_tld_value info) 16 47 vaddr VMI_PS_4KB info, vmi))
         else if kind = 1 then
           (VMI_SUCCESS, mapped (pi_sld_value info) 29 47 vaddr VMI_PS_512MB info, vmi)
         else (VMI_FAILURE, info, vmi))
      else (VMI_FAILURE, info, vmi))"

definition aarch64_first :: "'s read_fn \<Rightarrow> page_size_t \<Rightarrow> addr_t \<Rightarrow> addr_t \<Rightarrow> page_info \<Rightarrow>
    's vmi_instance \<Rightarrow> status \<times> page_info \<times> 's vmi_instance" where
  "aarch64_first rd ps pt vaddr info vmi =
     (if ps = VMI_PS_4KB then
        (case get_first_level_4kb_descriptor rd pt vaddr info vmi of (info, vmi) \<Rightarrow>
         let kind = pi_fld_value info AND VMI_BIT_MASK 0 1 in
         if kind = 3 then aarch64_second rd ps (pi_fld_value info AND VMI_BIT_MASK 12 47) vaddr info vmi
         else if kind = 1 then
           (VMI_SUCCESS, mapped (pi_fld_value info) 30 47 vaddr VMI_PS_1GB info, vmi)
         else (VMI_FAILURE, info, vmi))
      else if ps = VMI_PS_64KB then
        (case get_first_level_64kb_descriptor rd pt vaddr info vmi of (info, vmi) \<Rightarrow>
         if pi_fld_value info AND VMI_BIT_MASK 0 1 = 3
         then aarch64_second rd ps (pi_fld_value info AND VMI_BIT_MASK 16 47) vaddr info vmi
         else (VMI_FAILURE, info, vmi))
      else (VMI_FAILURE, info, vmi))"

definition v2p_aarch64 :: "'s read_fn \<Rightarrow> addr_t \<Rightarrow> page_mode_t \<Rightarrow> addr_t \<Rightarrow> addr_t \<Rightarrow>
    page_info \<Rightarrow> 's vmi_instance \<Rightarrow> status \<times> page_info \<times> 's vmi_instance" where
  "v2p_aarch64 rd npt npm pt vaddr info vmi =
     (let is_pt_ttbr1 = (pt = vi_kpgd vmi);
          ps = (if is_pt_ttbr1 then vi_tg1 vmi else vi_tg0 vmi);
          va_width = (ucast (64 - (if is_pt_ttbr1 then vi_t1sz vmi else vi_t0sz vmi)) :: u8);
          levels = (if ps = VMI_PS_4KB then Some (if va_width = 39 then 3 else 4)
                    else if ps = VMI_PS_64KB then Some (if va_width = 42 then 2 else 3)
                    else None) :: nat option in
      case levels of
        None \<Rightarrow> (VMI_FAILURE, info, vmi)
      | Some l \<Rightarrow>
          if l = 4 then
            (case get_zero_level_4kb_descriptor rd pt vaddr info vmi of (info, vmi) \<Rightarrow>
             if pi_zld_value info AND VMI_BIT_MASK 0 1 \<noteq> 3 then (VMI_FAILURE, info, vmi)
             else aarch64_first rd ps (pi_zld_value info AND VMI_BIT_MASK 12 47) vaddr info vmi)
          else if l = 3 then aarch64_first rd ps pt vaddr info vmi
          else aarch64_second rd ps pt vaddr info vmi)"

section \<open>What the walks deliver\<close>

lemma mapped_low:
  assumes "n \<le> lo" and "0 < lo" and "lo \<le> 63" and "hi < 64"
  shows "take_bit n (pi_paddr (mapped desc lo hi vaddr psize info)) = take_bit n vaddr"
  by (rule bit_word_eqI) (use assms in \<open>auto simp: mapped_def bit_simps vmi_bits\<close>)

lemma aarch64_second_low:
  "aarch64_second rd ps pt va info vmi = (VMI_SUCCESS, info', vmi') \<Longrightarrow>
     take_bit 12 (pi_paddr info') = take_bit 12 va"
  by (auto simp: aarch64_second_def Let_def mapped_low split: prod.splits if_splits)

lemma aarch64_first_low:
  "aarch64_first rd ps pt va info vmi = (VMI_SUCCESS, info', vmi') \<Longrightarrow>
     take_bit 12 (pi_paddr info') = take_bit 12 va"
  by (auto simp: aarch64_first_def Let_def mapped_low
      split: prod.splits if_splits dest: aarch64_second_low)

text \<open>A reader that answers every request with the same bytes, and one that fails.\<close>

definition const_reader :: "u8 list \<Rightarrow> 's read_fn" where
  "const_reader bs = (\<lambda>ctx n vmi. (VMI_SUCCESS, bs, vmi))"

definition failing_reader :: "'s read_fn" where
  "failing_reader = (\<lambda>ctx n vmi. (VMI_FAILURE, [], vmi))"

lemma failing_reader_pa [simp]: "vmi_read_32_pa failing_reader a vmi = (None, vmi)"
  "vmi_read_64_pa failing_reader a vmi = (None, vmi)"
  by (simp_all add: vmi_read_32_pa_def vmi_read_32_def vmi_read_64_pa_def vmi_read_64_def
      failing_reader_def)

section \<open>Properties\<close>

text \<open>A successful AArch64 translation keeps the offset in the 4 KB page: whatever tables the
  guest has, the low twelve bits of the physical address are those of the virtual address.\<close>

theorem v2p_aarch64_offset:
  assumes "v2p_aarch64 rd npt npm pt va info vmi = (VMI_SUCCESS, info', vmi')"
  shows "take_bit 12 (pi_paddr info') = take_bit 12 va"
  using assms
  by (auto simp: v2p_aarch64_def Let_def split: prod.splits if_splits option.splits
      dest: aarch64_first_low aarch64_second_low)

definition arm_vmi0 :: "unit vmi_instance" where
  "arm_vmi0 = \<lparr> vi_mode = VMI_XEN, vi_os_type = VMI_OS_LINUX, vi_vm_type = HVM,
     vi_page_mode = VMI_PM_AARCH64, vi_kpgd = 0x40000000, vi_page_shift = 12, vi_page_size = 0x1000,
     vi_pse = False, vi_transition_pages = False, vi_t0sz = 25, vi_t1sz = 25,
     vi_tg0 = VMI_PS_4KB, vi_tg1 = VMI_PS_4KB, vi_max_physical_address = 0x80000000,
     vi_caches = addr_caches_init, vi_driver = () \<rparr>"

theorem v2p_aarch64_offset_witness:
  "let r = v2p_aarch64 (const_reader [0x01, 0, 0, 0x80, 0, 0, 0, 0]) 0 0 0x1000 0x40123456
             page_info_zero arm_vmi0
   in fst r = VMI_SUCCESS \<and> take_bit 12 (pi_paddr (fst (snd r))) = 0x456"
proof -
  let ?r = "v2p_aarch64 (const_reader [0x01, 0, 0, 0x80, 0, 0, 0, 0]) 0 0 0x1000 0x40123456
             page_info_zero arm_vmi0"
  have s: "fst ?r = VMI_SUCCESS"
    by (simp add: v2p_aarch64_def arm_vmi0_def aarch64_first_def get_first_level_4kb_descriptor_def
        vmi_read_64_pa_def vmi_read_64_def const_reader_def Let_def vmi_eval)
  then obtain i v where r: "?r = (VMI_SUCCESS, i, v)" by (metis prod.collapse)
  have "take_bit 12 (0x40123456 :: u64) = 0x456" by (simp add: take_bit_eq_mod)
  with v2p_aarch64_offset [OF r] show ?thesis by (simp add: r)
qed

text \<open>The AArch32 walk does not notice that its first-level descriptor could not be read: when
  every read fails, the result is computed from the descriptor the structure held before, so
  a stale section descriptor makes the lookup succeed with its section.\<close>

theorem v2p_aarch32_uses_stale_descriptor:
  assumes "pi_a32_fld_value info AND 3 = 2" and "\<not> bit (pi_a32_fld_value info) 18"
  shows "v2p_aarch32 failing_reader npt npm pt va info vmi =
     (VMI_SUCCESS,
      mapped (ucast (pi_a32_fld_value info)) 20 31 va VMI_PS_1MB
        (info\<lparr> pi_a32_fld_location := ucast ((ucast (ucast pt :: u32) AND VMI_BIT_MASK 14 31) OR
                  ucast (push_bit 2 (first_level_table_index (ucast va))) :: u64) \<rparr>),
      vmi)"
proof -
  have three: "VMI_BIT_MASK 0 (Suc 0) = 3" by (simp add: vmi_eval)
  have m: "(3 :: u64) = mask 2" "(3 :: u32) = mask 2" by (simp_all add: mask_eq_exp_minus_1)
  have "(ucast (pi_a32_fld_value info) AND 3 :: u64) = ucast (pi_a32_fld_value info AND 3)"
    unfolding m by (rule bit_word_eqI) (auto simp: vmi_bits bit_simps)
  then have kind: "(ucast (pi_a32_fld_value info) AND 3 :: u64) = 2" using assms(1) by simp
  show ?thesis
    using assms(2)
    by (simp add: v2p_aarch32_def get_first_level_descriptor_def Let_def three kind VMI_GET_BIT_iff
        ucast_bit_le)
qed

theorem v2p_aarch32_uses_stale_descriptor_witness:
  "v2p_aarch32 failing_reader 0 0 0x4000 0x12345
     (page_info_zero\<lparr> pi_a32_fld_value := 0x80000002 \<rparr>) arm_vmi0 =
   (VMI_SUCCESS,
      mapped 0x80000002 20 31 0x12345 VMI_PS_1MB
        (page_info_zero\<lparr> pi_a32_fld_value := 0x80000002, pi_a32_fld_location := 0x4000 \<rparr>),
      arm_vmi0)"
  using v2p_aarch32_uses_stale_descriptor [where info =
      "page_info_zero\<lparr> pi_a32_fld_value := 0x80000002 \<rparr>" and npt = 0 and npm = 0 and pt = "0x4000"
      and va = "0x12345" and vmi = arm_vmi0]
  by (simp add: vmi_eval first_level_table_index_def drop_bit_eq_div)

end
