(* ===== verification/Vmi_Access.thy ===== *)
theory Vmi_Access
  imports Arch_X86 Arch_Arm
begin

text \<open>
  Address translation and memory reads: the translation half of \<^verbatim>\<open>accessors.c\<close>
  and \<^verbatim>\<open>vmi_read\<close> of \<^verbatim>\<open>read.c\<close>, with the lookup table of
  \<^verbatim>\<open>arch/arch_interface.c\<close>.

  In the source \<^verbatim>\<open>vmi_read\<close>, \<^verbatim>\<open>vmi_nested_pagetable_lookup\<close> and the walks are
  mutually recursive: a read translates its address, a translation reads page-table entries,
  and under a nested page mode these reads are translated themselves.  Here
  \<open>vmi_read_with\<close> and \<open>nested_lookup_body\<close> are the two function bodies with the
  recursive callee as an argument, and \<^verbatim>\<open>vmi_nested_pagetable_lookup\<close> unrolls the
  recursion twice, which the section on the recursion shows to be all of it: the functions
  satisfy the equations of the source exactly.
\<close>

section \<open>Operating-system lookups\<close>

definition vmi_translate_ksym2v ::
  "'s vmi_env \<Rightarrow> string \<Rightarrow> 's vmi_instance \<Rightarrow> addr_t option \<times> 's vmi_instance" where
  "vmi_translate_ksym2v env symbol vmi =
     (case sym_cache_get (vi_caches vmi) 0 0 symbol of
        Some a \<Rightarrow> (Some a, vmi)
      | None \<Rightarrow>
      case env_os env of
        None \<Rightarrow> (None, vmi)
      | Some os \<Rightarrow>
      case os_ksym2v os of
        None \<Rightarrow> (None, vmi)
      | Some f \<Rightarrow>
      case f symbol vmi of
        (None, vmi') \<Rightarrow> (None, vmi')
      | (Some a, vmi') \<Rightarrow>
          (Some (canonical_addr a),
           vmi'\<lparr> vi_caches := sym_cache_set 0 0 symbol (canonical_addr a) (vi_caches vmi') \<rparr>))"

definition vmi_pid_to_dtb ::
  "'s vmi_env \<Rightarrow> vmi_pid_t \<Rightarrow> 's vmi_instance \<Rightarrow> addr_t option \<times> 's vmi_instance" where
  "vmi_pid_to_dtb env pid vmi =
     (case env_os env of
        None \<Rightarrow> (None, vmi)
      | Some os \<Rightarrow>
      if pid = 0 then (Some (vi_kpgd vmi), vmi)
      else case pid_cache_get (vi_caches vmi) pid of
        Some dtb \<Rightarrow> (Some dtb, vmi)
      | None \<Rightarrow>
      case os_pid_to_pgd os of
        None \<Rightarrow> (None, vmi)
      | Some f \<Rightarrow>
      case f pid vmi of
        (None, vmi') \<Rightarrow> (None, vmi')
      | (Some dtb, vmi') \<Rightarrow>
          (Some dtb, vmi'\<lparr> vi_caches := pid_cache_set pid dtb (vi_caches vmi') \<rparr>))"

definition vmi_dtb_to_pid ::
  "'s vmi_env \<Rightarrow> addr_t \<Rightarrow> 's vmi_instance \<Rightarrow> vmi_pid_t option \<times> 's vmi_instance" where
  "vmi_dtb_to_pid env dtb vmi =
     (case env_os env of
        None \<Rightarrow> (None, vmi)
      | Some os \<Rightarrow> (case os_pgd_to_pid os of None \<Rightarrow> (None, vmi) | Some f \<Rightarrow> f dtb vmi))"

section \<open>Reading\<close>

text \<open>The switch over the translation mechanism in \<^verbatim>\<open>vmi_read\<close>, with the checks
  that follow it: the page table, page mode and start address to use.  The process id is read
  as a signed number; a negative one leaves the page-table base at the bits of the context's
  union.\<close>

definition read_target :: "'s vmi_env \<Rightarrow> access_context \<Rightarrow> 's vmi_instance \<Rightarrow>
    (addr_t \<times> page_mode_t \<times> addr_t) option \<times> 's vmi_instance" where
  "read_target env ctx vmi =
     (let dflt = (\<lambda>vmi. if ac_pm ctx = 0 then vi_page_mode vmi else ac_pm ctx);
          r = (if ac_tm ctx = VMI_TM_NONE then (Some (0, VMI_PM_NONE, ac_addr ctx), vmi)
               else if ac_tm ctx = VMI_TM_KERNEL_SYMBOL then
                 (if Option.is_none (env_os env) \<or> vi_kpgd vmi = 0 then (None, vmi)
                  else case vmi_translate_ksym2v env (ac_ksym ctx) vmi of
                         (None, vmi') \<Rightarrow> (None, vmi')
                       | (Some a, vmi') \<Rightarrow> (Some (vi_kpgd vmi', dflt vmi', a), vmi'))
               else if ac_tm ctx = VMI_TM_PROCESS_PID then
                 (if Option.is_none (env_os env) then (None, vmi)
                  else let (p, vmi') =
                         (if ac_pid ctx = 0 then (Some (vi_kpgd vmi), vmi)
                          else if sint (ac_pid ctx) > 0 then vmi_pid_to_dtb env (ac_pid ctx) vmi
                          else (Some (ac_pt ctx), vmi))
                       in case p of
                            None \<Rightarrow> (None, vmi')
                          | Some pt \<Rightarrow>
                              if pt = 0 then (None, vmi')
                              else (Some (pt, dflt vmi', ac_addr ctx), vmi'))
               else if ac_tm ctx = VMI_TM_PROCESS_DTB then
                 (Some (ac_pt ctx, dflt vmi, ac_addr ctx), vmi)
               else (None, vmi))
      in case r of
           (None, vmi') \<Rightarrow> (None, vmi')
         | (Some (pt, pm, start), vmi') \<Rightarrow>
             if pt \<noteq> 0 \<and> \<not> valid_pm pm then (None, vmi')
             else if ac_npt ctx \<noteq> 0 \<and> \<not> valid_npm (ac_npm ctx) then (None, vmi')
             else (Some (pt, pm, start), vmi'))"

text \<open>The translation at the head of the loops of \<^verbatim>\<open>vmi_read\<close> and
  \<^verbatim>\<open>vmi_write\<close>.\<close>

definition access_paddr :: "'s lookup_fn \<Rightarrow> access_context \<Rightarrow> addr_t \<Rightarrow> page_mode_t \<Rightarrow> addr_t \<Rightarrow>
    's vmi_instance \<Rightarrow> addr_t option \<times> 's vmi_instance" where
  "access_paddr look ctx pt pm va vmi =
     (if valid_pm pm then
        (case look (ac_npt ctx) (ac_npm ctx) pt pm va vmi of
           (None, vmi') \<Rightarrow> (None, vmi')
         | (Some (paddr, naddr), vmi') \<Rightarrow>
             (Some (if valid_npm (ac_npm ctx) then naddr else paddr), vmi'))
      else if valid_npm (ac_npm ctx) then
        (case look 0 0 (ac_npt ctx) (ac_npm ctx) va vmi of
           (None, vmi') \<Rightarrow> (None, vmi')
         | (Some (paddr, _), vmi') \<Rightarrow> (Some paddr, vmi'))
      else (Some va, vmi))"

definition page_offset :: "'s vmi_instance \<Rightarrow> addr_t \<Rightarrow> nat" where
  "page_offset vmi paddr = unat (ucast (vi_page_size vmi - 1) AND paddr)"

definition chunk_len :: "'s vmi_instance \<Rightarrow> nat \<Rightarrow> nat \<Rightarrow> nat" where
  "chunk_len vmi offset cnt =
     (if offset + cnt > unat (vi_page_size vmi) then unat (vi_page_size vmi) - offset else cnt)"

text \<open>The loop of \<^verbatim>\<open>vmi_read\<close>.  Every round reads at least one byte when the page size
  is positive, so \<open>cnt\<close> rounds are enough; the result has the bytes copied so far.  The
  number of bytes is a natural number: the caller's buffer holds that many, so the sums of the
  source do not wrap; addresses do.\<close>

fun read_loop :: "'s vmi_env \<Rightarrow> (addr_t \<Rightarrow> 's vmi_instance \<Rightarrow> addr_t option \<times> 's vmi_instance) \<Rightarrow>
    addr_t \<Rightarrow> nat \<Rightarrow> nat \<Rightarrow> nat \<Rightarrow> 's vmi_instance \<Rightarrow> status \<times> u8 list \<times> 's vmi_instance" where
  "read_loop env xl start 0 cnt buf_offset vmi =
     (if cnt = 0 then VMI_SUCCESS else VMI_FAILURE, [], vmi)"
| "read_loop env xl start (Suc fuel) cnt buf_offset vmi =
     (if cnt = 0 then (VMI_SUCCESS, [], vmi)
      else case xl (start + of_nat buf_offset) vmi of
        (None, vmi) \<Rightarrow> (VMI_FAILURE, [], vmi)
      | (Some paddr, vmi) \<Rightarrow>
      let pfn = drop_bit (vi_page_shift vmi) paddr;
          offset = page_offset vmi paddr in
      case vmi_read_page env pfn vmi of
        (None, vmi) \<Rightarrow> (VMI_FAILURE, [], vmi)
      | (Some memory, vmi) \<Rightarrow>
      let read_len = chunk_len vmi offset cnt in
      case read_loop env xl start fuel (cnt - read_len) (buf_offset + read_len) vmi of
        (status, bytes, vmi) \<Rightarrow> (status, take read_len (drop offset memory) @ bytes, vmi))"

definition vmi_read_with :: "'s vmi_env \<Rightarrow> 's lookup_fn \<Rightarrow> 's read_fn" where
  "vmi_read_with env look ctx cnt vmi =
     (case read_target env ctx vmi of
        (None, vmi) \<Rightarrow> (VMI_FAILURE, [], vmi)
      | (Some (pt, pm, start_addr), vmi) \<Rightarrow>
          read_loop env (access_paddr look ctx pt pm) start_addr cnt cnt 0 vmi)"

section \<open>Page-table lookup\<close>

text \<open>\<^verbatim>\<open>arch_init_lookup_tables\<close>: the slots that are not set stay
  \<^verbatim>\<open>NULL\<close>.\<close>

definition arch_init_lookup_tables :: "'s read_fn \<Rightarrow> 's lookup_fn \<Rightarrow> page_mode_t \<Rightarrow>
    (addr_t \<Rightarrow> page_mode_t \<Rightarrow> addr_t \<Rightarrow> addr_t \<Rightarrow> page_info \<Rightarrow> 's vmi_instance \<Rightarrow>
       status \<times> page_info \<times> 's vmi_instance) option" where
  "arch_init_lookup_tables rd look pm =
     (if pm = VMI_PM_LEGACY then Some (v2p_nopae rd look)
      else if pm = VMI_PM_PAE then Some (v2p_pae rd look)
      else if pm = VMI_PM_IA32E then Some (v2p_ia32e rd look)
      else if pm = VMI_PM_AARCH32 then Some (v2p_aarch32 rd)
      else if pm = VMI_PM_AARCH64 then Some (v2p_aarch64 rd)
      else if pm = VMI_PM_EPT_4L then Some (v2p_ept_4l rd look)
      else None)"

definition arch_lookup :: "'s vmi_env \<Rightarrow> 's lookup_fn \<Rightarrow> addr_t \<Rightarrow> page_mode_t \<Rightarrow> addr_t \<Rightarrow> page_mode_t \<Rightarrow>
    addr_t \<Rightarrow> page_info \<Rightarrow> 's vmi_instance \<Rightarrow> status \<times> page_info \<times> 's vmi_instance" where
  "arch_lookup env look npt npm pt pm vaddr info vmi =
     (case arch_init_lookup_tables (vmi_read_with env look) look pm of
        None \<Rightarrow> (VMI_FAILURE, info, vmi)
      | Some lookup \<Rightarrow> lookup npt npm pt vaddr info vmi)"

definition lookup_walk :: "'s vmi_env \<Rightarrow> 's lookup_fn \<Rightarrow> 's lookup_fn" where
  "lookup_walk env look npt npm pt pm vaddr vmi =
     (case arch_lookup env look npt npm pt pm vaddr (env_stack_info env) vmi of
        (VMI_FAILURE, info, vmi) \<Rightarrow> (None, vmi)
      | (VMI_SUCCESS, info, vmi) \<Rightarrow>
          if valid_npm npm
          then (Some (pi_paddr info, pi_naddr info),
                vmi\<lparr> vi_caches := v2p_cache_set vaddr pt npt (pi_naddr info) (vi_caches vmi) \<rparr>)
          else (Some (pi_paddr info, 0),
                vmi\<lparr> vi_caches := v2p_cache_set vaddr pt 0 (pi_paddr info) (vi_caches vmi) \<rparr>))"

definition nested_lookup_body :: "'s vmi_env \<Rightarrow> 's lookup_fn \<Rightarrow> 's lookup_fn" where
  "nested_lookup_body env look npt npm pt pm vaddr vmi =
     (if \<not> valid_pm pm then (None, vmi)
      else case v2p_cache_get (vi_caches vmi) vaddr pt npt of
        None \<Rightarrow> lookup_walk env look npt npm pt pm vaddr vmi
      | Some paddr \<Rightarrow>
      case vmi_read_8_pa (vmi_read_with env look) paddr vmi of
        (Some value, vmi) \<Rightarrow> (Some (if valid_npm npm then (- 1, paddr) else (paddr, 0)), vmi)
      | (None, vmi) \<Rightarrow> lookup_walk env look npt npm pt pm vaddr vmi)"

fun nested_lookup :: "'s vmi_env \<Rightarrow> nat \<Rightarrow> 's lookup_fn" where
  "nested_lookup env 0 = (\<lambda>npt npm pt pm vaddr vmi. (None, vmi))"
| "nested_lookup env (Suc depth) = nested_lookup_body env (nested_lookup env depth)"

definition vmi_nested_pagetable_lookup :: "'s vmi_env \<Rightarrow> 's lookup_fn" where
  "vmi_nested_pagetable_lookup env = nested_lookup env 2"

definition vmi_read :: "'s vmi_env \<Rightarrow> 's read_fn" where
  "vmi_read env = vmi_read_with env (vmi_nested_pagetable_lookup env)"

section \<open>The recursion\<close>

lemma read_target_none:
  "ac_tm ctx = VMI_TM_NONE \<Longrightarrow> read_target env ctx vmi =
     (if ac_npt ctx \<noteq> 0 \<and> \<not> valid_npm (ac_npm ctx) then None
      else Some (0, VMI_PM_NONE, ac_addr ctx), vmi)"
  by (simp add: read_target_def)

lemma vmi_read_with_cong:
  assumes "ac_tm ctx = VMI_TM_NONE" and "valid_npm (ac_npm ctx) \<Longrightarrow> look 0 0 = look' 0 0"
  shows "vmi_read_with env look ctx = vmi_read_with env look' ctx"
proof -
  have "access_paddr look ctx 0 VMI_PM_NONE = access_paddr look' ctx 0 VMI_PM_NONE"
    using assms(2) by (intro ext) (simp add: access_paddr_def)
  then show ?thesis
    by (intro ext) (simp add: vmi_read_with_def read_target_none [OF assms(1)])
qed

text \<open>Two pairs of callees that a walk with nested base \<open>npt\<close> cannot tell apart.\<close>

definition agree :: "'s read_fn \<Rightarrow> 's read_fn \<Rightarrow> 's lookup_fn \<Rightarrow> 's lookup_fn \<Rightarrow> addr_t \<Rightarrow> page_mode_t \<Rightarrow> bool"
where
  "agree rd rd' look look' npt npm \<longleftrightarrow>
     (\<forall>a. rd (ACCESS_CONTEXT\<lparr> ac_npt := npt, ac_npm := npm, ac_addr := a \<rparr>) =
          rd' (ACCESS_CONTEXT\<lparr> ac_npt := npt, ac_npm := npm, ac_addr := a \<rparr>)) \<and>
     (\<forall>a. rd (ACCESS_CONTEXT\<lparr> ac_addr := a \<rparr>) = rd' (ACCESS_CONTEXT\<lparr> ac_addr := a \<rparr>)) \<and>
     (valid_npm npm \<longrightarrow> look 0 0 = look' 0 0)"

lemma agreeD:
  assumes "agree rd rd' look look' npt npm"
  shows "rd (ACCESS_CONTEXT\<lparr> ac_npt := npt, ac_npm := npm, ac_addr := a \<rparr>) =
      rd' (ACCESS_CONTEXT\<lparr> ac_npt := npt, ac_npm := npm, ac_addr := a \<rparr>)"
    and "rd (ACCESS_CONTEXT\<lparr> ac_addr := a \<rparr>) = rd' (ACCESS_CONTEXT\<lparr> ac_addr := a \<rparr>)"
    and "walk_done look npt npm = walk_done look' npt npm"
proof -
  show "walk_done look npt npm = walk_done look' npt npm"
    using assms by (intro ext) (cases "valid_npm npm"; simp add: walk_done_def agree_def)
qed (use assms in \<open>simp_all add: agree_def\<close>)

lemma walk_cong:
  assumes a: "agree rd rd' look look' npt npm"
  shows "v2p_ia32e rd look npt npm = v2p_ia32e rd' look' npt npm"
    and "v2p_pae rd look npt npm = v2p_pae rd' look' npt npm"
    and "v2p_nopae rd look npt npm = v2p_nopae rd' look' npt npm"
    and "v2p_aarch32 rd = v2p_aarch32 rd'"
    and "v2p_aarch64 rd = v2p_aarch64 rd'"
proof -
  note [simp] = agreeD [OF a]
  show "v2p_ia32e rd look npt npm = v2p_ia32e rd' look' npt npm"
    by (intro ext) (simp only: v2p_ia32e_def v2p_ia32e_walk_def get_pml4e_def get_pdpte_ia32e_def
        get_pde_ia32e_def get_pte_ia32e_def vmi_read_64_def agreeD [OF a])
  show "v2p_pae rd look npt npm = v2p_pae rd' look' npt npm"
    by (intro ext) (simp only: v2p_pae_def v2p_pae_walk_def get_pdpi_def get_pgd_pae_def
        get_pte_pae_def vmi_read_64_def agreeD [OF a])
  show "v2p_nopae rd look npt npm = v2p_nopae rd' look' npt npm"
    by (intro ext) (simp only: v2p_nopae_def v2p_nopae_walk_def get_pgd_nopae_def
        get_pte_nopae_def vmi_read_32_def agreeD [OF a])
  have r: "vmi_read_32_pa rd = vmi_read_32_pa rd'" "vmi_read_64_pa rd = vmi_read_64_pa rd'"
    by (intro ext; simp only: vmi_read_32_pa_def vmi_read_32_def vmi_read_64_pa_def vmi_read_64_def
        agreeD [OF a])+
  show "v2p_aarch32 rd = v2p_aarch32 rd'"
    by (intro ext) (simp only: v2p_aarch32_def get_first_level_descriptor_def
        get_coarse_second_level_descriptor_def get_fine_second_level_descriptor_def r)
  show "v2p_aarch64 rd = v2p_aarch64 rd'"
    by (intro ext) (simp only: v2p_aarch64_def aarch64_first_def aarch64_second_def
        get_zero_level_4kb_descriptor_def get_first_level_4kb_descriptor_def
        get_first_level_64kb_descriptor_def get_second_level_4kb_descriptor_def
        get_second_level_64kb_descriptor_def get_third_level_4kb_descriptor_def
        get_third_level_64kb_descriptor_def r)
qed

lemma agree_read:
  assumes "valid_npm npm \<longrightarrow> look 0 0 = look' 0 0"
  shows "agree (vmi_read_with env look) (vmi_read_with env look') look look' npt npm"
  using assms unfolding agree_def
  by (auto intro!: vmi_read_with_cong simp: ACCESS_CONTEXT_def)

lemma arch_lookup_cong:
  assumes "valid_npm npm \<longrightarrow> look 0 0 = look' 0 0"
  shows "arch_lookup env look npt npm = arch_lookup env look' npt npm"
proof -
  have a: "agree (vmi_read_with env look) (vmi_read_with env look') look look' n m"
    if "n = npt \<and> m = npm \<or> m = 0" for n m
    using assms that by (auto intro: agree_read)
  note cong = walk_cong [OF a]
  have "v2p_ept_4l (vmi_read_with env look) look = v2p_ept_4l (vmi_read_with env look') look'"
    by (intro ext) (simp add: v2p_ept_4l_def cong(1) [of 0 0])
  then show ?thesis
    by (intro ext) (simp add: arch_lookup_def arch_init_lookup_tables_def cong [of npt npm])
qed

lemma lookup_walk_cong:
  assumes "valid_npm npm \<longrightarrow> look 0 0 = look' 0 0"
  shows "lookup_walk env look npt npm = lookup_walk env look' npt npm"
  unfolding fun_eq_iff lookup_walk_def arch_lookup_cong [of npm look look', OF assms] by simp

lemma nested_lookup_body_cong:
  assumes "valid_npm npm \<longrightarrow> look 0 0 = look' 0 0"
  shows "nested_lookup_body env look npt npm = nested_lookup_body env look' npt npm"
proof -
  have "vmi_read_with env look (ACCESS_CONTEXT\<lparr> ac_addr := a \<rparr>) =
      vmi_read_with env look' (ACCESS_CONTEXT\<lparr> ac_addr := a \<rparr>)" for a
    by (rule vmi_read_with_cong) (simp_all add: ACCESS_CONTEXT_def)
  then have r: "vmi_read_8_pa (vmi_read_with env look) = vmi_read_8_pa (vmi_read_with env look')"
    by (intro ext) (simp add: vmi_read_8_pa_def vmi_read_8_def)
  have w: "lookup_walk env look npt npm = lookup_walk env look' npt npm"
    using assms by (rule lookup_walk_cong)
  show ?thesis unfolding fun_eq_iff nested_lookup_body_def r w by simp
qed

lemma nested_lookup_fixpoint:
  "nested_lookup_body env (nested_lookup env 2) = nested_lookup env 2"
proof -
  have "nested_lookup env (Suc (Suc n)) 0 0 = nested_lookup env (Suc n) 0 0" for n
    unfolding nested_lookup.simps(2) by (rule nested_lookup_body_cong) simp
  then have "nested_lookup env 2 0 0 = nested_lookup env 1 0 0"
    by (metis One_nat_def Suc_1)
  then have "nested_lookup_body env (nested_lookup env 2) npt npm =
      nested_lookup_body env (nested_lookup env 1) npt npm" for npt npm
    by (intro nested_lookup_body_cong) simp
  then show ?thesis by (intro ext) (simp add: numeral_2_eq_2)
qed


end
