(* ===== verification/Guest_Memory.thy ===== *)
theory Guest_Memory
  imports Vmi_Access
begin

text \<open>
  Functional correctness of translation and reading against a fixed guest memory.  The guest
  memory is a function from frame numbers to pages; \<open>guest_tr\<close> is the translation the
  guest's IA-32e tables describe, directly or through a second set of tables, and
  \<open>spec_read\<close> the bytes behind it.  The locale \<open>translating_reader\<close> shows the loop of
  \<^verbatim>\<open>vmi_read\<close> correct for any translation step that computes a page-granular
  translation.
\<close>

section \<open>Arithmetic inside a page\<close>

lemma unat_low12: "unat (take_bit 12 (w :: u64)) = unat w mod 4096"
  by (simp add: take_bit_eq_mod unat_mod)

lemma unat_drop12: "unat (drop_bit 12 (w :: u64)) = unat w div 4096"
  by (simp add: drop_bit_eq_div unat_div)

lemma clear_low_eq_iff: "clear_low 12 v = clear_low 12 w \<longleftrightarrow> drop_bit 12 v = drop_bit 12 (w :: u64)"
proof
  assume "clear_low 12 v = clear_low 12 w"
  then show "drop_bit 12 v = drop_bit 12 w"
    by (intro bit_word_eqI) (simp add: bit_simps same_page_bits [of v w])
qed (simp add: clear_low_def)

lemma add_within_page:
  assumes "unat (w :: u64) mod 4096 + j < 4096"
  shows "unat (w + of_nat j) = unat w + j"
    and "clear_low 12 (w + of_nat j) = clear_low 12 w"
    and "unat (take_bit 12 (w + of_nat j)) = unat (take_bit 12 w) + j"
proof -
  have lt: "unat w < 2 ^ 64" using unsigned_less [of w, where ?'a = nat] by simp
  then have "unat w div 4096 < 2 ^ 52" by (simp add: div_less_iff_less_mult)
  then have "unat w div 4096 * 4096 + 4096 \<le> 2 ^ 64" by simp
  moreover have "unat w = unat w div 4096 * 4096 + unat w mod 4096" by simp
  ultimately have sum: "unat w + j < 2 ^ 64" using assms by linarith
  have j: "unat (of_nat j :: u64) = j"
    using assms by (simp add: unat_of_nat)
  show u: "unat (w + of_nat j) = unat w + j"
    using sum by (simp add: unat_word_ariths(1) j)
  have dm: "(unat w + j) div 4096 = unat w div 4096" "(unat w + j) mod 4096 = unat w mod 4096 + j"
  proof -
    have "unat w + j = (unat w mod 4096 + j) + 4096 * (unat w div 4096)" by simp
    then show "(unat w + j) div 4096 = unat w div 4096" "(unat w + j) mod 4096 = unat w mod 4096 + j"
      using assms by (simp_all only: div_mult_self2 mod_mult_self2 div_less mod_less)
  qed
  show "clear_low 12 (w + of_nat j) = clear_low 12 w"
    unfolding clear_low_eq_iff by (rule word_unat_eq_iff [THEN iffD2]) (simp only: unat_drop12 u dm)
  show "unat (take_bit 12 (w + of_nat j)) = unat (take_bit 12 w) + j"
    by (simp only: unat_low12 u dm)
qed

section \<open>Reference for a read\<close>

text \<open>The bytes from an address on, as far as they can be read.\<close>

fun spec_read :: "(addr_t \<Rightarrow> u8 option) \<Rightarrow> addr_t \<Rightarrow> nat \<Rightarrow> u8 list" where
  "spec_read f a 0 = []"
| "spec_read f a (Suc n) = (case f a of None \<Rightarrow> [] | Some b \<Rightarrow> b # spec_read f (a + 1) n)"

lemma spec_read_length: "length (spec_read f a n) \<le> n"
  by (induction n arbitrary: a) (auto split: option.splits)

lemma spec_read_None: "f a = None \<Longrightarrow> spec_read f a n = []"
  by (cases n) simp_all

lemma spec_read_chunk:
  assumes "\<And>j. j < m \<Longrightarrow> f (a + of_nat j) = Some (bs ! j)" and "m \<le> length bs" and "m \<le> n"
  shows "spec_read f a n = take m bs @ spec_read f (a + of_nat m) (n - m)"
  using assms
proof (induction m arbitrary: a bs n)
  case (Suc m)
  obtain b bs' where bs: "bs = b # bs'" using Suc.prems(2) by (cases bs) auto
  obtain n' where n: "n = Suc n'" using Suc.prems(3) by (cases n) auto
  have "f (a + 1 + of_nat j) = Some (bs' ! j)" if "j < m" for j
    using Suc.prems(1) [of "Suc j"] that by (simp add: bs ac_simps)
  then have "spec_read f (a + 1) n' = take m bs' @ spec_read f (a + 1 + of_nat m) (n' - m)"
    using Suc.prems(2,3) by (intro Suc.IH) (auto simp: bs n)
  moreover have "f a = Some b" using Suc.prems(1) [of 0] by (simp add: bs)
  ultimately show ?case by (simp add: bs n ac_simps)
qed simp

text \<open>The status of a read says whether all bytes came.\<close>

definition read_status :: "nat \<Rightarrow> u8 list \<Rightarrow> status" where
  "read_status n bs = (if length bs = n then VMI_SUCCESS else VMI_FAILURE)"

definition granular :: "(addr_t \<Rightarrow> addr_t option) \<Rightarrow> bool" where
  "granular tr \<longleftrightarrow> (\<forall>va pa va'. tr va = Some pa \<longrightarrow> clear_low 12 va' = clear_low 12 va \<longrightarrow>
     tr va' = Some (clear_low 12 pa OR (VMI_BIT_MASK 0 11 AND va')))"

lemma mask11: "VMI_BIT_MASK 0 11 AND w = take_bit 12 w"
  using mask_low [of 11 w] by (simp add: and.commute)

lemma granular_offset:
  assumes "granular tr" and "tr va = Some pa"
  shows "take_bit 12 pa = take_bit 12 va"
proof -
  have "pa = clear_low 12 pa OR take_bit 12 va"
    using assms(1) [unfolded granular_def mask11, rule_format, OF assms(2) refl] assms(2) by simp
  then have "take_bit 12 pa = take_bit 12 (clear_low 12 pa OR take_bit 12 va)" by (rule arg_cong)
  also have "\<dots> = take_bit 12 va" by (rule bit_word_eqI) (auto simp: bit_simps vmi_bits)
  finally show ?thesis .
qed

lemma drop_page: "drop_bit 12 (clear_low 12 pa OR take_bit 12 va) = drop_bit 12 (pa :: u64)"
  by (rule bit_word_eqI) (auto simp: bit_simps vmi_bits)

lemma low_page: "take_bit 12 (clear_low 12 pa OR take_bit 12 va) = take_bit 12 (va :: u64)"
  by (rule bit_word_eqI) (auto simp: bit_simps vmi_bits)

text \<open>A byte of guest-physical memory, given as pages, and a byte behind a translation.\<close>

definition pbyte :: "(addr_t \<Rightarrow> u8 list option) \<Rightarrow> addr_t \<Rightarrow> u8 option" where
  "pbyte page pa = map_option (\<lambda>p. p ! unat (take_bit 12 pa)) (page (drop_bit 12 pa))"

definition vbyte :: "(addr_t \<Rightarrow> u8 list option) \<Rightarrow> (addr_t \<Rightarrow> addr_t option) \<Rightarrow> addr_t \<Rightarrow> u8 option" where
  "vbyte page tr va = Option.bind (tr va) (pbyte page)"

lemma vbyte_in_page:
  assumes "granular tr" and "tr va = Some pa" and "page (drop_bit 12 pa) = Some p"
    and "unat va mod 4096 + j < 4096"
  shows "vbyte page tr (va + of_nat j) = Some (p ! (unat (take_bit 12 va) + j))"
proof -
  have "tr (va + of_nat j) = Some (clear_low 12 pa OR take_bit 12 (va + of_nat j))"
    using assms(1,2) add_within_page(2) [OF assms(4)] unfolding granular_def mask11 by blast
  then show ?thesis
    by (simp only: vbyte_def pbyte_def bind.bind_lunit drop_page low_page assms(3)
        add_within_page(3) [OF assms(4)] option.map)
qed

context page_driver
begin

lemma page_offset_paged: "paged vmi \<Longrightarrow> page_offset vmi pa = unat (take_bit 12 pa)"
proof -
  assume "paged vmi"
  then have "vi_page_size vmi = 0x1000" by (simp add: paged_def)
  moreover have "ucast (0x1000 - 1 :: u32) = (mask 12 :: u64)" by (simp add: mask_eq_exp_minus_1)
  ultimately show ?thesis
    by (simp only: page_offset_def take_bit_eq_mask and.commute)
qed

end

locale translating_reader = page_driver +
  fixes env :: "'a vmi_env"
    and xl :: "addr_t \<Rightarrow> 'a vmi_instance \<Rightarrow> addr_t option \<times> 'a vmi_instance"
    and good :: "'a vmi_instance \<Rightarrow> bool"
    and tr :: "addr_t \<Rightarrow> addr_t option"
  assumes drv: "drives env"
    and good_paged: "good vmi \<Longrightarrow> paged vmi"
    and good_driver: "good vmi \<Longrightarrow> dinv d \<Longrightarrow> good (vmi\<lparr> vi_driver := d \<rparr>)"
    and xl_result: "good vmi \<Longrightarrow> fst (xl va vmi) = tr va"
    and xl_good: "good vmi \<Longrightarrow> good (snd (xl va vmi))"
    and gran: "granular tr"
begin

lemma read_loop_spec:
  assumes "good vmi" and "cnt \<le> fuel"
  shows "\<exists>vmi'. good vmi' \<and> read_loop env xl start fuel cnt off vmi =
     (read_status cnt (spec_read (vbyte page tr) (start + of_nat off) cnt),
      spec_read (vbyte page tr) (start + of_nat off) cnt, vmi')"
  using assms
proof (induction fuel arbitrary: cnt off vmi)
  case 0
  then show ?case by (auto simp: read_status_def)
next
  case (Suc fuel)
  let ?va = "start + of_nat off"
  show ?case
  proof (cases "cnt = 0")
    case True
    with Suc.prems show ?thesis by (auto simp: read_status_def)
  next
    case False
    obtain v1 where v1: "xl ?va vmi = (tr ?va, v1)" "good v1"
      using xl_result [OF Suc.prems(1), of ?va] xl_good [OF Suc.prems(1), of ?va]
      by (metis prod.collapse)
    show ?thesis
    proof (cases "tr ?va")
      case None
      then have "spec_read (vbyte page tr) ?va cnt = []" by (simp add: spec_read_None vbyte_def)
      with None v1 False show ?thesis by (auto simp: read_status_def)
    next
      case (Some pa)
      obtain v2 where v2: "vmi_read_page env (drop_bit 12 pa) v1 = (page (drop_bit 12 pa), v2)"
          "paged v2" "v2 = v1\<lparr> vi_driver := vi_driver v2 \<rparr>"
        using vmi_read_page_result [OF drv good_paged [OF v1(2)]] by blast
      have g2: "good v2"
        using good_driver [OF v1(2), of "vi_driver v2"] v2(2,3) by (auto simp: paged_def)
      have sh: "vi_page_shift v1 = 12" using good_paged [OF v1(2)] by (simp add: paged_def)
      show ?thesis
      proof (cases "page (drop_bit 12 pa)")
        case None
        then have "spec_read (vbyte page tr) ?va cnt = []"
          using Some by (simp add: spec_read_None vbyte_def pbyte_def)
        with None Some v1 v2 g2 False sh show ?thesis
          by (auto simp: read_status_def Let_def)
      next
        case (Some p)
        note pg = Some
        let ?o = "unat (take_bit 12 ?va)"
        have low: "take_bit 12 pa = take_bit 12 ?va"
          using granular_offset [OF gran] \<open>tr ?va = Some pa\<close> by blast
        have lp: "length p = 4096" using page_full [OF pg] .
        define l where "l = (if ?o + cnt > 4096 then 4096 - ?o else cnt)"
        have o: "?o < 4096" by (simp add: unat_low12)
        have l: "0 < l" "l \<le> cnt" "?o + l \<le> 4096" using False o by (auto simp: l_def)
        have cl: "chunk_len v2 ?o cnt = l"
          using v2(2) by (simp add: chunk_len_def paged_def l_def)
        have off: "page_offset v1 pa = ?o"
          using page_offset_paged [OF good_paged [OF v1(2)]] low by simp
        let ?bs = "drop ?o p"
        have "vbyte page tr (?va + of_nat j) = Some (?bs ! j)" if "j < l" for j
          using vbyte_in_page [where page = page and tr = tr and va = ?va and j = j, OF gran
              \<open>tr ?va = Some pa\<close> pg] that l o lp
          by (simp add: unat_low12)
        then have split: "spec_read (vbyte page tr) ?va cnt =
            take l ?bs @ spec_read (vbyte page tr) (start + of_nat (off + l)) (cnt - l)"
          using spec_read_chunk [of l "vbyte page tr" ?va ?bs cnt] l lp by (simp add: ac_simps)
        have "cnt - l \<le> fuel" using Suc.prems(2) l by linarith
        from Suc.IH [OF g2 this, of "off + l"] obtain v3 where v3: "good v3"
          "read_loop env xl start fuel (cnt - l) (off + l) v2 =
             (read_status (cnt - l) (spec_read (vbyte page tr) (start + of_nat (off + l)) (cnt - l)),
              spec_read (vbyte page tr) (start + of_nat (off + l)) (cnt - l), v3)"
          by blast
        have len: "length (take l ?bs) = l" using l lp by simp
        have st: "read_status cnt (take l ?bs @ xs) = read_status (cnt - l) xs" for xs
          using len l(2) by (auto simp: read_status_def)
        show ?thesis
          using v3 v1 v2 False sh off \<open>tr ?va = Some pa\<close> pg
          by (intro exI [of _ v3]) (simp add: Let_def cl split st)
      qed
    qed
  qed
qed

end

section \<open>Reference translation\<close>

definition word_at :: "(addr_t \<Rightarrow> u8 option) \<Rightarrow> addr_t \<Rightarrow> u64 option" where
  "word_at f a = (let bs = spec_read f a 8 in if length bs = 8 then Some (word_of_bytes bs) else None)"

definition phys_tr :: "(addr_t \<Rightarrow> u8 list option) \<Rightarrow> bool \<Rightarrow> addr_t \<Rightarrow> addr_t \<Rightarrow> addr_t option" where
  "phys_tr page tp pt va = map_option fst (radix_walk (word_at (pbyte page)) tp 4 pt va)"

definition guest_tr :: "(addr_t \<Rightarrow> u8 list option) \<Rightarrow> bool \<Rightarrow> addr_t \<times> addr_t \<times> addr_t \<Rightarrow> addr_t option"
where
  "guest_tr page tp k = (case k of (va, pt, npt) \<Rightarrow>
     if npt = 0 then phys_tr page tp pt va
     else Option.bind
       (map_option fst (radix_walk (word_at (vbyte page (phys_tr page tp npt))) tp 4 pt va))
       (phys_tr page tp npt))"

lemma walk_page:
  assumes "map_option fst (radix_walk ent tp l pt va) = Some pa" and "clear_low 12 va' = clear_low 12 va"
  shows "map_option fst (radix_walk ent tp l pt va') = Some (clear_low 12 pa OR (VMI_BIT_MASK 0 11 AND va'))"
  using assms radix_walk_page [OF assms(2), of ent tp l pt] by auto

lemma granular_phys_tr: "granular (phys_tr page tp pt)"
  unfolding granular_def phys_tr_def using walk_page by blast

lemma clear_low_page: "clear_low 12 (clear_low 12 pa OR (VMI_BIT_MASK 0 11 AND va)) = clear_low 12 pa"
  by (rule bit_word_eqI) (auto simp: bit_simps vmi_bits)

lemma page_offset_or: "VMI_BIT_MASK 0 11 AND (clear_low 12 pa OR (VMI_BIT_MASK 0 11 AND va)) = VMI_BIT_MASK 0 11 AND va"
  by (rule bit_word_eqI) (auto simp: bit_simps vmi_bits)

lemma page_translation_guest: "page_translation (guest_tr page tp)"
  unfolding page_translation_def
proof (intro allI impI)
  fix va pt npt pa va'
  assume tr: "guest_tr page tp (va, pt, npt) = Some pa" and same: "clear_low 12 va' = clear_low 12 va"
  show "guest_tr page tp (va', pt, npt) = Some (clear_low 12 pa OR (VMI_BIT_MASK 0 11 AND va'))"
  proof (cases "npt = 0")
    case True
    with tr same granular_phys_tr [of page tp pt] show ?thesis by (simp add: guest_tr_def granular_def)
  next
    case False
    let ?w = "\<lambda>v. map_option fst (radix_walk (word_at (vbyte page (phys_tr page tp npt))) tp 4 pt v)"
    obtain ga where ga: "?w va = Some ga" "phys_tr page tp npt ga = Some pa"
      using tr False by (auto simp: guest_tr_def split: bind_splits)
    let ?ga = "clear_low 12 ga OR (VMI_BIT_MASK 0 11 AND va')"
    have "?w va' = Some ?ga" using walk_page [OF ga(1) same] .
    moreover have "phys_tr page tp npt ?ga = Some (clear_low 12 pa OR (VMI_BIT_MASK 0 11 AND ?ga))"
      using granular_phys_tr [of page tp npt] ga(2) clear_low_page [of ga va']
      unfolding granular_def by blast
    ultimately show ?thesis using False by (auto simp: guest_tr_def page_offset_or)
  qed
qed

lemma granular_guest: "granular (\<lambda>va. guest_tr page tp (va, pt, npt))"
  using page_translation_guest [of page tp] unfolding granular_def page_translation_def by blast

section \<open>Lookups and reads compute the reference\<close>

locale guest = page_driver +
  fixes env :: "'a vmi_env" and tp :: bool
  assumes drv: "drives env"
begin

definition good :: "'a vmi_instance \<Rightarrow> bool" where
  "good vmi \<longleftrightarrow> paged vmi \<and> vi_page_mode vmi = VMI_PM_IA32E \<and> vi_transition_pages vmi = tp \<and>
     v2pc.coherent (guest_tr page tp) (vi_caches vmi)"

lemma good_cache_set:
  assumes "good vmi" and "guest_tr page tp (va, pt, npt) = Some pa"
  shows "good (vmi\<lparr> vi_caches := v2p_cache_set va pt npt pa (vi_caches vmi) \<rparr>)"
  using assms v2p_step_coherent [OF page_translation_guest, of page tp "V2P_Set va pt npt pa"]
  by (simp add: good_def paged_def)

text \<open>A translation step that computes \<open>tr\<close> and keeps the instance good.\<close>

definition computes :: "(addr_t \<Rightarrow> 'a vmi_instance \<Rightarrow> addr_t option \<times> 'a vmi_instance) \<Rightarrow>
    (addr_t \<Rightarrow> addr_t option) \<Rightarrow> bool" where
  "computes xl tr \<longleftrightarrow> granular tr \<and>
     (\<forall>vmi va. good vmi \<longrightarrow> fst (xl va vmi) = tr va \<and> good (snd (xl va vmi)))"

lemma reader: "computes xl tr \<Longrightarrow> translating_reader rd dinv page env xl good tr"
  using drv by unfold_locales (auto simp: good_def paged_def computes_def)

lemma read_by:
  assumes "read_target env ctx vmi = (Some (pt, pm, start), vmi1)" and "good vmi1"
    and "computes (access_paddr look ctx pt pm) tr"
  obtains vmi' where "good vmi'"
    "vmi_read_with env look ctx cnt vmi =
       (read_status cnt (spec_read (vbyte page tr) start cnt), spec_read (vbyte page tr) start cnt, vmi')"
  using translating_reader.read_loop_spec [OF reader [OF assms(3)] assms(2) order.refl,
      where start = start and off = 0 and cnt = cnt] assms(1)
  by (auto simp: vmi_read_with_def)

lemma vbyte_Some: "vbyte page Some = pbyte page"
  by (rule ext) (simp add: vbyte_def)

lemma granular_Some: "granular Some"
proof -
  have "v = clear_low 12 w OR (VMI_BIT_MASK 0 11 AND v)"
    if "clear_low 12 v = clear_low 12 w" for v w :: addr_t
    using clear_low_or_low [of v] that by metis
  then show ?thesis unfolding granular_def by auto
qed

text \<open>Physical reads leave the address caches alone.\<close>

lemma read_phys:
  assumes "good vmi" and "ac_tm ctx = VMI_TM_NONE" and "ac_npt ctx = 0" and "ac_npm ctx = 0"
  obtains vmi' where "good vmi'" "vi_caches vmi' = vi_caches vmi"
    "vmi_read_with env look ctx cnt vmi =
       (read_status cnt (spec_read (pbyte page) (ac_addr ctx) cnt), spec_read (pbyte page) (ac_addr ctx) cnt, vmi')"
proof -
  let ?good = "\<lambda>v. good v \<and> vi_caches v = vi_caches vmi"
  have "translating_reader rd dinv page env (access_paddr look ctx 0 0) ?good Some"
    using assms drv
    by unfold_locales (auto simp: access_paddr_def granular_Some good_def paged_def)
  from translating_reader.read_loop_spec [OF this _ order.refl, of vmi "ac_addr ctx" cnt 0] that
  show ?thesis using assms by (auto simp: read_target_none vbyte_Some vmi_read_with_def)
qed

text \<open>The entry reads of a walk.\<close>

lemma read_64_word:
  assumes "vmi_read_with env look ctx 8 vmi = (read_status 8 (spec_read f a 8), spec_read f a 8, vmi')"
  shows "vmi_read_64 (vmi_read_with env look) ctx vmi = (word_at f a, vmi')"
  using assms by (auto simp: vmi_read_64_def read_status_def word_at_def)

lemma phys_entries:
  "entry_reader (vmi_read_with env look) (ACCESS_CONTEXT\<lparr> ac_npt := 0, ac_npm := 0 \<rparr>)
     (\<lambda>v. good v \<and> vi_caches v = c) tp (word_at (pbyte page))"
proof
  fix vmi a assume g: "good vmi \<and> vi_caches vmi = c"
  let ?c = "ACCESS_CONTEXT\<lparr> ac_npt := 0, ac_npm := 0, ac_addr := a \<rparr>"
  obtain v where v: "good v" "vi_caches v = vi_caches vmi" "vmi_read_with env look ?c 8 vmi =
      (read_status 8 (spec_read (pbyte page) a 8), spec_read (pbyte page) a 8, v)"
    using read_phys [of vmi ?c look 8] g by (auto simp: ACCESS_CONTEXT_def)
  note w = read_64_word [OF v(3)]
  show "fst (vmi_read_64 (vmi_read_with env look) ?c vmi) = word_at (pbyte page) a"
    and "good (snd (vmi_read_64 (vmi_read_with env look) ?c vmi)) \<and>
      vi_caches (snd (vmi_read_64 (vmi_read_with env look) ?c vmi)) = c"
    using v(1,2) g by (simp_all add: w)
qed (simp add: good_def)

text \<open>What a lookup with nested base \<open>npt\<close> promises: it answers with the reference
  translation and keeps the instance good.\<close>

definition looks :: "'a lookup_fn \<Rightarrow> addr_t \<Rightarrow> page_mode_t \<Rightarrow> page_mode_t \<Rightarrow> bool" where
  "looks look npt npm pm \<longleftrightarrow> (\<forall>pt va vmi. good vmi \<longrightarrow>
     good (snd (look npt npm pt pm va vmi)) \<and>
     map_option (if valid_npm npm then snd else fst) (fst (look npt npm pt pm va vmi)) =
       guest_tr page tp (va, pt, npt))"

lemma arch_lookup_phys:
  assumes "pm = VMI_PM_IA32E \<or> pm = VMI_PM_EPT_4L" and g: "good vmi"
    and r: "arch_lookup env look 0 0 pt pm va info vmi = (st, i, v)"
  shows "good v" and "vi_caches v = vi_caches vmi"
    and "guest_tr page tp (va, pt, 0) = (case st of VMI_FAILURE \<Rightarrow> None | VMI_SUCCESS \<Rightarrow> Some (pi_paddr i))"
proof -
  let ?i = "info\<lparr> pi_npt := 0, pi_npm := 0, pi_pt := pt, pi_pm := VMI_PM_IA32E, pi_vaddr := va \<rparr>"
  have w: "v2p_ia32e_walk (vmi_read_with env look) (ACCESS_CONTEXT\<lparr> ac_npt := 0, ac_npm := 0 \<rparr>) ?i vmi
      = (st, i, v)"
    using assms(1) r
    by (auto simp: arch_lookup_def arch_init_lookup_tables_def v2p_ept_4l_def v2p_ia32e_def
        walk_done_def split: prod.splits)
  have "(good v \<and> vi_caches v = vi_caches vmi) \<and> (case radix_walk (word_at (pbyte page)) tp 4 pt va of
       None \<Rightarrow> st = VMI_FAILURE
     | Some (pa, sh) \<Rightarrow> st = VMI_SUCCESS \<and> pi_paddr i = pa \<and> pi_size i = 2 ^ sh)"
    using entry_reader.ia32e_walk_refines [OF phys_entries [of look "vi_caches vmi"], of vmi ?i] g w by simp
  then show "good v" and "vi_caches v = vi_caches vmi"
    and "guest_tr page tp (va, pt, 0) = (case st of VMI_FAILURE \<Rightarrow> None | VMI_SUCCESS \<Rightarrow> Some (pi_paddr i))"
    by (auto simp: guest_tr_def phys_tr_def split: option.splits)
qed

lemma lookup_walk_phys:
  assumes pm: "pm = VMI_PM_IA32E \<or> pm = VMI_PM_EPT_4L"
  shows "looks (lookup_walk env look) 0 0 pm"
  unfolding looks_def
proof (intro allI impI)
  fix pt va vmi assume g: "good vmi"
  obtain st i v where w: "arch_lookup env look 0 0 pt pm va (env_stack_info env) vmi = (st, i, v)"
    by (metis prod_cases3)
  note r = arch_lookup_phys [OF pm g w]
  show "good (snd (lookup_walk env look 0 0 pt pm va vmi)) \<and>
     map_option (if valid_npm 0 then snd else fst) (fst (lookup_walk env look 0 0 pt pm va vmi)) =
       guest_tr page tp (va, pt, 0)"
    using r good_cache_set [OF r(1), of va pt 0 "pi_paddr i"]
    by (cases st) (auto simp: lookup_walk_def w)
qed

lemma body_looks:
  assumes w: "looks (lookup_walk env look) npt npm pm" and pm: "valid_pm pm"
  shows "looks (nested_lookup_body env look) npt npm pm"
  unfolding looks_def
proof (intro allI impI)
  fix pt va vmi assume g: "good vmi"
  let ?r = "nested_lookup_body env look npt npm pt pm va vmi"
  let ?ok = "\<lambda>r. good (snd r) \<and> map_option (if valid_npm npm then snd else fst) (fst r) =
      guest_tr page tp (va, pt, npt)"
  have w': "?ok (lookup_walk env look npt npm pt pm va v)" if "good v" for v
    using w that by (simp add: looks_def)
  show "?ok ?r"
  proof (cases "v2p_cache_get (vi_caches vmi) va pt npt")
    case None
    then show ?thesis using pm w' [OF g] by (simp add: nested_lookup_body_def)
  next
    case (Some pa)
    have tr: "guest_tr page tp (va, pt, npt) = Some pa"
      using g Some v2pc.coherentD [of "guest_tr page tp" "vi_caches vmi" "(va, pt, npt)"]
      by (simp add: good_def)
    obtain v where v: "good v" "vi_caches v = vi_caches vmi"
      "vmi_read_with env look (ACCESS_CONTEXT\<lparr> ac_addr := pa \<rparr>) 1 vmi =
      (read_status 1 (spec_read (pbyte page) pa 1), spec_read (pbyte page) pa 1, v)"
      using read_phys [OF g, of "ACCESS_CONTEXT\<lparr> ac_addr := pa \<rparr>" look 1]
      by (auto simp: ACCESS_CONTEXT_def)
    then have "snd (vmi_read_8_pa (vmi_read_with env look) pa vmi) = v"
      by (simp add: vmi_read_8_pa_def vmi_read_8_def split: status.splits)
    then show ?thesis
      using pm Some tr v(1) w' [OF v(1)]
      by (cases "vmi_read_8_pa (vmi_read_with env look) pa vmi")
        (auto simp: nested_lookup_body_def split: option.splits)
  qed
qed

lemma valid_pm_walk: "pm = VMI_PM_IA32E \<or> pm = VMI_PM_EPT_4L \<Longrightarrow> valid_pm pm"
  by auto

lemma lookup_phys:
  "pm = VMI_PM_IA32E \<or> pm = VMI_PM_EPT_4L \<Longrightarrow> looks (vmi_nested_pagetable_lookup env) 0 0 pm"
  unfolding vmi_nested_pagetable_lookup_def numeral_2_eq_2 nested_lookup.simps(2)
  by (rule body_looks [OF lookup_walk_phys valid_pm_walk])

text \<open>Through a second set of tables.\<close>

abbreviation look2 :: "'a lookup_fn" where "look2 \<equiv> vmi_nested_pagetable_lookup env"

lemma guest_tr_phys: "guest_tr page tp (va, pt, 0) = phys_tr page tp pt va"
  by (simp add: guest_tr_def)

lemma nested_step:
  assumes "good vmi"
  shows "good (snd (look2 0 0 npt VMI_PM_EPT_4L ga vmi))"
    and "map_option fst (fst (look2 0 0 npt VMI_PM_EPT_4L ga vmi)) = phys_tr page tp npt ga"
  using lookup_phys [of VMI_PM_EPT_4L] assms by (simp_all add: looks_def guest_tr_phys)

lemma nested_computes:
  assumes "ac_npm ctx = VMI_PM_EPT_4L"
  shows "computes (access_paddr look2 ctx pt 0) (phys_tr page tp (ac_npt ctx))"
  unfolding computes_def
proof (intro conjI allI impI)
  fix vmi va assume g: "good vmi"
  note n = nested_step [OF g, of "ac_npt ctx" va]
  show "fst (access_paddr look2 ctx pt 0 va vmi) = phys_tr page tp (ac_npt ctx) va"
    "good (snd (access_paddr look2 ctx pt 0 va vmi))"
    using assms n
    by (cases "look2 0 0 (ac_npt ctx) VMI_PM_EPT_4L va vmi"; auto simp: access_paddr_def split: option.splits)+
qed (rule granular_phys_tr)

lemma nested_entries:
  "entry_reader (vmi_read_with env look2) (ACCESS_CONTEXT\<lparr> ac_npt := npt, ac_npm := VMI_PM_EPT_4L \<rparr>) good tp
     (word_at (vbyte page (phys_tr page tp npt)))"
proof
  fix vmi a assume g: "good vmi"
  let ?c = "ACCESS_CONTEXT\<lparr> ac_npt := npt, ac_npm := VMI_PM_EPT_4L, ac_addr := a \<rparr>"
  let ?f = "vbyte page (phys_tr page tp npt)"
  have t: "read_target env ?c vmi = (Some (0, 0, a), vmi)"
    by (simp add: read_target_none ACCESS_CONTEXT_def)
  obtain v where v: "good v" "vmi_read_with env look2 ?c 8 vmi =
      (read_status 8 (spec_read ?f a 8), spec_read ?f a 8, v)"
    using read_by [OF t g nested_computes, of 8] by auto
  note w = read_64_word [OF v(2)]
  show "fst (vmi_read_64 (vmi_read_with env look2) ?c vmi) = word_at ?f a"
    and "good (snd (vmi_read_64 (vmi_read_with env look2) ?c vmi))"
    using v(1) by (simp_all add: w)
qed (simp add: good_def)

lemma lookup_walk_nested:
  assumes "npt \<noteq> 0"
  shows "looks (lookup_walk env look2) npt VMI_PM_EPT_4L VMI_PM_IA32E"
  unfolding looks_def
proof (intro allI impI)
  fix pt va vmi assume g: "good vmi"
  let ?rd = "vmi_read_with env look2"
  let ?ent = "word_at (vbyte page (phys_tr page tp npt))"
  let ?i = "(env_stack_info env)\<lparr> pi_npt := npt, pi_npm := VMI_PM_EPT_4L, pi_pt := pt,
      pi_pm := VMI_PM_IA32E, pi_vaddr := va \<rparr>"
  obtain st i v where w: "v2p_ia32e_walk ?rd
      (ACCESS_CONTEXT\<lparr> ac_npt := npt, ac_npm := VMI_PM_EPT_4L \<rparr>) ?i vmi = (st, i, v)"
    by (metis prod_cases3)
  have r: "good v" "case radix_walk ?ent tp 4 pt va of
       None \<Rightarrow> st = VMI_FAILURE
     | Some (pa, sh) \<Rightarrow> st = VMI_SUCCESS \<and> pi_paddr i = pa \<and> pi_size i = 2 ^ sh"
    using entry_reader.ia32e_walk_refines [OF nested_entries g, where npt1 = npt and info = ?i] w
    by simp_all
  obtain n v' where n: "look2 0 0 npt VMI_PM_EPT_4L (pi_paddr i) v = (n, v')" by fastforce
  have n': "good v'" "map_option fst n = phys_tr page tp npt (pi_paddr i)"
    using nested_step [OF r(1), of npt "pi_paddr i"] by (simp_all add: n)
  have l: "lookup_walk env look2 npt VMI_PM_EPT_4L pt VMI_PM_IA32E va vmi =
     (case (st, n) of
        (VMI_SUCCESS, Some (na, _)) \<Rightarrow> (Some (pi_paddr i, na),
           v'\<lparr> vi_caches := v2p_cache_set va pt npt na (vi_caches v') \<rparr>)
      | _ \<Rightarrow> (None, v'))"
    using w n by (auto simp: lookup_walk_def arch_lookup_def arch_init_lookup_tables_def v2p_ia32e_def walk_done_def
        split: status.splits option.splits)
  have gt: "guest_tr page tp (va, pt, npt) =
      (case st of VMI_FAILURE \<Rightarrow> None | VMI_SUCCESS \<Rightarrow> map_option fst n)"
    using r(2) n'(2) assms by (auto simp: guest_tr_def split: option.splits)
  show "good (snd (lookup_walk env look2 npt VMI_PM_EPT_4L pt VMI_PM_IA32E va vmi)) \<and>
     map_option (if valid_npm VMI_PM_EPT_4L then snd else fst)
       (fst (lookup_walk env look2 npt VMI_PM_EPT_4L pt VMI_PM_IA32E va vmi)) =
       guest_tr page tp (va, pt, npt)"
    using n'(1) gt good_cache_set [OF n'(1), of va pt npt]
    by (cases st; cases n) (auto simp: l)
qed

lemma lookup_nested:
  assumes "npt \<noteq> 0" shows "looks look2 npt VMI_PM_EPT_4L VMI_PM_IA32E"
proof -
  have "looks (nested_lookup_body env look2) npt VMI_PM_EPT_4L VMI_PM_IA32E"
    using assms by (intro body_looks lookup_walk_nested) simp_all
  then show ?thesis by (simp add: vmi_nested_pagetable_lookup_def nested_lookup_fixpoint)
qed

text \<open>Contexts of an IA-32e guest, plain or nested.\<close>

definition plain_or_nested :: "access_context \<Rightarrow> bool" where
  "plain_or_nested ctx \<longleftrightarrow> ac_npt ctx = 0 \<and> ac_npm ctx = 0 \<or>
     ac_npt ctx \<noteq> 0 \<and> ac_npm ctx = VMI_PM_EPT_4L"

lemma lookup_correct:
  assumes "plain_or_nested ctx" shows "looks look2 (ac_npt ctx) (ac_npm ctx) VMI_PM_IA32E"
  using assms lookup_phys [of VMI_PM_IA32E] lookup_nested by (auto simp: plain_or_nested_def)

lemma virtual_computes:
  assumes "plain_or_nested ctx"
  shows "computes (access_paddr look2 ctx pt VMI_PM_IA32E) (\<lambda>va. guest_tr page tp (va, pt, ac_npt ctx))"
  unfolding computes_def
proof (intro conjI allI impI)
  fix vmi va assume g: "good vmi"
  let ?l = "look2 (ac_npt ctx) (ac_npm ctx) pt VMI_PM_IA32E va vmi"
  have "good (snd ?l)" "map_option (if valid_npm (ac_npm ctx) then snd else fst) (fst ?l) =
      guest_tr page tp (va, pt, ac_npt ctx)"
    using lookup_correct [OF assms] g by (simp_all add: looks_def)
  then show "fst (access_paddr look2 ctx pt VMI_PM_IA32E va vmi) = guest_tr page tp (va, pt, ac_npt ctx)"
    "good (snd (access_paddr look2 ctx pt VMI_PM_IA32E va vmi))"
    by (cases ?l; auto simp: access_paddr_def split: option.splits if_splits)+
qed (rule granular_guest)

lemma read_virtual:
  assumes "good vmi" and "plain_or_nested ctx" and "ac_tm ctx = VMI_TM_PROCESS_DTB"
    and "ac_pm ctx = VMI_PM_IA32E \<or> ac_pm ctx = VMI_PM_NONE"
  obtains vmi' where "good vmi'"
    "vmi_read env ctx cnt vmi =
       (let bs = spec_read (vbyte page (\<lambda>va. guest_tr page tp (va, ac_pt ctx, ac_npt ctx))) (ac_addr ctx) cnt
        in (read_status cnt bs, bs, vmi'))"
proof -
  have "read_target env ctx vmi = (Some (ac_pt ctx, VMI_PM_IA32E, ac_addr ctx), vmi)"
    using assms by (auto simp: read_target_def plain_or_nested_def good_def)
  from read_by [OF this assms(1) virtual_computes [OF assms(2)], of cnt] that
  show ?thesis unfolding vmi_read_def by (auto simp: Let_def)
qed

end

end
