(* ===== verification/Xen_Driver.thy ===== *)
theory Xen_Driver
  imports Guest_Memory
begin

text \<open>
  The memory operations of the Xen driver, \<^verbatim>\<open>driver/xen/xen.c\<close>: mapping guest
  frames, reading them through the page cache, and writing.  The hypervisor is reached through
  \<^verbatim>\<open>libxc\<close>, which is not part of the sources: \<open>xc_map_read\<close> and
  \<open>xc_map_write\<close> stand for \<^verbatim>\<open>xc_map_foreign_range\<close> with
  \<^verbatim>\<open>PROT_READ\<close> and \<^verbatim>\<open>PROT_WRITE\<close>.  A mapping is the machine frame behind
  it (\<open>None\<close> for \<^verbatim>\<open>NULL\<close> or \<^verbatim>\<open>MAP_FAILED\<close>); a writable mapping may
  change the hypervisor's frame table, which is what happens when a shared page is copied on
  write.  Reading through a mapping yields the current content of its machine frame.

  The Xen driver over a hypervisor whose frames do not change interprets the locales
  \<open>page_driver\<close> and \<open>guest\<close>, so the translation and read results hold for the stack as it
  runs: page cache, address cache, walks and read loop together.
\<close>

section \<open>Hypervisor state and mappings\<close>

record hypervisor =
  hv_p2m :: "addr_t \<Rightarrow> nat option" \<comment> \<open>guest frame to machine frame\<close>
  hv_mem :: "nat \<Rightarrow> nat \<Rightarrow> u8" \<comment> \<open>machine frame and offset\<close>

record xen_instance =
  xi_cache :: "nat page_cache"
  xi_hv :: hypervisor

type_synonym xc_map_read = "addr_t \<Rightarrow> hypervisor \<Rightarrow> nat option"
type_synonym xc_map_write = "addr_t \<Rightarrow> hypervisor \<Rightarrow> nat option \<times> hypervisor"

definition page_bytes :: "hypervisor \<Rightarrow> nat \<Rightarrow> u8 list" where
  "page_bytes hv m = map (hv_mem hv m) [0..<4096]"

definition xen_get_memory :: "xc_map_read \<Rightarrow> hypervisor \<Rightarrow> addr_t \<Rightarrow> u32 \<Rightarrow> nat option" where
  "xen_get_memory xcr hv paddr len = xcr (drop_bit 12 paddr) hv"

definition xen_read_page :: "xc_map_read \<Rightarrow> mem_config \<Rightarrow> int \<Rightarrow> addr_t \<Rightarrow> xen_instance \<Rightarrow>
    u8 list option \<times> xen_instance" where
  "xen_read_page xcr cfg now page x =
     (case memory_cache_insert cfg (xen_get_memory xcr (xi_hv x)) now (push_bit 12 page) (xi_cache x) of
        (m, pc) \<Rightarrow> (map_option (page_bytes (xi_hv x)) m, x\<lparr> xi_cache := pc \<rparr>))"

definition mem_write :: "nat \<Rightarrow> nat \<Rightarrow> u8 list \<Rightarrow> hypervisor \<Rightarrow> hypervisor" where
  "mem_write m offset bs hv = hv\<lparr> hv_mem := (hv_mem hv)(m := (\<lambda>i.
     if offset \<le> i \<and> i < offset + length bs then bs ! (i - offset) else hv_mem hv m i)) \<rparr>"

text \<open>The loop of \<^verbatim>\<open>xen_put_memory\<close>; \<open>sp\<close> is the address of the parameter of
  \<^verbatim>\<open>memory_cache_remove\<close>.  Every round writes at least one byte, so as many rounds as
  there are bytes are enough.\<close>

fun xen_put_loop :: "xc_map_write \<Rightarrow> mem_config \<Rightarrow> addr_t \<Rightarrow> addr_t \<Rightarrow> nat \<Rightarrow> nat \<Rightarrow> u8 list \<Rightarrow>
    xen_instance \<Rightarrow> status \<times> xen_instance" where
  "xen_put_loop xcw cfg sp paddr 0 buf_offset buf x =
     (if buf = [] then VMI_SUCCESS else VMI_FAILURE, x)"
| "xen_put_loop xcw cfg sp paddr (Suc fuel) buf_offset buf x =
     (if buf = [] then (VMI_SUCCESS, x)
      else
        let phys_address = paddr + of_nat buf_offset;
            pfn = drop_bit 12 phys_address;
            offset = unat (ucast (mc_page_size cfg - 1) AND phys_address)
        in case xcw pfn (xi_hv x) of
             (None, hv) \<Rightarrow> (VMI_FAILURE, x\<lparr> xi_hv := hv \<rparr>)
           | (Some memory, hv) \<Rightarrow>
               let write_len = (if offset + length buf > unat (mc_page_size cfg)
                                then unat (mc_page_size cfg) - offset else length buf);
                   x1 = x\<lparr> xi_hv := mem_write memory offset (take write_len buf) hv \<rparr>;
                   x2 = x1\<lparr> xi_cache := memory_cache_remove cfg sp (clear_low 12 phys_address)
                               (xi_cache x1) \<rparr>
               in xen_put_loop xcw cfg sp paddr fuel (buf_offset + write_len) (drop write_len buf) x2)"

definition xen_put_memory :: "xc_map_write \<Rightarrow> mem_config \<Rightarrow> addr_t \<Rightarrow> addr_t \<Rightarrow> u8 list \<Rightarrow>
    xen_instance \<Rightarrow> status \<times> xen_instance" where
  "xen_put_memory xcw cfg sp paddr buf x = xen_put_loop xcw cfg sp paddr (length buf) 0 buf x"

definition xen_write :: "xc_map_write \<Rightarrow> mem_config \<Rightarrow> addr_t \<Rightarrow> addr_t \<Rightarrow> u8 list \<Rightarrow>
    xen_instance \<Rightarrow> status \<times> xen_instance" where
  "xen_write xcw cfg sp paddr buf x = xen_put_memory xcw cfg sp paddr buf x"

section \<open>The driver as an environment\<close>

definition xen_cfg :: "vm_type \<Rightarrow> (addr_t \<times> addr_t) list option \<Rightarrow> addr_t \<Rightarrow> mem_config" where
  "xen_cfg vt mm maxp = \<lparr> mc_page_size = 0x1000, mc_vm_type = vt, mc_memmap = mm,
     mc_max_physical_address = maxp \<rparr>"

definition xen_env :: "xc_map_read \<Rightarrow> xc_map_write \<Rightarrow> mem_config \<Rightarrow> int \<Rightarrow> addr_t \<Rightarrow>
    xen_instance os_interface option \<Rightarrow> page_info \<Rightarrow> xen_instance vmi_env" where
  "xen_env xcr xcw cfg now sp os junk =
     \<lparr> env_driver = \<lparr> drv_initialized = True,
         drv_read_page_ptr = Some (xen_read_page xcr cfg now),
         drv_write_ptr = Some (xen_write xcw cfg sp),
         drv_mmap_guest = None, drv_get_vcpureg_ptr = None \<rparr>,
       env_os = os, env_stack_info = junk \<rparr>"

text \<open>The memory a guest of this configuration shows.\<close>

definition xen_page :: "xc_map_read \<Rightarrow> mem_config \<Rightarrow> hypervisor \<Rightarrow> addr_t \<Rightarrow> u8 list option" where
  "xen_page xcr cfg hv f = (let a = push_bit 12 f in
     if range_ok cfg a 0x1000 then map_option (page_bytes hv) (xcr (drop_bit 12 a) hv) else None)"

definition xen_inv :: "xc_map_read \<Rightarrow> mem_config \<Rightarrow> hypervisor \<Rightarrow> xen_instance \<Rightarrow> bool" where
  "xen_inv xcr cfg hv x \<longleftrightarrow> xi_hv x = hv \<and> pc_inv cfg (xi_cache x) \<and>
     pc_coherent (xen_get_memory xcr hv) (xi_cache x)"

lemma page_aligned_frame: "mc_page_size cfg = 0x1000 \<Longrightarrow> page_aligned cfg (push_bit 12 f)"
proof -
  have m: "ucast (0x1000 :: u32) - 1 = (mask 12 :: u64)" by (simp add: mask_eq_exp_minus_1)
  have "push_bit 12 f AND NOT (mask 12) = (push_bit 12 f :: u64)"
    by (rule bit_word_eqI) (auto simp: bit_simps)
  then show "mc_page_size cfg = 0x1000 \<Longrightarrow> page_aligned cfg (push_bit 12 f)"
    by (simp only: page_aligned_def m)
qed

lemma xen_cfg_size [simp]: "mc_page_size (xen_cfg vt mm maxp) = 0x1000"
  by (simp add: xen_cfg_def)

interpretation xend: page_driver "xen_read_page xcr (xen_cfg vt mm maxp) now"
  "xen_inv xcr (xen_cfg vt mm maxp) hv" "xen_page xcr (xen_cfg vt mm maxp) hv"
  for xcr vt mm maxp now hv
proof
  fix x f assume i: "xen_inv xcr (xen_cfg vt mm maxp) hv x"
  let ?cfg = "xen_cfg vt mm maxp"
  let ?r = "memory_cache_insert ?cfg (xen_get_memory xcr hv) now (push_bit 12 f) (xi_cache x)"
  have pi: "pc_inv ?cfg (xi_cache x) \<and> pc_coherent (xen_get_memory xcr hv) (xi_cache x)"
    and hv: "xi_hv x = hv"
    using i by (simp_all add: xen_inv_def)
  show "fst (xen_read_page xcr ?cfg now f x) = xen_page xcr ?cfg hv f"
    using pcache.read_content [OF pi, of now "push_bit 12 f"] page_aligned_frame [of ?cfg f]
    by (simp add: xen_read_page_def xen_page_def hv case_prod_beta Let_def xen_get_memory_def)
  show "xen_inv xcr ?cfg hv (snd (xen_read_page xcr ?cfg now f x))"
    using pcache.read_inv [OF pi, of now "push_bit 12 f"]
    by (simp add: xen_read_page_def hv case_prod_beta xen_inv_def)
next
  fix f p assume "xen_page xcr (xen_cfg vt mm maxp) hv f = Some p"
  then show "length p = 4096"
    by (auto simp: xen_page_def page_bytes_def Let_def split: if_splits)
qed

interpretation xeng: guest "xen_read_page xcr (xen_cfg vt mm maxp) now"
  "xen_inv xcr (xen_cfg vt mm maxp) hv" "xen_page xcr (xen_cfg vt mm maxp) hv"
  "xen_env xcr xcw (xen_cfg vt mm maxp) now sp os junk" tp
  for xcr vt mm maxp now hv xcw sp os junk tp
  by unfold_locales (simp add: xend.drives_def xen_env_def)

text \<open>Physical reads of this guest are the byte loop at the identity translation, and the entry
  reads of a walk without nested tables read the guest's words.\<close>

interpretation xenp: translating_reader "xen_read_page xcr (xen_cfg vt mm maxp) now"
  "xen_inv xcr (xen_cfg vt mm maxp) hv" "xen_page xcr (xen_cfg vt mm maxp) hv"
  "xen_env xcr xcw (xen_cfg vt mm maxp) now sp os junk" "access_paddr look ACCESS_CONTEXT 0 0"
  "xeng.good xcr vt mm maxp hv tp" Some
  for xcr vt mm maxp now hv xcw sp os junk look tp
  by unfold_locales
    (auto simp: access_paddr_def ACCESS_CONTEXT_def xeng.granular_Some xeng.good_def xend.paged_def
      intro: xeng.drv)

interpretation xene: entry_reader
  "vmi_read_with (xen_env xcr xcw (xen_cfg vt mm maxp) now sp os junk) look"
  "ACCESS_CONTEXT\<lparr> ac_npt := 0, ac_npm := 0 \<rparr>"
  "\<lambda>v. xeng.good xcr vt mm maxp hv tp v \<and> vi_caches v = c" tp
  "word_at (pbyte (xen_page xcr (xen_cfg vt mm maxp) hv))"
  for xcr vt mm maxp now hv xcw sp os junk look tp c
  by (rule xeng.phys_entries)

section \<open>A concrete guest\<close>

text \<open>A guest whose memory is filled with one byte: every page-table entry is present and the
  third-level ones map 1 GB pages.\<close>

definition hv0 :: hypervisor where
  "hv0 = \<lparr> hv_p2m = (\<lambda>f. Some 7), hv_mem = (\<lambda>m i. 0x81) \<rparr>"

definition xcr0 :: xc_map_read where "xcr0 f hv = hv_p2m hv f"

definition xcw0 :: xc_map_write where "xcw0 f hv = (hv_p2m hv f, hv)"

abbreviation xcfg0 :: mem_config where "xcfg0 \<equiv> xen_cfg PV64 None 0x100000000"

abbreviation xenv0 :: "xen_instance vmi_env" where
  "xenv0 \<equiv> xen_env xcr0 xcw0 xcfg0 0 0xffff None page_info_zero"

definition xvmi0 :: "xen_instance vmi_instance" where
  "xvmi0 = \<lparr> vi_mode = VMI_XEN, vi_os_type = VMI_OS_LINUX, vi_vm_type = PV64,
     vi_page_mode = VMI_PM_IA32E, vi_kpgd = 0x1000, vi_page_shift = 12, vi_page_size = 0x1000,
     vi_pse = False, vi_transition_pages = False, vi_t0sz = 0, vi_t1sz = 0, vi_tg0 = 0, vi_tg1 = 0,
     vi_max_physical_address = 0x100000000, vi_caches = addr_caches_init,
     vi_driver = \<lparr> xi_cache = memory_cache_init 0, xi_hv = hv0 \<rparr> \<rparr>"

lemma pbyte_hv0: "pbyte (xen_page xcr0 xcfg0 hv0) = (\<lambda>pa. Some 0x81)"
proof
  fix pa :: addr_t
  have "unat (take_bit 12 pa) < 4096" by (simp add: unat_low12)
  then show "pbyte (xen_page xcr0 xcfg0 hv0) pa = Some 0x81"
    by (simp add: pbyte_def xen_page_def xcr0_def hv0_def range_ok_def xen_cfg_def page_bytes_def)
qed

lemma spec_read_const: "spec_read (\<lambda>a. Some b) a n = replicate n b"
  by (induction n arbitrary: a) simp_all

lemma word_at_hv0: "word_at (\<lambda>a. Some 0x81) a = Some 0x8181818181818181"
proof -
  have "replicate 8 b = [b, b, b, b, b, b, b, b]" for b :: u8 by (simp add: eval_nat_numeral)
  then have "(word_of_bytes (replicate 8 (0x81 :: u8)) :: u64) = 0x8181818181818181"
    by (simp only:) (simp add: push_bit_eq_mult)
  then show ?thesis by (simp add: word_at_def spec_read_const)
qed

lemma phys_tr_hv0: "\<exists>pa. phys_tr (xen_page xcr0 xcfg0 hv0) False pt va = Some pa"
proof -
  have four: "radix_walk (\<lambda>a. Some e) tp 4 = radix_walk (\<lambda>a. Some e) tp (Suc (Suc (Suc (Suc 0))))" for e tp
    by (simp add: numeral_eq_Suc)
  have e: "word_at (\<lambda>a. Some 0x81) = (\<lambda>a. Some 0x8181818181818181)" by (rule ext) (rule word_at_hv0)
  show ?thesis
    unfolding phys_tr_def pbyte_hv0 e four by (simp add: entry_present_def)
qed

lemma vbyte_hv0: "vbyte (xen_page xcr0 xcfg0 hv0) (\<lambda>va. guest_tr (xen_page xcr0 xcfg0 hv0) False (va, pt, 0))
    = (\<lambda>va. Some 0x81)"
proof
  fix va
  show "vbyte (xen_page xcr0 xcfg0 hv0) (\<lambda>va. guest_tr (xen_page xcr0 xcfg0 hv0) False (va, pt, 0)) va = Some 0x81"
    using phys_tr_hv0 [of pt va] by (auto simp: vbyte_def guest_tr_def pbyte_hv0)
qed

section \<open>Properties\<close>

text \<open>The instance is set up for an IA-32e guest of a hypervisor: 4 KB pages, a sound page cache whose entries are
  the hypervisor's mappings, and a virtual-to-physical cache that agrees with the guest's
  tables.\<close>

definition xen_ready :: "xc_map_read \<Rightarrow> mem_config \<Rightarrow> hypervisor \<Rightarrow> bool \<Rightarrow> xen_instance vmi_instance \<Rightarrow> bool"
where
  "xen_ready xcr cfg hv tp vmi \<longleftrightarrow>
     (vi_page_shift vmi = 12 \<and> vi_page_size vmi = 0x1000 \<and> xen_inv xcr cfg hv (vi_driver vmi)) \<and>
     vi_page_mode vmi = VMI_PM_IA32E \<and> vi_transition_pages vmi = tp \<and>
     v2pc.coherent (guest_tr (xen_page xcr cfg hv) tp) (vi_caches vmi)"

lemma xen_ready_good:
  "xen_ready xcr (xen_cfg vt mm maxp) hv tp = xeng.good xcr vt mm maxp hv tp"
  by (rule ext) (simp add: xen_ready_def xeng.good_def xend.paged_def)

lemma xen_ready_init: "xen_ready xcr0 xcfg0 hv0 False xvmi0"
  by (simp add: xen_ready_def xvmi0_def xen_inv_def pc_inv_init pc_coherent_init v2pc.coherent_empty)

text \<open>C1. Reading guest-virtual memory through the Xen driver delivers the guest's bytes: for every
  length and address the bytes are those behind the IA-32e translation of the context's page
  table (or behind both translations under a nested one), byte for byte across page
  boundaries, up to the first byte that is not mapped; the call succeeds exactly when all
  bytes came.  Both caches stay sound, so this holds again for the next read.\<close>

theorem vmi_read_virtual_correct:
  assumes "xen_ready xcr (xen_cfg vt mm maxp) hv tp vmi"
    and "ac_tm ctx = VMI_TM_PROCESS_DTB"
    and "ac_npt ctx = 0 \<and> ac_npm ctx = VMI_PM_NONE \<or> ac_npt ctx \<noteq> 0 \<and> ac_npm ctx = VMI_PM_EPT_4L"
    and "ac_pm ctx = VMI_PM_IA32E \<or> ac_pm ctx = VMI_PM_NONE"
  shows "\<exists>vmi'. xen_ready xcr (xen_cfg vt mm maxp) hv tp vmi' \<and>
    vmi_read (xen_env xcr xcw (xen_cfg vt mm maxp) now sp os junk) ctx cnt vmi =
      (let page = xen_page xcr (xen_cfg vt mm maxp) hv;
           bs = spec_read (vbyte page (\<lambda>va. guest_tr page tp (va, ac_pt ctx, ac_npt ctx))) (ac_addr ctx) cnt
       in (if length bs = cnt then VMI_SUCCESS else VMI_FAILURE, bs, vmi'))"
proof -
  have g: "xeng.good xcr vt mm maxp hv tp vmi" using assms(1) by (simp add: xen_ready_good)
  have "xeng.plain_or_nested ctx" using assms(3) by (auto simp: xeng.plain_or_nested_def)
  then obtain vmi' where "xeng.good xcr vt mm maxp hv tp vmi'"
    "vmi_read (xen_env xcr xcw (xen_cfg vt mm maxp) now sp os junk) ctx cnt vmi =
       (let bs = spec_read (vbyte (xen_page xcr (xen_cfg vt mm maxp) hv) (\<lambda>va. guest_tr
              (xen_page xcr (xen_cfg vt mm maxp) hv) tp (va, ac_pt ctx, ac_npt ctx))) (ac_addr ctx) cnt
        in (read_status cnt bs, bs, vmi'))"
    by (rule xeng.read_virtual [OF g _ assms(2,4)])
  then show ?thesis unfolding xen_ready_good by (auto simp: Let_def read_status_def)
qed

theorem vmi_read_virtual_correct_witness:
  "let ctx = ACCESS_CONTEXT\<lparr> ac_tm := VMI_TM_PROCESS_DTB, ac_pt := 0x1000, ac_addr := 0x7fff12345ffe \<rparr>
   in fst (vmi_read xenv0 ctx 5 xvmi0) = VMI_SUCCESS \<and>
      fst (snd (vmi_read xenv0 ctx 5 xvmi0)) = [0x81, 0x81, 0x81, 0x81, 0x81]"
proof -
  let ?ctx = "ACCESS_CONTEXT\<lparr> ac_tm := VMI_TM_PROCESS_DTB, ac_pt := 0x1000, ac_addr := 0x7fff12345ffe \<rparr>"
  have pm: "vi_page_mode xvmi0 = VMI_PM_IA32E" by (simp add: xvmi0_def)
  obtain v where v: "vmi_read xenv0 ?ctx 5 xvmi0 = (VMI_SUCCESS, replicate 5 0x81, v)"
    using vmi_read_virtual_correct [OF xen_ready_init, where ctx = ?ctx and cnt = 5 and xcw = xcw0 and
        now = 0 and sp = "0xffff" and os = None and junk = page_info_zero] pm
    by (auto simp: ACCESS_CONTEXT_def vbyte_hv0 spec_read_const Let_def)
  have "replicate 5 b = [b, b, b, b, b]" for b :: u8 by (simp add: eval_nat_numeral)
  with v show ?thesis by (simp only: Let_def) simp
qed

text \<open>C2. Page-table lookup through the caches gives what the tables say: with or without a cached
  entry, the answer is the IA-32e translation of the address (through the nested tables when
  there are any), it fails exactly when that translation does not exist, and the caches stay
  sound.\<close>

theorem vmi_lookup_correct:
  assumes "xen_ready xcr (xen_cfg vt mm maxp) hv tp vmi"
    and "npt = 0 \<and> npm = VMI_PM_NONE \<or> npt \<noteq> 0 \<and> npm = VMI_PM_EPT_4L"
  shows "let r = vmi_nested_pagetable_lookup (xen_env xcr xcw (xen_cfg vt mm maxp) now sp os junk)
               npt npm pt VMI_PM_IA32E va vmi
     in xen_ready xcr (xen_cfg vt mm maxp) hv tp (snd r) \<and>
        map_option (if npm = VMI_PM_EPT_4L then snd else fst) (fst r) =
          guest_tr (xen_page xcr (xen_cfg vt mm maxp) hv) tp (va, pt, npt)"
proof -
  let ?ctx = "ACCESS_CONTEXT\<lparr> ac_npt := npt, ac_npm := npm \<rparr>"
  have "xeng.plain_or_nested ?ctx" using assms(2) by (auto simp: xeng.plain_or_nested_def)
  from xeng.lookup_correct [OF this] show ?thesis
    using assms by (auto simp: xeng.looks_def xen_ready_good valid_npm_def Let_def)
qed

theorem vmi_lookup_correct_witness:
  "fst (vmi_nested_pagetable_lookup xenv0 0 0 0x1000 VMI_PM_IA32E 0x7fff12345678 xvmi0) \<noteq> None"
proof -
  obtain pa where "phys_tr (xen_page xcr0 xcfg0 hv0) False 0x1000 0x7fff12345678 = Some pa"
    using phys_tr_hv0 by blast
  then show ?thesis
    using vmi_lookup_correct [OF xen_ready_init, where npt = 0 and npm = 0 and pt = "0x1000" and
        va = "0x7fff12345678" and xcw = xcw0 and now = 0 and sp = "0xffff" and os = None and
        junk = page_info_zero]
    by (auto simp: guest_tr_def Let_def)
qed

text \<open>A guest whose memory is all zero: no table entry is present.\<close>

definition hvz :: hypervisor where
  "hvz = \<lparr> hv_p2m = (\<lambda>f. Some 7), hv_mem = (\<lambda>m i. 0) \<rparr>"

lemma word_at_hvz: "word_at (pbyte (xen_page xcr0 xcfg0 hvz)) a = Some 0"
proof -
  have "unat (take_bit 12 pa) < 4096" for pa :: addr_t by (simp add: unat_low12)
  then have "pbyte (xen_page xcr0 xcfg0 hvz) = (\<lambda>pa. Some 0)"
    by (intro ext) (simp add: pbyte_def xen_page_def xcr0_def hvz_def range_ok_def xen_cfg_def page_bytes_def)
  moreover have "replicate 8 b = [b, b, b, b, b, b, b, b]" for b :: u8 by (simp add: eval_nat_numeral)
  ultimately show ?thesis by (simp add: word_at_def spec_read_const)
qed



end
