(* ===== verification/Vmi_Read.thy ===== *)
theory Vmi_Read
  imports Xen_Driver
begin

text \<open>
  The rest of \<^verbatim>\<open>read.c\<close>: reads by process id and by kernel symbol, typed reads,
  pointer-sized reads, strings and \<^verbatim>\<open>vmi_mmap_guest\<close>.  A typed read delivers the
  little-endian value of the bytes when the read succeeds.  The loop of
  \<^verbatim>\<open>vmi_read_str\<close> need not end, so it is a partial function: not returning is
  \<open>None\<close>.
\<close>

section \<open>Reads by process and by symbol\<close>

definition va_ctx :: "addr_t \<Rightarrow> vmi_pid_t \<Rightarrow> access_context" where
  "va_ctx vaddr pid = ACCESS_CONTEXT\<lparr> ac_tm := VMI_TM_PROCESS_PID, ac_addr := vaddr, ac_pt := ucast pid \<rparr>"

definition vmi_read_va :: "'s vmi_env \<Rightarrow> addr_t \<Rightarrow> vmi_pid_t \<Rightarrow> nat \<Rightarrow> 's vmi_instance \<Rightarrow>
    status \<times> u8 list \<times> 's vmi_instance" where
  "vmi_read_va env vaddr pid cnt vmi = vmi_read env (va_ctx vaddr pid) cnt vmi"

definition vmi_read_ksym :: "'s vmi_env \<Rightarrow> string \<Rightarrow> nat \<Rightarrow> 's vmi_instance \<Rightarrow>
    status \<times> u8 list \<times> 's vmi_instance" where
  "vmi_read_ksym env symb cnt vmi =
     vmi_read env (ACCESS_CONTEXT\<lparr> ac_tm := VMI_TM_KERNEL_SYMBOL, ac_pm := vi_page_mode vmi,
                     ac_ksym := symb \<rparr>) cnt vmi"

definition as_word :: "status \<times> u8 list \<times> 's vmi_instance \<Rightarrow> 'w::len word option \<times> 's vmi_instance" where
  "as_word r = (case r of
      (VMI_SUCCESS, bs, vmi) \<Rightarrow> (Some (word_of_bytes bs), vmi)
    | (VMI_FAILURE, bs, vmi) \<Rightarrow> (None, vmi))"

definition vmi_read_8_va ::
  "'s vmi_env \<Rightarrow> addr_t \<Rightarrow> vmi_pid_t \<Rightarrow> 's vmi_instance \<Rightarrow> u8 option \<times> 's vmi_instance" where
  "vmi_read_8_va env vaddr pid vmi = as_word (vmi_read_va env vaddr pid 1 vmi)"

definition vmi_read_16_va ::
  "'s vmi_env \<Rightarrow> addr_t \<Rightarrow> vmi_pid_t \<Rightarrow> 's vmi_instance \<Rightarrow> u16 option \<times> 's vmi_instance" where
  "vmi_read_16_va env vaddr pid vmi = as_word (vmi_read_va env vaddr pid 2 vmi)"

definition vmi_read_32_va ::
  "'s vmi_env \<Rightarrow> addr_t \<Rightarrow> vmi_pid_t \<Rightarrow> 's vmi_instance \<Rightarrow> u32 option \<times> 's vmi_instance" where
  "vmi_read_32_va env vaddr pid vmi = as_word (vmi_read_va env vaddr pid 4 vmi)"

definition vmi_read_64_va ::
  "'s vmi_env \<Rightarrow> addr_t \<Rightarrow> vmi_pid_t \<Rightarrow> 's vmi_instance \<Rightarrow> u64 option \<times> 's vmi_instance" where
  "vmi_read_64_va env vaddr pid vmi = as_word (vmi_read_va env vaddr pid 8 vmi)"

definition vmi_read_8_ksym ::
  "'s vmi_env \<Rightarrow> string \<Rightarrow> 's vmi_instance \<Rightarrow> u8 option \<times> 's vmi_instance" where
  "vmi_read_8_ksym env symb vmi = as_word (vmi_read_ksym env symb 1 vmi)"

definition vmi_read_16_ksym ::
  "'s vmi_env \<Rightarrow> string \<Rightarrow> 's vmi_instance \<Rightarrow> u16 option \<times> 's vmi_instance" where
  "vmi_read_16_ksym env symb vmi = as_word (vmi_read_ksym env symb 2 vmi)"

definition vmi_read_32_ksym ::
  "'s vmi_env \<Rightarrow> string \<Rightarrow> 's vmi_instance \<Rightarrow> u32 option \<times> 's vmi_instance" where
  "vmi_read_32_ksym env symb vmi = as_word (vmi_read_ksym env symb 4 vmi)"

definition vmi_read_64_ksym ::
  "'s vmi_env \<Rightarrow> string \<Rightarrow> 's vmi_instance \<Rightarrow> u64 option \<times> 's vmi_instance" where
  "vmi_read_64_ksym env symb vmi = as_word (vmi_read_ksym env symb 8 vmi)"

text \<open>Pointer-sized reads: eight bytes under a 64-bit page mode, four bytes (zero-extended) under a
  32-bit one, no read at all under any other.  \<open>rdn\<close> is the read of a number of bytes.\<close>

definition read_pointer :: "(nat \<Rightarrow> 's vmi_instance \<Rightarrow> status \<times> u8 list \<times> 's vmi_instance) \<Rightarrow>
    's vmi_instance \<Rightarrow> addr_t option \<times> 's vmi_instance" where
  "read_pointer rdn vmi =
     (let pm = vi_page_mode vmi in
      if pm = VMI_PM_AARCH64 \<or> pm = VMI_PM_IA32E then as_word (rdn 8 vmi)
      else if pm = VMI_PM_AARCH32 \<or> pm = VMI_PM_LEGACY \<or> pm = VMI_PM_PAE then
        (case as_word (rdn 4 vmi) of
           (None, vmi) \<Rightarrow> (None, vmi)
         | (Some (tmp :: u32), vmi) \<Rightarrow> (Some (ucast tmp), vmi))
      else (None, vmi))"

definition vmi_read_addr ::
  "'s vmi_env \<Rightarrow> access_context \<Rightarrow> 's vmi_instance \<Rightarrow> addr_t option \<times> 's vmi_instance" where
  "vmi_read_addr env ctx vmi = read_pointer (vmi_read env ctx) vmi"

definition vmi_read_addr_pa ::
  "'s vmi_env \<Rightarrow> addr_t \<Rightarrow> 's vmi_instance \<Rightarrow> addr_t option \<times> 's vmi_instance" where
  "vmi_read_addr_pa env paddr vmi = read_pointer (vmi_read_pa (vmi_read env) paddr) vmi"

definition vmi_read_addr_va ::
  "'s vmi_env \<Rightarrow> addr_t \<Rightarrow> vmi_pid_t \<Rightarrow> 's vmi_instance \<Rightarrow> addr_t option \<times> 's vmi_instance" where
  "vmi_read_addr_va env vaddr pid vmi = read_pointer (vmi_read_va env vaddr pid) vmi"

definition vmi_read_addr_ksym ::
  "'s vmi_env \<Rightarrow> string \<Rightarrow> 's vmi_instance \<Rightarrow> addr_t option \<times> 's vmi_instance" where
  "vmi_read_addr_ksym env symb vmi = read_pointer (vmi_read_ksym env symb) vmi"

section \<open>Strings\<close>

text \<open>The accumulated string is \<open>None\<close> while nothing was allocated.  After a page without a
  terminator the source advances the address by the page offset of the read, not by the number
  of bytes read; the model does the same.\<close>

partial_function (option) read_str_loop :: "'s vmi_env \<Rightarrow> access_context \<Rightarrow> u8 list option \<Rightarrow>
    's vmi_instance \<Rightarrow> (u8 list option \<times> 's vmi_instance) option" where
  "read_str_loop env ctx ret vmi =
     (let offset = ac_addr ctx AND VMI_BIT_MASK 0 11;
          read_size = 4096 - unat offset in
      case vmi_read env ctx read_size vmi of
        (status, buf, vmi') \<Rightarrow>
      if status = VMI_FAILURE \<and> buf = [] then Some (ret, vmi')
      else
        let chars = takeWhile (\<lambda>b. b \<noteq> 0) buf;
            ret' = (case ret of None \<Rightarrow> [] | Some r \<Rightarrow> r) @ chars in
        if length chars < length buf then Some (Some ret', vmi')
        else read_str_loop env (ctx\<lparr> ac_addr := ac_addr ctx + offset \<rparr>) (Some ret') vmi')"

definition vmi_read_str :: "'s vmi_env \<Rightarrow> access_context \<Rightarrow> 's vmi_instance \<Rightarrow>
    (u8 list option \<times> 's vmi_instance) option" where
  "vmi_read_str env ctx vmi = read_str_loop env ctx None vmi"

definition vmi_read_str_pa :: "'s vmi_env \<Rightarrow> addr_t \<Rightarrow> 's vmi_instance \<Rightarrow>
    (u8 list option \<times> 's vmi_instance) option" where
  "vmi_read_str_pa env paddr vmi = vmi_read_str env (ACCESS_CONTEXT\<lparr> ac_addr := paddr \<rparr>) vmi"

definition vmi_read_str_va :: "'s vmi_env \<Rightarrow> addr_t \<Rightarrow> vmi_pid_t \<Rightarrow> 's vmi_instance \<Rightarrow>
    (u8 list option \<times> 's vmi_instance) option" where
  "vmi_read_str_va env vaddr pid vmi = vmi_read_str env (va_ctx vaddr pid) vmi"

definition vmi_read_str_ksym :: "'s vmi_env \<Rightarrow> string \<Rightarrow> 's vmi_instance \<Rightarrow>
    (u8 list option \<times> 's vmi_instance) option" where
  "vmi_read_str_ksym env symb vmi =
     (case vmi_translate_ksym2v env symb vmi of
        (None, vmi') \<Rightarrow> Some (None, vmi')
      | (Some vaddr, vmi') \<Rightarrow> vmi_read_str_va env vaddr 0 vmi')"

section \<open>Mapping guest pages\<close>

text \<open>The switch of \<^verbatim>\<open>vmi_mmap_guest\<close>; unlike in \<^verbatim>\<open>vmi_read\<close> a context
  without translation is an error.\<close>

definition mmap_target :: "'s vmi_env \<Rightarrow> access_context \<Rightarrow> 's vmi_instance \<Rightarrow>
    (addr_t \<times> page_mode_t \<times> addr_t) option \<times> 's vmi_instance" where
  "mmap_target env ctx vmi =
     (let dflt = (\<lambda>vmi. if ac_pm ctx = 0 then vi_page_mode vmi else ac_pm ctx) in
      if ac_tm ctx = VMI_TM_KERNEL_SYMBOL then
        (if Option.is_none (env_os env) \<or> vi_kpgd vmi = 0 then (None, vmi)
         else case vmi_translate_ksym2v env (ac_ksym ctx) vmi of
                (None, vmi') \<Rightarrow> (None, vmi')
              | (Some a, vmi') \<Rightarrow> (Some (vi_kpgd vmi', dflt vmi', a), vmi'))
      else if ac_tm ctx = VMI_TM_PROCESS_PID then
        (if Option.is_none (env_os env) then (None, vmi)
         else let (p, vmi') =
                (if ac_pid ctx = 0 then (Some (vi_kpgd vmi), vmi)
                 else if sint (ac_pid ctx) > 0 then vmi_pid_to_dtb env (ac_pid ctx) vmi
                 else (Some (ac_pt ctx), vmi))
              in case p of
                   None \<Rightarrow> (None, vmi')
                 | Some dtb \<Rightarrow>
                     if dtb = 0 then (None, vmi') else (Some (dtb, dflt vmi', ac_addr ctx), vmi'))
      else if ac_tm ctx = VMI_TM_PROCESS_DTB then (Some (ac_pt ctx, dflt vmi, ac_addr ctx), vmi)
      else (None, vmi))"

text \<open>The loop over the pages: the frame numbers to map, and for every page the offset of its
  mapping, \<open>None\<close> for a page that is not mapped.\<close>

fun mmap_loop :: "'s vmi_env \<Rightarrow> access_context \<Rightarrow> addr_t \<Rightarrow> page_mode_t \<Rightarrow> nat \<Rightarrow> addr_t \<Rightarrow> nat \<Rightarrow>
    's vmi_instance \<Rightarrow> addr_t list \<times> addr_t option list \<times> 's vmi_instance" where
  "mmap_loop env ctx dtb pm 0 va pfn_ndx vmi = ([], [], vmi)"
| "mmap_loop env ctx dtb pm (Suc n) va pfn_ndx vmi =
     (case vmi_nested_pagetable_lookup env (ac_npt ctx) (ac_npm ctx) dtb pm va vmi of
        (Some (paddr, naddr), vmi') \<Rightarrow>
          (let pa = (if valid_npm (ac_npm ctx) then naddr else paddr);
               pfn = drop_bit (vi_page_shift vmi') pa;
               ptr = of_nat pfn_ndx * ucast (vi_page_size vmi');
               (pfns, ptrs, vmi'') =
                 mmap_loop env ctx dtb pm n (va + ucast (vi_page_size vmi')) (Suc pfn_ndx) vmi'
           in (pfn # pfns, Some ptr # ptrs, vmi''))
      | (None, vmi') \<Rightarrow>
          (let (pfns, ptrs, vmi'') =
                 mmap_loop env ctx dtb pm n (va + ucast (vi_page_size vmi')) pfn_ndx vmi'
           in (pfns, None # ptrs, vmi'')))"

definition vmi_mmap_guest :: "'s vmi_env \<Rightarrow> access_context \<Rightarrow> nat \<Rightarrow> 's vmi_instance \<Rightarrow>
    addr_t option list option \<times> 's vmi_instance" where
  "vmi_mmap_guest env ctx num_pages vmi =
     (case mmap_target env ctx vmi of
        (None, vmi) \<Rightarrow> (None, vmi)
      | (Some (dtb, pm, addr), vmi) \<Rightarrow>
      case mmap_loop env ctx dtb pm num_pages addr 0 vmi of
        (pfns, ptrs, vmi) \<Rightarrow>
      if pfns = [] then (None, vmi)
      else case driver_mmap_guest env pfns vmi of
        (None, vmi) \<Rightarrow> (None, vmi)
      | (Some base_ptr, vmi) \<Rightarrow> (Some (map (map_option (\<lambda>p. p + base_ptr)) ptrs), vmi))"

section \<open>Facts about string reads\<close>

lemma read_str_stays:
  assumes step: "\<And>v. good v \<Longrightarrow> \<exists>st buf v'. vmi_read env ctx 4096 v = (st, buf, v') \<and> good v' \<and>
      buf \<noteq> [] \<and> 0 \<notin> set buf"
    and al: "ac_addr ctx AND VMI_BIT_MASK 0 11 = 0"
  shows "good vmi \<Longrightarrow> read_str_loop env ctx ret vmi = None"
proof -
  have never: "e = env \<and> c = ctx \<and> good v \<longrightarrow> False" if "read_str_loop e c r v = Some y" for e c r v y
    using that
  proof (rule read_str_loop.raw_induct
      [where P = "\<lambda>e c r v y. e = env \<and> c = ctx \<and> good v \<longrightarrow> False", rotated])
    fix loop e c r v z
    assume IH: "\<And>e c r v z. loop e c r v = Some z \<Longrightarrow> e = env \<and> c = ctx \<and> good v \<longrightarrow> False"
      and eq: "(let offset = ac_addr c AND VMI_BIT_MASK 0 11; read_size = 4096 - unat offset in
          case vmi_read e c read_size v of (status, buf, vmi') \<Rightarrow>
          if status = VMI_FAILURE \<and> buf = [] then Some (r, vmi')
          else
            let chars = takeWhile (\<lambda>b. b \<noteq> 0) buf;
                ret' = (case r of None \<Rightarrow> [] | Some r \<Rightarrow> r) @ chars in
            if length chars < length buf then Some (Some ret', vmi')
            else loop e (c\<lparr> ac_addr := ac_addr c + offset \<rparr>) (Some ret') vmi') = Some z"
    show "e = env \<and> c = ctx \<and> good v \<longrightarrow> False"
    proof
      assume a: "e = env \<and> c = ctx \<and> good v"
      then obtain st buf v' where b: "vmi_read env ctx 4096 v = (st, buf, v')" "good v'"
          "buf \<noteq> []" "0 \<notin> set buf"
        using step by blast
      have "takeWhile (\<lambda>b. b \<noteq> 0) buf = buf" using b(4) by (auto simp: takeWhile_eq_all_conv)
      with eq a b al
      have "loop env ctx (Some ((case r of None \<Rightarrow> [] | Some r \<Rightarrow> r) @ buf)) v' = Some z"
        by (simp add: Let_def)
      from IH [OF this] b(2) show False by simp
    qed
  qed
  show "good vmi \<Longrightarrow> read_str_loop env ctx ret vmi = None"
    using never [of env ctx ret vmi] by (cases "read_str_loop env ctx ret vmi") simp_all
qed

lemma read_str_first_page:
  assumes "vmi_read env ctx (4096 - unat (ac_addr ctx AND VMI_BIT_MASK 0 11)) vmi = (st, s @ 0 # rest, vmi')"
    and "0 \<notin> set s"
  shows "vmi_read_str env ctx vmi = Some (Some s, vmi')"
proof -
  have "takeWhile (\<lambda>b. b \<noteq> 0) (s @ 0 # rest) = s"
    using assms(2) by (subst takeWhile_append2) auto
  then show ?thesis
    unfolding vmi_read_str_def by (subst read_str_loop.simps) (simp add: assms(1) Let_def)
qed

lemma va_ctx_fields [simp]:
  "ac_tm (va_ctx va pid) = VMI_TM_PROCESS_PID" "ac_addr (va_ctx va pid) = va" "ac_pm (va_ctx va pid) = 0"
  "ac_npt (va_ctx va pid) = 0" "ac_npm (va_ctx va pid) = 0" "ac_pid (va_ctx va pid) = pid"
proof -
  show "ac_pid (va_ctx va pid) = pid"
    by (rule bit_word_eqI) (simp add: ac_pid_def va_ctx_def vmi_bits)
qed (simp_all add: va_ctx_def ACCESS_CONTEXT_def)

lemma access_paddr_cong:
  assumes "ac_npt ctx = ac_npt ctx'" and "ac_npm ctx = ac_npm ctx'"
  shows "access_paddr look ctx = access_paddr look ctx'"
  unfolding fun_eq_iff access_paddr_def assms by simp

section \<open>Properties\<close>

text \<open>Reading by process id is reading through that process's page table: for a positive process
  id whose table is found, the read is the read of the same address in the address space of
  that table, in the state the lookup left.\<close>

theorem vmi_read_va_by_dtb:
  assumes "env_os env \<noteq> None" and "sint pid > 0"
    and "vmi_pid_to_dtb env pid vmi = (Some dtb, vmi1)" and "dtb \<noteq> 0"
  shows "vmi_read_va env va pid cnt vmi =
     vmi_read env (ACCESS_CONTEXT\<lparr> ac_tm := VMI_TM_PROCESS_DTB, ac_addr := va, ac_pt := dtb \<rparr>) cnt vmi1"
proof -
  let ?a = "va_ctx va pid"
  let ?b = "ACCESS_CONTEXT\<lparr> ac_tm := VMI_TM_PROCESS_DTB, ac_addr := va, ac_pt := dtb \<rparr>"
  have np: "pid \<noteq> 0" using assms(2) by auto
  have t: "read_target env ?a vmi = read_target env ?b vmi1"
    using assms np by (auto simp: read_target_def ACCESS_CONTEXT_def Let_def)
  have x: "access_paddr look ?a = access_paddr look ?b" for look
    by (rule access_paddr_cong) (simp_all add: ACCESS_CONTEXT_def)
  show ?thesis unfolding vmi_read_va_def vmi_read_def vmi_read_with_def t x by (rule refl)
qed

definition os0 :: "xen_instance os_interface" where
  "os0 = \<lparr> os_pgd_to_pid = None, os_pid_to_pgd = None, os_ksym2v = None, os_usym2rva = None,
     os_v2sym = None, os_v2ksym = None \<rparr>"

theorem vmi_read_va_by_dtb_witness:
  "let env = xen_env xcr0 xcw0 xcfg0 0 0xffff (Some os0) page_info_zero;
       vmi = xvmi0\<lparr> vi_caches := pid_cache_set 42 0x1000 addr_caches_init \<rparr>
   in vmi_read_va env 0x7fff0000 42 16 vmi =
      vmi_read env (ACCESS_CONTEXT\<lparr> ac_tm := VMI_TM_PROCESS_DTB, ac_addr := 0x7fff0000,
        ac_pt := 0x1000 \<rparr>) 16 vmi"
proof -
  let ?env = "xen_env xcr0 xcw0 xcfg0 0 0xffff (Some os0) page_info_zero"
  let ?vmi = "xvmi0\<lparr> vi_caches := pid_cache_set 42 0x1000 addr_caches_init \<rparr>"
  have "vmi_pid_to_dtb ?env 42 ?vmi = (Some 0x1000, ?vmi)"
    by (simp add: vmi_pid_to_dtb_def xen_env_def pid_cache_get_def pid_cache_set_def)
  then show ?thesis
    using vmi_read_va_by_dtb [of ?env 42 ?vmi "0x1000" ?vmi] by (simp add: xen_env_def Let_def)
qed

text \<open>The byte function of an address space of a guest under Xen.\<close>

definition guest_byte :: "xc_map_read \<Rightarrow> mem_config \<Rightarrow> hypervisor \<Rightarrow> bool \<Rightarrow> access_context \<Rightarrow> addr_t \<Rightarrow> u8 option"
where
  "guest_byte xcr cfg hv tp ctx =
     vbyte (xen_page xcr cfg hv) (\<lambda>va. guest_tr (xen_page xcr cfg hv) tp (va, ac_pt ctx, ac_npt ctx))"

text \<open>The contexts of the reads below: an IA-32e address space, plain or nested.\<close>

definition ia32e_context :: "access_context \<Rightarrow> bool" where
  "ia32e_context ctx \<longleftrightarrow> ac_tm ctx = VMI_TM_PROCESS_DTB \<and>
     (ac_pm ctx = VMI_PM_IA32E \<or> ac_pm ctx = VMI_PM_NONE) \<and>
     (ac_npt ctx = 0 \<and> ac_npm ctx = VMI_PM_NONE \<or> ac_npt ctx \<noteq> 0 \<and> ac_npm ctx = VMI_PM_EPT_4L)"

lemma guest_read:
  assumes "xen_ready xcr (xen_cfg vt mm maxp) hv tp vmi" and "ia32e_context ctx"
  obtains vmi' where "xen_ready xcr (xen_cfg vt mm maxp) hv tp vmi'"
    "vmi_read (xen_env xcr xcw (xen_cfg vt mm maxp) now sp os junk) ctx cnt vmi =
       (let bs = spec_read (guest_byte xcr (xen_cfg vt mm maxp) hv tp ctx) (ac_addr ctx) cnt
        in (read_status cnt bs, bs, vmi'))"
proof -
  have g: "xeng.good xcr vt mm maxp hv tp vmi" using assms(1) by (simp add: xen_ready_good)
  have c: "xeng.plain_or_nested ctx" "ac_tm ctx = VMI_TM_PROCESS_DTB"
    "ac_pm ctx = VMI_PM_IA32E \<or> ac_pm ctx = VMI_PM_NONE"
    using assms(2) by (auto simp: ia32e_context_def xeng.plain_or_nested_def)
  show ?thesis
    by (rule xeng.read_virtual [OF g c, where xcw = xcw and now = now and sp = sp and os = os and
          junk = junk and cnt = cnt])
      (rule that; simp add: xen_ready_good guest_byte_def)
qed

text \<open>C30. A string that ends in the page it starts in is read exactly: when the guest's bytes from the
  address on are non-zero characters followed by a zero byte before the page ends, the call
  returns these characters.\<close>

theorem vmi_read_str_in_page:
  assumes "xen_ready xcr (xen_cfg vt mm maxp) hv tp vmi" and "ia32e_context ctx"
    and "spec_read (guest_byte xcr (xen_cfg vt mm maxp) hv tp ctx)
           (ac_addr ctx) (4096 - unat (ac_addr ctx AND VMI_BIT_MASK 0 11)) = s @ 0 # rest"
    and "0 \<notin> set s"
  shows "\<exists>vmi'. xen_ready xcr (xen_cfg vt mm maxp) hv tp vmi' \<and>
     vmi_read_str (xen_env xcr xcw (xen_cfg vt mm maxp) now sp os junk) ctx vmi = Some (Some s, vmi')"
proof -
  let ?n = "4096 - unat (ac_addr ctx AND VMI_BIT_MASK 0 11)"
  obtain v where v: "xen_ready xcr (xen_cfg vt mm maxp) hv tp v"
    "vmi_read (xen_env xcr xcw (xen_cfg vt mm maxp) now sp os junk) ctx ?n vmi =
       (read_status ?n (s @ 0 # rest), s @ 0 # rest, v)"
    using guest_read [OF assms(1,2), where cnt = ?n and xcw = xcw and now = now and sp = sp and
        os = os and junk = junk] assms(3) by (auto simp: Let_def)
  show ?thesis using read_str_first_page [OF v(2) assms(4)] v(1) by blast
qed

text \<open>A second concrete guest: every eighth byte is \<open>0x81\<close> and the others are zero.\<close>

definition hv1 :: hypervisor where
  "hv1 = \<lparr> hv_p2m = (\<lambda>f. Some 7), hv_mem = (\<lambda>m i. if i mod 8 = 0 then 0x81 else 0) \<rparr>"

lemma pbyte_hv1: "pbyte (xen_page xcr0 xcfg0 hv1) = (\<lambda>pa. Some (if unat pa mod 8 = 0 then 0x81 else 0))"
proof
  fix pa :: addr_t
  have "unat (take_bit 12 pa) < 4096" by (simp add: unat_low12)
  moreover have "unat pa mod 4096 mod 8 = unat pa mod 8" by (simp add: mod_mod_cancel)
  ultimately show "pbyte (xen_page xcr0 xcfg0 hv1) pa = Some (if unat pa mod 8 = 0 then 0x81 else 0)"
    by (simp add: pbyte_def xen_page_def xcr0_def hv1_def range_ok_def xen_cfg_def page_bytes_def
        unat_low12)
qed

lemma unat_add_mod8: "unat ((a :: u64) + of_nat j) mod 8 = (unat a + j) mod 8"
proof -
  have "unat (a + of_nat j) = (unat a + j) mod 2 ^ 64"
    by (simp add: unat_word_ariths(1) unat_of_nat mod_simps)
  moreover have "(8 :: nat) dvd 2 ^ 64" by simp
  ultimately show ?thesis by (simp add: mod_mod_cancel)
qed

lemma spec_read_hv1:
  assumes "unat (a :: addr_t) mod 8 = 0"
  shows "spec_read (\<lambda>pa. Some (if unat pa mod 8 = 0 then 0x81 else 0)) a 8 = [0x81, 0, 0, 0, 0, 0, 0, 0]"
proof -
  let ?f = "\<lambda>pa :: addr_t. Some (if unat pa mod 8 = 0 then 0x81 else 0 :: u8)"
  let ?l = "[0x81, 0, 0, 0, 0, 0, 0, 0] :: u8 list"
  have "?f (a + of_nat j) = Some (?l ! j)" if "j < 8" for j
  proof -
    have "unat (a + of_nat j) mod 8 = j"
      using that assms unat_add_mod8 [of a j] by (simp add: mod_add_left_eq [symmetric])
    moreover have "j = 0 \<or> j = 1 \<or> j = 2 \<or> j = 3 \<or> j = 4 \<or> j = 5 \<or> j = 6 \<or> j = 7" using that by arith
    ultimately show ?thesis by auto
  qed
  then show ?thesis using spec_read_chunk [of 8 ?f a ?l 8] by simp
qed

lemma phys_tr_hv1: "phys_tr (xen_page xcr0 xcfg0 hv1) False pt va = Some (take_bit 30 va)"
proof -
  let ?ent = "word_at (\<lambda>pa. Some (if unat pa mod 8 = 0 then 0x81 else 0))"
  have ent: "?ent (clear_low 12 t OR push_bit 3 x) = Some 0x81" for t x
  proof -
    have "take_bit 3 (clear_low 12 t OR push_bit 3 x) = 0"
      by (rule bit_word_eqI) (auto simp: bit_simps vmi_bits)
    moreover have "unat (take_bit 3 w) = unat w mod 8" for w :: u64
      by (simp add: take_bit_eq_mod unat_mod)
    ultimately have "unat (clear_low 12 t OR push_bit 3 x) mod 8 = 0"
      by (metis unat_0)
    then show ?thesis by (simp add: word_at_def spec_read_hv1 Let_def)
  qed
  have z: "clear_low 30 (0x81 :: u64) = 0"
    by (simp add: clear_low_def drop_bit_eq_div)
  have four: "radix_walk e tp 4 = radix_walk e tp (Suc (Suc (Suc (Suc 0))))" for e tp
    by (simp add: numeral_eq_Suc)
  show ?thesis
    unfolding phys_tr_def pbyte_hv1 four by (simp add: ent entry_present_def Let_def z)
qed

theorem vmi_read_str_in_page_witness:
  "\<exists>vmi'. vmi_read_str xenv0 (ACCESS_CONTEXT\<lparr> ac_tm := VMI_TM_PROCESS_DTB, ac_pm := VMI_PM_IA32E,
      ac_pt := 0x1000, ac_addr := 0x400ff8 \<rparr>)
      (xvmi0\<lparr> vi_driver := \<lparr> xi_cache = memory_cache_init 0, xi_hv = hv1 \<rparr> \<rparr>) = Some (Some [0x81], vmi')"
proof -
  let ?ctx = "ACCESS_CONTEXT\<lparr> ac_tm := VMI_TM_PROCESS_DTB, ac_pm := VMI_PM_IA32E,
      ac_pt := 0x1000, ac_addr := 0x400ff8 \<rparr>"
  let ?vmi = "xvmi0\<lparr> vi_driver := \<lparr> xi_cache = memory_cache_init 0, xi_hv = hv1 \<rparr> \<rparr>"
  have c: "ia32e_context ?ctx" by (simp add: ia32e_context_def ACCESS_CONTEXT_def)
  have r: "xen_ready xcr0 xcfg0 hv1 False ?vmi"
    by (simp add: xen_ready_def xvmi0_def xen_inv_def pc_inv_init pc_coherent_init v2pc.coherent_empty)
  have f: "guest_byte xcr0 xcfg0 hv1 False ?ctx =
      (\<lambda>va. Some (if unat (take_bit 30 va) mod 8 = 0 then 0x81 else 0))"
    by (rule ext) (simp add: guest_byte_def ACCESS_CONTEXT_def vbyte_def guest_tr_def phys_tr_hv1 pbyte_hv1)
  have m: "unat (take_bit 30 va) mod 8 = unat va mod 8" for va :: u64
    by (simp add: take_bit_eq_mod unat_mod mod_mod_cancel)
  have s: "spec_read (guest_byte xcr0 xcfg0 hv1 False ?ctx) (ac_addr ?ctx)
      (4096 - unat (ac_addr ?ctx AND VMI_BIT_MASK 0 11)) = [0x81] @ 0 # [0, 0, 0, 0, 0, 0]"
    using spec_read_hv1 [of "0x400ff8"] unfolding f m by (simp add: ACCESS_CONTEXT_def vmi_eval)
  show ?thesis
    using vmi_read_str_in_page [OF r c s, of xcw0 0 "0xffff" None page_info_zero] by auto
qed



end
