(* ===== verification/Vmi_Translate.thy ===== *)
theory Vmi_Translate
  imports Vmi_Read
begin

text \<open>
  The translation interface of \<^verbatim>\<open>accessors.c\<close>: virtual to physical addresses of
  the kernel and of processes, symbols, and the functions that add to and flush the caches.
\<close>

section \<open>Symbols\<close>

text \<open>The page-table base of a virtual context, the switch that opens the three functions
  below.\<close>

definition context_dtb ::
  "'s vmi_env \<Rightarrow> access_context \<Rightarrow> 's vmi_instance \<Rightarrow> addr_t option \<times> 's vmi_instance" where
  "context_dtb env ctx vmi =
     (if ac_tm ctx = VMI_TM_PROCESS_PID then vmi_pid_to_dtb env (ac_pid ctx) vmi
      else if ac_tm ctx = VMI_TM_PROCESS_DTB then (Some (ac_pt ctx), vmi)
      else (None, vmi))"

text \<open>The 64-bit base is passed for the 32-bit process id of the symbol cache.\<close>

definition vmi_translate_sym2v :: "'s vmi_env \<Rightarrow> access_context \<Rightarrow> string \<Rightarrow> 's vmi_instance \<Rightarrow>
    addr_t option \<times> 's vmi_instance" where
  "vmi_translate_sym2v env ctx symbol vmi =
     (case context_dtb env ctx vmi of
        (None, vmi) \<Rightarrow> (None, vmi)
      | (Some dtb, vmi) \<Rightarrow>
      case sym_cache_get (vi_caches vmi) (ac_addr ctx) (ucast dtb) symbol of
        Some a \<Rightarrow> (Some a, vmi)
      | None \<Rightarrow>
      case Option.bind (env_os env) os_usym2rva of
        None \<Rightarrow> (None, vmi)
      | Some f \<Rightarrow>
      case f ctx symbol vmi of
        (None, vmi) \<Rightarrow> (None, vmi)
      | (Some rva, vmi) \<Rightarrow>
          let address = canonical_addr (ac_addr ctx + rva)
          in (Some address,
              vmi\<lparr> vi_caches := sym_cache_set (ac_addr ctx) (ucast dtb) symbol address (vi_caches vmi) \<rparr>))"

definition vmi_translate_v2sym :: "'s vmi_env \<Rightarrow> access_context \<Rightarrow> addr_t \<Rightarrow> 's vmi_instance \<Rightarrow>
    string option \<times> 's vmi_instance" where
  "vmi_translate_v2sym env ctx rva vmi =
     (case context_dtb env ctx vmi of
        (None, vmi) \<Rightarrow> (None, vmi)
      | (Some dtb, vmi) \<Rightarrow>
      case rva_cache_get (vi_caches vmi) (ac_addr ctx) dtb rva of
        Some s \<Rightarrow> (Some s, vmi)
      | None \<Rightarrow>
      case Option.bind (env_os env) os_v2sym of
        None \<Rightarrow> (None, vmi)
      | Some f \<Rightarrow>
      case f rva ctx vmi of
        (None, vmi) \<Rightarrow> (None, vmi)
      | (Some s, vmi) \<Rightarrow>
          (Some s, vmi\<lparr> vi_caches := rva_cache_set (ac_addr ctx) dtb rva s (vi_caches vmi) \<rparr>))"

definition vmi_translate_v2ksym :: "'s vmi_env \<Rightarrow> access_context \<Rightarrow> addr_t \<Rightarrow> 's vmi_instance \<Rightarrow>
    string option \<times> 's vmi_instance" where
  "vmi_translate_v2ksym env ctx va vmi =
     (case context_dtb env ctx vmi of
        (None, vmi) \<Rightarrow> (None, vmi)
      | (Some dtb, vmi) \<Rightarrow>
      case rva_cache_get (vi_caches vmi) (ac_addr ctx) dtb va of
        Some s \<Rightarrow> (Some s, vmi)
      | None \<Rightarrow>
      case Option.bind (env_os env) os_v2ksym of
        None \<Rightarrow> (None, vmi)
      | Some f \<Rightarrow>
      case f va ctx vmi of
        (None, vmi) \<Rightarrow> (None, vmi)
      | (Some s, vmi) \<Rightarrow>
          (Some s, vmi\<lparr> vi_caches := rva_cache_set (ac_addr ctx) dtb va s (vi_caches vmi) \<rparr>))"

section \<open>Addresses\<close>

text \<open>\<^verbatim>\<open>vmi_pagetable_lookup_cache\<close> drops a cached translation whose frame can no longer
  be read; it hands the deletion its bases in the order in which the deletion finds the
  entry.\<close>

definition vmi_pagetable_lookup_cache :: "'s vmi_env \<Rightarrow> addr_t \<Rightarrow> addr_t \<Rightarrow> 's vmi_instance \<Rightarrow>
    addr_t option \<times> 's vmi_instance" where
  "vmi_pagetable_lookup_cache env pt vaddr vmi =
     (let info = page_info_zero\<lparr> pi_vaddr := vaddr, pi_pt := pt, pi_pm := vi_page_mode vmi \<rparr>;
          walk = (\<lambda>vmi.
            case arch_lookup env (vmi_nested_pagetable_lookup env) 0 0 pt (vi_page_mode vmi) vaddr info vmi of
              (VMI_FAILURE, i, vmi) \<Rightarrow> (None, vmi)
            | (VMI_SUCCESS, i, vmi) \<Rightarrow>
                (Some (pi_paddr i),
                 vmi\<lparr> vi_caches := v2p_cache_set vaddr pt 0 (pi_paddr i) (vi_caches vmi) \<rparr>))
      in if \<not> valid_pm (vi_page_mode vmi) then (None, vmi)
         else case v2p_cache_get (vi_caches vmi) vaddr pt 0 of
           None \<Rightarrow> walk vmi
         | Some paddr \<Rightarrow>
         case vmi_read_8_pa (vmi_read env) paddr vmi of
           (Some value, vmi) \<Rightarrow> (Some paddr, vmi)
         | (None, vmi) \<Rightarrow>
         case v2p_cache_del vaddr 0 pt (vi_caches vmi) of
           (VMI_FAILURE, c) \<Rightarrow> (None, vmi\<lparr> vi_caches := c \<rparr>)
         | (VMI_SUCCESS, c) \<Rightarrow> walk (vmi\<lparr> vi_caches := c \<rparr>))"

definition vmi_pagetable_lookup :: "'s vmi_env \<Rightarrow> addr_t \<Rightarrow> addr_t \<Rightarrow> 's vmi_instance \<Rightarrow>
    addr_t option \<times> 's vmi_instance" where
  "vmi_pagetable_lookup env pt vaddr vmi = vmi_pagetable_lookup_cache env pt vaddr vmi"

definition vmi_pagetable_lookup_extended :: "'s vmi_env \<Rightarrow> addr_t \<Rightarrow> addr_t \<Rightarrow> 's vmi_instance \<Rightarrow>
    page_info option \<times> 's vmi_instance" where
  "vmi_pagetable_lookup_extended env pt vaddr vmi =
     (if \<not> valid_pm (vi_page_mode vmi) then (None, vmi)
      else case arch_lookup env (vmi_nested_pagetable_lookup env) 0 0 pt (vi_page_mode vmi) vaddr
             (page_info_zero\<lparr> pi_vaddr := vaddr, pi_pt := pt, pi_pm := vi_page_mode vmi \<rparr>) vmi of
        (VMI_FAILURE, i, vmi) \<Rightarrow> (None, vmi)
      | (VMI_SUCCESS, i, vmi) \<Rightarrow>
          (Some i, vmi\<lparr> vi_caches := v2p_cache_set vaddr pt 0 (pi_paddr i) (vi_caches vmi) \<rparr>))"

definition vmi_translate_kv2p :: "'s vmi_env \<Rightarrow> addr_t \<Rightarrow> 's vmi_instance \<Rightarrow>
    addr_t option \<times> 's vmi_instance" where
  "vmi_translate_kv2p env virt_address vmi =
     (if vi_kpgd vmi = 0 then (None, vmi)
      else vmi_pagetable_lookup env (vi_kpgd vmi) virt_address vmi)"

text \<open>\<^verbatim>\<open>vmi_translate_uv2p\<close>: when the address is not mapped under the cached page-table
  base of the process, the base is dropped, asked for again, and the address walked without
  the cache.\<close>

definition vmi_translate_uv2p :: "'s vmi_env \<Rightarrow> addr_t \<Rightarrow> vmi_pid_t \<Rightarrow> 's vmi_instance \<Rightarrow>
    addr_t option \<times> 's vmi_instance" where
  "vmi_translate_uv2p env virt_address pid vmi =
     (case vmi_pid_to_dtb env pid vmi of
        (None, vmi) \<Rightarrow> (None, vmi)
      | (Some dtb, vmi) \<Rightarrow>
      if dtb = 0 then (None, vmi)
      else case vmi_pagetable_lookup_cache env dtb virt_address vmi of
        (Some paddr, vmi) \<Rightarrow> (Some paddr, vmi)
      | (None, vmi) \<Rightarrow>
      case pid_cache_del pid (vi_caches vmi) of
        (VMI_FAILURE, c) \<Rightarrow> (None, vmi\<lparr> vi_caches := c \<rparr>)
      | (VMI_SUCCESS, c) \<Rightarrow>
      case vmi_pid_to_dtb env pid (vmi\<lparr> vi_caches := c \<rparr>) of
        (None, vmi) \<Rightarrow> (None, vmi)
      | (Some dtb, vmi) \<Rightarrow>
      case vmi_pagetable_lookup_extended env dtb virt_address vmi of
        (None, vmi) \<Rightarrow> (None, vmi)
      | (Some info, vmi) \<Rightarrow> (Some (pi_paddr info), vmi))"

section \<open>Cache maintenance\<close>

definition upd_caches :: "(addr_caches \<Rightarrow> addr_caches) \<Rightarrow> 's vmi_instance \<Rightarrow> 's vmi_instance" where
  "upd_caches f vmi = vmi\<lparr> vi_caches := f (vi_caches vmi) \<rparr>"

definition vmi_pidcache_add :: "vmi_pid_t \<Rightarrow> addr_t \<Rightarrow> 's vmi_instance \<Rightarrow> 's vmi_instance" where
  "vmi_pidcache_add pid dtb = upd_caches (pid_cache_set pid dtb)"

definition vmi_pidcache_flush :: "'s vmi_instance \<Rightarrow> 's vmi_instance" where
  "vmi_pidcache_flush = upd_caches pid_cache_flush"

definition vmi_symcache_add ::
  "addr_t \<Rightarrow> vmi_pid_t \<Rightarrow> string \<Rightarrow> addr_t \<Rightarrow> 's vmi_instance \<Rightarrow> 's vmi_instance" where
  "vmi_symcache_add base_addr pid symb va = upd_caches (sym_cache_set base_addr pid symb va)"

definition vmi_symcache_flush :: "'s vmi_instance \<Rightarrow> 's vmi_instance" where
  "vmi_symcache_flush = upd_caches sym_cache_flush"

definition vmi_rvacache_add ::
  "'s vmi_env \<Rightarrow> addr_t \<Rightarrow> vmi_pid_t \<Rightarrow> addr_t \<Rightarrow> string \<Rightarrow> 's vmi_instance \<Rightarrow> 's vmi_instance" where
  "vmi_rvacache_add env base_addr pid rva symb vmi =
     (case vmi_pid_to_dtb env pid vmi of
        (None, vmi) \<Rightarrow> vmi
      | (Some pgd, vmi) \<Rightarrow> upd_caches (rva_cache_set base_addr pgd rva symb) vmi)"

definition vmi_rvacache_flush :: "'s vmi_instance \<Rightarrow> 's vmi_instance" where
  "vmi_rvacache_flush = upd_caches rva_cache_flush"

definition vmi_v2pcache_add :: "addr_t \<Rightarrow> addr_t \<Rightarrow> addr_t \<Rightarrow> 's vmi_instance \<Rightarrow> 's vmi_instance" where
  "vmi_v2pcache_add va pt pa = upd_caches (v2p_cache_set va pt 0 pa)"

definition vmi_v2pcache_nested_add ::
  "addr_t \<Rightarrow> addr_t \<Rightarrow> addr_t \<Rightarrow> addr_t \<Rightarrow> 's vmi_instance \<Rightarrow> 's vmi_instance" where
  "vmi_v2pcache_nested_add va pt npt pa = upd_caches (v2p_cache_set va pt npt pa)"

definition vmi_v2pcache_flush :: "addr_t \<Rightarrow> 's vmi_instance \<Rightarrow> 's vmi_instance" where
  "vmi_v2pcache_flush pt = upd_caches (v2p_cache_flush pt 0)"

definition vmi_v2pcache_nested_flush :: "addr_t \<Rightarrow> addr_t \<Rightarrow> 's vmi_instance \<Rightarrow> 's vmi_instance" where
  "vmi_v2pcache_nested_flush pt npt = upd_caches (v2p_cache_flush pt npt)"

section \<open>Correctness of the address translation\<close>

context guest
begin

lemma good_cache_del: "good vmi \<Longrightarrow> good (vmi\<lparr> vi_caches := snd (v2p_cache_del va 0 pt (vi_caches vmi)) \<rparr>)"
  using v2p_step_coherent [OF page_translation_guest, of page tp "V2P_Del va 0 pt" "vi_caches vmi"]
  by (simp add: good_def paged_def)

lemma pid_cache_v2p [simp]:
  "v2p_cache (pid_cache_set pid dtb c) = v2p_cache c" "v2p_cache (snd (pid_cache_del pid c)) = v2p_cache c"
  by (simp_all add: pid_cache_set_def pid_cache_del_def split: option.splits)

lemma good_v2p_eq:
  assumes "good vmi" and "v2p_cache c = v2p_cache (vi_caches vmi)"
  shows "good (vmi\<lparr> vi_caches := c \<rparr>)"
proof -
  have "v2p_cache_get c = v2p_cache_get (vi_caches vmi)"
    by (intro ext) (simp add: v2p_cache_get_inner assms(2))
  then show ?thesis using assms(1) unfolding good_def v2pc.coherent_def by (simp add: paged_def)
qed

text \<open>The answer is the reference translation and only the virtual-to-physical table changed.\<close>

definition finds :: "addr_t option \<times> 'a vmi_instance \<Rightarrow> addr_t \<Rightarrow> addr_t \<Rightarrow> 'a vmi_instance \<Rightarrow> bool" where
  "finds r va pt vmi \<longleftrightarrow> good (snd r) \<and> fst r = guest_tr page tp (va, pt, 0) \<and>
     pid_cache (vi_caches (snd r)) = pid_cache (vi_caches vmi)"

lemma v2p_only [simp]:
  "pid_cache (v2p_cache_set va pt npt pa c) = pid_cache c"
  "pid_cache (snd (v2p_cache_del va pt npt c)) = pid_cache c"
  by (simp_all add: v2p_cache_set_def v2p_cache_del_def Let_def split: option.splits)

lemma read_8_good:
  assumes "good vmi"
  shows "good (snd (vmi_read_8_pa (vmi_read env) pa vmi)) \<and>
    vi_caches (snd (vmi_read_8_pa (vmi_read env) pa vmi)) = vi_caches vmi"
proof -
  obtain v where "good v" "vi_caches v = vi_caches vmi" "vmi_read_with env look2 (ACCESS_CONTEXT\<lparr> ac_addr := pa \<rparr>) 1 vmi =
      (read_status 1 (spec_read (pbyte page) pa 1), spec_read (pbyte page) pa 1, v)"
    using read_phys [OF assms, of "ACCESS_CONTEXT\<lparr> ac_addr := pa \<rparr>" look2 1]
    by (auto simp: ACCESS_CONTEXT_def)
  then show ?thesis
    by (simp add: vmi_read_8_pa_def vmi_read_8_def vmi_read_def split: status.splits)
qed

lemma lookup_extended_correct:
  assumes g: "good vmi"
  shows "finds (map_prod (map_option pi_paddr) id (vmi_pagetable_lookup_extended env pt va vmi)) va pt vmi"
proof -
  have pm: "vi_page_mode vmi = VMI_PM_IA32E" using g by (simp add: good_def)
  let ?i = "page_info_zero\<lparr> pi_vaddr := va, pi_pt := pt, pi_pm := VMI_PM_IA32E \<rparr>"
  obtain st i v where w: "arch_lookup env look2 0 0 pt VMI_PM_IA32E va ?i vmi = (st, i, v)"
    by (metis prod_cases3)
  note r = arch_lookup_phys [OF _ g w, simplified]
  show ?thesis
    using r good_cache_set [OF r(1), of va pt 0 "pi_paddr i"]
    by (cases st) (auto simp: finds_def vmi_pagetable_lookup_extended_def pm w)
qed

lemma lookup_cache_correct:
  assumes g: "good vmi"
  shows "finds (vmi_pagetable_lookup_cache env pt va vmi) va pt vmi"
proof -
  have pm: "vi_page_mode vmi = VMI_PM_IA32E" using g by (simp add: good_def)
  let ?i = "page_info_zero\<lparr> pi_vaddr := va, pi_pt := pt, pi_pm := VMI_PM_IA32E \<rparr>"
  let ?walk = "\<lambda>vmi. case arch_lookup env look2 0 0 pt (vi_page_mode vmi) va ?i vmi of
      (VMI_FAILURE, i, vmi) \<Rightarrow> (None, vmi)
    | (VMI_SUCCESS, i, vmi) \<Rightarrow>
        (Some (pi_paddr i), vmi\<lparr> vi_caches := v2p_cache_set va pt 0 (pi_paddr i) (vi_caches vmi) \<rparr>)"
  have walk: "finds (?walk v) va pt v" if gv: "good v" for v
  proof -
    have pv: "vi_page_mode v = VMI_PM_IA32E" using gv by (simp add: good_def)
    obtain st i w where w: "arch_lookup env look2 0 0 pt VMI_PM_IA32E va ?i v = (st, i, w)"
      by (metis prod_cases3)
    note r = arch_lookup_phys [OF _ gv w, simplified]
    show ?thesis
      using r good_cache_set [OF r(1), of va pt 0 "pi_paddr i"] by (cases st) (auto simp: finds_def pv w)
  qed
  show ?thesis
  proof (cases "v2p_cache_get (vi_caches vmi) va pt 0")
    case None
    then show ?thesis using walk [OF g] by (simp add: vmi_pagetable_lookup_cache_def pm Let_def)
  next
    case (Some pa)
    have tr: "guest_tr page tp (va, pt, 0) = Some pa"
      using g Some v2pc.coherentD [of "guest_tr page tp" "vi_caches vmi" "(va, pt, 0)"]
      by (simp add: good_def)
    obtain b v where b: "vmi_read_8_pa (vmi_read env) pa vmi = (b, v)" by fastforce
    have gv: "good v" "vi_caches v = vi_caches vmi" using read_8_good [OF g, of pa] b by simp_all
    have ds: "fst (v2p_cache_del va 0 pt c) = VMI_SUCCESS" for c
      by (simp add: v2p_cache_del_def Let_def split: option.splits)
    obtain c where c: "v2p_cache_del va 0 pt (vi_caches v) = (VMI_SUCCESS, c)"
      using ds by (metis prod.collapse)
    have "good (v\<lparr> vi_caches := c \<rparr>)" using good_cache_del [OF gv(1), of va pt] c by simp
    moreover have "pid_cache c = pid_cache (vi_caches vmi)" using v2p_only(2) [of va 0 pt "vi_caches v"] gv(2) c by (simp del: v2p_only)
    ultimately show ?thesis
      using walk [of "v\<lparr> vi_caches := c \<rparr>"] Some tr gv b c
      by (cases b) (simp_all add: vmi_pagetable_lookup_cache_def pm Let_def finds_def)
  qed
qed

text \<open>A process whose cached base is outdated: the address is not mapped there, the operating
  system knows the new base.\<close>

lemma uv2p_recovers:
  assumes g: "good vmi" and os: "env_os env = Some os" "os_pid_to_pgd os = Some f" and pid: "pid \<noteq> 0"
    and old: "pid_cache_get (vi_caches vmi) pid = Some d1" "guest_tr page tp (va, d1, 0) = None"
    and f: "\<And>v. good v \<Longrightarrow> \<exists>v'. f pid v = (Some d2, v') \<and> good v'"
  shows "good (snd (vmi_translate_uv2p env va pid vmi)) \<and>
    fst (vmi_translate_uv2p env va pid vmi) = guest_tr page tp (va, d2, 0)"
proof -
  have d1: "d1 \<noteq> 0" using old(1) by (auto simp: pid_cache_get_def split: option.splits if_splits)
  have l1: "vmi_pid_to_dtb env pid vmi = (Some d1, vmi)" by (simp add: vmi_pid_to_dtb_def os pid old)
  obtain v1 where v1: "vmi_pagetable_lookup_cache env d1 va vmi = (None, v1)" "good v1"
      and keep: "pid_cache (vi_caches v1) = pid_cache (vi_caches vmi)"
    using lookup_cache_correct [OF g, of d1 va] old(2) by (metis finds_def prod.collapse)
  have "Mapping.lookup (pid_cache (vi_caches v1)) pid \<noteq> None"
    using keep old(1) by (auto simp: v1 pid_cache_get_def split: option.splits)
  then obtain c where c: "pid_cache_del pid (vi_caches v1) = (VMI_SUCCESS, c)"
      "Mapping.lookup (pid_cache c) pid = None" "v2p_cache c = v2p_cache (vi_caches v1)"
    by (auto simp: pid_cache_del_def split: option.splits)
  have g2: "good (v1\<lparr> vi_caches := c \<rparr>)" using good_v2p_eq [OF v1(2) c(3)] .
  obtain v3 where v3: "f pid (v1\<lparr> vi_caches := c \<rparr>) = (Some d2, v3)" "good v3" using f [OF g2] by blast
  let ?v3 = "v3\<lparr> vi_caches := pid_cache_set pid d2 (vi_caches v3) \<rparr>"
  have l2: "vmi_pid_to_dtb env pid (v1\<lparr> vi_caches := c \<rparr>) = (Some d2, ?v3)"
    by (simp add: vmi_pid_to_dtb_def os pid pid_cache_get_def c(2) v3)
  have g3: "good ?v3" by (rule good_v2p_eq [OF v3(2)]) simp
  from lookup_extended_correct [OF g3, of d2 va]
  show ?thesis
    by (cases "vmi_pagetable_lookup_extended env d2 va ?v3")
      (auto simp: vmi_translate_uv2p_def l1 d1 v1 c l2 finds_def split: option.splits)
qed

end

section \<open>Properties\<close>

text \<open>Translating a kernel address gives what the kernel's page table says: with a cached entry or
  without, and also when the cached frame has become unreadable, the result is the IA-32e
  translation under the kernel's base.\<close>

theorem vmi_translate_kv2p_correct:
  assumes "xen_ready xcr (xen_cfg vt mm maxp) hv tp vmi" and "vi_kpgd vmi \<noteq> 0"
  shows "let r = vmi_translate_kv2p (xen_env xcr xcw (xen_cfg vt mm maxp) now sp os junk) va vmi
     in fst r = guest_tr (xen_page xcr (xen_cfg vt mm maxp) hv) tp (va, vi_kpgd vmi, 0) \<and>
        xen_ready xcr (xen_cfg vt mm maxp) hv tp (snd r)"
  using xeng.lookup_cache_correct [of xcr vt mm maxp hv tp vmi xcw now sp os junk "vi_kpgd vmi" va] assms
  by (simp add: vmi_translate_kv2p_def vmi_pagetable_lookup_def xen_ready_good xeng.finds_def Let_def)

theorem vmi_translate_kv2p_correct_witness:
  "fst (vmi_translate_kv2p xenv0 0xffff880000001234 xvmi0) \<noteq> None"
proof -
  have "vi_kpgd xvmi0 = 0x1000" by (simp add: xvmi0_def)
  moreover obtain pa where "phys_tr (xen_page xcr0 xcfg0 hv0) False 0x1000 0xffff880000001234 = Some pa"
    using phys_tr_hv0 by blast
  ultimately show ?thesis
    using vmi_translate_kv2p_correct [OF xen_ready_init, of xcw0 0 "0xffff" None page_info_zero
        "0xffff880000001234"]
    by (simp add: guest_tr_def Let_def)
qed

text \<open>C29. An outdated page-table base in the process cache is repaired: when the address is not mapped
  under the cached base and the operating system reports another one, the translation is the
  one under the new base.\<close>

theorem vmi_translate_uv2p_recovers:
  assumes "xen_ready xcr (xen_cfg vt mm maxp) hv tp vmi" and "pid \<noteq> 0"
    and "pid_cache_get (vi_caches vmi) pid = Some d1"
    and "guest_tr (xen_page xcr (xen_cfg vt mm maxp) hv) tp (va, d1, 0) = None"
    and "os_pid_to_pgd os = Some f"
    and "\<And>v. xen_ready xcr (xen_cfg vt mm maxp) hv tp v \<Longrightarrow>
       \<exists>v'. f pid v = (Some d2, v') \<and> xen_ready xcr (xen_cfg vt mm maxp) hv tp v'"
  shows "fst (vmi_translate_uv2p (xen_env xcr xcw (xen_cfg vt mm maxp) now sp (Some os) junk) va pid vmi) =
     guest_tr (xen_page xcr (xen_cfg vt mm maxp) hv) tp (va, d2, 0)"
  using xeng.uv2p_recovers [where xcr = xcr and vt = vt and mm = mm and maxp = maxp and hv = hv and tp = tp
      and vmi = vmi and xcw = xcw and now = now and sp = sp and osa = "Some os" and junk = junk
      and os = os and f = f and pid = pid and ?d1.0 = d1 and ?d2.0 = d2 and va = va]
    assms by (simp add: xen_ready_good xen_env_def)

theorem vmi_translate_uv2p_recovers_witness:
  "let xcr = (\<lambda>f hv. if f = 9 then None else Some 7);
       os = os0\<lparr> os_pid_to_pgd := Some (\<lambda>pid v. (Some 0x1000, v)) \<rparr>;
       vmi = xvmi0\<lparr> vi_caches := pid_cache_set 42 0x9000 addr_caches_init \<rparr>
   in fst (vmi_translate_uv2p (xen_env xcr xcw0 xcfg0 0 0xffff (Some os) page_info_zero) 0x401000 42 vmi) =
      guest_tr (xen_page xcr xcfg0 hv0) False (0x401000, 0x1000, 0)"
proof -
  let ?xcr = "\<lambda>(f :: addr_t) (hv :: hypervisor). if f = 9 then None else Some (7 :: nat)"
  let ?f = "\<lambda>(pid :: vmi_pid_t) (v :: xen_instance vmi_instance). (Some (0x1000 :: addr_t), v)"
  let ?os = "os0\<lparr> os_pid_to_pgd := Some ?f \<rparr>"
  let ?vmi = "xvmi0\<lparr> vi_caches := pid_cache_set 42 0x9000 addr_caches_init \<rparr>"
  let ?page = "xen_page ?xcr xcfg0 hv0"
  have coh: "v2pc.coherent tr (pid_cache_set 42 0x9000 addr_caches_init)" for tr
    unfolding v2pc.coherent_def by (simp add: v2p_cache_get_inner pid_cache_set_def addr_caches_init_def)
  have r: "xen_ready ?xcr xcfg0 hv0 False ?vmi"
    using coh by (simp add: xen_ready_def xvmi0_def xen_inv_def pc_inv_init pc_coherent_init)
  have idx: "take_bit 9 (drop_bit 39 (0x401000 :: u64)) = 0" "drop_bit 12 (0x9000 :: u64) = 9"
      "clear_low 12 (0x9000 :: u64) = 0x9000"
    by (simp_all add: take_bit_eq_mod drop_bit_eq_div clear_low_def push_bit_eq_mult)
  have "pbyte ?page 0x9000 = None"
    using idx by (simp add: pbyte_def xen_page_def Let_def push_bit_eq_mult drop_bit_eq_div)
  then have "word_at (pbyte ?page) 0x9000 = None"
    by (simp add: word_at_def spec_read_None)
  moreover have "radix_walk e False 4 = radix_walk e False (Suc (Suc (Suc (Suc 0))))" for e
    by (simp add: numeral_eq_Suc)
  ultimately have n: "guest_tr ?page False (0x401000, 0x9000, 0) = None"
    using idx by (simp add: guest_tr_def phys_tr_def)
  have c: "pid_cache_get (vi_caches ?vmi) 42 = Some 0x9000"
    by (simp add: pid_cache_get_def pid_cache_set_def)
  show ?thesis
    using vmi_translate_uv2p_recovers [OF r _ c n, of ?os ?f "0x1000" xcw0 0 "0xffff" page_info_zero]
    by (simp add: Let_def)
qed

text \<open>A kernel symbol is resolved once: after a successful resolution of a symbol of at most 100
  characters, resolving it again gives the same address from the cache, whatever the operating
  system would answer, and changes nothing.\<close>

theorem vmi_translate_ksym2v_cached:
  assumes "vmi_translate_ksym2v env symbol vmi = (Some a, vmi')" and "length symbol \<le> 100"
  shows "vmi_translate_ksym2v env' symbol vmi' = (Some a, vmi')"
proof -
  have "sym_cache_get (vi_caches vmi') 0 0 symbol = Some a"
    using assms
    by (auto simp: vmi_translate_ksym2v_def sym_cache_get_inner sym_cache_set_inner lookup_update'
        sym_cache_entry_create_def split: option.splits prod.splits)
  then show ?thesis by (simp add: vmi_translate_ksym2v_def)
qed

theorem vmi_translate_ksym2v_cached_witness:
  "let env = xen_env xcr0 xcw0 xcfg0 0 0xffff
        (Some (os0\<lparr> os_ksym2v := Some (\<lambda>s v. (Some 0x800000001000, v)) \<rparr>)) page_info_zero
   in fst (vmi_translate_ksym2v xenv0 ''init_task'' (snd (vmi_translate_ksym2v env ''init_task'' xvmi0))) =
      Some 0xffff800000001000"
proof -
  let ?env = "xen_env xcr0 xcw0 xcfg0 0 0xffff
        (Some (os0\<lparr> os_ksym2v := Some (\<lambda>s v. (Some 0x800000001000, v)) \<rparr>)) page_info_zero"
  have "fst (vmi_translate_ksym2v ?env ''init_task'' xvmi0) = Some 0xffff800000001000"
    by (simp add: vmi_translate_ksym2v_def xvmi0_def get_addr_caches_init xen_env_def canonical_addr_def
        VMI_GET_BIT_def)
  then obtain v where v: "vmi_translate_ksym2v ?env ''init_task'' xvmi0 = (Some 0xffff800000001000, v)"
    by (metis prod.collapse)
  from vmi_translate_ksym2v_cached [OF v, of xenv0] v show ?thesis by (simp add: Let_def)
qed

end
