(* ===== verification/C_Strings.thy ===== *)
theory C_Strings
  imports Vmi_Prelude
begin

text \<open>
  What the program uses of the C library's text functions: printing numbers, reading lines of a
  file, terminated strings in buffers, and reading hexadecimal numbers.
\<close>

section \<open>Printing numbers\<close>

definition digit :: "nat \<Rightarrow> char" where
  "digit d = (if d < 10 then char_of (48 + d) else char_of (87 + d))"

fun print_nat :: "nat \<Rightarrow> nat \<Rightarrow> string" where
  "print_nat b n = (if n < b \<or> b < 2 then [digit n] else print_nat b (n div b) @ [digit (n mod b)])"

declare print_nat.simps [simp del]

definition print_u :: "'a::len word \<Rightarrow> string" where \<comment> \<open>\<^verbatim>\<open>%u\<close>\<close>
  "print_u w = print_nat 10 (unat w)"

definition print_lx :: "'a::len word \<Rightarrow> string" where \<comment> \<open>\<^verbatim>\<open>%lx\<close>\<close>
  "print_lx w = print_nat 16 (unat w)"

definition print_d :: "'a::len word \<Rightarrow> string" where \<comment> \<open>\<^verbatim>\<open>%d\<close>\<close>
  "print_d w = (if sint w < 0 then ''-'' @ print_nat 10 (nat (- sint w)) else print_nat 10 (nat (sint w)))"

lemma print_nat_length_le: "n < b ^ k \<Longrightarrow> 2 \<le> b \<Longrightarrow> 0 < k \<Longrightarrow> length (print_nat b n) \<le> k"
proof (induction b n arbitrary: k rule: print_nat.induct)
  case (1 b n)
  show ?case
  proof (cases "n < b")
    case True
    then show ?thesis using 1(4) by (simp add: print_nat.simps [of b n])
  next
    case False
    obtain j where j: "k = Suc j" using 1(4) by (cases k) auto
    have "0 < j" using False 1(2) j by (cases j) auto
    moreover have "n div b < b ^ j"
      using 1(2) j by (intro less_mult_imp_div_less) (simp add: mult.commute)
    ultimately have "length (print_nat b (n div b)) \<le> j" using 1(1) [of j] False 1(3) by simp
    then show ?thesis using False 1(3) j by (simp add: print_nat.simps [of b n])
  qed
qed

lemma print_nat_length_ge: "b ^ k \<le> n \<Longrightarrow> 2 \<le> b \<Longrightarrow> k < length (print_nat b n)"
proof (induction k arbitrary: n)
  case 0
  then show ?case by (simp add: print_nat.simps [of b n])
next
  case (Suc k)
  have "b ^ k \<le> n div b" using Suc.prems by (simp add: less_eq_div_iff_mult_less_eq mult.commute)
  then have "k < length (print_nat b (n div b))" using Suc by simp
  moreover have "\<not> n < b" using Suc.prems self_le_power [of b "Suc k"] by linarith
  ultimately show ?case using Suc.prems by (simp add: print_nat.simps [of b n])
qed

lemma print_u_length: "length (print_u (w :: u32)) \<le> 10"
proof -
  have "unat w < 10 ^ 10" using unsigned_less [of w, where ?'a = nat] by simp
  then show ?thesis unfolding print_u_def by (rule print_nat_length_le) simp_all
qed

lemma print_lx_length: "length (print_lx (w :: u64)) \<le> 15 \<longleftrightarrow> unat w < 2 ^ 60"
proof (cases "unat w < 2 ^ 60")
  case True
  then have "unat w < 16 ^ 15" by simp
  from print_nat_length_le [OF this] show ?thesis using True by (simp add: print_lx_def)
next
  case False
  then have "16 ^ 15 \<le> unat w" by simp
  from print_nat_length_ge [OF this] show ?thesis using False by (simp add: print_lx_def)
qed

lemma print_lx_max: "length (print_lx (w :: u64)) \<le> 16"
proof -
  have "unat w < 16 ^ 16" using unsigned_less [of w, where ?'a = nat] by simp
  then show ?thesis unfolding print_lx_def by (rule print_nat_length_le) simp_all
qed

section \<open>Lines of a file\<close>

text \<open>\<^verbatim>\<open>fgets\<close> with a buffer of \<open>n + 1\<close> bytes: up to \<open>n\<close> characters, through the
  end of the line.\<close>

fun fgets_line :: "nat \<Rightarrow> string \<Rightarrow> string" where
  "fgets_line 0 s = []"
| "fgets_line (Suc n) [] = []"
| "fgets_line (Suc n) (c # cs) = (if c = CHR 0x0A then [c] else c # fgets_line n cs)"

lemma fgets_line_pos: "0 < n \<Longrightarrow> s \<noteq> [] \<Longrightarrow> 0 < length (fgets_line n s)"
  by (cases n; cases s) simp_all

lemma fgets_line_newline: "CHR 0x0A \<notin> set l \<Longrightarrow> length l < n \<Longrightarrow> fgets_line n (l @ CHR 0x0A # s) = l @ [CHR 0x0A]"
  by (induction n l rule: fgets_line.induct) auto

lemma fgets_line_end: "CHR 0x0A \<notin> set l \<Longrightarrow> length l \<le> n \<Longrightarrow> fgets_line n l = l"
  by (induction n l rule: fgets_line.induct) auto

section \<open>Characters and strings\<close>

definition is_space :: "char \<Rightarrow> bool" where
  "is_space c \<longleftrightarrow> c \<in> {CHR '' '', CHR 0x09, CHR 0x0A, CHR 0x0B, CHR 0x0C, CHR 0x0D}"

abbreviation (input) NUL :: char where "NUL \<equiv> CHR 0x00"

definition c_string :: "char list \<Rightarrow> string" where
  "c_string cs = takeWhile (\<lambda>c. c \<noteq> NUL) cs"

section \<open>Hexadecimal numbers\<close>

definition hex_digit :: "char \<Rightarrow> nat option" where
  "hex_digit c = (let k = of_char c :: nat in
     if 48 \<le> k \<and> k \<le> 57 then Some (k - 48) else if 97 \<le> k \<and> k \<le> 102 then Some (k - 87)
     else if 65 \<le> k \<and> k \<le> 70 then Some (k - 55) else None)"

fun hex_value :: "nat \<Rightarrow> string \<Rightarrow> nat" where
  "hex_value a [] = a"
| "hex_value a (c # cs) = (case hex_digit c of None \<Rightarrow> a | Some d \<Rightarrow> hex_value (16 * a + d) cs)"

text \<open>\<^verbatim>\<open>strtoull(s, NULL, 16)\<close>: leading white space, a sign, a prefix that counts only
  before a digit; a value out of range gives the greatest one.\<close>

definition strtoull16 :: "string \<Rightarrow> u64" where
  "strtoull16 s =
     (let s = dropWhile is_space s;
          neg = (s \<noteq> [] \<and> hd s = CHR ''-'');
          s = (if s \<noteq> [] \<and> hd s \<in> {CHR ''-'', CHR ''+''} then tl s else s);
          s = (if (take 2 s = ''0x'' \<or> take 2 s = ''0X'') \<and> 2 < length s \<and> hex_digit (s ! 2) \<noteq> None then drop 2 s else s);
          n = hex_value 0 s
      in if 2 ^ 64 \<le> n then - 1 else if neg then - of_nat n else of_nat n)"

lemma hex_digit_digit: "d < 16 \<Longrightarrow> hex_digit (digit d) = Some d"
  by (auto simp: hex_digit_def digit_def Let_def)

lemma print_nat_hex: "c \<in> set (print_nat 16 n) \<Longrightarrow> hex_digit c \<noteq> None"
proof (induction n rule: less_induct)
  case (less n)
  show ?case
  proof (cases "n < 16")
    case True
    then show ?thesis using less.prems by (simp add: print_nat.simps [of 16 n] hex_digit_digit)
  next
    case False
    then have "n div 16 < n" by simp
    from less.IH [OF this] show ?thesis
      using less.prems False by (auto simp: print_nat.simps [of 16 n] hex_digit_digit)
  qed
qed

lemma hex_value_append:
  "\<forall>c \<in> set xs. hex_digit c \<noteq> None \<Longrightarrow> hex_value a (xs @ ys) = hex_value (hex_value a xs) ys"
  by (induction xs arbitrary: a) (auto split: option.splits)

lemma hex_value_print: "hex_value 0 (print_nat 16 n) = n"
proof (induction n rule: less_induct)
  case (less n)
  show ?case
  proof (cases "n < 16")
    case True
    then show ?thesis by (simp add: print_nat.simps [of 16 n] hex_digit_digit)
  next
    case False
    then have "hex_value 0 (print_nat 16 (n div 16)) = n div 16" using less by simp
    then show ?thesis
      using False by (simp add: print_nat.simps [of 16 n] hex_value_append print_nat_hex hex_digit_digit)
  qed
qed

lemma hex_digit_no_space: "hex_digit c \<noteq> None \<Longrightarrow> \<not> is_space c \<and> c \<noteq> CHR ''-'' \<and> c \<noteq> CHR ''+'' \<and> c \<noteq> NUL \<and> c \<noteq> CHR ''x'' \<and> c \<noteq> CHR ''X''"
  by (auto simp: hex_digit_def is_space_def Let_def)

lemma print_nat_nonempty [simp]: "print_nat b n \<noteq> []"
  by (simp add: print_nat.simps [of b n])

lemma strtoull_print: "strtoull16 (print_lx (w :: u64)) = w"
proof -
  let ?s = "print_nat 16 (unat w)"
  have h: "hex_digit c \<noteq> None" if "c \<in> set ?s" for c using print_nat_hex that .
  obtain c cs where s: "?s = c # cs" by (cases ?s) simp_all
  have c: "\<not> is_space c" "c \<noteq> CHR ''-''" "c \<noteq> CHR ''+''" using hex_digit_no_space [OF h [of c]] s by simp_all
  have x: "take 2 ?s \<noteq> ''0x'' \<and> take 2 ?s \<noteq> ''0X''"
  proof (cases cs)
    case (Cons d ds)
    then show ?thesis using hex_digit_no_space [OF h [of d]] s by simp
  qed (simp add: s)
  have "unat w < 2 ^ 64" using unsigned_less [of w, where ?'a = nat] by simp
  moreover have "dropWhile is_space ?s = ?s" "hd ?s = c" using c s by simp_all
  ultimately show ?thesis
    using x c hex_value_print [of "unat w"] by (simp add: strtoull16_def print_lx_def Let_def)
qed

end
