(* ===== verification/Tracer_Client.thy ===== *)
theory Tracer_Client
  imports Vmi_Translate C_Strings
begin

text \<open>
  The tracer's output side, \<^verbatim>\<open>client.h\<close>: collecting system-call names into frames that
  are sent to the analysis server, and rendering the arguments of a system call.

  C strings in fixed buffers are lists of characters; every write into a buffer of known size
  goes through \<open>sprintf\<close> or \<open>strcat\<close>, which return the fault \<open>Buffer_overflow\<close> when
  text and terminator do not fit.  Reading a string from the guest may not return
  (\<^verbatim>\<open>vmi_read_str\<close>), the fault \<open>No_return\<close>.
\<close>

section \<open>Faults and text\<close>

datatype fault = Buffer_overflow | Null_pointer | No_return

type_synonym 'a run = "fault + 'a"

definition bind_run :: "'a run \<Rightarrow> ('a \<Rightarrow> 'b run) \<Rightarrow> 'b run" where
  "bind_run r f = (case r of Inl e \<Rightarrow> Inl e | Inr v \<Rightarrow> f v)"

lemma bind_run_simps [simp]: "bind_run (Inl e) f = Inl e" "bind_run (Inr v) f = f v"
  by (simp_all add: bind_run_def)

lemma bind_run_Inr: "bind_run r f = Inr v \<longleftrightarrow> (\<exists>a. r = Inr a \<and> f a = Inr v)"
  by (cases r) simp_all

definition sprintf :: "nat \<Rightarrow> string \<Rightarrow> string run" where
  "sprintf cap text = (if length text < cap then Inr text else Inl Buffer_overflow)"

definition strcat :: "nat \<Rightarrow> string \<Rightarrow> string \<Rightarrow> string run" where
  "strcat cap dest src = sprintf cap (dest @ src)"

definition string_of_bytes :: "u8 list \<Rightarrow> string" where
  "string_of_bytes = map (\<lambda>b. char_of (unat b))"

section \<open>Frames for the server\<close>

abbreviation (input) MAX_BUFSIZE :: nat where "MAX_BUFSIZE \<equiv> 2048"
abbreviation (input) SEPARATOR :: string where "SEPARATOR \<equiv> '',''"
abbreviation (input) END :: string where "END \<equiv> ''.''"

record frame_state =
  fs_buffer :: string
  fs_index :: int
  fs_sent :: "string list" \<comment> \<open>what was written to the socket, one element per call\<close>

definition append_syscall :: "string \<Rightarrow> int \<Rightarrow> frame_state \<Rightarrow> frame_state run" where
  "append_syscall syscall window_size s =
     (if fs_index s = window_size then
        bind_run (strcat MAX_BUFSIZE (fs_buffer s) END) (\<lambda>buffer.
          Inr (s\<lparr> fs_index := 0, fs_buffer := '''', fs_sent := fs_sent s @ [buffer] \<rparr>))
      else
        bind_run (strcat MAX_BUFSIZE (fs_buffer s) syscall) (\<lambda>buffer.
        bind_run (strcat MAX_BUFSIZE buffer SEPARATOR) (\<lambda>buffer.
          Inr (s\<lparr> fs_buffer := buffer, fs_index := fs_index s + 1 \<rparr>))))"

definition csv_header :: string where
  "csv_header = ''PID, SyscallID, Syscall, RDI, RSI, RDX, R10, R8, R9'' @ [CHR 0x0A]"

section \<open>Arguments\<close>

abbreviation (input) RAX :: reg_t where "RAX \<equiv> 0"
abbreviation (input) RDX :: reg_t where "RDX \<equiv> 3"
abbreviation (input) RSI :: reg_t where "RSI \<equiv> 5"
abbreviation (input) RDI :: reg_t where "RDI \<equiv> 6"
abbreviation (input) R8 :: reg_t where "R8 \<equiv> 10"
abbreviation (input) R9 :: reg_t where "R9 \<equiv> 11"
abbreviation (input) R10 :: reg_t where "R10 \<equiv> 12"

definition vmi_get_vcpureg :: "'s vmi_env \<Rightarrow> reg_t \<Rightarrow> nat \<Rightarrow> 's vmi_instance \<Rightarrow> u64 option \<times> 's vmi_instance" where
  "vmi_get_vcpureg env reg vcpu vmi = driver_get_vcpureg env reg vcpu vmi"

text \<open>A register read whose status is ignored: on failure the variable keeps what it held.\<close>

definition get_reg :: "'s vmi_env \<Rightarrow> reg_t \<Rightarrow> nat \<Rightarrow> u64 \<Rightarrow> 's vmi_instance \<Rightarrow> u64 \<times> 's vmi_instance" where
  "get_reg env reg vcpu old vmi =
     (case vmi_get_vcpureg env reg vcpu vmi of (Some v, vmi) \<Rightarrow> (v, vmi) | (None, vmi) \<Rightarrow> (old, vmi))"

text \<open>The flag names in the order of the source.\<close>

definition open_flag_names :: "(nat \<times> string) list" where
  "open_flag_names = [(0, ''O_WRONLY ''), (1, ''O_RDWR ''), (6, ''O_CREAT ''), (7, ''O_EXCL ''),
     (8, ''O_NOCTTY ''), (9, ''O_TRUNC ''), (10, ''O_APPEND ''), (11, ''O_NONBLOCK ''), (12, ''O_DSYNC ''),
     (14, ''__O_DIRECT ''), (16, ''O_DIRECTORY ''), (19, ''O_CLOEXEC '')]"

definition mprotect_flag_names :: "(nat \<times> string) list" where
  "mprotect_flag_names = [(0, ''PROT_READ ''), (1, ''PROT_WRITE ''), (2, ''PROT_EXEC '')]"

fun cat_flags :: "nat \<Rightarrow> u32 \<Rightarrow> (nat \<times> string) list \<Rightarrow> string \<Rightarrow> string run" where
  "cat_flags cap flags [] text = Inr text"
| "cat_flags cap flags ((n, name) # ns) text =
     (if bit flags n then bind_run (strcat cap text name) (cat_flags cap flags ns)
      else cat_flags cap flags ns text)"

definition print_open_flags :: "u32 \<Rightarrow> string run" where
  "print_open_flags flags =
     bind_run (if flags = 0 then strcat 100 '''' ''O_RDONLY '' else Inr '''')
       (cat_flags 100 flags open_flag_names)"

definition print_mprotect_flags :: "u32 \<Rightarrow> string run" where
  "print_mprotect_flags flags =
     bind_run (if flags = 0 then strcat 100 '''' ''PROT_NONE '' else Inr '''')
       (cat_flags 100 flags mprotect_flag_names)"

type_synonym args = "string option list"

text \<open>A string argument read from the process, or \<^verbatim>\<open>null\<close>.\<close>

definition read_arg :: "'s vmi_env \<Rightarrow> addr_t \<Rightarrow> vmi_pid_t \<Rightarrow> 's vmi_instance \<Rightarrow> (string \<times> 's vmi_instance) run" where
  "read_arg env va pid vmi =
     (case vmi_read_str_va env va pid vmi of
        None \<Rightarrow> Inl No_return
      | Some (None, vmi) \<Rightarrow> Inr (''null'', vmi)
      | Some (Some bs, vmi) \<Rightarrow> Inr (string_of_bytes bs, vmi))"

record syscall_regs =
  sc_rdi :: u64
  sc_rsi :: u64
  sc_rdx :: u64
  sc_r10 :: u64
  sc_r8 :: u64
  sc_r9 :: u64

definition uint32 :: "u64 \<Rightarrow> u32" where "uint32 w = ucast w"

definition print_open :: "'s vmi_env \<Rightarrow> vmi_pid_t \<Rightarrow> syscall_regs \<Rightarrow> args \<Rightarrow> 's vmi_instance \<Rightarrow>
    (args \<times> 's vmi_instance) run" where
  "print_open env pid regs args vmi =
     bind_run (read_arg env (sc_rdi regs) pid vmi) (\<lambda>(filename, vmi).
     bind_run (sprintf 30 (''mode: '' @ print_u (uint32 (sc_rsi regs)))) (\<lambda>mode.
     bind_run (print_open_flags (uint32 (sc_rdx regs))) (\<lambda>flags.
       Inr (args[1 := Some filename, 2 := Some mode, 3 := Some flags], vmi))))"

definition print_execve :: "'s vmi_env \<Rightarrow> vmi_pid_t \<Rightarrow> syscall_regs \<Rightarrow> args \<Rightarrow> 's vmi_instance \<Rightarrow>
    (args \<times> 's vmi_instance) run" where
  "print_execve env pid regs args vmi =
     bind_run (read_arg env (sc_rdi regs) pid vmi) (\<lambda>(filename, vmi). Inr (args[1 := Some filename], vmi))"

definition print_openat :: "'s vmi_env \<Rightarrow> vmi_pid_t \<Rightarrow> syscall_regs \<Rightarrow> args \<Rightarrow> 's vmi_instance \<Rightarrow>
    (args \<times> 's vmi_instance) run" where
  "print_openat env pid regs args vmi =
     bind_run (read_arg env (sc_rsi regs) pid vmi) (\<lambda>(filename, vmi).
     bind_run (sprintf 30 (''DFD: '' @ print_u (uint32 (sc_rdi regs)))) (\<lambda>dfd.
     bind_run (sprintf 30 (''mode: '' @ print_u (uint32 (sc_rdx regs)))) (\<lambda>mode.
     bind_run (print_open_flags (uint32 (sc_r10 regs))) (\<lambda>flags.
       Inr (args[1 := Some dfd, 2 := Some filename, 3 := Some mode, 4 := Some flags], vmi)))))"

definition print_write :: "'s vmi_env \<Rightarrow> vmi_pid_t \<Rightarrow> syscall_regs \<Rightarrow> args \<Rightarrow> 's vmi_instance \<Rightarrow>
    (args \<times> 's vmi_instance) run" where
  "print_write env pid regs args vmi =
     bind_run (read_arg env (sc_rsi regs) pid vmi) (\<lambda>(buffer, vmi).
     bind_run (sprintf 30 (''fd: '' @ print_u (uint32 (sc_rdi regs)))) (\<lambda>fd.
     bind_run (sprintf 30 ('', count:  '' @ print_u (uint32 (sc_rdx regs)))) (\<lambda>cnt.
       Inr (args[1 := Some fd, 2 := Some buffer, 3 := Some cnt], vmi))))"

definition print_mprotect :: "syscall_regs \<Rightarrow> args \<Rightarrow> args run" where
  "print_mprotect regs args =
     bind_run (sprintf 30 (''start addr: 0x'' @ print_lx (sc_rdi regs))) (\<lambda>start.
     bind_run (sprintf 30 (''len: '' @ print_u (uint32 (sc_rsi regs)))) (\<lambda>len.
     bind_run (print_mprotect_flags (uint32 (sc_rdx regs))) (\<lambda>flags.
       Inr (args[1 := Some start, 2 := Some len, 3 := Some flags]))))"

text \<open>The default case: six numbers, each in a buffer of 50 bytes.\<close>

definition regs_list :: "syscall_regs \<Rightarrow> u64 list" where
  "regs_list regs = [sc_rdi regs, sc_rsi regs, sc_rdx regs, sc_r10 regs, sc_r8 regs, sc_r9 regs]"

fun print_numbers :: "nat \<Rightarrow> u64 list \<Rightarrow> args \<Rightarrow> args run" where
  "print_numbers i [] args = Inr args"
| "print_numbers i (r # rs) args =
     bind_run (sprintf 50 (print_u (uint32 r) @ '' '')) (\<lambda>out. print_numbers (Suc i) rs (args[Suc i := Some out]))"

definition csv_numbers :: "syscall_regs \<Rightarrow> string" where
  "csv_numbers regs = (let n = (\<lambda>r. print_u (uint32 r)) in
     n (sc_rdi regs) @ '', '' @ n (sc_rsi regs) @ '', '' @ n (sc_rdx regs) @ '', '' @
     n (sc_r10 regs) @ '', '' @ n (sc_r8 regs) @ '', '' @ n (sc_r9 regs) @ [CHR 0x0A])"

definition get_syscall_regs :: "'s vmi_env \<Rightarrow> nat \<Rightarrow> syscall_regs \<Rightarrow> 's vmi_instance \<Rightarrow>
    syscall_regs \<times> 's vmi_instance" where
  "get_syscall_regs env vcpu old vmi =
     (let (rdi, vmi) = get_reg env RDI vcpu (sc_rdi old) vmi;
          (rsi, vmi) = get_reg env RSI vcpu (sc_rsi old) vmi;
          (rdx, vmi) = get_reg env RDX vcpu (sc_rdx old) vmi;
          (r10, vmi) = get_reg env R10 vcpu (sc_r10 old) vmi;
          (r8, vmi) = get_reg env R8 vcpu (sc_r8 old) vmi;
          (r9, vmi) = get_reg env R9 vcpu (sc_r9 old) vmi
      in (\<lparr> sc_rdi = rdi, sc_rsi = rsi, sc_rdx = rdx, sc_r10 = r10, sc_r8 = r8, sc_r9 = r9 \<rparr>, vmi))"

text \<open>\<open>old\<close> is the stack's content where a register read fails.  The result has the text for
  the CSV file, which is written in the learning mode only.\<close>

definition print_args :: "'s vmi_env \<Rightarrow> nat \<Rightarrow> vmi_pid_t \<Rightarrow> nat \<Rightarrow> bool \<Rightarrow> syscall_regs \<Rightarrow> args \<Rightarrow>
    's vmi_instance \<Rightarrow> (args \<times> string \<times> 's vmi_instance) run" where
  "print_args env vcpu pid syscall_id learn old args vmi =
     (let (regs, vmi) = get_syscall_regs env vcpu old vmi;
          csv = (if learn then csv_numbers regs else '''');
          done = (\<lambda>(args, vmi). Inr (args, csv, vmi)) in
      if syscall_id = 1 then bind_run (print_write env pid regs args vmi) done
      else if syscall_id = 2 then bind_run (print_open env pid regs args vmi) done
      else if syscall_id = 10 then bind_run (print_mprotect regs args) (\<lambda>args. done (args, vmi))
      else if syscall_id = 59 then bind_run (print_execve env pid regs args vmi) done
      else if syscall_id = 257 then bind_run (print_openat env pid regs args vmi) done
      else bind_run (print_numbers 0 (regs_list regs) args) (\<lambda>args. done (args, vmi)))"

lemma sprintf_fits: "length text < cap \<Longrightarrow> sprintf cap text = Inr text"
  by (simp add: sprintf_def)

section \<open>Flags\<close>

definition flag_text :: "u32 \<Rightarrow> (nat \<times> string) list \<Rightarrow> string" where
  "flag_text flags names = concat (map snd (filter (\<lambda>(n, name). bit flags n) names))"

lemma cat_flags_text:
  "length str < cap \<Longrightarrow>
     cat_flags cap flags names str = sprintf cap (str @ flag_text flags names)"
proof (induction names arbitrary: str)
  case (Cons a names)
  obtain n name where a: "a = (n, name)" by (cases a)
  show ?case
  proof (cases "bit flags n")
    case True
    show ?thesis
    proof (cases "length (str @ name) < cap")
      case fits: True
      then show ?thesis
        using Cons.IH [OF fits] True by (simp add: a strcat_def sprintf_def flag_text_def)
    next
      case False
      then show ?thesis using True by (simp add: a strcat_def sprintf_def flag_text_def)
    qed
  next
    case False
    then show ?thesis using Cons by (simp add: a flag_text_def)
  qed
qed (simp add: flag_text_def sprintf_def)

section \<open>Frames\<close>

fun append_all :: "int \<Rightarrow> string list \<Rightarrow> frame_state \<Rightarrow> frame_state run" where
  "append_all w [] s = Inr s"
| "append_all w (n # ns) s = bind_run (append_syscall n w s) (append_all w ns)"

definition join :: "string list \<Rightarrow> string" where
  "join names = concat (map (\<lambda>n. n @ SEPARATOR) names)"

text \<open>The frames of a sequence of calls: of every \<open>w + 1\<close> names the first \<open>w\<close>.\<close>

function frames :: "nat \<Rightarrow> string list \<Rightarrow> string list" where
  "frames w names = (if length names \<le> w then [] else (join (take w names) @ END) # frames w (drop (Suc w) names))"
  by pat_completeness auto
termination by (relation "measure (\<lambda>(w, names). length names)") auto

declare frames.simps [simp del]

lemma join_simps [simp]: "join [] = ''''" "join (a # b) = (a @ SEPARATOR) @ join b" "join (a1 @ b1) = join a1 @ join b1"
  by (simp_all add: join_def)

lemma join_length: "(\<And>n. n \<in> set names \<Longrightarrow> length n \<le> m) \<Longrightarrow> length (join names) \<le> length names * (m + 1)"
proof (induction names)
  case (Cons a names)
  have "length a \<le> m" "length (join names) \<le> length names * (m + 1)" using Cons by simp_all
  then show ?case by simp
qed simp

lemma append_all_frames:
  assumes "(\<And>n. n \<in> set (cur @ names) \<Longrightarrow> length n \<le> m)" and "w * (m + 1) + 1 < MAX_BUFSIZE"
    and "length cur \<le> w"
  shows "\<exists>rest. append_all (int w) names
      \<lparr> fs_buffer = join cur, fs_index = int (length cur), fs_sent = sent \<rparr> =
      Inr \<lparr> fs_buffer = join rest, fs_index = int (length rest), fs_sent = sent @ frames w (cur @ names) \<rparr>"
  using assms
proof (induction names arbitrary: cur sent)
  case Nil
  then show ?case by (auto simp: frames.simps)
next
  case (Cons n names)
  have cl: "length (join cur) \<le> length cur * (m + 1)" using Cons.prems(1) by (intro join_length) simp
  have n: "length n \<le> m" using Cons.prems(1) by simp
  show ?case
  proof (cases "length cur = w")
    case True
    have "length (join cur) + 1 < MAX_BUFSIZE" using cl True Cons.prems(2) by simp
    then have "append_syscall n (int w) \<lparr> fs_buffer = join cur, fs_index = int (length cur), fs_sent = sent \<rparr> =
        Inr \<lparr> fs_buffer = join [], fs_index = int (length ([] :: string list)), fs_sent = sent @ [join cur @ END] \<rparr>"
      by (simp add: append_syscall_def strcat_def sprintf_def True)
    moreover have "frames w (cur @ n # names) = (join cur @ END) # frames w names"
      using True by (simp add: frames.simps [of w "cur @ n # names"])
    ultimately show ?thesis
      using Cons.IH [of "[]" "sent @ [join cur @ END]"] Cons.prems(1,2) by simp
  next
    case False
    then have lt: "length cur + 1 \<le> w" using Cons.prems(3) by simp
    have "length (join cur) + length n + 1 \<le> (length cur + 1) * (m + 1)" using cl n by simp
    also have "\<dots> \<le> w * (m + 1)" using lt by (rule mult_le_mono1)
    finally have "length (join cur) + length n + 1 < MAX_BUFSIZE" using Cons.prems(2) by simp
    then have "append_syscall n (int w) \<lparr> fs_buffer = join cur, fs_index = int (length cur), fs_sent = sent \<rparr> =
        Inr \<lparr> fs_buffer = join (cur @ [n]), fs_index = int (length (cur @ [n])), fs_sent = sent \<rparr>"
      using False by (simp add: append_syscall_def strcat_def sprintf_def)
    then show ?thesis
      using Cons.IH [of "cur @ [n]" sent] Cons.prems(1,2) lt by simp
  qed
qed

section \<open>Properties\<close>

text \<open>What reaches the server: with names short enough for the buffer, feeding a sequence of system
  calls never overflows the buffer and sends one frame for every \<open>w + 1\<close> calls: the first
  \<open>w\<close> names, each followed by a comma, and a full stop.  The call that triggers the sending is
  in no frame.\<close>

theorem append_syscall_frames:
  assumes "\<And>n. n \<in> set names \<Longrightarrow> length n \<le> m" and "w * (m + 1) + 1 < MAX_BUFSIZE"
  shows "\<exists>s. append_all (int w) names \<lparr> fs_buffer = '''', fs_index = 0, fs_sent = [] \<rparr> = Inr s \<and>
    fs_sent s = frames w names \<and> length (fs_buffer s) < MAX_BUFSIZE"
proof -
  have "\<exists>rest. append_all (int w) names \<lparr> fs_buffer = '''', fs_index = 0, fs_sent = [] \<rparr> =
      Inr \<lparr> fs_buffer = join rest, fs_index = int (length rest), fs_sent = frames w names \<rparr>"
    using append_all_frames [of "[]" names m w "[]"] assms by simp
  then obtain s where s: "append_all (int w) names \<lparr> fs_buffer = '''', fs_index = 0, fs_sent = [] \<rparr> = Inr s"
    "fs_sent s = frames w names" by auto
  have "length (fs_buffer t) < MAX_BUFSIZE \<Longrightarrow> append_all (int w) ns t = Inr s' \<Longrightarrow> length (fs_buffer s') < MAX_BUFSIZE"
    for ns t s'
  proof (induction ns arbitrary: t)
    case (Cons n ns)
    obtain u where u: "append_syscall n (int w) t = Inr u" "append_all (int w) ns u = Inr s'"
      using Cons.prems(2) by (auto simp: bind_run_Inr)
    have "length (fs_buffer u) < MAX_BUFSIZE"
      using u(1) by (auto simp: append_syscall_def strcat_def sprintf_def bind_run_Inr split: if_splits)
    then show ?case using Cons.IH u(2) by blast
  qed simp
  from this [OF _ s(1)] s show ?thesis by simp
qed

theorem append_syscall_frames_witness:
  "\<exists>s. append_all (int 2) [''open'', ''read'', ''mmap'', ''write'', ''close'', ''brk'']
      \<lparr> fs_buffer = '''', fs_index = 0, fs_sent = [] \<rparr> = Inr s \<and>
    fs_sent s = [''open,read,.'', ''write,close,.'']"
proof -
  have "frames 2 [''open'', ''read'', ''mmap'', ''write'', ''close'', ''brk''] = [''open,read,.'', ''write,close,.'']"
    by (simp add: frames.simps eval_nat_numeral)
  moreover have "length n \<le> 5" if "n \<in> set [''open'', ''read'', ''mmap'', ''write'', ''close'', ''brk'']" for n
    using that by auto
  from append_syscall_frames [OF this, of _ 2]
  have "\<exists>s. append_all (int 2) [''open'', ''read'', ''mmap'', ''write'', ''close'', ''brk'']
      \<lparr> fs_buffer = [], fs_index = 0, fs_sent = [] \<rparr> = Inr s \<and>
    fs_sent s = frames 2 [''open'', ''read'', ''mmap'', ''write'', ''close'', ''brk'']"
    by fastforce
  ultimately show ?thesis by simp
qed

text \<open>C35. The names of open flags are written in the order of the source into 100 bytes: the text is the
  concatenation of the names of the set bits when that is shorter than the buffer, and
  otherwise the buffer overflows.  All twelve flags together overflow it, and the flags are a
  register of the traced guest.\<close>

theorem print_open_flags_exact:
  "print_open_flags flags =
     (let text = (if flags = 0 then ''O_RDONLY '' else flag_text flags open_flag_names)
      in if length text < 100 then Inr text else Inl Buffer_overflow) \<and>
   print_open_flags 0x95FC3 = Inl Buffer_overflow"
proof -
  have e: "print_open_flags flags =
     (let text = (if flags = 0 then ''O_RDONLY '' else flag_text flags open_flag_names)
      in if length text < 100 then Inr text else Inl Buffer_overflow)" for flags
  proof (cases "flags = 0")
    case True
    have "flag_text 0 open_flag_names = ''''" by (simp add: flag_text_def open_flag_names_def)
    then show ?thesis
      using True by (simp add: print_open_flags_def strcat_def sprintf_def cat_flags_text Let_def)
  next
    case False
    then show ?thesis by (simp add: print_open_flags_def cat_flags_text sprintf_def Let_def)
  qed
  have "length (flag_text 0x95FC3 open_flag_names) = 109"
    by (simp add: flag_text_def open_flag_names_def bit_numeral_rec)
  then have "print_open_flags 0x95FC3 = Inl Buffer_overflow" unfolding e by (simp add: Let_def)
  with e show ?thesis by blast
qed

text \<open>Rendering the arguments of \<^verbatim>\<open>mprotect\<close> fails exactly for start addresses of
  sixteen hexadecimal digits: \<^verbatim>\<open>"start addr: 0x%lx"\<close> then needs 31 bytes and the buffer
  has 30.  The address is a register of the traced guest; length and protection always fit.\<close>

theorem print_mprotect_overflow:
  "(print_mprotect regs args = Inl Buffer_overflow \<longleftrightarrow> unat (sc_rdi regs) \<ge> 2 ^ 60) \<and>
   (unat (sc_rdi regs) < 2 ^ 60 \<longrightarrow> print_mprotect regs args =
      Inr (args[1 := Some (''start addr: 0x'' @ print_lx (sc_rdi regs)),
                2 := Some (''len: '' @ print_u (uint32 (sc_rsi regs))),
                3 := Some (let f = uint32 (sc_rdx regs) in
                           if f = 0 then ''PROT_NONE '' else flag_text f mprotect_flag_names)]))"
proof -
  have fl: "print_mprotect_flags f = Inr (if f = 0 then ''PROT_NONE '' else flag_text f mprotect_flag_names)" for f
    by (auto simp: print_mprotect_flags_def strcat_def sprintf_def cat_flags_text flag_text_def mprotect_flag_names_def)
  have len: "sprintf 30 (''len: '' @ print_u (uint32 r)) = Inr (''len: '' @ print_u (uint32 r))" for r
    by (rule sprintf_fits) (use print_u_length [of "uint32 r"] in simp)
  have st: "sprintf 30 (''start addr: 0x'' @ print_lx r) =
      (if unat r < 2 ^ 60 then Inr (''start addr: 0x'' @ print_lx r) else Inl Buffer_overflow)" for r :: u64
    using print_lx_length [of r] by (auto simp: sprintf_def)
  show ?thesis
    unfolding print_mprotect_def st len by (cases "unat (sc_rdi regs) < 2 ^ 60") (simp_all add: fl Let_def)
qed

theorem print_mprotect_overflow_witness:
  "print_mprotect \<lparr> sc_rdi = 0xffffffff81000000, sc_rsi = 4096, sc_rdx = 7, sc_r10 = 0, sc_r8 = 0, sc_r9 = 0 \<rparr> [] =
     Inl Buffer_overflow"
  using print_mprotect_overflow [of "\<lparr> sc_rdi = 0xffffffff81000000, sc_rsi = 4096, sc_rdx = 7, sc_r10 = 0,
      sc_r8 = 0, sc_r9 = 0 \<rparr>" "[]"] by simp
end
