(* ===== verification/Vmi_Write.thy ===== *)
theory Vmi_Write
  imports Vmi_Read
begin

text \<open>
  \<^verbatim>\<open>write.c\<close>: writing guest memory through the driver, with the typed variants.  The
  locale-free part fixes the operations; the last sections show that writing physical memory
  through the Xen driver changes exactly the bytes addressed and that reading them back gives
  what was written.
\<close>

section \<open>The write loop\<close>

text \<open>The switch of \<^verbatim>\<open>vmi_write\<close>.  It differs from the one of
  \<^verbatim>\<open>vmi_read\<close>: the page mode always starts as the one of the instance, and there is no
  check that the mode is valid.\<close>

definition write_target :: "'s vmi_env \<Rightarrow> access_context \<Rightarrow> 's vmi_instance \<Rightarrow>
    (addr_t \<times> page_mode_t \<times> addr_t) option \<times> 's vmi_instance" where
  "write_target env ctx vmi =
     (if ac_tm ctx = VMI_TM_NONE then (Some (0, VMI_PM_NONE, ac_addr ctx), vmi)
      else if ac_tm ctx = VMI_TM_KERNEL_SYMBOL then
        (if Option.is_none (env_os env) \<or> vi_kpgd vmi = 0 then (None, vmi)
         else case vmi_translate_ksym2v env (ac_ksym ctx) vmi of
                (None, vmi') \<Rightarrow> (None, vmi')
              | (Some a, vmi') \<Rightarrow>
                  (Some (vi_kpgd vmi', if vi_page_mode vmi = 0 then vi_page_mode vmi' else vi_page_mode vmi,
                         a), vmi'))
      else if ac_tm ctx = VMI_TM_PROCESS_PID then
        (if Option.is_none (env_os env) then (None, vmi)
         else let (p, vmi') =
                (if ac_pid ctx = 0 then (Some (vi_kpgd vmi), vmi)
                 else if sint (ac_pid ctx) > 0 then vmi_pid_to_dtb env (ac_pid ctx) vmi
                 else (Some (ac_pt ctx), vmi))
              in case p of
                   None \<Rightarrow> (None, vmi')
                 | Some pt \<Rightarrow>
                     if pt = 0 then (None, vmi')
                     else (Some (pt, if vi_page_mode vmi = 0 then vi_page_mode vmi' else vi_page_mode vmi,
                                 ac_addr ctx), vmi'))
      else (Some (ac_pt ctx, vi_page_mode vmi, ac_addr ctx), vmi))"

fun write_loop :: "'s vmi_env \<Rightarrow> (addr_t \<Rightarrow> 's vmi_instance \<Rightarrow> addr_t option \<times> 's vmi_instance) \<Rightarrow>
    addr_t \<Rightarrow> nat \<Rightarrow> u8 list \<Rightarrow> nat \<Rightarrow> 's vmi_instance \<Rightarrow> status \<times> nat \<times> 's vmi_instance" where
  "write_loop env xl start 0 buf buf_offset vmi =
     (if buf = [] then VMI_SUCCESS else VMI_FAILURE, buf_offset, vmi)"
| "write_loop env xl start (Suc fuel) buf buf_offset vmi =
     (if buf = [] then (VMI_SUCCESS, buf_offset, vmi)
      else case xl (start + of_nat buf_offset) vmi of
        (None, vmi) \<Rightarrow> (VMI_FAILURE, buf_offset, vmi)
      | (Some paddr, vmi) \<Rightarrow>
      let offset = page_offset vmi paddr;
          write_len = chunk_len vmi offset (length buf) in
      case driver_write env paddr (take write_len buf) vmi of
        (VMI_FAILURE, vmi) \<Rightarrow> (VMI_FAILURE, buf_offset, vmi)
      | (VMI_SUCCESS, vmi) \<Rightarrow>
          write_loop env xl start fuel (drop write_len buf) (buf_offset + write_len) vmi)"

text \<open>The status, the number of bytes written and the new state.  An unknown translation mechanism
  leaves by \<^verbatim>\<open>return 0\<close>, and 0 is \<^verbatim>\<open>VMI_SUCCESS\<close>; the number of bytes is
  not stored in that case, which the model shows as 0.\<close>

definition vmi_write :: "'s vmi_env \<Rightarrow> access_context \<Rightarrow> u8 list \<Rightarrow> 's vmi_instance \<Rightarrow>
    status \<times> nat \<times> 's vmi_instance" where
  "vmi_write env ctx buf vmi =
     (if ac_tm ctx \<notin> {VMI_TM_NONE, VMI_TM_KERNEL_SYMBOL, VMI_TM_PROCESS_PID, VMI_TM_PROCESS_DTB}
      then (VMI_SUCCESS, 0, vmi)
      else case write_target env ctx vmi of
        (None, vmi) \<Rightarrow> (VMI_FAILURE, 0, vmi)
      | (Some (pt, pm, start_addr), vmi) \<Rightarrow>
          write_loop env (access_paddr (vmi_nested_pagetable_lookup env) ctx pt pm) start_addr
            (length buf) buf 0 vmi)"

definition vmi_write_pa :: "'s vmi_env \<Rightarrow> addr_t \<Rightarrow> u8 list \<Rightarrow> 's vmi_instance \<Rightarrow>
    status \<times> nat \<times> 's vmi_instance" where
  "vmi_write_pa env paddr buf vmi = vmi_write env (ACCESS_CONTEXT\<lparr> ac_addr := paddr \<rparr>) buf vmi"

definition vmi_write_va :: "'s vmi_env \<Rightarrow> addr_t \<Rightarrow> vmi_pid_t \<Rightarrow> u8 list \<Rightarrow> 's vmi_instance \<Rightarrow>
    status \<times> nat \<times> 's vmi_instance" where
  "vmi_write_va env vaddr pid buf vmi = vmi_write env (va_ctx vaddr pid) buf vmi"

definition vmi_write_ksym :: "'s vmi_env \<Rightarrow> string \<Rightarrow> u8 list \<Rightarrow> 's vmi_instance \<Rightarrow>
    status \<times> nat \<times> 's vmi_instance" where
  "vmi_write_ksym env symb buf vmi =
     (case vmi_translate_ksym2v env symb vmi of
        (Some vaddr, vmi') \<Rightarrow> vmi_write_va env vaddr 0 buf vmi'
      | (None, vmi') \<Rightarrow> (VMI_FAILURE, 0, vmi'))"

section \<open>Typed writes\<close>

definition status_of :: "status \<times> nat \<times> 's vmi_instance \<Rightarrow> status \<times> 's vmi_instance" where
  "status_of r = (case r of (st, n, vmi) \<Rightarrow> (st, vmi))"

definition vmi_write_8 ::
  "'s vmi_env \<Rightarrow> access_context \<Rightarrow> u8 \<Rightarrow> 's vmi_instance \<Rightarrow> status \<times> 's vmi_instance" where
  "vmi_write_8 env ctx v vmi = status_of (vmi_write env ctx (bytes_of_word 1 v) vmi)"

definition vmi_write_16 ::
  "'s vmi_env \<Rightarrow> access_context \<Rightarrow> u16 \<Rightarrow> 's vmi_instance \<Rightarrow> status \<times> 's vmi_instance" where
  "vmi_write_16 env ctx v vmi = status_of (vmi_write env ctx (bytes_of_word 2 v) vmi)"

definition vmi_write_32 ::
  "'s vmi_env \<Rightarrow> access_context \<Rightarrow> u32 \<Rightarrow> 's vmi_instance \<Rightarrow> status \<times> 's vmi_instance" where
  "vmi_write_32 env ctx v vmi = status_of (vmi_write env ctx (bytes_of_word 4 v) vmi)"

definition vmi_write_64 ::
  "'s vmi_env \<Rightarrow> access_context \<Rightarrow> u64 \<Rightarrow> 's vmi_instance \<Rightarrow> status \<times> 's vmi_instance" where
  "vmi_write_64 env ctx v vmi = status_of (vmi_write env ctx (bytes_of_word 8 v) vmi)"

definition vmi_write_addr ::
  "'s vmi_env \<Rightarrow> access_context \<Rightarrow> addr_t \<Rightarrow> 's vmi_instance \<Rightarrow> status \<times> 's vmi_instance" where
  "vmi_write_addr env ctx v vmi =
     (let pm = vi_page_mode vmi in
      if pm = VMI_PM_AARCH64 \<or> pm = VMI_PM_IA32E
      then status_of (vmi_write env ctx (bytes_of_word 8 v) vmi)
      else if pm = VMI_PM_AARCH32 \<or> pm = VMI_PM_LEGACY \<or> pm = VMI_PM_PAE
      then status_of (vmi_write env ctx (bytes_of_word 4 v) vmi)
      else (VMI_FAILURE, vmi))"

definition vmi_write_8_pa ::
  "'s vmi_env \<Rightarrow> addr_t \<Rightarrow> u8 \<Rightarrow> 's vmi_instance \<Rightarrow> status \<times> 's vmi_instance" where
  "vmi_write_8_pa env paddr v vmi = status_of (vmi_write_pa env paddr (bytes_of_word 1 v) vmi)"

definition vmi_write_16_pa ::
  "'s vmi_env \<Rightarrow> addr_t \<Rightarrow> u16 \<Rightarrow> 's vmi_instance \<Rightarrow> status \<times> 's vmi_instance" where
  "vmi_write_16_pa env paddr v vmi = status_of (vmi_write_pa env paddr (bytes_of_word 2 v) vmi)"

definition vmi_write_32_pa ::
  "'s vmi_env \<Rightarrow> addr_t \<Rightarrow> u32 \<Rightarrow> 's vmi_instance \<Rightarrow> status \<times> 's vmi_instance" where
  "vmi_write_32_pa env paddr v vmi = status_of (vmi_write_pa env paddr (bytes_of_word 4 v) vmi)"

definition vmi_write_64_pa ::
  "'s vmi_env \<Rightarrow> addr_t \<Rightarrow> u64 \<Rightarrow> 's vmi_instance \<Rightarrow> status \<times> 's vmi_instance" where
  "vmi_write_64_pa env paddr v vmi = status_of (vmi_write_pa env paddr (bytes_of_word 8 v) vmi)"

definition vmi_write_addr_pa ::
  "'s vmi_env \<Rightarrow> addr_t \<Rightarrow> addr_t \<Rightarrow> 's vmi_instance \<Rightarrow> status \<times> 's vmi_instance" where
  "vmi_write_addr_pa env paddr v vmi = vmi_write_addr env (ACCESS_CONTEXT\<lparr> ac_addr := paddr \<rparr>) v vmi"

definition vmi_write_8_va ::
  "'s vmi_env \<Rightarrow> addr_t \<Rightarrow> vmi_pid_t \<Rightarrow> u8 \<Rightarrow> 's vmi_instance \<Rightarrow> status \<times> 's vmi_instance" where
  "vmi_write_8_va env vaddr pid v vmi = status_of (vmi_write_va env vaddr pid (bytes_of_word 1 v) vmi)"

definition vmi_write_16_va ::
  "'s vmi_env \<Rightarrow> addr_t \<Rightarrow> vmi_pid_t \<Rightarrow> u16 \<Rightarrow> 's vmi_instance \<Rightarrow> status \<times> 's vmi_instance" where
  "vmi_write_16_va env vaddr pid v vmi = status_of (vmi_write_va env vaddr pid (bytes_of_word 2 v) vmi)"

definition vmi_write_32_va ::
  "'s vmi_env \<Rightarrow> addr_t \<Rightarrow> vmi_pid_t \<Rightarrow> u32 \<Rightarrow> 's vmi_instance \<Rightarrow> status \<times> 's vmi_instance" where
  "vmi_write_32_va env vaddr pid v vmi = status_of (vmi_write_va env vaddr pid (bytes_of_word 4 v) vmi)"

definition vmi_write_64_va ::
  "'s vmi_env \<Rightarrow> addr_t \<Rightarrow> vmi_pid_t \<Rightarrow> u64 \<Rightarrow> 's vmi_instance \<Rightarrow> status \<times> 's vmi_instance" where
  "vmi_write_64_va env vaddr pid v vmi = status_of (vmi_write_va env vaddr pid (bytes_of_word 8 v) vmi)"

definition vmi_write_addr_va ::
  "'s vmi_env \<Rightarrow> addr_t \<Rightarrow> vmi_pid_t \<Rightarrow> addr_t \<Rightarrow> 's vmi_instance \<Rightarrow> status \<times> 's vmi_instance" where
  "vmi_write_addr_va env vaddr pid v vmi = vmi_write_addr env (va_ctx vaddr pid) v vmi"

definition vmi_write_8_ksym ::
  "'s vmi_env \<Rightarrow> string \<Rightarrow> u8 \<Rightarrow> 's vmi_instance \<Rightarrow> status \<times> 's vmi_instance" where
  "vmi_write_8_ksym env symb v vmi = status_of (vmi_write_ksym env symb (bytes_of_word 1 v) vmi)"

definition vmi_write_16_ksym ::
  "'s vmi_env \<Rightarrow> string \<Rightarrow> u16 \<Rightarrow> 's vmi_instance \<Rightarrow> status \<times> 's vmi_instance" where
  "vmi_write_16_ksym env symb v vmi = status_of (vmi_write_ksym env symb (bytes_of_word 2 v) vmi)"

definition vmi_write_32_ksym ::
  "'s vmi_env \<Rightarrow> string \<Rightarrow> u32 \<Rightarrow> 's vmi_instance \<Rightarrow> status \<times> 's vmi_instance" where
  "vmi_write_32_ksym env symb v vmi = status_of (vmi_write_ksym env symb (bytes_of_word 4 v) vmi)"

definition vmi_write_64_ksym ::
  "'s vmi_env \<Rightarrow> string \<Rightarrow> u64 \<Rightarrow> 's vmi_instance \<Rightarrow> status \<times> 's vmi_instance" where
  "vmi_write_64_ksym env symb v vmi = status_of (vmi_write_ksym env symb (bytes_of_word 8 v) vmi)"

definition vmi_write_addr_ksym ::
  "'s vmi_env \<Rightarrow> string \<Rightarrow> addr_t \<Rightarrow> 's vmi_instance \<Rightarrow> status \<times> 's vmi_instance" where
  "vmi_write_addr_ksym env symb v vmi =
     vmi_write_addr env (ACCESS_CONTEXT\<lparr> ac_tm := VMI_TM_KERNEL_SYMBOL, ac_ksym := symb \<rparr>) v vmi"

section \<open>Bytes after a write\<close>

definition spec_write :: "(addr_t \<Rightarrow> u8 option) \<Rightarrow> addr_t \<Rightarrow> u8 list \<Rightarrow> addr_t \<Rightarrow> u8 option" where
  "spec_write f a bs = (\<lambda>x. if unat (x - a) < length bs then Some (bs ! unat (x - a)) else f x)"

lemma spec_write_Nil [simp]: "spec_write f a [] = f"
  by (rule ext) (simp add: spec_write_def)

lemma spec_write_append:
  assumes "length xs + length ys \<le> 2 ^ 64"
  shows "spec_write (spec_write f a xs) (a + of_nat (length xs)) ys = spec_write f a (xs @ ys)"
proof
  fix x
  let ?n = "length xs"
  let ?d = "x - a"
  have d: "unat ?d < 2 ^ 64" using unsigned_less [of ?d, where ?'a = nat] by simp
  have e: "x - (a + of_nat ?n) = ?d - of_nat ?n" by simp
  show "spec_write (spec_write f a xs) (a + of_nat ?n) ys x = spec_write f a (xs @ ys) x"
  proof (cases "unat ?d < ?n")
    case True
    then have "unat (?d - of_nat ?n) = 2 ^ 64 + unat ?d - ?n"
      using assms d unat_sub_if' [of ?d "of_nat ?n"]
      by (cases "?n = 2 ^ 64") (auto simp: unat_of_nat)
    then have "\<not> unat (?d - of_nat ?n) < length ys" using True assms d by linarith
    with True show ?thesis by (simp add: spec_write_def e nth_append)
  next
    case False
    then have "unat (?d - of_nat ?n) = unat ?d - ?n"
      using d unat_sub_if' [of ?d "of_nat ?n"] by (simp add: unat_of_nat)
    with False show ?thesis by (simp add: spec_write_def e nth_append) arith
  qed
qed

lemma spec_read_write:
  assumes "length bs \<le> 2 ^ 64"
  shows "spec_read (spec_write f a bs) a (length bs) = bs"
proof -
  have "spec_write f a bs (a + of_nat j) = Some (bs ! j)" if "j < length bs" for j
    using that assms by (simp add: spec_write_def unat_of_nat)
  then show ?thesis using spec_read_chunk [of "length bs" "spec_write f a bs" a bs "length bs"] by simp
qed

section \<open>Writing through the Xen driver\<close>

text \<open>What the write path needs of the hypervisor when no page is shared: a writable mapping is the
  mapping a read would get, the frame table does not depend on the content of memory, and two
  guest frames are not backed by one machine frame.\<close>

definition plain_mapping :: "xc_map_read \<Rightarrow> xc_map_write \<Rightarrow> bool" where
  "plain_mapping xcr xcw \<longleftrightarrow> (\<forall>f hv. xcw f hv = (xcr f hv, hv)) \<and>
     (\<forall>f hv mm. xcr f (hv\<lparr> hv_mem := mm \<rparr>) = xcr f hv)"

definition distinct_frames :: "xc_map_read \<Rightarrow> hypervisor \<Rightarrow> bool" where
  "distinct_frames xcr hv \<longleftrightarrow> (\<forall>f g m. xcr f hv = Some m \<longrightarrow> xcr g hv = Some m \<longrightarrow> f = g)"

lemma mem_write_frames:
  assumes "plain_mapping xcr xcw"
  shows "xcr f (mem_write m off bs hv) = xcr f hv"
    and "xen_get_memory xcr (mem_write m off bs hv) = xen_get_memory xcr hv"
    and "distinct_frames xcr (mem_write m off bs hv) = distinct_frames xcr hv"
proof -
  show f: "xcr f (mem_write m off bs hv) = xcr f hv" for f
    using assms by (simp add: mem_write_def plain_mapping_def)
  show "xen_get_memory xcr (mem_write m off bs hv) = xen_get_memory xcr hv"
    by (intro ext) (simp add: xen_get_memory_def f)
  show "distinct_frames xcr (mem_write m off bs hv) = distinct_frames xcr hv"
    by (simp add: distinct_frames_def f)
qed

lemma frame_of: "drop_bit 12 (clear_low 12 (a :: u64)) = drop_bit 12 a"
  by (rule bit_word_eqI) (auto simp: bit_simps vmi_bits dest: bit_imp_le_length)

lemma xen_pbyte:
  "pbyte (xen_page xcr cfg hv) a =
     (if range_ok cfg (clear_low 12 a) 0x1000
      then map_option (\<lambda>m. hv_mem hv m (unat (take_bit 12 a))) (xcr (drop_bit 12 a) hv) else None)"
proof -
  have "unat (take_bit 12 a) < 4096" by (simp add: unat_low12)
  moreover have "push_bit 12 (drop_bit 12 a) = clear_low 12 a" by (simp add: clear_low_def)
  ultimately show ?thesis
    by (simp add: pbyte_def xen_page_def Let_def frame_of page_bytes_def option.map_comp comp_def
        cong: map_option_cong)
qed

lemma in_chunk:
  fixes a x :: u64
  assumes "unat (take_bit 12 a) + n \<le> 4096"
  shows "unat (x - a) < n \<longleftrightarrow> drop_bit 12 x = drop_bit 12 a \<and>
     unat (take_bit 12 a) \<le> unat (take_bit 12 x) \<and> unat (take_bit 12 x) < unat (take_bit 12 a) + n"
    and "unat (x - a) < n \<Longrightarrow> unat (x - a) = unat (take_bit 12 x) - unat (take_bit 12 a)"
proof -
  have fwd: "drop_bit 12 x = drop_bit 12 a \<and> unat (take_bit 12 x) = unat (take_bit 12 a) + unat (x - a)"
    if "unat (x - a) < n"
  proof -
    let ?j = "unat (x - a)"
    have x: "x = a + of_nat ?j" by simp
    have lt: "unat a mod 4096 + ?j < 4096" using assms that by (simp add: unat_low12)
    show ?thesis
      using add_within_page(2,3) [OF lt] unfolding clear_low_eq_iff x [symmetric] by simp
  qed
  have bwd: "unat (x - a) < n"
    if "drop_bit 12 x = drop_bit 12 a" "unat (take_bit 12 a) \<le> unat (take_bit 12 x)"
      "unat (take_bit 12 x) < unat (take_bit 12 a) + n"
  proof -
    have d: "unat x div 4096 = unat a div 4096"
      using that(1) by (metis unat_drop12)
    have "unat x = unat x div 4096 * 4096 + unat x mod 4096"
      "unat a = unat a div 4096 * 4096 + unat a mod 4096" by simp_all
    then have "unat a \<le> unat x" "unat x - unat a < n"
      using that(2,3) d unfolding unat_low12 by linarith+
    then show ?thesis by (simp add: unat_sub word_le_nat_alt)
  qed
  show "unat (x - a) < n \<longleftrightarrow> drop_bit 12 x = drop_bit 12 a \<and>
     unat (take_bit 12 a) \<le> unat (take_bit 12 x) \<and> unat (take_bit 12 x) < unat (take_bit 12 a) + n"
    using fwd bwd by auto
  show "unat (x - a) < n \<Longrightarrow> unat (x - a) = unat (take_bit 12 x) - unat (take_bit 12 a)"
    using fwd by simp
qed

lemma pbyte_mem_write:
  assumes pl: "plain_mapping xcr xcw" and di: "distinct_frames xcr hv"
    and m: "xcr (drop_bit 12 a) hv = Some m" and rg: "range_ok cfg (clear_low 12 a) 0x1000"
    and len: "unat (take_bit 12 a) + length bs \<le> 4096"
  shows "pbyte (xen_page xcr cfg (mem_write m (unat (take_bit 12 a)) bs hv)) =
     spec_write (pbyte (xen_page xcr cfg hv)) a bs"
proof
  fix x
  note ic = in_chunk [OF len, of x]
  have fr: "xcr (drop_bit 12 x) hv = Some m \<longleftrightarrow> drop_bit 12 x = drop_bit 12 a"
    using di m by (auto simp: distinct_frames_def)
  have cl: "drop_bit 12 x = drop_bit 12 a \<Longrightarrow> clear_low 12 x = clear_low 12 a"
    by (simp add: clear_low_def)
  show "pbyte (xen_page xcr cfg (mem_write m (unat (take_bit 12 a)) bs hv)) x =
     spec_write (pbyte (xen_page xcr cfg hv)) a bs x"
  proof (cases "unat (x - a) < length bs")
    case True
    with ic fr cl rg show ?thesis
      by (simp add: xen_pbyte mem_write_frames(1) [OF pl] spec_write_def) (simp add: mem_write_def)
  next
    case False
    have "hv_mem (mem_write m (unat (take_bit 12 a)) bs hv) k (unat (take_bit 12 x)) =
        hv_mem hv k (unat (take_bit 12 x))" if "xcr (drop_bit 12 x) hv = Some k" for k
      using that False ic(1) fr by (auto simp: mem_write_def)
    with False show ?thesis
      by (auto simp: xen_pbyte mem_write_frames(1) [OF pl] spec_write_def
          intro!: option.map_cong0 map_option_cong)
  qed
qed

lemma remove_unkeyed:
  assumes "pc_inv cfg pc" and "\<not> page_aligned cfg sp"
  shows "memory_cache_remove cfg sp a pc = pc"
proof -
  have "Mapping.lookup (pc_table pc) sp = None"
    using assms pc_inv_entry [of cfg pc sp] by fastforce
  then show ?thesis by (simp add: memory_cache_remove_def table_remove_def)
qed

lemma put_loop_Nil [simp]: "xen_put_loop xcw cfg sp a n off [] x = (VMI_SUCCESS, x)"
  by (cases n) simp_all

lemma offset_mask: "unat (ucast (0x1000 - 1 :: u32) AND (a :: u64)) = unat (take_bit 12 a)"
proof -
  have "ucast (0x1000 - 1 :: u32) = (mask 12 :: u64)" by (simp add: mask_eq_exp_minus_1)
  then show ?thesis by (simp only: take_bit_eq_mask and.commute)
qed

lemma xen_write_chunk:
  assumes pl: "plain_mapping xcr xcw" and inv: "xen_inv xcr (xen_cfg vt mm maxp) hv x"
    and sp: "\<not> page_aligned (xen_cfg vt mm maxp) sp"
    and m: "xcr (drop_bit 12 a) hv = Some m" and ne: "bs \<noteq> []"
    and len: "unat (take_bit 12 a) + length bs \<le> 4096"
  shows "xen_write xcw (xen_cfg vt mm maxp) sp a bs x =
     (VMI_SUCCESS, x\<lparr> xi_hv := mem_write m (unat (take_bit 12 a)) bs hv \<rparr>)"
proof -
  let ?cfg = "xen_cfg vt mm maxp"
  obtain k where k: "length bs = Suc k" using ne by (cases bs) auto
  have hv: "xi_hv x = hv" and pc: "pc_inv ?cfg (xi_cache x)" using inv by (simp_all add: xen_inv_def)
  have w: "xcw (drop_bit 12 a) hv = (Some m, hv)" using pl m by (simp add: plain_mapping_def)
  show ?thesis
    unfolding xen_write_def xen_put_memory_def k
    using ne len w remove_unkeyed [OF pc sp]
    by (simp add: Let_def hv offset_mask [simplified] k)
qed

lemma xen_inv_write:
  assumes "plain_mapping xcr xcw" and "xen_inv xcr cfg hv x"
  shows "xen_inv xcr cfg (mem_write m off bs hv) (x\<lparr> xi_hv := mem_write m off bs hv \<rparr>)"
  using assms(2) by (simp add: xen_inv_def mem_write_frames [OF assms(1)])

text \<open>The instance during a write: like \<open>xen_ready\<close>, without a promise about the
  virtual-to-physical cache, whose translations a write to a page table may outdate.\<close>

definition xen_open :: "xc_map_read \<Rightarrow> mem_config \<Rightarrow> hypervisor \<Rightarrow> xen_instance vmi_instance \<Rightarrow> bool" where
  "xen_open xcr cfg hv vmi \<longleftrightarrow> vi_page_shift vmi = 12 \<and> vi_page_size vmi = 0x1000 \<and>
     xen_inv xcr cfg hv (vi_driver vmi) \<and> distinct_frames xcr hv"

lemma write_loop_phys:
  assumes pl: "plain_mapping xcr xcw" and sp: "\<not> page_aligned (xen_cfg vt mm maxp) sp"
  shows "xen_open xcr (xen_cfg vt mm maxp) hv vmi \<Longrightarrow> length buf \<le> fuel \<Longrightarrow> length buf \<le> 2 ^ 64 \<Longrightarrow>
    (\<And>i. i < length buf \<Longrightarrow>
       pbyte (xen_page xcr (xen_cfg vt mm maxp) hv) (start + of_nat off + of_nat i) \<noteq> None) \<Longrightarrow>
    \<exists>hv' vmi'. xen_open xcr (xen_cfg vt mm maxp) hv' vmi' \<and> vi_caches vmi' = vi_caches vmi \<and>
      write_loop (xen_env xcr xcw (xen_cfg vt mm maxp) now sp os junk) (\<lambda>va vmi. (Some va, vmi))
        start fuel buf off vmi = (VMI_SUCCESS, off + length buf, vmi') \<and>
      pbyte (xen_page xcr (xen_cfg vt mm maxp) hv') =
        spec_write (pbyte (xen_page xcr (xen_cfg vt mm maxp) hv)) (start + of_nat off) buf"
proof (induction fuel arbitrary: buf off vmi hv)
  case 0
  then show ?case by auto
next
  case (Suc fuel)
  let ?cfg = "xen_cfg vt mm maxp"
  let ?env = "xen_env xcr xcw ?cfg now sp os junk"
  let ?a = "start + of_nat off :: addr_t"
  let ?o = "unat (take_bit 12 ?a)"
  show ?case
  proof (cases "buf = []")
    case True
    then show ?thesis using Suc.prems(1) by auto
  next
    case False
    have o: "?o < 4096" by (simp add: unat_low12)
    define l where "l = (if ?o + length buf > 4096 then 4096 - ?o else length buf)"
    have l: "0 < l" "l \<le> length buf" "?o + l \<le> 4096" using False o by (auto simp: l_def)
    have op: "vi_page_size vmi = 0x1000" "xen_inv xcr ?cfg hv (vi_driver vmi)" "distinct_frames xcr hv"
      using Suc.prems(1) by (simp_all add: xen_open_def)
    have "pbyte (xen_page xcr ?cfg hv) ?a \<noteq> None" using Suc.prems(4) [of 0] False by simp
    then obtain m where m: "xcr (drop_bit 12 ?a) hv = Some m" and rg: "range_ok ?cfg (clear_low 12 ?a) 0x1000"
      by (auto simp: xen_pbyte split: if_splits)
    have po: "page_offset vmi ?a = ?o" using op(1) offset_mask [of ?a] by (simp only: page_offset_def)
    have cl: "chunk_len vmi ?o (length buf) = l" using op(1) by (simp add: chunk_len_def l_def)
    let ?hv = "mem_write m ?o (take l buf) hv"
    let ?d = "vi_driver vmi\<lparr> xi_hv := ?hv \<rparr>"
    let ?v = "vmi\<lparr> vi_driver := ?d \<rparr>"
    have tl: "take l buf \<noteq> []" "?o + length (take l buf) \<le> 4096" using l False by auto
    have dw: "driver_write ?env ?a (take l buf) vmi = (VMI_SUCCESS, ?v)"
      using xen_write_chunk [OF pl op(2) sp m tl] by (simp add: driver_write_def xen_env_def)
    have pb: "pbyte (xen_page xcr ?cfg ?hv) = spec_write (pbyte (xen_page xcr ?cfg hv)) ?a (take l buf)"
      by (rule pbyte_mem_write [OF pl op(3) m rg tl(2)])
    have open': "xen_open xcr ?cfg ?hv ?v"
      using Suc.prems(1) xen_inv_write [OF pl op(2)] mem_write_frames(3) [OF pl]
      by (simp add: xen_open_def)
    have mp: "pbyte (xen_page xcr ?cfg ?hv) (start + of_nat (off + l) + of_nat i) \<noteq> None"
      if "i < length (drop l buf)" for i
      using Suc.prems(4) [of "l + i"] that by (simp add: pb spec_write_def ac_simps)
    have len: "length (drop l buf) \<le> fuel" "length (drop l buf) \<le> 2 ^ 64"
      using Suc.prems(2,3) l by simp_all
    from Suc.IH [OF open' len mp] l obtain hv' vmi' where r: "xen_open xcr ?cfg hv' vmi'" "vi_caches vmi' = vi_caches vmi"
      "write_loop ?env (\<lambda>va vmi. (Some va, vmi)) start fuel (drop l buf) (off + l) ?v =
         (VMI_SUCCESS, off + length buf, vmi')"
      "pbyte (xen_page xcr ?cfg hv') =
        spec_write (pbyte (xen_page xcr ?cfg ?hv)) (start + of_nat (off + l)) (drop l buf)"
      by auto
    have "pbyte (xen_page xcr ?cfg hv') = spec_write (pbyte (xen_page xcr ?cfg hv)) ?a buf"
      using spec_write_append [of "take l buf" "drop l buf" "pbyte (xen_page xcr ?cfg hv)" ?a]
        Suc.prems(3) l by (simp add: r(4) pb ac_simps)
    with r False show ?thesis
      by (intro exI [of _ hv'] exI [of _ vmi']) (simp add: Let_def po cl dw)
  qed
qed

section \<open>Properties\<close>

text \<open>C3. Writing physical memory and reading it back: when no page is shared and the range is mapped,
  \<^verbatim>\<open>vmi_write_pa\<close> reports success and the full length, a following
  \<^verbatim>\<open>vmi_read_pa\<close> of the range returns exactly the bytes written, across page
  boundaries, and every byte outside the range is unchanged.\<close>

theorem vmi_write_read_pa:
  assumes "plain_mapping xcr xcw" and "\<not> page_aligned (xen_cfg vt mm maxp) sp"
    and "xen_open xcr (xen_cfg vt mm maxp) hv vmi" and "length buf \<le> 2 ^ 64"
    and "\<And>i. i < length buf \<Longrightarrow> pbyte (xen_page xcr (xen_cfg vt mm maxp) hv) (paddr + of_nat i) \<noteq> None"
  shows "\<exists>hv' vmi'. vmi_write_pa (xen_env xcr xcw (xen_cfg vt mm maxp) now sp os junk) paddr buf vmi =
        (VMI_SUCCESS, length buf, vmi') \<and>
      fst (snd (vmi_read_pa (vmi_read (xen_env xcr xcw (xen_cfg vt mm maxp) now sp os junk)) paddr
        (length buf) vmi')) = buf \<and>
      xi_hv (vi_driver vmi') = hv' \<and>
      (\<forall>x. length buf \<le> unat (x - paddr) \<longrightarrow>
         pbyte (xen_page xcr (xen_cfg vt mm maxp) hv') x = pbyte (xen_page xcr (xen_cfg vt mm maxp) hv) x)"
proof -
  let ?cfg = "xen_cfg vt mm maxp"
  let ?env = "xen_env xcr xcw ?cfg now sp os junk"
  let ?c = "ACCESS_CONTEXT\<lparr> ac_addr := paddr \<rparr>"
  let ?n = "length buf"
  have id: "access_paddr look ?c 0 0 = (\<lambda>va vmi. (Some va, vmi))" for look
    by (intro ext) (simp add: access_paddr_def ACCESS_CONTEXT_def)
  obtain hv' v where w: "xen_open xcr ?cfg hv' v"
    "write_loop ?env (\<lambda>va vmi. (Some va, vmi)) paddr ?n buf 0 vmi = (VMI_SUCCESS, ?n, v)"
    "pbyte (xen_page xcr ?cfg hv') = spec_write (pbyte (xen_page xcr ?cfg hv)) paddr buf"
    using write_loop_phys [OF assms(1,2,3) order.refl assms(4), of paddr 0 now os junk] assms(5) by auto
  have wr: "vmi_write_pa ?env paddr buf vmi = (VMI_SUCCESS, ?n, v)"
    using w(2) unfolding vmi_write_pa_def vmi_write_def write_target_def
    by (simp add: ACCESS_CONTEXT_def id [unfolded ACCESS_CONTEXT_def, simplified])
  let ?good = "\<lambda>v. xen_open xcr ?cfg hv' v"
  have tr: "translating_reader (xen_read_page xcr ?cfg now) (xen_inv xcr ?cfg hv') (xen_page xcr ?cfg hv')
      ?env (\<lambda>va vmi. (Some va, vmi)) ?good Some"
    by unfold_locales
      (auto simp: xend.drives_def xen_env_def xend.paged_def xen_open_def xeng.granular_Some)
  obtain v' where "read_loop ?env (\<lambda>va vmi. (Some va, vmi)) paddr ?n ?n 0 v =
      (read_status ?n (spec_read (vbyte (xen_page xcr ?cfg hv') Some) paddr ?n),
       spec_read (vbyte (xen_page xcr ?cfg hv') Some) paddr ?n, v')"
    using translating_reader.read_loop_spec [OF tr w(1) order.refl, where start = paddr and off = 0 and cnt = ?n]
    by auto
  moreover have "spec_read (vbyte (xen_page xcr ?cfg hv') Some) paddr ?n = buf"
    using spec_read_write [OF assms(4)] by (simp add: xeng.vbyte_Some w(3))
  ultimately have rd: "fst (snd (vmi_read_pa (vmi_read ?env) paddr ?n v)) = buf"
    unfolding vmi_read_pa_def vmi_read_def vmi_read_with_def
    by (simp add: read_target_none ACCESS_CONTEXT_def id [unfolded ACCESS_CONTEXT_def, simplified])
  have "xi_hv (vi_driver v) = hv'" using w(1) by (simp add: xen_open_def xen_inv_def)
  then show ?thesis
    using wr rd w(3) by (intro exI [of _ hv'] exI [of _ v]) (auto simp: spec_write_def)
qed

theorem vmi_write_read_pa_witness:
  "let env = xen_env (\<lambda>f hv. Some (unat f)) (\<lambda>f hv. (Some (unat f), hv)) xcfg0 0 0xffff None page_info_zero;
       vmi' = snd (snd (vmi_write_pa env 0x1ffe [1, 2, 3, 4] xvmi0))
   in fst (snd (vmi_read_pa (vmi_read env) 0x1ffe 4 vmi')) = [1, 2, 3, 4]"
proof -
  let ?r = "\<lambda>(f :: addr_t) (hv :: hypervisor). Some (unat f)"
  let ?w = "\<lambda>(f :: addr_t) (hv :: hypervisor). (Some (unat f), hv)"
  have pl: "plain_mapping ?r ?w" by (simp add: plain_mapping_def)
  have sp: "\<not> page_aligned xcfg0 0xffff" by (simp add: page_aligned_def)
  have op: "xen_open ?r xcfg0 hv0 xvmi0"
    by (simp add: xen_open_def xvmi0_def xen_inv_def pc_inv_init pc_coherent_init distinct_frames_def
        word_unat_eq_iff)
  have mapped: "pbyte (xen_page ?r xcfg0 hv0) a \<noteq> None" for a
    by (simp add: xen_pbyte range_ok_def xen_cfg_def)
  let ?env = "xen_env ?r ?w xcfg0 0 0xffff None page_info_zero"
  let ?b = "[1, 2, 3, 4] :: u8 list"
  have n: "length ?b = 4" "length ?b \<le> 2 ^ 64" by simp_all
  obtain v where v: "vmi_write_pa ?env 0x1ffe ?b xvmi0 = (VMI_SUCCESS, length ?b, v)"
    "fst (snd (vmi_read_pa (vmi_read ?env) 0x1ffe (length ?b) v)) = ?b"
    using vmi_write_read_pa [OF pl sp op n(2), of "0x1ffe" 0 None page_info_zero] mapped by blast
  show ?thesis using v(2) unfolding Let_def v(1) snd_conv n(1) .
qed

text \<open>A write never uses the page mode of its context: \<^verbatim>\<open>vmi_write\<close> gives the same result
  whatever \<^verbatim>\<open>pm\<close> the caller asks for, while \<^verbatim>\<open>vmi_read\<close> translates with
  it.\<close>

theorem vmi_write_ignores_page_mode:
  "vmi_write env (ctx\<lparr> ac_pm := pm \<rparr>) buf vmi = vmi_write env ctx buf vmi"
proof -
  have a: "access_paddr look (ctx\<lparr> ac_pm := pm \<rparr>) = access_paddr look ctx" for look
    by (rule access_paddr_cong) simp_all
  have t: "write_target env (ctx\<lparr> ac_pm := pm \<rparr>) vmi = write_target env ctx vmi"
    by (simp add: write_target_def ac_pid_def split: prod.splits option.splits)
  show ?thesis unfolding vmi_write_def t a by simp
qed

text \<open>A write with an unknown translation mechanism reports success and writes nothing.\<close>

theorem vmi_write_unknown_mechanism:
  assumes "ac_tm ctx > VMI_TM_KERNEL_SYMBOL"
  shows "vmi_write env ctx buf vmi = (VMI_SUCCESS, 0, vmi)"
  using assms by (auto simp: vmi_write_def)

theorem vmi_write_unknown_mechanism_witness:
  "vmi_write xenv0 (ACCESS_CONTEXT\<lparr> ac_tm := 9, ac_addr := 0x1000 \<rparr>) [0xcc] xvmi0 = (VMI_SUCCESS, 0, xvmi0)"
  by (rule vmi_write_unknown_mechanism) simp

text \<open>After a write to a page that was shared, reads keep returning the old page: when a page is
  cached and the writable mapping lands on a different machine frame, the write succeeds and a
  following read of the page returns the same bytes as before it.  The write asks the cache to
  drop the page for exactly this case, but the request names another key.\<close>

theorem xen_write_leaves_stale_page:
  assumes inv: "xen_inv xcr (xen_cfg vt mm maxp) hv x" and sp: "\<not> page_aligned (xen_cfg vt mm maxp) sp"
    and age: "pc_age (xi_cache x) = 0"
    and hit: "Mapping.lookup (pc_table (xi_cache x)) (clear_low 12 a) = Some e" "mce_data e = Some m"
    and cow: "xcw (drop_bit 12 a) hv = (Some m', hv')" "m' \<noteq> m" "hv_mem hv' m = hv_mem hv m"
    and chunk: "bs \<noteq> []" "unat (take_bit 12 a) + length bs \<le> 4096"
  shows "fst (xen_write xcw (xen_cfg vt mm maxp) sp a bs x) = VMI_SUCCESS \<and>
     fst (xen_read_page xcr (xen_cfg vt mm maxp) now (drop_bit 12 a)
       (snd (xen_write xcw (xen_cfg vt mm maxp) sp a bs x))) =
     fst (xen_read_page xcr (xen_cfg vt mm maxp) now (drop_bit 12 a) x)"
proof -
  let ?cfg = "xen_cfg vt mm maxp"
  let ?hv = "mem_write m' (unat (take_bit 12 a)) bs hv'"
  obtain k where k: "length bs = Suc k" using chunk(1) by (cases bs) auto
  have hv: "xi_hv x = hv" and pc: "pc_inv ?cfg (xi_cache x)" using inv by (simp_all add: xen_inv_def)
  have w: "xen_write xcw ?cfg sp a bs x = (VMI_SUCCESS, x\<lparr> xi_hv := ?hv \<rparr>)"
    unfolding xen_write_def xen_put_memory_def k
    using chunk cow(1) remove_unkeyed [OF pc sp] by (simp add: Let_def hv offset_mask [simplified] k)
  have p: "push_bit 12 (drop_bit 12 a) = clear_low 12 a" by (simp add: clear_low_def)
  have al: "page_aligned ?cfg (clear_low 12 a)" using page_aligned_frame [of ?cfg "drop_bit 12 a"] by (simp add: p)
  have rd: "fst (xen_read_page xcr ?cfg now (drop_bit 12 a) (x\<lparr> xi_hv := h \<rparr>)) = Some (page_bytes h m)" for h
    by (simp add: xen_read_page_def p memory_cache_insert_def al hit validate_and_return_data_def age)
  have "page_bytes ?hv m = page_bytes hv m" using cow by (simp add: page_bytes_def mem_write_def)
  moreover have "x\<lparr> xi_hv := hv \<rparr> = x" using hv by simp
  ultimately show ?thesis using rd [of ?hv] rd [of hv] w by simp
qed

theorem xen_write_leaves_stale_page_witness:
  "let x0 = \<lparr> xi_cache = memory_cache_init 0, xi_hv = hv0 \<rparr>;
       x1 = snd (xen_read_page xcr0 xcfg0 0 5 x0);
       w = xen_write (\<lambda>f hv. (Some 8, hv\<lparr> hv_p2m := (\<lambda>f. Some 8) \<rparr>)) xcfg0 0xffff 0x5010 [0, 0] x1
   in fst w = VMI_SUCCESS \<and> fst (xen_read_page xcr0 xcfg0 0 5 (snd w)) = Some (replicate 4096 0x81)"
proof -
  let ?x0 = "\<lparr> xi_cache = memory_cache_init 0, xi_hv = hv0 \<rparr>"
  let ?r = "xen_read_page xcr0 xcfg0 0 5 ?x0"
  let ?xcw = "\<lambda>(f :: addr_t) hv. (Some 8, hv\<lparr> hv_p2m := (\<lambda>f. Some (8 :: nat)) \<rparr>)"
  have i0: "xen_inv xcr0 xcfg0 hv0 ?x0" by (simp add: xen_inv_def pc_inv_init pc_coherent_init)
  have i1: "xen_inv xcr0 xcfg0 hv0 (snd ?r)" by (rule xend.rd_inv [OF i0])
  have r1: "fst (xen_read_page xcr0 xcfg0 0 5 (snd ?r)) = xen_page xcr0 xcfg0 hv0 5"
    by (rule xend.rd_page [OF i1])
  have al: "page_aligned xcfg0 0x5000" by (simp add: page_aligned_def)
  have rg: "range_ok xcfg0 k l" for k l by (simp add: range_ok_def xen_cfg_def)
  have five: "push_bit 12 (5 :: u64) = 0x5000" "clear_low 12 (0x5010 :: u64) = 0x5000"
    "drop_bit 12 (0x5010 :: u64) = 5" "unat (take_bit 12 (0x5010 :: u64)) = 0x10"
    by (simp_all add: push_bit_eq_mult clear_low_def drop_bit_eq_div take_bit_eq_mod)
  have c: "Mapping.lookup (pc_table (xi_cache (snd ?r))) 0x5000 =
      Some \<lparr> mce_paddr = 0x5000, mce_length = 0x1000, mce_last_updated = 0, mce_last_used = 0,
        mce_data = Some 7 \<rparr>" "pc_age (xi_cache (snd ?r)) = 0"
    by (simp_all add: xen_read_page_def five memory_cache_insert_def al memory_cache_init_def
        MAX_PAGE_CACHE_SIZE_def create_new_entry_def rg get_memory_data_def xen_get_memory_def xcr0_def hv0_def)
  have pg: "xen_page xcr0 xcfg0 hv0 5 = Some (replicate 4096 0x81)"
    by (simp add: xen_page_def five rg xcr0_def hv0_def page_bytes_def map_replicate_const)
  have "fst (xen_write ?xcw xcfg0 0xffff 0x5010 [0, 0] (snd ?r)) = VMI_SUCCESS \<and>
      fst (xen_read_page xcr0 xcfg0 0 5 (snd (xen_write ?xcw xcfg0 0xffff 0x5010 [0, 0] (snd ?r)))) =
      fst (xen_read_page xcr0 xcfg0 0 5 (snd ?r))"
    using xen_write_leaves_stale_page [OF i1, where sp = "0xffff" and a = "0x5010" and m = 7 and xcw = ?xcw and
        m' = 8 and bs = "[0, 0]" and now = 0 and hv' = "hv0\<lparr> hv_p2m := (\<lambda>f. Some 8) \<rparr>"] c
    by (simp add: five page_aligned_def)
  then show ?thesis by (simp add: Let_def r1 pg)
qed

end
