(* ===== verification/Vmi_Events.thy ===== *)
theory Vmi_Events
  imports Vmi_State
begin

text \<open>
  Event management, \<^verbatim>\<open>events.c\<close>: the tables of registered events, registering and clearing
  of every kind of event, deferred clearing and swapping while a callback runs, and stepping an
  event (clear it, single-step, register it again).

  Events belong to the caller and are shared by pointer, so the state keeps a store from pointers to
  event structures; the tables hold pointers.  The driver's control functions are arguments
  (\<open>event_driver\<close>); the wrappers of \<^verbatim>\<open>driver/driver_wrapper.h\<close> around them are
  modelled.  A call of a free routine is recorded in the order of the calls.  Hash tables are
  mappings; a table whose values can be \<^verbatim>\<open>NULL\<close> has optional values.
\<close>

section \<open>Events\<close>

type_synonym event_ptr = nat
type_synonym vcpu_t = nat
type_synonym vmi_mem_access_t = u8
type_synonym event_response_t = u32

abbreviation (input) VMI_EVENTS_VERSION :: u32 where "VMI_EVENTS_VERSION \<equiv> 9"
abbreviation (input) VMI_EVENT_MEMORY :: u16 where "VMI_EVENT_MEMORY \<equiv> 1"
abbreviation (input) VMI_EVENT_REGISTER :: u16 where "VMI_EVENT_REGISTER \<equiv> 2"
abbreviation (input) VMI_EVENT_SINGLESTEP :: u16 where "VMI_EVENT_SINGLESTEP \<equiv> 3"
abbreviation (input) VMI_EVENT_INTERRUPT :: u16 where "VMI_EVENT_INTERRUPT \<equiv> 4"
abbreviation (input) VMI_EVENT_GUEST_REQUEST :: u16 where "VMI_EVENT_GUEST_REQUEST \<equiv> 5"
abbreviation (input) VMI_EVENT_CPUID :: u16 where "VMI_EVENT_CPUID \<equiv> 6"
abbreviation (input) VMI_EVENT_DEBUG_EXCEPTION :: u16 where "VMI_EVENT_DEBUG_EXCEPTION \<equiv> 7"
abbreviation (input) VMI_EVENT_PRIVILEGED_CALL :: u16 where "VMI_EVENT_PRIVILEGED_CALL \<equiv> 8"
abbreviation (input) VMI_EVENT_DESCRIPTOR_ACCESS :: u16 where "VMI_EVENT_DESCRIPTOR_ACCESS \<equiv> 9"
abbreviation (input) VMI_EVENT_FAILED_EMULATION :: u16 where "VMI_EVENT_FAILED_EMULATION \<equiv> 10"
abbreviation (input) VMI_EVENT_DOMAIN_WATCH :: u16 where "VMI_EVENT_DOMAIN_WATCH \<equiv> 11"
abbreviation (input) VMI_EVENT_VMEXIT :: u16 where "VMI_EVENT_VMEXIT \<equiv> 12"

abbreviation (input) VMI_REGACCESS_N :: u8 where "VMI_REGACCESS_N \<equiv> 1"
abbreviation (input) VMI_REGACCESS_W :: u8 where "VMI_REGACCESS_W \<equiv> 4"
abbreviation (input) VMI_MEMACCESS_INVALID :: vmi_mem_access_t where "VMI_MEMACCESS_INVALID \<equiv> 0"
abbreviation (input) VMI_MEMACCESS_N :: vmi_mem_access_t where "VMI_MEMACCESS_N \<equiv> 1"
abbreviation (input) VMI_MEMACCESS_X :: vmi_mem_access_t where "VMI_MEMACCESS_X \<equiv> 8"
abbreviation (input) VMI_MEMACCESS_W2X :: vmi_mem_access_t where "VMI_MEMACCESS_W2X \<equiv> 16"
abbreviation (input) VMI_MEMACCESS_RWX2N :: vmi_mem_access_t where "VMI_MEMACCESS_RWX2N \<equiv> 32"
abbreviation (input) INT3 :: u8 where "INT3 \<equiv> 1"
abbreviation (input) MSR_ANY :: reg_t where "MSR_ANY \<equiv> 153"
abbreviation (input) VMI_INIT_EVENTS :: u64 where "VMI_INIT_EVENTS \<equiv> 4"
abbreviation (input) VMI_INIT_DOMAINWATCH :: u64 where "VMI_INIT_DOMAINWATCH \<equiv> 16"

text \<open>The callback of an event: none, the library's own \<^verbatim>\<open>step_and_reg_events\<close>, or a
  function of the caller.  A free routine is \<^verbatim>\<open>step_event_free\<close> or the caller's.\<close>

datatype event_callback = CB_null | CB_step_and_reg_events | CB_user nat
datatype free_routine = Step_event_free | User_free nat

text \<open>The registers of a virtual CPU: those that modelled code reads, and the others by name.\<close>

record x86_registers =
  xr_rax :: u64
  xr_rdi :: u64
  xr_rip :: u64
  xr_cr0 :: u64
  xr_cr2 :: u64
  xr_cr3 :: u64
  xr_cr4 :: u64
  xr_msr_efer :: u64
  xr_msr_lstar :: u64
  xr_npt_base :: u64
  xr_rest :: "string \<Rightarrow> u64"

record emul_read =
  er_size :: u32
  er_dont_free :: bool
  er_data :: "u8 list"

record emul_insn =
  ei_dont_free :: bool
  ei_data :: "u8 list"

text \<open>The structures of the kinds of events are a union in the source; an event is only used as the
  kind it was set up for, so here each has fields of its own.\<close>

record vmi_event =
  ve_version :: u32
  ve_type :: u16
  ve_slat_id :: u16
  ve_next_slat_id :: u16
  ve_vcpu_id :: vcpu_t
  ve_page_mode :: page_mode_t
  ve_callback :: event_callback
  ve_data :: "nat option"
  ve_x86_regs :: x86_registers
  ve_emul_read :: "emul_read option"
  ve_emul_insn :: "emul_insn option"
  ve_reg :: reg_t
  ve_equal :: u64
  ve_msr :: u32
  ve_async :: bool
  ve_onchange :: bool
  ve_reg_in_access :: u8
  ve_reg_value :: u64
  ve_reg_previous :: u64
  ve_gfn :: addr_t
  ve_generic :: bool
  ve_mem_in_access :: vmi_mem_access_t
  ve_out_access :: vmi_mem_access_t
  ve_gptw :: bool
  ve_gla_valid :: bool
  ve_gla :: addr_t
  ve_offset :: addr_t
  ve_intr :: u8
  ve_insn_length :: u32
  ve_reinject :: int
  ve_vector :: u32
  ve_int_type :: u32
  ve_error_code :: u32
  ve_int_cr2 :: u64
  ve_vcpus :: u32
  ve_enable :: bool
  ve_sync :: bool
  ve_leaf :: u32
  ve_subleaf :: u32
  ve_reason :: u64
  ve_qualification :: u64
  ve_exit_info :: u64
  ve_exit_qualification :: u64
  ve_descriptor :: u8
  ve_is_write :: u8

definition SET_VCPU_SINGLESTEP :: "vmi_event \<Rightarrow> vcpu_t \<Rightarrow> vmi_event" where
  "SET_VCPU_SINGLESTEP e x = e\<lparr> ve_vcpus := set_bit x (ve_vcpus e) \<rparr>"

definition UNSET_VCPU_SINGLESTEP :: "vmi_event \<Rightarrow> vcpu_t \<Rightarrow> vmi_event" where
  "UNSET_VCPU_SINGLESTEP e x = e\<lparr> ve_vcpus := unset_bit x (ve_vcpus e) \<rparr>"

definition CHECK_VCPU_SINGLESTEP :: "vmi_event \<Rightarrow> vcpu_t \<Rightarrow> bool" where
  "CHECK_VCPU_SINGLESTEP e x = bit (ve_vcpus e) x"

record step_and_reg_event_wrapper =
  sr_event :: event_ptr
  sr_vcpu_id :: vcpu_t
  sr_steps :: u64
  sr_cb :: "nat option"

record swap_wrapper =
  sw_swap_from :: event_ptr
  sw_swap_to :: event_ptr
  sw_free_routine :: "free_routine option"

record 's events_state =
  es_vmi :: "'s vmi_instance"
  es_init_flags :: u64
  es_num_vcpus :: nat
  es_event_callback :: bool
  es_shutting_down :: bool
  es_heap :: "event_ptr \<Rightarrow> vmi_event"
  es_next :: event_ptr
  es_interrupt_events :: "(u8, event_ptr) mapping"
  es_mem_events_on_gfn :: "(addr_t, event_ptr) mapping"
  es_mem_events_generic :: "(vmi_mem_access_t, event_ptr) mapping"
  es_reg_events :: "(reg_t, event_ptr) mapping"
  es_msr_events :: "(u32, event_ptr) mapping"
  es_ss_events :: "(vcpu_t, event_ptr) mapping"
  es_clear_events :: "(event_ptr, free_routine option) mapping"
  es_step_events :: "step_and_reg_event_wrapper list"
  es_step_vcpus :: "vcpu_t \<Rightarrow> u32"
  es_swap_events :: "swap_wrapper list"
  es_guest_requested_event :: "event_ptr option"
  es_cpuid_event :: "event_ptr option"
  es_vmexit_event :: "event_ptr option"
  es_debug_event :: "event_ptr option"
  es_privcall_event :: "event_ptr option"
  es_descriptor_access_event :: "event_ptr option"
  es_failed_emulation_event :: "event_ptr option"
  es_watch_domain_event :: "event_ptr option"
  es_free_calls :: "(free_routine \<times> event_ptr \<times> status) list"

section \<open>Driver control functions\<close>

record 's event_driver =
  ed_initialized :: bool
  ed_set_intr_access :: "(vmi_event \<Rightarrow> bool \<Rightarrow> 's \<Rightarrow> status \<times> 's) option"
  ed_set_reg_access :: "(vmi_event \<Rightarrow> 's \<Rightarrow> status \<times> 's) option"
  ed_set_mem_access :: "(addr_t \<Rightarrow> vmi_mem_access_t \<Rightarrow> u16 \<Rightarrow> 's \<Rightarrow> status \<times> 's) option"
  ed_start_single_step :: "(vmi_event \<Rightarrow> 's \<Rightarrow> status \<times> 's) option"
  ed_stop_single_step :: "(vcpu_t \<Rightarrow> 's \<Rightarrow> status \<times> 's) option"
  ed_shutdown_single_step :: "('s \<Rightarrow> status \<times> 's) option"
  ed_set_guest_requested :: "(bool \<Rightarrow> 's \<Rightarrow> status \<times> 's) option"
  ed_set_cpuid_event :: "(bool \<Rightarrow> 's \<Rightarrow> status \<times> 's) option"
  ed_set_vmexit_event :: "(bool \<Rightarrow> bool \<Rightarrow> 's \<Rightarrow> status \<times> 's) option"
  ed_set_debug_event :: "(bool \<Rightarrow> 's \<Rightarrow> status \<times> 's) option"
  ed_set_privcall_event :: "(bool \<Rightarrow> 's \<Rightarrow> status \<times> 's) option"
  ed_set_desc_access_event :: "(bool \<Rightarrow> 's \<Rightarrow> status \<times> 's) option"
  ed_set_failed_emulation_event :: "(bool \<Rightarrow> 's \<Rightarrow> status \<times> 's) option"
  ed_set_domain_watch_event :: "(bool \<Rightarrow> 's \<Rightarrow> status \<times> 's) option"

text \<open>A wrapper fails without a driver or without the function.\<close>

definition driver_ctl :: "'s event_driver \<Rightarrow> ('s \<Rightarrow> status \<times> 's) option \<Rightarrow> 's events_state \<Rightarrow>
    status \<times> 's events_state" where
  "driver_ctl ed f s =
     (case f of
        None \<Rightarrow> (VMI_FAILURE, s)
      | Some g \<Rightarrow>
          if \<not> ed_initialized ed then (VMI_FAILURE, s)
          else let (st, d) = g (vi_driver (es_vmi s)) in (st, s\<lparr> es_vmi := (es_vmi s)\<lparr> vi_driver := d \<rparr> \<rparr>))"

definition driver_set_intr_access :: "'s event_driver \<Rightarrow> vmi_event \<Rightarrow> bool \<Rightarrow> 's events_state \<Rightarrow>
    status \<times> 's events_state" where
  "driver_set_intr_access ed e enabled = driver_ctl ed (map_option (\<lambda>f. f e enabled) (ed_set_intr_access ed))"

definition driver_set_reg_access :: "'s event_driver \<Rightarrow> vmi_event \<Rightarrow> 's events_state \<Rightarrow>
    status \<times> 's events_state" where
  "driver_set_reg_access ed e = driver_ctl ed (map_option (\<lambda>f. f e) (ed_set_reg_access ed))"

definition driver_set_mem_access :: "'s event_driver \<Rightarrow> addr_t \<Rightarrow> vmi_mem_access_t \<Rightarrow> u16 \<Rightarrow>
    's events_state \<Rightarrow> status \<times> 's events_state" where
  "driver_set_mem_access ed gfn access slat_id =
     driver_ctl ed (map_option (\<lambda>f. f gfn access slat_id) (ed_set_mem_access ed))"

definition driver_start_single_step :: "'s event_driver \<Rightarrow> vmi_event \<Rightarrow> 's events_state \<Rightarrow>
    status \<times> 's events_state" where
  "driver_start_single_step ed e = driver_ctl ed (map_option (\<lambda>f. f e) (ed_start_single_step ed))"

definition driver_stop_single_step :: "'s event_driver \<Rightarrow> vcpu_t \<Rightarrow> 's events_state \<Rightarrow>
    status \<times> 's events_state" where
  "driver_stop_single_step ed vcpu = driver_ctl ed (map_option (\<lambda>f. f vcpu) (ed_stop_single_step ed))"

definition driver_shutdown_single_step :: "'s event_driver \<Rightarrow> 's events_state \<Rightarrow>
    status \<times> 's events_state" where
  "driver_shutdown_single_step ed = driver_ctl ed (ed_shutdown_single_step ed)"

definition driver_set_guest_requested_event :: "'s event_driver \<Rightarrow> bool \<Rightarrow> 's events_state \<Rightarrow>
    status \<times> 's events_state" where
  "driver_set_guest_requested_event ed en = driver_ctl ed (map_option (\<lambda>f. f en) (ed_set_guest_requested ed))"

definition driver_set_cpuid_event :: "'s event_driver \<Rightarrow> bool \<Rightarrow> 's events_state \<Rightarrow>
    status \<times> 's events_state" where
  "driver_set_cpuid_event ed en = driver_ctl ed (map_option (\<lambda>f. f en) (ed_set_cpuid_event ed))"

definition driver_set_vmexit_event :: "'s event_driver \<Rightarrow> bool \<Rightarrow> bool \<Rightarrow> 's events_state \<Rightarrow>
    status \<times> 's events_state" where
  "driver_set_vmexit_event ed en sync = driver_ctl ed (map_option (\<lambda>f. f en sync) (ed_set_vmexit_event ed))"

definition driver_set_debug_event :: "'s event_driver \<Rightarrow> bool \<Rightarrow> 's events_state \<Rightarrow>
    status \<times> 's events_state" where
  "driver_set_debug_event ed en = driver_ctl ed (map_option (\<lambda>f. f en) (ed_set_debug_event ed))"

definition driver_set_privcall_event :: "'s event_driver \<Rightarrow> bool \<Rightarrow> 's events_state \<Rightarrow>
    status \<times> 's events_state" where
  "driver_set_privcall_event ed en = driver_ctl ed (map_option (\<lambda>f. f en) (ed_set_privcall_event ed))"

definition driver_set_desc_access_event :: "'s event_driver \<Rightarrow> bool \<Rightarrow> 's events_state \<Rightarrow>
    status \<times> 's events_state" where
  "driver_set_desc_access_event ed en = driver_ctl ed (map_option (\<lambda>f. f en) (ed_set_desc_access_event ed))"

definition driver_set_failed_emulation_event :: "'s event_driver \<Rightarrow> bool \<Rightarrow> 's events_state \<Rightarrow>
    status \<times> 's events_state" where
  "driver_set_failed_emulation_event ed en =
     driver_ctl ed (map_option (\<lambda>f. f en) (ed_set_failed_emulation_event ed))"

definition driver_set_watch_domain_event :: "'s event_driver \<Rightarrow> bool \<Rightarrow> 's events_state \<Rightarrow>
    status \<times> 's events_state" where
  "driver_set_watch_domain_event ed en =
     driver_ctl ed (map_option (\<lambda>f. f en) (ed_set_domain_watch_event ed))"

section \<open>Initialisation and helpers\<close>

definition combine_mem_access :: "vmi_mem_access_t \<Rightarrow> vmi_mem_access_t \<Rightarrow> vmi_mem_access_t" where
  "combine_mem_access base add =
     (if add = base then base
      else if add = VMI_MEMACCESS_N then base
      else if base = VMI_MEMACCESS_N then add
      else if add = VMI_MEMACCESS_W2X \<or> add = VMI_MEMACCESS_RWX2N then VMI_MEMACCESS_INVALID
      else if base = VMI_MEMACCESS_W2X \<or> base = VMI_MEMACCESS_RWX2N then VMI_MEMACCESS_INVALID
      else base OR add)"

text \<open>\<^verbatim>\<open>g_slist_find_custom\<close> finds the first element for which the comparison returns
  zero; \<^verbatim>\<open>swap_search_from\<close> returns one for equal pointers.\<close>

definition swap_search_from :: "event_ptr \<Rightarrow> event_ptr \<Rightarrow> int" where
  "swap_search_from a b = (if a = b then 1 else 0)"

definition swap_found :: "event_ptr \<Rightarrow> swap_wrapper list \<Rightarrow> bool" where
  "swap_found p ws = list_ex (\<lambda>w. swap_search_from (sw_swap_from w) p = 0) ws"

definition events_init :: "'s events_state \<Rightarrow> status \<times> 's events_state" where
  "events_init s =
     (if vi_mode (es_vmi s) = VMI_KVM \<or> vi_mode (es_vmi s) = VMI_XEN then
        (VMI_SUCCESS, s\<lparr> es_interrupt_events := Mapping.empty, es_mem_events_on_gfn := Mapping.empty,
           es_mem_events_generic := Mapping.empty, es_reg_events := Mapping.empty,
           es_msr_events := Mapping.empty, es_ss_events := Mapping.empty,
           es_clear_events := Mapping.empty \<rparr>)
      else (VMI_FAILURE, s))"

definition call_free :: "free_routine option \<Rightarrow> event_ptr \<Rightarrow> status \<Rightarrow> 's events_state \<Rightarrow> 's events_state" where
  "call_free fr p rc s = (case fr of None \<Rightarrow> s
     | Some f \<Rightarrow> s\<lparr> es_free_calls := es_free_calls s @ [(f, p, rc)] \<rparr>)"

section \<open>Registering\<close>

definition register_interrupt_event :: "'s event_driver \<Rightarrow> event_ptr \<Rightarrow> 's events_state \<Rightarrow>
    status \<times> 's events_state" where
  "register_interrupt_event ed p s =
     (let e = es_heap s p in
      if Mapping.lookup (es_interrupt_events s) (ve_intr e) \<noteq> None then (VMI_FAILURE, s)
      else case driver_set_intr_access ed e True s of
        (VMI_SUCCESS, s) \<Rightarrow>
          (VMI_SUCCESS, s\<lparr> es_interrupt_events := Mapping.update (ve_intr e) p (es_interrupt_events s) \<rparr>)
      | (VMI_FAILURE, s) \<Rightarrow> (VMI_FAILURE, s))"

definition register_msr_event :: "'s event_driver \<Rightarrow> event_ptr \<Rightarrow> 's events_state \<Rightarrow>
    status \<times> 's events_state" where
  "register_msr_event ed p s =
     (let e = es_heap s p in
      if Mapping.lookup (es_msr_events s) (ve_msr e) \<noteq> None then (VMI_FAILURE, s)
      else case driver_set_reg_access ed e s of
        (VMI_SUCCESS, s) \<Rightarrow>
          (VMI_SUCCESS, s\<lparr> es_msr_events := Mapping.update (ve_msr e) p (es_msr_events s) \<rparr>)
      | (VMI_FAILURE, s) \<Rightarrow> (VMI_FAILURE, s))"

definition register_reg_event :: "'s event_driver \<Rightarrow> event_ptr \<Rightarrow> 's events_state \<Rightarrow>
    status \<times> 's events_state" where
  "register_reg_event ed p s =
     (let e = es_heap s p in
      if ve_reg e = MSR_ANY \<and> ve_msr e \<noteq> 0 then register_msr_event ed p s
      else if Mapping.lookup (es_reg_events s) (ve_reg e) \<noteq> None then (VMI_FAILURE, s)
      else case driver_set_reg_access ed e s of
        (VMI_SUCCESS, s) \<Rightarrow>
          (VMI_SUCCESS, s\<lparr> es_reg_events := Mapping.update (ve_reg e) p (es_reg_events s) \<rparr>)
      | (VMI_FAILURE, s) \<Rightarrow> (VMI_FAILURE, s))"

definition register_mem_event_generic :: "event_ptr \<Rightarrow> 's events_state \<Rightarrow> status \<times> 's events_state" where
  "register_mem_event_generic p s =
     (let e = es_heap s p in
      if ve_gfn e \<noteq> NOT 0 then (VMI_FAILURE, s)
      else if \<not> Mapping.is_empty (es_mem_events_on_gfn s) then (VMI_FAILURE, s)
      else if Mapping.lookup (es_mem_events_generic s) (ve_mem_in_access e) \<noteq> None then (VMI_FAILURE, s)
      else (VMI_SUCCESS,
            s\<lparr> es_mem_events_generic := Mapping.update (ve_mem_in_access e) p (es_mem_events_generic s) \<rparr>))"

text \<open>A frame beyond the known memory raises the instance's limit to the frame's address.\<close>

definition raise_max_physical :: "addr_t \<Rightarrow> 's events_state \<Rightarrow> 's events_state" where
  "raise_max_physical gfn s =
     (let vmi = es_vmi s in
      if gfn > drop_bit (vi_page_shift vmi) (vi_max_physical_address vmi)
      then s\<lparr> es_vmi := vmi\<lparr> vi_max_physical_address := push_bit (vi_page_shift vmi) gfn \<rparr> \<rparr>
      else s)"

definition register_mem_event_on_gfn :: "'s event_driver \<Rightarrow> event_ptr \<Rightarrow> 's events_state \<Rightarrow>
    status \<times> 's events_state" where
  "register_mem_event_on_gfn ed p s =
     (let e = es_heap s p in
      if ve_mem_in_access e = VMI_MEMACCESS_INVALID then (VMI_FAILURE, s)
      else if \<not> Mapping.is_empty (es_mem_events_generic s) then (VMI_FAILURE, s)
      else if Mapping.lookup (es_mem_events_on_gfn s) (ve_gfn e) \<noteq> None then (VMI_FAILURE, s)
      else case driver_set_mem_access ed (ve_gfn e) (ve_mem_in_access e) (ve_slat_id e) s of
        (VMI_SUCCESS, s) \<Rightarrow>
          (VMI_SUCCESS, raise_max_physical (ve_gfn e)
             (s\<lparr> es_mem_events_on_gfn := Mapping.update (ve_gfn e) p (es_mem_events_on_gfn s) \<rparr>))
      | (VMI_FAILURE, s) \<Rightarrow> (VMI_FAILURE, s))"

definition register_mem_event :: "'s event_driver \<Rightarrow> event_ptr \<Rightarrow> 's events_state \<Rightarrow>
    status \<times> 's events_state" where
  "register_mem_event ed p s =
     (if ve_generic (es_heap s p) then register_mem_event_generic p s
      else register_mem_event_on_gfn ed p s)"

text \<open>The virtual CPUs a single-step event is for, in the order of the loops.\<close>

definition ss_vcpus :: "vmi_event \<Rightarrow> 's events_state \<Rightarrow> vcpu_t list" where
  "ss_vcpus e s = filter (CHECK_VCPU_SINGLESTEP e) [0..<es_num_vcpus s]"

definition register_singlestep_event :: "'s event_driver \<Rightarrow> event_ptr \<Rightarrow> 's events_state \<Rightarrow>
    status \<times> 's events_state" where
  "register_singlestep_event ed p s =
     (let e = es_heap s p in
      if list_ex (\<lambda>v. Mapping.lookup (es_ss_events s) v \<noteq> None) (ss_vcpus e s) then (VMI_FAILURE, s)
      else case driver_start_single_step ed e s of
        (VMI_FAILURE, s) \<Rightarrow> (VMI_FAILURE, s)
      | (VMI_SUCCESS, s) \<Rightarrow>
          (VMI_SUCCESS, s\<lparr> es_ss_events := fold (\<lambda>v. Mapping.update v p) (ss_vcpus e s) (es_ss_events s) \<rparr>))"

text \<open>Events with a single handler.\<close>

definition register_slot :: "('s events_state \<Rightarrow> event_ptr option) \<Rightarrow>
    (event_ptr option \<Rightarrow> 's events_state \<Rightarrow> 's events_state) \<Rightarrow> ('s events_state \<Rightarrow> status \<times> 's events_state) \<Rightarrow>
    event_ptr \<Rightarrow> 's events_state \<Rightarrow> status \<times> 's events_state" where
  "register_slot slot put drv p s =
     (if slot s \<noteq> None then (VMI_FAILURE, s)
      else case drv s of
        (VMI_SUCCESS, s) \<Rightarrow> (VMI_SUCCESS, put (Some p) s)
      | (VMI_FAILURE, s) \<Rightarrow> (VMI_FAILURE, s))"

definition register_guest_requested_event :: "'s event_driver \<Rightarrow> event_ptr \<Rightarrow> 's events_state \<Rightarrow>
    status \<times> 's events_state" where
  "register_guest_requested_event ed = register_slot es_guest_requested_event
     (\<lambda>v s. s\<lparr> es_guest_requested_event := v \<rparr>) (driver_set_guest_requested_event ed True)"

definition register_cpuid_event :: "'s event_driver \<Rightarrow> event_ptr \<Rightarrow> 's events_state \<Rightarrow>
    status \<times> 's events_state" where
  "register_cpuid_event ed = register_slot es_cpuid_event
     (\<lambda>v s. s\<lparr> es_cpuid_event := v \<rparr>) (driver_set_cpuid_event ed True)"

definition register_vmexit_event :: "'s event_driver \<Rightarrow> event_ptr \<Rightarrow> 's events_state \<Rightarrow>
    status \<times> 's events_state" where
  "register_vmexit_event ed p s = register_slot es_vmexit_event
     (\<lambda>v s. s\<lparr> es_vmexit_event := v \<rparr>) (driver_set_vmexit_event ed True (ve_sync (es_heap s p))) p s"

definition register_debug_event :: "'s event_driver \<Rightarrow> event_ptr \<Rightarrow> 's events_state \<Rightarrow>
    status \<times> 's events_state" where
  "register_debug_event ed = register_slot es_debug_event
     (\<lambda>v s. s\<lparr> es_debug_event := v \<rparr>) (driver_set_debug_event ed True)"

definition register_privcall_event :: "'s event_driver \<Rightarrow> event_ptr \<Rightarrow> 's events_state \<Rightarrow>
    status \<times> 's events_state" where
  "register_privcall_event ed = register_slot es_privcall_event
     (\<lambda>v s. s\<lparr> es_privcall_event := v \<rparr>) (driver_set_privcall_event ed True)"

definition register_desc_access_event :: "'s event_driver \<Rightarrow> event_ptr \<Rightarrow> 's events_state \<Rightarrow>
    status \<times> 's events_state" where
  "register_desc_access_event ed = register_slot es_descriptor_access_event
     (\<lambda>v s. s\<lparr> es_descriptor_access_event := v \<rparr>) (driver_set_desc_access_event ed True)"

definition register_failed_emulation_event :: "'s event_driver \<Rightarrow> event_ptr \<Rightarrow> 's events_state \<Rightarrow>
    status \<times> 's events_state" where
  "register_failed_emulation_event ed = register_slot es_failed_emulation_event
     (\<lambda>v s. s\<lparr> es_failed_emulation_event := v \<rparr>) (driver_set_failed_emulation_event ed True)"

definition register_watch_domain_event :: "'s event_driver \<Rightarrow> event_ptr \<Rightarrow> 's events_state \<Rightarrow>
    status \<times> 's events_state" where
  "register_watch_domain_event ed = register_slot es_watch_domain_event
     (\<lambda>v s. s\<lparr> es_watch_domain_event := v \<rparr>) (driver_set_watch_domain_event ed True)"

definition vmi_register_event :: "'s event_driver \<Rightarrow> event_ptr \<Rightarrow> 's events_state \<Rightarrow>
    status \<times> 's events_state" where
  "vmi_register_event ed p s =
     (let e = es_heap s p; t = ve_type e in
      if es_init_flags s AND (VMI_INIT_EVENTS OR VMI_INIT_DOMAINWATCH) = 0 then (VMI_FAILURE, s)
      else if ve_version e \<noteq> VMI_EVENTS_VERSION then (VMI_FAILURE, s)
      else if ve_callback e = CB_null then (VMI_FAILURE, s)
      else if t = VMI_EVENT_REGISTER then register_reg_event ed p s
      else if t = VMI_EVENT_MEMORY then register_mem_event ed p s
      else if t = VMI_EVENT_SINGLESTEP then register_singlestep_event ed p s
      else if t = VMI_EVENT_INTERRUPT then register_interrupt_event ed p s
      else if t = VMI_EVENT_GUEST_REQUEST then register_guest_requested_event ed p s
      else if t = VMI_EVENT_CPUID then register_cpuid_event ed p s
      else if t = VMI_EVENT_DEBUG_EXCEPTION then register_debug_event ed p s
      else if t = VMI_EVENT_PRIVILEGED_CALL then register_privcall_event ed p s
      else if t = VMI_EVENT_DESCRIPTOR_ACCESS then register_desc_access_event ed p s
      else if t = VMI_EVENT_FAILED_EMULATION then register_failed_emulation_event ed p s
      else if t = VMI_EVENT_DOMAIN_WATCH then register_watch_domain_event ed p s
      else if t = VMI_EVENT_VMEXIT then register_vmexit_event ed p s
      else (VMI_FAILURE, s))"

section \<open>Clearing\<close>

definition clear_interrupt_event :: "'s event_driver \<Rightarrow> event_ptr \<Rightarrow> 's events_state \<Rightarrow>
    status \<times> 's events_state" where
  "clear_interrupt_event ed p s =
     (let e = es_heap s p in
      if Mapping.lookup (es_interrupt_events s) (ve_intr e) = None then (VMI_FAILURE, s)
      else let (rc, s) = driver_set_intr_access ed e False s in
        (rc, if \<not> es_shutting_down s \<and> rc = VMI_SUCCESS
             then s\<lparr> es_interrupt_events := Mapping.delete (ve_intr e) (es_interrupt_events s) \<rparr> else s))"

text \<open>The access is set to none in the caller's structure for the driver call and put back.\<close>

definition clear_reg_event :: "'s event_driver \<Rightarrow> event_ptr \<Rightarrow> 's events_state \<Rightarrow>
    status \<times> 's events_state" where
  "clear_reg_event ed p s =
     (let e = es_heap s p; e0 = e\<lparr> ve_reg_in_access := VMI_REGACCESS_N \<rparr> in
      if Mapping.lookup (es_reg_events s) (ve_reg e) \<noteq> None then
        let (rc, s) = driver_set_reg_access ed e0 s in
        (rc, if \<not> es_shutting_down s \<and> rc = VMI_SUCCESS
             then s\<lparr> es_reg_events := Mapping.delete (ve_reg e) (es_reg_events s) \<rparr> else s)
      else if ve_reg e = MSR_ANY \<and> ve_msr e \<noteq> 0 \<and> Mapping.lookup (es_msr_events s) (ve_msr e) \<noteq> None then
        let (rc, s) = driver_set_reg_access ed e0 s in
        (rc, if \<not> es_shutting_down s \<and> rc = VMI_SUCCESS
             then s\<lparr> es_msr_events := Mapping.delete (ve_msr e) (es_msr_events s) \<rparr> else s)
      else (VMI_FAILURE, s))"

definition clear_mem_event :: "'s event_driver \<Rightarrow> event_ptr \<Rightarrow> 's events_state \<Rightarrow>
    status \<times> 's events_state" where
  "clear_mem_event ed p s =
     (let e = es_heap s p in
      if ve_generic e then
        (VMI_SUCCESS, if es_shutting_down s then s
           else s\<lparr> es_mem_events_generic := Mapping.delete (ve_mem_in_access e) (es_mem_events_generic s) \<rparr>)
      else
        let (rc, s) = driver_set_mem_access ed (ve_gfn e) VMI_MEMACCESS_N (ve_slat_id e) s in
        (rc, if \<not> es_shutting_down s \<and> rc = VMI_SUCCESS
             then s\<lparr> es_mem_events_on_gfn := Mapping.delete (ve_gfn e) (es_mem_events_on_gfn s) \<rparr> else s))"

definition vmi_shutdown_single_step :: "'s event_driver \<Rightarrow> 's events_state \<Rightarrow>
    status \<times> 's events_state" where
  "vmi_shutdown_single_step ed s =
     (if es_init_flags s AND VMI_INIT_EVENTS = 0 then (VMI_FAILURE, s)
      else case driver_shutdown_single_step ed s of
        (VMI_SUCCESS, s) \<Rightarrow> (VMI_SUCCESS, s\<lparr> es_ss_events := Mapping.empty \<rparr>)
      | (VMI_FAILURE, s) \<Rightarrow> (VMI_FAILURE, s))"

fun clear_ss_loop :: "'s event_driver \<Rightarrow> vcpu_t list \<Rightarrow> status \<Rightarrow> 's events_state \<Rightarrow>
    status \<times> 's events_state" where
  "clear_ss_loop ed [] rc s = (rc, s)"
| "clear_ss_loop ed (v # vs) rc s =
     (let (rc, s) = driver_stop_single_step ed v s in
      clear_ss_loop ed vs rc
        (if \<not> es_shutting_down s \<and> rc = VMI_SUCCESS
         then s\<lparr> es_ss_events := Mapping.delete v (es_ss_events s) \<rparr> else s))"

definition clear_singlestep_event :: "'s event_driver \<Rightarrow> event_ptr \<Rightarrow> 's events_state \<Rightarrow>
    status \<times> 's events_state" where
  "clear_singlestep_event ed p s =
     (let (rc, s) = clear_ss_loop ed (ss_vcpus (es_heap s p) s) VMI_FAILURE s in
      (rc, if Mapping.is_empty (es_ss_events s) then snd (vmi_shutdown_single_step ed s) else s))"

definition clear_slot :: "('s events_state \<Rightarrow> event_ptr option) \<Rightarrow>
    (event_ptr option \<Rightarrow> 's events_state \<Rightarrow> 's events_state) \<Rightarrow> ('s events_state \<Rightarrow> status \<times> 's events_state) \<Rightarrow>
    's events_state \<Rightarrow> status \<times> 's events_state" where
  "clear_slot slot put drv s =
     (if slot s = None then (VMI_FAILURE, s)
      else case drv s of
        (VMI_SUCCESS, s) \<Rightarrow> (VMI_SUCCESS, put None s)
      | (VMI_FAILURE, s) \<Rightarrow> (VMI_FAILURE, s))"

definition clear_guest_requested_event :: "'s event_driver \<Rightarrow> 's events_state \<Rightarrow> status \<times> 's events_state" where
  "clear_guest_requested_event ed = clear_slot es_guest_requested_event
     (\<lambda>v s. s\<lparr> es_guest_requested_event := v \<rparr>) (driver_set_guest_requested_event ed False)"

definition clear_cpuid_event :: "'s event_driver \<Rightarrow> 's events_state \<Rightarrow> status \<times> 's events_state" where
  "clear_cpuid_event ed = clear_slot es_cpuid_event
     (\<lambda>v s. s\<lparr> es_cpuid_event := v \<rparr>) (driver_set_cpuid_event ed False)"

definition clear_debug_event :: "'s event_driver \<Rightarrow> 's events_state \<Rightarrow> status \<times> 's events_state" where
  "clear_debug_event ed = clear_slot es_debug_event
     (\<lambda>v s. s\<lparr> es_debug_event := v \<rparr>) (driver_set_debug_event ed False)"

text \<open>While a callback runs the request is queued.  The table of queued requests maps an event to
  its free routine, so the lookup cannot tell an event that was queued without one from an
  event that was not queued.\<close>

definition vmi_clear_event :: "'s event_driver \<Rightarrow> event_ptr \<Rightarrow> free_routine option \<Rightarrow> 's events_state \<Rightarrow>
    status \<times> 's events_state" where
  "vmi_clear_event ed p fr s =
     (let t = ve_type (es_heap s p) in
      if es_init_flags s AND VMI_INIT_EVENTS = 0 then (VMI_FAILURE, s)
      else if es_event_callback s then
        (if swap_found p (es_swap_events s) then (VMI_FAILURE, s)
         else case Mapping.lookup (es_clear_events s) p of
                Some (Some f) \<Rightarrow> (VMI_FAILURE, s)
              | _ \<Rightarrow> (VMI_SUCCESS, s\<lparr> es_clear_events := Mapping.update p fr (es_clear_events s) \<rparr>))
      else
        let (rc, s) =
          (if t = VMI_EVENT_SINGLESTEP then clear_singlestep_event ed p s
           else if t = VMI_EVENT_REGISTER then clear_reg_event ed p s
           else if t = VMI_EVENT_INTERRUPT then clear_interrupt_event ed p s
           else if t = VMI_EVENT_MEMORY then clear_mem_event ed p s
           else if t = VMI_EVENT_GUEST_REQUEST then clear_guest_requested_event ed s
           else if t = VMI_EVENT_CPUID then clear_cpuid_event ed s
           else if t = VMI_EVENT_DEBUG_EXCEPTION then clear_debug_event ed s
           else (VMI_FAILURE, s))
        in (rc, call_free fr p rc s))"

section \<open>Memory events of single pages, swapping\<close>

definition vmi_get_reg_event :: "'s events_state \<Rightarrow> reg_t \<Rightarrow> event_ptr option" where
  "vmi_get_reg_event s reg = Mapping.lookup (es_reg_events s) reg"

definition vmi_get_mem_event :: "'s events_state \<Rightarrow> addr_t \<Rightarrow> vmi_mem_access_t \<Rightarrow> event_ptr option" where
  "vmi_get_mem_event s gfn access =
     (case Mapping.lookup (es_mem_events_generic s) access of
        Some p \<Rightarrow> Some p
      | None \<Rightarrow> Mapping.lookup (es_mem_events_on_gfn s) gfn)"

definition vmi_set_mem_event :: "'s event_driver \<Rightarrow> addr_t \<Rightarrow> vmi_mem_access_t \<Rightarrow> u16 \<Rightarrow> 's events_state \<Rightarrow>
    status \<times> 's events_state" where
  "vmi_set_mem_event ed gfn access slat_id s =
     (if access \<noteq> VMI_MEMACCESS_N \<and>
         \<not> (\<exists>k \<in> Mapping.keys (es_mem_events_generic s). k AND access \<noteq> 0) then (VMI_FAILURE, s)
      else case driver_set_mem_access ed gfn access slat_id s of
        (VMI_SUCCESS, s) \<Rightarrow> (VMI_SUCCESS, raise_max_physical gfn s)
      | (VMI_FAILURE, s) \<Rightarrow> (VMI_FAILURE, s))"

definition swap_events :: "'s event_driver \<Rightarrow> event_ptr \<Rightarrow> event_ptr \<Rightarrow> free_routine option \<Rightarrow>
    's events_state \<Rightarrow> status \<times> 's events_state" where
  "swap_events ed swap_from swap_to fr s =
     (let f = es_heap s swap_from; t = es_heap s swap_to;
          (rc, s) = (if ve_slat_id f \<noteq> ve_slat_id t
                     then driver_set_mem_access ed (ve_gfn f) VMI_MEMACCESS_N (ve_slat_id f) s
                     else (VMI_SUCCESS, s)) in
      if rc = VMI_FAILURE then (rc, s)
      else let (rc, s) = driver_set_mem_access ed (ve_gfn t) (ve_mem_in_access t) (ve_slat_id t) s in
      if rc = VMI_FAILURE then (rc, s)
      else (VMI_SUCCESS, call_free fr swap_from rc
              (s\<lparr> es_mem_events_on_gfn := Mapping.update (ve_gfn t) swap_to (es_mem_events_on_gfn s) \<rparr>)))"

definition vmi_swap_events :: "'s event_driver \<Rightarrow> event_ptr \<Rightarrow> event_ptr \<Rightarrow> free_routine option \<Rightarrow>
    's events_state \<Rightarrow> status \<times> 's events_state" where
  "vmi_swap_events ed swap_from swap_to fr s =
     (let f = es_heap s swap_from; t = es_heap s swap_to in
      if ve_type f = ve_type t \<and> ve_type f = VMI_EVENT_MEMORY then
        if Mapping.lookup (es_mem_events_on_gfn s) (ve_gfn f) = None then (VMI_FAILURE, s)
        else if es_event_callback s then
          if \<not> swap_found swap_from (es_swap_events s) then
            (VMI_SUCCESS, s\<lparr> es_swap_events := es_swap_events s @
               [\<lparr> sw_swap_from = swap_from, sw_swap_to = swap_to, sw_free_routine = fr \<rparr>] \<rparr>)
          else (VMI_FAILURE, s)
        else swap_events ed swap_from swap_to fr s
      else (VMI_FAILURE, s))"

section \<open>Stepping\<close>

definition vmi_get_singlestep_event :: "'s events_state \<Rightarrow> vcpu_t \<Rightarrow> event_ptr option" where
  "vmi_get_singlestep_event s vcpu = Mapping.lookup (es_ss_events s) vcpu"

definition SETUP_SINGLESTEP_EVENT :: "u32 \<Rightarrow> event_callback \<Rightarrow> bool \<Rightarrow> vmi_event \<Rightarrow> vmi_event" where
  "SETUP_SINGLESTEP_EVENT vcpu_mask cb enable e =
     e\<lparr> ve_version := VMI_EVENTS_VERSION, ve_type := VMI_EVENT_SINGLESTEP, ve_vcpus := vcpu_mask,
        ve_enable := enable, ve_callback := cb \<rparr>"

text \<open>A new event takes the next free structure with whatever that memory holds.\<close>

definition vmi_step_event :: "'s event_driver \<Rightarrow> event_ptr \<Rightarrow> vcpu_t \<Rightarrow> u64 \<Rightarrow> nat option \<Rightarrow>
    's events_state \<Rightarrow> status \<times> 's events_state" where
  "vmi_step_event ed p vcpu_id steps cb s =
     (if vcpu_id > es_num_vcpus s then (VMI_FAILURE, s)
      else
        let ss = vmi_get_singlestep_event s vcpu_id in
        if ss \<noteq> None \<and> es_step_vcpus s vcpu_id = 0 then (VMI_FAILURE, s)
        else if steps = 0 then (VMI_FAILURE, s)
        else
          let (rc, s) =
            (if ss \<noteq> None then (VMI_SUCCESS, s)
             else
               let q = es_next s;
                   e = SET_VCPU_SINGLESTEP (SETUP_SINGLESTEP_EVENT 0 CB_step_and_reg_events True (es_heap s q))
                         vcpu_id
               in case register_singlestep_event ed q (s\<lparr> es_heap := (es_heap s)(q := e) \<rparr>) of
                    (VMI_SUCCESS, s) \<Rightarrow> (VMI_SUCCESS, s\<lparr> es_next := Suc q \<rparr>)
                  | (VMI_FAILURE, s) \<Rightarrow> (VMI_FAILURE, s)) in
          if rc = VMI_FAILURE then (VMI_FAILURE, s)
          else (VMI_SUCCESS,
            s\<lparr> es_step_events := \<lparr> sr_event = p, sr_vcpu_id = vcpu_id, sr_steps = steps, sr_cb = cb \<rparr>
                                   # es_step_events s,
               es_step_vcpus := (es_step_vcpus s)(vcpu_id := es_step_vcpus s vcpu_id + 1) \<rparr>))"

text \<open>One round per queued request; \<open>ucb\<close> stands for the callers' callbacks.  The result is the
  failing status of a registration, if any, and the requests that remain.\<close>

fun step_loop :: "(nat \<Rightarrow> event_ptr \<Rightarrow> 's events_state \<Rightarrow> 's events_state) \<Rightarrow> 's event_driver \<Rightarrow>
    step_and_reg_event_wrapper list \<Rightarrow> event_ptr option \<Rightarrow> step_and_reg_event_wrapper list \<Rightarrow>
    's events_state \<Rightarrow> status \<times> step_and_reg_event_wrapper list \<times> 's events_state" where
  "step_loop ucb ed [] ss remain s = (VMI_SUCCESS, remain, s)"
| "step_loop ucb ed (w # ws) ss remain s =
     (let w = (case ss of
                 Some q \<Rightarrow> if sr_vcpu_id w = ve_vcpu_id (es_heap s q) then w\<lparr> sr_steps := sr_steps w - 1 \<rparr> else w
               | None \<Rightarrow> w) in
      if sr_steps w = 0 then
        let (rc, s) = (case sr_cb w of
                         Some f \<Rightarrow> (VMI_SUCCESS, ucb f (sr_event w) s)
                       | None \<Rightarrow> vmi_register_event ed (sr_event w) s) in
        if rc = VMI_FAILURE then (VMI_FAILURE, [], s)
        else
          let v = sr_vcpu_id w;
              s = s\<lparr> es_step_vcpus := (es_step_vcpus s)(v := es_step_vcpus s v - 1) \<rparr>;
              (ss, s) = (if es_step_vcpus s v = 0
                         then (None, case ss of None \<Rightarrow> s
                                     | Some q \<Rightarrow> snd (vmi_clear_event ed q (Some Step_event_free) s))
                         else (ss, s))
          in step_loop ucb ed ws ss remain s
      else step_loop ucb ed ws ss (w # remain) s)"

definition step_and_reg_events :: "(nat \<Rightarrow> event_ptr \<Rightarrow> 's events_state \<Rightarrow> 's events_state) \<Rightarrow>
    's event_driver \<Rightarrow> event_ptr option \<Rightarrow> 's events_state \<Rightarrow> status \<times> 's events_state" where
  "step_and_reg_events ucb ed ss s =
     (case step_loop ucb ed (rev (es_step_events s)) ss [] (s\<lparr> es_step_events := [] \<rparr>) of
        (VMI_FAILURE, _, s) \<Rightarrow> (VMI_FAILURE, s)
      | (VMI_SUCCESS, remain, s) \<Rightarrow> (VMI_SUCCESS, s\<lparr> es_step_events := remain @ es_step_events s \<rparr>))"

definition vmi_stop_single_step_vcpu :: "'s event_driver \<Rightarrow> event_ptr \<Rightarrow> vcpu_t \<Rightarrow> 's events_state \<Rightarrow>
    status \<times> 's events_state" where
  "vmi_stop_single_step_vcpu ed p vcpu s =
     (if es_init_flags s AND VMI_INIT_EVENTS = 0 then (VMI_FAILURE, s)
      else driver_stop_single_step ed vcpu
        (s\<lparr> es_heap := (es_heap s)(p := UNSET_VCPU_SINGLESTEP (es_heap s p) vcpu),
            es_ss_events := Mapping.delete vcpu (es_ss_events s) \<rparr>))"

text \<open>\<^verbatim>\<open>g_hash_table_insert\<close> and \<^verbatim>\<open>g_hash_table_remove\<close> report whether the key was
  absent and whether it was present.\<close>

definition vmi_toggle_single_step_vcpu :: "'s event_driver \<Rightarrow> event_ptr \<Rightarrow> vcpu_t \<Rightarrow> bool \<Rightarrow>
    's events_state \<Rightarrow> status \<times> 's events_state" where
  "vmi_toggle_single_step_vcpu ed p vcpu enabled s =
     (if es_init_flags s AND VMI_INIT_EVENTS = 0 then (VMI_FAILURE, s)
      else if es_event_callback s then (VMI_FAILURE, s)
      else
        let present = Mapping.lookup (es_ss_events s) vcpu \<noteq> None in
        if enabled then
          let s = s\<lparr> es_heap := (es_heap s)(p := SET_VCPU_SINGLESTEP (es_heap s p) vcpu),
                     es_ss_events := Mapping.update vcpu p (es_ss_events s) \<rparr> in
          if present then (VMI_FAILURE, s) else driver_start_single_step ed (es_heap s p) s
        else
          let s = s\<lparr> es_heap := (es_heap s)(p := UNSET_VCPU_SINGLESTEP (es_heap s p) vcpu),
                     es_ss_events := Mapping.delete vcpu (es_ss_events s) \<rparr> in
          if \<not> present then (VMI_FAILURE, s) else driver_stop_single_step ed vcpu s)"

section \<open>Frames\<close>

lemma driver_ctl_frame:
  "driver_ctl ed f s = (st, s') \<Longrightarrow> s' = s\<lparr> es_vmi := (es_vmi s)\<lparr> vi_driver := vi_driver (es_vmi s') \<rparr> \<rparr>"
  by (auto simp: driver_ctl_def split: option.splits if_splits prod.splits)

lemmas driver_defs = driver_set_intr_access_def driver_set_reg_access_def driver_set_mem_access_def
  driver_start_single_step_def driver_stop_single_step_def driver_shutdown_single_step_def
  driver_set_guest_requested_event_def driver_set_cpuid_event_def driver_set_vmexit_event_def
  driver_set_debug_event_def driver_set_privcall_event_def driver_set_desc_access_event_def
  driver_set_failed_emulation_event_def driver_set_watch_domain_event_def

text \<open>Registering and clearing leave the step requests alone.\<close>

definition same_steps :: "'s events_state \<Rightarrow> 's events_state \<Rightarrow> bool" where
  "same_steps s s' \<longleftrightarrow> es_step_events s' = es_step_events s \<and> es_step_vcpus s' = es_step_vcpus s"

lemma same_steps_refl [simp]: "same_steps s s"
  by (simp add: same_steps_def)

lemma same_steps_trans: "same_steps s t \<Longrightarrow> same_steps t u \<Longrightarrow> same_steps s u"
  by (simp add: same_steps_def)

lemma driver_ctl_steps [simp]: "same_steps s (snd (driver_ctl ed f s))"
  by (auto simp: driver_ctl_def same_steps_def case_prod_beta Let_def split: option.splits)

lemma same_steps_update [simp]:
  "same_steps s (t\<lparr> es_vmi := v0 \<rparr>) = same_steps s t"
  "same_steps s (t\<lparr> es_heap := v1 \<rparr>) = same_steps s t"
  "same_steps s (t\<lparr> es_next := v2 \<rparr>) = same_steps s t"
  "same_steps s (t\<lparr> es_interrupt_events := v3 \<rparr>) = same_steps s t"
  "same_steps s (t\<lparr> es_mem_events_on_gfn := v4 \<rparr>) = same_steps s t"
  "same_steps s (t\<lparr> es_mem_events_generic := v5 \<rparr>) = same_steps s t"
  "same_steps s (t\<lparr> es_reg_events := v6 \<rparr>) = same_steps s t"
  "same_steps s (t\<lparr> es_msr_events := v7 \<rparr>) = same_steps s t"
  "same_steps s (t\<lparr> es_ss_events := v8 \<rparr>) = same_steps s t"
  "same_steps s (t\<lparr> es_clear_events := v9 \<rparr>) = same_steps s t"
  "same_steps s (t\<lparr> es_swap_events := v10 \<rparr>) = same_steps s t"
  "same_steps s (t\<lparr> es_guest_requested_event := v11 \<rparr>) = same_steps s t"
  "same_steps s (t\<lparr> es_cpuid_event := v12 \<rparr>) = same_steps s t"
  "same_steps s (t\<lparr> es_vmexit_event := v13 \<rparr>) = same_steps s t"
  "same_steps s (t\<lparr> es_debug_event := v14 \<rparr>) = same_steps s t"
  "same_steps s (t\<lparr> es_privcall_event := v15 \<rparr>) = same_steps s t"
  "same_steps s (t\<lparr> es_descriptor_access_event := v16 \<rparr>) = same_steps s t"
  "same_steps s (t\<lparr> es_failed_emulation_event := v17 \<rparr>) = same_steps s t"
  "same_steps s (t\<lparr> es_watch_domain_event := v18 \<rparr>) = same_steps s t"
  "same_steps s (t\<lparr> es_free_calls := v19 \<rparr>) = same_steps s t"
  by (simp_all add: same_steps_def)

text \<open>The driver wrappers only change the driver's state.\<close>

lemma driver_steps [simp]:
  "same_steps s (snd (driver_set_intr_access ed e en s))" "same_steps s (snd (driver_set_reg_access ed e s))"
  "same_steps s (snd (driver_set_mem_access ed g a i s))" "same_steps s (snd (driver_start_single_step ed e s))"
  "same_steps s (snd (driver_stop_single_step ed v s))" "same_steps s (snd (driver_shutdown_single_step ed s))"
  "same_steps s (snd (driver_set_guest_requested_event ed en s))" "same_steps s (snd (driver_set_cpuid_event ed en s))"
  "same_steps s (snd (driver_set_vmexit_event ed en sy s))" "same_steps s (snd (driver_set_debug_event ed en s))"
  "same_steps s (snd (driver_set_privcall_event ed en s))" "same_steps s (snd (driver_set_desc_access_event ed en s))"
  "same_steps s (snd (driver_set_failed_emulation_event ed en s))"
  "same_steps s (snd (driver_set_watch_domain_event ed en s))"
  by (simp_all add: driver_defs)

lemma register_slot_steps:
  assumes "\<And>v t. same_steps s (put v t) = same_steps s t" and "same_steps s (snd (drv s))"
  shows "same_steps s (snd (register_slot slot put drv p s))"
  using assms by (auto simp: register_slot_def case_prod_beta split: status.splits)

lemma clear_slot_steps:
  assumes "\<And>v t. same_steps s (put v t) = same_steps s t" and "same_steps s (snd (drv s))"
  shows "same_steps s (snd (clear_slot slot put drv s))"
  using assms by (auto simp: clear_slot_def case_prod_beta split: status.splits)

lemma register_each [simp]:
  "same_steps s (snd (register_interrupt_event ed p s))" "same_steps s (snd (register_msr_event ed p s))"
  "same_steps s (snd (register_mem_event_generic p s))" "same_steps s (snd (register_singlestep_event ed p s))"
  "same_steps s (raise_max_physical g t) = same_steps s t"
  by (simp_all add: register_interrupt_event_def register_msr_event_def register_mem_event_generic_def
      register_singlestep_event_def raise_max_physical_def Let_def case_prod_beta split: status.split)

lemma register_each_2 [simp]:
  "same_steps s (snd (register_reg_event ed p s))" "same_steps s (snd (register_mem_event_on_gfn ed p s))"
  "same_steps s (snd (register_mem_event ed p s))"
  by (simp_all add: register_reg_event_def register_mem_event_on_gfn_def register_mem_event_def
      Let_def case_prod_beta split: status.split)

lemma register_steps: "same_steps s (snd (vmi_register_event ed p s))"
proof -
  note slots = register_guest_requested_event_def register_cpuid_event_def register_vmexit_event_def
    register_debug_event_def register_privcall_event_def register_desc_access_event_def
    register_failed_emulation_event_def register_watch_domain_event_def
  show ?thesis
    by (simp add: vmi_register_event_def Let_def slots register_slot_steps)
qed

lemma clear_ss_loop_steps: "same_steps s (snd (clear_ss_loop ed vs rc s))"
proof (induction vs arbitrary: rc s)
  case (Cons v vs)
  have "same_steps s t \<Longrightarrow> same_steps s (snd (clear_ss_loop ed vs rc t))" for rc t
    using same_steps_trans Cons.IH by blast
  then show ?case by (simp add: case_prod_beta)
qed simp

lemma shutdown_steps [simp]: "same_steps s (snd (vmi_shutdown_single_step ed s))"
  by (simp add: vmi_shutdown_single_step_def case_prod_beta split: status.split)

lemma clear_singlestep_steps [simp]: "same_steps s (snd (clear_singlestep_event ed p s))"
  using clear_ss_loop_steps [of s ed "ss_vcpus (es_heap s p) s" VMI_FAILURE]
  by (auto simp: clear_singlestep_event_def Let_def case_prod_beta
      intro: same_steps_trans [OF _ shutdown_steps])

lemma clear_each [simp]:
  "same_steps s (snd (clear_reg_event ed p s))" "same_steps s (snd (clear_interrupt_event ed p s))"
  "same_steps s (snd (clear_mem_event ed p s))" "same_steps s (call_free fr p rc t) = same_steps s t"
  by (simp_all add: clear_reg_event_def clear_interrupt_event_def clear_mem_event_def call_free_def
      Let_def case_prod_beta split: option.split)

lemma clear_steps: "same_steps s (snd (vmi_clear_event ed p fr s))"
proof -
  note slots = clear_guest_requested_event_def clear_cpuid_event_def clear_debug_event_def
  show ?thesis
    by (simp add: vmi_clear_event_def Let_def slots clear_slot_steps case_prod_beta split: option.split)
qed

section \<open>Counters of step requests\<close>

definition requests :: "step_and_reg_event_wrapper list \<Rightarrow> vcpu_t \<Rightarrow> int" where
  "requests ws v = int (length (filter (\<lambda>w. sr_vcpu_id w = v) ws))"

definition balance :: "'s events_state \<Rightarrow> vcpu_t \<Rightarrow> int" where
  "balance s v = uint (es_step_vcpus s v) - requests (es_step_events s) v"

definition step_counts :: "'s events_state \<Rightarrow> bool" where
  "step_counts s \<longleftrightarrow> (\<forall>v. uint (es_step_vcpus s v) = requests (es_step_events s) v)"

lemma step_counts_balance: "step_counts s \<longleftrightarrow> (\<forall>v. balance s v = 0)"
  by (simp add: step_counts_def balance_def)

lemma requests_simps [simp]:
  "requests [] v = 0" "requests (w # ws) v = (if sr_vcpu_id w = v then 1 else 0) + requests ws v"
  "requests (xs @ ys) v = requests xs v + requests ys v" "requests (rev xs) v = requests xs v"
  by (simp_all add: requests_def rev_filter [symmetric])

lemma requests_nonneg: "0 \<le> requests ws v"
  by (simp add: requests_def)

lemma same_steps_balance: "same_steps s s' \<Longrightarrow> balance s' v = balance s v"
  by (simp add: same_steps_def balance_def)

lemma uint_dec: "0 < uint w \<Longrightarrow> uint (w - 1) = uint (w :: u32) - 1"
  using uint_sub_lem [of 1 w] by simp

lemma balance_dec:
  assumes "0 < uint (es_step_vcpus s v)"
  shows "balance (s\<lparr> es_step_vcpus := (es_step_vcpus s)(v := es_step_vcpus s v - 1) \<rparr>) u =
    balance s u - (if u = v then 1 else 0)"
  using uint_dec [OF assms] by (simp add: balance_def)

lemma step_loop_balance:
  assumes ucb: "\<And>f p t v. balance (ucb f p t) v = balance t v"
    and "step_loop ucb ed ws ss remain s = (VMI_SUCCESS, remain', s')"
    and "\<And>v. balance s v = requests ws v + requests remain v"
  shows "balance s' v = requests remain' v"
  using assms(2,3)
proof (induction ws arbitrary: ss remain s)
  case (Cons w ws)
  define x where "x = (case ss of
      Some q \<Rightarrow> if sr_vcpu_id w = ve_vcpu_id (es_heap s q) then w\<lparr> sr_steps := sr_steps w - 1 \<rparr> else w
    | None \<Rightarrow> w)"
  have vx: "sr_vcpu_id x = sr_vcpu_id w" by (simp add: x_def split: option.split)
  show ?case
  proof (cases "sr_steps x = 0")
    case False
    then have "step_loop ucb ed ws ss (x # remain) s = (VMI_SUCCESS, remain', s')"
      using Cons.prems(1) by (simp add: x_def [symmetric] Let_def)
    then show ?thesis by (rule Cons.IH) (simp add: Cons.prems(2) vx)
  next
    case True
    define r where "r = (case sr_cb x of Some f \<Rightarrow> (VMI_SUCCESS, ucb f (sr_event x) s)
                                       | None \<Rightarrow> vmi_register_event ed (sr_event x) s)"
    define t where "t = (snd r)\<lparr> es_step_vcpus := (es_step_vcpus (snd r))(sr_vcpu_id x :=
                           es_step_vcpus (snd r) (sr_vcpu_id x) - 1) \<rparr>"
    define u where "u = (if es_step_vcpus t (sr_vcpu_id x) = 0
       then (None, case ss of None \<Rightarrow> t | Some q \<Rightarrow> snd (vmi_clear_event ed q (Some Step_event_free) t))
       else (ss, t))"
    have rb: "balance (snd r) v = balance s v" for v
      using ucb same_steps_balance [OF register_steps] by (auto simp: r_def split: option.split)
    have "fst r \<noteq> VMI_FAILURE"
      using Cons.prems(1) True by (auto simp: x_def [symmetric] r_def [symmetric] Let_def case_prod_beta)
    then have l: "step_loop ucb ed ws (fst u) remain (snd u) = (VMI_SUCCESS, remain', s')"
      using Cons.prems(1) True
      unfolding u_def t_def by (simp add: x_def [symmetric] r_def [symmetric] Let_def case_prod_beta)
    have "0 < uint (es_step_vcpus (snd r) (sr_vcpu_id x))"
      using Cons.prems(2) [of "sr_vcpu_id x"] rb [of "sr_vcpu_id x"] requests_nonneg
      by (simp add: balance_def vx) (smt (verit))
    from balance_dec [OF this] have tb: "balance t v = requests ws v + requests remain v" for v
      unfolding t_def by (simp add: rb Cons.prems(2) vx)
    have "balance (snd u) v = balance t v" for v
      using same_steps_balance [OF clear_steps] by (auto simp: u_def split: option.split)
    with l tb show ?thesis by (intro Cons.IH [OF l]) simp
  qed
qed simp

lemma step_and_reg_counts:
  assumes "\<And>f p t v. balance (ucb f p t) v = balance t v" and "step_counts s"
    and "step_and_reg_events ucb ed ss s = (VMI_SUCCESS, s')"
  shows "step_counts s'"
proof -
  let ?s = "s\<lparr> es_step_events := [] \<rparr>"
  obtain remain t where l: "step_loop ucb ed (rev (es_step_events s)) ss [] ?s = (VMI_SUCCESS, remain, t)"
    and s': "s' = t\<lparr> es_step_events := remain @ es_step_events t \<rparr>"
    using assms(3) by (auto simp: step_and_reg_events_def split: prod.splits status.splits)
  have "balance t v = requests remain v" for v
    by (rule step_loop_balance [OF assms(1) l]) (use assms(2) in \<open>simp add: balance_def step_counts_def\<close>)
  then show ?thesis by (simp add: s' step_counts_balance balance_def) (smt (verit))
qed

lemma vmi_step_event_counts:
  assumes "step_counts s" and "length (es_step_events s) < 2 ^ 32 - 1"
  shows "step_counts (snd (vmi_step_event ed p vcpu steps cb s))"
proof -
  have le: "requests ws v \<le> int (length ws)" for ws v by (simp add: requests_def)
  have inc: "uint (es_step_vcpus s vcpu + 1) = uint (es_step_vcpus s vcpu) + 1"
    using assms le [of "es_step_events s" vcpu]
    by (intro uint_add_lem [THEN iffD1, of "es_step_vcpus s vcpu" 1, simplified])
      (auto simp: step_counts_def)
  let ?q = "es_next s"
  let ?e = "SET_VCPU_SINGLESTEP (SETUP_SINGLESTEP_EVENT 0 CB_step_and_reg_events True (es_heap s ?q)) vcpu"
  obtain st t where r: "register_singlestep_event ed ?q (s\<lparr> es_heap := (es_heap s)(?q := ?e) \<rparr>) = (st, t)"
    by (metis prod.exhaust)
  have "same_steps (s\<lparr> es_heap := (es_heap s)(?q := ?e) \<rparr>) t"
    using register_each(4) [of "s\<lparr> es_heap := (es_heap s)(?q := ?e) \<rparr>" ed ?q] r by simp
  then have f: "es_step_events t = es_step_events s" "es_step_vcpus t = es_step_vcpus s"
    by (simp_all add: same_steps_def)
  show ?thesis
    using assms(1) inc unfolding step_counts_def
    by (auto simp: vmi_step_event_def Let_def r f case_prod_beta split: status.splits)
qed

section \<open>Properties\<close>

text \<open>A driver that accepts every request.\<close>

definition accepting :: "'s event_driver \<Rightarrow> bool" where
  "accepting ed \<longleftrightarrow> ed_initialized ed \<and>
     (\<exists>f. ed_set_intr_access ed = Some f \<and> (\<forall>e en d. fst (f e en d) = VMI_SUCCESS)) \<and>
     (\<exists>f. ed_set_reg_access ed = Some f \<and> (\<forall>e d. fst (f e d) = VMI_SUCCESS)) \<and>
     (\<exists>f. ed_set_mem_access ed = Some f \<and> (\<forall>g a i d. fst (f g a i d) = VMI_SUCCESS)) \<and>
     (\<exists>f. ed_start_single_step ed = Some f \<and> (\<forall>e d. fst (f e d) = VMI_SUCCESS)) \<and>
     (\<exists>f. ed_stop_single_step ed = Some f \<and> (\<forall>v d. fst (f v d) = VMI_SUCCESS)) \<and>
     (\<exists>f. ed_shutdown_single_step ed = Some f \<and> (\<forall>d. fst (f d) = VMI_SUCCESS))"

text \<open>Only the driver's state differs.\<close>

definition upto_driver :: "'s events_state \<Rightarrow> 's \<Rightarrow> 's events_state" where
  "upto_driver s d = s\<lparr> es_vmi := (es_vmi s)\<lparr> vi_driver := d \<rparr> \<rparr>"

lemma accepting_driver:
  assumes "accepting ed"
  shows "\<exists>d. driver_set_intr_access ed e en s = (VMI_SUCCESS, upto_driver s d)"
    and "\<exists>d. driver_set_reg_access ed e s = (VMI_SUCCESS, upto_driver s d)"
    and "\<exists>d. driver_set_mem_access ed g a i s = (VMI_SUCCESS, upto_driver s d)"
    and "\<exists>d. driver_start_single_step ed e s = (VMI_SUCCESS, upto_driver s d)"
    and "\<exists>d. driver_stop_single_step ed v s = (VMI_SUCCESS, upto_driver s d)"
    and "\<exists>d. driver_shutdown_single_step ed s = (VMI_SUCCESS, upto_driver s d)"
  using assms unfolding accepting_def
  by (auto simp: driver_defs driver_ctl_def upto_driver_def case_prod_beta Let_def)

lemma mapping_delete_update: "Mapping.lookup m k = None \<Longrightarrow> Mapping.delete k (Mapping.update k v m) = m"
  by (transfer) auto

lemma upto_driver_simps [simp]:
  "es_heap (upto_driver s d) = es_heap s" "es_init_flags (upto_driver s d) = es_init_flags s"
  "es_event_callback (upto_driver s d) = es_event_callback s" "es_next (upto_driver s d) = es_next s"
  "es_shutting_down (upto_driver s d) = es_shutting_down s" "es_num_vcpus (upto_driver s d) = es_num_vcpus s"
  "es_interrupt_events (upto_driver s d) = es_interrupt_events s" "es_ss_events (upto_driver s d) = es_ss_events s"
  "es_mem_events_on_gfn (upto_driver s d) = es_mem_events_on_gfn s"
  "es_mem_events_generic (upto_driver s d) = es_mem_events_generic s"
  "es_reg_events (upto_driver s d) = es_reg_events s" "es_msr_events (upto_driver s d) = es_msr_events s"
  "es_step_events (upto_driver s d) = es_step_events s" "es_step_vcpus (upto_driver s d) = es_step_vcpus s"
  "es_clear_events (upto_driver s d) = es_clear_events s" "es_swap_events (upto_driver s d) = es_swap_events s"
  by (simp_all add: upto_driver_def)

lemma raise_max_simps [simp]:
  "es_heap (raise_max_physical g s) = es_heap s" "es_init_flags (raise_max_physical g s) = es_init_flags s"
  "es_event_callback (raise_max_physical g s) = es_event_callback s"
  "es_shutting_down (raise_max_physical g s) = es_shutting_down s"
  "es_interrupt_events (raise_max_physical g s) = es_interrupt_events s"
  "es_mem_events_on_gfn (raise_max_physical g s) = es_mem_events_on_gfn s"
  "es_mem_events_generic (raise_max_physical g s) = es_mem_events_generic s"
  "es_reg_events (raise_max_physical g s) = es_reg_events s" "es_msr_events (raise_max_physical g s) = es_msr_events s"
  "es_ss_events (raise_max_physical g s) = es_ss_events s" "es_clear_events (raise_max_physical g s) = es_clear_events s"
  by (simp_all add: raise_max_physical_def Let_def)

text \<open>The table that holds an event of one of the kinds with a key.\<close>

definition registered :: "'s events_state \<Rightarrow> event_ptr \<Rightarrow> bool" where
  "registered s p = (let e = es_heap s p in
     if ve_type e = VMI_EVENT_INTERRUPT then Mapping.lookup (es_interrupt_events s) (ve_intr e) = Some p
     else if ve_type e = VMI_EVENT_REGISTER then
       (if ve_reg e = MSR_ANY \<and> ve_msr e \<noteq> 0 then Mapping.lookup (es_msr_events s) (ve_msr e) = Some p
        else Mapping.lookup (es_reg_events s) (ve_reg e) = Some p)
     else if ve_generic e then Mapping.lookup (es_mem_events_generic s) (ve_mem_in_access e) = Some p
     else Mapping.lookup (es_mem_events_on_gfn s) (ve_gfn e) = Some p)"

definition event_tables where
  "event_tables s = (es_interrupt_events s, es_reg_events s, es_msr_events s, es_mem_events_generic s,
     es_mem_events_on_gfn s)"

lemma clear_registered_interrupt:
  assumes "accepting ed" and "\<not> es_event_callback s" "\<not> es_shutting_down s"
    "es_init_flags s AND VMI_INIT_EVENTS \<noteq> 0" and "ve_type (es_heap s p) = VMI_EVENT_INTERRUPT"
    and "vmi_register_event ed p s = (VMI_SUCCESS, s1)"
  shows "registered s1 p \<and> (\<exists>s2. vmi_clear_event ed p None s1 = (VMI_SUCCESS, s2) \<and>
     event_tables s2 = event_tables s)"
proof -
  let ?e = "es_heap s p"
  obtain d where d: "driver_set_intr_access ed ?e True s = (VMI_SUCCESS, upto_driver s d)"
    using accepting_driver(1) [OF assms(1)] by blast
  from assms(5,6) have s1: "s1 = (upto_driver s d)\<lparr> es_interrupt_events := Mapping.update (ve_intr ?e) p (es_interrupt_events s) \<rparr>"
    and k: "Mapping.lookup (es_interrupt_events s) (ve_intr ?e) = None"
    by (auto simp: vmi_register_event_def register_interrupt_event_def d Let_def split: if_splits)
  obtain d2 where "driver_set_intr_access ed ?e False s1 = (VMI_SUCCESS, upto_driver s1 d2)"
    using accepting_driver(1) [OF assms(1)] by blast
  then show ?thesis using assms(2-5)
    by (simp add: vmi_clear_event_def clear_interrupt_event_def registered_def event_tables_def Let_def
        s1 lookup_update mapping_delete_update [OF k] call_free_def)
qed

lemma clear_registered_reg:
  assumes "accepting ed" and "\<not> es_event_callback s" "\<not> es_shutting_down s"
    "es_init_flags s AND VMI_INIT_EVENTS \<noteq> 0" and "ve_type (es_heap s p) = VMI_EVENT_REGISTER"
    and "ve_msr (es_heap s p) \<noteq> 0 \<longrightarrow> Mapping.lookup (es_reg_events s) MSR_ANY = None"
    and "vmi_register_event ed p s = (VMI_SUCCESS, s1)"
  shows "registered s1 p \<and> (\<exists>s2. vmi_clear_event ed p None s1 = (VMI_SUCCESS, s2) \<and>
     event_tables s2 = event_tables s)"
proof -
  let ?e = "es_heap s p"
  let ?off = "(es_heap s p)\<lparr> ve_reg_in_access := VMI_REGACCESS_N \<rparr>"
  obtain d where d: "driver_set_reg_access ed (es_heap s p) s = (VMI_SUCCESS, upto_driver s d)"
    using accepting_driver(2) [OF assms(1)] by blast
  obtain d2 where d2: "driver_set_reg_access ed ?off s1 = (VMI_SUCCESS, upto_driver s1 d2)"
    using accepting_driver(2) [OF assms(1)] by blast
  note clr = vmi_clear_event_def clear_reg_event_def registered_def event_tables_def Let_def call_free_def
  show ?thesis
  proof (cases "ve_reg ?e = MSR_ANY \<and> ve_msr ?e \<noteq> 0")
    case True
    from True assms(5,7) have s1: "s1 = (upto_driver s d)\<lparr> es_msr_events := Mapping.update (ve_msr ?e) p (es_msr_events s) \<rparr>"
      and k: "Mapping.lookup (es_msr_events s) (ve_msr ?e) = None"
      by (auto simp: vmi_register_event_def register_reg_event_def register_msr_event_def Let_def d split: if_splits)
    show ?thesis using assms(2-6) True d2 [unfolded s1]
      by (simp add: clr s1 lookup_update mapping_delete_update [OF k])
  next
    case False
    from False assms(5,7) have s1: "s1 = (upto_driver s d)\<lparr> es_reg_events := Mapping.update (ve_reg ?e) p (es_reg_events s) \<rparr>"
      and k: "Mapping.lookup (es_reg_events s) (ve_reg ?e) = None"
      by (auto simp: vmi_register_event_def register_reg_event_def d Let_def split: if_splits)
    show ?thesis using assms(2-5) False d2 [unfolded s1]
      by (auto simp: clr s1 lookup_update mapping_delete_update [OF k])
  qed
qed

lemma clear_registered_mem:
  assumes "accepting ed" and "\<not> es_event_callback s" "\<not> es_shutting_down s"
    "es_init_flags s AND VMI_INIT_EVENTS \<noteq> 0" and "ve_type (es_heap s p) = VMI_EVENT_MEMORY"
    and "vmi_register_event ed p s = (VMI_SUCCESS, s1)"
  shows "registered s1 p \<and> (\<exists>s2. vmi_clear_event ed p None s1 = (VMI_SUCCESS, s2) \<and>
     event_tables s2 = event_tables s)"
proof -
  let ?e = "es_heap s p"
  note clr = vmi_clear_event_def clear_mem_event_def registered_def event_tables_def Let_def call_free_def
  show ?thesis
  proof (cases "ve_generic ?e")
    case True
    from True assms(5,6) have s1: "s1 = s\<lparr> es_mem_events_generic := Mapping.update (ve_mem_in_access ?e) p (es_mem_events_generic s) \<rparr>"
      and k: "Mapping.lookup (es_mem_events_generic s) (ve_mem_in_access ?e) = None"
      by (auto simp: vmi_register_event_def register_mem_event_def register_mem_event_generic_def Let_def split: if_splits)
    show ?thesis using assms(2-5) True by (simp add: clr s1 lookup_update mapping_delete_update [OF k])
  next
    case False
    obtain d where d: "driver_set_mem_access ed (ve_gfn ?e) (ve_mem_in_access ?e) (ve_slat_id ?e) s =
        (VMI_SUCCESS, upto_driver s d)"
      using accepting_driver(3) [OF assms(1)] by blast
    from False assms(5,6) have s1: "s1 = raise_max_physical (ve_gfn ?e)
        ((upto_driver s d)\<lparr> es_mem_events_on_gfn := Mapping.update (ve_gfn ?e) p (es_mem_events_on_gfn s) \<rparr>)"
      and k: "Mapping.lookup (es_mem_events_on_gfn s) (ve_gfn ?e) = None"
      by (auto simp: vmi_register_event_def register_mem_event_def register_mem_event_on_gfn_def d Let_def split: if_splits)
    obtain d2 where "driver_set_mem_access ed (ve_gfn ?e) VMI_MEMACCESS_N (ve_slat_id ?e) s1 =
        (VMI_SUCCESS, upto_driver s1 d2)"
      using accepting_driver(3) [OF assms(1)] by blast
    then show ?thesis using assms(2-5) False
      by (simp add: clr s1 lookup_update mapping_delete_update [OF k])
  qed
qed

text \<open>A concrete driver and state.\<close>

definition ed0 :: "unit event_driver" where
  "ed0 = \<lparr> ed_initialized = True, ed_set_intr_access = Some (\<lambda>e en d. (VMI_SUCCESS, d)),
     ed_set_reg_access = Some (\<lambda>e d. (VMI_SUCCESS, d)),
     ed_set_mem_access = Some (\<lambda>g a i d. (VMI_SUCCESS, d)),
     ed_start_single_step = Some (\<lambda>e d. (VMI_SUCCESS, d)), ed_stop_single_step = Some (\<lambda>v d. (VMI_SUCCESS, d)),
     ed_shutdown_single_step = Some (\<lambda>d. (VMI_SUCCESS, d)), ed_set_guest_requested = None,
     ed_set_cpuid_event = None, ed_set_vmexit_event = None, ed_set_debug_event = None,
     ed_set_privcall_event = None, ed_set_desc_access_event = None, ed_set_failed_emulation_event = None,
     ed_set_domain_watch_event = None \<rparr>"

definition x86_registers0 :: x86_registers where
  "x86_registers0 = \<lparr> xr_rax = 0, xr_rdi = 0, xr_rip = 0, xr_cr0 = 0, xr_cr2 = 0, xr_cr3 = 0, xr_cr4 = 0,
     xr_msr_efer = 0, xr_msr_lstar = 0, xr_npt_base = 0, xr_rest = (\<lambda>n. 0) \<rparr>"

text \<open>A structure cleared by \<^verbatim>\<open>memset\<close>.\<close>

definition event_zero :: vmi_event where
  "event_zero = \<lparr> ve_version = 0, ve_type = 0, ve_slat_id = 0, ve_next_slat_id = 0, ve_vcpu_id = 0,
     ve_page_mode = 0, ve_callback = CB_null, ve_data = None, ve_x86_regs = x86_registers0,
     ve_emul_read = None, ve_emul_insn = None, ve_reg = 0, ve_equal = 0, ve_msr = 0, ve_async = False,
     ve_onchange = False, ve_reg_in_access = 0, ve_reg_value = 0, ve_reg_previous = 0, ve_gfn = 0,
     ve_generic = False, ve_mem_in_access = 0, ve_out_access = 0, ve_gptw = False, ve_gla_valid = False,
     ve_gla = 0, ve_offset = 0, ve_intr = 0, ve_insn_length = 0, ve_reinject = 0, ve_vector = 0,
     ve_int_type = 0, ve_error_code = 0, ve_int_cr2 = 0, ve_vcpus = 0, ve_enable = False, ve_sync = False,
     ve_leaf = 0, ve_subleaf = 0, ve_reason = 0, ve_qualification = 0,
     ve_exit_info = 0, ve_exit_qualification = 0, ve_descriptor = 0, ve_is_write = 0 \<rparr>"

definition event0 :: vmi_event where
  "event0 = event_zero\<lparr> ve_version := VMI_EVENTS_VERSION, ve_type := VMI_EVENT_MEMORY,
     ve_callback := CB_user 0, ve_gfn := 0x1234, ve_mem_in_access := VMI_MEMACCESS_X \<rparr>"

definition events0 :: "unit events_state" where
  "events0 = \<lparr> es_vmi = \<lparr> vi_mode = VMI_XEN, vi_os_type = VMI_OS_LINUX, vi_vm_type = PV64,
       vi_page_mode = VMI_PM_IA32E, vi_kpgd = 0x1000, vi_page_shift = 12, vi_page_size = 0x1000,
       vi_pse = False, vi_transition_pages = False, vi_t0sz = 0, vi_t1sz = 0, vi_tg0 = 0, vi_tg1 = 0,
       vi_max_physical_address = 0x100000000, vi_caches = addr_caches_init, vi_driver = () \<rparr>,
     es_init_flags = VMI_INIT_EVENTS, es_num_vcpus = 2, es_event_callback = False,
     es_shutting_down = False, es_heap = (\<lambda>p. event0), es_next = 10,
     es_interrupt_events = Mapping.empty, es_mem_events_on_gfn = Mapping.empty,
     es_mem_events_generic = Mapping.empty, es_reg_events = Mapping.empty, es_msr_events = Mapping.empty,
     es_ss_events = Mapping.empty, es_clear_events = Mapping.empty, es_step_events = [],
     es_step_vcpus = (\<lambda>v. 0), es_swap_events = [], es_guest_requested_event = None,
     es_cpuid_event = None, es_vmexit_event = None, es_debug_event = None, es_privcall_event = None,
     es_descriptor_access_event = None, es_failed_emulation_event = None, es_watch_domain_event = None,
     es_free_calls = [] \<rparr>"

lemma accepting_ed0: "accepting ed0"
  by (simp add: accepting_def ed0_def)

lemma step_counts_events0: "step_counts events0"
  by (simp add: step_counts_def events0_def)



text \<open>C11. The counters that decide when single-stepping ends are exact: when each virtual CPU's counter
  equals its number of queued step requests, this still holds after any call of
  \<^verbatim>\<open>vmi_step_event\<close> and after every single-step event that
  \<^verbatim>\<open>step_and_reg_events\<close> handles without an error, whatever the callbacks do that keep it
  themselves.  So single-stepping is switched off exactly when the last request of a virtual CPU
  is done.\<close>

theorem step_counters_exact:
  assumes "step_counts s" and "length (es_step_events s) < 2 ^ 32 - 1"
    and "\<And>f p t v. balance (ucb f p t) v = balance t v"
  shows "step_counts (snd (vmi_step_event ed p vcpu steps cb s)) \<and>
    (\<forall>s'. step_and_reg_events ucb ed ss s = (VMI_SUCCESS, s') \<longrightarrow> step_counts s')"
  using vmi_step_event_counts [OF assms(1,2)] step_and_reg_counts [where ucb = ucb and ss = ss, OF assms(3,1)]
  by blast

theorem step_counters_exact_witness:
  "step_counts (snd (vmi_step_event ed0 3 1 1 None events0)) \<and>
   step_counts (snd (step_and_reg_events (\<lambda>f p t. t) ed0 None events0))"
proof -
  have "step_and_reg_events (\<lambda>f p t. t) ed0 None events0 = (VMI_SUCCESS, events0)"
    by (simp add: step_and_reg_events_def events0_def)
  then show ?thesis
    using step_counters_exact [OF step_counts_events0, where ucb = "\<lambda>f p t. t" and ed = ed0 and
        p = 3 and vcpu = 1 and steps = 1 and cb = None and ss = None]
    by (simp add: events0_def)
qed

text \<open>The search for a queued swap is inverted: while a callback runs and one swap is queued, the
  same event can be queued for swapping again and can be queued for clearing, the two requests
  the search is there to refuse, and every other event is refused both.\<close>

theorem swap_search_inverted:
  assumes "es_event_callback s" and "es_init_flags s AND VMI_INIT_EVENTS \<noteq> 0"
    and "es_swap_events s = [w]" and "Mapping.lookup (es_clear_events s) p = None"
    and "ve_type (es_heap s p) = VMI_EVENT_MEMORY" and "ve_type (es_heap s q) = VMI_EVENT_MEMORY"
    and "Mapping.lookup (es_mem_events_on_gfn s) (ve_gfn (es_heap s p)) \<noteq> None"
  shows "fst (vmi_swap_events ed p q fr s) = (if p = sw_swap_from w then VMI_SUCCESS else VMI_FAILURE) \<and>
    fst (vmi_clear_event ed p fr s) = (if p = sw_swap_from w then VMI_SUCCESS else VMI_FAILURE)"
  using assms
  by (auto simp: vmi_swap_events_def vmi_clear_event_def swap_found_def swap_search_from_def)

theorem swap_search_inverted_witness:
  "let s = events0\<lparr> es_event_callback := True, es_mem_events_on_gfn := Mapping.update 0x1234 3 Mapping.empty,
        es_swap_events := [\<lparr> sw_swap_from = 3, sw_swap_to = 4, sw_free_routine = None \<rparr>] \<rparr>
   in fst (vmi_swap_events ed0 3 5 None s) = VMI_SUCCESS \<and> fst (vmi_clear_event ed0 6 None s) = VMI_FAILURE"
  unfolding Let_def
  using swap_search_inverted [where p = 3 and q = 5 and ed = ed0 and fr = None and
      s = "events0\<lparr> es_event_callback := True, es_mem_events_on_gfn := Mapping.update 0x1234 3 Mapping.empty,
        es_swap_events := [\<lparr> sw_swap_from = 3, sw_swap_to = 4, sw_free_routine = None \<rparr>] \<rparr>"]
    swap_search_inverted [where p = 6 and q = 5 and ed = ed0 and fr = None and
      s = "events0\<lparr> es_event_callback := True, es_mem_events_on_gfn := Mapping.update 0x1234 3 Mapping.empty,
        es_swap_events := [\<lparr> sw_swap_from = 3, sw_swap_to = 4, sw_free_routine = None \<rparr>] \<rparr>"]
  by (simp add: events0_def event0_def event_zero_def lookup_update lookup_empty)

end
