(* ===== verification/Xen_Events.thy ===== *)
theory Xen_Events
  imports Vmi_Events Arch_Mode
begin

text \<open>
  The event side of the Xen driver, \<^verbatim>\<open>driver/xen/xen_events.c\<close>: switching the hypervisor's
  monitors on and off, handing a request from the ring to the event that is registered for it,
  turning the callback's answer into response flags, and the listening loop with the clears and
  swaps that callbacks left behind.

  \<^verbatim>\<open>libxc\<close> is not part of the sources; its functions are arguments
  (\<open>libxc\<close>), a result other than zero is an error.  The ring shared with the hypervisor is
  a value of its own, \<open>ring\<close>, that callbacks do not see.  Callbacks are an
  argument: they act on the event state and on a state \<open>'u\<close> of the caller's own, and
  \<open>None\<close> is a callback that does not return.
\<close>

section \<open>State\<close>

datatype xenmem_access = XENMEM_access_n | XENMEM_access_r | XENMEM_access_x | XENMEM_access_rw
  | XENMEM_access_rx | XENMEM_access_rwx | XENMEM_access_rx2rw | XENMEM_access_n2rwx

abbreviation (input) VM_EVENT_FLAG_VCPU_PAUSED :: u32 where "VM_EVENT_FLAG_VCPU_PAUSED \<equiv> 1"
abbreviation (input) VM_EVENT_FLAG_EMULATE :: u32 where "VM_EVENT_FLAG_EMULATE \<equiv> 4"
abbreviation (input) VM_EVENT_FLAG_EMULATE_NOWRITE :: u32 where "VM_EVENT_FLAG_EMULATE_NOWRITE \<equiv> 8"
abbreviation (input) VM_EVENT_FLAG_TOGGLE_SINGLESTEP :: u32 where "VM_EVENT_FLAG_TOGGLE_SINGLESTEP \<equiv> 16"
abbreviation (input) VM_EVENT_FLAG_SET_EMUL_READ_DATA :: u32 where "VM_EVENT_FLAG_SET_EMUL_READ_DATA \<equiv> 32"
abbreviation (input) VM_EVENT_FLAG_DENY :: u32 where "VM_EVENT_FLAG_DENY \<equiv> 64"
abbreviation (input) VM_EVENT_FLAG_ALTERNATE_P2M :: u32 where "VM_EVENT_FLAG_ALTERNATE_P2M \<equiv> 128"
abbreviation (input) VM_EVENT_FLAG_SET_REGISTERS :: u32 where "VM_EVENT_FLAG_SET_REGISTERS \<equiv> 256"
abbreviation (input) VM_EVENT_FLAG_SET_EMUL_INSN_DATA :: u32 where "VM_EVENT_FLAG_SET_EMUL_INSN_DATA \<equiv> 512"
abbreviation (input) VM_EVENT_FLAG_GET_NEXT_INTERRUPT :: u32 where "VM_EVENT_FLAG_GET_NEXT_INTERRUPT \<equiv> 1024"
abbreviation (input) VM_EVENT_FLAG_FAST_SINGLESTEP :: u32 where "VM_EVENT_FLAG_FAST_SINGLESTEP \<equiv> 2048"
abbreviation (input) VM_EVENT_FLAG_NESTED_P2M :: u32 where "VM_EVENT_FLAG_NESTED_P2M \<equiv> 4096"
abbreviation (input) VM_EVENT_FLAG_RESET_VMTRACE :: u32 where "VM_EVENT_FLAG_RESET_VMTRACE \<equiv> 8192"
abbreviation (input) VM_EVENT_FLAG_RESET_FORK_STATE :: u32 where "VM_EVENT_FLAG_RESET_FORK_STATE \<equiv> 16384"
abbreviation (input) VM_EVENT_FLAG_RESET_FORK_MEMORY :: u32 where "VM_EVENT_FLAG_RESET_FORK_MEMORY \<equiv> 32768"

abbreviation (input) VMI_EVENT_RESPONSE_NONE :: event_response_t where "VMI_EVENT_RESPONSE_NONE \<equiv> 0"
abbreviation (input) VMI_EVENT_RESPONSE_TOGGLE_SINGLESTEP :: event_response_t
  where "VMI_EVENT_RESPONSE_TOGGLE_SINGLESTEP \<equiv> 32"

abbreviation (input) XCR0 :: reg_t where "XCR0 \<equiv> 22"
abbreviation (input) MSR_ALL :: reg_t where "MSR_ALL \<equiv> 76"

record vm_event_compat =
  vm_version :: u32
  vm_flags :: u32
  vm_reason :: u32
  vm_vcpu_id :: vcpu_t
  vm_pm :: page_mode_t
  vm_altp2m_idx :: u16
  vm_regs :: x86_registers
  vm_mem_flags :: u32
  vm_mem_gfn :: addr_t
  vm_mem_gla :: addr_t
  vm_mem_offset :: addr_t
  vm_ctrlreg_index :: u32
  vm_ctrlreg_new :: u64
  vm_ctrlreg_old :: u64
  vm_msr :: u64
  vm_msr_new :: u64
  vm_msr_old :: u64
  vm_singlestep_gfn :: addr_t
  vm_bp_gfn :: addr_t
  vm_bp_insn_length :: u32
  vm_debug_gfn :: addr_t
  vm_debug_insn_length :: u32
  vm_debug_type :: u8
  vm_cpuid_insn_length :: u32
  vm_cpuid_leaf :: u32
  vm_cpuid_subleaf :: u32
  vm_int_vector :: u32
  vm_int_type :: u32
  vm_int_error_code :: u32
  vm_int_cr2 :: u64
  vm_vmexit_reason :: u64
  vm_vmexit_qualification :: u64
  vm_desc_exitinfo :: u64
  vm_desc_exit_qualification :: u64
  vm_desc_descriptor :: u8
  vm_desc_is_write :: u8
  vm_p2midx :: u16
  vm_emul_read_size :: u32
  vm_emul_read_data :: "u8 list"
  vm_emul_insn_data :: "u8 list"

record 's xen_events =
  xe_major_version :: nat
  xe_minor_version :: nat
  xe_monitor_capabilities :: u32
  xe_monitor_singlestep_on :: bool
  xe_monitor_intr_on :: bool
  xe_monitor_cr0_on :: bool
  xe_monitor_cr3_on :: bool
  xe_monitor_cr4_on :: bool
  xe_monitor_xcr0_on :: bool
  xe_monitor_msr_on :: bool
  xe_port :: int
  xe_external_poll :: bool
  xe_xen :: 's

record 's libxc =
  xc_set_mem_access :: "xenmem_access \<Rightarrow> addr_t \<Rightarrow> 's \<Rightarrow> int \<times> 's"
  xc_altp2m_set_mem_access :: "u16 \<Rightarrow> addr_t \<Rightarrow> xenmem_access \<Rightarrow> 's \<Rightarrow> int \<times> 's"
  xc_monitor_write_ctrlreg :: "reg_t \<Rightarrow> bool \<Rightarrow> bool \<Rightarrow> bool \<Rightarrow> 's \<Rightarrow> int \<times> 's"
  xc_monitor_write_ctrlreg2 :: "reg_t \<Rightarrow> bool \<Rightarrow> bool \<Rightarrow> bool \<Rightarrow> 's \<Rightarrow> int \<times> 's"
  xc_monitor_mov_to_msr :: "bool \<Rightarrow> 's \<Rightarrow> int \<times> 's"
  xc_monitor_mov_to_msr2 :: "u32 \<Rightarrow> bool \<Rightarrow> 's \<Rightarrow> int \<times> 's"
  xc_monitor_software_breakpoint :: "bool \<Rightarrow> 's \<Rightarrow> int \<times> 's"
  xc_monitor_singlestep :: "bool \<Rightarrow> 's \<Rightarrow> int \<times> 's"
  xc_domain_debug_control :: "bool \<Rightarrow> vcpu_t \<Rightarrow> 's \<Rightarrow> int \<times> 's"
  xc_hvm_inject_trap :: "vcpu_t \<Rightarrow> u32 \<Rightarrow> u32 \<Rightarrow> u32 \<Rightarrow> u64 \<Rightarrow> 's \<Rightarrow> int \<times> 's"
  xc_domain_pause :: "'s \<Rightarrow> int \<times> 's"
  xc_domain_unpause :: "'s \<Rightarrow> int \<times> 's"
  xc_evtchn_notify :: "int \<Rightarrow> 's \<Rightarrow> int \<times> 's"
  xc_evtchn_pending :: "'s \<Rightarrow> int \<times> 's"
  xc_evtchn_unmask :: "int \<Rightarrow> 's \<Rightarrow> int \<times> 's"

definition xc_call :: "('s \<Rightarrow> 'r \<times> 's) \<Rightarrow> 's xen_events \<Rightarrow> 'r \<times> 's xen_events" where
  "xc_call f x = (let (rc, d) = f (xe_xen x) in (rc, x\<lparr> xe_xen := d \<rparr>))"

section \<open>Switching monitors\<close>

abbreviation (input) VMI_MEMACCESS_R :: vmi_mem_access_t where "VMI_MEMACCESS_R \<equiv> 2"
abbreviation (input) VMI_MEMACCESS_W :: vmi_mem_access_t where "VMI_MEMACCESS_W \<equiv> 4"
abbreviation (input) VMI_MEMACCESS_RW :: vmi_mem_access_t where "VMI_MEMACCESS_RW \<equiv> 6"
abbreviation (input) VMI_MEMACCESS_RX :: vmi_mem_access_t where "VMI_MEMACCESS_RX \<equiv> 10"
abbreviation (input) VMI_MEMACCESS_WX :: vmi_mem_access_t where "VMI_MEMACCESS_WX \<equiv> 12"
abbreviation (input) VMI_MEMACCESS_RWX :: vmi_mem_access_t where "VMI_MEMACCESS_RWX \<equiv> 14"

definition intel_mem_access_sanity_check :: "vmi_mem_access_t \<Rightarrow> status" where
  "intel_mem_access_sanity_check flag =
     (if flag = VMI_MEMACCESS_R \<or> flag = VMI_MEMACCESS_RX then VMI_FAILURE else VMI_SUCCESS)"

definition convert_vmi_flags_to_xenmem :: "vmi_mem_access_t \<Rightarrow> xenmem_access option" where
  "convert_vmi_flags_to_xenmem flag =
     (if intel_mem_access_sanity_check flag = VMI_FAILURE then None
      else if flag = VMI_MEMACCESS_N then Some XENMEM_access_rwx
      else if flag = VMI_MEMACCESS_W then Some XENMEM_access_rx
      else if flag = VMI_MEMACCESS_X then Some XENMEM_access_rw
      else if flag = VMI_MEMACCESS_RW then Some XENMEM_access_x
      else if flag = VMI_MEMACCESS_WX then Some XENMEM_access_r
      else if flag = VMI_MEMACCESS_RWX then Some XENMEM_access_n
      else if flag = VMI_MEMACCESS_W2X then Some XENMEM_access_rx2rw
      else if flag = VMI_MEMACCESS_RWX2N then Some XENMEM_access_n2rwx
      else None)"

definition xen_set_mem_access :: "'s libxc \<Rightarrow> addr_t \<Rightarrow> vmi_mem_access_t \<Rightarrow> u16 \<Rightarrow> 's xen_events \<Rightarrow>
    status \<times> 's xen_events" where
  "xen_set_mem_access xc gpfn flag altp2m_idx x =
     (case convert_vmi_flags_to_xenmem flag of
        None \<Rightarrow> (VMI_FAILURE, x)
      | Some access \<Rightarrow>
          let (rc, x) = (if altp2m_idx = 0 then xc_call (xc_set_mem_access xc access gpfn) x
                         else xc_call (xc_altp2m_set_mem_access xc altp2m_idx gpfn access) x)
          in (if rc \<noteq> 0 then VMI_FAILURE else VMI_SUCCESS, x))"

text \<open>The registers \<^verbatim>\<open>MSR_ALL\<close> stands for, \<^verbatim>\<open>msr_index[msr_all[i]]\<close> of
  \<^verbatim>\<open>msr-index.c\<close>.\<close>

definition msr_all :: "u32 list" where
  "msr_all = [
     0xc0000080, 0xc0000081, 0xc0000082, 0xc0000083, 0xc0000084, 0xc0000102, 0xc0000103, 0x250,
     0x258, 0x259, 0x268, 0x269, 0x26a, 0x26b, 0x26c, 0x26d, 0x26e, 0x26f, 0x2ff, 0x400, 0x401,
     0x402, 0x403, 0x404, 0x280, 0x8b, 0xc0000104, 0x0, 0x1, 0x10, 0x17, 0x2a, 0x2c, 0x3a,
     0x174, 0x175, 0x176, 0x1a0]"

fun set_msr_all :: "'s libxc \<Rightarrow> bool \<Rightarrow> u32 list \<Rightarrow> 's xen_events \<Rightarrow> 's xen_events" where
  "set_msr_all xc enable [] x = x"
| "set_msr_all xc enable (m # ms) x = set_msr_all xc enable ms (snd (xc_call (xc_monitor_mov_to_msr2 xc m enable) x))"

definition set_ctrlreg :: "'s libxc \<Rightarrow> reg_t \<Rightarrow> vmi_event \<Rightarrow> bool \<Rightarrow> 's xen_events \<Rightarrow> int \<times> 's xen_events" where
  "set_ctrlreg xc reg e enable x =
     xc_call ((if xe_minor_version x < 10 then xc_monitor_write_ctrlreg xc else xc_monitor_write_ctrlreg2 xc)
       reg enable (\<not> ve_async e) (ve_onchange e)) x"

definition ctrlreg_event :: "'s libxc \<Rightarrow> reg_t \<Rightarrow> ('s xen_events \<Rightarrow> bool) \<Rightarrow>
    ('s xen_events \<Rightarrow> 's xen_events) \<Rightarrow> vmi_event \<Rightarrow> bool \<Rightarrow> 's xen_events \<Rightarrow> status \<times> 's xen_events" where
  "ctrlreg_event xc reg on switch e enable x =
     (if enable = on x then (VMI_FAILURE, x)
      else let (rc, x) = set_ctrlreg xc reg e enable x in
      if rc \<noteq> 0 then (VMI_FAILURE, x) else (VMI_SUCCESS, switch x))"

text \<open>Bits of the capability mask: writes of control registers 0, moves to model-specific registers 1,
  single-step 2, software breakpoints 3.\<close>

definition xen_set_reg_access :: "'s libxc \<Rightarrow> vmi_event \<Rightarrow> 's xen_events \<Rightarrow> status \<times> 's xen_events" where
  "xen_set_reg_access xc e x =
     (let r = ve_reg e; cap = (\<lambda>n. bit (xe_monitor_capabilities x) n) in
      if (r = CR0 \<or> r = CR3 \<or> r = CR4 \<or> r = XCR0) \<and> \<not> cap 0 then (VMI_FAILURE, x)
      else if (r = MSR_ANY \<or> r = MSR_ALL) \<and> \<not> cap 1 then (VMI_FAILURE, x)
      else if r \<notin> {CR0, CR3, CR4, XCR0, MSR_ANY, MSR_ALL} then (VMI_FAILURE, x)
      else if ve_reg_in_access e \<noteq> VMI_REGACCESS_N \<and> ve_reg_in_access e \<noteq> VMI_REGACCESS_W then (VMI_FAILURE, x)
      else
        let enable = (ve_reg_in_access e = VMI_REGACCESS_W) in
        if r = CR0 then ctrlreg_event xc CR0 xe_monitor_cr0_on (\<lambda>x. x\<lparr> xe_monitor_cr0_on := enable \<rparr>) e enable x
        else if r = CR3 then ctrlreg_event xc CR3 xe_monitor_cr3_on (\<lambda>x. x\<lparr> xe_monitor_cr3_on := enable \<rparr>) e enable x
        else if r = CR4 then ctrlreg_event xc CR4 xe_monitor_cr4_on (\<lambda>x. x\<lparr> xe_monitor_cr4_on := enable \<rparr>) e enable x
        else if r = XCR0 then ctrlreg_event xc XCR0 xe_monitor_xcr0_on (\<lambda>x. x\<lparr> xe_monitor_xcr0_on := enable \<rparr>) e enable x
        else if r = MSR_ALL then
          (if enable = xe_monitor_msr_on x then (VMI_FAILURE, x)
           else if xe_minor_version x < 8 then
             (let (rc, x) = xc_call (xc_monitor_mov_to_msr xc enable) x in
              if rc \<noteq> 0 then (VMI_FAILURE, x) else (VMI_SUCCESS, x\<lparr> xe_monitor_msr_on := enable \<rparr>))
           else (VMI_SUCCESS, (set_msr_all xc enable msr_all x)\<lparr> xe_monitor_msr_on := enable \<rparr>))
        else
          (if xe_minor_version x < 8 then (VMI_FAILURE, x)
           else if ve_msr e = 0 then (VMI_FAILURE, x)
           else let (rc, x) = xc_call (xc_monitor_mov_to_msr2 xc (ve_msr e) enable) x in
             (if rc \<noteq> 0 then VMI_FAILURE else VMI_SUCCESS, x)))"

definition xen_set_int3_access :: "'s libxc \<Rightarrow> bool \<Rightarrow> 's xen_events \<Rightarrow> status \<times> 's xen_events" where
  "xen_set_int3_access xc enable x =
     (if enable = xe_monitor_intr_on x then (VMI_FAILURE, x)
      else if \<not> bit (xe_monitor_capabilities x) 3 then (VMI_FAILURE, x)
      else let (rc, x) = xc_call (xc_monitor_software_breakpoint xc enable) x in
      if rc \<noteq> 0 then (VMI_FAILURE, x) else (VMI_SUCCESS, x\<lparr> xe_monitor_intr_on := enable \<rparr>))"

abbreviation (input) INT_NEXT :: u8 where "INT_NEXT \<equiv> 2"

definition xen_set_intr_access :: "'s libxc \<Rightarrow> vmi_event \<Rightarrow> bool \<Rightarrow> 's xen_events \<Rightarrow>
    status \<times> 's xen_events" where
  "xen_set_intr_access xc e enabled x =
     (if ve_intr e = INT3 then xen_set_int3_access xc enabled x
      else if ve_intr e = INT_NEXT then (VMI_SUCCESS, x)
      else (VMI_FAILURE, x))"

definition xen_stop_single_step :: "'s libxc \<Rightarrow> vcpu_t \<Rightarrow> 's xen_events \<Rightarrow> status \<times> 's xen_events" where
  "xen_stop_single_step xc vcpu x =
     (let (rc, x) = xc_call (xc_domain_debug_control xc False vcpu) x
      in (if rc \<noteq> 0 then VMI_FAILURE else VMI_SUCCESS, x))"

text \<open>Set the trap flag on the virtual CPUs in turn; at a failure take it back from the failing one
  down to the first.\<close>

fun rewind_mtf :: "'s libxc \<Rightarrow> nat \<Rightarrow> 's xen_events \<Rightarrow> 's xen_events" where
  "rewind_mtf xc 0 x = snd (xen_stop_single_step xc 0 x)"
| "rewind_mtf xc (Suc i) x = rewind_mtf xc i (snd (xen_stop_single_step xc (Suc i) x))"

fun start_mtf :: "'s libxc \<Rightarrow> vcpu_t list \<Rightarrow> 's xen_events \<Rightarrow> status \<times> 's xen_events" where
  "start_mtf xc [] x = (VMI_SUCCESS, x)"
| "start_mtf xc (i # is) x =
     (let (rc, x) = xc_call (xc_domain_debug_control xc True i) x in
      if rc < 0 then (VMI_FAILURE, rewind_mtf xc i x) else start_mtf xc is x)"

definition xen_start_single_step :: "'s libxc \<Rightarrow> vmi_event \<Rightarrow> 's xen_events \<Rightarrow> status \<times> 's xen_events" where
  "xen_start_single_step xc e x =
     (if \<not> bit (xe_monitor_capabilities x) 2 then (VMI_FAILURE, x)
      else
        let (rc, x) = (if xe_monitor_singlestep_on x then (0, x)
                       else let (rc, x) = xc_call (xc_monitor_singlestep xc True) x in
                         if rc < 0 then (rc, x) else (rc, x\<lparr> xe_monitor_singlestep_on := True \<rparr>)) in
        if rc < 0 then (VMI_FAILURE, x)
        else if ve_vcpus e \<noteq> 0 \<and> ve_enable e
        then start_mtf xc (filter (CHECK_VCPU_SINGLESTEP e) [0..<32]) x
        else (VMI_SUCCESS, x))"

fun stop_all :: "'s libxc \<Rightarrow> vcpu_t list \<Rightarrow> 's xen_events \<Rightarrow> 's xen_events" where
  "stop_all xc [] x = x"
| "stop_all xc (v # vs) x = stop_all xc vs (snd (xen_stop_single_step xc v x))"

definition xen_shutdown_single_step :: "'s libxc \<Rightarrow> nat \<Rightarrow> 's xen_events \<Rightarrow> status \<times> 's xen_events" where
  "xen_shutdown_single_step xc num_vcpus x =
     (let x = stop_all xc [0..<num_vcpus] x in
      if xe_monitor_singlestep_on x then
        let (rc, x) = xc_call (xc_monitor_singlestep xc False) x in
        if rc < 0 then (VMI_FAILURE, x) else (VMI_SUCCESS, x\<lparr> xe_monitor_singlestep_on := False \<rparr>)
      else (VMI_SUCCESS, x))"

text \<open>The driver as the event code sees it.  The switches of the events with a single handler are not
  part of this model.\<close>

definition xen_event_driver :: "'s libxc \<Rightarrow> nat \<Rightarrow> 's xen_events event_driver" where
  "xen_event_driver xc num_vcpus =
     \<lparr> ed_initialized = True, ed_set_intr_access = Some (xen_set_intr_access xc),
       ed_set_reg_access = Some (xen_set_reg_access xc), ed_set_mem_access = Some (xen_set_mem_access xc),
       ed_start_single_step = Some (xen_start_single_step xc), ed_stop_single_step = Some (xen_stop_single_step xc),
       ed_shutdown_single_step = Some (xen_shutdown_single_step xc num_vcpus),
       ed_set_guest_requested = None, ed_set_cpuid_event = None, ed_set_vmexit_event = None,
       ed_set_debug_event = None, ed_set_privcall_event = None, ed_set_desc_access_event = None,
       ed_set_failed_emulation_event = None, ed_set_domain_watch_event = None \<rparr>"

section \<open>Answers of a callback\<close>

text \<open>\<^verbatim>\<open>event_response_conversion\<close>, by the number of the response bit.\<close>

definition event_response_conversion :: "nat \<Rightarrow> u32" where
  "event_response_conversion i =
     (if i = 1 then VM_EVENT_FLAG_EMULATE
      else if i = 2 then VM_EVENT_FLAG_EMULATE OR VM_EVENT_FLAG_EMULATE_NOWRITE
      else if i = 3 then VM_EVENT_FLAG_SET_EMUL_READ_DATA
      else if i = 4 then VM_EVENT_FLAG_DENY
      else if i = 5 then VM_EVENT_FLAG_TOGGLE_SINGLESTEP
      else if i = 6 then VM_EVENT_FLAG_ALTERNATE_P2M
      else if i = 7 then VM_EVENT_FLAG_SET_REGISTERS
      else if i = 8 then VM_EVENT_FLAG_SET_EMUL_INSN_DATA
      else if i = 9 then VM_EVENT_FLAG_GET_NEXT_INTERRUPT
      else if i = 10 then VM_EVENT_FLAG_FAST_SINGLESTEP
      else if i = 11 then VM_EVENT_FLAG_RESET_VMTRACE
      else if i = 12 then VM_EVENT_FLAG_RESET_FORK_STATE
      else if i = 13 then VM_EVENT_FLAG_RESET_FORK_MEMORY
      else 0)"

definition response_data :: "nat \<Rightarrow> vmi_event \<times> vm_event_compat \<Rightarrow> vmi_event \<times> vm_event_compat" where
  "response_data i ev = (case ev of (e, rsp) \<Rightarrow>
     if i = 6 then (e, rsp\<lparr> vm_altp2m_idx := ve_slat_id e \<rparr>)
     else if i = 3 then
       (case ve_emul_read e of
          None \<Rightarrow> (e, rsp)
        | Some r \<Rightarrow>
            let n = (if er_size r < 256 then er_size r else 256) in
            (if er_dont_free r then e else e\<lparr> ve_emul_read := None \<rparr>,
             rsp\<lparr> vm_flags := vm_flags rsp OR event_response_conversion 1, vm_emul_read_size := n,
                  vm_emul_read_data := take (unat n) (er_data r) \<rparr>))
     else if i = 8 then
       (case ve_emul_insn e of
          None \<Rightarrow> (e, rsp)
        | Some r \<Rightarrow>
            (if ei_dont_free r then e else e\<lparr> ve_emul_insn := None \<rparr>,
             rsp\<lparr> vm_flags := vm_flags rsp OR event_response_conversion 1,
                  vm_emul_insn_data := take 16 (ei_data r) \<rparr>))
     else if i = 10 then (e, rsp\<lparr> vm_p2midx := ve_next_slat_id e \<rparr>)
     else (e, rsp))"

fun response_loop :: "event_response_t \<Rightarrow> nat list \<Rightarrow> vmi_event \<times> vm_event_compat \<Rightarrow>
    vmi_event \<times> vm_event_compat" where
  "response_loop response [] ev = ev"
| "response_loop response (i # is) ev =
     response_loop response is
       (if bit response i
        then let (e, rsp) = response_data i ev
             in (e, rsp\<lparr> vm_flags := vm_flags rsp OR event_response_conversion i \<rparr>)
        else ev)"

definition process_response :: "event_response_t \<Rightarrow> vmi_event \<Rightarrow> vm_event_compat \<Rightarrow>
    vmi_event \<times> vm_event_compat" where
  "process_response response e rsp =
     (let rsp = rsp\<lparr> vm_flags := vm_flags rsp AND VM_EVENT_FLAG_VCPU_PAUSED \<rparr> in
      if response \<noteq> 0 then response_loop response [1..<14] (e, rsp) else (e, rsp))"

section \<open>Handing a request to its event\<close>

type_synonym ('s, 'u) session = "'s xen_events events_state \<times> 'u"

record ('s, 'u) client =
  cl_callback :: "nat \<Rightarrow> event_ptr \<Rightarrow> ('s, 'u) session \<Rightarrow> (event_response_t \<times> ('s, 'u) session) option"
  cl_step :: "nat \<Rightarrow> event_ptr \<Rightarrow> 's xen_events events_state \<Rightarrow> 's xen_events events_state"

text \<open>A call through the callback pointer of an event.\<close>

definition issue_callback :: "('s, 'u) client \<Rightarrow> 's libxc \<Rightarrow> event_ptr \<Rightarrow> ('s, 'u) session \<Rightarrow>
    (event_response_t \<times> ('s, 'u) session) option" where
  "issue_callback cl xc p s = (case s of (es, u) \<Rightarrow>
     (case ve_callback (es_heap es p) of
        CB_null \<Rightarrow> None
      | CB_user n \<Rightarrow> cl_callback cl n p s
      | CB_step_and_reg_events \<Rightarrow>
          (case step_and_reg_events (cl_step cl) (xen_event_driver xc (es_num_vcpus es)) (Some p) es of
             (st, es) \<Rightarrow> Some (if st = VMI_SUCCESS then 0 else 1, es, u))))"

text \<open>The flag that a callback runs is set around the call.  The event refers to the registers of the
  request, so what the callback stores there is part of the response.\<close>

definition call_handler :: "('s, 'u) client \<Rightarrow> 's libxc \<Rightarrow> event_ptr \<Rightarrow> vm_event_compat \<Rightarrow>
    ('s, 'u) session \<Rightarrow> (vm_event_compat \<times> ('s, 'u) session) option" where
  "call_handler cl xc p vmec s = (case s of (es, u) \<Rightarrow>
     (case issue_callback cl xc p (es\<lparr> es_event_callback := True \<rparr>, u) of
        None \<Rightarrow> None
      | Some (r, es, u) \<Rightarrow>
          let (e, vmec) = process_response r (es_heap es p) (vmec\<lparr> vm_regs := ve_x86_regs (es_heap es p) \<rparr>)
          in Some (vmec, es\<lparr> es_heap := (es_heap es)(p := e), es_event_callback := False \<rparr>, u)))"

definition common_fields :: "vm_event_compat \<Rightarrow> vmi_event \<Rightarrow> vmi_event" where
  "common_fields vmec e = e\<lparr> ve_x86_regs := vm_regs vmec, ve_slat_id := vm_altp2m_idx vmec,
     ve_vcpu_id := vm_vcpu_id vmec, ve_page_mode := vm_pm vmec \<rparr>"

definition store_event :: "event_ptr \<Rightarrow> (vmi_event \<Rightarrow> vmi_event) \<Rightarrow> ('s, 'u) session \<Rightarrow> ('s, 'u) session" where
  "store_event p f s = (case s of (es, u) \<Rightarrow> (es\<lparr> es_heap := (es_heap es)(p := f (es_heap es p)) \<rparr>, u))"

definition inject_trap :: "'s libxc \<Rightarrow> vm_event_compat \<Rightarrow> u32 \<Rightarrow> u32 \<Rightarrow> u32 \<Rightarrow> u64 \<Rightarrow> ('s, 'u) session \<Rightarrow>
    status \<times> ('s, 'u) session" where
  "inject_trap xc vmec vector type insn_length cr2 s = (case s of (es, u) \<Rightarrow>
     let (rc, x) = xc_call (xc_hvm_inject_trap xc (vm_vcpu_id vmec) vector type insn_length cr2)
                     (vi_driver (es_vmi es))
     in (if rc < 0 then VMI_FAILURE else VMI_SUCCESS, es\<lparr> es_vmi := (es_vmi es)\<lparr> vi_driver := x \<rparr> \<rparr>, u))"

type_synonym ('s, 'u) outcome = "(status \<times> vm_event_compat \<times> ('s, 'u) session) option"

text \<open>Reinjecting with vector 3, type 6 (software exception).\<close>

definition process_software_breakpoint :: "('s, 'u) client \<Rightarrow> 's libxc \<Rightarrow> vm_event_compat \<Rightarrow>
    ('s, 'u) session \<Rightarrow> ('s, 'u) outcome" where
  "process_software_breakpoint cl xc vmec s =
     (case Mapping.lookup (es_interrupt_events (fst s)) INT3 of
        None \<Rightarrow> Some (VMI_FAILURE, vmec, s)
      | Some p \<Rightarrow>
          let s = store_event p (\<lambda>e. common_fields vmec (e\<lparr> ve_gfn := vm_bp_gfn vmec, ve_reinject := - 1,
                     ve_insn_length := vm_bp_insn_length vmec,
                     ve_offset := xr_rip (vm_regs vmec) AND VMI_BIT_MASK 0 11,
                     ve_gla := xr_rip (vm_regs vmec) \<rparr>)) s in
          (case call_handler cl xc p vmec s of
             None \<Rightarrow> None
           | Some (vmec, s) \<Rightarrow>
               let e = es_heap (fst s) p in
               if ve_reinject e = 0 then Some (VMI_SUCCESS, vmec, s)
               else if ve_reinject e = - 1 then Some (VMI_FAILURE, vmec, s)
               else let (st, s) = inject_trap xc vmec 3 6 (ve_insn_length e) 0 s in Some (st, vmec, s)))"

definition process_interrupt :: "('s, 'u) client \<Rightarrow> 's libxc \<Rightarrow> vm_event_compat \<Rightarrow>
    ('s, 'u) session \<Rightarrow> ('s, 'u) outcome" where
  "process_interrupt cl xc vmec s =
     (case Mapping.lookup (es_interrupt_events (fst s)) INT_NEXT of
        None \<Rightarrow> Some (VMI_FAILURE, vmec, s)
      | Some p \<Rightarrow>
          let s = store_event p (\<lambda>e. common_fields vmec (e\<lparr> ve_vector := vm_int_vector vmec,
                     ve_int_type := vm_int_type vmec, ve_error_code := vm_int_error_code vmec,
                     ve_int_cr2 := vm_int_cr2 vmec \<rparr>)) s in
          map_option (\<lambda>(vmec, s). (VMI_SUCCESS, vmec, s)) (call_handler cl xc p vmec s))"

definition ctrlreg_of_index :: "u32 \<Rightarrow> reg_t" where
  "ctrlreg_of_index i = (if i = 0 then CR0 else if i = 1 then CR3 else if i = 2 then CR4 else XCR0)"

definition process_register :: "('s, 'u) client \<Rightarrow> 's libxc \<Rightarrow> vm_event_compat \<Rightarrow>
    ('s, 'u) session \<Rightarrow> ('s, 'u) outcome" where
  "process_register cl xc vmec s =
     (case Mapping.lookup (es_reg_events (fst s)) (ctrlreg_of_index (vm_ctrlreg_index vmec)) of
        None \<Rightarrow> Some (VMI_FAILURE, vmec, s)
      | Some p \<Rightarrow>
          let e = es_heap (fst s) p in
          if ve_equal e \<noteq> 0 \<and> ve_equal e \<noteq> vm_ctrlreg_new vmec then Some (VMI_SUCCESS, vmec, s)
          else
            let s = store_event p (\<lambda>e. common_fields vmec (e\<lparr> ve_reg_value := vm_ctrlreg_new vmec,
                       ve_reg_previous := vm_ctrlreg_old vmec \<rparr>)) s in
            map_option (\<lambda>(vmec, s). (VMI_SUCCESS, vmec, s)) (call_handler cl xc p vmec s))"

definition process_msr :: "('s, 'u) client \<Rightarrow> 's libxc \<Rightarrow> vm_event_compat \<Rightarrow>
    ('s, 'u) session \<Rightarrow> ('s, 'u) outcome" where
  "process_msr cl xc vmec s =
     (case (case Mapping.lookup (es_reg_events (fst s)) MSR_ALL of
              None \<Rightarrow> Mapping.lookup (es_msr_events (fst s)) (ucast (vm_msr vmec))
            | Some p \<Rightarrow> Some p) of
        None \<Rightarrow> Some (VMI_FAILURE, vmec, s)
      | Some p \<Rightarrow>
          let s = store_event p (\<lambda>e. common_fields vmec (e\<lparr> ve_msr := ucast (vm_msr vmec),
                     ve_reg_value := vm_msr_new vmec, ve_reg_previous := vm_msr_old vmec \<rparr>)) s in
          map_option (\<lambda>(vmec, s). (VMI_SUCCESS, vmec, s)) (call_handler cl xc p vmec s))"

definition process_singlestep :: "('s, 'u) client \<Rightarrow> 's libxc \<Rightarrow> vm_event_compat \<Rightarrow>
    ('s, 'u) session \<Rightarrow> ('s, 'u) outcome" where
  "process_singlestep cl xc vmec s =
     (case Mapping.lookup (es_ss_events (fst s)) (vm_vcpu_id vmec) of
        None \<Rightarrow> Some (VMI_FAILURE, vmec, s)
      | Some p \<Rightarrow>
          let s = store_event p (\<lambda>e. common_fields vmec (e\<lparr> ve_gfn := vm_singlestep_gfn vmec,
                     ve_offset := xr_rip (vm_regs vmec) AND VMI_BIT_MASK 0 11,
                     ve_gla := xr_rip (vm_regs vmec) \<rparr>)) s in
          map_option (\<lambda>(vmec, s). (VMI_SUCCESS, vmec, s)) (call_handler cl xc p vmec s))"

definition mem_out_access :: "vm_event_compat \<Rightarrow> vmi_mem_access_t" where
  "mem_out_access vmec =
     (if bit (vm_mem_flags vmec) 0 then VMI_MEMACCESS_R else 0) OR
     (if bit (vm_mem_flags vmec) 1 then VMI_MEMACCESS_W else 0) OR
     (if bit (vm_mem_flags vmec) 2 then VMI_MEMACCESS_X else 0)"

text \<open>\<^verbatim>\<open>issue_mem_cb\<close> fills the event before the call; bit 3 of the flags says that the
  linear address is valid, bit 5 that the fault was in a page-table walk.\<close>

definition issue_mem_cb :: "vm_event_compat \<Rightarrow> vmi_mem_access_t \<Rightarrow> vmi_event \<Rightarrow> vmi_event" where
  "issue_mem_cb vmec out_access e =
     (let e = (if bit (vm_mem_flags vmec) 3
               then e\<lparr> ve_gptw := bit (vm_mem_flags vmec) 5, ve_gla_valid := True, ve_gla := vm_mem_gla vmec \<rparr>
               else e\<lparr> ve_gla := 0 \<rparr>)
      in e\<lparr> ve_gfn := vm_mem_gfn vmec, ve_offset := vm_mem_offset vmec, ve_out_access := out_access,
            ve_vcpu_id := vm_vcpu_id vmec \<rparr>)"

definition mem_handler :: "('s, 'u) client \<Rightarrow> 's libxc \<Rightarrow> event_ptr \<Rightarrow> vm_event_compat \<Rightarrow>
    ('s, 'u) session \<Rightarrow> (vm_event_compat \<times> ('s, 'u) session) option" where
  "mem_handler cl xc p vmec s =
     call_handler cl xc p vmec
       (store_event p (\<lambda>e. issue_mem_cb vmec (mem_out_access vmec) (common_fields vmec e)) s)"

fun generic_loop :: "('s, 'u) client \<Rightarrow> 's libxc \<Rightarrow> vmi_mem_access_t \<Rightarrow> (vmi_mem_access_t \<times> event_ptr) list \<Rightarrow>
    bool \<Rightarrow> vm_event_compat \<Rightarrow> ('s, 'u) session \<Rightarrow> (bool \<times> vm_event_compat \<times> ('s, 'u) session) option" where
  "generic_loop cl xc out [] issued vmec s = Some (issued, vmec, s)"
| "generic_loop cl xc out ((k, p) # kps) issued vmec s =
     (if k AND out \<noteq> 0 then
        (case mem_handler cl xc p vmec s of
           None \<Rightarrow> None
         | Some (vmec, s) \<Rightarrow> generic_loop cl xc out kps True vmec s)
      else generic_loop cl xc out kps issued vmec s)"

text \<open>GLib does not fix the order in which a table is walked; the model takes the keys in ascending
  order.\<close>

definition table_entries :: "('k::linorder, 'v) mapping \<Rightarrow> ('k \<times> 'v) list" where
  "table_entries m = map (\<lambda>k. (k, the (Mapping.lookup m k))) (Mapping.ordered_keys m)"

definition process_mem :: "('s, 'u) client \<Rightarrow> 's libxc \<Rightarrow> vm_event_compat \<Rightarrow>
    ('s, 'u) session \<Rightarrow> ('s, 'u) outcome" where
  "process_mem cl xc vmec s =
     (let out = mem_out_access vmec in
      case Mapping.lookup (es_mem_events_on_gfn (fst s)) (vm_mem_gfn vmec) of
        Some p \<Rightarrow>
          if ve_mem_in_access (es_heap (fst s) p) AND out \<noteq> 0
          then map_option (\<lambda>(vmec, s). (VMI_SUCCESS, vmec, s)) (mem_handler cl xc p vmec s)
          else map_option (\<lambda>(issued, vmec, s). (if issued then VMI_SUCCESS else VMI_FAILURE, vmec, s))
                 (generic_loop cl xc out (table_entries (es_mem_events_generic (fst s))) False vmec s)
      | None \<Rightarrow> map_option (\<lambda>(issued, vmec, s). (if issued then VMI_SUCCESS else VMI_FAILURE, vmec, s))
                 (generic_loop cl xc out (table_entries (es_mem_events_generic (fst s))) False vmec s))"

text \<open>Events with a single handler.\<close>

definition slot_event :: "('s, 'u) client \<Rightarrow> 's libxc \<Rightarrow> event_ptr option \<Rightarrow> (vmi_event \<Rightarrow> vmi_event) \<Rightarrow>
    vm_event_compat \<Rightarrow> ('s, 'u) session \<Rightarrow> ('s, 'u) outcome" where
  "slot_event cl xc slot f vmec s =
     (case slot of
        None \<Rightarrow> Some (VMI_FAILURE, vmec, s)
      | Some p \<Rightarrow> map_option (\<lambda>(vmec, s). (VMI_SUCCESS, vmec, s))
                    (call_handler cl xc p vmec (store_event p (\<lambda>e. common_fields vmec (f e)) s)))"

definition process_debug_exception :: "('s, 'u) client \<Rightarrow> 's libxc \<Rightarrow> vm_event_compat \<Rightarrow>
    ('s, 'u) session \<Rightarrow> ('s, 'u) outcome" where
  "process_debug_exception cl xc vmec s =
     (case es_debug_event (fst s) of
        None \<Rightarrow> Some (VMI_FAILURE, vmec, s)
      | Some p \<Rightarrow>
          let s = store_event p (\<lambda>e. common_fields vmec (e\<lparr> ve_reinject := - 1,
                     ve_gla := xr_rip (vm_regs vmec), ve_offset := xr_rip (vm_regs vmec) AND VMI_BIT_MASK 0 11,
                     ve_gfn := vm_debug_gfn vmec, ve_int_type := ucast (vm_debug_type vmec),
                     ve_insn_length := vm_debug_insn_length vmec \<rparr>)) s in
          (case call_handler cl xc p vmec s of
             None \<Rightarrow> None
           | Some (vmec, s) \<Rightarrow>
               let e = es_heap (fst s) p in
               if ve_reinject e = - 1 then Some (VMI_FAILURE, vmec, s)
               else if ve_reinject e = 0 then Some (VMI_SUCCESS, vmec, s)
               else let (st, s) = inject_trap xc vmec 1 (ucast (vm_debug_type vmec)) (vm_debug_insn_length vmec)
                      (xr_cr2 (vm_regs vmec)) s in Some (st, vmec, s)))"

definition process_cpuid :: "('s, 'u) client \<Rightarrow> 's libxc \<Rightarrow> vm_event_compat \<Rightarrow>
    ('s, 'u) session \<Rightarrow> ('s, 'u) outcome" where
  "process_cpuid cl xc vmec s = slot_event cl xc (es_cpuid_event (fst s))
     (\<lambda>e. e\<lparr> ve_insn_length := vm_cpuid_insn_length vmec, ve_leaf := vm_cpuid_leaf vmec,
              ve_subleaf := vm_cpuid_subleaf vmec \<rparr>) vmec s"

definition process_vmexit :: "('s, 'u) client \<Rightarrow> 's libxc \<Rightarrow> vm_event_compat \<Rightarrow>
    ('s, 'u) session \<Rightarrow> ('s, 'u) outcome" where
  "process_vmexit cl xc vmec s = slot_event cl xc (es_vmexit_event (fst s))
     (\<lambda>e. e\<lparr> ve_reason := vm_vmexit_reason vmec, ve_qualification := vm_vmexit_qualification vmec \<rparr>) vmec s"

definition process_guest_request :: "('s, 'u) client \<Rightarrow> 's libxc \<Rightarrow> vm_event_compat \<Rightarrow>
    ('s, 'u) session \<Rightarrow> ('s, 'u) outcome" where
  "process_guest_request cl xc vmec s = slot_event cl xc (es_guest_requested_event (fst s)) (\<lambda>e. e) vmec s"

definition process_unimplemented_emul :: "('s, 'u) client \<Rightarrow> 's libxc \<Rightarrow> vm_event_compat \<Rightarrow>
    ('s, 'u) session \<Rightarrow> ('s, 'u) outcome" where
  "process_unimplemented_emul cl xc vmec s = slot_event cl xc (es_failed_emulation_event (fst s)) (\<lambda>e. e) vmec s"

definition process_desc_access :: "('s, 'u) client \<Rightarrow> 's libxc \<Rightarrow> vm_event_compat \<Rightarrow>
    ('s, 'u) session \<Rightarrow> ('s, 'u) outcome" where
  "process_desc_access cl xc vmec s = slot_event cl xc (es_descriptor_access_event (fst s))
     (\<lambda>e. e\<lparr> ve_exit_info := vm_desc_exitinfo vmec, ve_exit_qualification := vm_desc_exit_qualification vmec,
              ve_descriptor := vm_desc_descriptor vmec, ve_is_write := vm_desc_is_write vmec \<rparr>) vmec s"

text \<open>Privileged calls, which only ARM hypervisors report, are not part of the model.\<close>

definition process_request :: "('s, 'u) client \<Rightarrow> 's libxc \<Rightarrow> vm_event_compat \<Rightarrow>
    ('s, 'u) session \<Rightarrow> ('s, 'u) outcome" where
  "process_request cl xc vmec s =
     (let vmec = (if bit (vm_flags vmec) 7 then vmec else vmec\<lparr> vm_altp2m_idx := 0 \<rparr>);
          vmec = vmec\<lparr> vm_pm := get_page_mode_x86 (xr_cr0 (vm_regs vmec)) (xr_cr4 (vm_regs vmec))
                                  (xr_msr_efer (vm_regs vmec)) \<rparr>;
          r = vm_reason vmec in
      if r = 1 then process_mem cl xc vmec s
      else if r = 4 then process_register cl xc vmec s
      else if r = 5 then process_msr cl xc vmec s
      else if r = 6 then process_software_breakpoint cl xc vmec s
      else if r = 7 then process_singlestep cl xc vmec s
      else if r = 8 then process_guest_request cl xc vmec s
      else if r = 9 then process_debug_exception cl xc vmec s
      else if r = 10 then process_cpuid cl xc vmec s
      else if r = 12 then process_interrupt cl xc vmec s
      else if r = 13 then process_desc_access cl xc vmec s
      else if r = 14 then process_unimplemented_emul cl xc vmec s
      else if r = 15 then process_vmexit cl xc vmec s
      else Some (VMI_FAILURE, vmec, s))"


section \<open>The ring\<close>

text \<open>A response slot is written in part: the data after the fixed fields only under its flag, in the
  order read data, instruction bytes, view, registers; what is not written keeps the slot's
  old content, \<open>None\<close> here, and 0 for the registers no response has, the base of the nested tables and
  \<^verbatim>\<open>vmtrace_pos\<close>.  Producer positions are counts: \<open>rg_slots\<close> has the slots up
  to the private position, \<open>rg_pushed\<close> is the position the hypervisor sees.\<close>

record vm_event_response =
  rs_version :: u32
  rs_vcpu_id :: vcpu_t
  rs_flags :: u32
  rs_reason :: u32
  rs_altp2m_idx :: u16
  rs_emul_read :: "(u32 \<times> u8 list) option"
  rs_emul_insn :: "u8 list option"
  rs_p2midx :: "u16 option"
  rs_regs :: "x86_registers option"

record ring =
  rg_requests :: "vm_event_compat list"
  rg_slots :: "vm_event_response option list"
  rg_pushed :: nat

text \<open>Consume one request and claim one response slot.\<close>

definition ring_get_request_and_response_7 :: "ring \<Rightarrow> (vm_event_compat \<times> ring) option" where
  "ring_get_request_and_response_7 r =
     (case rg_requests r of
        [] \<Rightarrow> None
      | req # rs \<Rightarrow> Some (req, r\<lparr> rg_requests := rs, rg_slots := rg_slots r @ [None] \<rparr>))"

text \<open>Copying a request into the version-independent structure.  Requests have the fields of that
  structure here; the base of the nested tables is dropped unless the request says that it
  has one.\<close>

definition load_request :: "vm_event_compat \<Rightarrow> vm_event_compat" where
  "load_request req =
     (if bit (vm_flags req) 12 then req
      else req\<lparr> vm_regs := (vm_regs req)\<lparr> xr_npt_base := 0 \<rparr> \<rparr>)"

definition store_response :: "vm_event_compat \<Rightarrow> vm_event_response" where
  "store_response vmec = (let f = vm_flags vmec in
     \<lparr> rs_version = vm_version vmec, rs_vcpu_id = vm_vcpu_id vmec, rs_flags = f,
       rs_reason = vm_reason vmec, rs_altp2m_idx = vm_altp2m_idx vmec,
       rs_emul_read = (if bit f 5
         then Some (vm_emul_read_size vmec, take (unat (vm_emul_read_size vmec)) (vm_emul_read_data vmec))
         else None),
       rs_emul_insn = (if bit f 9 then Some (vm_emul_insn_data vmec) else None),
       rs_p2midx = (if bit f 11 then Some (vm_p2midx vmec) else None),
       rs_regs = (if bit f 8 then Some ((vm_regs vmec)\<lparr> xr_npt_base := 0,
           xr_rest := (xr_rest (vm_regs vmec))(''vmtrace_pos'' := 0) \<rparr>) else None) \<rparr>)"

definition with_driver :: "('s xen_events \<Rightarrow> 'r \<times> 's xen_events) \<Rightarrow> ('s, 'u) session \<Rightarrow> 'r \<times> ('s, 'u) session" where
  "with_driver f s = (case s of (es, u) \<Rightarrow>
     let (r, x) = f (vi_driver (es_vmi es)) in (r, es\<lparr> es_vmi := (es_vmi es)\<lparr> vi_driver := x \<rparr> \<rparr>, u))"

definition notify :: "'s libxc \<Rightarrow> ('s, 'u) session \<Rightarrow> int \<times> ('s, 'u) session" where
  "notify xc s = with_driver (\<lambda>x. xc_call (xc_evtchn_notify xc (xe_port x)) x) s"

text \<open>One round per request on the ring; \<open>processed\<close> counts the responses written.  A failing
  request ends the loop with its slot claimed and not written.  Requests that arrive while the
  loop runs are part of \<open>rg_requests\<close> from the start.\<close>

function process_requests_7 :: "('s, 'u) client \<Rightarrow> 's libxc \<Rightarrow> status \<Rightarrow> u32 \<Rightarrow> ring \<Rightarrow> ('s, 'u) session \<Rightarrow>
    (status \<times> u32 \<times> ring \<times> ('s, 'u) session) option" where
  "process_requests_7 cl xc vrc processed r s =
     (case ring_get_request_and_response_7 r of
        None \<Rightarrow> Some (vrc, processed, r, s)
      | Some (req, r) \<Rightarrow>
          if vm_version req \<noteq> 7 then Some (VMI_FAILURE, 0, r, s)
          else
            (case process_request cl xc (load_request req) s of
               None \<Rightarrow> None
             | Some (VMI_FAILURE, vmec, s) \<Rightarrow> Some (VMI_FAILURE, processed, r, s)
             | Some (VMI_SUCCESS, vmec, s) \<Rightarrow>
                 let r = r\<lparr> rg_slots := butlast (rg_slots r) @ [Some (store_response vmec)],
                            rg_pushed := length (rg_slots r) \<rparr>;
                     (rc, s) = (if es_num_vcpus (fst s) \<ge> 7 then notify xc s else (0, s))
                 in if rc \<noteq> 0 then Some (VMI_FAILURE, 0, r, s)
                    else process_requests_7 cl xc VMI_SUCCESS (processed + 1) r s))"
  by pat_completeness auto
termination
  by (relation "measure (\<lambda>(cl, xc, vrc, n, r, s). length (rg_requests r))")
    (auto simp: ring_get_request_and_response_7_def split: list.splits)

declare process_requests_7.simps [simp del]

section \<open>Listening\<close>

definition unmask_event :: "'s libxc \<Rightarrow> 's xen_events \<Rightarrow> status \<times> 's xen_events" where
  "unmask_event xc x =
     (let (port, x) = xc_call (xc_evtchn_pending xc) x in
      if port = -1 then (VMI_FAILURE, x)
      else if port \<noteq> xe_port x then (VMI_FAILURE, x)
      else let (rc, x) = xc_call (xc_evtchn_unmask xc port) x in
      (if rc \<noteq> 0 then VMI_FAILURE else VMI_SUCCESS, x))"

text \<open>What happens outside during one call: the result of \<^verbatim>\<open>poll\<close> and whether it was
  interrupted by a signal, whether XenStore has a watch event, and the requests that are on the ring
  when it is read for the first and for the second time.\<close>

record listen_env =
  le_poll :: int
  le_eintr :: bool
  le_watch :: bool
  le_arrive :: "vm_event_compat list"
  le_arrive_paused :: "vm_event_compat list"

definition wait_for_event_or_timeout :: "listen_env \<Rightarrow> bool \<Rightarrow> status \<times> bool" where
  "wait_for_event_or_timeout le needs_unmasking =
     (if le_poll le = -1 then (if le_eintr le then VMI_SUCCESS else VMI_FAILURE, needs_unmasking)
      else if le_poll le = 0 then (VMI_SUCCESS, needs_unmasking)
      else (VMI_SUCCESS, True))"

definition xen_pause_vm :: "'s libxc \<Rightarrow> 's xen_events \<Rightarrow> status \<times> 's xen_events" where
  "xen_pause_vm xc x = (let (rc, x) = xc_call (xc_domain_pause xc) x
     in (if rc = -1 then VMI_FAILURE else VMI_SUCCESS, x))"

definition xen_resume_vm :: "'s libxc \<Rightarrow> 's xen_events \<Rightarrow> status \<times> 's xen_events" where
  "xen_resume_vm xc x = (let (rc, x) = xc_call (xc_domain_unpause xc) x
     in (if rc = -1 then VMI_FAILURE else VMI_SUCCESS, x))"

definition arrive :: "vm_event_compat list \<Rightarrow> ring \<Rightarrow> ring" where
  "arrive reqs r = r\<lparr> rg_requests := rg_requests r @ reqs \<rparr>"

fun swap_loop :: "'s event_driver \<Rightarrow> swap_wrapper list \<Rightarrow> 's events_state \<Rightarrow> 's events_state" where
  "swap_loop ed [] s = s"
| "swap_loop ed (w # ws) s =
     swap_loop ed ws (snd (swap_events ed (sw_swap_from w) (sw_swap_to w) (sw_free_routine w) s))"

definition clear_events_full :: "'s event_driver \<Rightarrow> event_ptr \<Rightarrow> free_routine option \<Rightarrow> 's events_state \<Rightarrow>
    's events_state" where
  "clear_events_full ed p fr s = snd (vmi_clear_event ed p fr s)"

fun clear_loop :: "'s event_driver \<Rightarrow> (event_ptr \<times> free_routine option) list \<Rightarrow> 's events_state \<Rightarrow>
    's events_state" where
  "clear_loop ed [] s = s"
| "clear_loop ed ((p, fr) # ps) s =
     (let s = clear_events_full ed p fr s
      in clear_loop ed ps (s\<lparr> es_clear_events := Mapping.delete p (es_clear_events s) \<rparr>))"

definition deferred_events :: "'s event_driver \<Rightarrow> 's events_state \<Rightarrow> 's events_state" where
  "deferred_events ed s =
     (let s = swap_loop ed (es_swap_events s) s; s = s\<lparr> es_swap_events := [] \<rparr>
      in clear_loop ed (table_entries (es_clear_events s)) s)"

text \<open>The end of a round: unmask the port, tell the hypervisor about the responses.\<close>

definition finish_listen :: "'s libxc \<Rightarrow> bool \<Rightarrow> u32 \<Rightarrow> ('s, 'u) session \<Rightarrow> status \<times> ('s, 'u) session" where
  "finish_listen xc needs_unmasking requests_processed s =
     (let (vrc, s) = (if needs_unmasking then with_driver (unmask_event xc) s else (VMI_SUCCESS, s)) in
      if vrc = VMI_FAILURE then (VMI_FAILURE, s)
      else if es_num_vcpus (fst s) < 7 \<and> requests_processed \<noteq> 0
      then let (rc, s) = notify xc s in (if rc \<noteq> 0 then VMI_FAILURE else VMI_SUCCESS, s)
      else (VMI_SUCCESS, s))"

definition xen_events_listen :: "('s, 'u) client \<Rightarrow> 's libxc \<Rightarrow> listen_env \<Rightarrow>
    (('s, 'u) session \<Rightarrow> status \<times> ('s, 'u) session) \<Rightarrow> u32 \<Rightarrow> ring \<Rightarrow> ('s, 'u) session \<Rightarrow>
    (status \<times> ring \<times> ('s, 'u) session) option" where
  "xen_events_listen cl xc le watch timeout r s =
     (let (st, needs_unmasking) =
        (if es_shutting_down (fst s) then (VMI_SUCCESS, False)
         else if \<not> xe_external_poll (vi_driver (es_vmi (fst s))) then wait_for_event_or_timeout le False
         else (VMI_SUCCESS, timeout \<noteq> 0)) in
      if st = VMI_FAILURE then Some (VMI_FAILURE, r, s)
      else
        let (vrc, s) = (if le_watch le \<and> bit (es_init_flags (fst s)) 4 then watch s else (VMI_SUCCESS, s)) in
        if \<not> bit (es_init_flags (fst s)) 2 then Some (vrc, r, s)
        else
          (case process_requests_7 cl xc VMI_SUCCESS 0 (arrive (le_arrive le) r) s of
             None \<Rightarrow> None
           | Some (VMI_FAILURE, n, r, s) \<Rightarrow> Some (VMI_FAILURE, r, s)
           | Some (VMI_SUCCESS, n, r, s) \<Rightarrow>
               if es_swap_events (fst s) \<noteq> [] \<or> \<not> Mapping.is_empty (es_clear_events (fst s)) then
                 let (_, s) = with_driver (xen_pause_vm xc) s in
                 (case process_requests_7 cl xc VMI_SUCCESS 0 (arrive (le_arrive_paused le) r) s of
                    None \<Rightarrow> None
                  | Some (VMI_FAILURE, m, r, s) \<Rightarrow> Some (VMI_FAILURE, r, s)
                  | Some (VMI_SUCCESS, m, r, es, u) \<Rightarrow>
                      let s = (deferred_events (xen_event_driver xc (es_num_vcpus es)) es, u);
                          (_, s) = with_driver (xen_resume_vm xc) s;
                          (st, s) = finish_listen xc needs_unmasking (n + m) s
                      in Some (st, r, s))
               else let (st, s) = finish_listen xc needs_unmasking n s in Some (st, r, s)))"

definition vmi_events_listen :: "('s, 'u) client \<Rightarrow> 's libxc \<Rightarrow> listen_env \<Rightarrow>
    (('s, 'u) session \<Rightarrow> status \<times> ('s, 'u) session) \<Rightarrow> u32 \<Rightarrow> ring \<Rightarrow> ('s, 'u) session \<Rightarrow>
    (status \<times> ring \<times> ('s, 'u) session) option" where
  "vmi_events_listen cl xc le watch timeout r s =
     (if es_init_flags (fst s) AND (VMI_INIT_EVENTS OR VMI_INIT_DOMAINWATCH) = 0 then Some (VMI_FAILURE, r, s)
      else xen_events_listen cl xc le watch timeout r s)"

section \<open>What handling a request keeps\<close>

text \<open>The fields of a request that its response repeats, and the bit that says the virtual CPU
  is paused.\<close>

definition same_request :: "vm_event_compat \<Rightarrow> vm_event_compat \<Rightarrow> bool" where
  "same_request v v' \<longleftrightarrow> vm_version v' = vm_version v \<and> vm_vcpu_id v' = vm_vcpu_id v \<and>
     vm_reason v' = vm_reason v \<and> bit (vm_flags v') 0 = bit (vm_flags v) 0"

lemma same_request_refl [simp]: "same_request v v"
  by (simp add: same_request_def)

lemma same_request_trans: "same_request u v \<Longrightarrow> same_request v w \<Longrightarrow> same_request u w"
  by (simp add: same_request_def)

lemma same_request_update [simp]:
  "same_request v (w\<lparr> vm_regs := a \<rparr>) = same_request v w" "same_request v (w\<lparr> vm_pm := b \<rparr>) = same_request v w"
  "same_request v (w\<lparr> vm_altp2m_idx := c \<rparr>) = same_request v w"
  "same_request (v\<lparr> vm_regs := a \<rparr>) w = same_request v w" "same_request (v\<lparr> vm_pm := b \<rparr>) w = same_request v w"
  "same_request (v\<lparr> vm_altp2m_idx := c \<rparr>) w = same_request v w"
  by (simp_all add: same_request_def)

lemma conversion_keeps_paused: "\<not> bit (event_response_conversion i) 0"
  by (simp add: event_response_conversion_def bit_simps)

lemma response_data_keeps: "same_request v (snd ev) \<Longrightarrow> same_request v (snd (response_data i ev))"
  by (auto simp: response_data_def same_request_def conversion_keeps_paused bit_or_iff Let_def
      split: prod.splits option.splits)

lemma response_loop_keeps: "same_request v (snd ev) \<Longrightarrow> same_request v (snd (response_loop r is ev))"
proof (induction "is" arbitrary: ev)
  case (Cons i "is")
  have "same_request v (snd (let (e, rsp) = response_data i ev
      in (e, rsp\<lparr> vm_flags := vm_flags rsp OR event_response_conversion i \<rparr>)))"
    using response_data_keeps [OF Cons.prems, of i]
    by (auto simp: same_request_def conversion_keeps_paused bit_or_iff split: prod.splits)
  with Cons show ?case by simp
qed simp

lemma process_response_keeps: "same_request v rsp \<Longrightarrow> same_request v (snd (process_response r e rsp))"
proof -
  assume "same_request v rsp"
  then have "same_request v (rsp\<lparr> vm_flags := vm_flags rsp AND VM_EVENT_FLAG_VCPU_PAUSED \<rparr>)"
    by (simp add: same_request_def bit_and_iff)
  then show ?thesis by (simp add: process_response_def Let_def response_loop_keeps)
qed

text \<open>The session after a handled request: no callback runs.\<close>

definition quiet :: "vm_event_compat \<Rightarrow> (vm_event_compat \<times> ('s, 'u) session) option \<Rightarrow> bool" where
  "quiet v r \<longleftrightarrow> (case r of None \<Rightarrow> True | Some (v', s') \<Rightarrow> same_request v v' \<and> \<not> es_event_callback (fst s'))"

lemma call_handler_quiet: "same_request v vmec \<Longrightarrow> quiet v (call_handler cl xc p vmec s)"
proof -
  assume a: "same_request v vmec"
  have "same_request v (snd (process_response r e (vmec\<lparr> vm_regs := x \<rparr>)))" for r e x
    by (rule process_response_keeps) (simp add: a)
  then have "process_response r e (vmec\<lparr> vm_regs := x \<rparr>) = (e', v') \<Longrightarrow> same_request v v'" for r e x e' v'
    by (metis snd_conv)
  then show ?thesis
    by (auto simp: call_handler_def quiet_def Let_def split: prod.splits option.splits)
qed

definition quiet_outcome :: "vm_event_compat \<Rightarrow> ('s, 'u) outcome \<Rightarrow> bool" where
  "quiet_outcome v r \<longleftrightarrow> (case r of None \<Rightarrow> True
     | Some (st, v', s') \<Rightarrow> same_request v v' \<and> \<not> es_event_callback (fst s'))"

lemma quiet_outcome_simps [simp]:
  "quiet_outcome v None" "quiet_outcome v (Some (st, v', s')) = (same_request v v' \<and> \<not> es_event_callback (fst s'))"
  "quiet v None" "quiet v (Some (v', s')) = (same_request v v' \<and> \<not> es_event_callback (fst s'))"
  by (simp_all add: quiet_outcome_def quiet_def)

lemma quiet_outcome_map: "quiet v r \<Longrightarrow> quiet_outcome v (map_option (Pair VMI_SUCCESS) r)"
  by (cases r) auto

lemma store_event_flag [simp]: "es_event_callback (fst (store_event p f s)) = es_event_callback (fst s)"
  by (simp add: store_event_def split: prod.splits)

lemma inject_trap_flag: "es_event_callback (fst (snd (inject_trap xc vmec a b c d s))) = es_event_callback (fst s)"
  by (simp add: inject_trap_def Let_def split: prod.splits)

lemma mem_handler_quiet: "same_request v vmec \<Longrightarrow> quiet v (mem_handler cl xc p vmec s)"
  by (simp add: mem_handler_def call_handler_quiet)

lemma generic_loop_quiet:
  "same_request v vmec \<Longrightarrow> \<not> es_event_callback (fst s) \<Longrightarrow>
     case generic_loop cl xc out kps issued vmec s of None \<Rightarrow> True
     | Some (i, v', s') \<Rightarrow> same_request v v' \<and> \<not> es_event_callback (fst s')"
proof (induction kps arbitrary: issued vmec s)
  case (Cons kp kps)
  obtain k p where kp: "kp = (k, p)" by (cases kp)
  show ?case
  proof (cases "k AND out = 0")
    case True
    then show ?thesis using Cons by (simp add: kp)
  next
    case False
    show ?thesis
    proof (cases "mem_handler cl xc p vmec s")
      case (Some vs)
      then show ?thesis
        using mem_handler_quiet [OF Cons.prems(1), of cl xc p s] Cons.IH False
        by (cases vs) (simp add: kp)
    qed (use False in \<open>simp add: kp\<close>)
  qed
qed simp

lemma process_mem_quiet:
  "same_request v vmec \<Longrightarrow> \<not> es_event_callback (fst s) \<Longrightarrow> quiet_outcome v (process_mem cl xc vmec s)"
proof -
  assume a: "same_request v vmec" "\<not> es_event_callback (fst s)"
  have g: "quiet_outcome v (map_option (\<lambda>(issued, y). (if issued then VMI_SUCCESS else VMI_FAILURE, y))
      (generic_loop cl xc out kps False vmec s))" for out kps
    using generic_loop_quiet [OF a, of cl xc out kps False]
    by (auto simp: quiet_outcome_def split: option.splits)
  show ?thesis
    by (simp add: process_mem_def Let_def g quiet_outcome_map mem_handler_quiet a(1) split: option.split)
qed

lemma injecting_quiet:
  assumes "quiet v r"
    and "\<And>vmec s. same_request v vmec \<Longrightarrow> \<not> es_event_callback (fst s) \<Longrightarrow> quiet_outcome v (f vmec s)"
  shows "quiet_outcome v (case r of None \<Rightarrow> None | Some (vmec, s) \<Rightarrow> f vmec s)"
  using assms by (auto split: option.split)

lemma slot_event_quiet:
  "same_request v vmec \<Longrightarrow> \<not> es_event_callback (fst s) \<Longrightarrow> quiet_outcome v (slot_event cl xc slot f vmec s)"
  by (simp add: slot_event_def quiet_outcome_map call_handler_quiet split: option.split)

lemma process_each_quiet:
  assumes "same_request v vmec" and "\<not> es_event_callback (fst s)"
  shows "quiet_outcome v (process_software_breakpoint cl xc vmec s)"
    "quiet_outcome v (process_interrupt cl xc vmec s)" "quiet_outcome v (process_register cl xc vmec s)"
    "quiet_outcome v (process_msr cl xc vmec s)" "quiet_outcome v (process_singlestep cl xc vmec s)"
    "quiet_outcome v (process_debug_exception cl xc vmec s)" "quiet_outcome v (process_cpuid cl xc vmec s)"
    "quiet_outcome v (process_vmexit cl xc vmec s)" "quiet_outcome v (process_guest_request cl xc vmec s)"
    "quiet_outcome v (process_unimplemented_emul cl xc vmec s)" "quiet_outcome v (process_desc_access cl xc vmec s)"
proof -
  note quiet = assms call_handler_quiet [OF assms(1)] quiet_outcome_map slot_event_quiet [OF assms]
  have inj: "quiet_outcome v (case inject_trap xc v' a b c d t of (st, t) \<Rightarrow> Some (st, w, t))"
    if "same_request v w" "\<not> es_event_callback (fst t)" for v' a b c d w and t :: "('a, 'b) session"
    using that inject_trap_flag [of xc v' a b c d t] by (auto split: prod.split)
  show "quiet_outcome v (process_software_breakpoint cl xc vmec s)"
    unfolding process_software_breakpoint_def Let_def
    by (cases "Mapping.lookup (es_interrupt_events (fst s)) INT3")
      (simp_all only: option.case, simp add: assms, rule injecting_quiet, rule quiet, auto simp: inj)
  show "quiet_outcome v (process_debug_exception cl xc vmec s)"
    unfolding process_debug_exception_def Let_def
    by (cases "es_debug_event (fst s)")
      (simp_all only: option.case, simp add: assms, rule injecting_quiet, rule quiet, auto simp: inj)
  show "quiet_outcome v (process_interrupt cl xc vmec s)" "quiet_outcome v (process_register cl xc vmec s)"
    "quiet_outcome v (process_msr cl xc vmec s)" "quiet_outcome v (process_singlestep cl xc vmec s)"
    by (simp_all add: process_interrupt_def process_register_def process_msr_def process_singlestep_def Let_def
        quiet split: option.split)
  show "quiet_outcome v (process_cpuid cl xc vmec s)" "quiet_outcome v (process_vmexit cl xc vmec s)"
    "quiet_outcome v (process_guest_request cl xc vmec s)" "quiet_outcome v (process_unimplemented_emul cl xc vmec s)"
    "quiet_outcome v (process_desc_access cl xc vmec s)"
    by (simp_all add: process_cpuid_def process_vmexit_def process_guest_request_def
        process_unimplemented_emul_def process_desc_access_def quiet)
qed

lemma process_request_quiet:
  "\<not> es_event_callback (fst s) \<Longrightarrow> quiet_outcome v (process_request cl xc v s)"
  by (simp add: process_request_def Let_def process_each_quiet process_mem_quiet)

lemma load_request_same [simp]: "same_request req (load_request req)"
  by (simp add: load_request_def)

section \<open>Requests and responses\<close>

definition answers :: "vm_event_compat \<Rightarrow> vm_event_response \<Rightarrow> bool" where
  "answers req rsp \<longleftrightarrow> rs_version rsp = vm_version req \<and> rs_vcpu_id rsp = vm_vcpu_id req \<and>
     rs_reason rsp = vm_reason req \<and> bit (rs_flags rsp) 0 = bit (vm_flags req) 0"

lemma store_response_answers: "same_request req vmec \<Longrightarrow> answers req (store_response vmec)"
  by (simp add: same_request_def answers_def store_response_def Let_def)

text \<open>From a ring \<open>r\<close> to a ring \<open>r'\<close>: the requests consumed, the responses, and slots
  that were claimed and not written.\<close>

definition ring_progress :: "ring \<Rightarrow> ring \<Rightarrow> vm_event_compat list \<Rightarrow> vm_event_response list \<Rightarrow>
    vm_event_response option list \<Rightarrow> bool" where
  "ring_progress r r' reqs resps unwritten \<longleftrightarrow>
     rg_requests r = reqs @ rg_requests r' \<and> rg_slots r' = rg_slots r @ map Some resps @ unwritten \<and>
     list_all2 answers (take (length resps) reqs) resps \<and>
     length reqs = length resps + length unwritten \<and> unwritten \<in> {[], [None]}"

lemma ring_progress_refl: "ring_progress r r [] [] []"
  by (simp add: ring_progress_def)

lemma ring_progress_step:
  assumes "rg_requests r = req # rs" and "answers req rsp"
    and "ring_progress (r\<lparr> rg_requests := rs, rg_slots := rg_slots r @ [Some rsp], rg_pushed := k \<rparr>) r' reqs resps unw"
  shows "ring_progress r r' (req # reqs) (rsp # resps) unw"
  using assms by (simp add: ring_progress_def)

lemma with_driver_flags [simp]:
  "es_event_callback (fst (snd (with_driver f s))) = es_event_callback (fst s)"
  "es_num_vcpus (fst (snd (with_driver f s))) = es_num_vcpus (fst s)"
  "es_swap_events (fst (snd (with_driver f s))) = es_swap_events (fst s)"
  "es_clear_events (fst (snd (with_driver f s))) = es_clear_events (fst s)"
  by (simp_all add: with_driver_def Let_def split: prod.splits)

definition claimed :: "ring \<Rightarrow> vm_event_compat list \<Rightarrow> ring" where
  "claimed r rs = r\<lparr> rg_requests := rs, rg_slots := rg_slots r @ [None] \<rparr>"

definition answered :: "ring \<Rightarrow> vm_event_compat list \<Rightarrow> vm_event_response \<Rightarrow> ring" where
  "answered r rs rsp = r\<lparr> rg_requests := rs, rg_slots := rg_slots r @ [Some rsp],
     rg_pushed := Suc (length (rg_slots r)) \<rparr>"

lemma process_requests_Nil:
  "rg_requests r = [] \<Longrightarrow> process_requests_7 cl xc vrc n r s = Some (vrc, n, r, s)"
  by (simp add: process_requests_7.simps [of cl xc vrc n r s] ring_get_request_and_response_7_def)

lemma notify_flag: "notify xc s = (rc, s') \<Longrightarrow> es_event_callback (fst s') = es_event_callback (fst s)"
  unfolding notify_def by (metis with_driver_flags(1) snd_conv)

text \<open>One round: it fails with the slot claimed, fails after the answer, or goes on.\<close>

lemma process_requests_Cons:
  assumes "rg_requests r = req # rs" and "\<not> es_event_callback (fst s)"
    and "process_requests_7 cl xc vrc n r s = Some (st, m, r', s')"
  obtains (failed) "st = VMI_FAILURE" "r' = claimed r rs" "\<not> es_event_callback (fst s')"
  | (unnotified) rsp where "st = VMI_FAILURE" "r' = answered r rs rsp" "answers req rsp"
      "\<not> es_event_callback (fst s')"
  | (round) rsp s2 where "answers req rsp" "\<not> es_event_callback (fst s2)"
      "process_requests_7 cl xc VMI_SUCCESS (n + 1) (answered r rs rsp) s2 = Some (st, m, r', s')"
proof -
  have g: "ring_get_request_and_response_7 r = Some (req, claimed r rs)"
    by (simp add: ring_get_request_and_response_7_def assms(1) claimed_def)
  have slots: "(claimed r rs)\<lparr> rg_slots := butlast (rg_slots (claimed r rs)) @ [Some rsp],
      rg_pushed := length (rg_slots (claimed r rs)) \<rparr> = answered r rs rsp" for rsp
    by (simp add: claimed_def answered_def)
  have q: "quiet_outcome (load_request req) (process_request cl xc (load_request req) s)"
    by (rule process_request_quiet) (rule assms(2))
  have ans: "same_request (load_request req) vmec \<Longrightarrow> answers req (store_response vmec)" for vmec
    by (rule store_response_answers) (rule same_request_trans [OF load_request_same])
  show thesis
    using assms(2,3) q failed
    unfolding process_requests_7.simps [of cl xc vrc n r s] g option.case prod.case slots Let_def
    by (auto split: if_splits option.splits status.splits prod.splits dest!: ans notify_flag
        intro: unnotified round)
qed

lemma process_requests_progress:
  assumes "process_requests_7 cl xc VMI_SUCCESS n r s = Some (st, m, r', s')" and "\<not> es_event_callback (fst s)"
  shows "\<exists>reqs resps unw. ring_progress r r' reqs resps unw \<and> \<not> es_event_callback (fst s') \<and>
       (st = VMI_SUCCESS \<longrightarrow> unw = [] \<and> rg_requests r' = [] \<and> m = n + of_nat (length resps) \<and>
          (rg_pushed r = length (rg_slots r) \<longrightarrow> rg_pushed r' = length (rg_slots r')))"
  using assms
proof (induction "rg_requests r" arbitrary: n r s)
  case Nil
  then show ?case using ring_progress_refl [of r] by (fastforce simp: process_requests_Nil)
next
  case (Cons req rs)
  have rq: "rg_requests r = req # rs" using Cons.hyps(2) by simp
  have step: "answers req rsp \<Longrightarrow> ring_progress (answered r rs rsp) r' reqs resps unw \<Longrightarrow>
      ring_progress r r' (req # reqs) (rsp # resps) unw" for rsp reqs resps unw
    unfolding answered_def by (rule ring_progress_step [OF rq])
  from rq Cons.prems(2,1) show ?case
  proof (cases rule: process_requests_Cons)
    case failed
    then have "ring_progress r r' [req] [] [None]" by (simp add: ring_progress_def rq claimed_def)
    with failed show ?thesis by blast
  next
    case (unnotified rsp)
    then show ?thesis using step ring_progress_refl by blast
  next
    case (round rsp s2)
    obtain reqs resps unw where p: "ring_progress (answered r rs rsp) r' reqs resps unw" "\<not> es_event_callback (fst s')"
      "st = VMI_SUCCESS \<longrightarrow> unw = [] \<and> rg_requests r' = [] \<and> m = n + 1 + of_nat (length resps) \<and>
         rg_pushed r' = length (rg_slots r')"
      using Cons.hyps(1) [OF _ round(3,2)] by (auto simp: answered_def)
    show ?thesis
      using p step [OF round(1) p(1)]
      by (intro exI [of _ "req # reqs"] exI [of _ "rsp # resps"] exI [of _ unw]) simp
  qed
qed

section \<open>Response flags\<close>

lemma response_data_flags:
  "vm_flags (snd (response_data i (e, rsp))) = vm_flags rsp OR
     (if i = 3 \<and> ve_emul_read e \<noteq> None \<or> i = 8 \<and> ve_emul_insn e \<noteq> None then VM_EVENT_FLAG_EMULATE else 0)"
  by (simp add: response_data_def event_response_conversion_def Let_def split: option.split)

lemma response_data_event:
  "i \<noteq> 3 \<Longrightarrow> ve_emul_read (fst (response_data i (e, rsp))) = ve_emul_read e"
  "i \<noteq> 8 \<Longrightarrow> ve_emul_insn (fst (response_data i (e, rsp))) = ve_emul_insn e"
  by (simp_all add: response_data_def Let_def split: option.split)

definition emulates :: "event_response_t \<Rightarrow> vmi_event \<Rightarrow> nat list \<Rightarrow> bool" where
  "emulates response e is \<longleftrightarrow> bit response 3 \<and> 3 \<in> set is \<and> ve_emul_read e \<noteq> None \<or>
     bit response 8 \<and> 8 \<in> set is \<and> ve_emul_insn e \<noteq> None"

lemma emulates_Cons:
  "distinct (i # is) \<Longrightarrow> emulates response (if bit response i then fst (response_data i (e, rsp)) else e) is \<or>
     bit response i \<and> (i = 3 \<and> ve_emul_read e \<noteq> None \<or> i = 8 \<and> ve_emul_insn e \<noteq> None) \<longleftrightarrow>
     emulates response e (i # is)"
  by (cases "i = 3"; cases "i = 8") (auto simp: emulates_def response_data_event)

lemma response_loop_flags:
  "distinct is \<Longrightarrow> bit (vm_flags (snd (response_loop response is (e, rsp)))) k \<longleftrightarrow>
     bit (vm_flags rsp) k \<or> (\<exists>i\<in>set is. bit response i \<and> bit (event_response_conversion i) k) \<or>
     k = 2 \<and> emulates response e is"
proof (induction "is" arbitrary: e rsp)
  case (Cons i "is")
  let ?d = "response_data i (e, rsp)"
  have four: "bit (4 :: int) k \<longleftrightarrow> k = 2"
    using bit_exp_iff [of 2 k, where 'a = int] by (auto simp: possible_bit_def)
  have f: "bit (vm_flags (snd ?d)) k \<longleftrightarrow> bit (vm_flags rsp) k \<or>
      k = 2 \<and> (i = 3 \<and> ve_emul_read e \<noteq> None \<or> i = 8 \<and> ve_emul_insn e \<noteq> None)"
    by (auto simp: response_data_flags bit_or_iff four)
  have loop: "response_loop response (i # is) (e, rsp) = response_loop response is
      (if bit response i then (fst ?d, (snd ?d)\<lparr> vm_flags := vm_flags (snd ?d) OR event_response_conversion i \<rparr>)
       else (e, rsp))"
    by (simp add: case_prod_beta)
  have d: "distinct is" using Cons.prems by simp
  show ?case
    using emulates_Cons [OF Cons.prems, of response e rsp]
    unfolding loop by (cases "bit response i") (auto simp: Cons.IH [OF d] f bit_or_iff)
qed (simp add: emulates_def)

section \<open>Requests that callbacks queued\<close>

definition same_queues :: "'s events_state \<Rightarrow> 's events_state \<Rightarrow> bool" where
  "same_queues s s' \<longleftrightarrow> es_clear_events s' = es_clear_events s \<and> es_swap_events s' = es_swap_events s \<and>
     es_event_callback s' = es_event_callback s"

lemma same_queues_refl [simp]: "same_queues s s"
  by (simp add: same_queues_def)

lemma same_queues_trans: "same_queues s t \<Longrightarrow> same_queues t u \<Longrightarrow> same_queues s u"
  by (simp add: same_queues_def)

lemma same_queues_update [simp]:
  "same_queues s (t\<lparr> es_vmi := v0 \<rparr>) = same_queues s t"
  "same_queues s (t\<lparr> es_interrupt_events := v3 \<rparr>) = same_queues s t"
  "same_queues s (t\<lparr> es_mem_events_on_gfn := v4 \<rparr>) = same_queues s t"
  "same_queues s (t\<lparr> es_mem_events_generic := v5 \<rparr>) = same_queues s t"
  "same_queues s (t\<lparr> es_reg_events := v6 \<rparr>) = same_queues s t"
  "same_queues s (t\<lparr> es_msr_events := v7 \<rparr>) = same_queues s t"
  "same_queues s (t\<lparr> es_ss_events := v8 \<rparr>) = same_queues s t"
  "same_queues s (t\<lparr> es_guest_requested_event := v11 \<rparr>) = same_queues s t"
  "same_queues s (t\<lparr> es_cpuid_event := v12 \<rparr>) = same_queues s t"
  "same_queues s (t\<lparr> es_debug_event := v14 \<rparr>) = same_queues s t"
  "same_queues s (t\<lparr> es_free_calls := v19 \<rparr>) = same_queues s t"
  by (simp_all add: same_queues_def)

lemma driver_ctl_queues [simp]: "same_queues s (snd (driver_ctl ed f s))"
  by (auto simp: driver_ctl_def same_queues_def case_prod_beta Let_def split: option.splits)

lemma driver_queues [simp]:
  "same_queues s (snd (driver_set_intr_access ed e en s))" "same_queues s (snd (driver_set_reg_access ed e s))"
  "same_queues s (snd (driver_set_mem_access ed g a i s))" "same_queues s (snd (driver_stop_single_step ed v s))"
  "same_queues s (snd (driver_shutdown_single_step ed s))" "same_queues s (snd (driver_set_guest_requested_event ed en s))"
  "same_queues s (snd (driver_set_cpuid_event ed en s))" "same_queues s (snd (driver_set_debug_event ed en s))"
  by (simp_all add: driver_defs)

lemma clear_ss_loop_queues: "same_queues s (snd (clear_ss_loop ed vs rc s))"
proof (induction vs arbitrary: rc s)
  case (Cons v vs)
  show ?case
    by (auto simp: case_prod_beta Let_def intro!: same_queues_trans [OF _ Cons.IH])
qed simp

lemma shutdown_queues [simp]: "same_queues s t \<Longrightarrow> same_queues s (snd (vmi_shutdown_single_step ed t))"
  by (auto simp: vmi_shutdown_single_step_def case_prod_beta split: status.splits intro: same_queues_trans)

lemma clear_singlestep_queues [simp]: "same_queues s (snd (clear_singlestep_event ed p s))"
  by (simp add: clear_singlestep_event_def case_prod_beta Let_def clear_ss_loop_queues)

lemma clear_each_queues [simp]:
  "same_queues s (snd (clear_interrupt_event ed p s))" "same_queues s (snd (clear_reg_event ed p s))"
  "same_queues s (snd (clear_mem_event ed p s))" "same_queues s (snd (clear_guest_requested_event ed s))"
  "same_queues s (snd (clear_cpuid_event ed s))" "same_queues s (snd (clear_debug_event ed s))"
  by (simp_all add: clear_interrupt_event_def clear_reg_event_def clear_mem_event_def clear_guest_requested_event_def
      clear_cpuid_event_def clear_debug_event_def clear_slot_def case_prod_beta Let_def split: status.split)

lemma call_free_queues [simp]: "same_queues s (call_free fr p rc t) = same_queues s t"
  by (simp add: call_free_def split: option.split)

lemma clear_queues: "\<not> es_event_callback s \<Longrightarrow> same_queues s (snd (vmi_clear_event ed p fr s))"
  by (simp add: vmi_clear_event_def Let_def case_prod_beta)

lemma swap_queues: "same_queues s (snd (swap_events ed a b fr s))"
  by (auto simp: swap_events_def Let_def case_prod_beta split: if_splits
      intro: same_queues_trans [OF driver_queues(3) driver_queues(3)])

lemma swap_loop_queues: "same_queues s (swap_loop ed ws s)"
  by (induction ws arbitrary: s) (auto intro: same_queues_trans [OF swap_queues])

lemma clear_loop_queues:
  "\<not> es_event_callback s \<Longrightarrow> \<not> es_event_callback (clear_loop ed ps s) \<and>
     es_swap_events (clear_loop ed ps s) = es_swap_events s \<and>
     es_clear_events (clear_loop ed ps s) = fold (\<lambda>(p, fr). Mapping.delete p) ps (es_clear_events s)"
proof (induction ps arbitrary: s)
  case (Cons pf ps)
  obtain p fr where pf: "pf = (p, fr)" by (cases pf)
  show ?case
    using clear_queues [OF Cons.prems, of ed p fr] Cons.prems Cons.IH
    by (simp add: pf clear_events_full_def Let_def same_queues_def)
qed simp

lemma fold_delete_lookup:
  "Mapping.lookup (fold (\<lambda>(p, fr). Mapping.delete p) ps m) k = (if k \<in> fst ` set ps then None else Mapping.lookup m k)"
  by (induction ps arbitrary: m) (auto simp: Mapping.lookup_delete Mapping.lookup_delete_neq)

lemma table_entries_keys: "finite (Mapping.keys m) \<Longrightarrow> fst ` set (table_entries m) = Mapping.keys m"
  by (simp add: table_entries_def image_image Mapping.ordered_keys_def)

lemma mapping_is_emptyI: "(\<And>k. Mapping.lookup m k = None) \<Longrightarrow> Mapping.is_empty m"
  by (simp add: Mapping.is_empty_def keys_dom_lookup dom_def)


text \<open>A concrete session: a breakpoint event with a callback that asks for single-stepping.\<close>

definition xc0 :: "unit libxc" where
  "xc0 = \<lparr> xc_set_mem_access = (\<lambda>_ _ d. (0, d)), xc_altp2m_set_mem_access = (\<lambda>_ _ _ d. (0, d)),
     xc_monitor_write_ctrlreg = (\<lambda>_ _ _ _ d. (0, d)), xc_monitor_write_ctrlreg2 = (\<lambda>_ _ _ _ d. (0, d)),
     xc_monitor_mov_to_msr = (\<lambda>_ d. (0, d)), xc_monitor_mov_to_msr2 = (\<lambda>_ _ d. (0, d)),
     xc_monitor_software_breakpoint = (\<lambda>_ d. (0, d)), xc_monitor_singlestep = (\<lambda>_ d. (0, d)),
     xc_domain_debug_control = (\<lambda>_ _ d. (0, d)), xc_hvm_inject_trap = (\<lambda>_ _ _ _ _ d. (0, d)),
     xc_domain_pause = (\<lambda>d. (0, d)), xc_domain_unpause = (\<lambda>d. (0, d)),
     xc_evtchn_notify = (\<lambda>_ d. (0, d)), xc_evtchn_pending = (\<lambda>d. (3, d)), xc_evtchn_unmask = (\<lambda>_ d. (0, d)) \<rparr>"

definition xe0 :: "unit xen_events" where
  "xe0 = \<lparr> xe_major_version = 4, xe_minor_version = 15, xe_monitor_capabilities = 15,
     xe_monitor_singlestep_on = False, xe_monitor_intr_on = True, xe_monitor_cr0_on = False,
     xe_monitor_cr3_on = False, xe_monitor_cr4_on = False, xe_monitor_xcr0_on = False,
     xe_monitor_msr_on = False, xe_port = 3, xe_external_poll = False, xe_xen = () \<rparr>"

definition vmec0 :: vm_event_compat where
  "vmec0 = \<lparr> vm_version = 7, vm_flags = 1, vm_reason = 6, vm_vcpu_id = 2, vm_pm = 0, vm_altp2m_idx = 0,
     vm_regs = x86_registers0, vm_mem_flags = 0, vm_mem_gfn = 0, vm_mem_gla = 0, vm_mem_offset = 0,
     vm_ctrlreg_index = 0, vm_ctrlreg_new = 0, vm_ctrlreg_old = 0, vm_msr = 0, vm_msr_new = 0, vm_msr_old = 0,
     vm_singlestep_gfn = 0, vm_bp_gfn = 0, vm_bp_insn_length = 1, vm_debug_gfn = 0, vm_debug_insn_length = 0,
     vm_debug_type = 0, vm_cpuid_insn_length = 0, vm_cpuid_leaf = 0, vm_cpuid_subleaf = 0, vm_int_vector = 0,
     vm_int_type = 0, vm_int_error_code = 0, vm_int_cr2 = 0, vm_vmexit_reason = 0, vm_vmexit_qualification = 0,
     vm_desc_exitinfo = 0, vm_desc_exit_qualification = 0, vm_desc_descriptor = 0, vm_desc_is_write = 0,
     vm_p2midx = 0, vm_emul_read_size = 0, vm_emul_read_data = [], vm_emul_insn_data = [] \<rparr>"

definition cl0 :: "(unit, nat) client" where
  "cl0 = \<lparr> cl_callback = (\<lambda>n p (es, u). Some (32, es\<lparr> es_heap := (es_heap es)(p := (es_heap es p)\<lparr> ve_reinject := 0 \<rparr>) \<rparr>, Suc u)),
     cl_step = (\<lambda>n p es. es) \<rparr>"

definition session0 :: "(unit, nat) session" where
  "session0 = (\<lparr> es_vmi = \<lparr> vi_mode = VMI_XEN, vi_os_type = VMI_OS_LINUX, vi_vm_type = PV64, vi_page_mode = VMI_PM_IA32E,
       vi_kpgd = 0, vi_page_shift = 12, vi_page_size = 0x1000, vi_pse = False, vi_transition_pages = False,
       vi_t0sz = 0, vi_t1sz = 0, vi_tg0 = 0, vi_tg1 = 0, vi_max_physical_address = 0, vi_caches = addr_caches_init,
       vi_driver = xe0 \<rparr>,
     es_init_flags = 4, es_num_vcpus = 4, es_event_callback = False, es_shutting_down = False,
     es_heap = (\<lambda>p. event_zero\<lparr> ve_version := 9, ve_type := VMI_EVENT_INTERRUPT, ve_intr := INT3, ve_callback := CB_user 0 \<rparr>),
     es_next = 5, es_interrupt_events = Mapping.update INT3 0 Mapping.empty, es_mem_events_on_gfn = Mapping.empty,
     es_mem_events_generic = Mapping.empty, es_reg_events = Mapping.empty, es_msr_events = Mapping.empty,
     es_ss_events = Mapping.empty, es_clear_events = Mapping.update 0 None Mapping.empty, es_step_events = [], es_step_vcpus = (\<lambda>v. 0),
     es_swap_events = [], es_guest_requested_event = None, es_cpuid_event = None, es_vmexit_event = None,
     es_debug_event = None, es_privcall_event = None, es_descriptor_access_event = None,
     es_failed_emulation_event = None, es_watch_domain_event = None, es_free_calls = [] \<rparr>, 0)"

abbreviation ring0 :: ring where "ring0 \<equiv> \<lparr> rg_requests = [vmec0, vmec0], rg_slots = [], rg_pushed = 0 \<rparr>"

lemma ring0_run: "map_option (\<lambda>(st, m, r', s'). (st, m, map (map_option rs_flags) (rg_slots r'), snd s'))
   (process_requests_7 cl0 xc0 VMI_SUCCESS 0 ring0 session0) = Some (VMI_SUCCESS, 2, [Some 17, Some 17], 2)"
  by code_simp

section \<open>Properties\<close>

text \<open>Every request that the loop takes from the ring gets one response slot, in order.  A written
  response repeats version, virtual CPU and reason of its request and the bit that says the CPU
  is paused, whatever the callbacks do, so the hypervisor resumes the right CPU.  When the loop succeeds the
  ring is empty, every slot is written, the count is the number of responses and all of them
  are visible to the hypervisor; only the last slot can be unwritten, and only after a failure.\<close>

theorem ring_answered:
  assumes "process_requests_7 cl xc VMI_SUCCESS n r s = Some (st, m, r', s')"
    and "\<not> es_event_callback (fst s)"
  shows "\<exists>reqs resps unwritten.
    rg_requests r = reqs @ rg_requests r' \<and> rg_slots r' = rg_slots r @ map Some resps @ unwritten \<and>
    list_all2 answers (take (length resps) reqs) resps \<and>
    length reqs = length resps + length unwritten \<and> unwritten \<in> {[], [None]} \<and>
    \<not> es_event_callback (fst s') \<and>
    (st = VMI_SUCCESS \<longrightarrow> unwritten = [] \<and> rg_requests r' = [] \<and> m = n + of_nat (length resps) \<and>
       (rg_pushed r = length (rg_slots r) \<longrightarrow> rg_pushed r' = length (rg_slots r')))"
  using process_requests_progress [OF assms] unfolding ring_progress_def by blast

theorem ring_answered_witness:
  "\<exists>r' s' resps. process_requests_7 cl0 xc0 VMI_SUCCESS 0 ring0 session0 = Some (VMI_SUCCESS, 2, r', s') \<and>
     rg_slots r' = map Some resps \<and> map rs_flags resps = [17, 17] \<and> list_all2 answers [vmec0, vmec0] resps"
proof -
  obtain r' s' where run: "process_requests_7 cl0 xc0 VMI_SUCCESS 0 ring0 session0 = Some (VMI_SUCCESS, 2, r', s')"
    and flags: "map (map_option rs_flags) (rg_slots r') = [Some 17, Some 17]"
    using ring0_run by auto
  have cb: "\<not> es_event_callback (fst session0)" by (simp add: session0_def)
  obtain resps where r: "rg_slots r' = map Some resps" "list_all2 answers [vmec0, vmec0] resps"
    using ring_answered [OF run cb] by (fastforce simp: list_all2_lengthD)
  have "map Some (map rs_flags resps) = map Some [17, 17]" using flags r(1) by (simp add: comp_def)
  then have "map rs_flags resps = [17, 17]" by (rule map_injective) (simp add: inj_on_def)
  with run r show ?thesis by (intro exI conjI)
qed





end
