(* ===== verification/Xen_Stack.thy ===== *)
theory Xen_Stack
  imports Vmi_Translate Vmi_Write Xen_Events
begin

text \<open>
  The library as the tracer uses it: memory accesses of \<^verbatim>\<open>read.c\<close> and
  \<^verbatim>\<open>write.c\<close> over the Xen driver while the driver also keeps the event state.  The
  driver state is \<open>xen_instance xen_events\<close>; the memory functions act on its
  \<open>xe_xen\<close> part.  The locales \<open>page_driver\<close> and \<open>guest\<close> are interpreted once more for
  this driver, and one byte of kernel code is shown to be readable and writable through it.
\<close>

definition stack_env :: "xc_map_read \<Rightarrow> xc_map_write \<Rightarrow> mem_config \<Rightarrow> int \<Rightarrow> addr_t \<Rightarrow>
    xen_instance xen_events os_interface \<Rightarrow> page_info \<Rightarrow>
    (reg_t \<Rightarrow> nat \<Rightarrow> xen_instance xen_events \<Rightarrow> u64 option \<times> xen_instance xen_events) \<Rightarrow>
    xen_instance xen_events vmi_env" where
  "stack_env xcr xcw cfg now sp os junk vr =
     \<lparr> env_driver = \<lparr> drv_initialized = True,
         drv_read_page_ptr = Some (\<lambda>f. xc_call (xen_read_page xcr cfg now f)),
         drv_write_ptr = Some (\<lambda>a bs. xc_call (xen_write xcw cfg sp a bs)),
         drv_mmap_guest = None, drv_get_vcpureg_ptr = Some vr \<rparr>,
       env_os = Some os, env_stack_info = junk \<rparr>"

lemma xc_call_simps:
  "fst (xc_call f x) = fst (f (xe_xen x))" "xe_xen (snd (xc_call f x)) = snd (f (xe_xen x))"
  by (simp_all add: xc_call_def case_prod_beta)

interpretation stackd: page_driver "\<lambda>f. xc_call (xen_read_page xcr (xen_cfg vt mm maxp) now f)"
  "\<lambda>x. xen_inv xcr (xen_cfg vt mm maxp) hv (xe_xen x)" "xen_page xcr (xen_cfg vt mm maxp) hv"
  for xcr vt mm maxp now hv
  by unfold_locales (simp_all add: xc_call_simps xend.rd_page xend.rd_inv xend.page_full)

interpretation stackg: guest "\<lambda>f. xc_call (xen_read_page xcr (xen_cfg vt mm maxp) now f)"
  "\<lambda>x. xen_inv xcr (xen_cfg vt mm maxp) hv (xe_xen x)" "xen_page xcr (xen_cfg vt mm maxp) hv"
  "stack_env xcr xcw (xen_cfg vt mm maxp) now sp os junk vr" tp
  for xcr vt mm maxp now hv xcw sp os junk vr tp
  by unfold_locales (simp add: stackd.drives_def stack_env_def)

text \<open>The instance is set up over a hypervisor \<open>hv\<close>; as \<open>xen_ready\<close>, with the event state around
  the driver, and the kernel's page table.\<close>

definition stack_ready :: "xc_map_read \<Rightarrow> mem_config \<Rightarrow> bool \<Rightarrow> addr_t \<Rightarrow> hypervisor \<Rightarrow>
    xen_instance xen_events vmi_instance \<Rightarrow> bool" where
  "stack_ready xcr cfg tp kpgd hv vmi \<longleftrightarrow>
     (vi_page_shift vmi = 12 \<and> vi_page_size vmi = 0x1000 \<and> xen_inv xcr cfg hv (xe_xen (vi_driver vmi))) \<and>
     vi_page_mode vmi = VMI_PM_IA32E \<and> vi_transition_pages vmi = tp \<and>
     v2pc.coherent (guest_tr (xen_page xcr cfg hv) tp) (vi_caches vmi) \<and> vi_kpgd vmi = kpgd"

lemma stack_ready_good:
  "stack_ready xcr (xen_cfg vt mm maxp) tp kpgd hv vmi \<longleftrightarrow>
     stackg.good xcr vt mm maxp hv tp vmi \<and> vi_kpgd vmi = kpgd"
  by (auto simp: stack_ready_def stackg.good_def stackd.paged_def)

section \<open>One byte of kernel code\<close>

text \<open>A byte of kernel memory that may be patched: the kernel's page table maps its address, the
  machine frame is not shared, and no translation depends on the byte.\<close>

definition code_site :: "xc_map_read \<Rightarrow> mem_config \<Rightarrow> bool \<Rightarrow> addr_t \<Rightarrow> addr_t \<Rightarrow> addr_t \<Rightarrow> hypervisor \<Rightarrow> bool" where
  "code_site xcr cfg tp kpgd va pa hv \<longleftrightarrow>
     kpgd \<noteq> 0 \<and> guest_tr (xen_page xcr cfg hv) tp (va, kpgd, 0) = Some pa \<and>
     pbyte (xen_page xcr cfg hv) pa \<noteq> None \<and> distinct_frames xcr hv \<and>
     (\<forall>b hv'. pbyte (xen_page xcr cfg hv') = spec_write (pbyte (xen_page xcr cfg hv)) pa [b] \<longrightarrow>
        guest_tr (xen_page xcr cfg hv') tp = guest_tr (xen_page xcr cfg hv) tp)"

definition poke :: "xc_map_read \<Rightarrow> addr_t \<Rightarrow> u8 \<Rightarrow> hypervisor \<Rightarrow> hypervisor" where
  "poke xcr pa b hv = mem_write (the (xcr (drop_bit 12 pa) hv)) (unat (take_bit 12 pa)) [b] hv"

lemma poke_pbyte:
  assumes "plain_mapping xcr xcw" and "distinct_frames xcr hv" and "pbyte (xen_page xcr cfg hv) pa \<noteq> None"
  shows "pbyte (xen_page xcr cfg (poke xcr pa b hv)) = spec_write (pbyte (xen_page xcr cfg hv)) pa [b]"
    and "distinct_frames xcr (poke xcr pa b hv)"
proof -
  obtain m where m: "xcr (drop_bit 12 pa) hv = Some m" and rg: "range_ok cfg (clear_low 12 pa) 0x1000"
    using assms(3) by (auto simp: xen_pbyte split: if_splits)
  have "unat (take_bit 12 pa) < 4096" by (simp add: unat_low12)
  then show "pbyte (xen_page xcr cfg (poke xcr pa b hv)) = spec_write (pbyte (xen_page xcr cfg hv)) pa [b]"
    using pbyte_mem_write [OF assms(1,2) m rg, of "[b]"] by (simp add: poke_def m)
  show "distinct_frames xcr (poke xcr pa b hv)"
    using mem_write_frames(3) [OF assms(1)] assms(2) by (simp add: poke_def)
qed

lemma spec_write_one: "spec_write (spec_write f a [b]) a [c] = spec_write f a [c]"
  by (rule ext) (auto simp: spec_write_def)

lemma spec_write_at: "spec_write f a [b] a = Some b"
  by (simp add: spec_write_def)

lemma code_site_poke:
  assumes "plain_mapping xcr xcw" and "code_site xcr cfg tp kpgd va pa hv"
  shows "code_site xcr cfg tp kpgd va pa (poke xcr pa b hv)"
    and "guest_tr (xen_page xcr cfg (poke xcr pa b hv)) tp = guest_tr (xen_page xcr cfg hv) tp"
    and "pbyte (xen_page xcr cfg (poke xcr pa b hv)) pa = Some b"
proof -
  have s: "pbyte (xen_page xcr cfg hv) pa \<noteq> None" "distinct_frames xcr hv"
    using assms(2) by (simp_all add: code_site_def)
  note p = poke_pbyte [OF assms(1) s(2,1), of b]
  show g: "guest_tr (xen_page xcr cfg (poke xcr pa b hv)) tp = guest_tr (xen_page xcr cfg hv) tp"
    using assms(2) p(1) unfolding code_site_def by blast
  show "pbyte (xen_page xcr cfg (poke xcr pa b hv)) pa = Some b"
    by (simp add: p(1) spec_write_at)
  then show "code_site xcr cfg tp kpgd va pa (poke xcr pa b hv)"
    using assms(2) p g unfolding code_site_def by (auto simp: spec_write_one)
qed

section \<open>The kernel page table is kept\<close>

text \<open>Lookups without nested tables change the caches and the driver only.\<close>

definition same_kpgd :: "'s vmi_instance \<Rightarrow> 's vmi_instance \<Rightarrow> bool" where
  "same_kpgd v w \<longleftrightarrow> vi_kpgd w = vi_kpgd v"

lemma same_kpgd_simps [simp]:
  "same_kpgd v v" "same_kpgd v (w\<lparr> vi_caches := c \<rparr>) = same_kpgd v w" "same_kpgd v (w\<lparr> vi_driver := d \<rparr>) = same_kpgd v w"
  by (simp_all add: same_kpgd_def)

lemma same_kpgd_trans: "same_kpgd u v \<Longrightarrow> same_kpgd v w \<Longrightarrow> same_kpgd u w"
  by (simp add: same_kpgd_def)

lemma read_page_kpgd: "vmi_read_page env f vmi = (p, v) \<Longrightarrow> same_kpgd vmi v"
  by (auto simp: vmi_read_page_def driver_read_page_def split: option.splits if_splits prod.splits)

lemma read_loop_kpgd:
  assumes "\<And>va v w p. xl va v = (p, w) \<Longrightarrow> same_kpgd v w"
  shows "read_loop env xl start fuel cnt off vmi = (st, bs, v) \<Longrightarrow> same_kpgd vmi v"
proof (induction fuel arbitrary: cnt off vmi st bs v)
  case (Suc fuel)
  show ?case
    using Suc.prems Suc.IH assms read_page_kpgd
    by (fastforce simp: Let_def split: if_splits prod.splits option.splits dest: same_kpgd_trans)
qed (auto split: if_splits)

lemma read_64_kpgd:
  assumes "ac_tm ctx = VMI_TM_NONE" and "ac_npt ctx = 0" and "ac_npm ctx = 0"
    and "vmi_read_with env look ctx cnt vmi = (st, bs, v)"
  shows "same_kpgd vmi v"
proof -
  have "read_loop env (access_paddr look ctx 0 VMI_PM_NONE) (ac_addr ctx) cnt cnt 0 vmi = (st, bs, v)"
    using assms by (simp add: vmi_read_with_def read_target_none)
  then show ?thesis
    by (rule read_loop_kpgd [rotated]) (use assms(3) in \<open>auto simp: access_paddr_def\<close>)
qed

definition phys_ctx :: access_context where
  "phys_ctx = ACCESS_CONTEXT\<lparr> ac_npt := 0, ac_npm := 0 \<rparr>"

lemma entry_kpgd:
  "vmi_read_64 (vmi_read_with env look) (phys_ctx\<lparr> ac_addr := a \<rparr>) vmi = (r, v) \<Longrightarrow> same_kpgd vmi v"
  using read_64_kpgd [of "phys_ctx\<lparr> ac_addr := a \<rparr>" env look 8 vmi]
  by (auto simp: vmi_read_64_def phys_ctx_def ACCESS_CONTEXT_def split: prod.splits status.splits)

lemma entries_kpgd:
  "get_pml4e (vmi_read_with env look) phys_ctx info vmi = (st, i, v) \<Longrightarrow> same_kpgd vmi v"
  "get_pdpte_ia32e (vmi_read_with env look) phys_ctx info vmi = (st, i, v) \<Longrightarrow> same_kpgd vmi v"
  "get_pde_ia32e (vmi_read_with env look) phys_ctx info vmi = (st, i, v) \<Longrightarrow> same_kpgd vmi v"
  "get_pte_ia32e (vmi_read_with env look) phys_ctx info vmi = (st, i, v) \<Longrightarrow> same_kpgd vmi v"
  by (auto simp: get_pml4e_def get_pdpte_ia32e_def get_pde_ia32e_def get_pte_ia32e_def Let_def
      split: prod.splits option.splits dest: entry_kpgd)

lemma walk_kpgd:
  assumes "v2p_ia32e_walk (vmi_read_with env look) phys_ctx info vmi = (st, i, v)"
  shows "same_kpgd vmi v"
  using assms
  by (auto simp: v2p_ia32e_walk_def split: prod.splits status.splits if_splits
      dest!: entries_kpgd intro: same_kpgd_trans)

lemma arch_lookup_kpgd:
  assumes "arch_lookup env look 0 0 pt VMI_PM_IA32E va info vmi = (st, i, v)"
  shows "same_kpgd vmi v"
  using assms walk_kpgd
  by (fastforce simp: arch_lookup_def arch_init_lookup_tables_def v2p_ia32e_def walk_done_def phys_ctx_def
      split: prod.splits)

lemma lookup_kpgd:
  assumes "vmi_nested_pagetable_lookup env 0 0 pt VMI_PM_IA32E va vmi = (r, v)"
  shows "same_kpgd vmi v"
proof -
  let ?look = "vmi_nested_pagetable_lookup env"
  have r8: "vmi_read_8_pa (vmi_read_with env ?look) a vmi = (b, w) \<Longrightarrow> same_kpgd vmi w" for a b w
    using read_64_kpgd [of "ACCESS_CONTEXT\<lparr> ac_addr := a \<rparr>" env ?look 1 vmi]
    by (auto simp: vmi_read_8_pa_def vmi_read_8_def ACCESS_CONTEXT_def split: prod.splits status.splits)
  have w: "lookup_walk env ?look 0 0 pt VMI_PM_IA32E va u = (x, w) \<Longrightarrow> same_kpgd u w" for u x w
    using arch_lookup_kpgd [of env ?look pt va "env_stack_info env" u]
    by (auto simp: lookup_walk_def split: prod.splits status.splits if_splits)
  have "nested_lookup_body env ?look 0 0 pt VMI_PM_IA32E va vmi = (r, v)"
    using assms by (simp add: vmi_nested_pagetable_lookup_def nested_lookup_fixpoint)
  then show ?thesis
    using r8 w by (fastforce simp: nested_lookup_body_def split: if_splits option.splits prod.splits
        dest: same_kpgd_trans)
qed

lemma access_kpgd:
  assumes "ac_npt ctx = 0" and "ac_npm ctx = 0"
    and "access_paddr (vmi_nested_pagetable_lookup env) ctx pt VMI_PM_IA32E va vmi = (p, v)"
  shows "same_kpgd vmi v"
  using assms lookup_kpgd [of env pt va vmi]
  by (auto simp: access_paddr_def split: prod.splits option.splits if_splits)

section \<open>Reading and writing the byte\<close>

abbreviation kernel_ctx :: "addr_t \<Rightarrow> access_context" where
  "kernel_ctx va \<equiv> va_ctx va 0"

lemma va_ctx_simps [simp]:
  "ac_tm (va_ctx va pid) = VMI_TM_PROCESS_PID" "ac_npt (va_ctx va pid) = 0" "ac_npm (va_ctx va pid) = 0"
  "ac_pm (va_ctx va pid) = 0" "ac_addr (va_ctx va pid) = va" "ac_pt (va_ctx va pid) = ucast pid"
  "ac_pid (va_ctx va pid) = pid"
proof -
  have "ucast (ucast pid :: u64) = pid"
    by (rule bit_word_eqI) (auto simp: vmi_bits dest: bit_imp_le_length)
  then show "ac_pid (va_ctx va pid) = pid" by (simp add: va_ctx_def ACCESS_CONTEXT_def ac_pid_def)
qed (simp_all add: va_ctx_def ACCESS_CONTEXT_def)

lemma stack_lookup:
  assumes "stack_ready xcr (xen_cfg vt mm maxp) tp kpgd hv vmi" and "ac_npt ctx = 0" and "ac_npm ctx = 0"
  obtains v where "access_paddr (vmi_nested_pagetable_lookup (stack_env xcr xcw (xen_cfg vt mm maxp) now sp os junk vr))
       ctx pt VMI_PM_IA32E va vmi = (guest_tr (xen_page xcr (xen_cfg vt mm maxp) hv) tp (va, pt, 0), v)"
    and "stack_ready xcr (xen_cfg vt mm maxp) tp kpgd hv v"
proof -
  let ?env = "stack_env xcr xcw (xen_cfg vt mm maxp) now sp os junk vr"
  let ?a = "access_paddr (vmi_nested_pagetable_lookup ?env) ctx pt VMI_PM_IA32E va vmi"
  have g: "stackg.good xcr vt mm maxp hv tp vmi" and k: "vi_kpgd vmi = kpgd"
    using assms(1) by (simp_all add: stack_ready_good)
  have "stackg.plain_or_nested ctx" using assms(2,3) by (simp add: stackg.plain_or_nested_def)
  from stackg.virtual_computes [OF this, where xcr = xcr and vt = vt and mm = mm and maxp = maxp and now = now
      and hv = hv and xcw = xcw and sp = sp and os = os and junk = junk and vr = vr and tp = tp and pt = pt] g
  have r: "fst ?a = guest_tr (xen_page xcr (xen_cfg vt mm maxp) hv) tp (va, pt, 0)"
    "stackg.good xcr vt mm maxp hv tp (snd ?a)"
    by (simp_all add: stackg.computes_def assms(2))
  have "same_kpgd vmi (snd ?a)" by (rule access_kpgd [OF assms(2,3)]) (rule prod.collapse [symmetric])
  with r k show thesis
    by (intro that [of "snd ?a"]) (simp_all add: stack_ready_good same_kpgd_def prod_eq_iff)
qed

lemma stack_write:
  assumes pl: "plain_mapping xcr xcw" and sp: "\<not> page_aligned (xen_cfg vt mm maxp) sp"
    and rdy: "stack_ready xcr (xen_cfg vt mm maxp) tp kpgd hv vmi"
    and site: "code_site xcr (xen_cfg vt mm maxp) tp kpgd va pa hv"
  obtains v where "vmi_write_va (stack_env xcr xcw (xen_cfg vt mm maxp) now sp os junk vr) va 0 [b] vmi = (VMI_SUCCESS, 1, v)"
    and "stack_ready xcr (xen_cfg vt mm maxp) tp kpgd (poke xcr pa b hv) v"
proof -
  let ?cfg = "xen_cfg vt mm maxp"
  let ?env = "stack_env xcr xcw ?cfg now sp os junk vr"
  have s: "kpgd \<noteq> 0" "guest_tr (xen_page xcr ?cfg hv) tp (va, kpgd, 0) = Some pa"
    "pbyte (xen_page xcr ?cfg hv) pa \<noteq> None"
    using site by (simp_all add: code_site_def)
  obtain m where m: "xcr (drop_bit 12 pa) hv = Some m" using s(3) by (auto simp: xen_pbyte split: if_splits)
  have vm: "vi_kpgd vmi = kpgd" "vi_page_mode vmi = VMI_PM_IA32E" using rdy by (simp_all add: stack_ready_def)
  have tgt: "write_target ?env (kernel_ctx va) vmi = (Some (kpgd, VMI_PM_IA32E, va), vmi)"
    using s(1) vm by (simp add: write_target_def stack_env_def Let_def)
  obtain v where v: "access_paddr (vmi_nested_pagetable_lookup ?env) (kernel_ctx va) kpgd VMI_PM_IA32E va vmi = (Some pa, v)"
    "stack_ready xcr ?cfg tp kpgd hv v"
    using stack_lookup [OF rdy, where ctx = "kernel_ctx va" and pt = kpgd and va = va and xcw = xcw and now = now and
        sp = sp and os = os and junk = junk and vr = vr] s(2) by auto
  have inv: "xen_inv xcr ?cfg hv (xe_xen (vi_driver v))" and sz: "vi_page_size v = 0x1000"
    using v(2) by (simp_all add: stack_ready_def)
  have o: "unat (take_bit 12 pa) < 4096" by (simp add: unat_low12)
  have po: "page_offset v pa = unat (take_bit 12 pa)" using sz offset_mask [of pa] by (simp only: page_offset_def)
  have cl: "chunk_len v (unat (take_bit 12 pa)) (Suc 0) = 1" using sz o by (simp add: chunk_len_def)
  let ?d = "(vi_driver v)\<lparr> xe_xen := (xe_xen (vi_driver v))\<lparr> xi_hv := poke xcr pa b hv \<rparr> \<rparr>"
  let ?w = "v\<lparr> vi_driver := ?d \<rparr>"
  have w: "driver_write ?env pa [b] v = (VMI_SUCCESS, ?w)"
    using xen_write_chunk [OF pl inv sp m, of "[b]"] o
    by (simp add: driver_write_def stack_env_def xc_call_def poke_def m)
  have "vmi_write_va ?env va 0 [b] vmi = (VMI_SUCCESS, 1, ?w)"
    unfolding vmi_write_va_def vmi_write_def tgt
    by (simp add: v(1) po cl w Let_def)
  moreover have "stack_ready xcr ?cfg tp kpgd (poke xcr pa b hv) ?w"
    using v(2) code_site_poke(2) [OF pl site, of b] xen_inv_write [OF pl inv, of m "unat (take_bit 12 pa)" "[b]"]
    by (simp add: stack_ready_def poke_def m)
  ultimately show thesis by (rule that)
qed

lemma stack_read:
  assumes rdy: "stack_ready xcr (xen_cfg vt mm maxp) tp kpgd hv vmi"
    and tgt: "read_target (stack_env xcr xcw (xen_cfg vt mm maxp) now sp os junk vr) (va_ctx va pid) vmi =
      (Some (pt, VMI_PM_IA32E, va), v0)" and rdy0: "stack_ready xcr (xen_cfg vt mm maxp) tp kpgd hv v0"
  obtains v where "vmi_read_va (stack_env xcr xcw (xen_cfg vt mm maxp) now sp os junk vr) va pid cnt vmi =
      (let bs = spec_read (vbyte (xen_page xcr (xen_cfg vt mm maxp) hv)
                  (\<lambda>va. guest_tr (xen_page xcr (xen_cfg vt mm maxp) hv) tp (va, pt, 0))) va cnt
       in (read_status cnt bs, bs, v))"
    and "stack_ready xcr (xen_cfg vt mm maxp) tp kpgd hv v"
proof -
  let ?env = "stack_env xcr xcw (xen_cfg vt mm maxp) now sp os junk vr"
  have g: "stackg.good xcr vt mm maxp hv tp v0" and k: "vi_kpgd v0 = kpgd"
    using rdy0 by (simp_all add: stack_ready_good)
  have pn: "stackg.plain_or_nested (va_ctx va pid)" by (simp add: stackg.plain_or_nested_def)
  note c = stackg.virtual_computes [OF pn, where xcr = xcr and vt = vt and mm = mm and maxp = maxp and now = now
      and hv = hv and xcw = xcw and sp = sp and os = os and junk = junk and vr = vr and tp = tp and pt = pt]
  let ?bs = "spec_read (vbyte (xen_page xcr (xen_cfg vt mm maxp) hv)
      (\<lambda>va. guest_tr (xen_page xcr (xen_cfg vt mm maxp) hv) tp (va, pt, 0))) va cnt"
  obtain v where v: "stackg.good xcr vt mm maxp hv tp v" "vmi_read_va ?env va pid cnt vmi = (read_status cnt ?bs, ?bs, v)"
    using stackg.read_by [OF tgt g c, of cnt] by (auto simp: vmi_read_va_def vmi_read_def)
  have "read_loop ?env (access_paddr (vmi_nested_pagetable_lookup ?env) (va_ctx va pid) pt VMI_PM_IA32E) va cnt cnt 0 v0 =
      (read_status cnt ?bs, ?bs, v)"
    using v(2) tgt by (simp add: vmi_read_va_def vmi_read_def vmi_read_with_def)
  moreover have "access_paddr (vmi_nested_pagetable_lookup ?env) (va_ctx va pid) pt VMI_PM_IA32E a u = (p, w) \<Longrightarrow>
      same_kpgd u w" for a u p w
    by (rule access_kpgd [of "va_ctx va pid" ?env pt a u p]) simp_all
  ultimately have "same_kpgd v0 v" by (rule read_loop_kpgd [rotated])
  with v k show thesis by (intro that [of v]) (simp_all add: stack_ready_good same_kpgd_def Let_def)
qed

section \<open>Reading for a process\<close>

text \<open>What the reads of a process need of the operating-system interface: its functions keep a
  property of the instance.\<close>

definition calm_os :: "'s os_interface \<Rightarrow> ('s vmi_instance \<Rightarrow> bool) \<Rightarrow> bool" where
  "calm_os os P \<longleftrightarrow>
     (\<forall>f a v. os_pgd_to_pid os = Some f \<longrightarrow> P v \<longrightarrow> P (snd (f a v))) \<and>
     (\<forall>f p v. os_pid_to_pgd os = Some f \<longrightarrow> P v \<longrightarrow> P (snd (f p v)))"

lemma calm_os_pgd: "calm_os os P \<Longrightarrow> os_pgd_to_pid os = Some f \<Longrightarrow> P v \<Longrightarrow> P (snd (f a v))"
  unfolding calm_os_def by blast

lemma calm_os_pid: "calm_os os P \<Longrightarrow> os_pid_to_pgd os = Some f \<Longrightarrow> P v \<Longrightarrow> P (snd (f p v))"
  unfolding calm_os_def by blast

lemma stack_ready_v2p_eq:
  "stack_ready xcr cfg tp kpgd hv v \<Longrightarrow> v2p_cache c = v2p_cache (vi_caches v) \<Longrightarrow>
     stack_ready xcr cfg tp kpgd hv (v\<lparr> vi_caches := c \<rparr>)"
proof -
  assume a: "stack_ready xcr cfg tp kpgd hv v" "v2p_cache c = v2p_cache (vi_caches v)"
  have "v2p_cache_get c = v2p_cache_get (vi_caches v)"
    by (intro ext) (simp add: v2p_cache_get_inner a(2))
  then show ?thesis using a(1) unfolding stack_ready_def v2pc.coherent_def by simp
qed

lemma stack_dtb_to_pid:
  assumes "calm_os os (stack_ready xcr cfg tp kpgd hv)" and "stack_ready xcr cfg tp kpgd hv vmi"
  shows "stack_ready xcr cfg tp kpgd hv (snd (vmi_dtb_to_pid (stack_env xcr xcw cfg now sp os junk vr) a vmi))"
  using assms by (auto simp: vmi_dtb_to_pid_def stack_env_def split: option.split intro: calm_os_pgd)

lemma stack_pid_to_dtb:
  assumes "calm_os os (stack_ready xcr cfg tp kpgd hv)" and "stack_ready xcr cfg tp kpgd hv vmi"
    and "vmi_pid_to_dtb (stack_env xcr xcw cfg now sp os junk vr) pid vmi = (d, v)"
  shows "stack_ready xcr cfg tp kpgd hv v"
proof -
  have f: "stack_ready xcr cfg tp kpgd hv w"
    if "os_pid_to_pgd os = Some f" "f pid vmi = (x, w)" for f x w
    using calm_os_pid [OF assms(1) that(1) assms(2), of pid] that(2) by simp
  show ?thesis
    using assms(2,3) f
    by (auto simp: vmi_pid_to_dtb_def stack_env_def pid_cache_set_def split: if_splits option.splits prod.splits
        intro!: stack_ready_v2p_eq)
qed

lemma stack_read_target:
  assumes "calm_os os (stack_ready xcr cfg tp kpgd hv)" and "stack_ready xcr cfg tp kpgd hv vmi"
  obtains (none) v where "read_target (stack_env xcr xcw cfg now sp os junk vr) (va_ctx va pid) vmi = (None, v)"
      "stack_ready xcr cfg tp kpgd hv v"
  | (some) v pt where "read_target (stack_env xcr xcw cfg now sp os junk vr) (va_ctx va pid) vmi = (Some (pt, VMI_PM_IA32E, va), v)"
      "stack_ready xcr cfg tp kpgd hv v"
proof -
  let ?env = "stack_env xcr xcw cfg now sp os junk vr"
  obtain p w where p: "(if pid = 0 then (Some (vi_kpgd vmi), vmi)
      else if sint pid > 0 then vmi_pid_to_dtb ?env pid vmi else (Some (ucast pid), vmi)) = (p, w)"
    by fastforce
  have w: "stack_ready xcr cfg tp kpgd hv w"
    using p assms(2) stack_pid_to_dtb [OF assms] by (auto split: if_splits)
  then have pm: "vi_page_mode w = VMI_PM_IA32E" by (simp add: stack_ready_def)
  have os: "env_os ?env = Some os" by (simp add: stack_env_def)
  have "read_target ?env (va_ctx va pid) vmi =
      (case p of None \<Rightarrow> (None, w) | Some pt \<Rightarrow> if pt = 0 then (None, w) else (Some (pt, VMI_PM_IA32E, va), w))"
    unfolding read_target_def va_ctx_simps Let_def os p
    by (simp add: pm valid_pm_def split: option.split)
  then show thesis using w none some by (cases p) (auto split: if_splits)
qed

lemma stack_read_keeps:
  assumes "calm_os os (stack_ready xcr (xen_cfg vt mm maxp) tp kpgd hv)"
    and "stack_ready xcr (xen_cfg vt mm maxp) tp kpgd hv vmi"
    and "vmi_read (stack_env xcr xcw (xen_cfg vt mm maxp) now sp os junk vr) (va_ctx va pid) cnt vmi = (st, bs, v)"
  shows "stack_ready xcr (xen_cfg vt mm maxp) tp kpgd hv v"
  using assms(1,2)
proof (cases rule: stack_read_target [where xcw = xcw and now = now and sp = sp and junk = junk and vr = vr and va = va and pid = pid])
  case (none w)
  then show ?thesis using assms(3) by (simp add: vmi_read_def vmi_read_with_def)
next
  case (some w pt)
  obtain u where "vmi_read_va (stack_env xcr xcw (xen_cfg vt mm maxp) now sp os junk vr) va pid cnt vmi =
      (let bs = spec_read (vbyte (xen_page xcr (xen_cfg vt mm maxp) hv)
                  (\<lambda>va. guest_tr (xen_page xcr (xen_cfg vt mm maxp) hv) tp (va, pt, 0))) va cnt
       in (read_status cnt bs, bs, u))" "stack_ready xcr (xen_cfg vt mm maxp) tp kpgd hv u"
    by (rule stack_read [OF assms(2) some])
  then show ?thesis using assms(3) by (simp add: vmi_read_va_def Let_def)
qed

lemma stack_read_str:
  assumes "calm_os os (stack_ready xcr (xen_cfg vt mm maxp) tp kpgd hv)"
    and "stack_ready xcr (xen_cfg vt mm maxp) tp kpgd hv vmi"
    and "vmi_read_str_va (stack_env xcr xcw (xen_cfg vt mm maxp) now sp os junk vr) va pid vmi = Some (r, v)"
  shows "stack_ready xcr (xen_cfg vt mm maxp) tp kpgd hv v"
proof -
  let ?env = "stack_env xcr xcw (xen_cfg vt mm maxp) now sp os junk vr"
  let ?R = "stack_ready xcr (xen_cfg vt mm maxp) tp kpgd hv"
  have ctx: "va_ctx a pid\<lparr> ac_addr := b \<rparr> = va_ctx b pid" for a b by (simp add: va_ctx_def ACCESS_CONTEXT_def)
  let ?P = "\<lambda>env ctx ret vmi y. env = ?env \<longrightarrow> ?R vmi \<longrightarrow> (\<exists>va. ctx = va_ctx va pid) \<longrightarrow> ?R (snd y)"
  have "?P env ctx ret vmi y" if "read_str_loop env ctx ret vmi = Some y" for env ctx ret vmi y
  proof (rule read_str_loop.raw_induct [where P = ?P, OF _ that])
    fix loop env ctx ret vmi y
    assume ih: "\<And>env ctx ret vmi y. loop env ctx ret vmi = Some y \<Longrightarrow> ?P env ctx ret vmi y"
      and run: "(let offset = ac_addr ctx AND VMI_BIT_MASK 0 11; read_size = 4096 - unat offset in
        case vmi_read env ctx read_size vmi of
          (status, buf, vmi') \<Rightarrow>
        if status = VMI_FAILURE \<and> buf = [] then Some (ret, vmi')
        else let chars = takeWhile (\<lambda>b. b \<noteq> 0) buf; ret' = (case ret of None \<Rightarrow> [] | Some r \<Rightarrow> r) @ chars in
          if length chars < length buf then Some (Some ret', vmi')
          else loop env (ctx\<lparr> ac_addr := ac_addr ctx + offset \<rparr>) (Some ret') vmi') = Some y"
    show "?P env ctx ret vmi y"
    proof (intro impI)
      assume e: "env = ?env" and r: "?R vmi" and "\<exists>va. ctx = va_ctx va pid"
      then obtain a where a: "ctx = va_ctx a pid" by blast
      define n where "n = 4096 - unat (a AND VMI_BIT_MASK 0 11)"
      obtain st bs w where rd: "vmi_read ?env (va_ctx a pid) n vmi = (st, bs, w)" by (metis prod_cases3)
      have w: "?R w" by (rule stack_read_keeps [OF assms(1) r rd])
      have rec: "loop ?env (va_ctx b pid) ret' w = Some y \<Longrightarrow> ?R (snd y)" for b ret'
        using ih [of ?env "va_ctx b pid" ret' w y] w by blast
      show "?R (snd y)"
        using run w rec unfolding e a va_ctx_simps Let_def n_def [symmetric] rd ctx
        by (auto split: if_splits)
    qed
  qed
  from this [of ?env "va_ctx va pid" None vmi "(r, v)"] assms(2,3) show ?thesis
    by (auto simp: vmi_read_str_va_def vmi_read_str_def)
qed

section \<open>Patching code\<close>

text \<open>What a client that patches one byte of kernel code relies on: \<open>has b v\<close> says that the
  instance is set up and the byte is \<open>b\<close>.  Writing replaces the byte, reading returns it, and the
  reads a client does on behalf of a process keep it.\<close>

locale code_patching =
  fixes env :: "'s vmi_env" and va :: addr_t and has :: "u8 \<Rightarrow> 's vmi_instance \<Rightarrow> bool"
  assumes put: "has a v \<Longrightarrow> \<exists>w. vmi_write_va env va 0 [b] v = (VMI_SUCCESS, 1, w) \<and> has b w"
    and get: "has a v \<Longrightarrow> \<exists>w. vmi_read_va env va 0 1 v = (VMI_SUCCESS, [a], w) \<and> has a w"
    and str: "has a v \<Longrightarrow> vmi_read_str_va env u pid v = Some (r, w) \<Longrightarrow> has a w"
    and dtb: "has a v \<Longrightarrow> has a (snd (vmi_dtb_to_pid env d v))"
    and reg: "has a v \<Longrightarrow> has a (snd (driver_get_vcpureg env g n v))"

lemma poke_poke: "plain_mapping xcr xcw \<Longrightarrow> poke xcr pa c (poke xcr pa b hv) = poke xcr pa c hv"
  unfolding poke_def mem_write_frames(1) by (auto simp: mem_write_def fun_eq_iff)

lemma poke_same:
  assumes "pbyte (xen_page xcr cfg hv) pa = Some b"
  shows "poke xcr pa b hv = hv"
proof -
  obtain m where "xcr (drop_bit 12 pa) hv = Some m" "hv_mem hv m (unat (take_bit 12 pa)) = b"
    using assms by (auto simp: xen_pbyte split: if_splits)
  then have "hv_mem (poke xcr pa b hv) = hv_mem hv"
    by (auto simp: poke_def mem_write_def fun_eq_iff less_Suc_eq)
  then show ?thesis by (simp add: poke_def mem_write_def)
qed

text \<open>The guest's memory is the one of \<open>hv\<close> but for the byte at the site, which is
  \<open>b\<close>; with what that needs of the hypervisor and the operating-system interface.\<close>

definition patched :: "xc_map_read \<Rightarrow> xc_map_write \<Rightarrow> mem_config \<Rightarrow> addr_t \<Rightarrow> xen_instance xen_events os_interface \<Rightarrow>
    (reg_t \<Rightarrow> nat \<Rightarrow> xen_instance xen_events \<Rightarrow> u64 option \<times> xen_instance xen_events) \<Rightarrow>
    bool \<Rightarrow> addr_t \<Rightarrow> addr_t \<Rightarrow> addr_t \<Rightarrow> hypervisor \<Rightarrow> u8 \<Rightarrow> xen_instance xen_events vmi_instance \<Rightarrow> bool" where
  "patched xcr xcw cfg sp os vr tp kpgd va pa hv b v \<longleftrightarrow>
     plain_mapping xcr xcw \<and> \<not> page_aligned cfg sp \<and> code_site xcr cfg tp kpgd va pa hv \<and>
     (\<forall>c. calm_os os (stack_ready xcr cfg tp kpgd (poke xcr pa c hv))) \<and>
     (\<forall>g n x. xe_xen (snd (vr g n x)) = xe_xen x) \<and>
     stack_ready xcr cfg tp kpgd (poke xcr pa b hv) v"

interpretation site: code_patching "stack_env xcr xcw (xen_cfg vt mm maxp) now sp os junk vr" va
  "patched xcr xcw (xen_cfg vt mm maxp) sp os vr tp kpgd va pa hv"
  for xcr xcw vt mm maxp now sp os junk vr va tp kpgd pa hv
proof
  let ?cfg = "xen_cfg vt mm maxp"
  let ?env = "stack_env xcr xcw ?cfg now sp os junk vr"
  let ?has = "patched xcr xcw ?cfg sp os vr tp kpgd va pa hv"
  fix a b :: u8 and v :: "xen_instance xen_events vmi_instance"
  assume h: "?has a v"
  let ?hv = "poke xcr pa a hv"
  have pl: "plain_mapping xcr xcw" and sp: "\<not> page_aligned ?cfg sp"
    and site: "code_site xcr ?cfg tp kpgd va pa hv" and rdy: "stack_ready xcr ?cfg tp kpgd ?hv v"
    and os: "calm_os os (stack_ready xcr ?cfg tp kpgd ?hv)"
    using h by (simp_all add: patched_def)
  note s = code_site_poke [OF pl site, of a]
  have keep: "?has a w" if "stack_ready xcr ?cfg tp kpgd ?hv w" for w
    using h that by (simp add: patched_def)
  show "\<exists>w. vmi_write_va ?env va 0 [b] v = (VMI_SUCCESS, 1, w) \<and> ?has b w"
    using stack_write [OF pl sp rdy s(1), where b = b and now = now and os = os and junk = junk and vr = vr] h
    by (metis patched_def poke_poke [OF pl])
  have "kpgd \<noteq> 0" "guest_tr (xen_page xcr ?cfg ?hv) tp (va, kpgd, 0) = Some pa"
    using s(1) by (simp_all add: code_site_def)
  moreover have "vi_kpgd v = kpgd" "vi_page_mode v = VMI_PM_IA32E" using rdy by (simp_all add: stack_ready_def)
  ultimately have tgt: "read_target ?env (va_ctx va 0) v = (Some (kpgd, VMI_PM_IA32E, va), v)"
    by (simp add: read_target_def stack_env_def Let_def valid_pm_def)
  have "spec_read (vbyte (xen_page xcr ?cfg ?hv) (\<lambda>va. guest_tr (xen_page xcr ?cfg ?hv) tp (va, kpgd, 0))) va 1 = [a]"
    using s by (simp add: code_site_def vbyte_def)
  then show "\<exists>w. vmi_read_va ?env va 0 1 v = (VMI_SUCCESS, [a], w) \<and> ?has a w"
    using stack_read [OF rdy tgt rdy, of 1] keep by (fastforce simp: read_status_def)
  show "?has a w" if "vmi_read_str_va ?env u pid v = Some (r, w)" for u pid r w
    by (rule keep) (rule stack_read_str [OF os rdy that])
  show "?has a (snd (vmi_dtb_to_pid ?env d v))" for d
    by (rule keep) (rule stack_dtb_to_pid [OF os rdy])
  have "xe_xen (snd (vr g n (vi_driver v))) = xe_xen (vi_driver v)" for g n
    using h by (simp add: patched_def)
  then show "?has a (snd (driver_get_vcpureg ?env g n v))" for g n
    using rdy by (intro keep) (simp add: driver_get_vcpureg_def stack_env_def stack_ready_def case_prod_beta Let_def)
qed

section \<open>A concrete guest\<close>

text \<open>Memory of which every eighth byte, but for one in the words' top bytes, is fixed: every entry
  maps a gigabyte page at zero, and the top bytes do not matter to a walk.\<close>

definition striped :: "(addr_t \<Rightarrow> u8 option) \<Rightarrow> bool" where
  "striped f \<longleftrightarrow> (\<forall>x. \<exists>b. f x = Some b \<and> (unat x mod 8 = 0 \<longrightarrow> b = 0x81) \<and>
     (0 < unat x mod 8 \<and> unat x mod 8 < 7 \<longrightarrow> b = 0))"

lemma striped_word:
  assumes "striped f" and "unat a mod 8 = 0"
  shows "\<exists>e. word_at f a = Some e \<and> take_bit 52 e = 0x81"
proof -
  obtain c where c: "f (a + of_nat 7) = Some c" using assms(1) unfolding striped_def by blast
  let ?l = "[0x81, 0, 0, 0, 0, 0, 0, c]"
  have "f (a + of_nat j) = Some (?l ! j)" if "j < 8" for j
  proof -
    have m: "unat (a + of_nat j) mod 8 = j"
      using that assms(2) unat_add_mod8 [of a j] by (simp add: mod_add_left_eq [symmetric])
    obtain b where b: "f (a + of_nat j) = Some b" "j = 0 \<longrightarrow> b = 0x81" "0 < j \<and> j < 7 \<longrightarrow> b = 0"
      using assms(1) m unfolding striped_def by metis
    have "j = 0 \<or> j = 1 \<or> j = 2 \<or> j = 3 \<or> j = 4 \<or> j = 5 \<or> j = 6 \<or> j = 7" using that by arith
    then show ?thesis using b c by auto
  qed
  then have "spec_read f a 8 = ?l" using spec_read_chunk [of 8 f a ?l 8] by simp
  then have w: "word_at f a = Some (word_of_bytes ?l)" by (simp add: word_at_def)
  have "(word_of_bytes ?l :: u64) = 0x81 OR push_bit 56 (ucast c)"
    by (simp add: push_bit_push_bit)
  moreover have "take_bit 52 (0x81 OR push_bit 56 (ucast c)) = (0x81 :: u64)"
    by (rule bit_word_eqI) (auto simp: bit_simps dest: bit_imp_le_length)
  ultimately show ?thesis using w by simp
qed

lemma aligned_loc: "unat (clear_low 12 t OR push_bit 3 x :: u64) mod 8 = 0"
proof -
  have "take_bit 3 (clear_low 12 t OR push_bit 3 x :: u64) = 0"
    by (rule bit_word_eqI) (auto simp: bit_simps vmi_bits)
  moreover have "unat (take_bit 3 w) = unat w mod 8" for w :: u64
    by (simp add: take_bit_eq_mod unat_mod)
  ultimately show ?thesis by (metis unat_0)
qed

lemma striped_walk:
  assumes "striped f"
  shows "map_option fst (radix_walk (word_at f) False 4 pt va) = Some (take_bit 30 va)"
proof -
  define e where "e a = the (word_at f a)" for a
  have e: "word_at f (clear_low 12 t OR push_bit 3 x) = Some (e (clear_low 12 t OR push_bit 3 x))"
    "take_bit 52 (e (clear_low 12 t OR push_bit 3 x)) = 0x81" for t x
    using striped_word [OF assms aligned_loc [of t x]] by (auto simp: e_def)
  have "bit w n \<longleftrightarrow> bit (take_bit 52 w) n" if "n < 52" for w :: u64 and n using that by (simp add: bit_simps)
  then have b: "bit (e (clear_low 12 t OR push_bit 3 x)) n \<longleftrightarrow> bit (0x81 :: u64) n" if "n < 52" for t x n
    using that e(2) [of t x] by metis
  have b07: "bit (e (clear_low 12 t OR push_bit 3 x)) 0" "bit (e (clear_low 12 t OR push_bit 3 x)) 7" for t x
    using b [of 0 t x] b [of 7 t x] by (simp_all add: bit_numeral_rec)
  have z: "clear_low 30 (0x81 :: u64) = 0" by (simp add: clear_low_def drop_bit_eq_div)
  have four: "radix_walk f tp 4 = radix_walk f tp (Suc (Suc (Suc (Suc 0))))" for f tp
    by (simp add: numeral_eq_Suc)
  show ?thesis
    unfolding four by (simp add: e b07 entry_present_def Let_def z)
qed

lemma striped_guest_tr:
  assumes "striped (pbyte page)"
  shows "guest_tr page False (va, pt, npt) = Some (take_bit 30 va)"
proof -
  have p: "phys_tr page False pt va = Some (take_bit 30 va)" for pt va
    by (simp add: phys_tr_def striped_walk [OF assms])
  have v: "vbyte page (phys_tr page False npt) a = pbyte page (take_bit 30 a)" for a
    by (simp add: vbyte_def p)
  have m: "unat (take_bit 30 a) mod 8 = unat a mod 8" for a :: u64
  proof -
    have "unat (take_bit 30 a) = unat a mod 2 ^ 30" by (simp add: take_bit_eq_mod unat_mod)
    then show ?thesis by (simp add: mod_mod_cancel)
  qed
  have "striped (vbyte page (phys_tr page False npt))"
    using assms unfolding striped_def v by (metis m)
  then show ?thesis by (simp add: guest_tr_def p striped_walk)
qed

definition hv2 :: hypervisor where
  "hv2 = \<lparr> hv_p2m = (\<lambda>f. Some (unat f)), hv_mem = (\<lambda>m i. if i mod 8 = 0 then 0x81 else 0) \<rparr>"

lemma pbyte_hv2: "pbyte (xen_page xcr0 xcfg0 hv2) = (\<lambda>pa. Some (if unat pa mod 8 = 0 then 0x81 else 0))"
proof
  fix pa :: addr_t
  have "unat (take_bit 12 pa) mod 8 = unat pa mod 8" by (simp add: unat_low12 mod_mod_cancel)
  then show "pbyte (xen_page xcr0 xcfg0 hv2) pa = Some (if unat pa mod 8 = 0 then 0x81 else 0)"
    by (simp add: xen_pbyte xcr0_def hv2_def range_ok_def xen_cfg_def)
qed

lemma plain_xc0: "plain_mapping xcr0 xcw0"
  by (simp add: plain_mapping_def xcr0_def xcw0_def)

abbreviation va2 :: addr_t where "va2 \<equiv> 0xffffffff81800007"
abbreviation pa2 :: addr_t where "pa2 \<equiv> 0x1800007"

lemma code_site_hv2: "code_site xcr0 xcfg0 False 0x1000 va2 pa2 hv2"
proof -
  have str: "striped (spec_write (pbyte (xen_page xcr0 xcfg0 hv2)) pa2 [b])" for b
    by (auto simp: striped_def spec_write_def pbyte_hv2 unat_0_iff)
  have str0: "striped (pbyte (xen_page xcr0 xcfg0 hv2))" by (simp add: striped_def pbyte_hv2)
  have "guest_tr (xen_page xcr0 xcfg0 hv') False = guest_tr (xen_page xcr0 xcfg0 hv2) False"
    if "pbyte (xen_page xcr0 xcfg0 hv') = spec_write (pbyte (xen_page xcr0 xcfg0 hv2)) pa2 [b]" for hv' b
  proof
    fix k :: "addr_t \<times> addr_t \<times> addr_t"
    have "striped (pbyte (xen_page xcr0 xcfg0 hv'))" using str [of b] that by simp
    then show "guest_tr (xen_page xcr0 xcfg0 hv') False k = guest_tr (xen_page xcr0 xcfg0 hv2) False k"
      by (cases k) (simp add: striped_guest_tr str0)
  qed
  moreover have "distinct_frames xcr0 hv2"
    by (auto simp: distinct_frames_def xcr0_def hv2_def word_unat_eq_iff)
  moreover have "guest_tr (xen_page xcr0 xcfg0 hv2) False (va2, 0x1000, 0) = Some pa2"
    using striped_guest_tr [OF str0, of va2 "0x1000" 0] by (simp add: take_bit_eq_mod)
  ultimately show ?thesis
    unfolding code_site_def by (simp add: pbyte_hv2)
qed
end
