(* ===== verification/Tracer.thy ===== *)
theory Tracer
  imports Tracer_Client Xen_Stack
begin

text \<open>
  The system-call tracer, \<^verbatim>\<open>syscall-trace.c\<close> and \<^verbatim>\<open>vmi.c\<close>: loading the
  tables of names, handling one system call, the breakpoint at the system-call entry with its
  single-step re-arming, the variant with memory events, the tracing loop and the clean-up.

  The tracer's globals are the record \<open>tracer\<close>; together with the event state of the library
  they are a \<open>session\<close>.  The event structures are globals too and have fixed pointers:
  \<open>int_event\<close>, \<open>sstep_event\<close>, \<open>cr3_event\<close> and \<open>msr_syscall_event\<close>.
  Output to the standard output, the CSV file and the socket is collected in the state.
\<close>

section \<open>State\<close>

abbreviation (input) LEARN_MODE :: nat where "LEARN_MODE \<equiv> 0"
abbreviation (input) ANALYSIS_MODE :: nat where "ANALYSIS_MODE \<equiv> 1"
abbreviation (input) SANDBOX_MODE :: nat where "SANDBOX_MODE \<equiv> 2"
abbreviation (input) EDUCATIONAL_MODE :: nat where "EDUCATIONAL_MODE \<equiv> 3"
abbreviation (input) BREAKPOINT :: u8 where "BREAKPOINT \<equiv> 0xcc"
abbreviation (input) MSR_LSTAR :: reg_t where "MSR_LSTAR \<equiv> 71"

record bp_cb_data =
  bp_sym_vaddr :: u64
  bp_saved_opcode :: u8
  bp_hit_count :: u64

record tracer =
  tr_lstar :: u64
  tr_running_mode :: nat
  tr_saved_opcode :: u8
  tr_cb_data :: bp_cb_data
  tr_interrupted :: bool
  tr_mem_events_registered :: bool
  tr_sys_index :: "string list"
  tr_set_syscalls :: "string list"
  tr_frames :: frame_state
  tr_window_size :: int
  tr_stdout :: string
  tr_csv :: string

type_synonym 's tsession = "('s, tracer) session"

text \<open>What the tracer is linked with, and the stack's content in variables that a failing call leaves
  unset.\<close>

record 's tracer_env =
  te_env :: "'s xen_events vmi_env"
  te_xc :: "'s libxc"
  te_stack_rax :: u64
  te_stack_cr3 :: u64
  te_stack_regs :: syscall_regs

abbreviation (input) int_event :: event_ptr where "int_event \<equiv> 0"
abbreviation (input) sstep_event :: event_ptr where "sstep_event \<equiv> 1"
abbreviation (input) cr3_event :: event_ptr where "cr3_event \<equiv> 2"
abbreviation (input) msr_syscall_event :: event_ptr where "msr_syscall_event \<equiv> 3"

abbreviation (input) breakpoint_cb_id :: nat where "breakpoint_cb_id \<equiv> 0"
abbreviation (input) single_step_cb_id :: nat where "single_step_cb_id \<equiv> 1"
abbreviation (input) syscall_cb_id :: nat where "syscall_cb_id \<equiv> 2"
abbreviation (input) cr3_cb_id :: nat where "cr3_cb_id \<equiv> 3"

section \<open>Tables of names\<close>

text \<open>The lines \<^verbatim>\<open>fgets\<close> gives with a buffer of 256 bytes.\<close>

function fgets_all :: "string \<Rightarrow> string list" where
  "fgets_all s = (if s = [] then [] else fgets_line 255 s # fgets_all (drop (length (fgets_line 255 s)) s))"
  by pat_completeness auto
termination
proof (relation "measure length")
  fix s :: string assume "s \<noteq> []"
  then show "(drop (length (fgets_line 255 s)) s, s) \<in> measure length"
    using fgets_line_pos [of 255 s] by (simp add: diff_less)
qed simp

definition is_digit :: "char \<Rightarrow> bool" where
  "is_digit c \<longleftrightarrow> (let n = of_char c :: nat in 48 \<le> n \<and> n \<le> 57)"

text \<open>\<^verbatim>\<open>sscanf(line, "%d\t%s", ...)\<close>: the name, or the old content of the variable when the line
  does not match.\<close>

definition sscanf_name :: "string \<Rightarrow> string \<Rightarrow> string" where
  "sscanf_name line old =
     (let s = dropWhile is_space line;
          s = (case s of [] \<Rightarrow> [] | c # cs \<Rightarrow> if c = CHR ''-'' \<or> c = CHR ''+'' then cs else s);
          digits = takeWhile is_digit s;
          name = takeWhile (\<lambda>c. \<not> is_space c) (dropWhile is_space (dropWhile is_digit s))
      in if digits = [] \<or> name = [] then old else name)"

fun read_names :: "string \<Rightarrow> string list \<Rightarrow> string list" where
  "read_names old [] = []"
| "read_names old (l # ls) = (let name = sscanf_name l old in name # read_names name ls)"

text \<open>The two files (\<open>None\<close> when they cannot be opened); \<open>junk\<close> is the initial content of
  \<^verbatim>\<open>_name\<close>.  A missing index file is reported and read all the same.\<close>

definition read_syscall_table :: "string option \<Rightarrow> string option \<Rightarrow> string \<Rightarrow> tracer \<Rightarrow> tracer run" where
  "read_syscall_table index_file set_file junk t =
     (case index_file of
        None \<Rightarrow> Inl Null_pointer
      | Some text \<Rightarrow>
          let t = t\<lparr> tr_sys_index := tr_sys_index t @ read_names junk (fgets_all text) \<rparr> in
          if tr_running_mode t = SANDBOX_MODE then
            (case set_file of
               None \<Rightarrow> Inr t
             | Some lines \<Rightarrow> Inr (t\<lparr> tr_set_syscalls := tr_set_syscalls t @ map butlast (fgets_all lines) \<rparr>))
          else Inr t)"

definition check_set_syscalls :: "tracer \<Rightarrow> nat \<Rightarrow> bool" where
  "check_set_syscalls t index \<longleftrightarrow>
     index < length (tr_sys_index t) \<and> list_ex (\<lambda>name. tr_sys_index t ! index = name) (tr_set_syscalls t)"

section \<open>One system call\<close>

definition put_vmi :: "'s xen_events vmi_instance \<Rightarrow> 's tsession \<Rightarrow> 's tsession" where
  "put_vmi vmi s = (case s of (es, t) \<Rightarrow> (es\<lparr> es_vmi := vmi \<rparr>, t))"

definition put_tracer :: "(tracer \<Rightarrow> tracer) \<Rightarrow> 's tsession \<Rightarrow> 's tsession" where
  "put_tracer f s = (case s of (es, t) \<Rightarrow> (es, f t))"

definition show_args :: "args \<Rightarrow> string" where
  "show_args args = concat (map (\<lambda>a. case a of None \<Rightarrow> [] | Some str \<Rightarrow> str @ '' '') args) @ [CHR 0x0A]"

definition process_syscall :: "'s tracer_env \<Rightarrow> event_ptr \<Rightarrow> 's tsession \<Rightarrow> 's tsession run" where
  "process_syscall te p s = (case s of (es, t) \<Rightarrow>
     let env = te_env te;
         vcpu = ve_vcpu_id (es_heap es p);
         (rax, vmi) = get_reg env RAX vcpu (te_stack_rax te) (es_vmi es);
         (rdi, vmi) = get_reg env RDI vcpu 0 vmi;
         (cr3, vmi) = get_reg env CR3 vcpu (te_stack_cr3 te) vmi;
         (found, vmi) = vmi_dtb_to_pid env cr3 vmi;
         pid = (case found of None \<Rightarrow> - 1 | Some pid \<Rightarrow> pid);
         index = unat (ucast rax :: u16);
         learn = (tr_running_mode t = LEARN_MODE) in
     if tr_running_mode t = SANDBOX_MODE \<and> \<not> check_set_syscalls t index
     then Inr (put_vmi vmi s)
     else
       bind_run
         (if index \<ge> length (tr_sys_index t) then
            bind_run (sprintf 100 (''Process['' @ print_d pid @ '']: unknown syscall id: '' @ print_nat 10 index @ '' ''))
              (\<lambda>out. Inr (out, if learn then t\<lparr> tr_csv := tr_csv t @ print_d pid @ '', '' @ print_nat 10 index @ '', , '' \<rparr> else t))
          else
            bind_run (sprintf 100 (''PID['' @ print_d pid @ '']: '' @ tr_sys_index t ! index @ '' with args'')) (\<lambda>out.
              let t = (if learn then t\<lparr> tr_csv := tr_csv t @ print_d pid @ '', '' @ print_nat 10 index @ '', '' @
                                        tr_sys_index t ! index @ '', '' \<rparr> else t) in
              if tr_running_mode t = ANALYSIS_MODE then
                bind_run (append_syscall (tr_sys_index t ! index) (tr_window_size t) (tr_frames t))
                  (\<lambda>f. Inr (out, t\<lparr> tr_frames := f \<rparr>))
              else Inr (out, t)))
         (\<lambda>(out, t).
           bind_run (print_args env vcpu pid index learn (te_stack_regs te) (Some out # replicate 6 None) vmi)
             (\<lambda>(args, csv, vmi). Inr (es\<lparr> es_vmi := vmi \<rparr>,
                t\<lparr> tr_csv := tr_csv t @ csv, tr_stdout := tr_stdout t @ show_args args \<rparr>))))"

declare fgets_all.simps [simp del]

section \<open>Callbacks\<close>

definition tracer_driver :: "'s tracer_env \<Rightarrow> 's xen_events events_state \<Rightarrow> 's xen_events event_driver" where
  "tracer_driver te es = xen_event_driver (te_xc te) (es_num_vcpus es)"

text \<open>A write of one byte of kernel memory, as the breakpoint code uses it.\<close>

definition patch :: "'s tracer_env \<Rightarrow> addr_t \<Rightarrow> u8 \<Rightarrow> 's tsession \<Rightarrow> status \<times> 's tsession" where
  "patch te va b s = (case s of (es, t) \<Rightarrow>
     case vmi_write_va (te_env te) va 0 [b] (es_vmi es) of (st, n, vmi) \<Rightarrow> (st, es\<lparr> es_vmi := vmi \<rparr>, t))"

definition interrupt :: "'s tsession \<Rightarrow> event_response_t \<times> 's tsession" where
  "interrupt s = (VMI_EVENT_RESPONSE_NONE, put_tracer (\<lambda>t. t\<lparr> tr_interrupted := True \<rparr>) s)"

definition breakpoint_cb :: "'s tracer_env \<Rightarrow> event_ptr \<Rightarrow> 's tsession \<Rightarrow>
    (event_response_t \<times> 's tsession) run" where
  "breakpoint_cb te p s =
     (if ve_data (es_heap (fst s) p) = None then Inr (interrupt s)
      else
        let s = store_event p (\<lambda>e. e\<lparr> ve_reinject := 1,
                  ve_insn_length := (if ve_insn_length e = 0 then 1 else ve_insn_length e) \<rparr>) s;
            rip = xr_rip (ve_x86_regs (es_heap (fst s) p)) in
        if rip \<noteq> bp_sym_vaddr (tr_cb_data (snd s)) then
          Inr (VMI_EVENT_RESPONSE_NONE,
            put_tracer (\<lambda>t. t\<lparr> tr_stdout := tr_stdout t @ ''Not our breakpoint. Reinjecting INT3'' @ [CHR 0x0A] \<rparr>) s)
        else
          bind_run (process_syscall te p (store_event p (\<lambda>e. e\<lparr> ve_reinject := 0 \<rparr>) s)) (\<lambda>s.
            let s = put_tracer (\<lambda>t. t\<lparr> tr_cb_data := (tr_cb_data t)
                       \<lparr> bp_hit_count := bp_hit_count (tr_cb_data t) + 1 \<rparr> \<rparr>) s
            in case patch te rip (bp_saved_opcode (tr_cb_data (snd s))) s of
                 (VMI_FAILURE, s) \<Rightarrow> Inr (interrupt s)
               | (VMI_SUCCESS, s) \<Rightarrow> Inr (VMI_EVENT_RESPONSE_TOGGLE_SINGLESTEP, s)))"

definition single_step_cb :: "'s tracer_env \<Rightarrow> event_ptr \<Rightarrow> 's tsession \<Rightarrow> event_response_t \<times> 's tsession" where
  "single_step_cb te p s =
     (if ve_data (es_heap (fst s) p) = None then interrupt s
      else case patch te (bp_sym_vaddr (tr_cb_data (snd s))) BREAKPOINT s of
        (VMI_FAILURE, s) \<Rightarrow> interrupt s
      | (VMI_SUCCESS, s) \<Rightarrow> (VMI_EVENT_RESPONSE_TOGGLE_SINGLESTEP, s))"

text \<open>The variant that watches the page of the entry point: the event is cleared and registered again
  after one step.\<close>

definition step_over :: "'s tracer_env \<Rightarrow> event_ptr \<Rightarrow> 's tsession \<Rightarrow> 's tsession" where
  "step_over te p s = (case s of (es, t) \<Rightarrow>
     let es = snd (vmi_clear_event (tracer_driver te es) p None es);
         es = snd (vmi_step_event (tracer_driver te es) p (ve_vcpu_id (es_heap es p)) 1 None es)
     in (es, t))"

definition syscall_cb :: "'s tracer_env \<Rightarrow> event_ptr \<Rightarrow> 's tsession \<Rightarrow> (event_response_t \<times> 's tsession) run" where
  "syscall_cb te p s =
     (if ve_offset (es_heap (fst s) p) \<noteq> VMI_BIT_MASK 0 11 AND tr_lstar (snd s)
      then Inr (0, step_over te p s)
      else bind_run (process_syscall te p s) (\<lambda>s. Inr (0, step_over te p s)))"

definition register_lstar_mem_event :: "'s tracer_env \<Rightarrow> event_ptr \<Rightarrow> 's tsession \<Rightarrow> bool \<times> 's tsession" where
  "register_lstar_mem_event te p s = (case s of (es, t) \<Rightarrow>
     let regs = ve_x86_regs (es_heap es p);
         lstar = xr_msr_lstar regs;
         (found, vmi) = vmi_pagetable_lookup (te_env te) (xr_cr3 regs) lstar (es_vmi es);
         phys_lstar = (case found of None \<Rightarrow> 0 | Some pa \<Rightarrow> pa);
         e = (es_heap es msr_syscall_event)\<lparr> ve_version := VMI_EVENTS_VERSION, ve_type := VMI_EVENT_MEMORY,
               ve_gfn := drop_bit 12 phys_lstar, ve_mem_in_access := VMI_MEMACCESS_X,
               ve_callback := CB_user syscall_cb_id \<rparr>;
         es = es\<lparr> es_vmi := vmi, es_heap := (es_heap es)(msr_syscall_event := e) \<rparr>;
         t = t\<lparr> tr_lstar := lstar \<rparr> in
     if phys_lstar = 0 then (False, es, t)
     else let (st, es) = vmi_register_event (tracer_driver te es) msr_syscall_event es
          in (st = VMI_SUCCESS, es, t))"

definition cr3_register_task_callback :: "'s tracer_env \<Rightarrow> event_ptr \<Rightarrow> 's tsession \<Rightarrow>
    event_response_t \<times> 's tsession" where
  "cr3_register_task_callback te p s =
     (let s = (if tr_mem_events_registered (snd s) then s
               else let (ok, s) = register_lstar_mem_event te p s
                    in put_tracer (\<lambda>t. t\<lparr> tr_mem_events_registered := ok \<rparr>) s)
      in case s of (es, t) \<Rightarrow> (0, snd (vmi_clear_event (tracer_driver te es) cr3_event None es), t))"

definition register_mem_events :: "'s tracer_env \<Rightarrow> 's tsession \<Rightarrow> status \<times> 's tsession" where
  "register_mem_events te s = (case s of (es, t) \<Rightarrow>
     let e = event_zero\<lparr> ve_version := VMI_EVENTS_VERSION, ve_type := VMI_EVENT_REGISTER,
               ve_callback := CB_user cr3_cb_id, ve_reg := CR3, ve_reg_in_access := VMI_REGACCESS_W \<rparr>;
         es = es\<lparr> es_heap := (es_heap es)(cr3_event := e) \<rparr>;
         (st, es) = vmi_register_event (tracer_driver te es) cr3_event es
     in (st, es, t))"

definition tracer_client :: "'s tracer_env \<Rightarrow> ('s, tracer) client" where
  "tracer_client te = \<lparr> cl_callback = (\<lambda>n p s.
       if n = breakpoint_cb_id then (case breakpoint_cb te p s of Inl e \<Rightarrow> None | Inr r \<Rightarrow> Some r)
       else if n = single_step_cb_id then Some (single_step_cb te p s)
       else if n = syscall_cb_id then (case syscall_cb te p s of Inl e \<Rightarrow> None | Inr r \<Rightarrow> Some r)
       else if n = cr3_cb_id then Some (cr3_register_task_callback te p s)
       else None),
     cl_step = (\<lambda>n p es. es) \<rparr>"

section \<open>Setting the breakpoint\<close>

definition sstep_setup :: "nat \<Rightarrow> vmi_event \<Rightarrow> vmi_event" where
  "sstep_setup num_vcpus e =
     (let e = e\<lparr> ve_version := VMI_EVENTS_VERSION, ve_type := VMI_EVENT_SINGLESTEP,
               ve_callback := CB_user single_step_cb_id, ve_enable := False \<rparr>
      in (fold (\<lambda>vcpu e. SET_VCPU_SINGLESTEP e vcpu) [0..<num_vcpus] e)\<lparr> ve_data := Some 0 \<rparr>)"

definition int_setup :: vmi_event where
  "int_setup = event_zero\<lparr> ve_version := VMI_EVENTS_VERSION, ve_type := VMI_EVENT_INTERRUPT, ve_intr := INT3,
     ve_callback := CB_user breakpoint_cb_id, ve_data := Some 0 \<rparr>"

definition register_at :: "'s tracer_env \<Rightarrow> event_ptr \<Rightarrow> (vmi_event \<Rightarrow> vmi_event) \<Rightarrow> 's tsession \<Rightarrow>
    status \<times> 's tsession" where
  "register_at te p f s = (case store_event p f s of (es, t) \<Rightarrow>
     let (st, es) = vmi_register_event (tracer_driver te es) p es in (st, es, t))"

text \<open>The value the function returns: on success the source has no \<^verbatim>\<open>return\<close> statement, which
  is \<open>None\<close>.\<close>

definition set_lstar_breakpoint :: "'s tracer_env \<Rightarrow> 's tsession \<Rightarrow> u32 option \<times> 's tsession" where
  "set_lstar_breakpoint te s =
     (case vmi_get_vcpureg (te_env te) MSR_LSTAR 0 (es_vmi (fst s)) of
        (None, vmi) \<Rightarrow> (Some 1, put_vmi vmi s)
      | (Some lstar, vmi) \<Rightarrow>
          let s = put_tracer (\<lambda>t. t\<lparr> tr_lstar := lstar \<rparr>) (put_vmi vmi s);
              (st, s) = with_driver (xen_pause_vm (te_xc te)) s in
          if st = VMI_FAILURE then (Some 1, s)
          else
            (case vmi_read_va (te_env te) lstar 0 1 (es_vmi (fst s)) of
               (VMI_FAILURE, bs, vmi) \<Rightarrow>
                 (Some 1, put_tracer (\<lambda>t. if bs = [] then t else t\<lparr> tr_saved_opcode := hd bs \<rparr>) (put_vmi vmi s))
             | (VMI_SUCCESS, bs, vmi) \<Rightarrow>
                 let s = put_tracer (\<lambda>t. t\<lparr> tr_saved_opcode := hd bs \<rparr>) (put_vmi vmi s);
                     (st, s) = patch te lstar BREAKPOINT s in
                 if st = VMI_FAILURE then (Some 1, s)
                 else
                   let s = put_tracer (\<lambda>t. t\<lparr> tr_cb_data := \<lparr> bp_sym_vaddr = lstar,
                             bp_saved_opcode = tr_saved_opcode t, bp_hit_count = 0 \<rparr> \<rparr>) s;
                       (st, s) = register_at te int_event (\<lambda>_. int_setup) s in
                   if st = VMI_FAILURE then (Some 1, s)
                   else
                     let (st, s) = register_at te sstep_event (sstep_setup (es_num_vcpus (fst s))) s in
                     if st = VMI_FAILURE then (Some 1, s)
                     else
                       let (st, s) = with_driver (xen_resume_vm (te_xc te)) s in
                       (if st = VMI_FAILURE then Some 1 else None, s)))"

section \<open>The session\<close>

text \<open>One round of the loop: what the listening call meets, the seconds since the start, and
  whether a signal arrived.\<close>

record round =
  rd_listen :: listen_env
  rd_elapsed :: int
  rd_signal :: bool

definition no_watch :: "'s tsession \<Rightarrow> status \<times> 's tsession" where
  "no_watch s = (VMI_SUCCESS, s)"

fun trace_loop :: "'s tracer_env \<Rightarrow> int \<Rightarrow> round list \<Rightarrow> ring \<Rightarrow> 's tsession \<Rightarrow> (ring \<times> 's tsession) run" where
  "trace_loop te set_time [] r s = Inr (r, s)"
| "trace_loop te set_time (rd # rds) r s =
     (if tr_interrupted (snd s) then Inr (r, s)
      else case vmi_events_listen (tracer_client te) (te_xc te) (rd_listen rd) no_watch 500 r s of
        None \<Rightarrow> Inl No_return
      | Some (st, r, s) \<Rightarrow>
          trace_loop te set_time rds r
            (if st \<noteq> VMI_SUCCESS \<or> set_time > 0 \<and> rd_elapsed rd > set_time * 60 \<or> rd_signal rd
             then put_tracer (\<lambda>t. t\<lparr> tr_interrupted := True \<rparr>) s else s))"

definition vmi_are_events_pending :: "'s tsession \<Rightarrow> ring \<Rightarrow> int" where
  "vmi_are_events_pending s r =
     (if \<not> bit (es_init_flags (fst s)) 2 then - 1 else if rg_requests r = [] then 0 else 1)"

definition cleanup :: "'s tracer_env \<Rightarrow> listen_env \<Rightarrow> ring \<Rightarrow> 's tsession \<Rightarrow> (ring \<times> 's tsession) run" where
  "cleanup te le r s =
     (let (_, s) = with_driver (xen_pause_vm (te_xc te)) s;
          s = (if tr_saved_opcode (snd s) \<noteq> 0
               then snd (patch te (tr_lstar (snd s)) (tr_saved_opcode (snd s)) s) else s) in
      bind_run
        (if vmi_are_events_pending s r \<noteq> 0 then
           (case vmi_events_listen (tracer_client te) (te_xc te) le no_watch 0 r s of
              None \<Rightarrow> Inl No_return
            | Some (st, r, s) \<Rightarrow> Inr (r, s))
         else Inr (r, s))
        (\<lambda>(r, es, t).
          let es = snd (vmi_clear_event (tracer_driver te es) int_event None es);
              es = snd (vmi_clear_event (tracer_driver te es) sstep_event None es);
              (_, s) = with_driver (xen_resume_vm (te_xc te)) (es, t)
          in Inr (r, s)))"

text \<open>\<^verbatim>\<open>introspect_syscall_trace\<close> from the point where the library is set up; \<open>ret\<close> is what the
  caller finds as the result of a function without a return value.  The parameter
  \<^verbatim>\<open>window_size\<close> is not used; the global of that name is.\<close>

definition introspect_syscall_trace :: "'s tracer_env \<Rightarrow> nat \<Rightarrow> int \<Rightarrow> int \<Rightarrow> u32 \<Rightarrow> round list \<Rightarrow> listen_env \<Rightarrow>
    ring \<Rightarrow> 's tsession \<Rightarrow> (ring \<times> 's tsession) run" where
  "introspect_syscall_trace te set_mode window_size set_time ret rounds le r s =
     (let s = (if set_mode = LEARN_MODE then put_tracer (\<lambda>t. t\<lparr> tr_csv := csv_header \<rparr>) s else s);
          (result, s) = set_lstar_breakpoint te s in
      bind_run (if (case result of Some v \<Rightarrow> v | None \<Rightarrow> ret) = 0 then trace_loop te set_time rounds r s else Inr (r, s))
        (\<lambda>(r, s). cleanup te le r s))"

section \<open>Command line\<close>

datatype cmd_option = Opt_h | Opt_v string | Opt_m string | Opt_s | Opt_w int | Opt_t int | Opt_unknown

record cmd_state =
  cs_vm_name :: "string option"
  cs_mode :: "string option"
  cs_window_size :: int
  cs_time :: int

text \<open>\<open>None\<close> is the help text, after which the program ends.\<close>

fun parse_options :: "cmd_option list \<Rightarrow> cmd_state \<Rightarrow> cmd_state option" where
  "parse_options [] c = Some c"
| "parse_options (Opt_h # os) c = None"
| "parse_options (Opt_v n # os) c = parse_options os (c\<lparr> cs_vm_name := Some n \<rparr>)"
| "parse_options (Opt_m m # os) c = parse_options os (c\<lparr> cs_mode := Some m \<rparr>)"
| "parse_options (Opt_s # os) c = parse_options os c"
| "parse_options (Opt_w w # os) c = parse_options os (c\<lparr> cs_window_size := w \<rparr>)"
| "parse_options (Opt_t n # os) c = parse_options os (c\<lparr> cs_time := n \<rparr>)"
| "parse_options (Opt_unknown # os) c = parse_options os c"

definition mode_of :: "string \<Rightarrow> nat option" where
  "mode_of m =
     (if m = ''learn'' then Some LEARN_MODE else if m = ''analyze'' then Some ANALYSIS_MODE
      else if m = ''educational'' then Some EDUCATIONAL_MODE else if m = ''sandbox'' then Some SANDBOX_MODE
      else None)"

text \<open>The session the program starts, if any: name, mode, window and time.\<close>

definition vmi_main :: "cmd_option list \<Rightarrow> (string \<times> nat \<times> int \<times> int) option" where
  "vmi_main os =
     (case parse_options os \<lparr> cs_vm_name = None, cs_mode = None, cs_window_size = 10, cs_time = - 1 \<rparr> of
        None \<Rightarrow> None
      | Some c \<Rightarrow>
          (case (cs_vm_name c, cs_mode c) of
             (Some n, Some m) \<Rightarrow> map_option (\<lambda>mode. (n, mode, cs_window_size c, cs_time c)) (mode_of m)
           | _ \<Rightarrow> None))"

section \<open>Handling a system call keeps the code\<close>

text \<open>The fields of an event structure that decide where it is dispatched.\<close>

definition same_wiring :: "vmi_event \<Rightarrow> vmi_event \<Rightarrow> bool" where
  "same_wiring e e' \<longleftrightarrow> ve_type e' = ve_type e \<and> ve_callback e' = ve_callback e \<and> ve_data e' = ve_data e \<and>
     ve_enable e' = ve_enable e \<and> ve_intr e' = ve_intr e"

lemma same_wiring_refl [simp]: "same_wiring e e"
  by (simp add: same_wiring_def)

lemma same_wiring_trans: "same_wiring a b \<Longrightarrow> same_wiring b c \<Longrightarrow> same_wiring a c"
  by (simp add: same_wiring_def)

text \<open>The site of the breakpoint: the library's contract for patching code, for the tracer's
  environment, and that the driver's own data can change under it.\<close>

locale breakpoint_site = code_patching "te_env te" va has
  for te :: "'s tracer_env" and va :: addr_t and has :: "u8 \<Rightarrow> 's xen_events vmi_instance \<Rightarrow> bool" +
  assumes drv: "has a v \<Longrightarrow> xe_xen x = xe_xen (vi_driver v) \<Longrightarrow> has a (v\<lparr> vi_driver := x \<rparr>)"
begin

lemma get_reg_has: "has a v \<Longrightarrow> get_reg (te_env te) g n old v = (r, w) \<Longrightarrow> has a w"
  using reg [of a v g n]
  by (auto simp: get_reg_def vmi_get_vcpureg_def split: prod.splits option.splits)

lemma get_syscall_regs_has: "has a v \<Longrightarrow> get_syscall_regs (te_env te) n old v = (r, w) \<Longrightarrow> has a w"
proof -
  assume "has a v" and r: "get_syscall_regs (te_env te) n old v = (r, w)"
  moreover have "has a u \<Longrightarrow> has a (snd (get_reg (te_env te) g m x u))" for u g m x
    by (rule get_reg_has [of a u g m x "fst (get_reg (te_env te) g m x u)"]) simp_all
  moreover have "snd (get_syscall_regs (te_env te) n old v) = w" using r by simp
  ultimately show "has a w" by (auto simp: get_syscall_regs_def Let_def case_prod_beta)
qed

lemma read_arg_has: "has a v \<Longrightarrow> read_arg (te_env te) u pid v = Inr (s, w) \<Longrightarrow> has a w"
  by (auto simp: read_arg_def split: option.splits dest: str)

lemma print_has:
  assumes "has a v"
  shows "print_open (te_env te) pid regs args v = Inr (args', w) \<Longrightarrow> has a w"
    and "print_execve (te_env te) pid regs args v = Inr (args', w) \<Longrightarrow> has a w"
    and "print_openat (te_env te) pid regs args v = Inr (args', w) \<Longrightarrow> has a w"
    and "print_write (te_env te) pid regs args v = Inr (args', w) \<Longrightarrow> has a w"
  using assms
  by (auto simp: print_open_def print_execve_def print_openat_def print_write_def bind_run_Inr
      split: prod.splits dest: read_arg_has)

lemma print_args_has:
  assumes "has a v" and "print_args (te_env te) n pid i learn old args v = Inr (args', csv, w)"
  shows "has a w"
proof -
  obtain regs u where u: "get_syscall_regs (te_env te) n old v = (regs, u)" by fastforce
  have h: "has a u" by (rule get_syscall_regs_has [OF assms(1) u])
  show ?thesis
    using assms(2) print_has [OF h] h
    unfolding print_args_def u Let_def prod.case
    by (auto simp: bind_run_Inr split: if_splits)
qed

lemma process_syscall_has:
  assumes "has a (es_vmi es)" and "process_syscall te p (es, t) = Inr (es', t')"
  shows "has a (es_vmi es') \<and> es' = es\<lparr> es_vmi := es_vmi es' \<rparr> \<and> tr_cb_data t' = tr_cb_data t \<and>
    tr_saved_opcode t' = tr_saved_opcode t \<and> tr_lstar t' = tr_lstar t"
proof -
  let ?n = "ve_vcpu_id (es_heap es p)"
  obtain rax v1 where v1: "get_reg (te_env te) RAX ?n (te_stack_rax te) (es_vmi es) = (rax, v1)" by fastforce
  obtain rdi v2 where v2: "get_reg (te_env te) RDI ?n 0 v1 = (rdi, v2)" by fastforce
  obtain cr3 v3 where v3: "get_reg (te_env te) CR3 ?n (te_stack_cr3 te) v2 = (cr3, v3)" by fastforce
  obtain pd v4 where v4: "vmi_dtb_to_pid (te_env te) cr3 v3 = (pd, v4)" by fastforce
  have h: "has a v4"
    using dtb [of a v3 cr3] get_reg_has [OF _ v3] get_reg_has [OF _ v2] get_reg_has [OF assms(1) v1] v4 by simp
  from assms(2) print_args_has [OF h] h show ?thesis
    unfolding process_syscall_def prod.case Let_def v1 v2 v3 v4
    by (auto simp: bind_run_Inr put_vmi_def split: if_splits)
qed

lemma patch_has: "has a (es_vmi es) \<Longrightarrow> \<exists>w. patch te va b (es, t) = (VMI_SUCCESS, es\<lparr> es_vmi := w \<rparr>, t) \<and> has b w"
  using put [of a "es_vmi es" b] by (auto simp: patch_def)

section \<open>The callbacks\<close>

text \<open>What a callback may change: the instance, and fields of its event that do not decide where it
  is dispatched.\<close>

lemma breakpoint_cb_other:
  assumes "ve_data (es_heap es p) \<noteq> None" and "xr_rip (ve_x86_regs (es_heap es p)) \<noteq> bp_sym_vaddr (tr_cb_data t)"
    and "breakpoint_cb te p (es, t) = Inr (r, es', t')"
  shows "r = VMI_EVENT_RESPONSE_NONE" and "ve_reinject (es_heap es' p) = 1"
    and "\<exists>e. es' = es\<lparr> es_heap := (es_heap es)(p := e) \<rparr> \<and> same_wiring (es_heap es p) e"
    and "tr_cb_data t' = tr_cb_data t" and "tr_saved_opcode t' = tr_saved_opcode t" and "tr_lstar t' = tr_lstar t"
  using assms by (auto simp: breakpoint_cb_def store_event_def put_tracer_def Let_def same_wiring_def intro!: exI)

lemma breakpoint_cb_hit:
  assumes "has a (es_vmi es)" and "ve_data (es_heap es p) \<noteq> None"
    and "xr_rip (ve_x86_regs (es_heap es p)) = va" and "bp_sym_vaddr (tr_cb_data t) = va"
    and "breakpoint_cb te p (es, t) = Inr (r, es', t')"
  shows "r = VMI_EVENT_RESPONSE_TOGGLE_SINGLESTEP" and "ve_reinject (es_heap es' p) = 0"
    and "has (bp_saved_opcode (tr_cb_data t)) (es_vmi es')"
    and "\<exists>e w. es' = es\<lparr> es_heap := (es_heap es)(p := e), es_vmi := w \<rparr> \<and> same_wiring (es_heap es p) e"
    and "tr_cb_data t' = (tr_cb_data t)\<lparr> bp_hit_count := bp_hit_count (tr_cb_data t) + 1 \<rparr>"
    and "tr_saved_opcode t' = tr_saved_opcode t" and "tr_lstar t' = tr_lstar t"
proof -
  define s1 where "s1 = store_event p (\<lambda>e. e\<lparr> ve_reinject := 1,
      ve_insn_length := (if ve_insn_length e = 0 then 1 else ve_insn_length e) \<rparr>) (es, t)"
  have s1: "xr_rip (ve_x86_regs (es_heap (fst s1) p)) = va" "snd s1 = t"
    using assms(3) by (simp_all add: s1_def store_event_def)
  obtain e where e: "store_event p (\<lambda>e. e\<lparr> ve_reinject := 0 \<rparr>) s1 = (es\<lparr> es_heap := (es_heap es)(p := e) \<rparr>, t)"
    "same_wiring (es_heap es p) e" "ve_reinject e = 0"
    by (simp add: s1_def store_event_def same_wiring_def)
  define es0 where "es0 = es\<lparr> es_heap := (es_heap es)(p := e) \<rparr>"
  note run = assms(5) [unfolded breakpoint_cb_def Let_def fst_conv, folded s1_def, unfolded s1 e(1), folded es0_def]
  obtain es1 t1 where ps: "process_syscall te p (es0, t) = Inr (es1, t1)"
    using run assms(2,4) by (auto simp: bind_run_Inr)
  obtain w1 where h1: "has a w1" "es1 = es0\<lparr> es_vmi := w1 \<rparr>" "tr_cb_data t1 = tr_cb_data t"
    "tr_saved_opcode t1 = tr_saved_opcode t" "tr_lstar t1 = tr_lstar t"
    using process_syscall_has [OF _ ps, of a] assms(1) by (auto simp: es0_def)
  let ?t = "t1\<lparr> tr_cb_data := (tr_cb_data t)\<lparr> bp_hit_count := bp_hit_count (tr_cb_data t) + 1 \<rparr> \<rparr>"
  have "has a (es_vmi es1)" using h1(1,2) by simp
  then obtain w where w: "patch te va (bp_saved_opcode (tr_cb_data t)) (es1, ?t) = (VMI_SUCCESS, es1\<lparr> es_vmi := w \<rparr>, ?t)"
    "has (bp_saved_opcode (tr_cb_data t)) w"
    using patch_has by blast
  have "r = VMI_EVENT_RESPONSE_TOGGLE_SINGLESTEP \<and> es' = es1\<lparr> es_vmi := w \<rparr> \<and> t' = ?t"
    using run assms(2,4) w(1) by (auto simp: ps h1(3) put_tracer_def)
  then have res: "r = VMI_EVENT_RESPONSE_TOGGLE_SINGLESTEP" "es' = es\<lparr> es_heap := (es_heap es)(p := e), es_vmi := w \<rparr>" "t' = ?t"
    by (simp_all add: h1(2) es0_def)
  show "r = VMI_EVENT_RESPONSE_TOGGLE_SINGLESTEP" "ve_reinject (es_heap es' p) = 0"
    "has (bp_saved_opcode (tr_cb_data t)) (es_vmi es')"
    "tr_cb_data t' = (tr_cb_data t)\<lparr> bp_hit_count := bp_hit_count (tr_cb_data t) + 1 \<rparr>"
    "tr_saved_opcode t' = tr_saved_opcode t" "tr_lstar t' = tr_lstar t"
    using res w(2) e(3) h1(4,5) by simp_all
  show "\<exists>e w. es' = es\<lparr> es_heap := (es_heap es)(p := e), es_vmi := w \<rparr> \<and> same_wiring (es_heap es p) e"
    using res(2) e(2) by blast
qed

lemma single_step_cb_arms:
  assumes "has a (es_vmi es)" and "ve_data (es_heap es p) \<noteq> None" and "bp_sym_vaddr (tr_cb_data t) = va"
  shows "\<exists>w. single_step_cb te p (es, t) = (VMI_EVENT_RESPONSE_TOGGLE_SINGLESTEP, es\<lparr> es_vmi := w \<rparr>, t) \<and> has BREAKPOINT w"
  using patch_has [OF assms(1), of BREAKPOINT t] assms(2,3) by (auto simp: single_step_cb_def)

end

section \<open>The protocol\<close>

text \<open>What can happen to the session of a guest with one virtual CPU: a breakpoint that is not ours, ours while the CPU is not
  single-stepping, a single step while it is, and other work on the event structures.  The flag
  says whether the CPU is being single-stepped; the answer of a callback toggles it.\<close>

definition toggled :: "event_response_t \<Rightarrow> bool \<Rightarrow> bool" where
  "toggled r b = (if r = VMI_EVENT_RESPONSE_TOGGLE_SINGLESTEP then \<not> b else b)"

inductive traced :: "'s tracer_env \<Rightarrow> 's tsession \<Rightarrow> 's tsession \<Rightarrow> bool \<Rightarrow> bool" for te s0 where
  start: "traced te s0 s0 False"
| hit: "traced te s0 (es, t) False \<Longrightarrow> ve_data (es_heap es p) \<noteq> None \<Longrightarrow>
    xr_rip (ve_x86_regs (es_heap es p)) = bp_sym_vaddr (tr_cb_data t) \<Longrightarrow>
    breakpoint_cb te p (es, t) = Inr (r, s') \<Longrightarrow> traced te s0 s' (toggled r False)"
| other: "traced te s0 (es, t) b \<Longrightarrow> ve_data (es_heap es p) \<noteq> None \<Longrightarrow>
    xr_rip (ve_x86_regs (es_heap es p)) \<noteq> bp_sym_vaddr (tr_cb_data t) \<Longrightarrow>
    breakpoint_cb te p (es, t) = Inr (r, s') \<Longrightarrow> traced te s0 s' (toggled r b)"
| step: "traced te s0 (es, t) True \<Longrightarrow> ve_data (es_heap es p) \<noteq> None \<Longrightarrow>
    single_step_cb te p (es, t) = (r, s') \<Longrightarrow> traced te s0 s' (toggled r True)"
| work: "traced te s0 (es, t) b \<Longrightarrow> es_vmi es' = es_vmi es \<Longrightarrow> traced te s0 (es', t) b"

context breakpoint_site
begin

definition armed :: "u8 \<Rightarrow> 's tsession \<Rightarrow> bool \<Rightarrow> bool" where
  "armed opcode s b \<longleftrightarrow> has (if b then opcode else BREAKPOINT) (es_vmi (fst s)) \<and>
     bp_sym_vaddr (tr_cb_data (snd s)) = va \<and> bp_saved_opcode (tr_cb_data (snd s)) = opcode"

lemma traced_armed:
  assumes "traced te s0 s b" and "armed opcode s0 False"
  shows "armed opcode s b"
  using assms(1)
proof (induction rule: traced.induct)
  case start
  show ?case by (rule assms(2))
next
  case (hit es t p r s')
  then show ?case
    using breakpoint_cb_hit [of BREAKPOINT es p t r "fst s'" "snd s'"] by (auto simp: armed_def toggled_def)
next
  case (other es t b p r s')
  then show ?case
    using breakpoint_cb_other [of es p t r "fst s'" "snd s'"] by (auto simp: armed_def toggled_def)
next
  case (step es t p r s')
  then show ?case
    using single_step_cb_arms [of opcode es p t] by (auto simp: armed_def toggled_def)
next
  case (work es t b es')
  then show ?case by (simp add: armed_def)
qed

end

section \<open>Names of the sandbox\<close>

lemma fgets_all_lines:
  assumes "\<forall>l \<in> set ls. CHR 0x0A \<notin> set l \<and> length l < 255" and "CHR 0x0A \<notin> set z" and "length z \<le> 255"
  shows "fgets_all (concat (map (\<lambda>l. l @ [CHR 0x0A]) ls) @ z) =
    map (\<lambda>l. l @ [CHR 0x0A]) ls @ (if z = [] then [] else [z])"
  using assms(1)
proof (induction ls)
  case Nil
  then show ?case
    using fgets_line_end [OF assms(2,3)] by (simp add: fgets_all.simps [of z]) (simp add: fgets_all.simps)
next
  case (Cons l ls)
  then show ?case by (simp add: fgets_all.simps [of "l @ _"] fgets_line_newline)
qed

definition sandbox0 :: tracer where
  "sandbox0 = \<lparr> tr_lstar = 0, tr_running_mode = SANDBOX_MODE, tr_saved_opcode = 0,
     tr_cb_data = \<lparr> bp_sym_vaddr = 0, bp_saved_opcode = 0, bp_hit_count = 0 \<rparr>, tr_interrupted = False,
     tr_mem_events_registered = False, tr_sys_index = [], tr_set_syscalls = [],
     tr_frames = \<lparr> fs_buffer = [], fs_index = 0, fs_sent = [] \<rparr>, tr_window_size = 10, tr_stdout = [], tr_csv = [] \<rparr>"

text \<open>The names of the calls a sandbox watches: a file of lines, each ended by a newline, gives its lines, but
  a last line without a newline loses its last character.  The file that is shipped ends
  without one, so that its last call, \<^verbatim>\<open>open\<close>, is never recognised.\<close>

theorem sandbox_names_read:
  assumes "\<forall>l \<in> set ls. CHR 0x0A \<notin> set l \<and> length l < 255" and "CHR 0x0A \<notin> set z" and "length z \<le> 255"
    and "tr_running_mode t = SANDBOX_MODE"
  shows "\<exists>t'. read_syscall_table (Some index_file) (Some (concat (map (\<lambda>l. l @ [CHR 0x0A]) ls) @ z)) junk t = Inr t' \<and>
    tr_set_syscalls t' = tr_set_syscalls t @ ls @ (if z = [] then [] else [butlast z])"
  using assms(4) by (simp add: read_syscall_table_def Let_def fgets_all_lines [OF assms(1-3)] comp_def)

theorem sandbox_names_read_witness:
  "\<exists>t'. read_syscall_table (Some []) (Some (''execve'' @ CHR 0x0A # ''socket'' @ CHR 0x0A # ''open'')) [] sandbox0 = Inr t' \<and>
     tr_set_syscalls t' = [''execve'', ''socket'', ''ope'']"
  using sandbox_names_read [of "[''execve'', ''socket'']" "''open''" sandbox0 "[]" "[]"] by (simp add: sandbox0_def)

end
