(* ===== verification/Tracer_Session.thy ===== *)
theory Tracer_Session
  imports Tracer
begin

text \<open>
  A whole session of the tracer against the library and the driver: whatever requests the guest
  raises, what changes in the guest's memory is one byte, and the clean-up puts it back unless a
  single step is still pending.
\<close>


section \<open>The driver's control calls keep the guest\<close>

text \<open>The control calls of \<^verbatim>\<open>libxc\<close> do not change the guest's memory or the library's page
  cache.\<close>

definition calm_xc :: "'s libxc \<Rightarrow> bool" where
  "calm_xc xc \<longleftrightarrow> (\<forall>d. snd (xc_domain_pause xc d) = d) \<and> (\<forall>d. snd (xc_domain_unpause xc d) = d) \<and>
     (\<forall>b d. snd (xc_monitor_software_breakpoint xc b d) = d) \<and> (\<forall>b d. snd (xc_monitor_singlestep xc b d) = d) \<and>
     (\<forall>b v d. snd (xc_domain_debug_control xc b v d) = d) \<and> (\<forall>p d. snd (xc_evtchn_notify xc p d) = d) \<and>
     (\<forall>d. snd (xc_evtchn_pending xc d) = d) \<and> (\<forall>p d. snd (xc_evtchn_unmask xc p d) = d) \<and>
     (\<forall>v a b c e d. snd (xc_hvm_inject_trap xc v a b c e d) = d)"

lemma calm_xc_call [simp]:
  assumes "calm_xc xc"
  shows "xe_xen (snd (xc_call (xc_domain_pause xc) x)) = xe_xen x"
    "xe_xen (snd (xc_call (xc_domain_unpause xc) x)) = xe_xen x"
    "xe_xen (snd (xc_call (xc_monitor_software_breakpoint xc b) x)) = xe_xen x"
    "xe_xen (snd (xc_call (xc_monitor_singlestep xc b) x)) = xe_xen x"
    "xe_xen (snd (xc_call (xc_domain_debug_control xc b v) x)) = xe_xen x"
    "xe_xen (snd (xc_call (xc_evtchn_notify xc p) x)) = xe_xen x"
    "xe_xen (snd (xc_call (xc_evtchn_pending xc) x)) = xe_xen x"
    "xe_xen (snd (xc_call (xc_evtchn_unmask xc p) x)) = xe_xen x"
    "xe_xen (snd (xc_call (xc_hvm_inject_trap xc vcpu k l m q) x)) = xe_xen x"
  using assms by (simp_all add: xc_call_simps calm_xc_def)

lemma calm_pause [simp]:
  assumes "calm_xc xc"
  shows "xe_xen (snd (xen_pause_vm xc x)) = xe_xen x" "xe_xen (snd (xen_resume_vm xc x)) = xe_xen x"
    "xe_xen (snd (xen_set_int3_access xc en x)) = xe_xen x" "xe_xen (snd (xen_stop_single_step xc v x)) = xe_xen x"
  using assms
  by (simp_all add: xen_pause_vm_def xen_resume_vm_def xen_set_int3_access_def xen_stop_single_step_def
      case_prod_beta Let_def)

lemma calm_stop_all [simp]: "calm_xc xc \<Longrightarrow> xe_xen (stop_all xc vs x) = xe_xen x"
  by (induction vs arbitrary: x) simp_all

lemma calm_shutdown [simp]: "calm_xc xc \<Longrightarrow> xe_xen (snd (xen_shutdown_single_step xc n x)) = xe_xen x"
  by (simp add: xen_shutdown_single_step_def Let_def case_prod_beta)

lemma calm_start [simp]:
  "calm_xc xc \<Longrightarrow> \<not> ve_enable e \<Longrightarrow> xe_xen (snd (xen_start_single_step xc e x)) = xe_xen x"
  by (simp add: xen_start_single_step_def Let_def case_prod_beta)

lemma calm_intr [simp]: "calm_xc xc \<Longrightarrow> xe_xen (snd (xen_set_intr_access xc e en x)) = xe_xen x"
  by (simp add: xen_set_intr_access_def)

text \<open>A change of the driver's own data only.\<close>

definition same_xen :: "'s xen_events vmi_instance \<Rightarrow> 's xen_events vmi_instance \<Rightarrow> bool" where
  "same_xen v w \<longleftrightarrow> (\<exists>x. w = v\<lparr> vi_driver := x \<rparr> \<and> xe_xen x = xe_xen (vi_driver v))"

lemma same_xen_refl [simp]: "same_xen v v"
  unfolding same_xen_def by (rule exI [of _ "vi_driver v"]) simp

lemma same_xenI [intro]: "xe_xen x = xe_xen (vi_driver v) \<Longrightarrow> same_xen v (v\<lparr> vi_driver := x \<rparr>)"
  unfolding same_xen_def by (rule exI [of _ x]) simp

lemma same_xen_trans: "same_xen u v \<Longrightarrow> same_xen v w \<Longrightarrow> same_xen u w"
proof -
  assume "same_xen u v" and "same_xen v w"
  then obtain x y where "v = u\<lparr> vi_driver := x \<rparr>" "w = v\<lparr> vi_driver := y \<rparr>" "xe_xen x = xe_xen (vi_driver u)"
    "xe_xen y = xe_xen (vi_driver v)"
    unfolding same_xen_def by blast
  then show "same_xen u w" using same_xenI [of y u] by simp
qed

lemma with_driver_same_xen:
  assumes "\<And>x. xe_xen (snd (g x)) = xe_xen x"
  shows "same_xen (es_vmi (fst s)) (es_vmi (fst (snd (with_driver g s))))"
  using same_xenI [OF assms, of "es_vmi (fst s)"] by (simp add: with_driver_def case_prod_beta Let_def)

text \<open>A step of the event code that keeps the event structures too.\<close>

definition calm_step :: "'s xen_events events_state \<Rightarrow> 's xen_events events_state \<Rightarrow> bool" where
  "calm_step s s' \<longleftrightarrow> same_xen (es_vmi s) (es_vmi s') \<and> es_heap s' = es_heap s \<and>
     es_event_callback s' = es_event_callback s"

lemma calm_step_refl [simp]: "calm_step s s"
  by (simp add: calm_step_def)

lemma calm_step_trans: "calm_step s t \<Longrightarrow> calm_step t u \<Longrightarrow> calm_step s u"
  by (auto simp: calm_step_def intro: same_xen_trans)

lemma calm_step_update [simp]:
  "calm_step s (t\<lparr> es_ss_events := a \<rparr>) = calm_step s t" "calm_step s (t\<lparr> es_interrupt_events := b \<rparr>) = calm_step s t"
  by (simp_all add: calm_step_def)

lemma driver_ctl_calm:
  assumes "\<And>g x. f = Some g \<Longrightarrow> xe_xen (snd (g x)) = xe_xen x"
  shows "calm_step s (snd (driver_ctl ed f s))"
proof (cases f)
  case (Some g)
  then show ?thesis
    using same_xenI [OF assms [OF Some], of "es_vmi s"] by (simp add: driver_ctl_def calm_step_def case_prod_beta Let_def)
qed (simp add: driver_ctl_def)

lemma driver_calm_step [simp]:
  assumes "calm_xc xc"
  shows "calm_step s (snd (driver_set_intr_access (xen_event_driver xc n) e en s))"
    "calm_step s (snd (driver_stop_single_step (xen_event_driver xc n) v s))"
    "calm_step s (snd (driver_shutdown_single_step (xen_event_driver xc n) s))"
  using assms by (auto intro!: driver_ctl_calm simp: driver_defs xen_event_driver_def)

lemma clear_ss_calm: "calm_xc xc \<Longrightarrow> calm_step s (snd (clear_ss_loop (xen_event_driver xc n) vs rc s))"
proof (induction vs arbitrary: rc s)
  case (Cons v vs)
  have "calm_step s (snd (driver_stop_single_step (xen_event_driver xc n) v s))"
    using Cons.prems by simp
  then show ?case
    using Cons.prems by (auto simp: case_prod_beta Let_def intro!: calm_step_trans [OF _ Cons.IH])
qed simp

lemma clear_calm:
  assumes "calm_xc xc" and "\<not> es_event_callback s" and "ve_type (es_heap s p) \<in> {0, VMI_EVENT_INTERRUPT, VMI_EVENT_SINGLESTEP}"
  shows "calm_step s (snd (vmi_clear_event (xen_event_driver xc n) p fr s))"
proof -
  have sd: "calm_step s t \<Longrightarrow> calm_step s (snd (vmi_shutdown_single_step (xen_event_driver xc n) t))" for t
    using driver_calm_step(3) [OF assms(1), of t n]
    by (auto simp: vmi_shutdown_single_step_def case_prod_beta split: status.splits intro: calm_step_trans)
  have "calm_step s (snd (clear_interrupt_event (xen_event_driver xc n) p s))"
    using assms(1) by (auto simp: clear_interrupt_event_def case_prod_beta Let_def)
  moreover have "calm_step s (snd (clear_singlestep_event (xen_event_driver xc n) p s))"
    using sd clear_ss_calm [OF assms(1)] by (auto simp: clear_singlestep_event_def case_prod_beta Let_def)
  moreover have "calm_step s (call_free fr p rc t) = calm_step s t" for rc t
    by (simp add: call_free_def calm_step_def split: option.split)
  ultimately show ?thesis
    using assms(2,3) by (auto simp: vmi_clear_event_def Let_def case_prod_beta)
qed

section \<open>Sessions that keep a property\<close>

text \<open>What a client of the event loop shows once to know that a property survives every call of the
  loop: handling one request keeps it, the driver calls around keep it, and no deferred work is
  queued.\<close>

locale kept_session =
  fixes cl :: "('s, 'u) client" and xc :: "'s libxc" and I :: "('s, 'u) session \<Rightarrow> bool"
  assumes request: "I s \<Longrightarrow> process_request cl xc vmec s = Some (st, v, s') \<Longrightarrow> I s'"
    and notified: "I s \<Longrightarrow> I (snd (notify xc s))"
    and unmasked: "I s \<Longrightarrow> I (snd (with_driver (unmask_event xc) s))"
    and nothing_queued: "I s \<Longrightarrow> es_swap_events (fst s) = [] \<and> Mapping.is_empty (es_clear_events (fst s))"
begin

lemma requests_keep:
  "I s \<Longrightarrow> process_requests_7 cl xc vrc n r s = Some (st, m, r', s') \<Longrightarrow> I s'"
proof (induction "length (rg_requests r)" arbitrary: vrc n r s)
  case 0
  then show ?case by (simp add: process_requests_7.simps [of _ _ _ _ r] ring_get_request_and_response_7_def)
next
  case (Suc k)
  then obtain req reqs where rq: "rg_requests r = req # reqs" by (cases "rg_requests r") auto
  define r1 where "r1 = r\<lparr> rg_requests := reqs, rg_slots := rg_slots r @ [None] \<rparr>"
  have g: "ring_get_request_and_response_7 r = Some (req, r1)"
    by (simp add: ring_get_request_and_response_7_def rq r1_def)
  have len: "k = length (rg_requests (r1\<lparr> rg_slots := a, rg_pushed := b \<rparr>))" for a b
    using Suc.hyps(2) rq by (simp add: r1_def)
  note run = Suc.prems(2) [unfolded process_requests_7.simps [of _ _ _ _ r] g option.case prod.case]
  show ?case
  proof (cases "vm_version req \<noteq> 7 \<or> process_request cl xc (load_request req) s = None")
    case True
    then show ?thesis using run Suc.prems(1) by (auto split: if_splits)
  next
    case False
    then obtain st1 v1 s1 where p: "process_request cl xc (load_request req) s = Some (st1, v1, s1)" by auto
    have i1: "I s1" by (rule request [OF Suc.prems(1) p])
    obtain rc s2 where s2: "(if es_num_vcpus (fst s1) \<ge> 7 then notify xc s1 else (0, s1)) = (rc, s2)" by (rule prod.exhaust)
    have i2: "I s2" using notified [OF i1] i1 s2 by (auto split: if_splits)
    note run' = run [unfolded p option.case prod.case s2 Let_def]
    show ?thesis
      using run' False i1 i2 Suc.hyps(1) [OF len i2] by (cases st1) (auto split: if_splits)
  qed
qed

lemma finish_keeps: "I s \<Longrightarrow> I (snd (finish_listen xc u n s))"
proof -
  assume i: "I s"
  define s1 where "s1 = (if u then with_driver (unmask_event xc) s else (VMI_SUCCESS, s))"
  have "I (snd s1)" using i unmasked [OF i] by (simp add: s1_def)
  then show ?thesis
    using notified [of "snd s1"] by (simp add: finish_listen_def s1_def [symmetric] case_prod_beta Let_def)
qed

lemma listen_keeps:
  assumes "I s" and "vmi_events_listen cl xc le (Pair VMI_SUCCESS) timeout r s = Some (st, r', s')"
  shows "I s'"
proof -
  have q: "es_swap_events (fst w) = []" "Mapping.is_empty (es_clear_events (fst w))" if "I w" for w
    using nothing_queued [OF that] by simp_all
  have "I (snd (finish_listen xc u n w))"
    if "process_requests_7 cl xc VMI_SUCCESS 0 r0 s = Some (VMI_SUCCESS, n, r1, w)" for r0 n r1 w u
    by (rule finish_keeps [OF requests_keep [OF assms(1) that]])
  then show ?thesis
    using assms q [OF requests_keep [OF assms(1)]] requests_keep [OF assms(1)]
    unfolding vmi_events_listen_def xen_events_listen_def
    by (auto simp: Let_def case_prod_beta split: if_splits option.splits status.splits prod.splits)
qed

end

section \<open>The tracer's handlers\<close>

text \<open>Nothing is registered but the breakpoint event for INT3 and the single-step event, and no work
  is deferred.\<close>

definition wired :: "u16 \<Rightarrow> nat \<Rightarrow> vmi_event \<Rightarrow> bool" where
  "wired t cb e \<longleftrightarrow> ve_type e = t \<and> ve_callback e = CB_user cb \<and> ve_data e \<noteq> None \<and>
     (t = VMI_EVENT_INTERRUPT \<longrightarrow> ve_intr e = INT3)"

definition own_handlers :: "'s xen_events events_state \<Rightarrow> bool" where
  "own_handlers es \<longleftrightarrow>
     (\<forall>i p. Mapping.lookup (es_interrupt_events es) i = Some p \<longrightarrow> i = INT3 \<and> p = int_event \<and>
        wired VMI_EVENT_INTERRUPT breakpoint_cb_id (es_heap es int_event)) \<and>
     (\<forall>v p. Mapping.lookup (es_ss_events es) v = Some p \<longrightarrow> p = sstep_event \<and>
        wired VMI_EVENT_SINGLESTEP single_step_cb_id (es_heap es sstep_event)) \<and>
     ve_type (es_heap es int_event) \<in> {0, VMI_EVENT_INTERRUPT} \<and>
     ve_type (es_heap es sstep_event) \<in> {0, VMI_EVENT_SINGLESTEP} \<and>
     es_reg_events es = Mapping.empty \<and> es_msr_events es = Mapping.empty \<and>
     es_mem_events_on_gfn es = Mapping.empty \<and> es_mem_events_generic es = Mapping.empty \<and>
     es_guest_requested_event es = None \<and> es_cpuid_event es = None \<and> es_vmexit_event es = None \<and>
     es_debug_event es = None \<and> es_failed_emulation_event es = None \<and> es_descriptor_access_event es = None \<and>
     es_swap_events es = [] \<and> Mapping.is_empty (es_clear_events es)"

definition no_handlers :: "'s xen_events events_state \<Rightarrow> bool" where
  "no_handlers es \<longleftrightarrow> Mapping.lookup (es_interrupt_events es) INT3 = None \<and>
     (\<forall>v. Mapping.lookup (es_ss_events es) v = None)"

lemma own_handlers_vmi [simp]: "own_handlers (es\<lparr> es_vmi := w \<rparr>) = own_handlers es"
  "own_handlers (es\<lparr> es_event_callback := b \<rparr>) = own_handlers es"
  by (simp_all add: own_handlers_def)

lemma no_handlers_frame [simp]: "no_handlers (es\<lparr> es_vmi := w \<rparr>) = no_handlers es"
  "no_handlers (es\<lparr> es_event_callback := b \<rparr>) = no_handlers es" "no_handlers (es\<lparr> es_heap := h \<rparr>) = no_handlers es"
  by (simp_all add: no_handlers_def)

lemma own_handlers_heap:
  assumes "own_handlers es" and "same_wiring (es_heap es p) e"
  shows "own_handlers (es\<lparr> es_heap := (es_heap es)(p := e) \<rparr>)"
proof -
  have "wired t cb (((es_heap es)(p := e)) q) = wired t cb (es_heap es q)"
    "ve_type (((es_heap es)(p := e)) q) = ve_type (es_heap es q)" for t cb q
    using assms(2) by (auto simp: wired_def same_wiring_def)
  then show ?thesis using assms(1) unfolding own_handlers_def by (auto simp del: fun_upd_apply)
qed

lemma own_handlers_INT3:
  "own_handlers es \<Longrightarrow> Mapping.lookup (es_interrupt_events es) i = Some p \<Longrightarrow>
     i = INT3 \<and> p = int_event \<and> wired VMI_EVENT_INTERRUPT breakpoint_cb_id (es_heap es int_event)"
  unfolding own_handlers_def by blast

lemma own_handlers_ss:
  "own_handlers es \<Longrightarrow> Mapping.lookup (es_ss_events es) v = Some p \<Longrightarrow>
     p = sstep_event \<and> wired VMI_EVENT_SINGLESTEP single_step_cb_id (es_heap es sstep_event)"
  unfolding own_handlers_def by blast

lemma table_entries_empty [simp]: "table_entries Mapping.empty = []"
  by (simp add: table_entries_def)

text \<open>A request of any other kind fails and changes nothing.\<close>

lemma other_request:
  assumes "own_handlers (fst s)" and "vm_reason vmec \<noteq> 6" and "vm_reason vmec \<noteq> 7"
    and "process_request cl xc vmec s = Some (st, v, s')"
  shows "s' = s"
proof -
  have i: "Mapping.lookup (es_interrupt_events (fst s)) INT_NEXT = None"
    using own_handlers_INT3 [OF assms(1), of INT_NEXT] by (cases "Mapping.lookup (es_interrupt_events (fst s)) INT_NEXT") auto
  have e: "es_reg_events (fst s) = Mapping.empty" "es_msr_events (fst s) = Mapping.empty"
    "es_mem_events_on_gfn (fst s) = Mapping.empty" "es_mem_events_generic (fst s) = Mapping.empty"
    "es_guest_requested_event (fst s) = None" "es_cpuid_event (fst s) = None" "es_vmexit_event (fst s) = None"
    "es_debug_event (fst s) = None" "es_failed_emulation_event (fst s) = None" "es_descriptor_access_event (fst s) = None"
    using assms(1) by (simp_all add: own_handlers_def)
  show ?thesis
    using assms(2-4) i
    by (auto simp: process_request_def e process_mem_def process_register_def process_msr_def process_interrupt_def
        process_guest_request_def process_debug_exception_def process_cpuid_def process_vmexit_def
        process_unimplemented_emul_def process_desc_access_def slot_event_def Let_def split: if_splits)
qed

text \<open>Answering writes into the event structure what a response takes from it.\<close>

lemma response_data_wiring: "same_wiring (fst ev) (fst (response_data i ev))"
  by (cases ev) (simp add: response_data_def same_wiring_def Let_def split: option.split)

lemma response_loop_wiring: "same_wiring (fst ev) (fst (response_loop r is ev))"
proof (induction "is" arbitrary: ev)
  case (Cons i "is")
  show ?case
  proof (cases "bit r i")
    case True
    have "same_wiring (fst ev) (fst (response_loop r is (fst (response_data i ev), v)))" for v
      using same_wiring_trans [OF response_data_wiring [of ev i]] Cons.IH [of "(fst (response_data i ev), v)"] by simp
    then show ?thesis using True by (simp add: case_prod_beta Let_def)
  qed (simp add: Cons.IH)
qed simp

lemma process_response_wiring: "same_wiring e (fst (process_response r e v))"
  using response_loop_wiring [of "(e, v\<lparr> vm_flags := vm_flags v AND VM_EVENT_FLAG_VCPU_PAUSED \<rparr>)" r]
  by (simp add: process_response_def Let_def)

section \<open>Every request keeps the session\<close>

locale tracer_session = breakpoint_site te va has
  for te :: "'s tracer_env" and va :: addr_t and has :: "u8 \<Rightarrow> 's xen_events vmi_instance \<Rightarrow> bool" +
  assumes calm: "calm_xc (te_xc te)"
begin

lemma has_same_xen: "has a v \<Longrightarrow> same_xen v w \<Longrightarrow> has a w"
  using drv by (auto simp: same_xen_def)

lemma has_with_driver:
  "has a (es_vmi (fst s)) \<Longrightarrow> (\<And>x. xe_xen (snd (f x)) = xe_xen x) \<Longrightarrow> has a (es_vmi (fst (snd (with_driver f s))))"
  using has_same_xen with_driver_same_xen [of f s] by blast

text \<open>The tracer knows the site and the byte it replaced.\<close>

definition knows :: "u8 \<Rightarrow> tracer \<Rightarrow> bool" where
  "knows opcode t \<longleftrightarrow> bp_sym_vaddr (tr_cb_data t) = va \<and> bp_saved_opcode (tr_cb_data t) = opcode \<and>
     tr_saved_opcode t = opcode \<and> tr_lstar t = va"

text \<open>The site has its own byte or the breakpoint.\<close>

definition site_ok :: "u8 \<Rightarrow> 's xen_events vmi_instance \<Rightarrow> bool" where
  "site_ok opcode v \<longleftrightarrow> has opcode v \<or> has BREAKPOINT v"

text \<open>Before the code is read nothing has changed; afterwards the tracer has the byte, and it knows the
  site once a handler is registered.\<close>

definition session_ok :: "u8 \<Rightarrow> 's tsession \<Rightarrow> bool" where
  "session_ok opcode s \<longleftrightarrow> own_handlers (fst s) \<and> \<not> es_event_callback (fst s) \<and>
     (no_handlers (fst s) \<and> has opcode (es_vmi (fst s)) \<and> tr_saved_opcode (snd s) = 0 \<or>
      no_handlers (fst s) \<and> site_ok opcode (es_vmi (fst s)) \<and> tr_saved_opcode (snd s) = opcode \<and> tr_lstar (snd s) = va \<or>
      site_ok opcode (es_vmi (fst s)) \<and> knows opcode (snd s))"

lemma breakpoint_cb_session:
  assumes "site_ok opcode (es_vmi es)" and "knows opcode t" and "ve_data (es_heap es p) \<noteq> None"
    and "breakpoint_cb te p (es, t) = Inr (r, es', t')"
  obtains e w where "es' = es\<lparr> es_heap := (es_heap es)(p := e), es_vmi := w \<rparr>" "same_wiring (es_heap es p) e"
    "site_ok opcode w" "knows opcode t'"
proof (cases "xr_rip (ve_x86_regs (es_heap es p)) = va")
  case False
  then have n: "xr_rip (ve_x86_regs (es_heap es p)) \<noteq> bp_sym_vaddr (tr_cb_data t)" using assms(2) by (simp add: knows_def)
  note o = breakpoint_cb_other [OF assms(3) n assms(4)]
  obtain e where e: "es' = es\<lparr> es_heap := (es_heap es)(p := e) \<rparr>" "same_wiring (es_heap es p) e" using o(3) by blast
  have "es' = es\<lparr> es_heap := (es_heap es)(p := e), es_vmi := es_vmi es \<rparr>" using e(1) by (cases es) simp
  moreover have "knows opcode t'" using assms(2) o(4-6) by (simp add: knows_def)
  ultimately show thesis by (rule that [OF _ e(2) assms(1)])
next
  case True
  obtain a where a: "has a (es_vmi es)" using assms(1) by (auto simp: site_ok_def)
  have b: "bp_sym_vaddr (tr_cb_data t) = va" using assms(2) by (simp add: knows_def)
  note h = breakpoint_cb_hit [OF a assms(3) True b assms(4)]
  obtain e w where e: "es' = es\<lparr> es_heap := (es_heap es)(p := e), es_vmi := w \<rparr>" "same_wiring (es_heap es p) e"
    using h(4) by blast
  have "site_ok opcode w" using h(3) e(1) assms(2) by (simp add: site_ok_def knows_def)
  then show thesis using that e assms(2) h(5-7) by (simp add: knows_def)
qed

definition live :: "u8 \<Rightarrow> 's tsession \<Rightarrow> bool" where
  "live opcode s \<longleftrightarrow> own_handlers (fst s) \<and> site_ok opcode (es_vmi (fst s)) \<and> knows opcode (snd s)"

lemma live_session: "live opcode s \<Longrightarrow> \<not> es_event_callback (fst s) \<Longrightarrow> session_ok opcode s"
  by (simp add: live_def session_ok_def)

lemma session_live: "session_ok opcode s \<Longrightarrow> \<not> no_handlers (fst s) \<Longrightarrow> live opcode s"
  by (auto simp: live_def session_ok_def)

lemma live_store: "live opcode s \<Longrightarrow> (\<And>e. same_wiring e (f e)) \<Longrightarrow> live opcode (store_event p f s)"
  by (cases s) (simp add: live_def store_event_def own_handlers_heap)

lemma live_after_call:
  assumes "live opcode (es\<lparr> es_event_callback := True \<rparr>, t)" and "same_wiring (es_heap es p) e" and "site_ok opcode w"
    and "knows opcode t'" and "same_wiring e e'"
  shows "live opcode (es\<lparr> es_event_callback := True, es_heap := (es_heap es)(p := e), es_vmi := w,
    es_heap := ((es_heap es)(p := e))(p := e'), es_event_callback := False \<rparr>, t')"
proof -
  have "own_handlers (es\<lparr> es_vmi := w \<rparr>)" using assms(1) by (simp add: live_def)
  from own_handlers_heap [OF this, of p e'] show ?thesis
    using same_wiring_trans [OF assms(2,5)] assms(3,4) by (simp add: live_def)
qed

lemma call_live:
  assumes "live opcode (es, t)" and "wired VMI_EVENT_INTERRUPT breakpoint_cb_id (es_heap es p) \<or>
      wired VMI_EVENT_SINGLESTEP single_step_cb_id (es_heap es p)"
    and "call_handler (tracer_client te) xc p vmec (es, t) = Some (v, s')"
  shows "live opcode s' \<and> \<not> es_event_callback (fst s')"
proof -
  let ?es = "es\<lparr> es_event_callback := True \<rparr>"
  have l: "live opcode (?es, t)" "site_ok opcode (es_vmi ?es)" "knows opcode t" using assms(1) by (simp_all add: live_def)
  have d: "ve_data (es_heap ?es p) \<noteq> None" using assms(2) by (auto simp: wired_def)
  have "\<exists>r es1 t1. issue_callback (tracer_client te) xc p (?es, t) = Some (r, es1, t1) \<and>
      (\<exists>e w. es1 = ?es\<lparr> es_heap := (es_heap ?es)(p := e), es_vmi := w \<rparr> \<and> same_wiring (es_heap ?es p) e \<and>
        site_ok opcode w \<and> knows opcode t1)"
  proof -
    obtain r es1 t1 where i: "issue_callback (tracer_client te) xc p (?es, t) = Some (r, es1, t1)"
      using assms(3) by (auto simp: call_handler_def split: option.splits)
    from assms(2) have "\<exists>e w. es1 = ?es\<lparr> es_heap := (es_heap ?es)(p := e), es_vmi := w \<rparr> \<and> same_wiring (es_heap ?es p) e \<and>
        site_ok opcode w \<and> knows opcode t1"
    proof
      assume "wired VMI_EVENT_INTERRUPT breakpoint_cb_id (es_heap es p)"
      then have "breakpoint_cb te p (?es, t) = Inr (r, es1, t1)"
        using i by (auto simp: issue_callback_def tracer_client_def wired_def split: sum.splits)
      then show ?thesis by (rule breakpoint_cb_session [OF l(2,3) d]) blast
    next
      assume "wired VMI_EVENT_SINGLESTEP single_step_cb_id (es_heap es p)"
      then have c: "single_step_cb te p (?es, t) = (r, es1, t1)"
        using i by (auto simp: issue_callback_def tracer_client_def wired_def split: sum.splits)
      obtain a where a: "has a (es_vmi ?es)" using l(2) by (auto simp: site_ok_def)
      have va: "bp_sym_vaddr (tr_cb_data t) = va" using l(3) by (simp add: knows_def)
      obtain w where w: "single_step_cb te p (?es, t) = (VMI_EVENT_RESPONSE_TOGGLE_SINGLESTEP, ?es\<lparr> es_vmi := w \<rparr>, t)"
        "has BREAKPOINT w"
        using single_step_cb_arms [OF a d va] by blast
      have "es1 = ?es\<lparr> es_heap := (es_heap ?es)(p := es_heap ?es p), es_vmi := w \<rparr>" "t1 = t"
        using c w(1) by (cases es, simp)+
      then show ?thesis using w(2) l(3) by (intro exI [of _ "es_heap ?es p"] exI [of _ w]) (simp add: site_ok_def)
    qed
    with i show ?thesis by blast
  qed
  then obtain r t1 e w where i: "issue_callback (tracer_client te) xc p (?es, t) =
      Some (r, ?es\<lparr> es_heap := (es_heap ?es)(p := e), es_vmi := w \<rparr>, t1)"
    "same_wiring (es_heap es p) e" "site_ok opcode w" "knows opcode t1"
    by auto
  note la = live_after_call [OF l(1) i(2-4) process_response_wiring, of r "vmec\<lparr> vm_regs := ve_x86_regs e \<rparr>"]
  show ?thesis
    using assms(3) la unfolding call_handler_def prod.case i(1) option.case
    by (auto simp: Let_def case_prod_beta)
qed

end

context tracer_session
begin

lemma common_fields_wiring [simp]: "same_wiring e (common_fields v e') = same_wiring e e'"
  by (simp add: common_fields_def same_wiring_def)

lemma live_inject:
  "live opcode s \<Longrightarrow> inject_trap (te_xc te) v a b c d s = (st, s') \<Longrightarrow>
     live opcode s' \<and> es_event_callback (fst s') = es_event_callback (fst s)"
proof -
  assume l: "live opcode s" and i: "inject_trap (te_xc te) v a b c d s = (st, s')"
  obtain es t where s: "s = (es, t)" by fastforce
  obtain x where x: "s' = (es\<lparr> es_vmi := (es_vmi es)\<lparr> vi_driver := x \<rparr> \<rparr>, t)" "xe_xen x = xe_xen (vi_driver (es_vmi es))"
    using i calm by (auto simp: inject_trap_def s case_prod_beta Let_def)
  have "site_ok opcode (es_vmi es)" using l by (simp add: s live_def)
  then have "site_ok opcode ((es_vmi es)\<lparr> vi_driver := x \<rparr>)"
    using drv [OF _ x(2)] by (auto simp: site_ok_def)
  then show ?thesis using l by (simp add: s x(1) live_def)
qed

lemma breakpoint_live:
  assumes "live opcode s" and "Mapping.lookup (es_interrupt_events (fst s)) INT3 = Some p"
    and "process_software_breakpoint (tracer_client te) (te_xc te) vmec s = Some (st, v, s')"
  shows "live opcode s' \<and> \<not> es_event_callback (fst s')"
proof -
  define s1 where "s1 = store_event p (\<lambda>e. common_fields vmec (e\<lparr> ve_gfn := vm_bp_gfn vmec, ve_reinject := - 1,
      ve_insn_length := vm_bp_insn_length vmec, ve_offset := xr_rip (vm_regs vmec) AND VMI_BIT_MASK 0 11,
      ve_gla := xr_rip (vm_regs vmec) \<rparr>)) s"
  have l: "live opcode s1" unfolding s1_def by (rule live_store [OF assms(1)]) (simp add: same_wiring_def common_fields_def)
  have "Mapping.lookup (es_interrupt_events (fst s1)) INT3 = Some p"
    using assms(2) by (cases s) (simp add: s1_def store_event_def)
  then have w: "wired VMI_EVENT_INTERRUPT breakpoint_cb_id (es_heap (fst s1) p)"
    using own_handlers_INT3 [of "fst s1" INT3 p] l by (auto simp: live_def)
  from assms(3) obtain v2 s2 where c: "call_handler (tracer_client te) (te_xc te) p vmec s1 = Some (v2, s2)"
    and r: "s' = s2 \<or> (\<exists>a b. inject_trap (te_xc te) v2 3 6 a b s2 = (st, s'))"
    by (auto simp: process_software_breakpoint_def assms(2) s1_def [symmetric] Let_def split: option.splits prod.splits if_splits)
  have "live opcode s2 \<and> \<not> es_event_callback (fst s2)"
    using call_live [of opcode "fst s1" "snd s1" p] l w c by simp
  then show ?thesis using r live_inject by blast
qed

lemma singlestep_live:
  assumes "live opcode s" and "Mapping.lookup (es_ss_events (fst s)) (vm_vcpu_id vmec) = Some p"
    and "process_singlestep (tracer_client te) (te_xc te) vmec s = Some (st, v, s')"
  shows "live opcode s' \<and> \<not> es_event_callback (fst s')"
proof -
  define s1 where "s1 = store_event p (\<lambda>e. common_fields vmec (e\<lparr> ve_gfn := vm_singlestep_gfn vmec,
      ve_offset := xr_rip (vm_regs vmec) AND VMI_BIT_MASK 0 11, ve_gla := xr_rip (vm_regs vmec) \<rparr>)) s"
  have l: "live opcode s1" unfolding s1_def by (rule live_store [OF assms(1)]) (simp add: same_wiring_def common_fields_def)
  have "Mapping.lookup (es_ss_events (fst s1)) (vm_vcpu_id vmec) = Some p"
    using assms(2) by (cases s) (simp add: s1_def store_event_def)
  then have w: "wired VMI_EVENT_SINGLESTEP single_step_cb_id (es_heap (fst s1) p)"
    using own_handlers_ss [of "fst s1" "vm_vcpu_id vmec" p] l by (auto simp: live_def)
  from assms(3) obtain v2 where "call_handler (tracer_client te) (te_xc te) p vmec s1 = Some (v2, s')"
    by (auto simp: process_singlestep_def assms(2) s1_def [symmetric] Let_def)
  then show ?thesis using call_live [of opcode "fst s1" "snd s1" p] l w by simp
qed

lemma request_ok:
  assumes "session_ok opcode s" and "process_request (tracer_client te) (te_xc te) vmec s = Some (st, v, s')"
  shows "session_ok opcode s'"
proof -
  have own: "own_handlers (fst s)" using assms(1) by (simp add: session_ok_def)
  consider (bp) vm where "process_software_breakpoint (tracer_client te) (te_xc te) vm s = Some (st, v, s')"
    | (ss) vm where "process_singlestep (tracer_client te) (te_xc te) vm s = Some (st, v, s')"
    | (other) "vm_reason vmec \<noteq> 6" "vm_reason vmec \<noteq> 7"
    using assms(2) by (auto simp: process_request_def Let_def split: if_splits)
  then show ?thesis
  proof cases
    case (bp vm)
    show ?thesis
    proof (cases "Mapping.lookup (es_interrupt_events (fst s)) INT3")
      case None
      then show ?thesis using bp assms(1) by (simp add: process_software_breakpoint_def)
    next
      case (Some p)
      then have "live opcode s" by (intro session_live [OF assms(1)]) (simp add: no_handlers_def)
      from breakpoint_live [OF this Some bp] show ?thesis by (simp add: live_session)
    qed
  next
    case (ss vm)
    show ?thesis
    proof (cases "Mapping.lookup (es_ss_events (fst s)) (vm_vcpu_id vm)")
      case None
      then show ?thesis using ss assms(1) by (simp add: process_singlestep_def)
    next
      case (Some p)
      then have "live opcode s" by (intro session_live [OF assms(1)]) (auto simp: no_handlers_def)
      from singlestep_live [OF this Some ss] show ?thesis by (simp add: live_session)
    qed
  next
    case other
    then show ?thesis using other_request [OF own other assms(2)] assms(1) by simp
  qed
qed

lemma session_with_driver:
  assumes "session_ok opcode s" and "\<And>x. xe_xen (snd (f x)) = xe_xen x"
  shows "session_ok opcode (snd (with_driver f s))"
proof -
  obtain es t where s: "s = (es, t)" by fastforce
  obtain w where w: "snd (with_driver f s) = (es\<lparr> es_vmi := w \<rparr>, t)"
    by (simp add: s with_driver_def case_prod_beta Let_def)
  have h: "has a (es_vmi es) \<Longrightarrow> has a w" for a
    using has_with_driver [of a s f] assms(2) w by (simp add: s)
  then have "site_ok opcode (es_vmi es) \<Longrightarrow> site_ok opcode w" by (auto simp: site_ok_def)
  then show ?thesis using assms(1) h unfolding w by (auto simp: s session_ok_def)
qed

end

sublocale tracer_session \<subseteq> ring: kept_session "tracer_client te" "te_xc te" "session_ok opcode" for opcode
proof
  fix s s' :: "'s tsession" and vmec st v
  assume i: "session_ok opcode s"
  show "session_ok opcode s'" if "process_request (tracer_client te) (te_xc te) vmec s = Some (st, v, s')"
    by (rule request_ok [OF i that])
  show "session_ok opcode (snd (notify (te_xc te) s))"
    unfolding notify_def by (rule session_with_driver [OF i]) (simp add: calm)
  show "session_ok opcode (snd (with_driver (unmask_event (te_xc te)) s))"
    by (rule session_with_driver [OF i]) (simp add: unmask_event_def calm case_prod_beta Let_def)
  show "es_swap_events (fst s) = [] \<and> Mapping.is_empty (es_clear_events (fst s))"
    using i by (simp add: session_ok_def own_handlers_def)
qed

section \<open>Setting up\<close>

text \<open>A driver call of the event code changes the driver's own data only.\<close>

lemma driver_calm:
  assumes "calm_xc xc"
  shows "\<exists>x. snd (driver_set_intr_access (xen_event_driver xc n) e en s) = s\<lparr> es_vmi := (es_vmi s)\<lparr> vi_driver := x \<rparr> \<rparr> \<and>
      xe_xen x = xe_xen (vi_driver (es_vmi s))"
    and "\<not> ve_enable e \<Longrightarrow>
      \<exists>x. snd (driver_start_single_step (xen_event_driver xc n) e s) = s\<lparr> es_vmi := (es_vmi s)\<lparr> vi_driver := x \<rparr> \<rparr> \<and>
      xe_xen x = xe_xen (vi_driver (es_vmi s))"
  unfolding driver_defs xen_event_driver_def driver_ctl_def
  by (auto simp: case_prod_beta Let_def assms intro!: exI conjI refl)

lemma lookup_fold_update:
  "Mapping.lookup (fold (\<lambda>v. Mapping.update v p) vs m) v = (if v \<in> set vs then Some p else Mapping.lookup m v)"
  by (induction vs arbitrary: m) (auto simp: lookup_update')

lemma set_vcpus_fields [simp]:
  "ve_type (fold (\<lambda>v e. SET_VCPU_SINGLESTEP e v) vs e) = ve_type e"
  "ve_callback (fold (\<lambda>v e. SET_VCPU_SINGLESTEP e v) vs e) = ve_callback e"
  "ve_enable (fold (\<lambda>v e. SET_VCPU_SINGLESTEP e v) vs e) = ve_enable e"
  "ve_version (fold (\<lambda>v e. SET_VCPU_SINGLESTEP e v) vs e) = ve_version e"
  by (induction vs arbitrary: e) (simp_all add: SET_VCPU_SINGLESTEP_def)

lemma set_vcpus_bits:
  "v < 32 \<Longrightarrow> bit (ve_vcpus (fold (\<lambda>v e. SET_VCPU_SINGLESTEP e v) vs e)) v \<longleftrightarrow> v \<in> set vs \<or> bit (ve_vcpus e) v"
  by (induction vs arbitrary: e) (auto simp: SET_VCPU_SINGLESTEP_def bit_set_bit_iff)

lemma sstep_setup_fields [simp]:
  "ve_type (sstep_setup n e) = VMI_EVENT_SINGLESTEP" "ve_callback (sstep_setup n e) = CB_user single_step_cb_id"
  "\<not> ve_enable (sstep_setup n e)" "ve_version (sstep_setup n e) = VMI_EVENTS_VERSION" "ve_data (sstep_setup n e) = Some 0"
  by (simp_all add: sstep_setup_def Let_def)

lemma sstep_setup_vcpus: "v < n \<Longrightarrow> v < 32 \<Longrightarrow> bit (ve_vcpus (sstep_setup n e)) v"
  by (simp add: sstep_setup_def Let_def set_vcpus_bits)

lemma int_setup_fields [simp]:
  "ve_type int_setup = VMI_EVENT_INTERRUPT" "ve_callback int_setup = CB_user breakpoint_cb_id" "ve_intr int_setup = INT3"
  "ve_data int_setup = Some 0" "ve_version int_setup = VMI_EVENTS_VERSION"
  by (simp_all add: int_setup_def)

context tracer_session
begin

lemma site_ok_drv: "site_ok opcode v \<Longrightarrow> xe_xen x = xe_xen (vi_driver v) \<Longrightarrow> site_ok opcode (v\<lparr> vi_driver := x \<rparr>)"
  using drv by (auto simp: site_ok_def)

lemma register_int_live:
  assumes "live opcode s" and "no_handlers (fst s)" and "register_at te int_event (\<lambda>_. int_setup) s = (st, s')"
  shows "live opcode s'" and "es_event_callback (fst s') = es_event_callback (fst s)"
    and "\<And>v. Mapping.lookup (es_ss_events (fst s')) v = None"
    and "st = VMI_SUCCESS \<Longrightarrow> Mapping.lookup (es_interrupt_events (fst s')) INT3 = Some int_event"
    and "has a (es_vmi (fst s)) \<Longrightarrow> has a (es_vmi (fst s'))" and "snd s' = snd s"
    and "es_init_flags (fst s') = es_init_flags (fst s)"
proof -
  obtain es t where s: "s = (es, t)" by fastforce
  define es1 where "es1 = es\<lparr> es_heap := (es_heap es)(int_event := int_setup) \<rparr>"
  have heap: "es_heap es1 int_event = int_setup" by (simp add: es1_def)
  have nh: "Mapping.lookup (es_interrupt_events es) i = None" "Mapping.lookup (es_ss_events es) v = None" for i v
    using assms(1,2) own_handlers_INT3 [of es i] by (cases "Mapping.lookup (es_interrupt_events es) i"; auto simp: s no_handlers_def live_def)+
  obtain x where x: "snd (driver_set_intr_access (tracer_driver te es1) int_setup True es1) =
      es1\<lparr> es_vmi := (es_vmi es1)\<lparr> vi_driver := x \<rparr> \<rparr>" "xe_xen x = xe_xen (vi_driver (es_vmi es1))"
    using driver_calm(1) [OF calm, of "es_num_vcpus es1" int_setup True es1] unfolding tracer_driver_def by blast
  define es2 where "es2 = es1\<lparr> es_vmi := (es_vmi es1)\<lparr> vi_driver := x \<rparr> \<rparr>"
  have cases: "s' = (es1, t) \<and> st = VMI_FAILURE \<or> s' = (es2, t) \<and> st = VMI_FAILURE \<or>
      s' = (es2\<lparr> es_interrupt_events := Mapping.update INT3 int_event (es_interrupt_events es) \<rparr>, t) \<and> st = VMI_SUCCESS"
    using assms(3) x(1) by (auto simp: register_at_def store_event_def s es1_def [symmetric] vmi_register_event_def heap Let_def
        register_interrupt_event_def case_prod_beta es2_def split: if_splits status.splits) (simp add: es1_def)
  have own: "own_handlers es1" using assms(1) nh by (simp add: s live_def own_handlers_def es1_def)
  have own3: "own_handlers (es2\<lparr> es_interrupt_events := Mapping.update INT3 int_event (es_interrupt_events es) \<rparr>)"
    using own nh heap by (auto simp: own_handlers_def es2_def es1_def wired_def lookup_update')
  have vmi: "es_vmi es1 = es_vmi es" by (simp add: es1_def)
  have site: "site_ok opcode (es_vmi es)" "knows opcode t" using assms(1) by (simp_all add: s live_def)
  have site2: "site_ok opcode (es_vmi es2)" using site_ok_drv [OF site(1)] x(2) by (simp add: es2_def vmi)
  show "live opcode s'"
    using cases own own3 site site2 by (auto simp: live_def vmi es2_def)
  show "es_event_callback (fst s') = es_event_callback (fst s)" "Mapping.lookup (es_ss_events (fst s')) v = None" for v
    using cases nh by (auto simp: es2_def es1_def s)
  show "Mapping.lookup (es_interrupt_events (fst s')) INT3 = Some int_event" if "st = VMI_SUCCESS"
    using cases that by auto
  show "has a (es_vmi (fst s'))" if "has a (es_vmi (fst s))"
    using cases that drv [of a "es_vmi es" x] x(2) by (auto simp: es2_def vmi s)
  show "snd s' = snd s" "es_init_flags (fst s') = es_init_flags (fst s)"
    using cases by (auto simp: s es2_def es1_def)
qed
end

context tracer_session
begin

lemma register_ss_live:
  assumes "live opcode s" and "\<And>v. Mapping.lookup (es_ss_events (fst s)) v = None"
    and "register_at te sstep_event (sstep_setup n) s = (st, s')"
  shows "live opcode s'" and "es_event_callback (fst s') = es_event_callback (fst s)"
    and "es_interrupt_events (fst s') = es_interrupt_events (fst s)"
    and "st = VMI_SUCCESS \<Longrightarrow> n = es_num_vcpus (fst s) \<Longrightarrow> v < n \<Longrightarrow> v < 32 \<Longrightarrow>
      Mapping.lookup (es_ss_events (fst s')) v = Some sstep_event"
    and "has a (es_vmi (fst s)) \<Longrightarrow> has a (es_vmi (fst s'))" and "snd s' = snd s"
    and "es_init_flags (fst s') = es_init_flags (fst s)"
proof -
  obtain es t where s: "s = (es, t)" by fastforce
  define e where "e = sstep_setup n (es_heap es sstep_event)"
  define es1 where "es1 = es\<lparr> es_heap := (es_heap es)(sstep_event := e) \<rparr>"
  have heap: "es_heap es1 sstep_event = e" by (simp add: es1_def)
  have ef: "ve_type e = VMI_EVENT_SINGLESTEP" "ve_callback e = CB_user single_step_cb_id" "\<not> ve_enable e" "ve_data e = Some 0"
    by (simp_all add: e_def)
  have nh: "Mapping.lookup (es_ss_events es) v = None" for v using assms(2) by (simp add: s)
  obtain x where x: "snd (driver_start_single_step (tracer_driver te es1) e es1) =
      es1\<lparr> es_vmi := (es_vmi es1)\<lparr> vi_driver := x \<rparr> \<rparr>" "xe_xen x = xe_xen (vi_driver (es_vmi es1))"
    using driver_calm(2) [OF calm ef(3), of "es_num_vcpus es1" es1] unfolding tracer_driver_def by blast
  define es2 where "es2 = es1\<lparr> es_vmi := (es_vmi es1)\<lparr> vi_driver := x \<rparr> \<rparr>"
  define tab where "tab = fold (\<lambda>v. Mapping.update v sstep_event) (ss_vcpus e es2) (es_ss_events es)"
  have tab: "Mapping.lookup tab v = (if v \<in> set (ss_vcpus e es2) then Some sstep_event else None)" for v
    by (simp add: tab_def lookup_fold_update nh)
  have cases: "s' = (es1, t) \<and> st = VMI_FAILURE \<or> s' = (es2, t) \<and> st = VMI_FAILURE \<or>
      s' = (es2\<lparr> es_ss_events := tab \<rparr>, t) \<and> st = VMI_SUCCESS"
  proof -
    have st: "store_event sstep_event (sstep_setup n) s = (es1, t)" by (simp add: store_event_def s es1_def e_def)
    have "vmi_register_event (tracer_driver te es1) sstep_event es1 = (VMI_FAILURE, es1) \<or>
        vmi_register_event (tracer_driver te es1) sstep_event es1 = register_singlestep_event (tracer_driver te es1) sstep_event es1"
      unfolding vmi_register_event_def heap Let_def ef by simp
    moreover have "register_singlestep_event (tracer_driver te es1) sstep_event es1 = (VMI_FAILURE, es1) \<or>
        register_singlestep_event (tracer_driver te es1) sstep_event es1 = (VMI_FAILURE, es2) \<or>
        register_singlestep_event (tracer_driver te es1) sstep_event es1 = (VMI_SUCCESS, es2\<lparr> es_ss_events := tab \<rparr>)"
    proof -
      obtain st0 where d: "driver_start_single_step (tracer_driver te es1) e es1 = (st0, es2)"
        using x(1) [folded es2_def] by (metis prod.collapse)
      have "es_ss_events es2 = es_ss_events es" by (simp add: es2_def es1_def)
      then show ?thesis unfolding register_singlestep_event_def heap Let_def tab_def d by (simp split: status.split)
    qed
    ultimately show ?thesis using assms(3) unfolding register_at_def st by auto
  qed
  have own: "own_handlers es1" using assms(1) nh by (simp add: s live_def own_handlers_def es1_def ef)
  have own3: "own_handlers (es2\<lparr> es_ss_events := tab \<rparr>)"
    using own tab heap ef by (auto simp: own_handlers_def es2_def es1_def wired_def split: if_splits)
  have vmi: "es_vmi es1 = es_vmi es" by (simp add: es1_def)
  have site: "site_ok opcode (es_vmi es)" "knows opcode t" using assms(1) by (simp_all add: s live_def)
  have site2: "site_ok opcode (es_vmi es2)" using site_ok_drv [OF site(1)] x(2) by (simp add: es2_def vmi)
  show "live opcode s'"
    using cases own own3 site site2 by (auto simp: live_def vmi es2_def)
  show "es_event_callback (fst s') = es_event_callback (fst s)"
    "es_interrupt_events (fst s') = es_interrupt_events (fst s)"
    using cases by (auto simp: es2_def es1_def s)
  show "Mapping.lookup (es_ss_events (fst s')) v = Some sstep_event"
    if "st = VMI_SUCCESS" "n = es_num_vcpus (fst s)" "v < n" "v < 32" for v
    using cases that tab [of v] by (auto simp: ss_vcpus_def CHECK_VCPU_SINGLESTEP_def e_def sstep_setup_vcpus es2_def es1_def s)
  show "has a (es_vmi (fst s'))" if "has a (es_vmi (fst s))"
    using cases that drv [of a "es_vmi es" x] x(2) by (auto simp: es2_def vmi s)
  show "snd s' = snd s" "es_init_flags (fst s') = es_init_flags (fst s)"
    using cases by (auto simp: s es2_def es1_def)
qed

lemma with_driver_has:
  assumes "has a (es_vmi es)" and "\<And>x. xe_xen (snd (f x)) = xe_xen x"
  obtains st w where "with_driver f (es, t) = (st, es\<lparr> es_vmi := w \<rparr>, t)" "has a w"
  using has_with_driver [of a "(es, t)" f] assms by (fastforce simp: with_driver_def case_prod_beta Let_def)

text \<open>Installing the breakpoint: whatever fails, the session is one the clean-up can undo; when
  nothing fails the breakpoint is in place and its handler is registered.\<close>

lemma set_up:
  assumes "own_handlers es" and "\<not> es_event_callback es" and "no_handlers es" and "has opcode (es_vmi es)"
    and "tr_saved_opcode t = 0"
    and lstar: "\<And>a w. vmi_get_vcpureg (te_env te) MSR_LSTAR 0 (es_vmi es) = (Some a, w) \<Longrightarrow> a = va"
    and run: "set_lstar_breakpoint te (es, t) = (res, s')"
  shows "session_ok opcode s'"
    and "res = None \<Longrightarrow> live opcode s' \<and> has BREAKPOINT (es_vmi (fst s')) \<and>
      Mapping.lookup (es_interrupt_events (fst s')) INT3 = Some int_event"
    and "es_init_flags (fst s') = es_init_flags es"
proof -
  obtain r v1 where r: "vmi_get_vcpureg (te_env te) MSR_LSTAR 0 (es_vmi es) = (r, v1)" by fastforce
  have v1: "has opcode v1"
    using reg [OF assms(4), of MSR_LSTAR 0] r by (auto simp: vmi_get_vcpureg_def split: prod.splits option.splits)
  have A: "session_ok opcode (es\<lparr> es_vmi := w \<rparr>, t\<lparr> tr_lstar := b \<rparr>)" "session_ok opcode (es\<lparr> es_vmi := w \<rparr>, t)"
    if "has opcode w" for w b
    using assms that by (simp_all add: session_ok_def)
  have *: "session_ok opcode s' \<and> es_init_flags (fst s') = es_init_flags es \<and> (res = None \<longrightarrow> live opcode s' \<and> has BREAKPOINT (es_vmi (fst s')) \<and>
      Mapping.lookup (es_interrupt_events (fst s')) INT3 = Some int_event)"
  proof (cases r)
    case None
    then show ?thesis using run r A(2) [OF v1] by (auto simp: set_lstar_breakpoint_def put_vmi_def)
  next
    case (Some a)
    then have a: "r = Some va" using lstar r by simp
    obtain st1 v2 where p: "with_driver (xen_pause_vm (te_xc te)) (es\<lparr> es_vmi := v1 \<rparr>, t\<lparr> tr_lstar := va \<rparr>) =
        (st1, es\<lparr> es_vmi := v2 \<rparr>, t\<lparr> tr_lstar := va \<rparr>)" "has opcode v2"
      using with_driver_has [of opcode "es\<lparr> es_vmi := v1 \<rparr>" "xen_pause_vm (te_xc te)" "t\<lparr> tr_lstar := va \<rparr>"] v1 calm by auto
    obtain v3 where v3: "vmi_read_va (te_env te) va 0 1 v2 = (VMI_SUCCESS, [opcode], v3)" "has opcode v3"
      using get [OF p(2)] by blast
    let ?t = "t\<lparr> tr_lstar := va, tr_saved_opcode := opcode \<rparr>"
    obtain v4 where v4: "patch te va BREAKPOINT (es\<lparr> es_vmi := v3 \<rparr>, ?t) = (VMI_SUCCESS, es\<lparr> es_vmi := v4 \<rparr>, ?t)" "has BREAKPOINT v4"
      using patch_has [of opcode "es\<lparr> es_vmi := v3 \<rparr>" BREAKPOINT ?t] v3(2) by auto
    define t5 where "t5 = ?t\<lparr> tr_cb_data := \<lparr> bp_sym_vaddr = va, bp_saved_opcode = opcode, bp_hit_count = 0 \<rparr> \<rparr>"
    define s5 where "s5 = (es\<lparr> es_vmi := v4 \<rparr>, t5)"
    have l5: "live opcode s5" "no_handlers (fst s5)" "\<not> es_event_callback (fst s5)" "has BREAKPOINT (es_vmi (fst s5))"
      using assms(1-3) v4(2) by (simp_all add: s5_def t5_def live_def site_ok_def knows_def)
    obtain st6 s6 where s6: "register_at te int_event (\<lambda>_. int_setup) s5 = (st6, s6)" by (rule prod.exhaust)
    note i6 = register_int_live [OF l5(1,2) s6]
    obtain st7 s7 where s7: "register_at te sstep_event (sstep_setup (es_num_vcpus (fst s6))) s6 = (st7, s7)" by (rule prod.exhaust)
    note i7 = register_ss_live [OF i6(1,3) s7]
    obtain st8 s8 where s8: "with_driver (xen_resume_vm (te_xc te)) s7 = (st8, s8)" by (rule prod.exhaust)
    have cb: "\<not> es_event_callback (fst s6)" "\<not> es_event_callback (fst s7)" using l5(3) i6(2) i7(2) by simp_all
    have h7: "has BREAKPOINT (es_vmi (fst s7))" using l5(4) i6(5) i7(5) by blast
    obtain w where w: "s8 = ((fst s7)\<lparr> es_vmi := w \<rparr>, snd s7)" "has BREAKPOINT w"
      using with_driver_has [of BREAKPOINT "fst s7" "xen_resume_vm (te_xc te)" "snd s7"] h7 calm s8 by auto
    have f: "es_init_flags (fst s6) = es_init_flags es" "es_init_flags (fst s7) = es_init_flags es"
      "es_init_flags (fst s8) = es_init_flags es"
      using i6(7) i7(7) w(1) by (simp_all add: s5_def)
    have l8: "live opcode s8" using i7(1) w by (simp add: live_def site_ok_def)
    have "set_lstar_breakpoint te (es, t) =
        (if st1 = VMI_FAILURE then (Some 1, es\<lparr> es_vmi := v2 \<rparr>, t\<lparr> tr_lstar := va \<rparr>)
         else if st6 = VMI_FAILURE then (Some 1, s6) else if st7 = VMI_FAILURE then (Some 1, s7)
         else (if st8 = VMI_FAILURE then Some 1 else None, s8))"
      using p v3 v4 s6 s7 s8 unfolding s5_def t5_def
      by (simp add: set_lstar_breakpoint_def r a put_vmi_def put_tracer_def Let_def)
    then show ?thesis
      using run A(1) [OF p(2), of va] live_session [OF i6(1) cb(1)] live_session [OF i7(1) cb(2)] live_session [OF l8]
        l8 w cb(2) i6(4) i7(3) f
      by (auto split: if_splits) (metis status.exhaust)+
  qed
  show "session_ok opcode s'" "es_init_flags (fst s') = es_init_flags es" using * by blast+
  show "live opcode s' \<and> has BREAKPOINT (es_vmi (fst s')) \<and>
      Mapping.lookup (es_interrupt_events (fst s')) INT3 = Some int_event" if "res = None" using * that by blast
qed

end

section \<open>The loop and the clean-up\<close>

lemma no_watch_Pair: "no_watch = Pair VMI_SUCCESS"
  by (simp add: no_watch_def fun_eq_iff)

context tracer_session
begin

lemma session_put: "session_ok opcode s \<Longrightarrow> session_ok opcode (put_tracer (\<lambda>t. t\<lparr> tr_interrupted := b \<rparr>) s)"
  by (cases s) (simp add: session_ok_def put_tracer_def knows_def)

lemma loop_ok:
  "session_ok opcode s \<Longrightarrow> trace_loop te set_time rds r s = Inr (r', s') \<Longrightarrow> session_ok opcode s'"
proof (induction rds arbitrary: r s)
  case (Cons rd rds)
  show ?case
  proof (cases "tr_interrupted (snd s)")
    case False
    then obtain st r1 s1 where l: "vmi_events_listen (tracer_client te) (te_xc te) (rd_listen rd) no_watch 500 r s =
        Some (st, r1, s1)"
      using Cons.prems(2) by (auto split: option.splits)
    have "session_ok opcode s1" by (rule ring.listen_keeps [OF Cons.prems(1) l [unfolded no_watch_Pair]])
    then show ?thesis
      using Cons.prems(2) False Cons.IH [of s1] Cons.IH [OF session_put] by (auto simp: l split: if_splits)
  qed (use Cons.prems in simp)
qed simp

text \<open>The site after the clean-up: the byte of the code, unless a request was pending.\<close>

definition cleared :: "'s xen_events events_state \<Rightarrow> 's xen_events events_state" where
  "cleared es = (let es = snd (vmi_clear_event (tracer_driver te es) int_event None es)
     in snd (vmi_clear_event (tracer_driver te es) sstep_event None es))"

lemma cleared_calm:
  assumes "own_handlers es" and "\<not> es_event_callback es"
  shows "calm_step es (cleared es)"
proof -
  let ?es = "snd (vmi_clear_event (tracer_driver te es) int_event None es)"
  have ty: "ve_type (es_heap es int_event) \<in> {0, VMI_EVENT_INTERRUPT, VMI_EVENT_SINGLESTEP}"
    "ve_type (es_heap es sstep_event) \<in> {0, VMI_EVENT_INTERRUPT, VMI_EVENT_SINGLESTEP}"
    using assms(1) by (auto simp: own_handlers_def)
  have c: "calm_step es ?es"
    unfolding tracer_driver_def by (rule clear_calm [OF calm assms(2) ty(1)])
  then have "\<not> es_event_callback ?es" "es_heap ?es = es_heap es" using assms(2) by (simp_all add: calm_step_def)
  then have "calm_step ?es (snd (vmi_clear_event (tracer_driver te ?es) sstep_event None ?es))"
    using clear_calm [OF calm, of ?es sstep_event] ty(2) unfolding tracer_driver_def by auto
  then show ?thesis using calm_step_trans [OF c] by (simp add: cleared_def Let_def)
qed

text \<open>The clean-up after the byte is written back.\<close>

definition drained :: "listen_env \<Rightarrow> ring \<Rightarrow> 's tsession \<Rightarrow> (ring \<times> 's tsession) run" where
  "drained le r s1 = bind_run
        (if vmi_are_events_pending s1 r \<noteq> 0 then
           (case vmi_events_listen (tracer_client te) (te_xc te) le no_watch 0 r s1 of
              None \<Rightarrow> Inl No_return
            | Some (st, r, s) \<Rightarrow> Inr (r, s))
         else Inr (r, s1))
        (\<lambda>(r, es, t). Inr (r, snd (with_driver (xen_resume_vm (te_xc te)) (cleared es, t))))"

lemma cleanup_run:
  assumes "session_ok opcode s" and "opcode \<noteq> 0"
  obtains s1 where "session_ok opcode s1" "has opcode (es_vmi (fst s1))" "es_init_flags (fst s1) = es_init_flags (fst s)"
    "es_ss_events (fst s1) = es_ss_events (fst s)"
    "\<forall>le r. cleanup te le r s = drained le r s1"
proof -
  define s0 where "s0 = snd (with_driver (xen_pause_vm (te_xc te)) s)"
  have ok0: "session_ok opcode s0" unfolding s0_def by (rule session_with_driver [OF assms(1)]) (simp add: calm)
  define s1 where "s1 = (if tr_saved_opcode (snd s0) \<noteq> 0
      then snd (patch te (tr_lstar (snd s0)) (tr_saved_opcode (snd s0)) s0) else s0)"
  have f0: "es_init_flags (fst s0) = es_init_flags (fst s)" "es_ss_events (fst s0) = es_ss_events (fst s)" by (cases s, simp add: s0_def with_driver_def case_prod_beta Let_def)+
  have "session_ok opcode s1 \<and> has opcode (es_vmi (fst s1)) \<and>
      es_init_flags (fst s1) = es_init_flags (fst s) \<and> es_ss_events (fst s1) = es_ss_events (fst s)"
  proof (cases "tr_saved_opcode (snd s0) = 0")
    case True
    then show ?thesis using ok0 assms(2) f0 by (auto simp: s1_def session_ok_def knows_def)
  next
    case False
    then have so: "tr_saved_opcode (snd s0) = opcode" "tr_lstar (snd s0) = va" "site_ok opcode (es_vmi (fst s0))"
      using ok0 by (auto simp: session_ok_def knows_def)
    then obtain a where a: "has a (es_vmi (fst s0))" by (auto simp: site_ok_def)
    obtain w where w: "patch te va opcode s0 = (VMI_SUCCESS, (fst s0)\<lparr> es_vmi := w \<rparr>, snd s0)" "has opcode w"
      using patch_has [OF a, of opcode "snd s0"] by auto
    have "s1 = ((fst s0)\<lparr> es_vmi := w \<rparr>, snd s0)" using so False w by (simp add: s1_def)
    then show ?thesis using ok0 w(2) so f0 by (auto simp: session_ok_def site_ok_def)
  qed
  moreover have "cleanup te le r s = drained le r s1" for le r
    unfolding cleanup_def drained_def s1_def s0_def cleared_def by (simp add: case_prod_beta Let_def)
  ultimately show thesis using that by blast
qed

end

context tracer_session
begin

lemma has_final:
  assumes "has a (es_vmi es)" and "own_handlers es" and "\<not> es_event_callback es"
  shows "has a (es_vmi (fst (snd (with_driver (xen_resume_vm (te_xc te)) (cleared es, t)))))"
  using has_with_driver [of a "(cleared es, t)" "xen_resume_vm (te_xc te)"] cleared_calm [OF assms(2,3)] assms(1)
    has_same_xen calm by (auto simp: calm_step_def)

lemma cleanup_site:
  assumes "session_ok opcode s" and "opcode \<noteq> 0" and "cleanup te le r s = Inr (r', s')"
  shows "site_ok opcode (es_vmi (fst s'))"
proof -
  obtain s1 where s1: "session_ok opcode s1" "has opcode (es_vmi (fst s1))"
      "es_init_flags (fst s1) = es_init_flags (fst s)" "es_ss_events (fst s1) = es_ss_events (fst s)"
      and run: "\<forall>le r. cleanup te le r s = drained le r s1"
    by (rule cleanup_run [OF assms(1,2)])
  have "\<exists>es t. session_ok opcode (es, t) \<and> s' = snd (with_driver (xen_resume_vm (te_xc te)) (cleared es, t))"
    using assms(3) s1(1) ring.listen_keeps [OF s1(1), of le 0 r]
    by (auto simp: run drained_def bind_run_Inr no_watch_Pair split: if_splits option.splits) blast
  then show ?thesis using has_final by (fastforce simp: session_ok_def site_ok_def)
qed

lemma cleanup_restores:
  assumes "session_ok opcode s" and "opcode \<noteq> 0" and "bit (es_init_flags (fst s)) 2" and "rg_requests r = []"
  shows "\<exists>s'. cleanup te le r s = Inr (r, s') \<and> has opcode (es_vmi (fst s'))"
proof -
  obtain s1 where s1: "session_ok opcode s1" "has opcode (es_vmi (fst s1))"
      "es_init_flags (fst s1) = es_init_flags (fst s)" "es_ss_events (fst s1) = es_ss_events (fst s)"
      and run: "\<forall>le r. cleanup te le r s = drained le r s1"
    by (rule cleanup_run [OF assms(1,2)])
  have "vmi_are_events_pending s1 r = 0" using assms(3,4) s1(3) by (simp add: vmi_are_events_pending_def)
  moreover have "has opcode (es_vmi (fst (snd (with_driver (xen_resume_vm (te_xc te)) (cleared (fst s1), snd s1)))))"
    using has_final [OF s1(2)] s1(1) by (simp add: session_ok_def)
  ultimately show ?thesis by (auto simp: run drained_def case_prod_beta)
qed

lemma trace_site:
  assumes "own_handlers es" and "\<not> es_event_callback es" and "no_handlers es" and "has opcode (es_vmi es)" and "opcode \<noteq> 0"
    and "tr_saved_opcode t = 0"
    and "\<And>a w. vmi_get_vcpureg (te_env te) MSR_LSTAR 0 (es_vmi es) = (Some a, w) \<Longrightarrow> a = va"
    and "introspect_syscall_trace te mode ws set_time ret rounds le r (es, t) = Inr (r', s')"
  shows "site_ok opcode (es_vmi (fst s'))"
proof -
  define t0 where "t0 = (if mode = LEARN_MODE then t\<lparr> tr_csv := csv_header \<rparr> else t)"
  have t0: "tr_saved_opcode t0 = 0" using assms(6) by (simp add: t0_def)
  obtain res s1 where s1: "set_lstar_breakpoint te (es, t0) = (res, s1)" by (rule prod.exhaust)
  have ok: "session_ok opcode s1" by (rule set_up(1) [OF assms(1-4) t0 assms(7) s1])
  have eq: "(if mode = LEARN_MODE then put_tracer (\<lambda>t. t\<lparr> tr_csv := csv_header \<rparr>) (es, t) else (es, t)) = (es, t0)"
    by (simp add: t0_def put_tracer_def)
  have "\<exists>r2 s2. session_ok opcode s2 \<and> cleanup te le r2 s2 = Inr (r', s')"
    using assms(8) ok unfolding introspect_syscall_trace_def eq Let_def s1 prod.case
    by (auto simp: bind_run_Inr split: if_splits intro: loop_ok [OF ok])
  then show ?thesis using cleanup_site assms(5) by blast
qed

text \<open>A single step that is still pending when the session ends puts the breakpoint back.\<close>

lemma singlestep_arms:
  assumes "live opcode s" and "Mapping.lookup (es_ss_events (fst s)) (vm_vcpu_id vmec) = Some p"
  shows "\<exists>v s'. process_singlestep (tracer_client te) (te_xc te) vmec s = Some (VMI_SUCCESS, v, s') \<and>
    has BREAKPOINT (es_vmi (fst s'))"
proof -
  define s1 where "s1 = store_event p (\<lambda>e. common_fields vmec (e\<lparr> ve_gfn := vm_singlestep_gfn vmec,
      ve_offset := xr_rip (vm_regs vmec) AND VMI_BIT_MASK 0 11, ve_gla := xr_rip (vm_regs vmec) \<rparr>)) s"
  have l: "live opcode s1"
    unfolding s1_def by (rule live_store [OF assms(1)]) (simp add: same_wiring_def common_fields_def)
  have "Mapping.lookup (es_ss_events (fst s1)) (vm_vcpu_id vmec) = Some p"
    using assms(2) by (cases s) (simp add: s1_def store_event_def)
  then have w: "wired VMI_EVENT_SINGLESTEP single_step_cb_id (es_heap (fst s1) p)"
    using own_handlers_ss [of "fst s1" "vm_vcpu_id vmec" p] l by (auto simp: live_def)
  let ?es = "(fst s1)\<lparr> es_event_callback := True \<rparr>"
  obtain a where a: "has a (es_vmi ?es)" using l by (auto simp: live_def site_ok_def)
  have va: "bp_sym_vaddr (tr_cb_data (snd s1)) = va" using l by (simp add: live_def knows_def)
  have d: "ve_data (es_heap ?es p) \<noteq> None" using w by (auto simp: wired_def)
  obtain u where u: "single_step_cb te p (?es, snd s1) =
      (VMI_EVENT_RESPONSE_TOGGLE_SINGLESTEP, ?es\<lparr> es_vmi := u \<rparr>, snd s1)" "has BREAKPOINT u"
    using single_step_cb_arms [OF a d va] by blast
  have i: "issue_callback (tracer_client te) (te_xc te) p (?es, snd s1) =
      Some (VMI_EVENT_RESPONSE_TOGGLE_SINGLESTEP, ?es\<lparr> es_vmi := u \<rparr>, snd s1)"
    using w u(1) by (simp add: issue_callback_def tracer_client_def wired_def)
  have s1': "s1 = (fst s1, snd s1)" by simp
  have "\<exists>v s'. call_handler (tracer_client te) (te_xc te) p vmec s1 = Some (v, s') \<and> has BREAKPOINT (es_vmi (fst s'))"
    using u(2) by (subst s1', unfold call_handler_def prod.case i option.case) (simp add: case_prod_beta Let_def)
  then show ?thesis by (auto simp: process_singlestep_def assms(2) s1_def [symmetric] Let_def)
qed

lemma finish_has: "has a (es_vmi (fst s)) \<Longrightarrow> has a (es_vmi (fst (snd (finish_listen (te_xc te) u n s))))"
proof -
  assume h: "has a (es_vmi (fst s))"
  define s1 where "s1 = (if u then with_driver (unmask_event (te_xc te)) s else (VMI_SUCCESS, s))"
  have n: "has a (es_vmi (fst w)) \<Longrightarrow> has a (es_vmi (fst (snd (notify (te_xc te) w))))" for w
    unfolding notify_def by (rule has_with_driver) (simp_all add: calm)
  have "has a (es_vmi (fst (snd s1)))"
    using has_with_driver [OF h, of "unmask_event (te_xc te)"] h
    by (simp add: s1_def unmask_event_def calm case_prod_beta Let_def)
  then show ?thesis using n [of "snd s1"] by (simp add: finish_listen_def s1_def [symmetric] case_prod_beta Let_def)
qed

lemma request_arms:
  assumes "live opcode s" and "rg_requests r = [req]" and "vm_version req = 7" and "vm_reason req = 7"
    and "Mapping.lookup (es_ss_events (fst s)) (vm_vcpu_id req) = Some p"
  shows "\<exists>st n r' s'. process_requests_7 (tracer_client te) (te_xc te) vrc m r s = Some (st, n, r', s') \<and>
    has BREAKPOINT (es_vmi (fst s'))"
proof -
  define r1 where "r1 = r\<lparr> rg_requests := [], rg_slots := rg_slots r @ [None] \<rparr>"
  have g: "ring_get_request_and_response_7 r = Some (req, r1)"
    by (simp add: ring_get_request_and_response_7_def assms(2) r1_def)
  have "\<exists>vm. process_request (tracer_client te) (te_xc te) (load_request req) s =
      process_singlestep (tracer_client te) (te_xc te) vm s \<and> vm_vcpu_id vm = vm_vcpu_id req"
    using assms(4) by (auto simp: process_request_def load_request_def Let_def)
  then obtain v s1 where p: "process_request (tracer_client te) (te_xc te) (load_request req) s = Some (VMI_SUCCESS, v, s1)"
    and h: "has BREAKPOINT (es_vmi (fst s1))"
    using singlestep_arms [OF assms(1)] assms(5) by metis
  obtain rc s2 where s2: "(if es_num_vcpus (fst s1) \<ge> 7 then notify (te_xc te) s1 else (0, s1)) = (rc, s2)"
    by (rule prod.exhaust)
  have h2: "has BREAKPOINT (es_vmi (fst s2))"
    using has_with_driver [OF h, of "\<lambda>x. xc_call (xc_evtchn_notify (te_xc te) (xe_port x)) x"] h s2
    by (auto simp: notify_def calm split: if_splits)
  have e: "process_requests_7 (tracer_client te) (te_xc te) VMI_SUCCESS k (r1\<lparr> rg_slots := a, rg_pushed := b \<rparr>) s2 =
      Some (VMI_SUCCESS, k, r1\<lparr> rg_slots := a, rg_pushed := b \<rparr>, s2)" for k a b
    by (subst process_requests_7.simps) (simp add: ring_get_request_and_response_7_def r1_def)
  show ?thesis
    unfolding process_requests_7.simps [of _ _ _ _ r] g option.case prod.case p status.case Let_def s2
    using h2 assms(3) by (cases "rc = 0") (simp_all add: e del: split_paired_Ex)
qed

lemma listen_arms:
  assumes "session_ok opcode s" and "rg_requests r = [req]" and "vm_version req = 7" and "vm_reason req = 7"
    and "Mapping.lookup (es_ss_events (fst s)) (vm_vcpu_id req) = Some p" and "bit (es_init_flags (fst s)) 2"
    and "le_arrive le = []" and "0 \<le> le_poll le"
  shows "\<exists>st r' s'. vmi_events_listen (tracer_client te) (te_xc te) le no_watch timeout r s = Some (st, r', s') \<and>
    has BREAKPOINT (es_vmi (fst s')) \<and> session_ok opcode s'"
proof -
  have "\<not> no_handlers (fst s)" using assms(5) by (auto simp: no_handlers_def)
  then have l: "live opcode s" by (rule session_live [OF assms(1)])
  have "es_init_flags (fst s) AND 20 \<noteq> 0"
  proof
    assume "es_init_flags (fst s) AND 20 = 0"
    then have "\<not> bit (es_init_flags (fst s) AND 20) 2" by simp
    then show False using assms(6) by (simp add: bit_simps bit_numeral_rec)
  qed
  moreover have ar: "arrive (le_arrive le) r = r" by (simp add: arrive_def assms(7))
  obtain st n r1 s1 where p: "process_requests_7 (tracer_client te) (te_xc te) VMI_SUCCESS 0 r s = Some (st, n, r1, s1)"
    and h: "has BREAKPOINT (es_vmi (fst s1))"
    using request_arms [OF l assms(2-5)] by blast
  have q: "es_swap_events (fst s1) = []" "Mapping.is_empty (es_clear_events (fst s1))"
    using ring.nothing_queued [OF ring.requests_keep [OF assms(1) p]] by simp_all
  define w where "w = (if es_shutting_down (fst s) then (VMI_SUCCESS, False)
      else if \<not> xe_external_poll (vi_driver (es_vmi (fst s))) then wait_for_event_or_timeout le False
      else (VMI_SUCCESS, timeout \<noteq> 0))"
  have "fst w = VMI_SUCCESS" using assms(8) by (auto simp: w_def wait_for_event_or_timeout_def)
  then obtain u where u: "w = (VMI_SUCCESS, u)" by (cases w) simp
  obtain st2 s2 where f: "finish_listen (te_xc te) u n s1 = (st2, s2)" by (rule prod.exhaust)
  have "vmi_events_listen (tracer_client te) (te_xc te) le no_watch timeout r s =
      Some (if st = VMI_FAILURE then (VMI_FAILURE, r1, s1) else (st2, r1, s2))"
    using calculation assms(6) unfolding vmi_events_listen_def xen_events_listen_def w_def [symmetric] u no_watch_Pair
    by (cases st) (simp_all add: ar p q f)
  moreover have "has BREAKPOINT (es_vmi (fst s2))" using finish_has [OF h, of u n] f by simp
  ultimately have "\<exists>st r' s'. vmi_events_listen (tracer_client te) (te_xc te) le no_watch timeout r s = Some (st, r', s') \<and>
    has BREAKPOINT (es_vmi (fst s'))"
    using h by (cases st) (simp_all del: split_paired_Ex)
  then show ?thesis using ring.listen_keeps [OF assms(1)] unfolding no_watch_Pair by blast
qed

lemma cleanup_rearms:
  assumes "session_ok opcode s" and "opcode \<noteq> 0" and "rg_requests r = [req]" and "vm_version req = 7" and "vm_reason req = 7"
    and "Mapping.lookup (es_ss_events (fst s)) (vm_vcpu_id req) = Some p" and "bit (es_init_flags (fst s)) 2"
    and "le_arrive le = []" and "0 \<le> le_poll le"
  shows "\<exists>r' s'. cleanup te le r s = Inr (r', s') \<and> has BREAKPOINT (es_vmi (fst s'))"
proof -
  obtain s1 where s1: "session_ok opcode s1" "has opcode (es_vmi (fst s1))"
      "es_init_flags (fst s1) = es_init_flags (fst s)" "es_ss_events (fst s1) = es_ss_events (fst s)"
      and run: "\<forall>le r. cleanup te le r s = drained le r s1"
    by (rule cleanup_run [OF assms(1,2)])
  have "vmi_are_events_pending s1 r \<noteq> 0" using assms(3,7) s1(3) by (simp add: vmi_are_events_pending_def)
  moreover obtain st r2 es t where "vmi_events_listen (tracer_client te) (te_xc te) le no_watch 0 r s1 = Some (st, r2, es, t)"
    and h: "has BREAKPOINT (es_vmi es)" "session_ok opcode (es, t)"
    using listen_arms [OF s1(1) assms(3-5)] assms(6-9) s1(3,4) by fastforce
  moreover have "has BREAKPOINT (es_vmi (fst (snd (with_driver (xen_resume_vm (te_xc te)) (cleared es, t)))))"
    using has_final [OF h(1)] h(2) by (simp add: session_ok_def)
  ultimately show ?thesis by (simp add: run drained_def case_prod_beta del: split_paired_Ex)
qed

text \<open>A session without a round ends with the guest's own code.\<close>

lemma trace_returns:
  assumes "own_handlers es" and "\<not> es_event_callback es" and "no_handlers es" and "has opcode (es_vmi es)" and "opcode \<noteq> 0"
    and "tr_saved_opcode t = 0"
    and "\<And>a w. vmi_get_vcpureg (te_env te) MSR_LSTAR 0 (es_vmi es) = (Some a, w) \<Longrightarrow> a = va"
    and "bit (es_init_flags es) 2" and "rg_requests r = []"
  shows "\<exists>s'. introspect_syscall_trace te mode ws set_time ret [] le r (es, t) = Inr (r, s') \<and> has opcode (es_vmi (fst s'))"
proof -
  define t0 where "t0 = (if mode = LEARN_MODE then t\<lparr> tr_csv := csv_header \<rparr> else t)"
  have t0: "tr_saved_opcode t0 = 0" using assms(6) by (simp add: t0_def)
  obtain res s1 where s1: "set_lstar_breakpoint te (es, t0) = (res, s1)" by (rule prod.exhaust)
  note up = set_up [OF assms(1-4) t0 assms(7) s1]
  have eq: "(if mode = LEARN_MODE then put_tracer (\<lambda>t. t\<lparr> tr_csv := csv_header \<rparr>) (es, t) else (es, t)) = (es, t0)"
    by (simp add: t0_def put_tracer_def)
  show ?thesis
    using cleanup_restores [OF up(1) assms(5) _ assms(9)] up(3) assms(8)
    unfolding introspect_syscall_trace_def eq Let_def s1 prod.case by auto
qed

end

section \<open>The tracer on the Xen stack\<close>

definition stack_tracer :: "xc_map_read \<Rightarrow> xc_map_write \<Rightarrow> mem_config \<Rightarrow> int \<Rightarrow> addr_t \<Rightarrow>
    xen_instance xen_events os_interface \<Rightarrow> page_info \<Rightarrow>
    (reg_t \<Rightarrow> nat \<Rightarrow> xen_instance xen_events \<Rightarrow> u64 option \<times> xen_instance xen_events) \<Rightarrow>
    xen_instance libxc \<Rightarrow> u64 \<Rightarrow> u64 \<Rightarrow> syscall_regs \<Rightarrow> xen_instance tracer_env" where
  "stack_tracer xcr xcw cfg now sp os junk vr xc rax cr3 regs =
     \<lparr> te_env = stack_env xcr xcw cfg now sp os junk vr, te_xc = xc, te_stack_rax = rax, te_stack_cr3 = cr3,
       te_stack_regs = regs \<rparr>"

interpretation bp: breakpoint_site "stack_tracer xcr xcw (xen_cfg vt mm maxp) now sp os junk vr xc rax cr3 regs" va
  "patched xcr xcw (xen_cfg vt mm maxp) sp os vr tp kpgd va pa hv"
  for xcr xcw vt mm maxp now sp os junk vr xc rax cr3 regs va tp kpgd pa hv
proof -
  let ?te = "stack_tracer xcr xcw (xen_cfg vt mm maxp) now sp os junk vr xc rax cr3 regs"
  have "te_env ?te = stack_env xcr xcw (xen_cfg vt mm maxp) now sp os junk vr" by (simp add: stack_tracer_def)
  then show "breakpoint_site ?te va (patched xcr xcw (xen_cfg vt mm maxp) sp os vr tp kpgd va pa hv)"
    unfolding breakpoint_site_def breakpoint_site_axioms_def
    using site.code_patching_axioms by (auto simp: patched_def stack_ready_def)
qed

text \<open>The control calls of a \<^verbatim>\<open>libxc\<close> with their results, and without an effect on the guest's
  memory and the page cache; a calm \<^verbatim>\<open>libxc\<close> is its own.\<close>

definition freeze :: "'s libxc \<Rightarrow> 's libxc" where
  "freeze xc = xc\<lparr>
     xc_domain_pause := (\<lambda>d. (fst (xc_domain_pause xc d), d)), xc_domain_unpause := (\<lambda>d. (fst (xc_domain_unpause xc d), d)),
     xc_monitor_software_breakpoint := (\<lambda>b d. (fst (xc_monitor_software_breakpoint xc b d), d)),
     xc_monitor_singlestep := (\<lambda>b d. (fst (xc_monitor_singlestep xc b d), d)),
     xc_domain_debug_control := (\<lambda>b v d. (fst (xc_domain_debug_control xc b v d), d)),
     xc_evtchn_notify := (\<lambda>p d. (fst (xc_evtchn_notify xc p d), d)), xc_evtchn_pending := (\<lambda>d. (fst (xc_evtchn_pending xc d), d)),
     xc_evtchn_unmask := (\<lambda>p d. (fst (xc_evtchn_unmask xc p d), d)),
     xc_hvm_inject_trap := (\<lambda>v a b c e d. (fst (xc_hvm_inject_trap xc v a b c e d), d)) \<rparr>"

lemma calm_freeze: "calm_xc (freeze xc)"
  by (simp add: calm_xc_def freeze_def)

lemma freeze_calm: "calm_xc xc \<Longrightarrow> freeze xc = xc"
  by (cases xc) (simp add: calm_xc_def freeze_def fun_eq_iff prod_eq_iff)

interpretation sess: tracer_session "stack_tracer xcr xcw (xen_cfg vt mm maxp) now sp os junk vr (freeze xc) rax cr3 regs" va
  "patched xcr xcw (xen_cfg vt mm maxp) sp os vr tp kpgd va pa hv"
  for xcr xcw vt mm maxp now sp os junk vr xc rax cr3 regs va tp kpgd pa hv
  by unfold_locales (simp add: stack_tracer_def calm_freeze)

section \<open>A concrete session\<close>

definition quiet_xc :: "'s libxc" where
  "quiet_xc = \<lparr> xc_set_mem_access = (\<lambda>_ _ d. (0, d)), xc_altp2m_set_mem_access = (\<lambda>_ _ _ d. (0, d)),
     xc_monitor_write_ctrlreg = (\<lambda>_ _ _ _ d. (0, d)), xc_monitor_write_ctrlreg2 = (\<lambda>_ _ _ _ d. (0, d)),
     xc_monitor_mov_to_msr = (\<lambda>_ d. (0, d)), xc_monitor_mov_to_msr2 = (\<lambda>_ _ d. (0, d)),
     xc_monitor_software_breakpoint = (\<lambda>_ d. (0, d)), xc_monitor_singlestep = (\<lambda>_ d. (0, d)),
     xc_domain_debug_control = (\<lambda>_ _ d. (0, d)), xc_hvm_inject_trap = (\<lambda>_ _ _ _ _ d. (0, d)),
     xc_domain_pause = (\<lambda>d. (0, d)), xc_domain_unpause = (\<lambda>d. (0, d)),
     xc_evtchn_notify = (\<lambda>_ d. (0, d)), xc_evtchn_pending = (\<lambda>d. (3, d)), xc_evtchn_unmask = (\<lambda>_ d. (0, d)) \<rparr>"

lemma calm_quiet_xc: "calm_xc quiet_xc"
  by (simp add: calm_xc_def quiet_xc_def)

text \<open>The entry point has the byte 0x0f.\<close>

definition hv3 :: hypervisor where
  "hv3 = poke xcr0 pa2 0x0f hv2"

definition os3 :: "xen_instance xen_events os_interface" where
  "os3 = \<lparr> os_pgd_to_pid = None, os_pid_to_pgd = None, os_ksym2v = None, os_usym2rva = None, os_v2sym = None,
     os_v2ksym = None \<rparr>"

text \<open>The register of the entry point is the only one that can be read.\<close>

definition vr3 :: "reg_t \<Rightarrow> nat \<Rightarrow> xen_instance xen_events \<Rightarrow> u64 option \<times> xen_instance xen_events" where
  "vr3 g n x = (if g = MSR_LSTAR then Some va2 else None, x)"

definition vmi3 :: "u8 \<Rightarrow> xen_instance xen_events vmi_instance" where
  "vmi3 b = \<lparr> vi_mode = VMI_XEN, vi_os_type = VMI_OS_LINUX, vi_vm_type = PV64, vi_page_mode = VMI_PM_IA32E,
     vi_kpgd = 0x1000, vi_page_shift = 12, vi_page_size = 0x1000, vi_pse = False, vi_transition_pages = False,
     vi_t0sz = 0, vi_t1sz = 0, vi_tg0 = 0, vi_tg1 = 0, vi_max_physical_address = 0x100000000,
     vi_caches = addr_caches_init,
     vi_driver = \<lparr> xe_major_version = 4, xe_minor_version = 15, xe_monitor_capabilities = 15,
       xe_monitor_singlestep_on = False, xe_monitor_intr_on = False, xe_monitor_cr0_on = False,
       xe_monitor_cr3_on = False, xe_monitor_cr4_on = False, xe_monitor_xcr0_on = False, xe_monitor_msr_on = False,
       xe_port = 3, xe_external_poll = False,
       xe_xen = \<lparr> xi_cache = memory_cache_init 0, xi_hv = poke xcr0 pa2 b hv3 \<rparr> \<rparr> \<rparr>"

text \<open>Without handlers, and with the tracer's handlers.\<close>

definition es3 :: "u8 \<Rightarrow> xen_instance xen_events events_state" where
  "es3 b = \<lparr> es_vmi = vmi3 b, es_init_flags = 4, es_num_vcpus = 1, es_event_callback = False, es_shutting_down = False,
     es_heap = (\<lambda>p. event_zero), es_next = 5, es_interrupt_events = Mapping.empty, es_mem_events_on_gfn = Mapping.empty,
     es_mem_events_generic = Mapping.empty, es_reg_events = Mapping.empty, es_msr_events = Mapping.empty,
     es_ss_events = Mapping.empty, es_clear_events = Mapping.empty, es_step_events = [], es_step_vcpus = (\<lambda>v. 0),
     es_swap_events = [], es_guest_requested_event = None, es_cpuid_event = None, es_vmexit_event = None,
     es_debug_event = None, es_privcall_event = None, es_descriptor_access_event = None,
     es_failed_emulation_event = None, es_watch_domain_event = None, es_free_calls = [] \<rparr>"

definition es4 :: "u8 \<Rightarrow> xen_instance xen_events events_state" where
  "es4 b = (es3 b)\<lparr> es_heap := (\<lambda>p. event_zero)(int_event := int_setup, sstep_event := sstep_setup 1 event_zero),
     es_interrupt_events := Mapping.update INT3 int_event Mapping.empty,
     es_ss_events := Mapping.update 0 sstep_event Mapping.empty \<rparr>"

definition tracer4 :: tracer where
  "tracer4 = sandbox0\<lparr> tr_lstar := va2, tr_saved_opcode := 0x0f,
     tr_cb_data := \<lparr> bp_sym_vaddr = va2, bp_saved_opcode = 0x0f, bp_hit_count = 0 \<rparr> \<rparr>"

lemma patched3: "patched xcr0 xcw0 xcfg0 0xffff os3 vr3 False 0x1000 va2 pa2 hv3 b (vmi3 b)"
proof -
  have s: "code_site xcr0 xcfg0 False 0x1000 va2 pa2 hv3"
    unfolding hv3_def by (rule code_site_poke(1) [OF plain_xc0 code_site_hv2])
  have sp: "\<not> page_aligned xcfg0 0xffff" by (simp add: page_aligned_def xen_cfg_def)
  have os: "calm_os os3 P" for P by (simp add: calm_os_def os3_def)
  show ?thesis
    unfolding patched_def
    by (intro conjI allI plain_xc0 sp s os)
      (simp_all add: vr3_def stack_ready_def vmi3_def xen_inv_def pc_inv_init pc_coherent_init v2pc.coherent_empty)
qed

lemma own_es: "own_handlers (es3 b)" "own_handlers (es4 b)"
  by (auto simp: own_handlers_def es3_def es4_def event_zero_def wired_def lookup_update')

lemma patched4: "patched xcr0 xcw0 xcfg0 0xffff os3 vr3 False 0x1000 va2 pa2 hv3 b (es_vmi (es4 b))"
  using patched3 by (simp add: es4_def es3_def)

lemma byte3: "pbyte (xen_page xcr0 xcfg0 hv3) pa2 = Some 0x0f"
  unfolding hv3_def by (rule code_site_poke(3) [OF plain_xc0 code_site_hv2])

definition le3 :: listen_env where
  "le3 = \<lparr> le_poll = 0, le_eintr = False, le_watch = False, le_arrive = [], le_arrive_paused = [] \<rparr>"

definition ring3 :: ring where
  "ring3 = \<lparr> rg_requests = [], rg_slots = [], rg_pushed = 0 \<rparr>"

abbreviation regs3 :: syscall_regs where
  "regs3 \<equiv> \<lparr> sc_rdi = 0, sc_rsi = 0, sc_rdx = 0, sc_r10 = 0, sc_r8 = 0, sc_r9 = 0 \<rparr>"

abbreviation te3 :: "xen_instance tracer_env" where
  "te3 \<equiv> stack_tracer xcr0 xcw0 xcfg0 0 0xffff os3 page_info_zero vr3 quiet_xc 0 0 regs3"

lemma lstar_reg:
  assumes "\<forall>x. fst (vr MSR_LSTAR 0 x) = None \<or> fst (vr MSR_LSTAR 0 x) = Some va"
    and "vmi_get_vcpureg (stack_env xcr xcw cfg now sp os junk vr) MSR_LSTAR 0 v = (Some a, w)"
  shows "a = va"
  using assms(2) spec [OF assms(1), of "vi_driver v"]
  by (auto simp: stack_env_def vmi_get_vcpureg_def driver_get_vcpureg_def case_prod_beta Let_def split: if_splits)

lemma es4_fields: "\<not> es_event_callback (es4 b)" "bit (es_init_flags (es4 b)) 2"
  "Mapping.lookup (es_ss_events (es4 b)) 0 = Some sstep_event"
  by (simp_all add: es4_def es3_def bit_numeral_rec)

text \<open>The breakpoint was hit.\<close>

definition es5 :: "xen_instance xen_events events_state" where
  "es5 = (es4 BREAKPOINT)\<lparr> es_heap := (\<lambda>p. int_setup\<lparr> ve_x86_regs := x86_registers0\<lparr> xr_rip := va2 \<rparr> \<rparr>) \<rparr>"

lemma no_reg3: "g \<noteq> MSR_LSTAR \<Longrightarrow> get_reg (te_env te3) g n old v = (old, v)"
  by (simp add: get_reg_def vmi_get_vcpureg_def driver_get_vcpureg_def stack_tracer_def stack_env_def vr3_def)

lemma breakpoint_cb5: "\<exists>r es t. breakpoint_cb te3 int_event (es5, tracer4) = Inr (r, es, t)"
proof -
  have dtb: "vmi_dtb_to_pid (te_env te3) a v = (None, v)" for a v
    by (simp add: vmi_dtb_to_pid_def stack_tracer_def stack_env_def os3_def)
  have ps: "process_syscall te3 int_event (es, tracer4) = Inr (es, tracer4)" for es
    by (simp add: process_syscall_def no_reg3 dtb tracer4_def sandbox0_def check_set_syscalls_def put_vmi_def)
  have "ve_data (es_heap es5 int_event) \<noteq> None" by (simp add: es5_def)
  then show ?thesis
    by (auto simp: breakpoint_cb_def Let_def store_event_def ps interrupt_def put_tracer_def split: prod.split status.split)
qed

section \<open>Properties\<close>

text \<open>C6. A whole tracing session changes at most one byte of the guest.  Whatever requests the guest raises in
  whatever rounds, whatever the control calls of the hypervisor answer, and whether or not the set-up
  succeeds: when \<^verbatim>\<open>introspect_syscall_trace\<close> returns, the guest's memory is the one it
  found but for the byte at the system-call entry, which is the original one or the
  breakpoint; and the library's caches still agree with it.\<close>

theorem session_changes_one_byte:
  assumes "patched xcr xcw (xen_cfg vt mm maxp) sp os vr tp kpgd va pa hv opcode (es_vmi es)" and "opcode \<noteq> 0"
    and "calm_xc xc" and "own_handlers es" and "no_handlers es" and "\<not> es_event_callback es" and "tr_saved_opcode t = 0"
    and "\<forall>x. fst (vr MSR_LSTAR 0 x) = None \<or> fst (vr MSR_LSTAR 0 x) = Some va"
    and "introspect_syscall_trace (stack_tracer xcr xcw (xen_cfg vt mm maxp) now sp os junk vr xc rax cr3 regs)
      mode ws set_time ret rounds le r (es, t) = Inr (r', es', t')"
  shows "stack_ready xcr (xen_cfg vt mm maxp) tp kpgd (poke xcr pa opcode hv) (es_vmi es') \<or>
    stack_ready xcr (xen_cfg vt mm maxp) tp kpgd (poke xcr pa BREAKPOINT hv) (es_vmi es')"
proof -
  have run: "introspect_syscall_trace (stack_tracer xcr xcw (xen_cfg vt mm maxp) now sp os junk vr (freeze xc) rax cr3 regs)
      mode ws set_time ret rounds le r (es, t) = Inr (r', es', t')"
    using assms(9) by (simp add: freeze_calm [OF assms(3)])
  have reg: "a = va" if "vmi_get_vcpureg (te_env (stack_tracer xcr xcw (xen_cfg vt mm maxp) now sp os junk vr (freeze xc) rax cr3 regs))
      MSR_LSTAR 0 (es_vmi es) = (Some a, w)" for a w
    using lstar_reg [where vr = vr, OF assms(8)] that by (simp add: stack_tracer_def)
  have "sess.site_ok xcr xcw vt mm maxp sp os vr tp kpgd va pa hv opcode (es_vmi (fst (es', t')))"
    by (rule sess.trace_site [OF assms(4,6,5,1,2,7) _ run]) (erule reg)
  then show ?thesis by (auto simp: sess.site_ok_def patched_def)
qed

theorem session_changes_one_byte_witness:
  "\<exists>r' es' t'. introspect_syscall_trace te3 SANDBOX_MODE 10 (- 1) 0 [] le3 ring3 (es3 0x0f, sandbox0) = Inr (r', es', t') \<and>
     (stack_ready xcr0 xcfg0 False 0x1000 (poke xcr0 pa2 0x0f hv3) (es_vmi es') \<or>
      stack_ready xcr0 xcfg0 False 0x1000 (poke xcr0 pa2 BREAKPOINT hv3) (es_vmi es'))"
proof -
  have p: "patched xcr0 xcw0 xcfg0 0xffff os3 vr3 False 0x1000 va2 pa2 hv3 0x0f (es_vmi (es3 0x0f))"
    using patched3 by (simp add: es3_def)
  have n: "no_handlers (es3 0x0f)" "\<not> es_event_callback (es3 0x0f)" "bit (es_init_flags (es3 0x0f)) 2" "tr_saved_opcode sandbox0 = 0"
    "rg_requests ring3 = []"
    by (simp_all add: no_handlers_def es3_def sandbox0_def ring3_def bit_numeral_rec)
  have vr: "\<forall>x. fst (vr3 MSR_LSTAR 0 x) = None \<or> fst (vr3 MSR_LSTAR 0 x) = Some va2" by (simp add: vr3_def)
  have reg: "a = va2" if "vmi_get_vcpureg (te_env te3) MSR_LSTAR 0 (es_vmi (es3 0x0f)) = (Some a, w)" for a w
    using that by (simp add: stack_tracer_def stack_env_def vmi_get_vcpureg_def driver_get_vcpureg_def vr3_def)
  have c: "(0x0f :: u8) \<noteq> 0" by simp
  have "\<exists>s'. introspect_syscall_trace te3 SANDBOX_MODE 10 (- 1) 0 [] le3 ring3 (es3 0x0f, sandbox0) = Inr (ring3, s')"
    using sess.trace_returns [OF own_es(1) n(2,1) p c n(4) _ n(3,5), of 0 page_info_zero quiet_xc 0 0 regs3] reg
    unfolding freeze_calm [OF calm_quiet_xc] by blast
  then obtain es' t' where run: "introspect_syscall_trace te3 SANDBOX_MODE 10 (- 1) 0 [] le3 ring3 (es3 0x0f, sandbox0) =
      Inr (ring3, es', t')"
    by auto
  show ?thesis
    using session_changes_one_byte [OF p _ calm_quiet_xc own_es(1) n(1,2,4) vr run] run by auto
qed

text \<open>C9. Cleaning up a session puts the code back: with the tracer's handlers in place and no request pending
  on the ring, the clean-up returns, the guest's memory is exactly the memory before the
  breakpoint was set, and the caches agree with it.\<close>

theorem cleanup_restores_code:
  assumes "patched xcr xcw (xen_cfg vt mm maxp) sp os vr tp kpgd va pa hv b (es_vmi es)" and "b = opcode \<or> b = BREAKPOINT"
    and "pbyte (xen_page xcr (xen_cfg vt mm maxp) hv) pa = Some opcode" and "opcode \<noteq> 0" and "calm_xc xc"
    and "own_handlers es" and "\<not> es_event_callback es" and "bit (es_init_flags es) 2"
    and "tr_lstar t = va" and "tr_saved_opcode t = opcode" and "bp_sym_vaddr (tr_cb_data t) = va"
    and "bp_saved_opcode (tr_cb_data t) = opcode" and "rg_requests r = []"
  shows "\<exists>es' t'. cleanup (stack_tracer xcr xcw (xen_cfg vt mm maxp) now sp os junk vr xc rax cr3 regs) le r (es, t) =
      Inr (r, es', t') \<and> stack_ready xcr (xen_cfg vt mm maxp) tp kpgd hv (es_vmi es')"
proof -
  let ?te = "stack_tracer xcr xcw (xen_cfg vt mm maxp) now sp os junk vr (freeze xc) rax cr3 regs"
  have ok: "sess.session_ok va xcr xcw vt mm maxp sp os vr tp kpgd pa hv opcode (es, t)"
    using assms(1,2,6,7,9-12) by (auto simp: sess.session_ok_def sess.site_ok_def sess.knows_def)
  show ?thesis
    using sess.cleanup_restores [OF ok assms(4), of r now junk xc rax cr3 regs le] assms(8,13)
    by (auto simp: patched_def freeze_calm [OF assms(5)] poke_same [OF assms(3)])
qed

theorem cleanup_restores_code_witness:
  "\<exists>es' t'. cleanup te3 le3 ring3 (es4 BREAKPOINT, tracer4) = Inr (ring3, es', t') \<and>
     stack_ready xcr0 xcfg0 False 0x1000 hv3 (es_vmi es')"
  by (rule cleanup_restores_code [where b = BREAKPOINT and opcode = "0x0f" and va = va2 and pa = pa2])
    (simp_all add: patched4 own_es calm_quiet_xc byte3 es4_fields tracer4_def ring3_def)

text \<open>C10. A single step that is still pending when the session ends undoes the restoration: the clean-up writes the
  original byte back, then lets the pending request be handled, whose callback writes the
  breakpoint again; the handlers are removed and the guest is resumed with the breakpoint in
  its system-call entry.\<close>

theorem cleanup_rearms_breakpoint:
  assumes "patched xcr xcw (xen_cfg vt mm maxp) sp os vr tp kpgd va pa hv b (es_vmi es)" and "b = opcode \<or> b = BREAKPOINT"
    and "opcode \<noteq> 0" and "calm_xc xc" and "own_handlers es" and "\<not> es_event_callback es" and "bit (es_init_flags es) 2"
    and "tr_lstar t = va" and "tr_saved_opcode t = opcode" and "bp_sym_vaddr (tr_cb_data t) = va"
    and "bp_saved_opcode (tr_cb_data t) = opcode" and "rg_requests r = [req]" and "vm_version req = 7" and "vm_reason req = 7"
    and "Mapping.lookup (es_ss_events es) (vm_vcpu_id req) \<noteq> None" and "le_arrive le = []" and "0 \<le> le_poll le"
  shows "\<exists>r' es' t'. cleanup (stack_tracer xcr xcw (xen_cfg vt mm maxp) now sp os junk vr xc rax cr3 regs) le r (es, t) =
      Inr (r', es', t') \<and> stack_ready xcr (xen_cfg vt mm maxp) tp kpgd (poke xcr pa BREAKPOINT hv) (es_vmi es')"
proof -
  have ok: "sess.session_ok va xcr xcw vt mm maxp sp os vr tp kpgd pa hv opcode (es, t)"
    using assms(1,2,5,6,8-11) by (auto simp: sess.session_ok_def sess.site_ok_def sess.knows_def)
  obtain p where p: "Mapping.lookup (es_ss_events (fst (es, t))) (vm_vcpu_id req) = Some p" using assms(15) by auto
  show ?thesis
    using sess.cleanup_rearms [OF ok assms(3,12-14) p _ assms(16,17), of now junk xc rax cr3 regs] assms(7)
    by (auto simp: patched_def freeze_calm [OF assms(4)])
qed

theorem cleanup_rearms_breakpoint_witness:
  "\<exists>r' es' t'. cleanup te3 le3 (ring3\<lparr> rg_requests := [vmec0\<lparr> vm_reason := 7, vm_vcpu_id := 0 \<rparr>] \<rparr>) (es4 0x0f, tracer4) =
     Inr (r', es', t') \<and> stack_ready xcr0 xcfg0 False 0x1000 (poke xcr0 pa2 BREAKPOINT hv3) (es_vmi es')"
  by (rule cleanup_rearms_breakpoint [where b = "0x0f" and opcode = "0x0f" and va = va2 and pa = pa2
        and req = "vmec0\<lparr> vm_reason := 7, vm_vcpu_id := 0 \<rparr>"])
    (simp_all add: patched4 own_es calm_quiet_xc es4_fields tracer4_def ring3_def le3_def vmec0_def)

text \<open>C8. Installing the breakpoint is all or can be undone: from a session without handlers, when the function
  reports no failure the byte at the system-call entry is the breakpoint, the rest of memory is
  as before, and INT3 is handled by the tracer; and after any failure on the way the
  clean-up brings the guest's memory back.\<close>

theorem set_lstar_breakpoint_sound:
  assumes "patched xcr xcw (xen_cfg vt mm maxp) sp os vr tp kpgd va pa hv opcode (es_vmi es)"
    and "pbyte (xen_page xcr (xen_cfg vt mm maxp) hv) pa = Some opcode" and "opcode \<noteq> 0"
    and "calm_xc xc" and "own_handlers es" and "no_handlers es" and "\<not> es_event_callback es" and "bit (es_init_flags es) 2"
    and "tr_saved_opcode t = 0" and "\<forall>x. fst (vr MSR_LSTAR 0 x) = None \<or> fst (vr MSR_LSTAR 0 x) = Some va"
    and "set_lstar_breakpoint (stack_tracer xcr xcw (xen_cfg vt mm maxp) now sp os junk vr xc rax cr3 regs) (es, t) = (res, es', t')"
    and "rg_requests r = []"
  shows "(res \<noteq> None \<or> stack_ready xcr (xen_cfg vt mm maxp) tp kpgd (poke xcr pa BREAKPOINT hv) (es_vmi es') \<and>
      Mapping.lookup (es_interrupt_events es') INT3 = Some int_event \<and> tr_saved_opcode t' = opcode) \<and>
    (\<exists>es'' t''. cleanup (stack_tracer xcr xcw (xen_cfg vt mm maxp) now sp os junk vr xc rax cr3 regs) le r (es', t') =
      Inr (r, es'', t'') \<and> stack_ready xcr (xen_cfg vt mm maxp) tp kpgd hv (es_vmi es''))"
proof -
  let ?te = "stack_tracer xcr xcw (xen_cfg vt mm maxp) now sp os junk vr (freeze xc) rax cr3 regs"
  have run: "set_lstar_breakpoint ?te (es, t) = (res, es', t')" using assms(11) by (simp add: freeze_calm [OF assms(4)])
  have reg: "a = va" if "vmi_get_vcpureg (te_env ?te) MSR_LSTAR 0 (es_vmi es) = (Some a, w)" for a w
    using lstar_reg [where vr = vr, OF assms(10)] that by (simp add: stack_tracer_def)
  note up = sess.set_up [OF assms(5,7,6,1,9) reg run]
  have "\<exists>s'. cleanup ?te le r (es', t') = Inr (r, s') \<and>
      patched xcr xcw (xen_cfg vt mm maxp) sp os vr tp kpgd va pa hv opcode (es_vmi (fst s'))"
    using sess.cleanup_restores [OF up(1) assms(3)] up(3) assms(8,12) by simp
  then show ?thesis
    using up(2) by (auto simp: patched_def freeze_calm [OF assms(4)] poke_same [OF assms(2)] sess.live_def sess.knows_def)
qed

theorem set_lstar_breakpoint_sound_witness:
  "\<exists>res es' t' es'' t''. set_lstar_breakpoint te3 (es3 0x0f, sandbox0) = (res, es', t') \<and>
     cleanup te3 le3 ring3 (es', t') = Inr (ring3, es'', t'') \<and> stack_ready xcr0 xcfg0 False 0x1000 hv3 (es_vmi es'')"
proof -
  obtain res es' t' where run: "set_lstar_breakpoint te3 (es3 0x0f, sandbox0) = (res, es', t')" by (metis prod_cases3)
  have "\<exists>es'' t''. cleanup te3 le3 ring3 (es', t') = Inr (ring3, es'', t'') \<and> stack_ready xcr0 xcfg0 False 0x1000 hv3 (es_vmi es'')"
    using set_lstar_breakpoint_sound [where tp = False and kpgd = "0x1000" and va = va2 and r = ring3 and le = le3,
        OF _ byte3 _ calm_quiet_xc own_es(1) _ _ _ _ _ run]
      patched3 [of "0x0f"]
    by (simp add: es3_def no_handlers_def sandbox0_def ring3_def vr3_def bit_numeral_rec)
  then show ?thesis using run by blast
qed



end
