(* ===== verification/Linux_Memory.thy ===== *)
theory Linux_Memory
  imports Vmi_Translate Xen_Stack
begin

text \<open>
  \<^verbatim>\<open>os/linux/memory.c\<close>: from a process to its page table and back, over the list of
  tasks in the guest's kernel.

  The offsets of the fields come from the configuration (\<open>linux_instance\<close>); they are kept in
  variables of type \<^verbatim>\<open>int\<close>.  The kernel is read under process 0.  A read that fails leaves
  in its output variable the bytes it got over the old content; the loops do not check the status,
  so the old content matters.  A list that does not come back to its head is walked for ever:
  the loops are partial functions.
\<close>

section \<open>Data\<close>

record linux_instance =
  li_sysmap :: "string option"
  li_tasks_offset :: addr_t
  li_mm_offset :: addr_t
  li_pid_offset :: addr_t
  li_pgd_offset :: addr_t
  li_name_offset :: addr_t
  li_kaslr_offset :: addr_t
  li_init_task_fixed :: addr_t

text \<open>An offset stored in an \<^verbatim>\<open>int\<close> and added to an address.\<close>

definition int_offset :: "addr_t \<Rightarrow> addr_t" where
  "int_offset a = scast (ucast a :: u32)"

section \<open>Output variables\<close>

definition out_word :: "nat \<Rightarrow> 'w::len word \<Rightarrow> u8 list \<Rightarrow> 'w word" where
  "out_word n old bs = word_of_bytes (bs @ drop (length bs) (bytes_of_word n old))"

definition read_32_out :: "'s vmi_env \<Rightarrow> addr_t \<Rightarrow> u32 \<Rightarrow> 's vmi_instance \<Rightarrow> status \<times> u32 \<times> 's vmi_instance" where
  "read_32_out env vaddr old vmi =
     (case vmi_read_va env vaddr 0 4 vmi of (st, bs, vmi) \<Rightarrow> (st, out_word 4 old bs, vmi))"

definition read_addr_out :: "'s vmi_env \<Rightarrow> addr_t \<Rightarrow> addr_t \<Rightarrow> 's vmi_instance \<Rightarrow>
    status \<times> addr_t \<times> 's vmi_instance" where
  "read_addr_out env vaddr old vmi =
     (let pm = vi_page_mode vmi in
      if pm = VMI_PM_AARCH64 \<or> pm = VMI_PM_IA32E then
        (case vmi_read_va env vaddr 0 8 vmi of (st, bs, vmi) \<Rightarrow> (st, out_word 8 old bs, vmi))
      else if pm = VMI_PM_AARCH32 \<or> pm = VMI_PM_LEGACY \<or> pm = VMI_PM_PAE then
        (case vmi_read_va env vaddr 0 4 vmi of (st, bs, vmi) \<Rightarrow> (st, ucast (out_word 4 (0 :: u32) bs), vmi))
      else (VMI_FAILURE, old, vmi))"

text \<open>A failing lookup clears the output variable, unless the cache had an entry whose page could not be
  read.\<close>

definition kv2p_out :: "'s vmi_env \<Rightarrow> addr_t \<Rightarrow> addr_t \<Rightarrow> 's vmi_instance \<Rightarrow> status \<times> addr_t \<times> 's vmi_instance" where
  "kv2p_out env vaddr old vmi =
     (case vmi_translate_kv2p env vaddr vmi of
        (Some pa, v) \<Rightarrow> (VMI_SUCCESS, pa, v)
      | (None, v) \<Rightarrow>
          (VMI_FAILURE,
           if vi_kpgd vmi = 0 \<or> \<not> valid_pm (vi_page_mode vmi) then old
           else (case v2p_cache_get (vi_caches vmi) vaddr (vi_kpgd vmi) 0 of None \<Rightarrow> 0 | Some pa \<Rightarrow> pa), v))"

section \<open>The list of tasks\<close>

partial_function (option) task_by_pid :: "'s vmi_env \<Rightarrow> linux_instance \<Rightarrow> vmi_pid_t \<Rightarrow> addr_t \<Rightarrow>
    addr_t \<Rightarrow> addr_t \<Rightarrow> u32 \<Rightarrow> 's vmi_instance \<Rightarrow> (addr_t \<times> 's vmi_instance) option" where
  "task_by_pid env li pid list_head curr_entry curr_proc task_pid vmi =
     (case read_32_out env (curr_proc + int_offset (li_pid_offset li)) task_pid vmi of
        (_, task_pid, vmi) \<Rightarrow>
      if task_pid = pid then Some (curr_proc, vmi)
      else case read_addr_out env curr_entry curr_entry vmi of
        (_, curr_entry, vmi) \<Rightarrow>
      if list_head \<noteq> curr_entry
      then task_by_pid env li pid list_head curr_entry (curr_entry - int_offset (li_tasks_offset li)) task_pid vmi
      else Some (0, vmi))"

definition linux_get_taskstruct_addr_from_pid :: "'s vmi_env \<Rightarrow> linux_instance option \<Rightarrow> addr_t \<Rightarrow> vmi_pid_t \<Rightarrow>
    's vmi_instance \<Rightarrow> (addr_t \<times> 's vmi_instance) option" where
  "linux_get_taskstruct_addr_from_pid env os_data init_task pid vmi =
     (case os_data of
        None \<Rightarrow> Some (0, vmi)
      | Some li \<Rightarrow>
          let curr_entry = init_task + int_offset (li_tasks_offset li)
          in task_by_pid env li pid curr_entry curr_entry init_task (- 1) vmi)"

partial_function (option) task_by_pgd :: "'s vmi_env \<Rightarrow> linux_instance \<Rightarrow> addr_t \<Rightarrow> addr_t \<Rightarrow> addr_t \<Rightarrow> addr_t \<Rightarrow>
    's vmi_instance \<Rightarrow> (addr_t \<times> 's vmi_instance) option" where
  "task_by_pgd env li pgd list_head next_process task_pgd vmi =
     (case read_addr_out env (next_process + int_offset (li_mm_offset li)) 0 vmi of
        (_, ptr, vmi) \<Rightarrow>
      case read_addr_out env (ptr + int_offset (li_pgd_offset li)) task_pgd vmi of
        (_, task_pgd, vmi) \<Rightarrow>
      case kv2p_out env task_pgd task_pgd vmi of
        (_, task_pgd, vmi) \<Rightarrow>
      if task_pgd = pgd \<or> task_pgd = clear_low 13 pgd then Some (next_process, vmi)
      else case read_addr_out env (next_process + int_offset (li_tasks_offset li)) next_process vmi of
        (_, entry, vmi) \<Rightarrow>
      let next_process = entry - int_offset (li_tasks_offset li) in
      if list_head \<noteq> next_process then task_by_pgd env li pgd list_head next_process task_pgd vmi
      else Some (0, vmi))"

definition linux_get_taskstruct_addr_from_pgd :: "'s vmi_env \<Rightarrow> linux_instance option \<Rightarrow> addr_t \<Rightarrow> addr_t \<Rightarrow>
    's vmi_instance \<Rightarrow> (addr_t \<times> 's vmi_instance) option" where
  "linux_get_taskstruct_addr_from_pgd env os_data init_task pgd vmi =
     (case os_data of
        None \<Rightarrow> Some (0, vmi)
      | Some li \<Rightarrow> task_by_pgd env li pgd init_task init_task 0 vmi)"

section \<open>From a process to its page table and back\<close>

text \<open>The result is the status and what the output variable, zero before, contains.  A task without
  a memory descriptor of its own borrows one; without that either, and in an unknown page mode, the
  call succeeds and leaves the variable alone.\<close>

definition linux_pid_to_pgd :: "'s vmi_env \<Rightarrow> linux_instance option \<Rightarrow> addr_t \<Rightarrow> vmi_pid_t \<Rightarrow>
    's vmi_instance \<Rightarrow> (status \<times> addr_t \<times> 's vmi_instance) option" where
  "linux_pid_to_pgd env os_data init_task pid vmi =
     (case os_data of
        None \<Rightarrow> Some (VMI_FAILURE, 0, vmi)
      | Some li \<Rightarrow>
      (case linux_get_taskstruct_addr_from_pid env os_data init_task pid vmi of
         None \<Rightarrow> None
       | Some (ts_addr, vmi) \<Rightarrow>
           if ts_addr = 0 then Some (VMI_FAILURE, 0, vmi)
           else
             let mm = ts_addr + int_offset (li_mm_offset li);
                 finish = (\<lambda>ptr vmi. case read_addr_out env (ptr + int_offset (li_pgd_offset li)) 0 vmi of
                     (VMI_FAILURE, pgd, vmi) \<Rightarrow> (VMI_FAILURE, pgd, vmi)
                   | (VMI_SUCCESS, pgd, vmi) \<Rightarrow> kv2p_out env pgd pgd vmi) in
             Some (case read_addr_out env mm 0 vmi of
                 (VMI_FAILURE, ptr, vmi) \<Rightarrow> (VMI_FAILURE, 0, vmi)
               | (VMI_SUCCESS, ptr, vmi) \<Rightarrow>
                   if ptr \<noteq> 0 then finish ptr vmi
                   else
                     let pm = vi_page_mode vmi in
                     if pm \<notin> {VMI_PM_AARCH64, VMI_PM_IA32E, VMI_PM_AARCH32, VMI_PM_LEGACY, VMI_PM_PAE}
                     then (VMI_SUCCESS, 0, vmi)
                     else
                       let width = (if pm = VMI_PM_AARCH64 \<or> pm = VMI_PM_IA32E then 8 else 4) in
                       case read_addr_out env (mm + width) ptr vmi of
                         (VMI_FAILURE, ptr, vmi) \<Rightarrow> (VMI_FAILURE, 0, vmi)
                       | (VMI_SUCCESS, ptr, vmi) \<Rightarrow> if ptr = 0 then (VMI_SUCCESS, 0, vmi) else finish ptr vmi)))"

definition linux_pgd_to_pid :: "'s vmi_env \<Rightarrow> linux_instance option \<Rightarrow> addr_t \<Rightarrow> addr_t \<Rightarrow> vmi_pid_t \<Rightarrow>
    's vmi_instance \<Rightarrow> (status \<times> vmi_pid_t \<times> 's vmi_instance) option" where
  "linux_pgd_to_pid env os_data init_task pgd old vmi =
     (case os_data of
        None \<Rightarrow> Some (VMI_FAILURE, old, vmi)
      | Some li \<Rightarrow>
      (case linux_get_taskstruct_addr_from_pgd env os_data init_task pgd vmi of
         None \<Rightarrow> None
       | Some (ts_addr, vmi) \<Rightarrow>
           if ts_addr = 0 then Some (VMI_FAILURE, old, vmi)
           else Some (read_32_out env (ts_addr + int_offset (li_pid_offset li)) old vmi)))"


lemma find_unique:
  assumes "t \<in> set ts" and "P t" and "\<forall>u \<in> set ts. P u \<longrightarrow> u = t"
  shows "find P ts = Some t"
proof (cases "find P ts")
  case None
  then show ?thesis using assms(1,2) by (simp add: find_None_iff)
next
  case (Some u)
  then have "u \<in> set ts" "P u" by (auto simp: find_Some_iff)
  then show ?thesis using assms(3) Some by simp
qed

section \<open>A guest with a list of tasks\<close>

text \<open>What the walks rely on: reads of kernel memory and translations of kernel addresses, whatever
  the caches do.  \<open>hole a\<close> says that not even the first byte at \<open>a\<close> is mapped.\<close>

locale kernel_reads =
  fixes env :: "'s vmi_env" and ok :: "'s vmi_instance \<Rightarrow> bool" and mem32 :: "addr_t \<Rightarrow> u32 option"
    and mem64 :: "addr_t \<Rightarrow> addr_t option" and hole :: "addr_t \<Rightarrow> bool" and phys :: "addr_t \<Rightarrow> addr_t option"
  assumes ia32e: "ok v \<Longrightarrow> vi_page_mode v = VMI_PM_IA32E"
    and read32: "ok v \<Longrightarrow> mem32 a = Some w \<Longrightarrow> \<exists>v'. read_32_out env a old32 v = (VMI_SUCCESS, w, v') \<and> ok v'"
    and keep32: "ok v \<Longrightarrow> read_32_out env a old32 v = (st, w, v') \<Longrightarrow> ok v'"
    and readp: "ok v \<Longrightarrow> mem64 a = Some p \<Longrightarrow> \<exists>v'. read_addr_out env a old v = (VMI_SUCCESS, p, v') \<and> ok v'"
    and readh32: "ok v \<Longrightarrow> hole a \<Longrightarrow> \<exists>v'. read_32_out env a old32 v = (VMI_FAILURE, old32, v') \<and> ok v'"
    and keepp: "ok v \<Longrightarrow> read_addr_out env a old v = (st, p, v') \<Longrightarrow> ok v'"
    and readh: "ok v \<Longrightarrow> hole a \<Longrightarrow> \<exists>v'. read_addr_out env a old v = (VMI_FAILURE, old, v') \<and> ok v'"
    and kv2p: "ok v \<Longrightarrow> \<exists>v'. kv2p_out env a old v =
      (case phys a of None \<Rightarrow> (VMI_FAILURE, 0, v') | Some pa \<Rightarrow> (VMI_SUCCESS, pa, v')) \<and> ok v'"
begin

text \<open>A chain of tasks: following the list entry of \<open>x\<close> through \<open>ts\<close> leads to \<open>y\<close>.\<close>

primrec chain :: "addr_t \<Rightarrow> addr_t \<Rightarrow> addr_t list \<Rightarrow> addr_t \<Rightarrow> bool" where
  "chain off x [] y \<longleftrightarrow> x = y"
| "chain off x (t # ts) y \<longleftrightarrow> x = t \<and> (\<exists>z. mem64 (t + off) = Some (z + off) \<and> chain off z ts y)"

lemma by_pid:
  assumes "ts \<noteq> []" and "chain (int_offset (li_tasks_offset li)) x ts head" and "head \<notin> set (tl ts)" and "ok v"
    and "\<forall>t \<in> set ts. mem32 (t + int_offset (li_pid_offset li)) \<noteq> None"
  shows "\<exists>v'. task_by_pid env li pid (head + int_offset (li_tasks_offset li)) (x + int_offset (li_tasks_offset li)) x tp v =
      Some (case find (\<lambda>t. mem32 (t + int_offset (li_pid_offset li)) = Some pid) ts of None \<Rightarrow> 0 | Some t \<Rightarrow> t, v') \<and> ok v'"
  using assms
proof (induction ts arbitrary: x v tp)
  case (Cons t ts)
  let ?o = "int_offset (li_tasks_offset li)" and ?p = "int_offset (li_pid_offset li)"
  obtain z where x: "x = t" and z: "mem64 (t + ?o) = Some (z + ?o)" "chain ?o z ts head" using Cons.prems(2) by auto
  obtain q where q: "mem32 (t + ?p) = Some q" using Cons.prems(5) by auto
  obtain v1 where v1: "read_32_out env (t + ?p) tp v = (VMI_SUCCESS, q, v1)" "ok v1" using read32 [OF Cons.prems(4) q] by blast
  obtain v2 where v2: "read_addr_out env (t + ?o) (t + ?o) v1 = (VMI_SUCCESS, z + ?o, v2)" "ok v2"
    using readp [OF v1(2) z(1)] by blast
  show ?case
  proof (cases "q = pid \<or> ts = []")
    case True
    then show ?thesis using q v1 v2 z x by (subst task_by_pid.simps) (auto simp: q)
  next
    case False
    then have "z \<noteq> head" using z(2) Cons.prems(3) by (cases ts) auto
    moreover have "head \<notin> set (tl ts)" using Cons.prems(3) False by (cases ts) auto
    ultimately show ?thesis
      using Cons.IH [of z v2 q] False z(2) v2(2) Cons.prems(5) q v1 v2 x
      by (subst task_by_pid.simps) auto
  qed
qed simp

text \<open>What the search by page table computes for a task, and whether it is a user process or a
  kernel thread.\<close>

definition user_task :: "linux_instance \<Rightarrow> addr_t \<Rightarrow> addr_t \<Rightarrow> bool" where
  "user_task li t pgd \<longleftrightarrow> (\<exists>mm va. mem64 (t + int_offset (li_mm_offset li)) = Some mm \<and> mm \<noteq> 0 \<and>
     mem64 (mm + int_offset (li_pgd_offset li)) = Some va \<and> phys va = Some pgd)"

definition kernel_task :: "linux_instance \<Rightarrow> addr_t \<Rightarrow> bool" where
  "kernel_task li t \<longleftrightarrow> mem64 (t + int_offset (li_mm_offset li)) = Some 0 \<and> hole (int_offset (li_pgd_offset li))"

lemma user_task_unique: "user_task li t p \<Longrightarrow> user_task li t q \<Longrightarrow> p = q"
  by (auto simp: user_task_def)

lemma by_pgd:
  assumes "ts \<noteq> []" and "chain (int_offset (li_tasks_offset li)) x ts head" and "head \<notin> set (tl ts)" and "ok v"
    and "\<forall>t \<in> set ts. kernel_task li t \<or> (\<exists>p. user_task li t p \<and> phys p = None)" and "phys tp = None"
    and "phys 0 = None" and "clear_low 13 pgd \<noteq> 0"
  shows "\<exists>v'. task_by_pgd env li pgd head x tp v =
      Some (case find (\<lambda>t. user_task li t pgd \<or> user_task li t (clear_low 13 pgd)) ts of None \<Rightarrow> 0 | Some t \<Rightarrow> t, v') \<and> ok v'"
  using assms
proof (induction ts arbitrary: x v tp)
  case (Cons t ts)
  let ?o = "int_offset (li_tasks_offset li)" and ?m = "int_offset (li_mm_offset li)" and ?g = "int_offset (li_pgd_offset li)"
  let ?hit = "\<lambda>t. user_task li t pgd \<or> user_task li t (clear_low 13 pgd)"
  have p0: "pgd \<noteq> 0" using Cons.prems(8) by (auto simp: clear_low_def)
  obtain z where x: "x = t" and z: "mem64 (t + ?o) = Some (z + ?o)" "chain ?o z ts head" using Cons.prems(2) by auto
  have "\<exists>p1 g v1 v2 v3 st2 st3 tp2. read_addr_out env (t + ?m) 0 v = (VMI_SUCCESS, p1, v1) \<and>
      read_addr_out env (p1 + ?g) tp v1 = (st2, tp2, v2) \<and> kv2p_out env tp2 tp2 v2 = (st3, g, v3) \<and> ok v3 \<and>
      phys g = None \<and> (g = pgd \<or> g = clear_low 13 pgd \<longleftrightarrow> ?hit t)"
  proof -
    consider (k) "kernel_task li t" | (u) p where "user_task li t p" "phys p = None" using Cons.prems(5) by auto
    then show ?thesis
    proof cases
      case k
      then have k1: "mem64 (t + ?m) = Some 0" "hole ?g" by (simp_all add: kernel_task_def)
      obtain v1 where v1: "read_addr_out env (t + ?m) 0 v = (VMI_SUCCESS, 0, v1)" "ok v1"
        using readp [OF Cons.prems(4) k1(1), of 0] by blast
      obtain v2 where v2: "read_addr_out env (0 + ?g) tp v1 = (VMI_FAILURE, tp, v2)" "ok v2"
        using readh [OF v1(2) k1(2), of tp] by auto
      obtain v3 where v3: "kv2p_out env tp tp v2 = (VMI_FAILURE, 0, v3)" "ok v3"
        using kv2p [OF v2(2), of tp tp] Cons.prems(6) by auto
      have "\<not> ?hit t" using k1(1) by (simp add: user_task_def)
      then have "0 = pgd \<or> 0 = clear_low 13 pgd \<longleftrightarrow> ?hit t" using p0 Cons.prems(8) by auto
      then show ?thesis using v1 v2 v3 Cons.prems(7) by blast
    next
      case (u p)
      then obtain mm va where m: "mem64 (t + ?m) = Some mm" "mem64 (mm + ?g) = Some va" "phys va = Some p"
        by (auto simp: user_task_def)
      obtain v1 where v1: "read_addr_out env (t + ?m) 0 v = (VMI_SUCCESS, mm, v1)" "ok v1"
        using readp [OF Cons.prems(4) m(1)] by blast
      obtain v2 where v2: "read_addr_out env (mm + ?g) tp v1 = (VMI_SUCCESS, va, v2)" "ok v2"
        using readp [OF v1(2) m(2)] by blast
      obtain v3 where v3: "kv2p_out env va va v2 = (VMI_SUCCESS, p, v3)" "ok v3" using kv2p [OF v2(2), of va va] m(3) by auto
      have "p = pgd \<or> p = clear_low 13 pgd \<longleftrightarrow> ?hit t" using u(1) user_task_unique by blast
      then show ?thesis using v1 v2 v3 u(2) by blast
    qed
  qed
  then obtain p1 g v1 v2 v3 st2 st3 tp2 where r: "read_addr_out env (t + ?m) 0 v = (VMI_SUCCESS, p1, v1)"
    "read_addr_out env (p1 + ?g) tp v1 = (st2, tp2, v2)" "kv2p_out env tp2 tp2 v2 = (st3, g, v3)" "ok v3"
    "phys g = None" "g = pgd \<or> g = clear_low 13 pgd \<longleftrightarrow> ?hit t"
    by blast
  obtain v4 where v4: "read_addr_out env (t + ?o) t v3 = (VMI_SUCCESS, z + ?o, v4)" "ok v4" using readp [OF r(4) z(1)] by blast
  show ?case
  proof (cases "?hit t \<or> ts = []")
    case True
    then show ?thesis using r v4 z(2) x by (subst task_by_pgd.simps) (auto simp: Let_def)
  next
    case False
    then have "z \<noteq> head" "head \<notin> set (tl ts)" using z(2) Cons.prems(3) by (cases ts; auto)+
    then show ?thesis
      using Cons.IH [of z v4 g] False z(2) v4 r x Cons.prems(5,7,8)
      by (subst task_by_pgd.simps) (auto simp: Let_def)
  qed
qed simp

text \<open>The list of the tasks \<open>ts\<close> from the initial one, with readable process ids, none at
  address zero.\<close>

definition task_list :: "linux_instance \<Rightarrow> addr_t \<Rightarrow> addr_t list \<Rightarrow> bool" where
  "task_list li init_task ts \<longleftrightarrow> ts \<noteq> [] \<and> chain (int_offset (li_tasks_offset li)) init_task ts init_task \<and>
     distinct ts \<and> 0 \<notin> set ts \<and> (\<forall>t \<in> set ts. mem32 (t + int_offset (li_pid_offset li)) \<noteq> None)"

lemma task_list_head: "task_list li init_task ts \<Longrightarrow> init_task \<notin> set (tl ts)"
  by (cases ts) (auto simp: task_list_def)

lemma taskstruct_from_pid:
  assumes "task_list li init_task ts" and "ok v"
  obtains v' where "linux_get_taskstruct_addr_from_pid env (Some li) init_task pid v =
      Some (case find (\<lambda>t. mem32 (t + int_offset (li_pid_offset li)) = Some pid) ts of None \<Rightarrow> 0 | Some t \<Rightarrow> t, v')" "ok v'"
  using by_pid [of ts li init_task init_task v pid "- 1"] task_list_head [OF assms(1)] assms
  by (auto simp: task_list_def linux_get_taskstruct_addr_from_pid_def Let_def)

lemma pid_to_pgd:
  assumes "task_list li init_task ts" and "ok v" and "t \<in> set ts" and "mem32 (t + int_offset (li_pid_offset li)) = Some pid"
    and "\<forall>u \<in> set ts. mem32 (u + int_offset (li_pid_offset li)) = Some pid \<longrightarrow> u = t"
    and "user_task li t pgd"
  shows "\<exists>v'. linux_pid_to_pgd env (Some li) init_task pid v = Some (VMI_SUCCESS, pgd, v') \<and> ok v'"
proof -
  obtain mm va where m: "mem64 (t + int_offset (li_mm_offset li)) = Some mm" "mm \<noteq> 0"
      "mem64 (mm + int_offset (li_pgd_offset li)) = Some va" "phys va = Some pgd"
    using assms(6) by (auto simp: user_task_def)
  have f: "find (\<lambda>t. mem32 (t + int_offset (li_pid_offset li)) = Some pid) ts = Some t"
    by (rule find_unique [OF assms(3,4,5)])
  have t0: "t \<noteq> 0" using assms(1,3) by (auto simp: task_list_def)
  obtain v1 where v1: "linux_get_taskstruct_addr_from_pid env (Some li) init_task pid v = Some (t, v1)" "ok v1"
    using taskstruct_from_pid [OF assms(1,2), of pid] by (auto simp: f)
  obtain v2 where v2: "read_addr_out env (t + int_offset (li_mm_offset li)) 0 v1 = (VMI_SUCCESS, mm, v2)" "ok v2"
    using readp [OF v1(2) m(1)] by blast
  obtain v3 where v3: "read_addr_out env (mm + int_offset (li_pgd_offset li)) 0 v2 = (VMI_SUCCESS, va, v3)" "ok v3"
    using readp [OF v2(2) m(3)] by blast
  obtain v4 where "kv2p_out env va va v3 = (VMI_SUCCESS, pgd, v4)" "ok v4" using kv2p [OF v3(2), of va va] m(4) by auto
  then show ?thesis using v1 v2 v3 t0 m(2) by (simp add: linux_pid_to_pgd_def Let_def)
qed

lemma pgd_to_pid:
  assumes "task_list li init_task ts" and "ok v" and "t \<in> set ts" and "mem32 (t + int_offset (li_pid_offset li)) = Some pid"
    and "\<forall>u \<in> set ts. kernel_task li u \<or> (\<exists>p. user_task li u p \<and> phys p = None)" and "phys 0 = None"
    and "clear_low 13 pgd \<noteq> 0" and "user_task li t pgd \<or> user_task li t (clear_low 13 pgd)"
    and "\<forall>u \<in> set ts. user_task li u pgd \<or> user_task li u (clear_low 13 pgd) \<longrightarrow> u = t"
  shows "\<exists>v'. linux_pgd_to_pid env (Some li) init_task pgd old v = Some (VMI_SUCCESS, pid, v') \<and> ok v'"
proof -
  have f: "find (\<lambda>t. user_task li t pgd \<or> user_task li t (clear_low 13 pgd)) ts = Some t"
    by (rule find_unique [OF assms(3,8,9)])
  have t0: "t \<noteq> 0" using assms(1,3) by (auto simp: task_list_def)
  obtain v1 where v1: "task_by_pgd env li pgd init_task init_task 0 v = Some (t, v1)" "ok v1"
    using by_pgd [of ts li init_task init_task v 0 pgd] task_list_head [OF assms(1)] assms(1,2,5,6,7)
    by (auto simp: task_list_def f)
  obtain v2 where "read_32_out env (t + int_offset (li_pid_offset li)) old v1 = (VMI_SUCCESS, pid, v2)" "ok v2"
    using read32 [OF v1(2) assms(4)] by blast
  then show ?thesis using v1 t0 by (simp add: linux_pgd_to_pid_def linux_get_taskstruct_addr_from_pgd_def)
qed

text \<open>An entry of the list that cannot be read, not the first: the walk stays there.\<close>

lemma stuck_entry:
  assumes "ok v" and "hole (x + int_offset (li_tasks_offset li))" and "x \<noteq> head"
    and "hole (x + int_offset (li_pid_offset li))" and "q \<noteq> pid"
    and "task_by_pid env li pid (head + int_offset (li_tasks_offset li)) (x + int_offset (li_tasks_offset li)) x q v = Some r"
  shows False
proof -
  let ?o = "int_offset (li_tasks_offset li)"
  let ?P = "\<lambda>e l p lh ce cp tp v r. e = env \<longrightarrow> l = li \<longrightarrow> p = pid \<longrightarrow> lh = head + ?o \<longrightarrow> ce = x + ?o \<longrightarrow> cp = x \<longrightarrow>
      tp = q \<longrightarrow> ok v \<longrightarrow> False"
  have "?P e l p lh ce cp tp v r" if "task_by_pid e l p lh ce cp tp v = Some r" for e l p lh ce cp tp v r
  proof (rule task_by_pid.raw_induct [where P = ?P, OF _ that])
    fix loop e l p lh ce cp tp v r
    assume ih: "\<And>e l p lh ce cp tp v r. loop e l p lh ce cp tp v = Some r \<Longrightarrow> ?P e l p lh ce cp tp v r"
      and run: "(case read_32_out e (cp + int_offset (li_pid_offset l)) tp v of
          (_, task_pid, vmi) \<Rightarrow>
        if task_pid = p then Some (cp, vmi)
        else case read_addr_out e ce ce vmi of
          (_, curr_entry, vmi) \<Rightarrow>
        if lh \<noteq> curr_entry then loop e l p lh curr_entry (curr_entry - int_offset (li_tasks_offset l)) task_pid vmi
        else Some (0, vmi)) = Some r"
    show "?P e l p lh ce cp tp v r"
    proof (intro impI)
      assume a: "e = env" "l = li" "p = pid" "lh = head + ?o" "ce = x + ?o" "cp = x" "tp = q" "ok v"
      obtain v1 where v1: "read_32_out env (x + int_offset (li_pid_offset li)) q v = (VMI_FAILURE, q, v1)" "ok v1"
        using readh32 [OF a(8) assms(4)] by blast
      obtain v2 where v2: "read_addr_out env (x + ?o) (x + ?o) v1 = (VMI_FAILURE, x + ?o, v2)" "ok v2"
        using readh [OF v1(2) assms(2)] by blast
      have "loop env li pid (head + ?o) (x + ?o) x q v2 = Some r"
        using run a v1(1) v2(1) assms(3,5) by simp
      from ih [OF this] v2(2) show False by simp
    qed
  qed
  then show False using assms(1,6) by blast
qed

lemma stuck_list:
  assumes "ok v" and "mem32 (init_task + int_offset (li_pid_offset li)) = Some q" and "q \<noteq> pid"
    and "mem64 (init_task + int_offset (li_tasks_offset li)) = Some (x + int_offset (li_tasks_offset li))"
    and "x \<noteq> init_task" and "hole (x + int_offset (li_tasks_offset li))" and "hole (x + int_offset (li_pid_offset li))"
  shows "linux_get_taskstruct_addr_from_pid env (Some li) init_task pid v = None"
proof -
  let ?o = "int_offset (li_tasks_offset li)"
  obtain v1 where v1: "read_32_out env (init_task + int_offset (li_pid_offset li)) (- 1) v = (VMI_SUCCESS, q, v1)" "ok v1"
    using read32 [OF assms(1,2)] by blast
  obtain v2 where v2: "read_addr_out env (init_task + ?o) (init_task + ?o) v1 = (VMI_SUCCESS, x + ?o, v2)" "ok v2"
    using readp [OF v1(2) assms(4)] by blast
  have "task_by_pid env li pid (init_task + ?o) (x + ?o) x q v2 = None"
    using stuck_entry [OF v2(2) assms(6,5,7,3)] by (metis option.exhaust)
  then show ?thesis
    using v1(1) v2(1) assms(3,5)
    by (simp add: linux_get_taskstruct_addr_from_pid_def Let_def) (subst task_by_pid.simps, simp)
qed

text \<open>Whatever the memory: when the walks return, the instance is still fit for reading.\<close>

lemma by_pid_keeps: "task_by_pid env li pid lh ce cp tp v = Some (t, v') \<Longrightarrow> ok v \<Longrightarrow> ok v'"
proof -
  let ?P = "\<lambda>e l p lh ce cp (tp :: u32) v r. e = env \<longrightarrow> ok v \<longrightarrow> ok (snd r)"
  have "?P e l p lh ce cp tp v r" if "task_by_pid e l p lh ce cp tp v = Some r" for e l p lh ce cp tp v r
  proof (rule task_by_pid.raw_induct [where P = ?P, OF _ that])
    fix loop e l p lh ce cp tp v r
    assume ih: "\<And>e l p lh ce cp tp v r. loop e l p lh ce cp tp v = Some r \<Longrightarrow> ?P e l p lh ce cp tp v r"
      and run: "(case read_32_out e (cp + int_offset (li_pid_offset l)) tp v of
          (_, task_pid, vmi) \<Rightarrow>
        if task_pid = p then Some (cp, vmi)
        else case read_addr_out e ce ce vmi of
          (_, curr_entry, vmi) \<Rightarrow>
        if lh \<noteq> curr_entry then loop e l p lh curr_entry (curr_entry - int_offset (li_tasks_offset l)) task_pid vmi
        else Some (0, vmi)) = Some r"
    show "?P e l p lh ce cp tp v r"
    proof (intro impI)
      assume e: "e = env" and o: "ok v"
      obtain s1 w1 v1 where r1: "read_32_out env (cp + int_offset (li_pid_offset l)) tp v = (s1, w1, v1)" by (rule prod_cases3)
      obtain s2 w2 v2 where r2: "read_addr_out env ce ce v1 = (s2, w2, v2)" by (rule prod_cases3)
      have "ok v1" "ok v2" using keep32 [OF o r1] keepp [OF _ r2] by blast+
      then show "ok (snd r)" using run ih unfolding e by (auto simp: r1 r2 split: if_splits)
    qed
  qed
  then show "task_by_pid env li pid lh ce cp tp v = Some (t, v') \<Longrightarrow> ok v \<Longrightarrow> ok v'" by fastforce
qed

lemma by_pgd_keeps: "task_by_pgd env li pgd lh np tp v = Some (t, v') \<Longrightarrow> ok v \<Longrightarrow> ok v'"
proof -
  let ?P = "\<lambda>e l (g :: addr_t) lh np (tp :: addr_t) v r. e = env \<longrightarrow> ok v \<longrightarrow> ok (snd r)"
  have "?P e l g lh np tp v r" if "task_by_pgd e l g lh np tp v = Some r" for e l g lh np tp v r
  proof (rule task_by_pgd.raw_induct [where P = ?P, OF _ that])
    fix loop e l g lh np tp v r
    assume ih: "\<And>e l g lh np tp v r. loop e l g lh np tp v = Some r \<Longrightarrow> ?P e l g lh np tp v r"
      and run: "(case read_addr_out e (np + int_offset (li_mm_offset l)) 0 v of
          (_, ptr, vmi) \<Rightarrow>
        case read_addr_out e (ptr + int_offset (li_pgd_offset l)) tp vmi of
          (_, task_pgd, vmi) \<Rightarrow>
        case kv2p_out e task_pgd task_pgd vmi of
          (_, task_pgd, vmi) \<Rightarrow>
        if task_pgd = g \<or> task_pgd = clear_low 13 g then Some (np, vmi)
        else case read_addr_out e (np + int_offset (li_tasks_offset l)) np vmi of
          (_, entry, vmi) \<Rightarrow>
        let next_process = entry - int_offset (li_tasks_offset l) in
        if lh \<noteq> next_process then loop e l g lh next_process task_pgd vmi
        else Some (0, vmi)) = Some r"
    show "?P e l g lh np tp v r"
    proof (intro impI)
      assume e: "e = env" and o: "ok v"
      obtain s1 w1 v1 where r1: "read_addr_out env (np + int_offset (li_mm_offset l)) 0 v = (s1, w1, v1)" by (rule prod_cases3)
      obtain s2 w2 v2 where r2: "read_addr_out env (w1 + int_offset (li_pgd_offset l)) tp v1 = (s2, w2, v2)" by (rule prod_cases3)
      obtain s3 w3 v3 where r3: "kv2p_out env w2 w2 v2 = (s3, w3, v3)" by (rule prod_cases3)
      obtain s4 w4 v4 where r4: "read_addr_out env (np + int_offset (li_tasks_offset l)) np v3 = (s4, w4, v4)" by (rule prod_cases3)
      have o1: "ok v1" by (rule keepp [OF o r1])
      have o2: "ok v2" by (rule keepp [OF o1 r2])
      have o3: "ok v3" using kv2p [OF o2, of w2 w2] r3 by (auto split: option.splits)
      have o4: "ok v4" by (rule keepp [OF o3 r4])
      show "ok (snd r)" using run ih o3 o4 unfolding e by (auto simp: r1 r2 r3 r4 Let_def split: if_splits)
    qed
  qed
  then show "task_by_pgd env li pgd lh np tp v = Some (t, v') \<Longrightarrow> ok v \<Longrightarrow> ok v'" by fastforce
qed

lemma pgd_to_pid_keeps:
  assumes "linux_pgd_to_pid env os_data init_task pgd old v = Some (st, p, v')" and "ok v"
  shows "ok v'"
proof (cases os_data)
  case (Some li)
  obtain t v1 where t: "task_by_pgd env li pgd init_task init_task 0 v = Some (t, v1)"
    using assms(1) by (auto simp: linux_pgd_to_pid_def linux_get_taskstruct_addr_from_pgd_def Some split: option.splits)
  have o1: "ok v1" by (rule by_pgd_keeps [OF t assms(2)])
  have "v' = v1 \<or> read_32_out env (t + int_offset (li_pid_offset li)) old v1 = (st, p, v')"
    using assms(1) by (auto simp: linux_pgd_to_pid_def linux_get_taskstruct_addr_from_pgd_def Some t split: if_splits)
  then show ?thesis using o1 keep32 [OF o1] by blast
qed (use assms in \<open>simp add: linux_pgd_to_pid_def\<close>)

lemma kv2p_keeps: "ok v \<Longrightarrow> kv2p_out env a old v = (st, p, v') \<Longrightarrow> ok v'"
  using kv2p [of v a old] by (auto split: option.splits)

lemma pid_to_pgd_keeps:
  assumes "linux_pid_to_pgd env os_data init_task pid v = Some (st, p, v')" and "ok v"
  shows "ok v'"
proof (cases os_data)
  case (Some li)
  let ?f = "\<lambda>ptr vmi. case read_addr_out env (ptr + int_offset (li_pgd_offset li)) 0 vmi of
      (VMI_FAILURE, pgd, vmi) \<Rightarrow> (VMI_FAILURE, pgd, vmi) | (VMI_SUCCESS, pgd, vmi) \<Rightarrow> kv2p_out env pgd pgd vmi"
  have f: "ok (snd (snd (?f ptr u)))" if u: "ok u" for ptr u
  proof -
    obtain s w u' where r: "read_addr_out env (ptr + int_offset (li_pgd_offset li)) 0 u = (s, w, u')" by (rule prod_cases3)
    have "ok u'" by (rule keepp [OF u r])
    moreover obtain s2 w2 u2 where k: "kv2p_out env w w u' = (s2, w2, u2)" by (rule prod_cases3)
    ultimately show ?thesis using kv2p_keeps [OF _ k] by (cases s) (simp_all add: r k)
  qed
  have f': "ok v'" if "?f ptr u = (st, p, v')" "ok u" for ptr u
    using f [OF that(2), of ptr] unfolding that(1) by simp
  obtain t v1 where t: "linux_get_taskstruct_addr_from_pid env (Some li) init_task pid v = Some (t, v1)"
    using assms(1) by (auto simp: linux_pid_to_pgd_def Some split: option.splits)
  have o1: "ok v1" using by_pid_keeps t assms(2) by (auto simp: linux_get_taskstruct_addr_from_pid_def Let_def)
  obtain s2 w2 v2 where r2: "read_addr_out env (t + int_offset (li_mm_offset li)) 0 v1 = (s2, w2, v2)" by (rule prod_cases3)
  have o2: "ok v2" by (rule keepp [OF o1 r2])
  obtain s3 w3 v3 where r3: "read_addr_out env (t + int_offset (li_mm_offset li) + 8) 0 v2 = (s3, w3, v3)" by (rule prod_cases3)
  have o3: "ok v3" by (rule keepp [OF o2 r3])
  show ?thesis
    using assms(1) o1 o2 o3 f' unfolding linux_pid_to_pgd_def Some option.case t prod.case Let_def r2
    by (cases s2; cases s3; auto simp: r3 ia32e [OF o2] split: if_splits)
qed (use assms in \<open>simp add: linux_pid_to_pgd_def\<close>)

end

section \<open>The kernel of a Xen guest\<close>

text \<open>The kernel's view of the memory of the guest, under its own page table.\<close>

definition kernel_byte :: "xc_map_read \<Rightarrow> mem_config \<Rightarrow> bool \<Rightarrow> addr_t \<Rightarrow> hypervisor \<Rightarrow> addr_t \<Rightarrow> u8 option" where
  "kernel_byte xcr cfg tp kpgd hv =
     vbyte (xen_page xcr cfg hv) (\<lambda>va. guest_tr (xen_page xcr cfg hv) tp (va, kpgd, 0))"

definition word32_at :: "(addr_t \<Rightarrow> u8 option) \<Rightarrow> addr_t \<Rightarrow> u32 option" where
  "word32_at f a = (let bs = spec_read f a 4 in if length bs = 4 then Some (word_of_bytes bs) else None)"

definition kernel_ready :: "xc_map_read \<Rightarrow> mem_config \<Rightarrow> bool \<Rightarrow> addr_t \<Rightarrow> hypervisor \<Rightarrow>
    xen_instance xen_events vmi_instance \<Rightarrow> bool" where
  "kernel_ready xcr cfg tp kpgd hv vmi \<longleftrightarrow> kpgd \<noteq> 0 \<and> stack_ready xcr cfg tp kpgd hv vmi"

lemma kernel_read:
  assumes "kernel_ready xcr (xen_cfg vt mm maxp) tp kpgd hv vmi"
  obtains v where "vmi_read_va (stack_env xcr xcw (xen_cfg vt mm maxp) now sp os junk vr) a 0 cnt vmi =
      (let bs = spec_read (kernel_byte xcr (xen_cfg vt mm maxp) tp kpgd hv) a cnt in (read_status cnt bs, bs, v))"
    and "kernel_ready xcr (xen_cfg vt mm maxp) tp kpgd hv v"
proof -
  let ?env = "stack_env xcr xcw (xen_cfg vt mm maxp) now sp os junk vr"
  have rdy: "stack_ready xcr (xen_cfg vt mm maxp) tp kpgd hv vmi" and k: "kpgd \<noteq> 0"
    using assms by (simp_all add: kernel_ready_def)
  have tgt: "read_target ?env (va_ctx a 0) vmi = (Some (kpgd, VMI_PM_IA32E, a), vmi)"
    using rdy k by (simp add: read_target_def stack_env_def stack_ready_def valid_pm_def)
  show thesis
    by (rule stack_read [OF rdy tgt rdy, of cnt])
      (rule that, simp_all add: kernel_byte_def kernel_ready_def k)
qed

lemma lookup_cache_kpgd:
  assumes "stackg.good xcr vt mm maxp hv tp vmi"
    and "vmi_pagetable_lookup_cache (stack_env xcr xcw (xen_cfg vt mm maxp) now sp os junk vr) pt va vmi = (r, v)"
  shows "same_kpgd vmi v"
proof -
  let ?env = "stack_env xcr xcw (xen_cfg vt mm maxp) now sp os junk vr"
  let ?look = "vmi_nested_pagetable_lookup ?env"
  have pm: "vi_page_mode vmi = VMI_PM_IA32E" using assms(1) by (simp add: stackg.good_def)
  note r8' = stackg.read_8_good [OF assms(1), where xcw = xcw and now = now and sp = sp and os = os and junk = junk and vr = vr]
  have r8: "same_kpgd vmi w \<and> vi_page_mode w = VMI_PM_IA32E" if "vmi_read_8_pa (vmi_read ?env) a vmi = (b, w)" for a b w
  proof -
    have "stackg.good xcr vt mm maxp hv tp w" using r8' [of a] that by simp
    moreover have "same_kpgd vmi w"
      using read_64_kpgd [of "ACCESS_CONTEXT\<lparr> ac_addr := a \<rparr>" ?env ?look 1 vmi] that
      by (auto simp: vmi_read_8_pa_def vmi_read_8_def vmi_read_def ACCESS_CONTEXT_def split: prod.splits status.splits)
    ultimately show ?thesis by (simp add: stackg.good_def)
  qed
  have w: "same_kpgd u v'" if "arch_lookup ?env ?look 0 0 pt VMI_PM_IA32E va info u = (st, i, v')" for u info st i v'
    by (rule arch_lookup_kpgd [OF that])
  show ?thesis
  proof (cases "v2p_cache_get (vi_caches vmi) va pt 0")
    case None
    then show ?thesis
      using assms(2) w by (auto simp: vmi_pagetable_lookup_cache_def pm valid_pm_def Let_def split: prod.splits status.splits)
  next
    case (Some pa)
    obtain b u where b: "vmi_read_8_pa (vmi_read ?env) pa vmi = (b, u)" by fastforce
    obtain st c where c: "v2p_cache_del va 0 pt (vi_caches u) = (st, c)" by fastforce
    have u: "same_kpgd vmi u" "vi_page_mode u = VMI_PM_IA32E" using r8 [OF b] by simp_all
    then have "same_kpgd vmi (u\<lparr> vi_caches := c \<rparr>)" by (simp add: same_kpgd_def)
    then have w': "same_kpgd vmi v'" if "arch_lookup ?env ?look 0 0 pt VMI_PM_IA32E va info (u\<lparr> vi_caches := c \<rparr>) = (st, i, v')" for info st i v'
      using w [OF that] same_kpgd_trans by blast
    then show ?thesis
      using assms(2) u w'
      by (cases b; cases st) (auto simp: vmi_pagetable_lookup_cache_def pm valid_pm_def Let_def Some b c split: prod.splits status.splits)
  qed
qed

lemma kernel_kv2p:
  assumes "kernel_ready xcr (xen_cfg vt mm maxp) tp kpgd hv vmi"
  obtains v where "kv2p_out (stack_env xcr xcw (xen_cfg vt mm maxp) now sp os junk vr) a old vmi =
      (case guest_tr (xen_page xcr (xen_cfg vt mm maxp) hv) tp (a, kpgd, 0) of
         None \<Rightarrow> (VMI_FAILURE, 0, v) | Some pa \<Rightarrow> (VMI_SUCCESS, pa, v))"
    and "kernel_ready xcr (xen_cfg vt mm maxp) tp kpgd hv v"
proof -
  let ?env = "stack_env xcr xcw (xen_cfg vt mm maxp) now sp os junk vr"
  let ?tr = "guest_tr (xen_page xcr (xen_cfg vt mm maxp) hv) tp"
  have g: "stackg.good xcr vt mm maxp hv tp vmi" and k: "vi_kpgd vmi = kpgd" "kpgd \<noteq> 0" and pm: "vi_page_mode vmi = VMI_PM_IA32E"
    using assms by (simp_all add: kernel_ready_def stack_ready_good stackg.good_def)
  obtain r v where l: "vmi_pagetable_lookup_cache ?env kpgd a vmi = (r, v)" by fastforce
  have f: "stackg.good xcr vt mm maxp hv tp v" "r = ?tr (a, kpgd, 0)"
    using stackg.lookup_cache_correct [OF g, where xcw = xcw and now = now and sp = sp and os = os and junk = junk
        and vr = vr and pt = kpgd and va = a] l
    by (simp_all add: stackg.finds_def)
  have "same_kpgd vmi v" by (rule lookup_cache_kpgd [OF g l])
  then have rdy: "kernel_ready xcr (xen_cfg vt mm maxp) tp kpgd hv v"
    using f(1) k by (simp add: kernel_ready_def stack_ready_good same_kpgd_def)
  have c: "?tr (a, kpgd, 0) = Some pa" if "v2p_cache_get (vi_caches vmi) a kpgd 0 = Some pa" for pa
    using g that v2pc.coherentD [of ?tr "vi_caches vmi" "(a, kpgd, 0)"] by (simp add: stackg.good_def)
  show thesis
    using that [OF _ rdy] k f(2) l c
    by (auto simp: kv2p_out_def vmi_translate_kv2p_def vmi_pagetable_lookup_def pm valid_pm_def split: option.splits)
qed

lemma out_word_all: "length bs = n \<Longrightarrow> out_word n old bs = word_of_bytes bs"
  by (simp add: out_word_def)

lemma out_word_none: "out_word 8 (old :: u64) [] = old" "out_word 4 (old32 :: u32) [] = old32"
  by (simp_all add: out_word_def word_of_bytes_of_word)

interpretation lk: kernel_reads "stack_env xcr xcw (xen_cfg vt mm maxp) now sp os junk vr"
  "kernel_ready xcr (xen_cfg vt mm maxp) tp kpgd hv"
  "word32_at (kernel_byte xcr (xen_cfg vt mm maxp) tp kpgd hv)"
  "word_at (kernel_byte xcr (xen_cfg vt mm maxp) tp kpgd hv)"
  "\<lambda>a. kernel_byte xcr (xen_cfg vt mm maxp) tp kpgd hv a = None"
  "\<lambda>a. guest_tr (xen_page xcr (xen_cfg vt mm maxp) hv) tp (a, kpgd, 0)"
  for xcr xcw vt mm maxp now sp os junk vr tp kpgd hv
proof unfold_locales
  let ?env = "stack_env xcr xcw (xen_cfg vt mm maxp) now sp os junk vr"
  let ?ok = "kernel_ready xcr (xen_cfg vt mm maxp) tp kpgd hv"
  let ?m = "kernel_byte xcr (xen_cfg vt mm maxp) tp kpgd hv"
  fix v old32 old st w p v' a
  assume o: "?ok v"
  obtain v4 where r4: "vmi_read_va ?env a 0 4 v = (let bs = spec_read ?m a 4 in (read_status 4 bs, bs, v4))" "?ok v4"
    by (rule kernel_read [OF o])
  obtain v8 where r8: "vmi_read_va ?env a 0 8 v = (let bs = spec_read ?m a 8 in (read_status 8 bs, bs, v8))" "?ok v8"
    by (rule kernel_read [OF o])
  show pm: "vi_page_mode v = VMI_PM_IA32E" using o by (simp add: kernel_ready_def stack_ready_def)
  show "\<exists>v'. read_32_out ?env a old32 v = (VMI_SUCCESS, w, v') \<and> ?ok v'" if "word32_at ?m a = Some w"
    using that r4 by (auto simp: read_32_out_def word32_at_def Let_def read_status_def out_word_all split: if_splits)
  show "\<exists>v'. read_32_out ?env a old32 v = (VMI_FAILURE, old32, v') \<and> ?ok v'" if "?m a = None"
    using that r4 by (auto simp: read_32_out_def Let_def read_status_def out_word_none spec_read_None)
  show "?ok v'" if "read_32_out ?env a old32 v = (st, w, v')"
    using that r4 by (simp add: read_32_out_def Let_def)
  show "\<exists>v'. read_addr_out ?env a old v = (VMI_SUCCESS, p, v') \<and> ?ok v'" if "word_at ?m a = Some p"
    using that r8 by (auto simp: read_addr_out_def word_at_def Let_def read_status_def out_word_all pm split: if_splits)
  show "?ok v'" if "read_addr_out ?env a old v = (st, p, v')"
    using that r8 by (simp add: read_addr_out_def Let_def pm)
  show "\<exists>v'. read_addr_out ?env a old v = (VMI_FAILURE, old, v') \<and> ?ok v'" if "?m a = None"
    using that r8 by (auto simp: read_addr_out_def Let_def read_status_def out_word_none pm spec_read_None)
  show "\<exists>v'. kv2p_out ?env a old v = (case guest_tr (xen_page xcr (xen_cfg vt mm maxp) hv) tp (a, kpgd, 0) of
      None \<Rightarrow> (VMI_FAILURE, 0, v') | Some pa \<Rightarrow> (VMI_SUCCESS, pa, v')) \<and> ?ok v'"
    using kernel_kv2p [OF o] by metis
qed

section \<open>A concrete guest\<close>

text \<open>A machine whose memory is given by its 64-bit words.\<close>

definition words_hv :: "(nat \<Rightarrow> u64) \<Rightarrow> hypervisor" where
  "words_hv W = \<lparr> hv_p2m = (\<lambda>f. Some (unat f)),
     hv_mem = (\<lambda>m i. ucast (drop_bit (8 * (i mod 8)) (W (m * 4096 + (i - i mod 8))))) \<rparr>"

lemma pbyte_words:
  "pbyte (xen_page xcr0 xcfg0 (words_hv W)) pa = Some (ucast (drop_bit (8 * (unat pa mod 8)) (W (unat pa - unat pa mod 8))))"
proof -
  have lo: "unat (take_bit 12 pa) = unat pa mod 4096" by (simp add: unat_low12)
  have hi: "unat (drop_bit 12 pa) = unat pa div 4096" by (simp add: drop_bit_eq_div unat_div)
  have m: "unat pa mod 4096 mod 8 = unat pa mod 8" by (simp add: mod_mod_cancel)
  have "unat pa div 4096 * 4096 + (unat pa mod 4096 - unat pa mod 8) = unat pa - unat pa mod 8"
  proof -
    have "unat pa mod 8 \<le> unat pa mod 4096" using m by (metis mod_less_eq_dividend)
    then show ?thesis using div_mult_mod_eq [of "unat pa" 4096] by linarith
  qed
  then show ?thesis
    by (simp add: xen_pbyte xcr0_def words_hv_def range_ok_def xen_cfg_def lo hi m)
qed

lemma words_of_bytes:
  assumes "n \<le> 8" and "\<And>j. j < n \<Longrightarrow> f (a + of_nat j) = Some (ucast (drop_bit (8 * j) w))"
  shows "spec_read f a n = bytes_of_word n (w :: u64)"
  using assms
proof (induction n arbitrary: a w)
  case (Suc n)
  have "f (a + 1 + of_nat j) = Some (ucast (drop_bit (8 * j) (drop_bit 8 w)))" if "j < n" for j
    using Suc.prems(2) [of "Suc j"] that by (simp add: add.commute add.left_commute)
  then have "spec_read f (a + 1) n = bytes_of_word n (drop_bit 8 w)"
    using Suc.IH [of "a + 1" "drop_bit 8 w"] Suc.prems(1) by simp
  then show ?case using Suc.prems(2) [of 0] by simp
qed simp

lemma word_byte:
  assumes "unat a mod 8 = 0" and "j < 8"
  shows "pbyte (xen_page xcr0 xcfg0 (words_hv W)) (a + of_nat j) = Some (ucast (drop_bit (8 * j) (W (unat a))))"
proof -
  have m: "unat (a + of_nat j) mod 8 = j" using assms unat_add_mod8 [of a j] by (simp add: mod_add_left_eq [symmetric])
  have "unat a < 2 ^ 64" using unsigned_less [of a] by simp
  then have "unat a < 18446744073709551616" by simp
  then have "unat a \<le> 18446744073709551608" using assms(1) by presburger
  then have u: "unat (a + of_nat j) = unat a + j" using assms(2) by (simp add: unat_word_ariths unat_of_nat)
  have "unat (a + of_nat j) - j = unat a" by (simp add: u)
  then show ?thesis by (simp only: pbyte_words m)
qed

lemma word_at_words:
  assumes "unat a mod 8 = 0"
  shows "word_at (pbyte (xen_page xcr0 xcfg0 (words_hv W))) a = Some (W (unat a))"
proof -
  have "spec_read (pbyte (xen_page xcr0 xcfg0 (words_hv W))) a 8 = bytes_of_word 8 (W (unat a))"
    by (rule words_of_bytes) (use word_byte [OF assms] in simp_all)
  then show ?thesis by (simp add: word_at_def word_of_bytes_of_word)
qed

lemma word32_low: "(word_of_bytes (bytes_of_word 4 w) :: u32) = ucast (w :: u64)"
proof -
  have "(word_of_bytes bs :: u32) = ucast (word_of_bytes bs :: u64)" for bs
  proof (induction bs)
    case (Cons b bs)
    then show ?case by (auto intro!: bit_word_eqI simp: bit_simps)
  qed simp
  moreover have "ucast (take_bit 32 w) = (ucast w :: u32)" by (rule bit_word_eqI) (auto simp: bit_simps)
  ultimately show ?thesis by (simp add: word_of_bytes_of_word_take)
qed

text \<open>The tables at frames one and two map the gigabyte from \<^verbatim>\<open>0xffffffff80000000\<close> to the
  start of the memory, and nothing else.\<close>

definition kernel_tables :: "(nat \<Rightarrow> u64) \<Rightarrow> bool" where
  "kernel_tables W \<longleftrightarrow> (\<forall>i < 512. W (0x1000 + 8 * i) = (if i = 511 then 0x2003 else 0)) \<and>
     (\<forall>i < 512. W (0x2000 + 8 * i) = (if i = 510 then 0x83 else 0))"

lemma table_loc:
  fixes x :: u64
  assumes "unat t mod 4096 = 0" and "unat x < 512" and "unat t < 2 ^ 32"
  shows "unat (t OR push_bit 3 x) = unat t + 8 * unat x"
proof -
  have s: "unat (push_bit 3 x) = 8 * unat x"
    using assms(2) by (simp add: push_bit_eq_mult unat_word_ariths)
  have "t AND push_bit 3 x = 0"
  proof (rule bit_word_eqI)
    fix n assume "n < LENGTH(64)"
    have lo: "take_bit 12 t = 0" using assms(1) by (simp add: word_unat_eq_iff unat_low12)
    have "\<not> bit t n" if "n < 12" using lo that by (metis bit_take_bit_iff bit_0_eq bot_apply bot_bool_def)
    moreover have "\<not> bit (push_bit 3 x) n" if "12 \<le> n"
    proof -
      have "take_bit 12 (push_bit 3 x) = push_bit 3 x"
        by (rule word_unat_eq_iff [THEN iffD2]) (use s assms(2) in \<open>simp add: unat_low12\<close>)
      then show ?thesis using that by (metis bit_take_bit_iff not_le)
    qed
    ultimately show "bit (t AND push_bit 3 x) n = bit 0 n" by (cases "n < 12") (auto simp: bit_simps)
  qed
  then have "t OR push_bit 3 x = t + push_bit 3 x" by (simp add: disjunctive_add_eq_or)
  then show ?thesis using s assms(2,3) by (simp add: unat_word_ariths)
qed

lemma kernel_tables_tr:
  assumes "kernel_tables W"
  shows "guest_tr (xen_page xcr0 xcfg0 (words_hv W)) False (va, 0x1000, 0) =
    (if unat (take_bit 9 (drop_bit 39 va)) = 511 \<and> unat (take_bit 9 (drop_bit 30 va)) = 510 then Some (take_bit 30 va) else None)"
proof -
  let ?e = "word_at (pbyte (xen_page xcr0 xcfg0 (words_hv W)))"
  have nine: "unat (take_bit 9 x :: u64) < 512" for x by (simp add: take_bit_eq_mod unat_mod)
  have l1: "unat (0x1000 OR push_bit 3 (take_bit 9 x) :: u64) = 0x1000 + 8 * unat (take_bit 9 x)" for x :: u64
    using table_loc [of "0x1000" "take_bit 9 x"] nine by simp
  have l2: "unat (0x2000 OR push_bit 3 (take_bit 9 x) :: u64) = 0x2000 + 8 * unat (take_bit 9 x)" for x :: u64
    using table_loc [of "0x2000" "take_bit 9 x"] nine by simp
  have e1: "?e (0x1000 OR push_bit 3 (take_bit 9 x)) = Some (if unat (take_bit 9 x) = 511 then 0x2003 else 0)" for x
    using assms nine [of x] by (simp add: word_at_words l1 kernel_tables_def)
  have e2: "?e (0x2000 OR push_bit 3 (take_bit 9 x)) = Some (if unat (take_bit 9 x) = 510 then 0x83 else 0)" for x
    using assms nine [of x] by (simp add: word_at_words l2 kernel_tables_def)
  have four: "radix_walk f tp 4 = radix_walk f tp (Suc (Suc (Suc (Suc 0))))" for f tp by (simp add: numeral_eq_Suc)
  have c: "clear_low 12 (0x1000 :: u64) = 0x1000" "clear_low 12 (0x2003 :: u64) = 0x2000" "clear_low 30 (0x83 :: u64) = 0"
    "take_bit 52 (0x1000 :: u64) = 0x1000" "take_bit 52 (0x2003 :: u64) = 0x2003" "take_bit 52 (0x83 :: u64) = 0x83"
    by (simp_all add: clear_low_def drop_bit_eq_div push_bit_eq_mult take_bit_eq_mod)
  have b: "bit (0x2003 :: u64) 0" "\<not> bit (0x2003 :: u64) 7" "bit (0x83 :: u64) 0" "bit (0x83 :: u64) 7"
    by (simp_all add: bit_numeral_rec)
  show ?thesis
    unfolding guest_tr_def phys_tr_def four by (simp add: e1 e2 c b entry_present_def Let_def del: unat_eq_zero)
qed

lemma granular_word:
  assumes "granular tr" and "tr a = Some pa" and "unat a mod 8 = 0" and "j < 8"
  shows "vbyte page tr (a + of_nat j) = pbyte page (pa + of_nat j)"
proof -
  have fit: "unat a mod 4096 + j < 4096"
  proof -
    have "unat a mod 4096 mod 8 = 0" using assms(3) by (simp add: mod_mod_cancel)
    then have "8 * (unat a mod 4096 div 8) = unat a mod 4096" using mult_div_mod_eq [of 8 "unat a mod 4096"] by simp
    moreover have "unat a mod 4096 div 8 < 512" by (simp add: div_less_iff_less_mult)
    ultimately show ?thesis using assms(4) by linarith
  qed
  have o: "take_bit 12 pa = take_bit 12 a" by (rule granular_offset [OF assms(1,2)])
  have fit': "unat pa mod 4096 + j < 4096" using fit o by (metis unat_low12)
  have "take_bit 12 (pa + of_nat j) = take_bit 12 (a + of_nat j)"
    using add_within_page(3) [OF fit] add_within_page(3) [OF fit'] o by (metis word_unat_eq_iff)
  moreover have "clear_low 12 w OR take_bit 12 w = w" for w :: u64
    by (rule bit_word_eqI) (auto simp: vmi_bits bit_simps)
  ultimately have "clear_low 12 pa OR take_bit 12 (a + of_nat j) = pa + of_nat j"
    using add_within_page(2) [OF fit'] by metis
  then have "tr (a + of_nat j) = Some (pa + of_nat j)"
    using assms(1,2) add_within_page(2) [OF fit] unfolding granular_def mask11 by metis
  then show ?thesis by (simp add: vbyte_def)
qed

lemma kernel_word:
  assumes "kernel_tables W" and "unat a mod 8 = 0"
    and "unat (take_bit 9 (drop_bit 39 a)) = 511" and "unat (take_bit 9 (drop_bit 30 a)) = 510"
  shows "word_at (kernel_byte xcr0 xcfg0 False 0x1000 (words_hv W)) a = Some (W (unat (take_bit 30 a)))"
    and "word32_at (kernel_byte xcr0 xcfg0 False 0x1000 (words_hv W)) a = Some (ucast (W (unat (take_bit 30 a))))"
proof -
  let ?p = "xen_page xcr0 xcfg0 (words_hv W)" and ?a = "take_bit 30 a"
  let ?k = "kernel_byte xcr0 xcfg0 False 0x1000 (words_hv W)"
  have m: "unat ?a mod 8 = 0" using assms(2) by (simp add: take_bit_eq_mod unat_mod mod_mod_cancel)
  have t: "guest_tr ?p False (a, 0x1000, 0) = Some ?a" using kernel_tables_tr [OF assms(1), of a] assms(3,4) by simp
  have g: "granular (\<lambda>va. guest_tr ?p False (va, 0x1000, 0))" by (simp add: guest_tr_def granular_phys_tr)
  have b: "?k (a + of_nat j) = Some (ucast (drop_bit (8 * j) (W (unat ?a))))" if "j < 8" for j
    using granular_word [OF g t assms(2) that] word_byte [OF m that] by (simp add: kernel_byte_def)
  have "spec_read ?k a 8 = bytes_of_word 8 (W (unat ?a))" by (rule words_of_bytes) (use b in simp_all)
  then show "word_at ?k a = Some (W (unat ?a))" by (simp add: word_at_def word_of_bytes_of_word)
  have "spec_read ?k a 4 = bytes_of_word 4 (W (unat ?a))" by (rule words_of_bytes) (use b in simp_all)
  moreover have "(word_of_bytes (bytes_of_word 4 w) :: u32) = ucast w" for w :: u64
    by (rule word32_low)
  ultimately show "word32_at ?k a = Some (ucast (W (unat ?a)))" by (simp add: word32_at_def)
qed

text \<open>A guest with two tasks: the idle thread and a process with id 42 whose page table is at
  \<^verbatim>\<open>0x40000\<close>.  In \<open>words5\<close> the idle thread's entry leads out of the mapped memory.\<close>

definition words4 :: "nat \<Rightarrow> u64" where
  "words4 n = (if n = 0x1ff8 then 0x2003 else if n = 0x2ff0 then 0x83
     else if n = 0x10008 then 0xffffffff80020008
     else if n = 0x20008 then 0xffffffff80010008 else if n = 0x20010 then 0xffffffff80030000
     else if n = 0x20018 then 42 else if n = 0x30008 then 0xffffffff80040000 else 0)"

definition words5 :: "nat \<Rightarrow> u64" where
  "words5 n = (if n = 0x10008 then 0xdead0008 else words4 n)"

definition li4 :: linux_instance where
  "li4 = \<lparr> li_sysmap = None, li_tasks_offset = 8, li_mm_offset = 0x10, li_pid_offset = 0x18, li_pgd_offset = 8,
     li_name_offset = 0x20, li_kaslr_offset = 0, li_init_task_fixed = 0 \<rparr>"

abbreviation idle4 :: addr_t where "idle4 \<equiv> 0xffffffff80010000"
abbreviation proc4 :: addr_t where "proc4 \<equiv> 0xffffffff80020000"

lemma tables4: "kernel_tables words4" "kernel_tables words5"
  by (auto simp: kernel_tables_def words4_def words5_def)

lemma offsets4 [simp]:
  "int_offset (li_tasks_offset li4) = 8" "int_offset (li_mm_offset li4) = 0x10" "int_offset (li_pid_offset li4) = 0x18"
  "int_offset (li_pgd_offset li4) = 8"
  by (simp_all add: li4_def int_offset_def)

abbreviation byte4 :: "(nat \<Rightarrow> u64) \<Rightarrow> addr_t \<Rightarrow> u8 option" where
  "byte4 W \<equiv> kernel_byte xcr0 xcfg0 False 0x1000 (words_hv W)"

lemma memory4:
  "word_at (byte4 words4) 0xffffffff80010008 = Some (proc4 + 8)"
  "word_at (byte4 words4) 0xffffffff80020008 = Some (idle4 + 8)"
  "word_at (byte4 words4) 0xffffffff80010010 = Some 0"
  "word_at (byte4 words4) 0xffffffff80020010 = Some 0xffffffff80030000"
  "word_at (byte4 words4) 0xffffffff80030008 = Some 0xffffffff80040000"
  "word32_at (byte4 words4) 0xffffffff80010018 = Some 0"
  "word32_at (byte4 words4) 0xffffffff80020018 = Some 42"
  "word32_at (byte4 words5) 0xffffffff80010018 = Some 0"
  "word_at (byte4 words5) 0xffffffff80010008 = Some 0xdead0008"
  by (subst kernel_word [OF tables4(1)] kernel_word [OF tables4(2)];
      simp add: drop_bit_eq_div take_bit_eq_mod words4_def words5_def)+

lemma holes4:
  "byte4 words4 8 = None" "byte4 words5 0xdead0008 = None" "byte4 words5 0xdead0018 = None"
  using kernel_tables_tr [OF tables4(1)] kernel_tables_tr [OF tables4(2)]
  by (simp_all add: kernel_byte_def vbyte_def drop_bit_eq_div take_bit_eq_mod)

definition vmi4 :: "hypervisor \<Rightarrow> xen_instance xen_events vmi_instance" where
  "vmi4 hv = \<lparr> vi_mode = VMI_XEN, vi_os_type = VMI_OS_LINUX, vi_vm_type = PV64, vi_page_mode = VMI_PM_IA32E,
     vi_kpgd = 0x1000, vi_page_shift = 12, vi_page_size = 0x1000, vi_pse = False, vi_transition_pages = False,
     vi_t0sz = 0, vi_t1sz = 0, vi_tg0 = 0, vi_tg1 = 0, vi_max_physical_address = 0x100000000,
     vi_caches = addr_caches_init,
     vi_driver = \<lparr> xe_major_version = 4, xe_minor_version = 15, xe_monitor_capabilities = 15,
       xe_monitor_singlestep_on = False, xe_monitor_intr_on = False, xe_monitor_cr0_on = False,
       xe_monitor_cr3_on = False, xe_monitor_cr4_on = False, xe_monitor_xcr0_on = False, xe_monitor_msr_on = False,
       xe_port = 3, xe_external_poll = False,
       xe_xen = \<lparr> xi_cache = memory_cache_init 0, xi_hv = hv \<rparr> \<rparr> \<rparr>"

definition os4 :: "xen_instance xen_events os_interface" where
  "os4 = \<lparr> os_pgd_to_pid = None, os_pid_to_pgd = None, os_ksym2v = None, os_usym2rva = None, os_v2sym = None,
     os_v2ksym = None \<rparr>"

definition env4 :: "xen_instance xen_events vmi_env" where
  "env4 = stack_env xcr0 xcw0 xcfg0 0 0xffff os4 page_info_zero (\<lambda>g n x. (None, x))"

lemma ready4: "kernel_ready xcr0 xcfg0 False 0x1000 hv (vmi4 hv)"
  by (simp add: kernel_ready_def stack_ready_def vmi4_def xen_inv_def pc_inv_init pc_coherent_init v2pc.coherent_empty)

section \<open>The interface for the rest of the library\<close>

text \<open>\<^verbatim>\<open>linux_init\<close> gives the library these two functions.  The reads of the kernel only ask
  whether there is an interface, not what is in it.  A walk that never returns has no answer here.\<close>

definition linux_interface :: "'s vmi_env \<Rightarrow> linux_instance option \<Rightarrow> addr_t \<Rightarrow> 's os_interface \<Rightarrow> 's os_interface" where
  "linux_interface env os_data init_task os =
     os\<lparr> os_pgd_to_pid := Some (\<lambda>pgd vmi. case linux_pgd_to_pid env os_data init_task pgd 0 vmi of
             Some (VMI_SUCCESS, pid, v) \<Rightarrow> (Some pid, v) | Some (VMI_FAILURE, pid, v) \<Rightarrow> (None, v) | None \<Rightarrow> (None, vmi)),
         os_pid_to_pgd := Some (\<lambda>pid vmi. case linux_pid_to_pgd env os_data init_task pid vmi of
             Some (VMI_SUCCESS, pgd, v) \<Rightarrow> (Some pgd, v) | Some (VMI_FAILURE, pgd, v) \<Rightarrow> (None, v) | None \<Rightarrow> (None, vmi)) \<rparr>"

section \<open>Properties\<close>

text \<open>C15. Looking for a process in a guest whose list of tasks is well formed: the search returns, with the
  first task of the list with that process id, and with zero when there is none.\<close>

theorem task_search_finds_first:
  assumes "kernel_ready xcr (xen_cfg vt mm maxp) tp kpgd hv vmi"
    and "lk.task_list xcr vt mm maxp tp kpgd hv li init_task ts"
  shows "\<exists>v. linux_get_taskstruct_addr_from_pid (stack_env xcr xcw (xen_cfg vt mm maxp) now sp os junk vr) (Some li) init_task pid vmi =
      Some (case find (\<lambda>t. word32_at (kernel_byte xcr (xen_cfg vt mm maxp) tp kpgd hv) (t + int_offset (li_pid_offset li)) = Some pid) ts of
              None \<Rightarrow> 0 | Some t \<Rightarrow> t, v)"
  by (rule lk.taskstruct_from_pid [OF assms(2,1), where pid = pid]) blast

lemma task_list4: "lk.task_list xcr0 PV64 None 0x100000000 False 0x1000 (words_hv words4) li4 idle4 [idle4, proc4]"
proof -
  have "lk.chain xcr0 PV64 None 0x100000000 False 0x1000 (words_hv words4) 8 idle4 [idle4, proc4] idle4"
    using memory4 by (simp add: exI [of _ proc4] exI [of _ idle4])
  then show ?thesis using memory4 by (simp add: lk.task_list_def del: lk.chain.simps)
qed

lemma task_search_finds_first_witness:
  "\<exists>v. linux_get_taskstruct_addr_from_pid env4 (Some li4) idle4 42 (vmi4 (words_hv words4)) = Some (proc4, v)"
  using task_search_finds_first [OF ready4 task_list4, where pid = 42 and xcw = xcw0 and now = 0 and sp = "0xffff" and os = os4
      and junk = page_info_zero and vr = "\<lambda>g n x. (None, x)"]
  by (simp add: env4_def memory4)

text \<open>C14. From a process to its page table and back.  In a guest with a well-formed list of tasks, in
  which every task is a user process with a page table of its own, outside the kernel's addresses, or a
  kernel thread: the page table found for a process id is the one the kernel's structures say, and the
  process id found for that page table is the one we started from.\<close>

theorem pid_pgd_round_trip:
  assumes "kernel_ready xcr (xen_cfg vt mm maxp) tp kpgd hv vmi"
    and "lk.task_list xcr vt mm maxp tp kpgd hv li init_task ts" and "t \<in> set ts"
    and "word32_at (kernel_byte xcr (xen_cfg vt mm maxp) tp kpgd hv) (t + int_offset (li_pid_offset li)) = Some pid"
    and "lk.user_task xcr vt mm maxp tp kpgd hv li t pgd" and "clear_low 13 pgd \<noteq> 0"
    and "\<forall>u \<in> set ts. word32_at (kernel_byte xcr (xen_cfg vt mm maxp) tp kpgd hv) (u + int_offset (li_pid_offset li)) = Some pid \<longrightarrow> u = t"
    and "\<forall>u \<in> set ts. lk.user_task xcr vt mm maxp tp kpgd hv li u pgd \<or> lk.user_task xcr vt mm maxp tp kpgd hv li u (clear_low 13 pgd) \<longrightarrow> u = t"
    and "\<forall>u \<in> set ts. lk.kernel_task xcr vt mm maxp tp kpgd hv li u \<or>
      (\<exists>p. lk.user_task xcr vt mm maxp tp kpgd hv li u p \<and> guest_tr (xen_page xcr (xen_cfg vt mm maxp) hv) tp (p, kpgd, 0) = None)"
    and "guest_tr (xen_page xcr (xen_cfg vt mm maxp) hv) tp (0, kpgd, 0) = None"
  shows "\<exists>v v'. linux_pid_to_pgd (stack_env xcr xcw (xen_cfg vt mm maxp) now sp os junk vr) (Some li) init_task pid vmi =
        Some (VMI_SUCCESS, pgd, v) \<and>
      linux_pgd_to_pid (stack_env xcr xcw (xen_cfg vt mm maxp) now sp os junk vr) (Some li) init_task pgd old v =
        Some (VMI_SUCCESS, pid, v')"
proof -
  let ?env = "stack_env xcr xcw (xen_cfg vt mm maxp) now sp os junk vr"
  obtain v where v: "linux_pid_to_pgd ?env (Some li) init_task pid vmi = Some (VMI_SUCCESS, pgd, v)"
      "kernel_ready xcr (xen_cfg vt mm maxp) tp kpgd hv v"
    using lk.pid_to_pgd [OF assms(2,1,3,4,7,5)] by blast
  have "\<exists>v'. linux_pgd_to_pid ?env (Some li) init_task pgd old v = Some (VMI_SUCCESS, pid, v') \<and>
      kernel_ready xcr (xen_cfg vt mm maxp) tp kpgd hv v'"
    by (rule lk.pgd_to_pid [OF assms(2) v(2) assms(3,4,9,10,6) disjI1 [OF assms(5)] assms(8)])
  then show ?thesis using v(1) by blast
qed

lemma tr4: "guest_tr (xen_page xcr0 xcfg0 (words_hv words4)) False (0xffffffff80040000, 0x1000, 0) = Some 0x40000"
  "guest_tr (xen_page xcr0 xcfg0 (words_hv words4)) False (0x40000, 0x1000, 0) = None"
  "guest_tr (xen_page xcr0 xcfg0 (words_hv words4)) False (0, 0x1000, 0) = None"
  using kernel_tables_tr [OF tables4(1)] by (simp_all add: drop_bit_eq_div take_bit_eq_mod)

lemma tasks4:
  "lk.user_task xcr0 PV64 None 0x100000000 False 0x1000 (words_hv words4) li4 proc4 p \<longleftrightarrow> p = 0x40000"
  "\<not> lk.user_task xcr0 PV64 None 0x100000000 False 0x1000 (words_hv words4) li4 idle4 p"
  "lk.kernel_task xcr0 PV64 None 0x100000000 False 0x1000 (words_hv words4) li4 idle4"
  using memory4 tr4 holes4 by (auto simp: lk.user_task_def lk.kernel_task_def)

lemma pid_pgd_round_trip_witness:
  "\<exists>v v'. linux_pid_to_pgd env4 (Some li4) idle4 42 (vmi4 (words_hv words4)) = Some (VMI_SUCCESS, 0x40000, v) \<and>
      linux_pgd_to_pid env4 (Some li4) idle4 0x40000 0 v = Some (VMI_SUCCESS, 42, v')"
  unfolding env4_def
  by (rule pid_pgd_round_trip [OF ready4 task_list4, where t = proc4])
    (use tasks4 tr4 memory4 in \<open>simp_all add: clear_low_def drop_bit_eq_div push_bit_eq_mult\<close>)

text \<open>C16. The walk ignores the status of its reads.  When the first entry of the list leads to an address that
  is not mapped, a search for any process other than the first never returns.\<close>

theorem unreadable_task_hangs_search:
  assumes "kernel_ready xcr (xen_cfg vt mm maxp) tp kpgd hv vmi"
    and "word32_at (kernel_byte xcr (xen_cfg vt mm maxp) tp kpgd hv) (init_task + int_offset (li_pid_offset li)) = Some q" and "q \<noteq> pid"
    and "word_at (kernel_byte xcr (xen_cfg vt mm maxp) tp kpgd hv) (init_task + int_offset (li_tasks_offset li)) =
      Some (x + int_offset (li_tasks_offset li))" and "x \<noteq> init_task"
    and "kernel_byte xcr (xen_cfg vt mm maxp) tp kpgd hv (x + int_offset (li_tasks_offset li)) = None"
    and "kernel_byte xcr (xen_cfg vt mm maxp) tp kpgd hv (x + int_offset (li_pid_offset li)) = None"
  shows "linux_pid_to_pgd (stack_env xcr xcw (xen_cfg vt mm maxp) now sp os junk vr) (Some li) init_task pid vmi = None"
  using lk.stuck_list [OF assms] by (simp add: linux_pid_to_pgd_def)

lemma unreadable_task_hangs_search_witness:
  "linux_pid_to_pgd env4 (Some li4) idle4 42 (vmi4 (words_hv words5)) = None"
  unfolding env4_def
  by (rule unreadable_task_hangs_search [OF ready4, where x = "0xdead0000" and q = 0]) (simp_all add: memory4 holes4)



end
