(* ===== verification/Linux_Symbols.thy ===== *)
theory Linux_Symbols
  imports Linux_Memory C_Strings
begin

text \<open>
  \<^verbatim>\<open>os/linux/symbols.c\<close>: kernel symbols and addresses, looked up in the
  \<^verbatim>\<open>System.map\<close> file of the kernel.

  The lines are read into one buffer of 500 bytes, in which white space is overwritten by
  terminators; what a shorter line leaves of an older one behind its end stays there.  The position
  in the buffer is the point where the list of its bytes is split.  The files of the host are a
  parameter, and so is the lookup in a JSON profile.
\<close>

section \<open>Lines of the file\<close>

abbreviation (input) MAX_ROW_LENGTH :: nat where "MAX_ROW_LENGTH \<equiv> 500"

text \<open>The buffer after \<^verbatim>\<open>fgets\<close> has stored a line and its terminator.\<close>

definition fgets_row :: "string \<Rightarrow> char list \<Rightarrow> char list" where
  "fgets_row line row = line @ NUL # drop (Suc (length line)) row"

text \<open>The column of the wanted number: the bytes before it, with white space overwritten, and those
  from it on.\<close>

fun seek_token :: "nat \<Rightarrow> char list \<Rightarrow> char list \<times> char list option" where
  "seek_token 0 cs = ([], Some cs)"
| "seek_token (Suc position) [] = ([], None)"
| "seek_token (Suc position) (c # cs) =
     (if is_space c then
        (case seek_token position (dropWhile is_space cs) of
           (front, rest) \<Rightarrow> (replicate (Suc (length (takeWhile is_space cs))) NUL @ front, rest))
      else (case seek_token (Suc position) cs of (front, rest) \<Rightarrow> (c # front, rest)))"

definition blank :: "char list \<Rightarrow> char list" where
  "blank cs = map (\<lambda>c. if is_space c then NUL else c) cs"

function get_symbol_row :: "string \<Rightarrow> char list \<Rightarrow> string \<Rightarrow> nat \<Rightarrow> status \<times> char list" where
  "get_symbol_row f row symbol position =
     (if f = [] then (VMI_FAILURE, replicate MAX_ROW_LENGTH NUL)
      else
        let line = fgets_line (MAX_ROW_LENGTH - 1) f in
        case seek_token position (fgets_row line row) of
          (front, None) \<Rightarrow> (VMI_FAILURE, replicate MAX_ROW_LENGTH NUL)
        | (front, Some token) \<Rightarrow>
            if take MAX_ROW_LENGTH (c_string (blank token)) = take MAX_ROW_LENGTH symbol
            then (VMI_SUCCESS, front @ blank token)
            else get_symbol_row (drop (length line) f) (front @ blank token) symbol position)"
  by pat_completeness auto
termination
proof (relation "measure (\<lambda>(f, row, symbol, position). length f)")
  fix f :: string and line and row :: "char list" and symbol :: string and position x front y token
  assume "f \<noteq> []" and l: "line = fgets_line (MAX_ROW_LENGTH - 1) f"
  then have "0 < length line" using fgets_line_pos [of "MAX_ROW_LENGTH - 1" f] by simp
  then show "((drop (length line) f, front @ blank token, symbol, position), (f, row, symbol, position))
      \<in> measure (\<lambda>(f, row, symbol, position). length f)"
    using \<open>f \<noteq> []\<close> by (simp add: diff_less)
qed simp

declare get_symbol_row.simps [simp del]

section \<open>Symbols and addresses\<close>

type_synonym files = "string \<Rightarrow> string option"

definition linux_system_map_symbol_to_address :: "files \<Rightarrow> linux_instance option \<Rightarrow> string \<Rightarrow> addr_t option" where
  "linux_system_map_symbol_to_address files os_data symbol =
     (case os_data of
        None \<Rightarrow> None
      | Some li \<Rightarrow>
      (case li_sysmap li of
         None \<Rightarrow> None
       | Some sysmap \<Rightarrow>
           if sysmap = '''' then None
           else case files sysmap of
             None \<Rightarrow> None
           | Some f \<Rightarrow>
           (case get_symbol_row f (replicate MAX_ROW_LENGTH NUL) symbol 2 of
              (VMI_FAILURE, row) \<Rightarrow> None
            | (VMI_SUCCESS, row) \<Rightarrow> Some (strtoull16 (c_string row)))))"

text \<open>Behind the next terminator.\<close>

definition after_nul :: "char list \<Rightarrow> char list" where
  "after_nul cs = tl (dropWhile (\<lambda>c. c \<noteq> NUL) cs)"

definition linux_system_map_address_to_symbol :: "files \<Rightarrow> linux_instance option \<Rightarrow> addr_t \<Rightarrow> access_context \<Rightarrow>
    's vmi_instance \<Rightarrow> string option" where
  "linux_system_map_address_to_symbol files os_data address ctx vmi =
     (case os_data of
        None \<Rightarrow> None
      | Some li \<Rightarrow>
          let address = address - li_kaslr_offset li in
          if \<not> (ac_tm ctx = VMI_TM_PROCESS_PID \<and> ac_pid ctx = 0 \<or>
                 ac_tm ctx = VMI_TM_PROCESS_DTB \<and> ac_pt ctx = vi_kpgd vmi) then None
          else case li_sysmap li of
            None \<Rightarrow> None
          | Some sysmap \<Rightarrow>
          if sysmap = '''' then None
          else case files sysmap of
            None \<Rightarrow> None
          | Some f \<Rightarrow>
          (case get_symbol_row f (replicate MAX_ROW_LENGTH NUL) (print_lx address) 0 of
             (VMI_FAILURE, row) \<Rightarrow> None
           | (VMI_SUCCESS, row) \<Rightarrow> Some (c_string (after_nul (after_nul row)))))"

text \<open>\<open>json\<close> is the lookup in the profile, when there is one.\<close>

definition linux_symbol_to_address :: "files \<Rightarrow> (string \<Rightarrow> addr_t option) option \<Rightarrow> linux_instance option \<Rightarrow> string \<Rightarrow>
    addr_t option" where
  "linux_symbol_to_address files json os_data symbol =
     (case os_data of
        None \<Rightarrow> None
      | Some li \<Rightarrow>
          if li_sysmap li = None \<and> json = None then None
          else map_option (\<lambda>address. address + li_kaslr_offset li)
            (if li_sysmap li \<noteq> None then linux_system_map_symbol_to_address files os_data symbol
             else (case json of None \<Rightarrow> None | Some profile \<Rightarrow> profile symbol)))"

section \<open>Well-formed files\<close>

text \<open>A line as \<^verbatim>\<open>nm\<close> prints it: address, type and name.\<close>

type_synonym map_line = "string \<times> char \<times> string"

definition plain_text :: "string \<Rightarrow> bool" where
  "plain_text s \<longleftrightarrow> s \<noteq> [] \<and> (\<forall>c \<in> set s. \<not> is_space c \<and> c \<noteq> NUL)"

fun good_line :: "map_line \<Rightarrow> bool" where
  "good_line (a, t, n) \<longleftrightarrow> plain_text a \<and> plain_text [t] \<and> plain_text n \<and> length a + length n < 495"

fun line_text :: "map_line \<Rightarrow> string" where
  "line_text (a, t, n) = a @ '' '' @ [t] @ '' '' @ n @ [CHR 0x0A]"

definition map_text :: "map_line list \<Rightarrow> string" where
  "map_text ls = concat (map line_text ls)"

definition clean_row :: "char list \<Rightarrow> bool" where
  "clean_row row \<longleftrightarrow> length row = MAX_ROW_LENGTH \<and> (\<forall>c \<in> set row. \<not> is_space c)"

lemma space_nul [simp]: "\<not> is_space NUL" "is_space CHR '' ''" "is_space CHR 0x0A"
  by (simp_all add: is_space_def)

lemma seek_column:
  assumes "plain_text s" and "ys \<noteq> []" and "\<not> is_space (hd ys)"
  shows "seek_token (Suc p) (s @ CHR '' '' # ys) = (case seek_token p ys of (front, rest) \<Rightarrow> (s @ NUL # front, rest))"
proof -
  have ys: "dropWhile is_space ys = ys" "takeWhile is_space ys = []" using assms(2,3) by (cases ys; simp)+
  have "\<forall>c \<in> set s. \<not> is_space c" using assms(1) by (simp add: plain_text_def)
  then show ?thesis
    by (induction s) (simp_all add: ys split: prod.splits)
qed

lemma blank_plain: "plain_text s \<Longrightarrow> blank (s @ cs) = s @ blank cs"
  by (simp add: blank_def plain_text_def map_idI)

lemma c_string_plain: "plain_text s \<Longrightarrow> c_string (s @ NUL # cs) = s"
  by (simp add: c_string_def plain_text_def takeWhile_tail)

lemma after_nul_plain: "plain_text s \<Longrightarrow> after_nul (s @ NUL # cs) = cs"
  by (simp add: after_nul_def plain_text_def dropWhile_append2)

lemma blank_clean: "clean_row row \<Longrightarrow> blank (drop k row) = drop k row"
  by (auto simp: blank_def clean_row_def intro!: map_idI dest: in_set_dropD)

lemma plain_no_newline: "plain_text s \<Longrightarrow> CHR 0x0A \<notin> set s"
  unfolding plain_text_def using space_nul(3) by blast

lemma line_read:
  assumes "good_line l"
  shows "fgets_line 499 (line_text l @ z) = line_text l"
proof -
  obtain a t n where l: "l = (a, t, n)" by (rule prod_cases3)
  let ?l = "a @ '' '' @ [t] @ '' '' @ n"
  have g: "plain_text a" "plain_text [t]" "plain_text n" "length a + length n < 495" using assms l by simp_all
  have "CHR 0x0A \<notin> set ?l" using g(1-3) [THEN plain_no_newline] by simp
  moreover have "length ?l < 499" using g(4) by simp
  ultimately have "fgets_line 499 (?l @ CHR 0x0A # z) = ?l @ [CHR 0x0A]" by (rule fgets_line_newline)
  then show ?thesis by (simp add: l)
qed

text \<open>The buffer after a line: its fields, each with a terminator, and the clean rest.\<close>

definition row_of :: "map_line \<Rightarrow> char list \<Rightarrow> char list" where
  "row_of l row = (case l of (a, t, n) \<Rightarrow> a @ NUL # t # NUL # n @ NUL # NUL # drop (Suc (length (line_text l))) row)"

lemma seek_line:
  assumes "good_line (a, t, n)" and "clean_row row"
  shows "seek_token 2 (fgets_row (line_text (a, t, n)) row) =
      (a @ NUL # t # [NUL], Some (n @ CHR 0x0A # NUL # drop (Suc (length (line_text (a, t, n)))) row))"
    and "blank (n @ CHR 0x0A # NUL # drop k row) = n @ NUL # NUL # drop k row"
    and "blank (fgets_row (line_text (a, t, n)) row) = row_of (a, t, n) row"
proof -
  have g: "plain_text a" "plain_text [t]" "plain_text n" using assms(1) by simp_all
  have h: "\<not> is_space t" using g(2) by (simp add: plain_text_def)
  obtain x xs where n: "n = x # xs" "\<not> is_space x" using g(3) by (cases n) (auto simp: plain_text_def)
  show b: "blank (n @ CHR 0x0A # NUL # drop k row) = n @ NUL # NUL # drop k row" for k
    using blank_plain [OF g(3)] blank_clean [OF assms(2), of k] by (simp add: blank_def)
  let ?d = "drop (Suc (length (line_text (a, t, n)))) row"
  have "seek_token (Suc (Suc 0)) (a @ CHR '' '' # [t] @ CHR '' '' # n @ CHR 0x0A # NUL # ?d) =
      (a @ NUL # [t] @ NUL # [], Some (n @ CHR 0x0A # NUL # ?d))"
    using h n(2) by (simp add: n(1) seek_column [OF g(1)] seek_column [OF g(2), simplified])
  then show "seek_token 2 (fgets_row (line_text (a, t, n)) row) = (a @ NUL # t # [NUL], Some (n @ CHR 0x0A # NUL # ?d))"
    by (simp add: fgets_row_def numeral_2_eq_2)
  have "blank (a @ CHR '' '' # [t] @ CHR '' '' # n @ CHR 0x0A # NUL # ?d) = a @ NUL # [t] @ NUL # (n @ NUL # NUL # ?d)"
    using blank_plain [OF g(1)] blank_plain [OF g(2)] b by (simp add: blank_def)
  then show "blank (fgets_row (line_text (a, t, n)) row) = row_of (a, t, n) row"
    by (simp add: fgets_row_def row_of_def)
qed

lemma clean_row_of: "good_line l \<Longrightarrow> clean_row row \<Longrightarrow> clean_row (row_of l row)"
  by (cases l) (auto simp: clean_row_def row_of_def plain_text_def dest: in_set_dropD)

definition column :: "nat \<Rightarrow> map_line \<Rightarrow> string" where
  "column position l = (if position = 0 then fst l else snd (snd l))"

lemma row_step:
  assumes l: "good_line l" and r: "clean_row row" and p: "position \<in> {0, 2}"
  shows "get_symbol_row (map_text (l # ls)) row symbol position =
    (if column position l = take MAX_ROW_LENGTH symbol then (VMI_SUCCESS, row_of l row)
     else get_symbol_row (map_text ls) (row_of l row) symbol position)"
proof -
  obtain a t n where l3: "l = (a, t, n)" by (rule prod_cases3)
  have g: "plain_text a" "plain_text n" "length n \<le> 500" "length a \<le> 500" using l by (simp_all add: l3)
  have ne: "line_text l @ map_text ls \<noteq> []" by (simp add: l3)
  have mt: "map_text (l # ls) = line_text l @ map_text ls" by (simp add: map_text_def)
  have c0: "c_string (row_of l row) = a" using c_string_plain [OF g(1)] by (simp add: row_of_def l3)
  note s = seek_line [OF l [unfolded l3] r, folded l3]
  have c2: "c_string (n @ NUL # NUL # drop k row) = n" for k by (rule c_string_plain [OF g(2)])
  have r2: "(a @ NUL # t # [NUL]) @ n @ NUL # NUL # drop (Suc (length (line_text l))) row = row_of l row"
    by (simp add: row_of_def l3)
  have "\<exists>front token. seek_token position (fgets_row (line_text l) row) = (front, Some token) \<and>
      c_string (blank token) = column position l \<and> front @ blank token = row_of l row"
  proof (cases "position = 0")
    case True
    then show ?thesis using s(3) c0 by (simp add: column_def l3)
  next
    case False
    then have "position = 2" using p by simp
    then show ?thesis using s(1) s(2) c2 r2 by (simp add: column_def l3 del: line_text.simps)
  qed
  moreover have "take MAX_ROW_LENGTH (column position l) = column position l" using g by (simp add: column_def l3)
  ultimately show ?thesis
    unfolding mt using ne
    by (auto simp: get_symbol_row.simps [of "line_text l @ map_text ls"] line_read [OF l] Let_def)
qed

lemma rows_found:
  assumes "\<forall>l \<in> set ls. good_line l" and "clean_row row" and "position \<in> {0, 2}"
  shows "case find (\<lambda>l. column position l = take MAX_ROW_LENGTH symbol) ls of
      None \<Rightarrow> fst (get_symbol_row (map_text ls) row symbol position) = VMI_FAILURE
    | Some l \<Rightarrow> \<exists>row'. get_symbol_row (map_text ls) row symbol position = (VMI_SUCCESS, row_of l row')"
  using assms(1,2)
proof (induction ls arbitrary: row)
  case Nil
  then show ?case by (simp add: get_symbol_row.simps map_text_def)
next
  case (Cons k ls)
  have k: "good_line k" "clean_row (row_of k row)" using Cons.prems clean_row_of by simp_all
  note st = row_step [OF k(1) Cons.prems(2) assms(3), of ls symbol]
  show ?case
  proof (cases "column position k = take MAX_ROW_LENGTH symbol")
    case True
    then show ?thesis using st by auto
  next
    case False
    then show ?thesis using st Cons.IH [OF _ k(2)] Cons.prems(1) by (simp cong: option.case_cong)
  qed
qed

lemma row_fields:
  assumes "good_line (a, t, n)"
  shows "c_string (row_of (a, t, n) row) = a" and "c_string (after_nul (after_nul (row_of (a, t, n) row))) = n"
proof -
  have g: "plain_text a" "plain_text [t]" "plain_text n" using assms by simp_all
  show "c_string (row_of (a, t, n) row) = a" using c_string_plain [OF g(1)] by (simp add: row_of_def)
  let ?d = "NUL # drop (Suc (length (line_text (a, t, n)))) row"
  have "row_of (a, t, n) row = a @ NUL # [t] @ NUL # n @ NUL # ?d" by (simp add: row_of_def)
  then show "c_string (after_nul (after_nul (row_of (a, t, n) row))) = n"
    by (simp only: after_nul_plain [OF g(1)] after_nul_plain [OF g(2)] c_string_plain [OF g(3)])
qed

section \<open>Properties\<close>

lemma clean_row_init: "clean_row (replicate MAX_ROW_LENGTH NUL)"
  by (simp add: clean_row_def)

lemma find_in: "find P xs = Some x \<Longrightarrow> x \<in> set xs"
  by (induction xs) (auto split: if_splits)

lemma sysmap_lookup:
  assumes "\<forall>l \<in> set ls. good_line l" and "li_sysmap li = Some path" and "path \<noteq> ''''" and "files path = Some (map_text ls)"
    and "length symbol \<le> MAX_ROW_LENGTH"
  shows "linux_system_map_symbol_to_address files (Some li) symbol =
    map_option (\<lambda>(a, t, n). strtoull16 a) (find (\<lambda>(a, t, n). n = symbol) ls)"
proof -
  have s: "take MAX_ROW_LENGTH symbol = symbol" using assms(5) by simp
  have eq: "(\<lambda>l. column 2 l = symbol) = (\<lambda>(a, t, n). n = symbol)" by (auto simp: column_def)
  note r = rows_found [OF assms(1) clean_row_init, of 2 symbol, unfolded s eq]
  show ?thesis
  proof (cases "find (\<lambda>(a, t, n). n = symbol) ls")
    case None
    then show ?thesis
      using r assms(2-4) by (auto simp: linux_system_map_symbol_to_address_def split: prod.splits status.splits)
  next
    case (Some l)
    obtain a t n where l: "l = (a, t, n)" by (rule prod_cases3)
    have g: "good_line (a, t, n)" using assms(1) find_in [OF Some] l by auto
    show ?thesis
      using r assms(2-4) Some row_fields(1) [OF g] by (auto simp: linux_system_map_symbol_to_address_def l)
  qed
qed

text \<open>In a well-formed map file the address of a symbol is the one in the first line with that name, moved
  by the random offset of the kernel; a symbol with no line is not found.\<close>

theorem symbol_lookup_first:
  assumes "\<forall>l \<in> set ls. good_line l" and "li_sysmap li = Some path" and "path \<noteq> ''''" and "files path = Some (map_text ls)"
    and "length symbol \<le> MAX_ROW_LENGTH"
  shows "linux_symbol_to_address files json (Some li) symbol =
    map_option (\<lambda>(a, t, n). strtoull16 a + li_kaslr_offset li) (find (\<lambda>(a, t, n). n = symbol) ls)"
  using sysmap_lookup [where files = files, OF assms] assms(2)
  by (cases "find (\<lambda>(a, t, n). n = symbol) ls") (auto simp: linux_symbol_to_address_def)

definition map5 :: "map_line list" where
  "map5 = [(''ffffffff81000000'', CHR ''T'', ''_stext''), (''ffffffff81a00010'', CHR ''T'', ''entry_SYSCALL_64''),
     (''0000000000014580'', CHR ''A'', ''current_task'')]"

definition li5 :: linux_instance where
  "li5 = li4\<lparr> li_sysmap := Some ''/boot/System.map'', li_kaslr_offset := 0x1000000 \<rparr>"

definition files5 :: files where
  "files5 p = (if p = ''/boot/System.map'' then Some (map_text map5) else None)"

lemma good5: "\<forall>l \<in> set map5. good_line l"
  by (simp add: map5_def plain_text_def is_space_def)

lemma symbol_lookup_first_witness:
  "linux_symbol_to_address files5 None (Some li5) ''entry_SYSCALL_64'' = Some 0xffffffff82a00010"
proof -
  have "linux_symbol_to_address files5 None (Some li5) ''entry_SYSCALL_64'' =
      map_option (\<lambda>(a, t, n). strtoull16 a + li_kaslr_offset li5) (find (\<lambda>(a, t, n). n = ''entry_SYSCALL_64'') map5)"
    by (rule symbol_lookup_first [OF good5, where path = "''/boot/System.map''"]) (simp_all add: li5_def files5_def)
  moreover have "strtoull16 ''ffffffff81a00010'' = 0xffffffff81a00010"
    by (simp add: strtoull16_def is_space_def hex_digit_def Let_def)
  ultimately show ?thesis by (simp add: map5_def li5_def)
qed



end
