(* ===== verification/Linux_Core.thy ===== *)
theory Linux_Core
  imports Linux_Symbols Arch_Mode Arch_Pages
begin

text \<open>
  \<^verbatim>\<open>os/linux/core.c\<close>: setting up the support for a Linux guest.  From the configuration, a
  profile or the \<^verbatim>\<open>System.map\<close> the address of the first task is found, then the kernel's page table and
  the offset by which the kernel was moved when it was loaded (KASLR), with several heuristics; in a
  memory dump without registers every page directory is tried.

  The state has the part of the instance that the set-up changes.  A string read may not return
  (\<open>Vmi_Read\<close>), so the functions that look at the name of a task have an option as result.
\<close>

section \<open>State\<close>

text \<open>\<open>lx_maxp\<close> is the size of memory the driver reports, zero when it cannot.\<close>

record 's linux_env =
  lx_env :: "'s vmi_env"
  lx_files :: files
  lx_json :: "(string \<Rightarrow> string option \<Rightarrow> addr_t option) option"
  lx_maxp :: addr_t

record 's linux_state =
  ls_vmi :: "'s vmi_instance"
  ls_init_task :: addr_t
  ls_li :: linux_instance

abbreviation upd_li :: "(linux_instance \<Rightarrow> linux_instance) \<Rightarrow> 's linux_state \<Rightarrow> 's linux_state" where
  "upd_li f st \<equiv> st\<lparr> ls_li := f (ls_li st) \<rparr>"

abbreviation set_kpgd :: "addr_t \<Rightarrow> 's linux_state \<Rightarrow> 's linux_state" where
  "set_kpgd a st \<equiv> st\<lparr> ls_vmi := (ls_vmi st)\<lparr> vi_kpgd := a \<rparr> \<rparr>"

definition symbol_address :: "'s linux_env \<Rightarrow> linux_instance \<Rightarrow> string \<Rightarrow> addr_t option" where
  "symbol_address le li symbol =
     linux_symbol_to_address (lx_files le) (map_option (\<lambda>p s. p s None) (lx_json le)) (Some li) symbol"

definition json_profile_lookup :: "'s linux_env \<Rightarrow> string \<Rightarrow> string option \<Rightarrow> addr_t option" where
  "json_profile_lookup le symbol subsymbol = (case lx_json le of None \<Rightarrow> None | Some p \<Rightarrow> p symbol subsymbol)"

section \<open>Page directories\<close>

fun pd_scan :: "addr_t \<Rightarrow> u64 list \<Rightarrow> bool \<Rightarrow> bool" where
  "pd_scan maxframe [] rc = rc"
| "pd_scan maxframe (pde # pdes) rc =
     (if VMI_GET_BIT pde 7 \<or> VMI_GET_BIT pde 63 then False
      else if \<not> VMI_GET_BIT pde 0 then pd_scan maxframe pdes rc
      else let gfn = drop_bit 12 pde in
        if gfn = 0 \<or> gfn > maxframe then False else pd_scan maxframe pdes True)"

definition is_x86_64_pd :: "'s linux_env \<Rightarrow> addr_t \<Rightarrow> 's vmi_instance \<Rightarrow> bool \<times> 's vmi_instance" where
  "is_x86_64_pd le pa vmi =
     (case vmi_read_pa (vmi_read (lx_env le)) pa 4096 vmi of
        (VMI_FAILURE, bs, vmi) \<Rightarrow> (False, vmi)
      | (VMI_SUCCESS, bs, vmi) \<Rightarrow>
          (pd_scan (drop_bit 12 (lx_maxp le)) (map (\<lambda>i. word_of_bytes (take 8 (drop (8 * i) bs))) [0..<512]) False, vmi))"

text \<open>\<^verbatim>\<open>vmi_get_page_mode\<close> of \<^verbatim>\<open>core.c\<close>: unknown when the mode cannot be found.\<close>

definition vmi_get_page_mode :: "'s vmi_env \<Rightarrow> nat \<Rightarrow> 's vmi_instance \<Rightarrow> page_mode_t \<times> 's vmi_instance" where
  "vmi_get_page_mode env vcpu vmi =
     (if vi_mode vmi = VMI_FILE then (vi_page_mode vmi, vmi)
      else case get_vcpu_page_mode env vcpu True vmi of
        (st, Some pm, vmi) \<Rightarrow> (pm, vmi)
      | (st, None, vmi) \<Rightarrow> (VMI_PM_UNKNOWN, vmi))"

text \<open>The frames the loops visit; a memory size near the end of the address space, with which the
  counters would wrap, does not occur.\<close>

definition page_frames :: "addr_t \<Rightarrow> addr_t list" where
  "page_frames maxp = map (\<lambda>i. of_nat (4096 * i)) [0..<(unat maxp + 4095) div 4096]"

fun collect_pds :: "'s linux_env \<Rightarrow> addr_t list \<Rightarrow> addr_t list \<Rightarrow> 's vmi_instance \<Rightarrow> addr_t list \<times> 's vmi_instance" where
  "collect_pds le [] found vmi = (found, vmi)"
| "collect_pds le (candidate # cs) found vmi =
     (let (pd, vmi) = is_x86_64_pd le candidate vmi in
      collect_pds le cs (if pd then candidate # found else found) vmi)"

definition find_page_directories :: "'s linux_env \<Rightarrow> 's vmi_instance \<Rightarrow> addr_t list \<times> 's vmi_instance" where
  "find_page_directories le vmi =
     (case vmi_get_page_mode (lx_env le) 0 vmi of
        (pm, vmi) \<Rightarrow> if pm \<noteq> VMI_PM_IA32E then ([], vmi) else collect_pds le (tl (page_frames (lx_maxp le))) [] vmi)"

text \<open>\<^verbatim>\<open>vmi_get_va_pages\<close> of \<^verbatim>\<open>accessors.c\<close>; only the x86 modes have a function in the
  table.\<close>

definition vmi_get_va_pages :: "'s vmi_env \<Rightarrow> addr_t \<Rightarrow> 's vmi_instance \<Rightarrow> page_info list \<times> 's vmi_instance" where
  "vmi_get_va_pages env dtb vmi =
     (let pm = vi_page_mode vmi; rd = vmi_read env in
      if pm = VMI_PM_LEGACY then get_pages_nopae rd 0 0 dtb vmi
      else if pm = VMI_PM_PAE then get_pages_pae rd 0 0 dtb vmi
      else if pm = VMI_PM_IA32E then get_pages_ia32e rd 0 0 dtb vmi
      else if pm = VMI_PM_EPT_4L then get_pages_ept_4l rd 0 0 dtb vmi
      else ([], vmi))"

section \<open>The first task\<close>

abbreviation swapper :: "u8 list" where "swapper \<equiv> [0x73, 0x77, 0x61, 0x70, 0x70, 0x65, 0x72]"

definition init_task_kaslr_test :: "'s linux_env \<Rightarrow> addr_t \<Rightarrow> 's linux_state \<Rightarrow> (status \<times> 's linux_state) option" where
  "init_task_kaslr_test le page_vaddr st =
     (let vmi = ls_vmi st; li = ls_li st; env = lx_env le;
          init_task = page_vaddr + (ls_init_task st AND VMI_BIT_MASK 0 11);
          ctx = (\<lambda>a. ACCESS_CONTEXT\<lparr> ac_pm := vi_page_mode vmi, ac_tm := VMI_TM_PROCESS_DTB, ac_pt := vi_kpgd vmi,
                                     ac_addr := a \<rparr>);
          fail = (\<lambda>vmi. Some (VMI_FAILURE, st\<lparr> ls_vmi := vmi \<rparr>)) in
      case vmi_read_32 (vmi_read env) (ctx (init_task + li_pid_offset li)) vmi of
        (None, vmi) \<Rightarrow> fail vmi
      | (Some pid, vmi) \<Rightarrow>
      if pid \<noteq> 0 then fail vmi
      else case vmi_read_addr env (ctx (init_task + li_mm_offset li)) vmi of
        (None, vmi) \<Rightarrow> fail vmi
      | (Some addr, vmi) \<Rightarrow>
      if addr \<noteq> 0 then fail vmi
      else case vmi_read_addr env (ctx (init_task + li_tasks_offset li)) vmi of
        (None, vmi) \<Rightarrow> fail vmi
      | (Some addr, vmi) \<Rightarrow>
      case vmi_read_addr env (ctx addr) vmi of
        (None, vmi) \<Rightarrow> fail vmi
      | (Some addr, vmi) \<Rightarrow>
      case vmi_read_str env (ctx (init_task + li_name_offset li)) vmi of
        None \<Rightarrow> None
      | Some (name, vmi) \<Rightarrow>
          if name \<noteq> None \<and> take 7 (the name) = swapper then Some (VMI_SUCCESS, st\<lparr> ls_vmi := vmi \<rparr>) else fail vmi)"

section \<open>The offset of the kernel\<close>

abbreviation kernel_text_start :: addr_t where "kernel_text_start \<equiv> 0xffffffff81000000"

fun kaslr_loop :: "'s linux_env \<Rightarrow> addr_t list \<Rightarrow> 's linux_state \<Rightarrow> status \<times> 's linux_state" where
  "kaslr_loop le [] st = (VMI_FAILURE, st)"
| "kaslr_loop le (va # vas) st =
     (case vmi_translate_kv2p (lx_env le) va (ls_vmi st) of
        (None, vmi) \<Rightarrow> kaslr_loop le vas (st\<lparr> ls_vmi := vmi \<rparr>)
      | (Some pa, vmi) \<Rightarrow>
          let off = va - kernel_text_start in
          (VMI_SUCCESS, upd_li (\<lambda>li. li\<lparr> li_kaslr_offset := off \<rparr>)
             (st\<lparr> ls_vmi := vmi, ls_init_task := ls_init_task st + off \<rparr>)))"

text \<open>The range of one gigabyte in steps of two megabytes.\<close>

definition text_candidates :: "addr_t list" where
  "text_candidates = map (\<lambda>i. kernel_text_start + of_nat (0x200000 * i)) [0..<512]"

definition get_kaslr_offset_ia32e :: "'s linux_env \<Rightarrow> 's linux_state \<Rightarrow> status \<times> 's linux_state" where
  "get_kaslr_offset_ia32e le st = kaslr_loop le text_candidates (st\<lparr> ls_init_task := li_init_task_fixed (ls_li st) \<rparr>)"

fun kaslr_pages :: "'s linux_env \<Rightarrow> page_info list \<Rightarrow> status \<Rightarrow> 's linux_state \<Rightarrow> (status \<times> 's linux_state) option" where
  "kaslr_pages le [] ret st = Some (ret, st)"
| "kaslr_pages le (info # rest) ret st =
     (if li_kaslr_offset (ls_li st) \<noteq> 0 then kaslr_pages le rest ret st
      else
        let pm = vi_page_mode (ls_vmi st) in
        case (if (pm = VMI_PM_AARCH64 \<or> pm = VMI_PM_IA32E) \<and> \<not> VMI_GET_BIT (pi_vaddr info) 47 then Some (ret, st)
              else init_task_kaslr_test le (pi_vaddr info) st) of
          None \<Rightarrow> None
        | Some (VMI_SUCCESS, st) \<Rightarrow>
            let off = pi_vaddr info - (ls_init_task st AND NOT (VMI_BIT_MASK 0 11)) in
            Some (VMI_SUCCESS, upd_li (\<lambda>li. li\<lparr> li_kaslr_offset := off \<rparr>)
              (st\<lparr> ls_init_task := li_init_task_fixed (ls_li st) + off \<rparr>))
        | Some (VMI_FAILURE, st) \<Rightarrow> kaslr_pages le rest VMI_FAILURE st)"

definition init_kaslr :: "'s linux_env \<Rightarrow> 's linux_state \<Rightarrow> (status \<times> 's linux_state) option" where
  "init_kaslr le st =
     (let ctx = ACCESS_CONTEXT\<lparr> ac_tm := VMI_TM_PROCESS_DTB, ac_pt := vi_kpgd (ls_vmi st), ac_addr := ls_init_task st \<rparr> in
      case vmi_read_32 (vmi_read (lx_env le)) ctx (ls_vmi st) of
        (Some test, vmi) \<Rightarrow>
          let st = st\<lparr> ls_vmi := vmi \<rparr> in
          (case symbol_address le (ls_li st) ''init_task'' of
             None \<Rightarrow> Some (VMI_FAILURE, st)
           | Some init_task_symbol_addr \<Rightarrow>
               Some (VMI_SUCCESS, upd_li (\<lambda>li. li\<lparr> li_kaslr_offset := ls_init_task st - init_task_symbol_addr \<rparr>) st))
      | (None, vmi) \<Rightarrow>
          let st = st\<lparr> ls_vmi := vmi \<rparr>;
              (rc, st) = (if vi_page_mode vmi = VMI_PM_IA32E then get_kaslr_offset_ia32e le st else (VMI_FAILURE, st)) in
          if rc = VMI_SUCCESS then Some (VMI_SUCCESS, st)
          else
            let (pages, vmi) = vmi_get_va_pages (lx_env le) (vi_kpgd (ls_vmi st)) (ls_vmi st) in
            kaslr_pages le pages VMI_FAILURE (st\<lparr> ls_vmi := vmi \<rparr>))"

definition verify_linux_paging :: "'s linux_env \<Rightarrow> 's linux_state \<Rightarrow> (status \<times> 's linux_state) option" where
  "verify_linux_paging le st =
     (case init_kaslr le st of
        None \<Rightarrow> None
      | Some (VMI_FAILURE, st) \<Rightarrow> Some (VMI_FAILURE, st)
      | Some (VMI_SUCCESS, st) \<Rightarrow> init_task_kaslr_test le (ls_init_task st AND NOT (VMI_BIT_MASK 0 11)) st)"

text \<open>Trying page tables in turn.\<close>

fun try_kpgds :: "'s linux_env \<Rightarrow> addr_t list \<Rightarrow> 's linux_state \<Rightarrow> (status \<times> 's linux_state) option" where
  "try_kpgds le [] st = Some (VMI_FAILURE, st)"
| "try_kpgds le (pd # pds) st =
     (case verify_linux_paging le (set_kpgd pd st) of
        None \<Rightarrow> None
      | Some (VMI_SUCCESS, st) \<Rightarrow> Some (VMI_SUCCESS, st)
      | Some (VMI_FAILURE, st) \<Rightarrow> try_kpgds le pds st)"

definition brute_force_find_kern_mem :: "'s linux_env \<Rightarrow> 's linux_state \<Rightarrow> (status \<times> 's linux_state) option" where
  "brute_force_find_kern_mem le st =
     (let (pds, vmi) = find_page_directories le (ls_vmi st) in
      case try_kpgds le pds (st\<lparr> ls_vmi := vmi \<rparr>) of
        None \<Rightarrow> None
      | Some (VMI_SUCCESS, st) \<Rightarrow> Some (VMI_SUCCESS, st)
      | Some (VMI_FAILURE, st) \<Rightarrow>
          (case try_kpgds le (page_frames (lx_maxp le)) st of
             None \<Rightarrow> None
           | Some (VMI_SUCCESS, st) \<Rightarrow> Some (VMI_SUCCESS, st)
           | Some (VMI_FAILURE, st) \<Rightarrow>
               Some (VMI_FAILURE, set_kpgd (of_nat (4096 * length (page_frames (lx_maxp le)))) st)))"

section \<open>Memory dumps\<close>

text \<open>One of the three page modes of \<^verbatim>\<open>linux_filemode_32bit_init\<close>.\<close>

definition try_page_mode :: "'s linux_env \<Rightarrow> page_mode_t \<Rightarrow> addr_t \<Rightarrow> addr_t \<Rightarrow> addr_t \<Rightarrow> 's linux_state \<Rightarrow>
    status \<times> 's linux_state" where
  "try_page_mode le pm kpgd pa va st =
     (case arch_init (lx_env le) ((ls_vmi st)\<lparr> vi_page_mode := pm \<rparr>) of
        (VMI_FAILURE, vmi) \<Rightarrow> (VMI_FAILURE, st\<lparr> ls_vmi := vmi \<rparr>)
      | (VMI_SUCCESS, vmi) \<Rightarrow>
      (case vmi_pagetable_lookup (lx_env le) kpgd va vmi of
         (Some test, vmi) \<Rightarrow>
           if test = pa then (VMI_SUCCESS, st\<lparr> ls_vmi := vmi\<lparr> vi_kpgd := kpgd \<rparr> \<rparr>) else (VMI_FAILURE, st\<lparr> ls_vmi := vmi \<rparr>)
       | (None, vmi) \<Rightarrow> (VMI_FAILURE, st\<lparr> ls_vmi := vmi \<rparr>)))"

definition linux_filemode_32bit_init :: "'s linux_env \<Rightarrow> addr_t \<Rightarrow> addr_t \<Rightarrow> addr_t \<Rightarrow> addr_t \<Rightarrow> 's linux_state \<Rightarrow>
    status \<times> 's linux_state" where
  "linux_filemode_32bit_init le swapper_pg_dir boundary pa va st =
     (let kpgd = swapper_pg_dir - boundary in
      case try_page_mode le VMI_PM_LEGACY kpgd pa va st of
        (VMI_SUCCESS, st) \<Rightarrow> (VMI_SUCCESS, st)
      | (VMI_FAILURE, st) \<Rightarrow>
      (case try_page_mode le VMI_PM_PAE kpgd pa va st of
         (VMI_SUCCESS, st) \<Rightarrow> (VMI_SUCCESS, st)
       | (VMI_FAILURE, st) \<Rightarrow> try_page_mode le VMI_PM_AARCH32 kpgd pa va st))"

definition or_zero :: "addr_t option \<Rightarrow> addr_t" where
  "or_zero a = (case a of None \<Rightarrow> 0 | Some v \<Rightarrow> v)"

text \<open>The start of the kernel, physical and virtual, zero where the symbol is missing.\<close>

definition kernel_starts :: "'s linux_env \<Rightarrow> 's linux_state \<Rightarrow> addr_t \<times> addr_t" where
  "kernel_starts le st =
     (let s = (\<lambda>n. or_zero (symbol_address le (ls_li st) n)); pm = vi_page_mode (ls_vmi st);
          s64 = (s ''phys_startup_64'', s ''startup_64''); s32 = (s ''phys_startup_32'', s ''startup_32'') in
      if pm = VMI_PM_AARCH64 \<or> pm = VMI_PM_IA32E then s64
      else if pm = VMI_PM_AARCH32 \<or> pm = VMI_PM_LEGACY \<or> pm = VMI_PM_PAE then s32
      else if pm = VMI_PM_UNKNOWN then (if fst s64 \<noteq> 0 \<and> snd s64 \<noteq> 0 then s64 else s32)
      else (0, 0))"

text \<open>The guesses for the boundary between user and kernel addresses.\<close>

fun try_boundaries :: "'s linux_env \<Rightarrow> addr_t \<Rightarrow> addr_t list \<Rightarrow> 's linux_state \<Rightarrow> status \<times> 's linux_state" where
  "try_boundaries le swapper_pg_dir [] st = (VMI_FAILURE, st)"
| "try_boundaries le swapper_pg_dir (b # bs) st =
     (case linux_filemode_32bit_init le swapper_pg_dir b (swapper_pg_dir - b) swapper_pg_dir st of
        (VMI_SUCCESS, st) \<Rightarrow> (VMI_SUCCESS, st)
      | (VMI_FAILURE, st) \<Rightarrow> try_boundaries le swapper_pg_dir bs st)"

definition linux_filemode_init :: "'s linux_env \<Rightarrow> 's linux_state \<Rightarrow> (status \<times> 's linux_state) option" where
  "linux_filemode_init le st =
     (let (phys_start, vs) = kernel_starts le st;
          virt_start = canonical_addr vs;
          boundary = (if phys_start \<noteq> 0 \<and> virt_start \<noteq> 0 \<and> phys_start < virt_start then virt_start - phys_start else 0);
          sym = symbol_address le (ls_li st) in
      case sym ''swapper_pg_dir'' of
        Some a \<Rightarrow>
          let swapper_pg_dir = canonical_addr a;
              (rc, st) = (if boundary \<noteq> 0 then linux_filemode_32bit_init le swapper_pg_dir boundary phys_start virt_start st
                          else (VMI_FAILURE, st)) in
          if rc = VMI_SUCCESS then Some (VMI_SUCCESS, st)
          else Some (try_boundaries le swapper_pg_dir [0xC0000000, 0x80000000, 0x40000000] st)
      | None \<Rightarrow>
      (case (case sym ''init_level4_pgt'' of None \<Rightarrow> sym ''init_top_pgt'' | Some a \<Rightarrow> Some a) of
         None \<Rightarrow> Some (VMI_FAILURE, st)
       | Some a \<Rightarrow>
           let kernel_pgt = canonical_addr a in
           if boundary = 0 then Some (VMI_FAILURE, st)
           else case arch_init (lx_env le) ((ls_vmi st)\<lparr> vi_page_mode := VMI_PM_IA32E \<rparr>) of
             (VMI_FAILURE, vmi) \<Rightarrow> Some (VMI_FAILURE, st\<lparr> ls_vmi := vmi \<rparr>)
           | (VMI_SUCCESS, vmi) \<Rightarrow>
           let (test, vmi) = vmi_pagetable_lookup (lx_env le) (kernel_pgt - boundary) virt_start vmi;
               st = st\<lparr> ls_vmi := vmi \<rparr> in
           (case test of
              None \<Rightarrow> brute_force_find_kern_mem le st
            | Some t \<Rightarrow>
                if t \<noteq> phys_start then Some (VMI_SUCCESS, st)
                else case verify_linux_paging le (set_kpgd (kernel_pgt - boundary) st) of
                  None \<Rightarrow> None
                | Some (VMI_SUCCESS, st) \<Rightarrow> Some (VMI_SUCCESS, st)
                | Some (VMI_FAILURE, st) \<Rightarrow> brute_force_find_kern_mem le st)))"

section \<open>Profile and configuration\<close>

definition json_field :: "'s linux_env \<Rightarrow> string \<Rightarrow> string option \<Rightarrow> ('s linux_state \<Rightarrow> addr_t) \<Rightarrow>
    (addr_t \<Rightarrow> 's linux_state \<Rightarrow> 's linux_state) \<Rightarrow> status \<times> 's linux_state \<Rightarrow> status \<times> 's linux_state" where
  "json_field le symbol member field put s =
     (case s of (ret, st) \<Rightarrow>
      if ret = VMI_FAILURE \<or> field st \<noteq> 0 then (ret, st)
      else case json_profile_lookup le symbol member of
        None \<Rightarrow> (VMI_FAILURE, st)
      | Some a \<Rightarrow> (VMI_SUCCESS, put a st))"

definition init_from_json_profile :: "'s linux_env \<Rightarrow> 's linux_state \<Rightarrow> status \<times> 's linux_state" where
  "init_from_json_profile le st =
     (json_field le ''init_task'' None ls_init_task (\<lambda>a st. st\<lparr> ls_init_task := a \<rparr>)
     (json_field le ''mm_struct'' (Some ''pgd'') (li_pgd_offset \<circ> ls_li) (\<lambda>a. upd_li (\<lambda>li. li\<lparr> li_pgd_offset := a \<rparr>))
     (json_field le ''task_struct'' (Some ''comm'') (li_name_offset \<circ> ls_li) (\<lambda>a. upd_li (\<lambda>li. li\<lparr> li_name_offset := a \<rparr>))
     (json_field le ''task_struct'' (Some ''pid'') (li_pid_offset \<circ> ls_li) (\<lambda>a. upd_li (\<lambda>li. li\<lparr> li_pid_offset := a \<rparr>))
     (json_field le ''task_struct'' (Some ''mm'') (li_mm_offset \<circ> ls_li) (\<lambda>a. upd_li (\<lambda>li. li\<lparr> li_mm_offset := a \<rparr>))
     (json_field le ''task_struct'' (Some ''tasks'') (li_tasks_offset \<circ> ls_li) (\<lambda>a. upd_li (\<lambda>li. li\<lparr> li_tasks_offset := a \<rparr>))
       (VMI_SUCCESS, st)))))))"

datatype config_value = Text string | Number addr_t

fun as_number :: "config_value \<Rightarrow> addr_t" where
  "as_number (Number a) = a"
| "as_number (Text t) = 0"

fun as_text :: "config_value \<Rightarrow> string" where
  "as_text (Text t) = t"
| "as_text (Number a) = []"

definition linux_read_config_ghashtable_entries :: "string \<times> config_value \<Rightarrow> 's linux_state \<Rightarrow> 's linux_state" where
  "linux_read_config_ghashtable_entries e st =
     (case e of (key, v) \<Rightarrow>
      if key = ''sysmap'' then upd_li (\<lambda>li. li\<lparr> li_sysmap := Some (as_text v) \<rparr>) st
      else if key = ''linux_tasks'' then upd_li (\<lambda>li. li\<lparr> li_tasks_offset := as_number v \<rparr>) st
      else if key = ''linux_mm'' then upd_li (\<lambda>li. li\<lparr> li_mm_offset := as_number v \<rparr>) st
      else if key = ''linux_pid'' then upd_li (\<lambda>li. li\<lparr> li_pid_offset := as_number v \<rparr>) st
      else if key = ''linux_name'' then upd_li (\<lambda>li. li\<lparr> li_name_offset := as_number v \<rparr>) st
      else if key = ''linux_pgd'' then upd_li (\<lambda>li. li\<lparr> li_pgd_offset := as_number v \<rparr>) st
      else if key = ''linux_init_task'' then st\<lparr> ls_init_task := as_number v \<rparr>
      else if key = ''linux_kaslr'' then upd_li (\<lambda>li. li\<lparr> li_kaslr_offset := as_number v \<rparr>) st
      else if key = ''kpgd'' then set_kpgd (as_number v) st
      else st)"

section \<open>Set-up\<close>

definition linux_zero :: linux_instance where
  "linux_zero = \<lparr> li_sysmap = None, li_tasks_offset = 0, li_mm_offset = 0, li_pid_offset = 0, li_pgd_offset = 0,
     li_name_offset = 0, li_kaslr_offset = 0, li_init_task_fixed = 0 \<rparr>"

text \<open>The kernel's page table from CR3 of the first virtual CPU, without the process-context and
  isolation bits.\<close>

definition kpgd_from_cr3 :: "'s linux_env \<Rightarrow> 's linux_state \<Rightarrow> status \<times> 's linux_state" where
  "kpgd_from_cr3 le st =
     (if vi_kpgd (ls_vmi st) \<noteq> 0 then (VMI_SUCCESS, st)
      else case driver_get_vcpureg (lx_env le) CR3 0 (ls_vmi st) of
        (None, vmi) \<Rightarrow> (VMI_FAILURE, st\<lparr> ls_vmi := vmi \<rparr>)
      | (Some v, vmi) \<Rightarrow> (VMI_SUCCESS, st\<lparr> ls_vmi := vmi\<lparr> vi_kpgd := v AND NOT 0x1fff \<rparr> \<rparr>))"

definition find_kaslr :: "'s linux_env \<Rightarrow> 's linux_state \<Rightarrow> (status \<times> 's linux_state) option" where
  "find_kaslr le st =
     (if li_kaslr_offset (ls_li st) \<noteq> 0 then Some (VMI_SUCCESS, st)
      else case init_kaslr le st of
        None \<Rightarrow> None
      | Some (VMI_SUCCESS, st) \<Rightarrow> Some (VMI_SUCCESS, st)
      | Some (VMI_FAILURE, st) \<Rightarrow> init_kaslr le (set_kpgd (vi_kpgd (ls_vmi st) OR 0x1000) st))"

definition linux_setup :: "'s linux_env \<Rightarrow> (string \<times> config_value) list \<Rightarrow> addr_t \<Rightarrow> 's vmi_instance \<Rightarrow>
    (status \<times> 's linux_state) option" where
  "linux_setup le config init_task vmi =
     (let st = fold linux_read_config_ghashtable_entries config \<lparr> ls_vmi = vmi, ls_init_task = init_task, ls_li = linux_zero \<rparr>;
          (rc, st) = init_from_json_profile le st;
          (rc, st) = (if rc = VMI_FAILURE \<and> ls_init_task st = 0
                      then (case symbol_address le (ls_li st) ''init_task'' of
                              None \<Rightarrow> (VMI_FAILURE, st) | Some a \<Rightarrow> (VMI_SUCCESS, st\<lparr> ls_init_task := a \<rparr>))
                      else (VMI_SUCCESS, st)) in
      if rc = VMI_FAILURE then Some (VMI_FAILURE, st)
      else
        let it = canonical_addr (ls_init_task st);
            st = upd_li (\<lambda>li. li\<lparr> li_init_task_fixed := it \<rparr>) (st\<lparr> ls_init_task := it \<rparr>);
            (rc, st) = kpgd_from_cr3 le st in
        case (if rc = VMI_FAILURE then linux_filemode_init le st else Some (VMI_SUCCESS, st)) of
          None \<Rightarrow> None
        | Some (VMI_FAILURE, st) \<Rightarrow> Some (VMI_FAILURE, st)
        | Some (VMI_SUCCESS, st) \<Rightarrow> find_kaslr le st)"

text \<open>The result: status, \<^verbatim>\<open>os_data\<close>, the address of the first task, and the instance.  A failure goes through
  \<^verbatim>\<open>linux_teardown\<close>.\<close>

definition linux_teardown :: "linux_instance option \<Rightarrow> 's vmi_instance \<Rightarrow> linux_instance option \<times> 's vmi_instance" where
  "linux_teardown os_data vmi = (case os_data of None \<Rightarrow> (None, vmi) | Some li \<Rightarrow> (None, vmi\<lparr> vi_kpgd := 0 \<rparr>))"

definition linux_init :: "'s linux_env \<Rightarrow> (string \<times> config_value) list option \<Rightarrow> linux_instance option \<Rightarrow> addr_t \<Rightarrow>
    's vmi_instance \<Rightarrow> (status \<times> linux_instance option \<times> addr_t \<times> 's vmi_instance) option" where
  "linux_init le config os_data init_task vmi =
     (case config of
        None \<Rightarrow> Some (VMI_FAILURE, os_data, init_task, vmi)
      | Some c \<Rightarrow>
      (case linux_setup le c init_task vmi of
         None \<Rightarrow> None
       | Some (VMI_SUCCESS, st) \<Rightarrow> Some (VMI_SUCCESS, Some (ls_li st), ls_init_task st, ls_vmi st)
       | Some (VMI_FAILURE, st) \<Rightarrow>
           let (d, vmi) = linux_teardown (Some (ls_li st)) (ls_vmi st) in Some (VMI_FAILURE, d, ls_init_task st, vmi)))"

text \<open>Without \<^verbatim>\<open>os_data\<close> the function returns 0, which is \<^verbatim>\<open>VMI_SUCCESS\<close>, and stores nothing.\<close>

definition linux_get_offset :: "linux_instance option \<Rightarrow> addr_t \<Rightarrow> 's vmi_instance \<Rightarrow> string \<Rightarrow> addr_t \<Rightarrow> status \<times> addr_t" where
  "linux_get_offset os_data init_task vmi offset_name offset =
     (case os_data of
        None \<Rightarrow> (VMI_SUCCESS, offset)
      | Some li \<Rightarrow>
          if offset_name = ''linux_tasks'' then (VMI_SUCCESS, li_tasks_offset li)
          else if offset_name = ''linux_mm'' then (VMI_SUCCESS, li_mm_offset li)
          else if offset_name = ''linux_pid'' then (VMI_SUCCESS, li_pid_offset li)
          else if offset_name = ''linux_name'' then (VMI_SUCCESS, li_name_offset li)
          else if offset_name = ''linux_pgd'' then (VMI_SUCCESS, li_pgd_offset li)
          else if offset_name = ''linux_kaslr'' then (VMI_SUCCESS, li_kaslr_offset li)
          else if offset_name = ''linux_init_task'' then (VMI_SUCCESS, init_task)
          else if offset_name = ''kpgd'' then (VMI_SUCCESS, vi_kpgd vmi)
          else (VMI_FAILURE, offset))"


section \<open>On a Xen guest\<close>

text \<open>A read through a given page table.\<close>

definition dtb_ctx :: "addr_t \<Rightarrow> addr_t \<Rightarrow> access_context" where
  "dtb_ctx pt a = ACCESS_CONTEXT\<lparr> ac_tm := VMI_TM_PROCESS_DTB, ac_pt := pt, ac_addr := a \<rparr>"

lemma dtb_ctx_simps [simp]:
  "ac_tm (dtb_ctx pt a) = VMI_TM_PROCESS_DTB" "ac_npt (dtb_ctx pt a) = 0" "ac_npm (dtb_ctx pt a) = 0"
  "ac_pm (dtb_ctx pt a) = 0" "ac_addr (dtb_ctx pt a) = a" "ac_pt (dtb_ctx pt a) = pt"
  by (simp_all add: dtb_ctx_def ACCESS_CONTEXT_def)

lemma kernel_read_dtb:
  assumes "kernel_ready xcr (xen_cfg vt mm maxp) tp kpgd hv vmi"
  obtains v where "vmi_read_32 (vmi_read (stack_env xcr xcw (xen_cfg vt mm maxp) now sp os junk vr)) (dtb_ctx kpgd a) vmi =
      (word32_at (kernel_byte xcr (xen_cfg vt mm maxp) tp kpgd hv) a, v)"
    and "kernel_ready xcr (xen_cfg vt mm maxp) tp kpgd hv v"
proof -
  let ?env = "stack_env xcr xcw (xen_cfg vt mm maxp) now sp os junk vr" and ?look = "vmi_nested_pagetable_lookup"
  let ?bs = "spec_read (kernel_byte xcr (xen_cfg vt mm maxp) tp kpgd hv) a 4"
  have k: "kpgd \<noteq> 0" and rdy: "stack_ready xcr (xen_cfg vt mm maxp) tp kpgd hv vmi"
    using assms by (simp_all add: kernel_ready_def)
  have g: "stackg.good xcr vt mm maxp hv tp vmi" and kp: "vi_kpgd vmi = kpgd"
    using rdy by (simp_all add: stack_ready_good)
  have tgt: "read_target ?env (dtb_ctx kpgd a) vmi = (Some (kpgd, VMI_PM_IA32E, a), vmi)"
    using rdy k by (simp add: read_target_def stack_env_def stack_ready_def valid_pm_def)
  have pn: "stackg.plain_or_nested (dtb_ctx kpgd a)" by (simp add: stackg.plain_or_nested_def)
  note c = stackg.virtual_computes [OF pn, where xcr = xcr and vt = vt and mm = mm and maxp = maxp and now = now
      and hv = hv and xcw = xcw and sp = sp and os = os and junk = junk and vr = vr and tp = tp and pt = kpgd]
  obtain v where v: "stackg.good xcr vt mm maxp hv tp v" "vmi_read ?env (dtb_ctx kpgd a) 4 vmi = (read_status 4 ?bs, ?bs, v)"
    using stackg.read_by [OF tgt g c, of 4] by (auto simp: vmi_read_def kernel_byte_def)
  have "read_loop ?env (access_paddr (?look ?env) (dtb_ctx kpgd a) kpgd VMI_PM_IA32E) a 4 4 0 vmi = (read_status 4 ?bs, ?bs, v)"
    using v(2) tgt by (simp add: vmi_read_def vmi_read_with_def)
  moreover have "access_paddr (?look ?env) (dtb_ctx kpgd a) kpgd VMI_PM_IA32E b u = (p, w) \<Longrightarrow> same_kpgd u w" for b u p w
    by (rule access_kpgd [of "dtb_ctx kpgd a" ?env kpgd b u p]) simp_all
  ultimately have "same_kpgd vmi v" by (rule read_loop_kpgd [rotated])
  then have "kernel_ready xcr (xen_cfg vt mm maxp) tp kpgd hv v"
    using v(1) k kp by (simp add: kernel_ready_def stack_ready_good same_kpgd_def)
  moreover have "vmi_read_32 (vmi_read ?env) (dtb_ctx kpgd a) vmi =
      (word32_at (kernel_byte xcr (xen_cfg vt mm maxp) tp kpgd hv) a, v)"
    using v(2) by (simp add: vmi_read_32_def word32_at_def read_status_def)
  ultimately show thesis using that by blast
qed

text \<open>Where the kernel's text starts, of the addresses that the search tries.\<close>

definition text_offset :: "(addr_t \<Rightarrow> addr_t option) \<Rightarrow> addr_t list \<Rightarrow> addr_t option" where
  "text_offset phys vas = map_option (\<lambda>va. va - kernel_text_start) (find (\<lambda>va. phys va \<noteq> None) vas)"

lemma kaslr_loop_finds:
  assumes "lx_env le = stack_env xcr xcw (xen_cfg vt mm maxp) now sp os junk vr"
    and "kernel_ready xcr (xen_cfg vt mm maxp) tp kpgd hv (ls_vmi st)"
    and "text_offset (\<lambda>a. guest_tr (xen_page xcr (xen_cfg vt mm maxp) hv) tp (a, kpgd, 0)) vas = Some k"
  shows "\<exists>v. kaslr_loop le vas st =
    (VMI_SUCCESS, \<lparr> ls_vmi = v, ls_init_task = ls_init_task st + k, ls_li = (ls_li st)\<lparr> li_kaslr_offset := k \<rparr> \<rparr>)"
  using assms(2,3)
proof (induction vas arbitrary: st)
  case Nil
  then show ?case by (simp add: text_offset_def)
next
  case (Cons va vas)
  let ?tr = "\<lambda>a. guest_tr (xen_page xcr (xen_cfg vt mm maxp) hv) tp (a, kpgd, 0)"
  obtain v where v: "kv2p_out (lx_env le) va 0 (ls_vmi st) =
      (case ?tr va of None \<Rightarrow> (VMI_FAILURE, 0, v) | Some pa \<Rightarrow> (VMI_SUCCESS, pa, v))"
    and r: "kernel_ready xcr (xen_cfg vt mm maxp) tp kpgd hv v"
    unfolding assms(1) by (rule kernel_kv2p [OF Cons.prems(1)])
  then have t: "vmi_translate_kv2p (lx_env le) va (ls_vmi st) = (?tr va, v)"
    by (cases "vmi_translate_kv2p (lx_env le) va (ls_vmi st)") (auto simp: kv2p_out_def split: option.splits)
  show ?case
  proof (cases "?tr va")
    case None
    then show ?thesis using Cons.IH [of "st\<lparr> ls_vmi := v \<rparr>"] Cons.prems(2) r t by (simp add: text_offset_def)
  next
    case (Some pa)
    then show ?thesis using Cons.prems(2) t by (cases st) (auto simp: text_offset_def Let_def)
  qed
qed

lemma kpgd_from_cr3_other:
  assumes "kpgd_from_cr3 le st = (rc, st')"
  shows "kpgd_from_cr3 le \<lparr> ls_vmi = ls_vmi st, ls_init_task = a, ls_li = li \<rparr> =
    (rc, \<lparr> ls_vmi = ls_vmi st', ls_init_task = a, ls_li = li \<rparr>)"
  using assms by (auto simp: kpgd_from_cr3_def split: if_splits prod.splits option.splits)

lemma symbol_address_fixed:
  "symbol_address le (li\<lparr> li_init_task_fixed := b \<rparr>) t = symbol_address le li t"
  by (simp add: symbol_address_def linux_symbol_to_address_def linux_system_map_symbol_to_address_def split: option.split)

lemma init_kaslr_finds:
  assumes env: "lx_env le = stack_env xcr xcw (xen_cfg vt mm maxp) now sp os junk vr"
    and rdy: "kernel_ready xcr (xen_cfg vt mm maxp) tp kpgd hv (ls_vmi st)"
    and task: "ls_init_task st = li_init_task_fixed (ls_li st)"
      "symbol_address le (ls_li st) ''init_task'' = Some (ls_init_task st)"
    and k: "(if word32_at (kernel_byte xcr (xen_cfg vt mm maxp) tp kpgd hv) (ls_init_task st) \<noteq> None then Some 0
      else text_offset (\<lambda>a. guest_tr (xen_page xcr (xen_cfg vt mm maxp) hv) tp (a, kpgd, 0)) text_candidates) = Some k"
  shows "\<exists>v. init_kaslr le st =
    Some (VMI_SUCCESS, \<lparr> ls_vmi = v, ls_init_task = ls_init_task st + k, ls_li = (ls_li st)\<lparr> li_kaslr_offset := k \<rparr> \<rparr>)"
proof -
  let ?w = "word32_at (kernel_byte xcr (xen_cfg vt mm maxp) tp kpgd hv) (ls_init_task st)"
  have kp: "vi_kpgd (ls_vmi st) = kpgd" using rdy by (simp add: kernel_ready_def stack_ready_def)
  obtain v where rd: "vmi_read_32 (vmi_read (lx_env le)) (dtb_ctx kpgd (ls_init_task st)) (ls_vmi st) = (?w, v)"
    and v: "kernel_ready xcr (xen_cfg vt mm maxp) tp kpgd hv v"
    unfolding env by (rule kernel_read_dtb [OF rdy])
  show ?thesis
  proof (cases ?w)
    case (Some w)
    then show ?thesis using rd k task(2) kp by (cases st) (auto simp: init_kaslr_def dtb_ctx_def [symmetric] Let_def)
  next
    case None
    have pm: "vi_page_mode v = VMI_PM_IA32E" using v by (simp add: kernel_ready_def stack_ready_def)
    let ?s = "st\<lparr> ls_vmi := v, ls_init_task := li_init_task_fixed (ls_li st) \<rparr>"
    have "text_offset (\<lambda>a. guest_tr (xen_page xcr (xen_cfg vt mm maxp) hv) tp (a, kpgd, 0)) text_candidates = Some k"
      using k None by simp
    then obtain v' where "kaslr_loop le text_candidates ?s = (VMI_SUCCESS,
        \<lparr> ls_vmi = v', ls_init_task = ls_init_task ?s + k, ls_li = (ls_li ?s)\<lparr> li_kaslr_offset := k \<rparr> \<rparr>)"
      using kaslr_loop_finds [OF env, of tp kpgd hv ?s text_candidates k] v by auto
    then have "get_kaslr_offset_ia32e le (st\<lparr> ls_vmi := v \<rparr>) = (VMI_SUCCESS,
        \<lparr> ls_vmi = v', ls_init_task = ls_init_task st + k, ls_li = (ls_li st)\<lparr> li_kaslr_offset := k \<rparr> \<rparr>)"
      by (simp add: get_kaslr_offset_ia32e_def task(1))
    then show ?thesis using rd None pm kp by (simp add: init_kaslr_def dtb_ctx_def [symmetric] Let_def)
  qed
qed

section \<open>Helper facts\<close>

lemma symbol_address_moved:
  "symbol_address le (li\<lparr> li_kaslr_offset := k \<rparr>) s =
     map_option (\<lambda>a. a + k) (symbol_address le (li\<lparr> li_kaslr_offset := 0 \<rparr>) s)"
  by (simp add: symbol_address_def linux_symbol_to_address_def linux_system_map_symbol_to_address_def option.map_comp comp_def
      split: option.split)

lemma kaslr_zero [simp]: "li_kaslr_offset li = 0 \<Longrightarrow> li\<lparr> li_kaslr_offset := 0 \<rparr> = li"
  by simp

lemma symbol_moved:
  assumes "symbol_address le li s = Some a" and "li_kaslr_offset li = 0"
  shows "symbol_address le (li\<lparr> li_kaslr_offset := k \<rparr>) s = Some (a + k)"
  using symbol_address_moved [where le = le and li = li and k = k and s = s] assms by simp

lemma kaslr_test_frame:
  "init_task_kaslr_test le pv st = Some (rc, st') \<Longrightarrow> \<exists>vmi. st' = st\<lparr> ls_vmi := vmi \<rparr>"
  unfolding init_task_kaslr_test_def Let_def by (auto split: prod.splits option.splits if_splits)

lemma kaslr_loop_outcome:
  assumes "kaslr_loop le vas st = (rc, st')"
  shows "if rc = VMI_SUCCESS
    then \<exists>k. ls_li st' = (ls_li st)\<lparr> li_kaslr_offset := k \<rparr> \<and> ls_init_task st' = ls_init_task st + k
    else ls_li st' = ls_li st"
  using assms
proof (induction vas arbitrary: st)
  case (Cons va vas)
  then show ?case by (fastforce simp: Let_def split: prod.splits option.splits)
qed auto

lemma kaslr_pages_outcome:
  assumes "kaslr_pages le pages VMI_FAILURE st = Some (rc, st')"
  shows "if rc = VMI_SUCCESS
    then \<exists>k. ls_li st' = (ls_li st)\<lparr> li_kaslr_offset := k \<rparr> \<and> ls_init_task st' = li_init_task_fixed (ls_li st) + k
    else ls_li st' = ls_li st"
  using assms
proof (induction pages arbitrary: st)
  case (Cons info pages)
  show ?case
  proof (cases "li_kaslr_offset (ls_li st) \<noteq> 0")
    case True
    then show ?thesis using Cons by simp
  next
    case False
    let ?t = "if (vi_page_mode (ls_vmi st) = VMI_PM_AARCH64 \<or> vi_page_mode (ls_vmi st) = VMI_PM_IA32E) \<and> \<not> VMI_GET_BIT (pi_vaddr info) 47
      then Some (VMI_FAILURE, st) else init_task_kaslr_test le (pi_vaddr info) st"
    obtain r u where t: "?t = Some (r, u)"
      using Cons.prems False by (cases ?t) (auto simp: Let_def)
    have u: "ls_li u = ls_li st"
      using t kaslr_test_frame [of le "pi_vaddr info" st r u] by (auto split: if_splits)
    show ?thesis
    proof (cases r)
      case VMI_SUCCESS
      then show ?thesis using Cons.prems False t u by (auto simp: Let_def)
    next
      case VMI_FAILURE
      then have "kaslr_pages le pages VMI_FAILURE u = Some (rc, st')"
        using Cons.prems False t by (simp add: Let_def)
      from Cons.IH [OF this] show ?thesis unfolding u .
    qed
  qed
qed auto

text \<open>What a search for the offset does to the data, when no offset was known before.\<close>

lemma init_kaslr_outcome:
  assumes "init_kaslr le st = Some (rc, st')" and "li_kaslr_offset (ls_li st) = 0"
    and "symbol_address le (ls_li st) ''init_task'' = Some (li_init_task_fixed (ls_li st))"
  shows "if rc = VMI_SUCCESS then symbol_address le (ls_li st') ''init_task'' = Some (ls_init_task st')
    else ls_li st' = ls_li st"
proof -
  let ?ctx = "ACCESS_CONTEXT\<lparr> ac_tm := VMI_TM_PROCESS_DTB, ac_pt := vi_kpgd (ls_vmi st), ac_addr := ls_init_task st \<rparr>"
  obtain r v where rd: "vmi_read_32 (vmi_read (lx_env le)) ?ctx (ls_vmi st) = (r, v)" by fastforce
  note mv = symbol_moved [OF assms(3,2)]
  show ?thesis
  proof (cases r)
    case (Some w)
    then show ?thesis using assms rd mv by (auto simp: init_kaslr_def Let_def)
  next
    case None
    let ?s = "st\<lparr> ls_vmi := v \<rparr>"
    let ?g = "if vi_page_mode v = VMI_PM_IA32E then get_kaslr_offset_ia32e le ?s else (VMI_FAILURE, ?s)"
    obtain r1 s1 where g: "?g = (r1, s1)" by fastforce
    have l: "if r1 = VMI_SUCCESS
      then \<exists>k. ls_li s1 = (ls_li st)\<lparr> li_kaslr_offset := k \<rparr> \<and> ls_init_task s1 = li_init_task_fixed (ls_li st) + k
      else ls_li s1 = ls_li st"
      using g kaslr_loop_outcome [of le text_candidates "?s\<lparr> ls_init_task := li_init_task_fixed (ls_li ?s) \<rparr>" r1 s1]
      by (auto simp: get_kaslr_offset_ia32e_def split: if_splits)
    show ?thesis
    proof (cases r1)
      case VMI_SUCCESS
      then show ?thesis using assms(1) rd None g l mv by (auto simp: init_kaslr_def Let_def)
    next
      case VMI_FAILURE
      obtain ps v2 where p: "vmi_get_va_pages (lx_env le) (vi_kpgd (ls_vmi s1)) (ls_vmi s1) = (ps, v2)" by fastforce
      have "kaslr_pages le ps VMI_FAILURE (s1\<lparr> ls_vmi := v2 \<rparr>) = Some (rc, st')"
        using assms(1) rd None g VMI_FAILURE p by (simp add: init_kaslr_def Let_def)
      from kaslr_pages_outcome [OF this] show ?thesis using l VMI_FAILURE mv by (auto split: if_splits)
    qed
  qed
qed

lemma init_from_json_none:
  assumes "lx_json le = None" and "ls_init_task st = 0"
  shows "init_from_json_profile le st = (VMI_FAILURE, st)"
  using assms by (simp add: init_from_json_profile_def json_field_def json_profile_lookup_def)

lemma kpgd_from_cr3_frame:
  assumes "kpgd_from_cr3 le st = (rc, st')"
  shows "ls_li st' = ls_li st" "ls_init_task st' = ls_init_task st"
  using assms by (auto simp: kpgd_from_cr3_def split: if_splits prod.splits option.splits)

lemma kpgd_from_cr3_live:
  assumes "kpgd_from_cr3 le st = (rc, st')" 
    and "vi_kpgd (ls_vmi st) \<noteq> 0 \<or> (\<forall>v. fst (driver_get_vcpureg (lx_env le) CR3 0 v) \<noteq> None)"
  shows "rc = VMI_SUCCESS"
proof (cases "driver_get_vcpureg (lx_env le) CR3 0 (ls_vmi st)")
  case (Pair x v)
  then have "vi_kpgd (ls_vmi st) \<noteq> 0 \<or> x \<noteq> None" using assms(2) by (metis fst_conv)
  then show ?thesis using assms(1) Pair by (auto simp: kpgd_from_cr3_def split: if_splits)
qed

lemma find_kaslr_outcome:
  assumes "find_kaslr le st = Some (VMI_SUCCESS, st')" and "li_kaslr_offset (ls_li st) = 0"
    and "symbol_address le (ls_li st) ''init_task'' = Some (li_init_task_fixed (ls_li st))"
  shows "symbol_address le (ls_li st') ''init_task'' = Some (ls_init_task st')"
proof -
  obtain r s1 where k: "init_kaslr le st = Some (r, s1)" using assms(1,2) by (cases "init_kaslr le st") (auto simp: find_kaslr_def)
  note o = init_kaslr_outcome [OF k assms(2,3)]
  show ?thesis
  proof (cases r)
    case VMI_SUCCESS
    then show ?thesis using o assms(1,2) k by (simp add: find_kaslr_def)
  next
    case VMI_FAILURE
    let ?t = "set_kpgd (vi_kpgd (ls_vmi s1) OR 0x1000) s1"
    have "init_kaslr le ?t = Some (VMI_SUCCESS, st')" using assms(1,2) k VMI_FAILURE by (simp add: find_kaslr_def)
    from init_kaslr_outcome [OF this] show ?thesis using o VMI_FAILURE assms(2,3) by simp
  qed
qed

lemma linux_setup_finds:
  assumes "lx_env le = stack_env xcr xcw (xen_cfg vt mm maxp) now sp os junk vr" and "lx_json le = None"
    and "st0 = fold linux_read_config_ghashtable_entries config \<lparr> ls_vmi = vmi, ls_init_task = 0, ls_li = linux_zero \<rparr>"
    and "ls_init_task st0 = 0" and "li_kaslr_offset (ls_li st0) = 0"
    and "kpgd_from_cr3 le st0 = (VMI_SUCCESS, u)" and "kernel_ready xcr (xen_cfg vt mm maxp) tp kpgd hv (ls_vmi u)"
    and "symbol_address le (ls_li st0) ''init_task'' = Some a" and "canonical_addr a = a"
    and "(if word32_at (kernel_byte xcr (xen_cfg vt mm maxp) tp kpgd hv) a \<noteq> None then Some 0
      else text_offset (\<lambda>a. guest_tr (xen_page xcr (xen_cfg vt mm maxp) hv) tp (a, kpgd, 0)) text_candidates) = Some k"
  shows "\<exists>v. linux_setup le config 0 vmi =
    Some (VMI_SUCCESS, \<lparr> ls_vmi = v, ls_init_task = a + k, ls_li = (ls_li st0)\<lparr> li_init_task_fixed := a, li_kaslr_offset := k \<rparr> \<rparr>)"
proof -
  let ?li = "(ls_li st0)\<lparr> li_init_task_fixed := a \<rparr>"
  let ?s = "\<lparr> ls_vmi = ls_vmi u, ls_init_task = a, ls_li = ?li \<rparr>"
  have eq: "st0\<lparr> ls_init_task := a, ls_li := ?li \<rparr> =
      \<lparr> ls_vmi = ls_vmi st0, ls_init_task = a, ls_li = ?li \<rparr>"
    by (cases st0) simp
  have s: "linux_setup le config 0 vmi = find_kaslr le ?s"
    by (simp add: linux_setup_def assms(3) [symmetric] Let_def init_from_json_none [OF assms(2,4)] assms(4,8,9) eq
        kpgd_from_cr3_other [OF assms(6)])
  obtain v where "init_kaslr le ?s =
      Some (VMI_SUCCESS, \<lparr> ls_vmi = v, ls_init_task = a + k, ls_li = ?li\<lparr> li_kaslr_offset := k \<rparr> \<rparr>)"
    using init_kaslr_finds [OF assms(1), of tp kpgd hv ?s k] assms(7,8,10) by (auto simp: symbol_address_fixed)
  then show ?thesis by (simp add: s find_kaslr_def assms(5))
qed

section \<open>A concrete guest\<close>

text \<open>A guest with its first task at the address of its symbol.\<close>

definition map6 :: "map_line list" where
  "map6 = [(''ffffffff80010000'', CHR ''D'', ''init_task'')]"

definition le6 :: "xen_instance xen_events linux_env" where
  "le6 = \<lparr> lx_env = env4, lx_files = (\<lambda>p. if p = ''m'' then Some (map_text map6) else None), lx_json = None,
     lx_maxp = 0x100000000 \<rparr>"

abbreviation li6 :: linux_instance where
  "li6 \<equiv> linux_zero\<lparr> li_sysmap := Some ''m'', li_tasks_offset := 8, li_pid_offset := 24 \<rparr>"

abbreviation config6 :: "(string \<times> config_value) list" where
  "config6 \<equiv> [(''sysmap'', Text ''m''), (''linux_tasks'', Number 8), (''linux_pid'', Number 24)]"

lemma symbol6: "symbol_address le6 li6 ''init_task'' = Some idle4"
proof -
  have g: "\<forall>l \<in> set map6. good_line l" by (simp add: map6_def plain_text_def is_space_def)
  have "strtoull16 ''ffffffff80010000'' = 0xffffffff80010000"
    by (simp add: strtoull16_def is_space_def hex_digit_def Let_def)
  then show ?thesis
    using sysmap_lookup [OF g, where li = "li6" and path = "''m''" and files = "lx_files le6"
        and symbol = "''init_task''"]
    by (simp add: symbol_address_def linux_symbol_to_address_def le6_def linux_zero_def map6_def)
qed

abbreviation vmi6 :: "xen_instance xen_events vmi_instance" where
  "vmi6 \<equiv> vmi4 (words_hv words4)"

lemma start6:
  "fold linux_read_config_ghashtable_entries config6 \<lparr> ls_vmi = vmi6, ls_init_task = 0, ls_li = linux_zero \<rparr> =
     \<lparr> ls_vmi = vmi6, ls_init_task = 0, ls_li = li6 \<rparr>"
  by (simp add: linux_read_config_ghashtable_entries_def)

lemma ready6:
  "kpgd_from_cr3 le6 \<lparr> ls_vmi = vmi6, ls_init_task = 0, ls_li = li6 \<rparr> = (VMI_SUCCESS, \<lparr> ls_vmi = vmi6, ls_init_task = 0, ls_li = li6 \<rparr>)"
  "word32_at (byte4 words4) idle4 \<noteq> None" "canonical_addr idle4 = idle4"
  "lx_env le6 = stack_env xcr0 xcw0 xcfg0 0 0xffff os4 page_info_zero (\<lambda>g n x. (None, x))" "lx_json le6 = None"
  subgoal by (simp add: kpgd_from_cr3_def vmi4_def)
  subgoal by (subst kernel_word [OF tables4(1)]; simp add: drop_bit_eq_div take_bit_eq_mod)
  subgoal by (simp add: canonical_addr_def)
  by (simp_all add: le6_def env4_def)

section \<open>Properties\<close>

text \<open>C18. Setting Linux support up for a Xen guest in long mode whose page table is known: it returns, with
  success.  When the first task can be read at the address of its symbol the kernel was not moved; otherwise
  the kernel was moved to the first of the tried addresses that is mapped, and the first task with it.\<close>

theorem linux_init_finds_kernel:
  assumes "lx_env le = stack_env xcr xcw (xen_cfg vt mm maxp) now sp os junk vr" and "lx_json le = None"
    and "st0 = fold linux_read_config_ghashtable_entries config \<lparr> ls_vmi = vmi, ls_init_task = 0, ls_li = linux_zero \<rparr>"
    and "ls_init_task st0 = 0" and "li_kaslr_offset (ls_li st0) = 0"
    and "kpgd_from_cr3 le st0 = (VMI_SUCCESS, u)" and "kernel_ready xcr (xen_cfg vt mm maxp) tp kpgd hv (ls_vmi u)"
    and "symbol_address le (ls_li st0) ''init_task'' = Some a" and "canonical_addr a = a"
    and "(if word32_at (kernel_byte xcr (xen_cfg vt mm maxp) tp kpgd hv) a \<noteq> None then Some 0
      else text_offset (\<lambda>a. guest_tr (xen_page xcr (xen_cfg vt mm maxp) hv) tp (a, kpgd, 0)) text_candidates) = Some k"
  shows "\<exists>v. linux_init le (Some config) os_data 0 vmi =
    Some (VMI_SUCCESS, Some ((ls_li st0)\<lparr> li_init_task_fixed := a, li_kaslr_offset := k \<rparr>), a + k, v)"
  using linux_setup_finds [OF assms] by (auto simp: linux_init_def)

lemma linux_init_finds_kernel_witness:
  "\<exists>v. linux_init le6 (Some config6) None 0 vmi6 =
     Some (VMI_SUCCESS, Some (li6\<lparr> li_init_task_fixed := idle4, li_kaslr_offset := 0 \<rparr>), idle4, v)"
  using linux_init_finds_kernel [OF ready6(4,5) start6 [symmetric], where a = idle4 and k = 0 and os_data = None
      and hv = "words_hv words4" and kpgd = "0x1000" and tp = False] ready4 [of "words_hv words4"] symbol6 ready6
  by (simp add: linux_zero_def)



text \<open>The test for a page directory: a page passes exactly if no entry has the reserved bit or the
  execute-disable bit, every present entry has a frame that is neither zero nor beyond the memory, and
  there is a present entry.\<close>

theorem pd_scan_iff:
  "pd_scan maxframe pdes False \<longleftrightarrow>
     (\<exists>e \<in> set pdes. bit e 0) \<and>
     list_all (\<lambda>e. \<not> bit e 7 \<and> \<not> bit e 63 \<and> (if bit e 0 then drop_bit 12 e \<noteq> 0 \<and> drop_bit 12 e \<le> maxframe else True)) pdes"
proof -
  have "pd_scan maxframe pdes rc \<longleftrightarrow>
     (rc \<or> (\<exists>e \<in> set pdes. bit e 0)) \<and>
     list_all (\<lambda>e. \<not> bit e 7 \<and> \<not> bit e 63 \<and> (if bit e 0 then drop_bit 12 e \<noteq> 0 \<and> drop_bit 12 e \<le> maxframe else True)) pdes" for rc
    by (induction pdes arbitrary: rc) (auto simp: Let_def VMI_GET_BIT_iff not_le)
  then show ?thesis by simp
qed

end
