(* ===== verification/Str_Match.thy ===== *)
theory Str_Match
  imports Vmi_Prelude
begin

text \<open>
  \<^verbatim>\<open>strmatch.c\<close>: the search for a byte pattern with the Boyer-Moore algorithm.

  Patterns and texts are lists of bytes, their lengths \<^verbatim>\<open>m\<close> and \<^verbatim>\<open>n\<close> below \<^verbatim>\<open>INT_MAX\<close>, the pattern not empty;
  the tables are lists of numbers, the one indexed by bytes a function.  The loops that count
  down to \<open>-1\<close> count with the next number, so that zero is the end: \<open>g1\<close> is \<^verbatim>\<open>g + 1\<close>.
\<close>

section \<open>The tables\<close>

definition preBmBc :: "u8 list \<Rightarrow> u8 \<Rightarrow> nat" where
  "preBmBc x = fold (\<lambda>i bmBc. bmBc(x ! i := length x - i - 1)) [0 ..< length x - 1] (\<lambda>c. length x)"

text \<open>\<^verbatim>\<open>while (g >= 0 && x[g] == x[g + d]) --g\<close>\<close>

fun match_back :: "u8 list \<Rightarrow> nat \<Rightarrow> nat \<Rightarrow> nat" where
  "match_back x d 0 = 0"
| "match_back x d (Suc g) = (if x ! g = x ! (g + d) then match_back x d g else Suc g)"

definition suffix_step :: "u8 list \<Rightarrow> nat \<Rightarrow> nat list \<times> nat \<times> nat \<Rightarrow> nat list \<times> nat \<times> nat" where
  "suffix_step x i s =
     (case s of (suff, f, g1) \<Rightarrow>
      let m = length x in
      if g1 \<le> i \<and> suff ! (i + m - 1 - f) < i + 1 - g1
      then (suff[i := suff ! (i + m - 1 - f)], f, g1)
      else
        let g1 = (if Suc i < g1 then Suc i else g1);
            f = i;
            g1 = match_back x (m - 1 - f) g1
        in (suff[i := f + 1 - g1], f, g1))"

definition suffixes :: "u8 list \<Rightarrow> nat list \<Rightarrow> nat list" where
  "suffixes x suff =
     (let m = length x in fst (fold (suffix_step x) (rev [0 ..< m - 1]) (suff[m - 1 := m], 0, m)))"

text \<open>\<^verbatim>\<open>for (; j < k; ++j) if (bmGs[j] == m) bmGs[j] = k\<close>\<close>

definition fill_to :: "nat \<Rightarrow> nat \<Rightarrow> nat \<times> nat list \<Rightarrow> nat \<times> nat list" where
  "fill_to m k s =
     (case s of (j, bmGs) \<Rightarrow>
        (max j k, fold (\<lambda>j bmGs. if bmGs ! j = m then bmGs[j := k] else bmGs) [j ..< k] bmGs))"

definition preBmGs :: "u8 list \<Rightarrow> nat list \<Rightarrow> nat list" where
  "preBmGs x suff0 =
     (let m = length x;
          suff = suffixes x suff0;
          bmGs = replicate m m;
          bmGs = snd (fold (\<lambda>i s. if suff ! i = i + 1 then fill_to m (m - 1 - i) s else s) (rev [0 ..< m]) (0, bmGs))
      in fold (\<lambda>i bmGs. bmGs[m - 1 - suff ! i := m - 1 - i]) [0 ..< m - 1] bmGs)"

section \<open>The search\<close>

text \<open>\<^verbatim>\<open>for (i = m - 1; i >= 0 && x[i] == y[i + j]; --i)\<close>\<close>

fun scan :: "u8 list \<Rightarrow> u8 list \<Rightarrow> nat \<Rightarrow> nat \<Rightarrow> nat" where
  "scan x y j 0 = 0"
| "scan x y j (Suc i) = (if x ! i = y ! (i + j) then scan x y j i else Suc i)"

partial_function (option) bm_loop :: "u8 list \<Rightarrow> nat list \<Rightarrow> (u8 \<Rightarrow> nat) \<Rightarrow> u8 list \<Rightarrow> nat \<Rightarrow> int option" where
  "bm_loop x bmGs bmBc y j =
     (if j + length x \<le> length y then
        (case scan x y j (length x) of
           0 \<Rightarrow> Some (int j)
         | Suc i \<Rightarrow>
             bm_loop x bmGs bmBc y
               (nat (int j + max (int (bmGs ! i)) (int (bmBc (y ! (i + j))) - int (length x) + 1 + int i))))
      else Some (- 1))"

text \<open>\<open>suff0\<close> is what the memory the table of suffixes is allocated in happens to contain.\<close>

definition boyer_moore :: "nat list \<Rightarrow> u8 list \<Rightarrow> u8 list \<Rightarrow> int option" where
  "boyer_moore suff0 x y = bm_loop x (preBmGs x suff0) (preBmBc x) y 0"

record boyer_moore_data =
  bm_x :: "u8 list"
  bm_bmBc :: "u8 \<Rightarrow> nat"
  bm_bmGs :: "nat list"

definition boyer_moore_init :: "nat list \<Rightarrow> u8 list \<Rightarrow> boyer_moore_data" where
  "boyer_moore_init suff0 x = \<lparr> bm_x = x, bm_bmBc = preBmBc x, bm_bmGs = preBmGs x suff0 \<rparr>"

definition boyer_moore2 :: "boyer_moore_data \<Rightarrow> u8 list \<Rightarrow> int option" where
  "boyer_moore2 bm y = bm_loop (bm_x bm) (bm_bmGs bm) (bm_bmBc bm) y 0"

section \<open>Suffixes of the pattern\<close>

text \<open>The length of the longest common suffix of the pattern and its part up to \<open>i\<close>.\<close>

definition csuf :: "u8 list \<Rightarrow> nat \<Rightarrow> nat" where
  "csuf x i = i + 1 - match_back x (length x - 1 - i) (i + 1)"

lemma match_back_le: "match_back x d g \<le> g"
  by (induction x d g rule: match_back.induct) auto

lemma match_back_eq: "match_back x d g \<le> k \<Longrightarrow> k < g \<Longrightarrow> x ! k = x ! (k + d)"
  by (induction x d g rule: match_back.induct) (auto simp: less_Suc_eq split: if_splits)

lemma match_back_stop: "0 < match_back x d g \<Longrightarrow> x ! (match_back x d g - 1) \<noteq> x ! (match_back x d g - 1 + d)"
  by (induction x d g rule: match_back.induct) (auto split: if_splits)

lemma match_back_unique:
  assumes "k \<le> g" and "\<And>t. k \<le> t \<Longrightarrow> t < g \<Longrightarrow> x ! t = x ! (t + d)" and "0 < k \<Longrightarrow> x ! (k - 1) \<noteq> x ! (k - 1 + d)"
  shows "match_back x d g = k"
  using assms
proof (induction g)
  case (Suc g)
  show ?case
  proof (cases "k = Suc g")
    case True
    then show ?thesis using Suc.prems(3) by simp
  next
    case False
    then show ?thesis using Suc by simp
  qed
qed simp

text \<open>A search that starts further down, where everything above matches, ends at the same place.\<close>

lemma match_back_skip:
  assumes "g \<le> h" and "\<And>t. g \<le> t \<Longrightarrow> t < h \<Longrightarrow> x ! t = x ! (t + d)"
  shows "match_back x d h = match_back x d g"
proof (rule match_back_unique)
  show "match_back x d g \<le> h" using match_back_le assms(1) by (metis le_trans)
  show "x ! t = x ! (t + d)" if "match_back x d g \<le> t" "t < h" for t
    using assms(2) [of t] match_back_eq [OF that(1)] that by (cases "g \<le> t") auto
qed (rule match_back_stop)

definition suffix_inv :: "u8 list \<Rightarrow> nat \<Rightarrow> nat list \<times> nat \<times> nat \<Rightarrow> bool" where
  "suffix_inv x i s \<longleftrightarrow> (case s of (suff, f, g1) \<Rightarrow>
     length suff = length x \<and> (\<forall>k. i \<le> k \<and> k < length x \<longrightarrow> suff ! k = csuf x k) \<and>
     (g1 = length x \<or> i \<le> f \<and> f < length x - 1 \<and> g1 = match_back x (length x - 1 - f) (f + 1)))"

lemma csuf_le: "csuf x i \<le> i + 1"
  by (simp add: csuf_def)

lemma csuf_match: "i < length x \<Longrightarrow> i + 1 - csuf x i \<le> t \<Longrightarrow> t \<le> i \<Longrightarrow> x ! t = x ! (t + (length x - 1 - i))"
  using match_back_eq [of x "length x - 1 - i" "i + 1" t] match_back_le [of x "length x - 1 - i" "i + 1"] by (simp add: csuf_def)

lemma csuf_stop: "i < length x \<Longrightarrow> csuf x i \<le> i \<Longrightarrow> x ! (i - csuf x i) \<noteq> x ! (i - csuf x i + (length x - 1 - i))"
  using match_back_stop [of x "length x - 1 - i" "i + 1"] match_back_le [of x "length x - 1 - i" "i + 1"] by (simp add: csuf_def)

lemma csuf_unique:
  assumes "i < length x" and "c \<le> i + 1" and "\<And>t. i + 1 - c \<le> t \<Longrightarrow> t \<le> i \<Longrightarrow> x ! t = x ! (t + (length x - 1 - i))"
    and "c \<le> i \<Longrightarrow> x ! (i - c) \<noteq> x ! (i - c + (length x - 1 - i))"
  shows "csuf x i = c"
proof -
  have "match_back x (length x - 1 - i) (i + 1) = i + 1 - c"
    by (rule match_back_unique) (use assms in \<open>auto simp: less_Suc_eq_le\<close>)
  then show ?thesis using assms(2) by (simp add: csuf_def)
qed

lemma window_arith:
  assumes "c \<le> i" and "Suc i \<le> f" and "f < m - 1"
  shows "i + m - 1 - f - c = i - c + (m - 1 - f)" and "i - c + (m - 1 - f) + (m - 1 - (i + m - 1 - f)) = i - c + (m - 1 - i)"
  using assms by simp_all

lemma suffix_step_inv:
  assumes inv: "suffix_inv x (Suc i) (suff, f, g1)" and i: "Suc i < length x"
  shows "suffix_inv x i (suffix_step x i (suff, f, g1))"
proof -
  let ?m = "length x" and ?d = "length x - 1 - f" and ?j = "i + length x - 1 - f"
  have len: "length suff = ?m" and known: "\<And>k. Suc i \<le> k \<Longrightarrow> k < ?m \<Longrightarrow> suff ! k = csuf x k"
    using inv by (simp_all add: suffix_inv_def)
  have win: "Suc i \<le> f" "f < ?m - 1" "g1 = match_back x ?d (f + 1)" if "g1 \<le> i"
    using inv that i by (auto simp: suffix_inv_def)
  have shift: "x ! t = x ! (t + ?d)" if "g1 \<le> i" "g1 \<le> t" "t \<le> i" for t
    using match_back_eq [of x ?d "f + 1" t] win [OF that(1)] that by simp
  have j: "?j = i + ?d" "?j < ?m" "suff ! ?j = csuf x ?j" if "g1 \<le> i"
    using win [OF that] known [of ?j] by simp_all
  have upd: "suffix_inv x i (suff[i := csuf x i], f', g')"
    if "g' = ?m \<or> i \<le> f' \<and> f' < ?m - 1 \<and> g' = match_back x (?m - 1 - f') (f' + 1)" for f' g'
    using that len known by (auto simp: suffix_inv_def nth_list_update)
  show ?thesis
  proof (cases "g1 \<le> i \<and> suff ! ?j < i + 1 - g1")
    case True
    let ?c = "csuf x ?j"
    have c: "?c < i + 1 - g1" using True j(3) by simp
    have w: "g1 \<le> i" "Suc i \<le> f" "f < ?m - 1" using True win(1,2) by simp_all
    have "csuf x i = ?c"
    proof (rule csuf_unique)
      show "x ! t = x ! (t + (?m - 1 - i))" if "i + 1 - ?c \<le> t" "t \<le> i" for t
      proof -
        have "x ! (t + ?d) = x ! (t + ?d + (?m - 1 - ?j))"
          by (rule csuf_match) (use w that in arith)+
        moreover have "t + ?d + (?m - 1 - ?j) = t + (?m - 1 - i)" using w by arith
        moreover have "x ! t = x ! (t + ?d)" by (rule shift) (use w c that in arith)+
        ultimately show ?thesis by metis
      qed
      show "x ! (i - ?c) \<noteq> x ! (i - ?c + (?m - 1 - i))"
      proof -
        have n: "x ! (?j - ?c) \<noteq> x ! (?j - ?c + (?m - 1 - ?j))" by (rule csuf_stop) (use w c in arith)+
        have e: "?j - ?c = i - ?c + ?d" "i - ?c + ?d + (?m - 1 - ?j) = i - ?c + (?m - 1 - i)" 
          using window_arith [of ?c i f ?m] w c by simp_all
        have "x ! (i - ?c) = x ! (i - ?c + ?d)" by (rule shift) (use w c in arith)+
        then show ?thesis using n unfolding e by metis
      qed
    qed (use i c in auto)
    then show ?thesis using True j(3) upd [of g1 f] win by (simp add: suffix_step_def Let_def)
  next
    case False
    let ?g = "if Suc i < g1 then Suc i else g1"
    have "match_back x (?m - 1 - i) (Suc i) = match_back x (?m - 1 - i) ?g"
    proof (rule match_back_skip)
      show "?g \<le> Suc i" by simp
      fix t
      assume t: "?g \<le> t" "t < Suc i"
      then have g: "g1 \<le> i" "g1 \<le> t" "t \<le> i" by (auto split: if_splits)
      then have c: "i + 1 - g1 \<le> csuf x ?j" using False j(3) by simp
      have w: "Suc i \<le> f" "f < ?m - 1" using g(1) win(1,2) by simp_all
      have "x ! (t + ?d) = x ! (t + ?d + (?m - 1 - ?j))"
        by (rule csuf_match) (use g w c in arith)+
      moreover have "t + ?d + (?m - 1 - ?j) = t + (?m - 1 - i)" using w g by arith
      moreover have "x ! t = x ! (t + ?d)" by (rule shift) (use g in simp_all)
      ultimately show "x ! t = x ! (t + (?m - 1 - i))" by metis
    qed
    then have m: "match_back x (?m - 1 - i) ?g = match_back x (?m - 1 - i) (i + 1)" by simp
    then have c: "i + 1 - match_back x (?m - 1 - i) ?g = csuf x i" by (simp only: csuf_def)
    have i1: "i < ?m - 1" using i by simp
    have "suffix_inv x i (suff[i := csuf x i], i, match_back x (?m - 1 - i) ?g)"
      by (rule upd) (intro disjI2 conjI le_refl i1 m)
    moreover have "suffix_step x i (suff, f, g1) = (suff[i := i + 1 - match_back x (?m - 1 - i) ?g], i, match_back x (?m - 1 - i) ?g)"
      unfolding suffix_step_def Let_def prod.case if_not_P [OF False] by (rule refl)
    ultimately show ?thesis unfolding c by simp
  qed
qed

lemma suffixes_correct:
  assumes "x \<noteq> []" and "length suff = length x"
  shows "length (suffixes x suff) = length x" and "i < length x \<Longrightarrow> suffixes x suff ! i = csuf x i"
proof -
  let ?m = "length x"
  have "suffix_inv x 0 (fold (suffix_step x) (rev [0 ..< k]) s)" if "suffix_inv x k s" "k < ?m" for k s
    using that
  proof (induction k arbitrary: s)
    case (Suc k)
    obtain a f g where s: "s = (a, f, g)" by (rule prod_cases3)
    have "suffix_inv x k (suffix_step x k s)" using Suc.prems suffix_step_inv unfolding s by blast
    then show ?case using Suc by simp
  qed simp
  moreover have m: "0 < ?m" using assms(1) by simp
  have "csuf x (?m - 1) = ?m"
    by (rule csuf_unique) (use m in \<open>simp, simp, simp, linarith\<close>)
  then have "suffix_inv x (?m - 1) (suff[?m - 1 := ?m], 0, ?m)"
    using assms by (auto simp: suffix_inv_def nth_list_update)
  ultimately have "suffix_inv x 0 (fold (suffix_step x) (rev [0 ..< ?m - 1]) (suff[?m - 1 := ?m], 0, ?m))"
    using assms(1) by simp
  then show "length (suffixes x suff) = ?m" "i < ?m \<Longrightarrow> suffixes x suff ! i = csuf x i"
    by (auto simp: suffixes_def suffix_inv_def Let_def split: prod.splits)
qed

section \<open>Shifts\<close>

text \<open>A shift by \<open>d\<close> is possible after a mismatch at \<open>i\<close>: the part that matched meets equal
  bytes of the pattern, the byte that did not meets another one.\<close>

definition shift_ok :: "u8 list \<Rightarrow> nat \<Rightarrow> nat \<Rightarrow> bool" where
  "shift_ok x i d \<longleftrightarrow> 0 < d \<and> (\<forall>k. i < k \<and> k < length x \<and> d \<le> k \<longrightarrow> x ! (k - d) = x ! k) \<and>
     (d \<le> i \<longrightarrow> x ! (i - d) \<noteq> x ! i)"

lemma shift_border:
  assumes "shift_ok x i d" and "i < d" and "d < length x"
  shows "csuf x (length x - 1 - d) = length x - d"
proof -
  have eq: "x ! t = x ! (t + d)" if "t + d < length x" for t
    using assms(1) that assms(2) by (auto simp: shift_ok_def dest!: spec [of _ "t + d"])
  have e: "length x - 1 - (length x - 1 - d) = d" using assms(3) by simp
  show ?thesis
  proof (rule csuf_unique)
    show "x ! t = x ! (t + (length x - 1 - (length x - 1 - d)))" if "t \<le> length x - 1 - d" for t
      unfolding e by (rule eq) (use assms(3) that in arith)
  qed (use assms(3) in arith)+
qed

lemma shift_inner:
  assumes "shift_ok x i d" and "d \<le> i" and "i < length x"
  shows "csuf x (length x - 1 - d) = length x - 1 - i"
proof (rule csuf_unique)
  have e: "length x - 1 - (length x - 1 - d) = d" using assms by simp
  show "x ! t = x ! (t + (length x - 1 - (length x - 1 - d)))"
    if "length x - 1 - d + 1 - (length x - 1 - i) \<le> t" "t \<le> length x - 1 - d" for t
  proof -
    have "i < t + d" "t + d < length x" using that assms by arith+
    then show ?thesis using assms(1) unfolding e by (auto simp: shift_ok_def dest!: spec [of _ "t + d"])
  qed
  have i: "length x - 1 - d - (length x - 1 - i) = i - d" using assms by simp
  show "x ! (length x - 1 - d - (length x - 1 - i)) \<noteq> x ! (length x - 1 - d - (length x - 1 - i) + (length x - 1 - (length x - 1 - d)))"
    unfolding i e using assms by (simp add: shift_ok_def)
qed (use assms in \<open>auto simp: shift_ok_def\<close>)

lemma fill_nth:
  "k \<le> length bs \<Longrightarrow> length (fold (\<lambda>j bmGs. if bmGs ! j = m then bmGs[j := v] else bmGs) [j ..< k] bs) = length bs \<and>
   (\<forall>i < length bs. fold (\<lambda>j bmGs. if bmGs ! j = m then bmGs[j := v] else bmGs) [j ..< k] bs ! i =
      (if j \<le> i \<and> i < k \<and> bs ! i = m then v else bs ! i))"
proof (induction k)
  case (Suc k)
  show ?case
  proof (cases "j \<le> k")
    case True
    then show ?thesis using Suc by (auto simp: nth_list_update less_Suc_eq)
  next
    case False
    then show ?thesis by (auto simp: le_Suc_eq)
  qed
qed simp

text \<open>After the first loop has come down to \<open>n\<close>: the entries below the counter are shifts that
  leave a border of the pattern, the smallest there are; the others are the length of the pattern.\<close>

definition border_inv :: "u8 list \<Rightarrow> nat \<Rightarrow> nat \<times> nat list \<Rightarrow> bool" where
  "border_inv x n s \<longleftrightarrow> (case s of (j, bmGs) \<Rightarrow> length bmGs = length x \<and> j \<le> length x - n \<and>
     (\<forall>i < length x. i < bmGs ! i \<and> bmGs ! i \<le> length x) \<and> (\<forall>i < length x. j \<le> i \<longrightarrow> bmGs ! i = length x) \<and>
     (\<forall>i < j. i < length x \<longrightarrow> bmGs ! i \<le> j) \<and>
     (\<forall>k. n \<le> k \<and> k < length x \<and> csuf x k = k + 1 \<longrightarrow>
        length x - 1 - k \<le> j \<and> (\<forall>i < length x - 1 - k. bmGs ! i \<le> length x - 1 - k)))"

lemma border_step:
  assumes "border_inv x (Suc k) s" and "k < length x"
  shows "border_inv x k (if csuf x k = k + 1 then fill_to (length x) (length x - 1 - k) s else s)"
proof -
  obtain j bs where s: "s = (j, bs)" by (rule prod.exhaust)
  let ?v = "length x - 1 - k"
  note inv = assms(1) [unfolded s border_inv_def prod.case]
  have len: "length bs = length x" and j: "j \<le> ?v" using inv by auto
  have sm: "\<And>i. i < length x \<Longrightarrow> i < bs ! i \<and> bs ! i \<le> length x" and hi: "\<And>i. i < length x \<Longrightarrow> j \<le> i \<Longrightarrow> bs ! i = length x"
    and lo: "\<And>i. i < j \<Longrightarrow> i < length x \<Longrightarrow> bs ! i \<le> j"
    and bd: "\<And>k'. Suc k \<le> k' \<Longrightarrow> k' < length x \<Longrightarrow> csuf x k' = k' + 1 \<Longrightarrow>
        length x - 1 - k' \<le> j \<and> (\<forall>i < length x - 1 - k'. bs ! i \<le> length x - 1 - k')"
    using inv by blast+
  show ?thesis
  proof (cases "csuf x k = k + 1")
    case True
    let ?b = "fold (\<lambda>j bmGs. if bmGs ! j = length x then bmGs[j := ?v] else bmGs) [j ..< ?v] bs"
    have f: "length ?b = length x" "\<And>i. i < length x \<Longrightarrow> ?b ! i = (if j \<le> i \<and> i < ?v then ?v else bs ! i)"
      using fill_nth [of ?v bs "length x" ?v j] len hi by auto
    have v: "?v < length x" using assms(2) by simp
    have "border_inv x k (?v, ?b)"
      unfolding border_inv_def prod.case
    proof (intro conjI allI impI)
      fix k'
      assume k': "k \<le> k' \<and> k' < length x \<and> csuf x k' = k' + 1"
      show "length x - 1 - k' \<le> ?v" using k' by (simp add: diff_le_mono2)
      fix i
      assume i: "i < length x - 1 - k'"
      show "?b ! i \<le> length x - 1 - k'"
      proof (cases "k' = k")
        case True
        then show ?thesis using f(2) [of i] i lo [of i] j v by auto
      next
        case False
        then have "length x - 1 - k' \<le> j" "bs ! i \<le> length x - 1 - k'" using bd [of k'] k' i by auto
        then show ?thesis using f(2) [of i] i v by auto
      qed
    next
      fix i
      assume "i < ?v" "i < length x"
      then show "?b ! i \<le> ?v" using f(2) [of i] lo [of i] j by auto
    qed (use f sm hi j v in auto)
    then show ?thesis unfolding s fill_to_def prod.case if_P [OF True] max_absorb2 [OF j] .
  next
    case False
    have "border_inv x k (j, bs)"
      unfolding border_inv_def prod.case
    proof (intro conjI allI impI)
      fix k'
      assume k': "k \<le> k' \<and> k' < length x \<and> csuf x k' = k' + 1"
      then have "Suc k \<le> k'" using False by (cases "k' = k") auto
      then show "length x - 1 - k' \<le> j" "\<And>i. i < length x - 1 - k' \<Longrightarrow> bs ! i \<le> length x - 1 - k'"
        using bd [of k'] k' by auto
    qed (use len sm hi lo j in auto)
    then show ?thesis using False by (simp add: s)
  qed
qed

lemma borders_done:
  assumes "\<And>i. i < length x \<Longrightarrow> suff ! i = csuf x i"
  shows "border_inv x 0 (fold (\<lambda>i s. if suff ! i = i + 1 then fill_to (length x) (length x - 1 - i) s else s) (rev [0 ..< length x])
      (0, replicate (length x) (length x)))"
proof -
  have "border_inv x 0 (fold (\<lambda>i s. if suff ! i = i + 1 then fill_to (length x) (length x - 1 - i) s else s) (rev [0 ..< n]) s)"
    if "border_inv x n s" "n \<le> length x" for n s
    using that
  proof (induction n arbitrary: s)
    case (Suc n)
    then show ?case using border_step [of x n s] assms [of n] by simp
  qed simp
  moreover have "border_inv x (length x) (0, replicate (length x) (length x))" by (auto simp: border_inv_def)
  ultimately show ?thesis by blast
qed

text \<open>The second loop.\<close>

definition inner_inv :: "u8 list \<Rightarrow> nat list \<Rightarrow> nat \<Rightarrow> nat list \<Rightarrow> bool" where
  "inner_inv x b0 n bmGs \<longleftrightarrow> length bmGs = length x \<and>
     (\<forall>i < length x. 0 < bmGs ! i \<and> bmGs ! i \<le> b0 ! i) \<and>
     (\<forall>i < length x. \<forall>k < n. csuf x k = length x - 1 - i \<longrightarrow> bmGs ! i \<le> length x - 1 - k)"

lemma inner_step:
  assumes "inner_inv x b0 n bs" and "Suc n < length x" and "\<And>i. i < length x \<Longrightarrow> i < b0 ! i"
  shows "inner_inv x b0 (Suc n) (bs[length x - 1 - csuf x n := length x - 1 - n])"
proof -
  let ?m = "length x" and ?p = "length x - 1 - csuf x n" and ?v = "length x - 1 - n"
  have len: "length bs = ?m" and lo: "\<And>i. i < ?m \<Longrightarrow> 0 < bs ! i \<and> bs ! i \<le> b0 ! i"
    and kn: "\<And>i k. i < ?m \<Longrightarrow> k < n \<Longrightarrow> csuf x k = ?m - 1 - i \<Longrightarrow> bs ! i \<le> ?m - 1 - k"
    using assms(1) by (auto simp: inner_inv_def)
  have c: "csuf x n \<le> n + 1" by (rule csuf_le)
  have p: "?p < ?m" "?v \<le> Suc ?p" "0 < ?v" using c assms(2) by arith+
  show ?thesis
    unfolding inner_inv_def
  proof (intro conjI allI impI)
    fix i
    assume i: "i < ?m"
    have b: "?v \<le> b0 ! i" if "?p = i" using p assms(3) [OF i] that by simp
    then show "0 < bs[?p := ?v] ! i" "bs[?p := ?v] ! i \<le> b0 ! i"
      using i len lo [OF i] p by (auto simp: nth_list_update)
    fix k
    assume k: "k < Suc n" "csuf x k = ?m - 1 - i"
    show "bs[?p := ?v] ! i \<le> ?m - 1 - k"
    proof (cases "k = n")
      case True
      then have "?p = i" using k(2) i by simp
      then show ?thesis using True i len by simp
    next
      case False
      then have "bs ! i \<le> ?m - 1 - k" using kn [OF i _ k(2)] k(1) by simp
      moreover have "?v \<le> ?m - 1 - k" using k(1) by simp
      ultimately show ?thesis using i len by (auto simp: nth_list_update)
    qed
  qed (simp add: len)
qed

lemma preBmGs_least:
  assumes "x \<noteq> []" and "length suff0 = length x" and "i < length x"
  shows "0 < preBmGs x suff0 ! i" and "shift_ok x i d \<Longrightarrow> preBmGs x suff0 ! i \<le> d"
proof -
  let ?m = "length x" and ?s = "suffixes x suff0"
  have s: "\<And>i. i < ?m \<Longrightarrow> ?s ! i = csuf x i" using suffixes_correct [OF assms(1,2)] by blast
  obtain j b0 where b: "fold (\<lambda>i s. if ?s ! i = i + 1 then fill_to ?m (?m - 1 - i) s else s) (rev [0 ..< ?m]) (0, replicate ?m ?m) = (j, b0)"
    by (rule prod.exhaust)
  note inv = borders_done [of x ?s, OF s, unfolded b border_inv_def prod.case]
  have b0: "length b0 = ?m" "\<And>i. i < ?m \<Longrightarrow> i < b0 ! i" "\<And>i. i < ?m \<Longrightarrow> b0 ! i \<le> ?m" using inv by auto
  have "inner_inv x b0 n (fold (\<lambda>i bmGs. bmGs[?m - 1 - ?s ! i := ?m - 1 - i]) [0 ..< n] b0)" if "n \<le> ?m - 1" for n
    using that
  proof (induction n)
    case 0
    then show ?case using b0 by (auto simp: inner_inv_def dest: b0(2))
  next
    case (Suc n)
    then show ?case using inner_step [of x b0 n] b0(2) s [of n] by simp
  qed
  then have r: "inner_inv x b0 (?m - 1) (preBmGs x suff0)" unfolding preBmGs_def Let_def b snd_conv by blast
  then show "0 < preBmGs x suff0 ! i" using assms(3) by (simp add: inner_inv_def)
  assume d: "shift_ok x i d"
  have le: "preBmGs x suff0 ! i \<le> b0 ! i" using r assms(3) by (simp add: inner_inv_def)
  consider "?m \<le> d" | "i < d" "d < ?m" | "d \<le> i" by linarith
  then show "preBmGs x suff0 ! i \<le> d"
  proof cases
    case 1
    then show ?thesis using le b0(3) [OF assms(3)] by simp
  next
    case 2
    have "csuf x (?m - 1 - d) = ?m - 1 - d + 1" using shift_border [OF d 2] 2 by simp
    moreover have "?m - 1 - d < ?m" "?m - 1 - (?m - 1 - d) = d" using 2 by arith+
    ultimately have "\<forall>i < d. b0 ! i \<le> d" using inv by (metis le0)
    then show ?thesis using 2 le by (meson le_trans)
  next
    case 3
    have "csuf x (?m - 1 - d) = ?m - 1 - i" by (rule shift_inner [OF d 3 assms(3)])
    moreover have "?m - 1 - d < ?m - 1" "?m - 1 - (?m - 1 - d) = d" using 3 assms(3) d by (auto simp: shift_ok_def)
    ultimately show ?thesis using r assms(3) by (metis inner_inv_def)
  qed
qed

lemma preBmBc_bound:
  shows "preBmBc x c \<le> length x" and "i < length x - 1 \<Longrightarrow> x ! i = c \<Longrightarrow> preBmBc x c \<le> length x - 1 - i"
proof -
  let ?t = "\<lambda>n. fold (\<lambda>i bmBc. bmBc(x ! i := length x - i - 1)) [0 ..< n] (\<lambda>c. length x)"
  have b: "?t n c \<le> length x \<and> (\<forall>i < n. x ! i = c \<longrightarrow> ?t n c \<le> length x - 1 - i)" for n
    by (induction n) (auto simp: less_Suc_eq)
  show "preBmBc x c \<le> length x" using b by (simp add: preBmBc_def)
  show "i < length x - 1 \<Longrightarrow> x ! i = c \<Longrightarrow> preBmBc x c \<le> length x - 1 - i" using b [of "length x - 1"] by (simp add: preBmBc_def)
qed

section \<open>The search\<close>

definition occurs :: "u8 list \<Rightarrow> u8 list \<Rightarrow> nat \<Rightarrow> bool" where
  "occurs x y j \<longleftrightarrow> take (length x) (drop j y) = x"

lemma occurs_nth: "occurs x y j \<longleftrightarrow> j + length x \<le> length y \<and> (\<forall>i < length x. y ! (i + j) = x ! i) \<or> x = []"
proof -
  have "occurs x y j \<longleftrightarrow> length x \<le> length y - j \<and> (\<forall>i < length x. drop j y ! i = x ! i)"
    unfolding occurs_def by (subst list_eq_iff_nth_eq) (auto simp: min_def)
  also have "\<dots> \<longleftrightarrow> (x = [] \<or> j + length x \<le> length y \<and> (\<forall>i < length x. y ! (i + j) = x ! i))"
  proof (cases "x = []")
    case False
    then have "length x \<le> length y - j \<longleftrightarrow> j + length x \<le> length y" by (cases x) auto
    then show ?thesis using False by (auto simp: add.commute)
  qed simp
  finally show ?thesis by blast
qed

lemma scan_le: "scan x y j n \<le> n"
  by (induction x y j n rule: scan.induct) auto

lemma scan_eq: "scan x y j n \<le> k \<Longrightarrow> k < n \<Longrightarrow> x ! k = y ! (k + j)"
  by (induction x y j n rule: scan.induct) (auto simp: less_Suc_eq split: if_splits)

lemma scan_stop: "scan x y j n = Suc i \<Longrightarrow> x ! i \<noteq> y ! (i + j)"
  by (induction x y j n rule: scan.induct) (auto split: if_splits)

text \<open>Neither table skips an occurrence.\<close>

lemma no_skip:
  assumes "x \<noteq> []" and "length suff0 = length x" and "scan x y j (length x) = Suc i" and "occurs x y (j + d)" and "0 < d"
  shows "max (int (preBmGs x suff0 ! i)) (int (preBmBc x (y ! (i + j))) - int (length x) + 1 + int i) \<le> int d"
proof -
  have i: "i < length x" using scan_le [of x y j "length x"] assms(3) by simp
  have occ: "y ! (k + (j + d)) = x ! k" if "k < length x" for k using assms(1,4) that by (simp add: occurs_nth)
  have eq: "x ! k = y ! (k + j)" if "i < k" "k < length x" for k using scan_eq [of x y j "length x" k] assms(3) that by simp
  have ne: "x ! i \<noteq> y ! (i + j)" by (rule scan_stop [OF assms(3)])
  have bk: "x ! (k - d) = y ! (k + j)" if "d \<le> k" "k < length x" for k
    using occ [of "k - d"] that by (simp add: add.commute add.left_commute)
  have "shift_ok x i d"
    unfolding shift_ok_def using assms(5) bk eq ne i by auto
  then have g: "preBmGs x suff0 ! i \<le> d" by (rule preBmGs_least [OF assms(1,2) i])
  have "int (preBmBc x (y ! (i + j))) - int (length x) + 1 + int i \<le> int d"
  proof (cases "d \<le> i")
    case True
    then have "preBmBc x (y ! (i + j)) \<le> length x - 1 - (i - d)"
      using preBmBc_bound(2) [of "i - d" x "y ! (i + j)"] bk [of i] i assms(5) by simp
    then show ?thesis using True i by simp
  next
    case False
    then show ?thesis using preBmBc_bound(1) [of x "y ! (i + j)"] by simp
  qed
  then show ?thesis using g by simp
qed

definition first_occurrence :: "u8 list \<Rightarrow> u8 list \<Rightarrow> int" where
  "first_occurrence x y = (case find (occurs x y) [0 ..< Suc (length y)] of None \<Rightarrow> - 1 | Some j \<Rightarrow> int j)"

lemma bm_loop_finds:
  assumes "x \<noteq> []" and "length suff0 = length x" and "\<forall>k < j. \<not> occurs x y k"
  shows "bm_loop x (preBmGs x suff0) (preBmBc x) y j = Some (first_occurrence x y)"
  using assms(3)
proof (induction "length y - j" arbitrary: j rule: less_induct)
  case less
  let ?m = "length x"
  show ?case
  proof (cases "j + ?m \<le> length y")
    case False
    have none: "\<not> occurs x y k" for k
    proof (cases "k < j")
      case True
      then show ?thesis using less.prems by blast
    next
      case kj: False
      then show ?thesis using False assms(1) by (auto simp: occurs_nth)
    qed
    have "find (occurs x y) [0 ..< Suc (length y)] = None" by (simp add: find_None_iff none)
    then show ?thesis using False by (subst bm_loop.simps) (simp add: first_occurrence_def)
  next
    case True
    show ?thesis
    proof (cases "scan x y j ?m")
      case 0
      have o: "occurs x y j" using scan_eq [of x y j ?m] 0 True by (auto simp: occurs_nth)
      have "find (occurs x y) [0 ..< Suc (length y)] = Some j"
        unfolding find_Some_iff using o less.prems True by (intro exI [of _ j]) (simp del: upt_Suc)
      then show ?thesis using 0 True by (subst bm_loop.simps) (simp add: first_occurrence_def)
    next
      case (Suc i)
      let ?s = "max (int (preBmGs x suff0 ! i)) (int (preBmBc x (y ! (i + j))) - int ?m + 1 + int i)"
      have i: "i < ?m" using scan_le [of x y j ?m] Suc by simp
      have pos: "0 < ?s" using preBmGs_least(1) [OF assms(1,2) i] by simp
      let ?j = "nat (int j + ?s)"
      have jj: "j < ?j" using pos by simp
      have "\<not> occurs x y k" if "k < ?j" for k
      proof
        assume o: "occurs x y k"
        then have "j \<le> k" using less.prems not_less by blast
        moreover have "k \<noteq> j"
          using o scan_stop [OF Suc] i assms(1) by (auto simp: occurs_nth)
        ultimately have "?s \<le> int (k - j)"
          using no_skip [OF assms(1,2) Suc, of "k - j"] o by simp
        then show False using that \<open>j \<le> k\<close> by linarith
      qed
      moreover have "length y - ?j < length y - j" using jj True assms(1) by (cases x) auto
      ultimately have "bm_loop x (preBmGs x suff0) (preBmBc x) y ?j = Some (first_occurrence x y)" using less.hyps by blast
      then show ?thesis using Suc True by (subst bm_loop.simps) simp
    qed
  qed
qed

section \<open>Properties\<close>

text \<open>C24. The search returns for every pattern that is not empty and every text, whatever the allocated table contained
  before, with the position of the first occurrence of the pattern, and \<open>-1\<close> when there is none.\<close>

theorem boyer_moore_first_occurrence:
  assumes "x \<noteq> []" and "length suff0 = length x"
  shows "boyer_moore suff0 x y = Some (first_occurrence x y)"
  unfolding boyer_moore_def by (rule bm_loop_finds [OF assms]) simp

lemma boyer_moore_first_occurrence_witness:
  "boyer_moore [7, 7, 7] [1, 2, 1] [1, 1, 2, 2, 1, 2, 1, 1] = Some 4"
proof -
  have "first_occurrence [1, 2, 1] [1, 1, 2, 2, 1, 2, 1, 1] = 4" by (simp add: first_occurrence_def occurs_def upt_rec)
  then show ?thesis using boyer_moore_first_occurrence [of "[1, 2, 1]" "[7, 7, 7]" "[1, 1, 2, 2, 1, 2, 1, 1]"] by simp
qed

lemma boyer_moore_split: "boyer_moore2 (boyer_moore_init suff0 x) y = boyer_moore suff0 x y"
  by (simp add: boyer_moore2_def boyer_moore_init_def boyer_moore_def)

end
