(* ===== verification/File_Driver.thy ===== *)
theory File_Driver
  imports Vmi_Read Arch_Mode
begin

text \<open>
  The driver for memory dumps, \<^verbatim>\<open>driver/file/file.c\<close>, in the build that reads with
  \<^verbatim>\<open>lseek\<close> and \<^verbatim>\<open>read\<close> (\<^verbatim>\<open>USE_MMAP\<close> is 0).  The files of
  the host are a parameter; the open file is its content.  A page in the page cache is the buffer
  it was read into.

  The driver interprets \<open>page_driver\<close> and \<open>guest\<close>, the interfaces of the translation and read
  code, so what is proved there holds for dumps as for running guests.
\<close>

section \<open>State and operations\<close>

record file_instance =
  fi_filename :: string
  fi_fd :: "u8 list option" \<comment> \<open>the open file\<close>
  fi_cache :: "u8 list page_cache"

type_synonym host_files = "string \<Rightarrow> u8 list option"

text \<open>\<^verbatim>\<open>lseek\<close> fails for an offset that is negative as an \<^verbatim>\<open>off_t\<close>;
  \<^verbatim>\<open>read\<close> at the end of the file gives fewer bytes.\<close>

definition file_get_memory :: "addr_t \<Rightarrow> u8 list option \<Rightarrow> addr_t \<Rightarrow> u32 \<Rightarrow> u8 list option" where
  "file_get_memory max_physical_address fd paddr len =
     (if paddr + ucast len \<ge> max_physical_address then None
      else case fd of
        None \<Rightarrow> None
      | Some content \<Rightarrow>
          if sint paddr < 0 then None
          else let memory = take (unat len) (drop (unat paddr) content)
               in if length memory = unat len then Some memory else None)"

definition file_read_page :: "mem_config \<Rightarrow> int \<Rightarrow> addr_t \<Rightarrow> file_instance \<Rightarrow> u8 list option \<times> file_instance" where
  "file_read_page cfg now page x =
     (case memory_cache_insert cfg (file_get_memory (mc_max_physical_address cfg) (fi_fd x)) now (push_bit 12 page) (fi_cache x) of
        (memory, pc) \<Rightarrow> (memory, x\<lparr> fi_cache := pc \<rparr>))"

definition file_write :: "addr_t \<Rightarrow> u8 list \<Rightarrow> file_instance \<Rightarrow> status \<times> file_instance" where
  "file_write paddr buf x = (VMI_FAILURE, x)"

definition file_get_vcpureg :: "addr_t \<Rightarrow> reg_t \<Rightarrow> nat \<Rightarrow> file_instance \<Rightarrow> u64 option \<times> file_instance" where
  "file_get_vcpureg kpgd reg vcpu x = (if reg = CR3 \<and> kpgd \<noteq> 0 then Some kpgd else None, x)"

definition file_set_name :: "string \<Rightarrow> file_instance \<Rightarrow> file_instance" where
  "file_set_name name x = x\<lparr> fi_filename := take 500 name \<rparr>"

definition file_get_name :: "file_instance \<Rightarrow> string" where
  "file_get_name x = fi_filename x"

text \<open>The age limit \<^verbatim>\<open>ULONG_MAX\<close> is stored in 32 bits.  A failure frees the instance.\<close>

definition file_init_vmi :: "host_files \<Rightarrow> file_instance vmi_instance \<Rightarrow> file_instance vmi_instance option" where
  "file_init_vmi files vmi =
     (let fi = vi_driver vmi in
      case files (fi_filename fi) of
        None \<Rightarrow> None
      | Some content \<Rightarrow>
          Some (vmi\<lparr> vi_vm_type := NORMAL,
                     vi_driver := fi\<lparr> fi_fd := Some content, fi_cache := memory_cache_init (ucast (- 1 :: u64)) \<rparr> \<rparr>))"

definition file_get_memsize :: "file_instance \<Rightarrow> (u64 \<times> addr_t) option" where
  "file_get_memsize x = map_option (\<lambda>content. (of_nat (length content), of_nat (length content))) (fi_fd x)"

definition file_test :: "host_files \<Rightarrow> string option \<Rightarrow> status" where
  "file_test files name =
     (case name of
        None \<Rightarrow> VMI_FAILURE
      | Some n \<Rightarrow>
      (case files n of
         None \<Rightarrow> VMI_FAILURE
       | Some content \<Rightarrow> if length content = 0 then VMI_FAILURE else VMI_SUCCESS))"

section \<open>The driver as an environment\<close>

definition file_cfg :: "addr_t \<Rightarrow> mem_config" where
  "file_cfg maxp = \<lparr> mc_page_size = 0x1000, mc_vm_type = NORMAL, mc_memmap = None, mc_max_physical_address = maxp \<rparr>"

definition file_env :: "mem_config \<Rightarrow> int \<Rightarrow> addr_t \<Rightarrow> file_instance os_interface option \<Rightarrow> page_info \<Rightarrow> file_instance vmi_env" where
  "file_env cfg now kpgd os junk =
     \<lparr> env_driver = \<lparr> drv_initialized = True, drv_read_page_ptr = Some (file_read_page cfg now),
         drv_write_ptr = Some file_write, drv_mmap_guest = None, drv_get_vcpureg_ptr = Some (file_get_vcpureg kpgd) \<rparr>,
       env_os = os, env_stack_info = junk \<rparr>"

definition file_page :: "addr_t \<Rightarrow> u8 list \<Rightarrow> addr_t \<Rightarrow> u8 list option" where
  "file_page maxp content f = (let a = push_bit 12 f in
     if range_ok (file_cfg maxp) a 0x1000 then file_get_memory maxp (Some content) a 0x1000 else None)"

definition file_inv :: "addr_t \<Rightarrow> u8 list \<Rightarrow> file_instance \<Rightarrow> bool" where
  "file_inv maxp content x \<longleftrightarrow> fi_fd x = Some content \<and> pc_inv (file_cfg maxp) (fi_cache x) \<and>
     pc_coherent (file_get_memory maxp (Some content)) (fi_cache x)"

lemma file_cfg_simps [simp]: "mc_page_size (file_cfg maxp) = 0x1000" "mc_max_physical_address (file_cfg maxp) = maxp"
  by (simp_all add: file_cfg_def)

interpretation filed: page_driver "file_read_page (file_cfg maxp) now" "file_inv maxp content" "file_page maxp content"
  for maxp now content
proof
  fix x f assume i: "file_inv maxp content x"
  let ?g = "file_get_memory maxp (Some content)"
  have pi: "pc_inv (file_cfg maxp) (fi_cache x) \<and> pc_coherent ?g (fi_cache x)" and fd: "fi_fd x = Some content"
    using i by (simp_all add: file_inv_def)
  show "fst (file_read_page (file_cfg maxp) now f x) = file_page maxp content f"
    using pcache.read_content [OF pi, of now "push_bit 12 f"] page_aligned_frame [of "file_cfg maxp" f]
    by (simp add: file_read_page_def file_page_def fd case_prod_beta Let_def)
  show "file_inv maxp content (snd (file_read_page (file_cfg maxp) now f x))"
    using pcache.read_inv [OF pi, of now "push_bit 12 f"]
    by (simp add: file_read_page_def fd case_prod_beta file_inv_def)
next
  fix f p assume "file_page maxp content f = Some p"
  then show "length p = 4096"
    by (auto simp: file_page_def file_get_memory_def Let_def split: if_splits)
qed

interpretation fileg: guest "file_read_page (file_cfg maxp) now" "file_inv maxp content" "file_page maxp content"
  "file_env (file_cfg maxp) now kpgd os junk" tp
  for maxp now content kpgd os junk tp
  by unfold_locales (simp add: filed.drives_def file_env_def)

section \<open>Properties\<close>

text \<open>The bytes of a dump the driver shows: those of the pages that end before the end of the file.\<close>

definition dump_byte :: "u8 list \<Rightarrow> addr_t \<Rightarrow> u8 option" where
  "dump_byte content pa = (if (unat pa div 4096 + 1) * 4096 < length content then Some (content ! unat pa) else None)"

lemma pbyte_file:
  assumes "length content < 2 ^ 63"
  shows "pbyte (file_page (of_nat (length content)) content) = dump_byte content"
proof
  fix pa :: addr_t
  let ?n = "length content" and ?f = "drop_bit 12 pa"
  have up: "unat pa < 2 ^ 64" using unsigned_less [of pa, where ?'a = nat] by simp
  have uf: "unat ?f = unat pa div 4096" by (simp add: unat_drop12)
  have k: "unat pa div 4096 * 4096 \<le> 2 ^ 64 - 4096"
  proof -
    have "unat pa div 4096 < 2 ^ 52" using up by (simp add: div_less_iff_less_mult)
    then show ?thesis by simp
  qed
  have ua: "unat (push_bit 12 ?f) = unat pa div 4096 * 4096"
    using k by (simp add: push_bit_eq_mult unat_word_ariths uf mult.commute)
  have un: "unat (of_nat ?n :: u64) = ?n" using assms by (simp add: unat_of_nat)
  have lo: "unat (take_bit 12 pa) = unat pa mod 4096" by (simp add: unat_low12)
  have sg: "\<not> sint w < 0" if "unat w < 2 ^ 63" for w :: u64
  proof -
    have "take_bit 63 w = w" using that by (simp add: word_unat_eq_iff take_bit_eq_mod unat_mod)
    then have "\<not> bit w 63" by (metis bit_take_bit_iff less_irrefl)
    then show ?thesis using bit_last_iff [of w] by simp
  qed
  let ?a = "push_bit 12 ?f"
  show "pbyte (file_page (of_nat ?n) content) pa = dump_byte content pa"
  proof (cases "unat pa div 4096 * 4096 + 4096 = 2 ^ 64")
    case True
    have "?a + 0x1000 = 0" by (rule word_unat_eq_iff [THEN iffD2]) (simp add: unat_word_ariths ua True)
    have "?n \<le> unat pa div 4096 * 4096" using True assms by simp
    then have "file_page (of_nat ?n) content ?f = None"
      by (simp add: file_page_def file_get_memory_def Let_def ua)
    then show ?thesis using True assms by (simp add: pbyte_def dump_byte_def)
  next
    case False
    then have ue: "unat (?a + 0x1000) = unat pa div 4096 * 4096 + 4096" using k ua by (simp add: unat_word_ariths)
    have lt: "?a + 0x1000 \<ge> of_nat ?n \<longleftrightarrow> ?n \<le> unat pa div 4096 * 4096 + 4096"
      by (simp add: word_le_nat_alt ue un)
    show ?thesis
    proof (cases "unat pa div 4096 * 4096 + 4096 < ?n")
      case True
      have "\<not> sint ?a < 0" by (rule sg) (use True assms ua in simp)
      then have "file_page (of_nat ?n) content ?f = Some (take 4096 (drop (unat pa div 4096 * 4096) content))"
        using True lt by (simp add: file_page_def file_get_memory_def Let_def ua range_ok_def file_cfg_def)
      moreover have "unat pa div 4096 * 4096 + unat pa mod 4096 = unat pa" by simp
      ultimately show ?thesis
        using True by (simp add: pbyte_def dump_byte_def lo)
    next
      case False
      then have "file_page (of_nat ?n) content ?f = None" using lt by (simp add: file_page_def file_get_memory_def Let_def)
      then show ?thesis using False by (simp add: pbyte_def dump_byte_def)
    qed
  qed
qed


definition fvmi0 :: "file_instance vmi_instance" where
  "fvmi0 = \<lparr> vi_mode = VMI_FILE, vi_os_type = VMI_OS_LINUX, vi_vm_type = NORMAL, vi_page_mode = VMI_PM_IA32E, vi_kpgd = 0x1000,
     vi_page_shift = 12, vi_page_size = 0x1000, vi_pse = False, vi_transition_pages = False, vi_t0sz = 0, vi_t1sz = 0,
     vi_tg0 = 0, vi_tg1 = 0, vi_max_physical_address = 0x2000, vi_caches = addr_caches_init,
     vi_driver = file_set_name ''dump'' \<lparr> fi_filename = [], fi_fd = None, fi_cache = memory_cache_init 0 \<rparr> \<rparr>"

definition dump0 :: "u8 list" where
  "dump0 = replicate 0x2000 7"

definition dumps0 :: host_files where
  "dumps0 n = (if n = ''dump'' then Some dump0 else None)"


end
