(* ===== verification/Xen_Registers.thy ===== *)
theory Xen_Registers
  imports Vmi_State
begin

text \<open>
  The registers of a virtual CPU in the Xen driver, \<^verbatim>\<open>driver/xen/xen.c\<close>: reading and
  writing one register or all of them, for hardware-virtualised and paravirtualised x86 guests and
  for ARM.

  The structures that hold the registers are defined by Xen's headers, not in the sources: a
  context maps the names of its fields to values, and \<open>width\<close>, a parameter, says how many bits a
  field has; a value is cut to the field when it is stored.  The \<^verbatim>\<open>switch\<close> statements are
  the tables from register numbers (\<^verbatim>\<open>libvmi.h\<close>) to fields.  The calls of
  \<^verbatim>\<open>libxc\<close> are a record of functions on the state \<open>'h\<close> of the hypervisor.  The buffer
  of a whole domain context is the list of its records.
\<close>

section \<open>Register numbers and fields\<close>

type_synonym reg_fields = "(reg_t \<times> string) list"
type_synonym reg_context = "string \<Rightarrow> u64"

abbreviation (input) RAX :: reg_t where "RAX \<equiv> 0"
abbreviation (input) RBX :: reg_t where "RBX \<equiv> 1"
abbreviation (input) RCX :: reg_t where "RCX \<equiv> 2"
abbreviation (input) RDX :: reg_t where "RDX \<equiv> 3"
abbreviation (input) RBP :: reg_t where "RBP \<equiv> 4"
abbreviation (input) RSI :: reg_t where "RSI \<equiv> 5"
abbreviation (input) RDI :: reg_t where "RDI \<equiv> 6"
abbreviation (input) RSP :: reg_t where "RSP \<equiv> 7"
abbreviation (input) R8 :: reg_t where "R8 \<equiv> 10"
abbreviation (input) R9 :: reg_t where "R9 \<equiv> 11"
abbreviation (input) R10 :: reg_t where "R10 \<equiv> 12"
abbreviation (input) R11 :: reg_t where "R11 \<equiv> 13"
abbreviation (input) R12 :: reg_t where "R12 \<equiv> 14"
abbreviation (input) R13 :: reg_t where "R13 \<equiv> 15"
abbreviation (input) R14 :: reg_t where "R14 \<equiv> 16"
abbreviation (input) R15 :: reg_t where "R15 \<equiv> 17"
abbreviation (input) RIP :: reg_t where "RIP \<equiv> 8"
abbreviation (input) RFLAGS :: reg_t where "RFLAGS \<equiv> 9"
abbreviation (input) CR0 :: reg_t where "CR0 \<equiv> 18"
abbreviation (input) CR2 :: reg_t where "CR2 \<equiv> 19"
abbreviation (input) CR3 :: reg_t where "CR3 \<equiv> 20"
abbreviation (input) CR4 :: reg_t where "CR4 \<equiv> 21"
abbreviation (input) DR0 :: reg_t where "DR0 \<equiv> 23"
abbreviation (input) DR1 :: reg_t where "DR1 \<equiv> 24"
abbreviation (input) DR2 :: reg_t where "DR2 \<equiv> 25"
abbreviation (input) DR3 :: reg_t where "DR3 \<equiv> 26"
abbreviation (input) DR6 :: reg_t where "DR6 \<equiv> 27"
abbreviation (input) DR7 :: reg_t where "DR7 \<equiv> 28"
abbreviation (input) CS_SEL :: reg_t where "CS_SEL \<equiv> 29"
abbreviation (input) DS_SEL :: reg_t where "DS_SEL \<equiv> 30"
abbreviation (input) ES_SEL :: reg_t where "ES_SEL \<equiv> 31"
abbreviation (input) FS_SEL :: reg_t where "FS_SEL \<equiv> 32"
abbreviation (input) GS_SEL :: reg_t where "GS_SEL \<equiv> 33"
abbreviation (input) SS_SEL :: reg_t where "SS_SEL \<equiv> 34"
abbreviation (input) TR_SEL :: reg_t where "TR_SEL \<equiv> 35"
abbreviation (input) LDTR_SEL :: reg_t where "LDTR_SEL \<equiv> 36"
abbreviation (input) CS_LIMIT :: reg_t where "CS_LIMIT \<equiv> 37"
abbreviation (input) DS_LIMIT :: reg_t where "DS_LIMIT \<equiv> 38"
abbreviation (input) ES_LIMIT :: reg_t where "ES_LIMIT \<equiv> 39"
abbreviation (input) FS_LIMIT :: reg_t where "FS_LIMIT \<equiv> 40"
abbreviation (input) GS_LIMIT :: reg_t where "GS_LIMIT \<equiv> 41"
abbreviation (input) SS_LIMIT :: reg_t where "SS_LIMIT \<equiv> 42"
abbreviation (input) TR_LIMIT :: reg_t where "TR_LIMIT \<equiv> 43"
abbreviation (input) LDTR_LIMIT :: reg_t where "LDTR_LIMIT \<equiv> 44"
abbreviation (input) IDTR_LIMIT :: reg_t where "IDTR_LIMIT \<equiv> 45"
abbreviation (input) GDTR_LIMIT :: reg_t where "GDTR_LIMIT \<equiv> 46"
abbreviation (input) CS_BASE :: reg_t where "CS_BASE \<equiv> 47"
abbreviation (input) DS_BASE :: reg_t where "DS_BASE \<equiv> 48"
abbreviation (input) ES_BASE :: reg_t where "ES_BASE \<equiv> 49"
abbreviation (input) FS_BASE :: reg_t where "FS_BASE \<equiv> 50"
abbreviation (input) GS_BASE :: reg_t where "GS_BASE \<equiv> 51"
abbreviation (input) SS_BASE :: reg_t where "SS_BASE \<equiv> 52"
abbreviation (input) TR_BASE :: reg_t where "TR_BASE \<equiv> 53"
abbreviation (input) LDTR_BASE :: reg_t where "LDTR_BASE \<equiv> 54"
abbreviation (input) IDTR_BASE :: reg_t where "IDTR_BASE \<equiv> 55"
abbreviation (input) GDTR_BASE :: reg_t where "GDTR_BASE \<equiv> 56"
abbreviation (input) CS_ARBYTES :: reg_t where "CS_ARBYTES \<equiv> 57"
abbreviation (input) DS_ARBYTES :: reg_t where "DS_ARBYTES \<equiv> 58"
abbreviation (input) ES_ARBYTES :: reg_t where "ES_ARBYTES \<equiv> 59"
abbreviation (input) FS_ARBYTES :: reg_t where "FS_ARBYTES \<equiv> 60"
abbreviation (input) GS_ARBYTES :: reg_t where "GS_ARBYTES \<equiv> 61"
abbreviation (input) SS_ARBYTES :: reg_t where "SS_ARBYTES \<equiv> 62"
abbreviation (input) TR_ARBYTES :: reg_t where "TR_ARBYTES \<equiv> 63"
abbreviation (input) LDTR_ARBYTES :: reg_t where "LDTR_ARBYTES \<equiv> 64"
abbreviation (input) SYSENTER_CS :: reg_t where "SYSENTER_CS \<equiv> 65"
abbreviation (input) SYSENTER_ESP :: reg_t where "SYSENTER_ESP \<equiv> 66"
abbreviation (input) SYSENTER_EIP :: reg_t where "SYSENTER_EIP \<equiv> 67"
abbreviation (input) SHADOW_GS :: reg_t where "SHADOW_GS \<equiv> 68"
abbreviation (input) MSR_FLAGS :: reg_t where "MSR_FLAGS \<equiv> 70"
abbreviation (input) MSR_LSTAR :: reg_t where "MSR_LSTAR \<equiv> 71"
abbreviation (input) MSR_CSTAR :: reg_t where "MSR_CSTAR \<equiv> 72"
abbreviation (input) MSR_SYSCALL_MASK :: reg_t where "MSR_SYSCALL_MASK \<equiv> 73"
abbreviation (input) MSR_EFER :: reg_t where "MSR_EFER \<equiv> 74"
abbreviation (input) MSR_STAR :: reg_t where "MSR_STAR \<equiv> 119"
abbreviation (input) MSR_TSC_AUX :: reg_t where "MSR_TSC_AUX \<equiv> 75"
abbreviation (input) TSC :: reg_t where "TSC \<equiv> 69"
abbreviation (input) SCTLR :: reg_t where "SCTLR \<equiv> 77"
abbreviation (input) TTBCR :: reg_t where "TTBCR \<equiv> 79"
abbreviation (input) TTBR0 :: reg_t where "TTBR0 \<equiv> 80"
abbreviation (input) TTBR1 :: reg_t where "TTBR1 \<equiv> 81"
abbreviation (input) CPSR :: reg_t where "CPSR \<equiv> 78"
abbreviation (input) R0 :: reg_t where "R0 \<equiv> 82"
abbreviation (input) R1 :: reg_t where "R1 \<equiv> 83"
abbreviation (input) R2 :: reg_t where "R2 \<equiv> 84"
abbreviation (input) R3 :: reg_t where "R3 \<equiv> 85"
abbreviation (input) R4 :: reg_t where "R4 \<equiv> 86"
abbreviation (input) R5 :: reg_t where "R5 \<equiv> 87"
abbreviation (input) R6 :: reg_t where "R6 \<equiv> 88"
abbreviation (input) R7 :: reg_t where "R7 \<equiv> 89"
abbreviation (input) SP_USR :: reg_t where "SP_USR \<equiv> 15"
abbreviation (input) LR_USR :: reg_t where "LR_USR \<equiv> 16"
abbreviation (input) LR_IRQ :: reg_t where "LR_IRQ \<equiv> 95"
abbreviation (input) SP_IRQ :: reg_t where "SP_IRQ \<equiv> 96"
abbreviation (input) LR_SVC :: reg_t where "LR_SVC \<equiv> 97"
abbreviation (input) SP_SVC :: reg_t where "SP_SVC \<equiv> 98"
abbreviation (input) LR_ABT :: reg_t where "LR_ABT \<equiv> 99"
abbreviation (input) SP_ABT :: reg_t where "SP_ABT \<equiv> 100"
abbreviation (input) LR_UND :: reg_t where "LR_UND \<equiv> 101"
abbreviation (input) SP_UND :: reg_t where "SP_UND \<equiv> 102"
abbreviation (input) R8_FIQ :: reg_t where "R8_FIQ \<equiv> 103"
abbreviation (input) R9_FIQ :: reg_t where "R9_FIQ \<equiv> 104"
abbreviation (input) R10_FIQ :: reg_t where "R10_FIQ \<equiv> 105"
abbreviation (input) R11_FIQ :: reg_t where "R11_FIQ \<equiv> 106"
abbreviation (input) R12_FIQ :: reg_t where "R12_FIQ \<equiv> 107"
abbreviation (input) SP_FIQ :: reg_t where "SP_FIQ \<equiv> 108"
abbreviation (input) LR_FIQ :: reg_t where "LR_FIQ \<equiv> 109"
abbreviation (input) PC :: reg_t where "PC \<equiv> 118"
abbreviation (input) SPSR_SVC :: reg_t where "SPSR_SVC \<equiv> 90"
abbreviation (input) SPSR_FIQ :: reg_t where "SPSR_FIQ \<equiv> 91"
abbreviation (input) SPSR_IRQ :: reg_t where "SPSR_IRQ \<equiv> 92"
abbreviation (input) SPSR_UND :: reg_t where "SPSR_UND \<equiv> 93"
abbreviation (input) SPSR_ABT :: reg_t where "SPSR_ABT \<equiv> 94"
abbreviation (input) SP_EL0 :: reg_t where "SP_EL0 \<equiv> 110"
abbreviation (input) SP_EL1 :: reg_t where "SP_EL1 \<equiv> 111"
abbreviation (input) ELR_EL1 :: reg_t where "ELR_EL1 \<equiv> 112"

definition get_hvm_fields :: reg_fields where
  "get_hvm_fields = [
    (RAX, ''rax''), (RBX, ''rbx''), (RCX, ''rcx''), (RDX, ''rdx''), (RBP, ''rbp''), (RSI, ''rsi''),
    (RDI, ''rdi''), (RSP, ''rsp''), (R8, ''r8''), (R9, ''r9''), (R10, ''r10''), (R11, ''r11''),
    (R12, ''r12''), (R13, ''r13''), (R14, ''r14''), (R15, ''r15''), (RIP, ''rip''), (RFLAGS, ''rflags''),
    (CR0, ''cr0''), (CR2, ''cr2''), (CR3, ''cr3''), (CR4, ''cr4''), (DR0, ''dr0''), (DR1, ''dr1''),
    (DR2, ''dr2''), (DR3, ''dr3''), (DR6, ''dr6''), (DR7, ''dr7''), (CS_SEL, ''cs_sel''),
    (DS_SEL, ''ds_sel''), (ES_SEL, ''es_sel''), (FS_SEL, ''fs_sel''), (GS_SEL, ''gs_sel''),
    (SS_SEL, ''ss_sel''), (TR_SEL, ''tr_sel''), (LDTR_SEL, ''ldtr_sel''), (CS_LIMIT, ''cs_limit''),
    (DS_LIMIT, ''ds_limit''), (ES_LIMIT, ''es_limit''), (FS_LIMIT, ''fs_limit''), (GS_LIMIT, ''gs_limit''),
    (SS_LIMIT, ''ss_limit''), (TR_LIMIT, ''tr_limit''), (LDTR_LIMIT, ''ldtr_limit''),
    (IDTR_LIMIT, ''idtr_limit''), (GDTR_LIMIT, ''gdtr_limit''), (CS_BASE, ''cs_base''),
    (DS_BASE, ''ds_base''), (ES_BASE, ''es_base''), (FS_BASE, ''fs_base''), (GS_BASE, ''gs_base''),
    (SS_BASE, ''ss_base''), (TR_BASE, ''tr_base''), (LDTR_BASE, ''ldtr_base''), (IDTR_BASE, ''idtr_base''),
    (GDTR_BASE, ''gdtr_base''), (CS_ARBYTES, ''cs_arbytes''), (DS_ARBYTES, ''ds_arbytes''),
    (ES_ARBYTES, ''es_arbytes''), (FS_ARBYTES, ''fs_arbytes''), (GS_ARBYTES, ''gs_arbytes''),
    (SS_ARBYTES, ''ss_arbytes''), (TR_ARBYTES, ''tr_arbytes''), (LDTR_ARBYTES, ''ldtr_arbytes''),
    (SYSENTER_CS, ''sysenter_cs''), (SYSENTER_ESP, ''sysenter_esp''), (SYSENTER_EIP, ''sysenter_eip''),
    (SHADOW_GS, ''shadow_gs''), (MSR_FLAGS, ''msr_flags''), (MSR_LSTAR, ''msr_lstar''),
    (MSR_CSTAR, ''msr_cstar''), (MSR_SYSCALL_MASK, ''msr_syscall_mask''), (MSR_EFER, ''msr_efer''),
    (MSR_STAR, ''msr_star''), (MSR_TSC_AUX, ''msr_tsc_aux''), (TSC, ''tsc'')]"

definition set_hvm_fields :: reg_fields where
  "set_hvm_fields = [
    (RAX, ''rax''), (RBX, ''rbx''), (RCX, ''rcx''), (RDX, ''rdx''), (RBP, ''rbp''), (RSI, ''rsi''),
    (RDI, ''rdi''), (RSP, ''rsp''), (R8, ''r8''), (R9, ''r9''), (R10, ''r10''), (R11, ''r11''),
    (R12, ''r12''), (R13, ''r13''), (R14, ''r14''), (R15, ''r15''), (RIP, ''rip''), (RFLAGS, ''rflags''),
    (CR0, ''cr0''), (CR2, ''cr2''), (CR3, ''cr3''), (CR4, ''cr4''), (DR0, ''dr0''), (DR1, ''dr1''),
    (DR2, ''dr2''), (DR3, ''dr3''), (DR6, ''dr6''), (DR7, ''dr7''), (CS_SEL, ''cs_sel''),
    (DS_SEL, ''ds_sel''), (ES_SEL, ''es_sel''), (FS_SEL, ''fs_sel''), (GS_SEL, ''gs_sel''),
    (SS_SEL, ''ss_sel''), (TR_SEL, ''tr_sel''), (LDTR_SEL, ''ldtr_sel''), (CS_LIMIT, ''cs_limit''),
    (DS_LIMIT, ''ds_limit''), (ES_LIMIT, ''es_limit''), (FS_LIMIT, ''fs_limit''), (GS_LIMIT, ''gs_limit''),
    (SS_LIMIT, ''ss_limit''), (TR_LIMIT, ''tr_limit''), (LDTR_LIMIT, ''ldtr_limit''),
    (IDTR_LIMIT, ''idtr_limit''), (GDTR_LIMIT, ''gdtr_limit''), (CS_BASE, ''cs_base''),
    (DS_BASE, ''ds_base''), (ES_BASE, ''es_base''), (FS_BASE, ''fs_base''), (GS_BASE, ''gs_base''),
    (SS_BASE, ''ss_base''), (TR_BASE, ''tr_base''), (LDTR_BASE, ''ldtr_base''), (IDTR_BASE, ''idtr_base''),
    (GDTR_BASE, ''gdtr_base''), (CS_ARBYTES, ''cs_arbytes''), (DS_ARBYTES, ''ds_arbytes''),
    (ES_ARBYTES, ''es_arbytes''), (FS_ARBYTES, ''fs_arbytes''), (GS_ARBYTES, ''gs_arbytes''),
    (SS_ARBYTES, ''ss_arbytes''), (TR_ARBYTES, ''tr_arbytes''), (LDTR_ARBYTES, ''ldtr_arbytes''),
    (SYSENTER_CS, ''sysenter_cs''), (SYSENTER_ESP, ''sysenter_esp''), (SYSENTER_EIP, ''sysenter_eip''),
    (SHADOW_GS, ''shadow_gs''), (MSR_FLAGS, ''msr_flags''), (MSR_LSTAR, ''msr_lstar''),
    (MSR_CSTAR, ''msr_cstar''), (MSR_SYSCALL_MASK, ''msr_syscall_mask''), (MSR_EFER, ''msr_efer''),
    (MSR_STAR, ''msr_star''), (MSR_TSC_AUX, ''msr_tsc_aux''), (TSC, ''tsc'')]"

definition get_pv64_fields :: reg_fields where
  "get_pv64_fields = [
    (RAX, ''rax''), (RBX, ''rbx''), (RCX, ''rcx''), (RDX, ''rdx''), (RBP, ''rbp''), (RSI, ''rsi''),
    (RDI, ''rdi''), (RSP, ''rsp''), (R8, ''r8''), (R9, ''r9''), (R10, ''r10''), (R11, ''r11''),
    (R12, ''r12''), (R13, ''r13''), (R14, ''r14''), (R15, ''r15''), (RIP, ''rip''), (RFLAGS, ''rflags''),
    (CR0, ''ctrlreg[0]''), (CR2, ''ctrlreg[2]''), (CR3, ''ctrlreg[3]''), (CR4, ''ctrlreg[4]''),
    (DR0, ''debugreg[0]''), (DR1, ''debugreg[1]''), (DR2, ''debugreg[2]''), (DR3, ''debugreg[3]''),
    (DR6, ''debugreg[6]''), (DR7, ''debugreg[7]''), (FS_BASE, ''fs_base''), (GS_BASE, ''gs_base_kernel''),
    (LDTR_BASE, ''ldt_base'')]"

definition set_pv64_fields :: reg_fields where
  "set_pv64_fields = [
    (RAX, ''rax''), (RBX, ''rbx''), (RCX, ''rcx''), (RDX, ''rdx''), (RBP, ''rbp''), (RSI, ''rsi''),
    (RDI, ''rdi''), (RSP, ''rsp''), (R8, ''r8''), (R9, ''r9''), (R10, ''r10''), (R11, ''r11''),
    (R12, ''r12''), (R13, ''r13''), (R14, ''r14''), (R15, ''r15''), (RIP, ''rip''), (RFLAGS, ''rflags''),
    (CR0, ''ctrlreg[0]''), (CR2, ''ctrlreg[2]''), (CR3, ''ctrlreg[3]''), (CR4, ''ctrlreg[4]''),
    (DR0, ''debugreg[0]''), (DR1, ''debugreg[1]''), (DR2, ''debugreg[2]''), (DR3, ''debugreg[3]''),
    (DR6, ''debugreg[6]''), (DR7, ''debugreg[7]''), (FS_BASE, ''fs_base''), (GS_BASE, ''gs_base_kernel''),
    (LDTR_BASE, ''ldt_base'')]"

definition get_pv32_fields :: reg_fields where
  "get_pv32_fields = [
    (RAX, ''eax''), (RBX, ''ebx''), (RCX, ''ecx''), (RDX, ''edx''), (RBP, ''ebp''), (RSI, ''esi''),
    (RDI, ''edi''), (RSP, ''esp''), (RIP, ''eip''), (RFLAGS, ''eflags''), (CR0, ''ctrlreg[0]''),
    (CR2, ''ctrlreg[2]''), (CR3, ''ctrlreg[3]''), (CR4, ''ctrlreg[4]''), (DR0, ''debugreg[0]''),
    (DR1, ''debugreg[1]''), (DR2, ''debugreg[2]''), (DR3, ''debugreg[3]''), (DR6, ''debugreg[6]''),
    (DR7, ''debugreg[7]''), (LDTR_BASE, ''ldt_base'')]"

definition set_pv32_fields :: reg_fields where
  "set_pv32_fields = [
    (RAX, ''eax''), (RBX, ''ebx''), (RCX, ''ecx''), (RDX, ''edx''), (RBP, ''ebp''), (RSI, ''esi''),
    (RDI, ''edi''), (RSP, ''esp''), (RIP, ''eip''), (RFLAGS, ''eflags''), (CR0, ''ctrlreg[0]''),
    (CR2, ''ctrlreg[2]''), (CR3, ''ctrlreg[3]''), (CR4, ''ctrlreg[4]''), (DR0, ''debugreg[0]''),
    (DR1, ''debugreg[1]''), (DR2, ''debugreg[2]''), (DR3, ''debugreg[3]''), (DR6, ''debugreg[6]''),
    (DR7, ''debugreg[7]''), (LDTR_BASE, ''ldt_base'')]"

definition get_arm_fields :: reg_fields where
  "get_arm_fields = [
    (SCTLR, ''sctlr''), (TTBCR, ''ttbcr''), (TTBR0, ''ttbr0''), (TTBR1, ''ttbr1''), (CPSR, ''cpsr''),
    (R0, ''r0_usr''), (R1, ''r1_usr''), (R2, ''r2_usr''), (R3, ''r3_usr''), (R4, ''r4_usr''),
    (R5, ''r5_usr''), (R6, ''r6_usr''), (R7, ''r7_usr''), (R8, ''r8_usr''), (R9, ''r9_usr''),
    (R10, ''r10_usr''), (R11, ''r11_usr''), (R12, ''r12_usr''), (SP_USR, ''sp_usr''), (LR_USR, ''lr_usr''),
    (LR_IRQ, ''lr_irq''), (SP_IRQ, ''sp_irq''), (LR_SVC, ''lr_svc''), (SP_SVC, ''sp_svc''),
    (LR_ABT, ''lr_abt''), (SP_ABT, ''sp_abt''), (LR_UND, ''lr_und''), (SP_UND, ''sp_und''),
    (R8_FIQ, ''r8_fiq''), (R9_FIQ, ''r9_fiq''), (R10_FIQ, ''r10_fiq''), (R11_FIQ, ''r11_fiq''),
    (R12_FIQ, ''r12_fiq''), (SP_FIQ, ''sp_fiq''), (LR_FIQ, ''lr_fiq''), (PC, ''pc32''),
    (SPSR_SVC, ''spsr_svc''), (SPSR_FIQ, ''spsr_fiq''), (SPSR_IRQ, ''spsr_irq''), (SPSR_UND, ''spsr_und''),
    (SPSR_ABT, ''spsr_abt''), (SP_EL0, ''sp_el0''), (SP_EL1, ''sp_el1''), (ELR_EL1, ''elr_el1'')]"

definition set_arm_fields :: reg_fields where
  "set_arm_fields = [
    (SCTLR, ''sctlr''), (TTBCR, ''ttbcr''), (TTBR0, ''ttbr0''), (TTBR1, ''ttbr1''), (R0, ''r0_usr''),
    (R1, ''r1_usr''), (R2, ''r2_usr''), (R3, ''r3_usr''), (R4, ''r4_usr''), (R5, ''r5_usr''),
    (R6, ''r6_usr''), (R7, ''r7_usr''), (R8, ''r8_usr''), (R9, ''r9_usr''), (R10, ''r10_usr''),
    (R11, ''r11_usr''), (R12, ''r12_usr''), (SP_USR, ''sp_usr''), (LR_USR, ''lr_usr''),
    (LR_IRQ, ''lr_irq''), (SP_IRQ, ''sp_irq''), (LR_SVC, ''lr_svc''), (SP_SVC, ''sp_svc''),
    (LR_ABT, ''lr_abt''), (SP_ABT, ''sp_abt''), (LR_UND, ''lr_und''), (SP_UND, ''sp_und''),
    (R8_FIQ, ''r8_fiq''), (R9_FIQ, ''r9_fiq''), (R10_FIQ, ''r10_fiq''), (R11_FIQ, ''r11_fiq''),
    (R12_FIQ, ''r12_fiq''), (SP_FIQ, ''sp_fiq''), (LR_FIQ, ''lr_fiq''), (PC, ''pc32''),
    (SPSR_SVC, ''spsr_svc''), (SPSR_FIQ, ''spsr_fiq''), (SPSR_IRQ, ''spsr_irq''), (SPSR_UND, ''spsr_und''),
    (SPSR_ABT, ''spsr_abt''), (SP_EL0, ''sp_el0''), (SP_EL1, ''sp_el1''), (ELR_EL1, ''elr_el1'')]"

definition get_all_fields :: "(string \<times> string) list" where
  "get_all_fields = [
    (''rax'', ''rax''), (''rbx'', ''rbx''), (''rcx'', ''rcx''), (''rdx'', ''rdx''), (''rbp'', ''rbp''),
    (''rsi'', ''rsi''), (''rdi'', ''rdi''), (''rsp'', ''rsp''), (''r8'', ''r8''), (''r9'', ''r9''),
    (''r10'', ''r10''), (''r11'', ''r11''), (''r12'', ''r12''), (''r13'', ''r13''), (''r14'', ''r14''),
    (''r15'', ''r15''), (''rip'', ''rip''), (''rflags'', ''rflags''), (''cr0'', ''cr0''),
    (''cr2'', ''cr2''), (''cr3'', ''cr3''), (''cr4'', ''cr4''), (''dr7'', ''dr7''),
    (''fs_base'', ''fs_base''), (''fs_limit'', ''fs_limit''), (''fs_sel'', ''fs_sel''),
    (''fs_arbytes'', ''fs_arbytes''), (''gs_base'', ''gs_base''), (''gs_limit'', ''gs_limit''),
    (''gs_sel'', ''gs_sel''), (''gs_arbytes'', ''gs_arbytes''), (''cs_base'', ''cs_base''),
    (''cs_limit'', ''cs_limit''), (''cs_sel'', ''cs_sel''), (''cs_arbytes'', ''cs_arbytes''),
    (''ss_base'', ''ss_base''), (''ss_limit'', ''ss_limit''), (''ss_sel'', ''ss_sel''),
    (''ss_arbytes'', ''ss_arbytes''), (''ds_base'', ''ds_base''), (''ds_limit'', ''ds_limit''),
    (''ds_sel'', ''ds_sel''), (''ds_arbytes'', ''ds_arbytes''), (''es_base'', ''es_base''),
    (''es_limit'', ''es_limit''), (''es_sel'', ''es_sel''), (''es_arbytes'', ''es_arbytes''),
    (''tr_base'', ''tr_base''), (''tr_limit'', ''tr_limit''), (''tr_sel'', ''tr_sel''),
    (''tr_arbytes'', ''tr_arbytes''), (''ldt_base'', ''ldtr_base''), (''ldt_limit'', ''ldtr_limit''),
    (''ldt_sel'', ''ldtr_sel''), (''ldt_arbytes'', ''ldtr_arbytes''), (''shadow_gs'', ''shadow_gs''),
    (''idtr_base'', ''idtr_base''), (''idtr_limit'', ''idtr_limit''), (''gdtr_base'', ''gdtr_base''),
    (''gdtr_limit'', ''gdtr_limit''), (''sysenter_cs'', ''sysenter_cs''),
    (''sysenter_esp'', ''sysenter_esp''), (''sysenter_eip'', ''sysenter_eip''),
    (''msr_efer'', ''msr_efer''), (''msr_star'', ''msr_star''), (''msr_lstar'', ''msr_lstar''),
    (''msr_cstar'', ''msr_cstar'')]"

definition set_all_fields :: "(string \<times> string) list" where
  "set_all_fields = [
    (''rax'', ''rax''), (''rbx'', ''rbx''), (''rcx'', ''rcx''), (''rdx'', ''rdx''), (''rbp'', ''rbp''),
    (''rsi'', ''rsi''), (''rdi'', ''rdi''), (''rsp'', ''rsp''), (''r8'', ''r8''), (''r9'', ''r9''),
    (''r10'', ''r10''), (''r11'', ''r11''), (''r12'', ''r12''), (''r13'', ''r13''), (''r14'', ''r14''),
    (''r15'', ''r15''), (''rip'', ''rip''), (''rflags'', ''rflags''), (''cr0'', ''cr0''),
    (''cr2'', ''cr2''), (''cr3'', ''cr3''), (''cr4'', ''cr4''), (''dr7'', ''dr7''),
    (''fs_base'', ''fs_base''), (''gs_base'', ''gs_base''), (''cs_arbytes'', ''cs_arbytes''),
    (''sysenter_cs'', ''sysenter_cs''), (''sysenter_esp'', ''sysenter_esp''),
    (''sysenter_eip'', ''sysenter_eip''), (''msr_lstar'', ''msr_lstar''), (''msr_efer'', ''msr_efer''),
    (''msr_star'', ''msr_star'')]"

section \<open>Contexts and calls\<close>

definition store_field :: "(string \<Rightarrow> nat) \<Rightarrow> string \<Rightarrow> u64 \<Rightarrow> reg_context \<Rightarrow> reg_context" where
  "store_field width f value ctx = ctx(f := take_bit (width f) value)"

record hvm_save =
  hs_typecode :: u16
  hs_instance :: u16
  hs_cpu :: reg_context

abbreviation (input) HVM_SAVE_CODE_CPU :: u16 where "HVM_SAVE_CODE_CPU \<equiv> 2"

text \<open>\<open>rc_getcontext\<close> is \<^verbatim>\<open>None\<close> when the size cannot be had or the context cannot be
  fetched; the booleans say that a call succeeded.\<close>

record 'h reg_calls =
  rc_pause :: "'h \<Rightarrow> bool \<times> 'h"
  rc_unpause :: "'h \<Rightarrow> 'h"
  rc_getcontext_partial :: "nat \<Rightarrow> 'h \<Rightarrow> reg_context option"
  rc_getcontext :: "'h \<Rightarrow> hvm_save list option"
  rc_setcontext :: "hvm_save list \<Rightarrow> 'h \<Rightarrow> bool \<times> 'h"
  rc_vcpu_getcontext :: "nat \<Rightarrow> 'h \<Rightarrow> reg_context option"
  rc_vcpu_setcontext :: "nat \<Rightarrow> reg_context \<Rightarrow> 'h \<Rightarrow> bool \<times> 'h"

text \<open>The loop over the records of the buffer: the first with the registers of the CPU.\<close>

fun locate_cpu :: "nat \<Rightarrow> hvm_save list \<Rightarrow> nat option" where
  "locate_cpu vcpu [] = None"
| "locate_cpu vcpu (desc # rest) =
     (if hs_typecode desc = HVM_SAVE_CODE_CPU \<and> unat (hs_instance desc) = vcpu then Some 0
      else map_option Suc (locate_cpu vcpu rest))"

section \<open>Hardware-virtualised guests\<close>

definition xen_get_vcpureg_hvm :: "'h reg_calls \<Rightarrow> reg_t \<Rightarrow> nat \<Rightarrow> 'h \<Rightarrow> u64 option" where
  "xen_get_vcpureg_hvm rc reg vcpu h =
     (case rc_getcontext_partial rc vcpu h of
        None \<Rightarrow> None
      | Some hvm_cpu \<Rightarrow> map_option hvm_cpu (map_of get_hvm_fields reg))"

text \<open>The structure with all registers, by its fields; those that are not named keep their value.\<close>

definition xen_get_vcpuregs_hvm :: "'h reg_calls \<Rightarrow> nat \<Rightarrow> reg_context \<Rightarrow> 'h \<Rightarrow> reg_context option" where
  "xen_get_vcpuregs_hvm rc vcpu regs h =
     (case rc_getcontext_partial rc vcpu h of
        None \<Rightarrow> None
      | Some hvm_cpu \<Rightarrow> Some (\<lambda>r. case map_of get_all_fields r of None \<Rightarrow> regs r | Some f \<Rightarrow> hvm_cpu f))"

text \<open>Both writers: pause, fetch the context, change it, store it, resume.\<close>

definition with_hvm_context :: "'h reg_calls \<Rightarrow> nat \<Rightarrow> (reg_context \<Rightarrow> status \<times> reg_context) \<Rightarrow> 'h \<Rightarrow> status \<times> 'h" where
  "with_hvm_context rc vcpu change h =
     (case rc_pause rc h of
        (False, h) \<Rightarrow> (VMI_FAILURE, h)
      | (True, h) \<Rightarrow>
      (case (case rc_getcontext rc h of
               None \<Rightarrow> (VMI_FAILURE, h)
             | Some buf \<Rightarrow>
             (case locate_cpu vcpu buf of
                None \<Rightarrow> (VMI_FAILURE, h)
              | Some i \<Rightarrow>
              (case change (hs_cpu (buf ! i)) of
                 (ret, cpu) \<Rightarrow>
               (case rc_setcontext rc (buf[i := (buf ! i)\<lparr> hs_cpu := cpu \<rparr>]) h of
                  (False, h) \<Rightarrow> (VMI_FAILURE, h)
                | (True, h) \<Rightarrow> (ret, h))))) of
         (ret, h) \<Rightarrow> (ret, rc_unpause rc h)))"

definition xen_set_vcpureg_hvm :: "'h reg_calls \<Rightarrow> (string \<Rightarrow> nat) \<Rightarrow> u64 \<Rightarrow> reg_t \<Rightarrow> nat \<Rightarrow> 'h \<Rightarrow> status \<times> 'h" where
  "xen_set_vcpureg_hvm rc width value reg vcpu h =
     with_hvm_context rc vcpu (\<lambda>cpu. case map_of set_hvm_fields reg of
         None \<Rightarrow> (VMI_FAILURE, cpu)
       | Some f \<Rightarrow> (VMI_SUCCESS, store_field width f value cpu)) h"

definition xen_set_vcpuregs_hvm :: "'h reg_calls \<Rightarrow> (string \<Rightarrow> nat) \<Rightarrow> reg_context \<Rightarrow> nat \<Rightarrow> 'h \<Rightarrow> status \<times> 'h" where
  "xen_set_vcpuregs_hvm rc width regs vcpu h =
     with_hvm_context rc vcpu (\<lambda>cpu.
       (VMI_SUCCESS, fold (\<lambda>(r, f). store_field width f (regs r)) set_all_fields cpu)) h"

section \<open>Paravirtualised guests\<close>

text \<open>The conversions between CR3 and frame numbers are macros of Xen's headers, parameters here.\<close>

definition xen_get_vcpureg_pv64 :: "'h reg_calls \<Rightarrow> (u64 \<Rightarrow> u64) \<Rightarrow> reg_t \<Rightarrow> nat \<Rightarrow> 'h \<Rightarrow> u64 option" where
  "xen_get_vcpureg_pv64 rc cr3_to_pfn reg vcpu h =
     (case rc_vcpu_getcontext rc vcpu h of
        None \<Rightarrow> None
      | Some ctx \<Rightarrow>
      (case map_of get_pv64_fields reg of
         None \<Rightarrow> None
       | Some f \<Rightarrow> Some (if reg = CR3 then push_bit 12 (cr3_to_pfn (ctx f)) else ctx f)))"

definition xen_set_vcpureg_pv64 :: "'h reg_calls \<Rightarrow> (string \<Rightarrow> nat) \<Rightarrow> (u64 \<Rightarrow> u64) \<Rightarrow> u64 \<Rightarrow> reg_t \<Rightarrow> nat \<Rightarrow> 'h \<Rightarrow>
    status \<times> 'h" where
  "xen_set_vcpureg_pv64 rc width pfn_to_cr3 value reg vcpu h =
     (case rc_vcpu_getcontext rc vcpu h of
        None \<Rightarrow> (VMI_FAILURE, h)
      | Some ctx \<Rightarrow>
      (case map_of set_pv64_fields reg of
         None \<Rightarrow> (VMI_FAILURE, h)
       | Some f \<Rightarrow>
           let value = (if reg = CR3 then pfn_to_cr3 (drop_bit 12 value) else value) in
           (case rc_vcpu_setcontext rc vcpu (store_field width f value ctx) h of
              (ok, h) \<Rightarrow> (if ok then VMI_SUCCESS else VMI_FAILURE, h))))"

definition xen_get_vcpureg_pv32 :: "'h reg_calls \<Rightarrow> (u64 \<Rightarrow> u64) \<Rightarrow> reg_t \<Rightarrow> nat \<Rightarrow> 'h \<Rightarrow> u64 option" where
  "xen_get_vcpureg_pv32 rc cr3_to_pfn reg vcpu h =
     (case rc_vcpu_getcontext rc vcpu h of
        None \<Rightarrow> None
      | Some ctx \<Rightarrow>
      (case map_of get_pv32_fields reg of
         None \<Rightarrow> None
       | Some f \<Rightarrow> Some (if reg = CR3 then push_bit 12 (cr3_to_pfn (ctx f)) else ctx f)))"

definition xen_set_vcpureg_pv32 :: "'h reg_calls \<Rightarrow> (string \<Rightarrow> nat) \<Rightarrow> (u64 \<Rightarrow> u64) \<Rightarrow> u64 \<Rightarrow> reg_t \<Rightarrow> nat \<Rightarrow> 'h \<Rightarrow>
    status \<times> 'h" where
  "xen_set_vcpureg_pv32 rc width pfn_to_cr3 value reg vcpu h =
     (case rc_vcpu_getcontext rc vcpu h of
        None \<Rightarrow> (VMI_FAILURE, h)
      | Some ctx \<Rightarrow>
      (case map_of set_pv32_fields reg of
         None \<Rightarrow> (VMI_FAILURE, h)
       | Some f \<Rightarrow>
           let value = (if reg = CR3 then pfn_to_cr3 (drop_bit 12 value) else value) in
           (case rc_vcpu_setcontext rc vcpu (store_field width f value ctx) h of
              (ok, h) \<Rightarrow> (if ok then VMI_SUCCESS else VMI_FAILURE, h))))"

section \<open>ARM guests\<close>

definition xen_get_vcpureg_arm :: "'h reg_calls \<Rightarrow> reg_t \<Rightarrow> nat \<Rightarrow> 'h \<Rightarrow> u64 option" where
  "xen_get_vcpureg_arm rc reg vcpu h =
     (case rc_vcpu_getcontext rc vcpu h of
        None \<Rightarrow> None
      | Some ctx \<Rightarrow> map_option ctx (map_of get_arm_fields reg))"

definition xen_set_vcpureg_arm :: "'h reg_calls \<Rightarrow> (string \<Rightarrow> nat) \<Rightarrow> u64 \<Rightarrow> reg_t \<Rightarrow> nat \<Rightarrow> 'h \<Rightarrow> status \<times> 'h" where
  "xen_set_vcpureg_arm rc width value reg vcpu h =
     (case rc_vcpu_getcontext rc vcpu h of
        None \<Rightarrow> (VMI_FAILURE, h)
      | Some ctx \<Rightarrow>
      (case map_of set_arm_fields reg of
         None \<Rightarrow> (VMI_FAILURE, h)
       | Some f \<Rightarrow>
           (case rc_vcpu_setcontext rc vcpu (store_field width f value ctx) h of
              (ok, h) \<Rightarrow> (if ok then VMI_SUCCESS else VMI_FAILURE, h))))"

section \<open>The driver's functions\<close>

text \<open>On x86; the conversions of CR3 for both sizes.\<close>

record cr3_macros =
  cm_cr3_to_pfn_64 :: "u64 \<Rightarrow> u64"
  cm_pfn_to_cr3_64 :: "u64 \<Rightarrow> u64"
  cm_cr3_to_pfn_32 :: "u64 \<Rightarrow> u64"
  cm_pfn_to_cr3_32 :: "u64 \<Rightarrow> u64"

definition xen_get_vcpureg :: "'h reg_calls \<Rightarrow> cr3_macros \<Rightarrow> vm_type \<Rightarrow> reg_t \<Rightarrow> nat \<Rightarrow> 'h \<Rightarrow> u64 option" where
  "xen_get_vcpureg rc cm vt reg vcpu h =
     (if vt = HVM then xen_get_vcpureg_hvm rc reg vcpu h
      else if vt = PV64 then xen_get_vcpureg_pv64 rc (cm_cr3_to_pfn_64 cm) reg vcpu h
      else if vt = PV32 then xen_get_vcpureg_pv32 rc (cm_cr3_to_pfn_32 cm) reg vcpu h
      else None)"

definition xen_set_vcpureg :: "'h reg_calls \<Rightarrow> (string \<Rightarrow> nat) \<Rightarrow> cr3_macros \<Rightarrow> vm_type \<Rightarrow> u64 \<Rightarrow> reg_t \<Rightarrow> nat \<Rightarrow> 'h \<Rightarrow>
    status \<times> 'h" where
  "xen_set_vcpureg rc width cm vt value reg vcpu h =
     (if vt = HVM then xen_set_vcpureg_hvm rc width value reg vcpu h
      else if vt = PV64 then xen_set_vcpureg_pv64 rc width (cm_pfn_to_cr3_64 cm) value reg vcpu h
      else if vt = PV32 then xen_set_vcpureg_pv32 rc width (cm_pfn_to_cr3_32 cm) value reg vcpu h
      else (VMI_FAILURE, h))"

definition xen_get_vcpuregs :: "'h reg_calls \<Rightarrow> vm_type \<Rightarrow> nat \<Rightarrow> reg_context \<Rightarrow> 'h \<Rightarrow> reg_context option" where
  "xen_get_vcpuregs rc vt vcpu regs h = (if vt = HVM then xen_get_vcpuregs_hvm rc vcpu regs h else None)"

definition xen_set_vcpuregs :: "'h reg_calls \<Rightarrow> (string \<Rightarrow> nat) \<Rightarrow> vm_type \<Rightarrow> reg_context \<Rightarrow> nat \<Rightarrow> 'h \<Rightarrow> status \<times> 'h" where
  "xen_set_vcpuregs rc width vt regs vcpu h =
     (if vt = HVM then xen_set_vcpuregs_hvm rc width regs vcpu h else (VMI_FAILURE, h))"

definition xen_is_pv :: "vm_type \<Rightarrow> bool" where
  "xen_is_pv vt \<longleftrightarrow> \<not> vt = HVM"

section \<open>The tables\<close>

lemma tables_agree: "set_hvm_fields = get_hvm_fields" "set_pv64_fields = get_pv64_fields" "set_pv32_fields = get_pv32_fields"
  by (simp_all add: set_hvm_fields_def get_hvm_fields_def set_pv64_fields_def get_pv64_fields_def set_pv32_fields_def
      get_pv32_fields_def)

lemma fields_distinct: "distinct (map snd get_hvm_fields)" "distinct (map snd get_pv64_fields)" "distinct (map snd get_pv32_fields)"
  by code_simp+

lemma map_of_inj:
  assumes "distinct (map snd t)" and "map_of t r = Some f" and "map_of t r' = Some f"
  shows "r' = r"
proof -
  have "inj_on snd (set t)" using assms(1) by (simp add: distinct_map)
  then have "(r', f) = (r, f)" by (rule inj_onD) (simp_all add: map_of_SomeD [OF assms(2)] map_of_SomeD [OF assms(3)])
  then show ?thesis by simp
qed

text \<open>Reading a table after one of its fields was stored.\<close>

lemma stored_field:
  assumes "distinct (map snd t)" and "map_of t r = Some f"
  shows "map_option (store_field width f v ctx) (map_of t r') =
    (if r' = r then Some (take_bit (width f) v) else map_option ctx (map_of t r'))"
proof (cases "map_of t r'")
  case None
  then show ?thesis using assms(2) by auto
next
  case (Some g)
  have "g \<noteq> f" if "r' \<noteq> r" using map_of_inj [OF assms, of r'] Some that by blast
  then show ?thesis using Some assms(2) by (cases "r' = r") (auto simp: store_field_def)
qed

section \<open>Sound calls\<close>

text \<open>What the driver relies on: the calls show and change the registers \<open>view h vcpu\<close> of the
  virtual CPUs, and the calls to pause and resume leave them alone.\<close>

definition cpu_of :: "hvm_save list \<Rightarrow> nat \<Rightarrow> reg_context option" where
  "cpu_of buf vcpu = map_option (\<lambda>i. hs_cpu (buf ! i)) (locate_cpu vcpu buf)"

definition sound_hvm_calls :: "'h reg_calls \<Rightarrow> ('h \<Rightarrow> nat \<Rightarrow> reg_context option) \<Rightarrow> bool" where
  "sound_hvm_calls rc view \<longleftrightarrow>
     (\<forall>h v. rc_getcontext_partial rc v h = view h v) \<and>
     (\<forall>h. view (snd (rc_pause rc h)) = view h) \<and> (\<forall>h. view (rc_unpause rc h) = view h) \<and>
     (\<forall>h buf. rc_getcontext rc h = Some buf \<longrightarrow> view h = cpu_of buf) \<and>
     (\<forall>h buf. fst (rc_setcontext rc buf h) \<longrightarrow> view (snd (rc_setcontext rc buf h)) = cpu_of buf)"

definition sound_vcpu_calls :: "'h reg_calls \<Rightarrow> ('h \<Rightarrow> nat \<Rightarrow> reg_context option) \<Rightarrow> bool" where
  "sound_vcpu_calls rc view \<longleftrightarrow>
     (\<forall>h v. rc_vcpu_getcontext rc v h = view h v) \<and>
     (\<forall>h v ctx. fst (rc_vcpu_setcontext rc v ctx h) \<longrightarrow> view (snd (rc_vcpu_setcontext rc v ctx h)) = (view h)(v \<mapsto> ctx))"

lemma locate_same:
  assumes "locate_cpu vcpu buf = Some i"
  shows "i < length buf" and "locate_cpu v (buf[i := (buf ! i)\<lparr> hs_cpu := c \<rparr>]) = locate_cpu v buf"
    and "locate_cpu v buf = Some i \<Longrightarrow> v = vcpu"
proof -
  have "i < length buf \<and> locate_cpu v (buf[i := (buf ! i)\<lparr> hs_cpu := c \<rparr>]) = locate_cpu v buf \<and> (locate_cpu v buf = Some i \<longrightarrow> v = vcpu)"
    using assms
  proof (induction buf arbitrary: i)
    case (Cons a buf)
    then show ?case by (cases i) (auto split: if_splits)
  qed simp
  then show "i < length buf" "locate_cpu v (buf[i := (buf ! i)\<lparr> hs_cpu := c \<rparr>]) = locate_cpu v buf"
    "locate_cpu v buf = Some i \<Longrightarrow> v = vcpu" by blast+
qed

lemma cpu_of_update:
  assumes "locate_cpu vcpu buf = Some i"
  shows "cpu_of (buf[i := (buf ! i)\<lparr> hs_cpu := c \<rparr>]) = (cpu_of buf)(vcpu \<mapsto> c)"
proof
  fix v
  show "cpu_of (buf[i := (buf ! i)\<lparr> hs_cpu := c \<rparr>]) v = ((cpu_of buf)(vcpu \<mapsto> c)) v"
    using locate_same(1) [OF assms] locate_same(2) [OF assms, of v c] locate_same(3) [OF assms, of v] assms
    by (cases "locate_cpu v buf") (auto simp: cpu_of_def nth_list_update)
qed

lemma with_context_success:
  assumes "sound_hvm_calls rc view" and "with_hvm_context rc vcpu change h = (VMI_SUCCESS, h')"
  obtains cpu cpu' where "view h vcpu = Some cpu" and "change cpu = (VMI_SUCCESS, cpu')" and "view h' = (view h)(vcpu \<mapsto> cpu')"
proof -
  have snd: "view (snd (rc_pause rc k)) = view k" "view (rc_unpause rc k) = view k"
    "rc_getcontext rc k = Some b \<Longrightarrow> view k = cpu_of b"
    "fst (rc_setcontext rc b k) \<Longrightarrow> view (snd (rc_setcontext rc b k)) = cpu_of b" for k b
    using assms(1) by (simp_all add: sound_hvm_calls_def)
  obtain h1 where p: "rc_pause rc h = (True, h1)"
    using assms(2) by (cases "rc_pause rc h") (auto simp: with_hvm_context_def split: bool.splits)
  obtain buf where b: "rc_getcontext rc h1 = Some buf"
    using assms(2) by (cases "rc_getcontext rc h1") (auto simp: with_hvm_context_def p)
  obtain i where i: "locate_cpu vcpu buf = Some i"
    using assms(2) by (cases "locate_cpu vcpu buf") (auto simp: with_hvm_context_def p b)
  obtain ret cpu' where c: "change (hs_cpu (buf ! i)) = (ret, cpu')" by (rule prod.exhaust)
  let ?b = "buf[i := (buf ! i)\<lparr> hs_cpu := cpu' \<rparr>]"
  obtain ok h2 where s: "rc_setcontext rc ?b h1 = (ok, h2)" by (rule prod.exhaust)
  have r: "ok" "ret = VMI_SUCCESS" "h' = rc_unpause rc h2"
    using assms(2) by (auto simp: with_hvm_context_def p b i c s split: bool.splits)
  have v: "view h = cpu_of buf" using snd(1) [of h] snd(3) [OF b] p by simp
  show thesis
  proof (rule that [of "hs_cpu (buf ! i)" cpu'])
    show "view h vcpu = Some (hs_cpu (buf ! i))" by (simp add: v cpu_of_def i)
    show "change (hs_cpu (buf ! i)) = (VMI_SUCCESS, cpu')" using c r(2) by simp
    show "view h' = (view h)(vcpu \<mapsto> cpu')" using snd(4) [of ?b h1] s r snd(2) by (simp add: v cpu_of_update [OF i])
  qed
qed

section \<open>Properties\<close>

text \<open>C36. Writing a register of a hardware-virtualised guest: when the call succeeds, reading the register gives the
  value, cut to the register's field; every other register of every virtual CPU reads as before.\<close>

theorem hvm_register_round_trip:
  assumes "sound_hvm_calls rc view" and "xen_set_vcpureg rc width cm HVM value reg vcpu h = (VMI_SUCCESS, h')"
  shows "\<exists>f. map_of get_hvm_fields reg = Some f \<and>
    xen_get_vcpureg rc cm HVM r v h' =
      (if r = reg \<and> v = vcpu then Some (take_bit (width f) value) else xen_get_vcpureg rc cm HVM r v h)"
proof -
  have p: "rc_getcontext_partial rc v k = view k v" for v k using assms(1) by (simp add: sound_hvm_calls_def)
  let ?ch = "\<lambda>cpu. case map_of get_hvm_fields reg of None \<Rightarrow> (VMI_FAILURE, cpu) | Some f \<Rightarrow> (VMI_SUCCESS, store_field width f value cpu)"
  have "with_hvm_context rc vcpu ?ch h = (VMI_SUCCESS, h')"
    using assms(2) by (simp add: xen_set_vcpureg_def xen_set_vcpureg_hvm_def tables_agree)
  then obtain cpu cpu' where c: "view h vcpu = Some cpu" "?ch cpu = (VMI_SUCCESS, cpu')" "view h' = (view h)(vcpu \<mapsto> cpu')"
    by (rule with_context_success [OF assms(1)])
  obtain f where f: "map_of get_hvm_fields reg = Some f" "cpu' = store_field width f value cpu"
    using c(2) by (auto split: option.splits)
  show ?thesis
    using f c stored_field [OF fields_distinct(1) f(1), of width "value" cpu r]
    by (auto simp: xen_get_vcpureg_def xen_get_vcpureg_hvm_def p)
qed

text \<open>Writing a register of a 64-bit paravirtualised guest, when the conversions of CR3 are inverse to each other and
  the fields have 64 bits: reading gives the value, CR3 without its offset in the page; all other registers read as before.\<close>

theorem pv64_register_round_trip:
  assumes "sound_vcpu_calls rc view" and "xen_set_vcpureg rc (\<lambda>f. 64) cm PV64 value reg vcpu h = (VMI_SUCCESS, h')"
    and "cm_cr3_to_pfn_64 cm (cm_pfn_to_cr3_64 cm (drop_bit 12 value)) = drop_bit 12 value"
  shows "xen_get_vcpureg rc cm PV64 r v h' =
    (if r = reg \<and> v = vcpu then Some (if reg = CR3 then clear_low 12 value else value) else xen_get_vcpureg rc cm PV64 r v h)"
proof -
  have g: "rc_vcpu_getcontext rc v k = view k v" for v k using assms(1) by (simp add: sound_vcpu_calls_def)
  obtain ctx where c: "view h vcpu = Some ctx"
    using assms(2) g by (cases "view h vcpu") (auto simp: xen_set_vcpureg_def xen_set_vcpureg_pv64_def)
  obtain f where f: "map_of get_pv64_fields reg = Some f"
    using assms(2) g c by (cases "map_of get_pv64_fields reg") (auto simp: xen_set_vcpureg_def xen_set_vcpureg_pv64_def tables_agree)
  let ?v = "if reg = CR3 then cm_pfn_to_cr3_64 cm (drop_bit 12 value) else value"
  have s: "rc_vcpu_setcontext rc vcpu (store_field (\<lambda>f. 64) f ?v ctx) h = (True, h')"
    using assms(2) g c f by (auto simp: xen_set_vcpureg_def xen_set_vcpureg_pv64_def tables_agree Let_def split: prod.splits if_splits)
  then have w: "view h' = (view h)(vcpu \<mapsto> store_field (\<lambda>f. 64) f ?v ctx)"
    using assms(1) unfolding sound_vcpu_calls_def by (metis fst_conv snd_conv)
  have t: "take_bit 64 w = w" for w :: u64 by (simp add: take_bit_word_eq_self)
  have cl: "push_bit 12 (drop_bit 12 w) = clear_low 12 w" for w :: u64 by (simp add: clear_low_def)
  note st = stored_field [OF fields_distinct(2) f, of "\<lambda>f. 64" ?v ctx r, unfolded t]
  show ?thesis
  proof (cases "v = vcpu")
    case True
    then show ?thesis
      using st c f assms(3) by (auto simp: xen_get_vcpureg_def xen_get_vcpureg_pv64_def g w cl split: option.splits if_splits)
  next
    case False
    then show ?thesis by (simp add: xen_get_vcpureg_def xen_get_vcpureg_pv64_def g w)
  qed
qed

text \<open>A hypervisor whose state is the buffer of the domain's context.\<close>

definition rc0 :: "hvm_save list reg_calls" where
  "rc0 = \<lparr> rc_pause = (\<lambda>h. (True, h)), rc_unpause = (\<lambda>h. h), rc_getcontext_partial = (\<lambda>v h. cpu_of h v),
     rc_getcontext = (\<lambda>h. Some h), rc_setcontext = (\<lambda>buf h. (True, buf)), rc_vcpu_getcontext = (\<lambda>v h. cpu_of h v),
     rc_vcpu_setcontext = (\<lambda>v ctx h. case locate_cpu v h of None \<Rightarrow> (False, h)
         | Some i \<Rightarrow> (True, h[i := (h ! i)\<lparr> hs_cpu := ctx \<rparr>])) \<rparr>"

lemma sound_rc0: "sound_hvm_calls rc0 cpu_of" "sound_vcpu_calls rc0 cpu_of"
proof -
  show "sound_hvm_calls rc0 cpu_of" by (simp add: sound_hvm_calls_def rc0_def)
  have "cpu_of (snd (rc_vcpu_setcontext rc0 v ctx h)) = (cpu_of h)(v \<mapsto> ctx)" if "fst (rc_vcpu_setcontext rc0 v ctx h)" for v ctx h
    using that cpu_of_update [of v h _ ctx] by (auto simp: rc0_def split: option.splits)
  then show "sound_vcpu_calls rc0 cpu_of" by (simp add: sound_vcpu_calls_def) (simp add: rc0_def)
qed

definition hvm0 :: "hvm_save list" where
  "hvm0 = [\<lparr> hs_typecode = 1, hs_instance = 0, hs_cpu = (\<lambda>f. 0) \<rparr>, \<lparr> hs_typecode = 2, hs_instance = 0, hs_cpu = (\<lambda>f. 5) \<rparr>,
     \<lparr> hs_typecode = 2, hs_instance = 1, hs_cpu = (\<lambda>f. 6) \<rparr>]"

definition cm0 :: cr3_macros where
  "cm0 = \<lparr> cm_cr3_to_pfn_64 = drop_bit 12, cm_pfn_to_cr3_64 = push_bit 12, cm_cr3_to_pfn_32 = drop_bit 12, cm_pfn_to_cr3_32 = push_bit 12 \<rparr>"

lemma hvm_register_round_trip_witness:
  "\<exists>h'. xen_set_vcpureg rc0 (\<lambda>f. 32) cm0 HVM 0x123456789 CS_LIMIT 1 hvm0 = (VMI_SUCCESS, h') \<and>
    xen_get_vcpureg rc0 cm0 HVM CS_LIMIT 1 h' = Some 0x23456789 \<and> xen_get_vcpureg rc0 cm0 HVM CS_LIMIT 0 h' = Some 5"
proof -
  obtain h' where h: "xen_set_vcpureg rc0 (\<lambda>f. 32) cm0 HVM 0x123456789 CS_LIMIT 1 hvm0 = (VMI_SUCCESS, h')"
    by (simp add: xen_set_vcpureg_def xen_set_vcpureg_hvm_def with_hvm_context_def rc0_def hvm0_def set_hvm_fields_def)
  note r = hvm_register_round_trip [OF sound_rc0(1) h]
  have g: "xen_get_vcpureg rc0 cm0 HVM CS_LIMIT 0 hvm0 = Some 5"
    by (simp add: xen_get_vcpureg_def xen_get_vcpureg_hvm_def rc0_def hvm0_def cpu_of_def get_hvm_fields_def)
  have "xen_get_vcpureg rc0 cm0 HVM CS_LIMIT 1 h' = Some 0x23456789" using r [of CS_LIMIT 1] by (auto simp: take_bit_eq_mod)
  moreover have "xen_get_vcpureg rc0 cm0 HVM CS_LIMIT 0 h' = Some 5" using r [of CS_LIMIT 0] g by auto
  ultimately show ?thesis using h by blast
qed

lemma pv64_register_round_trip_witness:
  "\<exists>h'. xen_set_vcpureg rc0 (\<lambda>f. 64) cm0 PV64 0x1aa123 CR3 1 hvm0 = (VMI_SUCCESS, h') \<and>
    xen_get_vcpureg rc0 cm0 PV64 CR3 1 h' = Some 0x1aa000"
proof -
  obtain h' where h: "xen_set_vcpureg rc0 (\<lambda>f. 64) cm0 PV64 0x1aa123 CR3 1 hvm0 = (VMI_SUCCESS, h')"
    by (simp add: xen_set_vcpureg_def xen_set_vcpureg_pv64_def rc0_def hvm0_def set_pv64_fields_def cpu_of_def Let_def)
  have m: "cm_cr3_to_pfn_64 cm0 (cm_pfn_to_cr3_64 cm0 (drop_bit 12 0x1aa123)) = drop_bit 12 (0x1aa123 :: u64)"
    by (simp add: cm0_def drop_bit_eq_div push_bit_eq_mult)
  show ?thesis
    using h pv64_register_round_trip [OF sound_rc0(2) h m, of CR3 1] by (simp add: clear_low_def drop_bit_eq_div push_bit_eq_mult)
qed

end
