(* ===== verification/Xen_Rings.thy ===== *)
theory Xen_Rings
  imports Xen_Events
begin

text \<open>
  The older layouts of the event ring, \<^verbatim>\<open>process_requests_1\<close> to
  \<^verbatim>\<open>process_requests_6\<close> of \<^verbatim>\<open>driver/xen/xen_events.c\<close>.  The functions repeat one loop
  with the structures of their version: which parts of a request are copied, which parts of a
  response are written, which registers there are.  The differences are a record
  \<open>ring_layout\<close>; the locale \<open>layout_laws\<close> has what the loop relies on, and every version
  is an interpretation of it.  Registers are named as in \<^verbatim>\<open>x86_registers_t\<close>; the selector
  fields of the structures of versions 4 and later have other names for the same registers.
\<close>

unbundle bit_operations_syntax

section \<open>The registers of a version\<close>

definition regs_x86_1 :: "string list" where
  "regs_x86_1 = [''rcx'', ''rdx'', ''rbx'', ''rsp'', ''rbp'', ''rsi'', ''r8'', ''r9'', ''r10'', ''r11'', ''r12'',
     ''r13'', ''r14'', ''r15'', ''rflags'', ''dr7'', ''sysenter_cs'', ''sysenter_esp'', ''sysenter_eip'',
     ''msr_star'', ''fs_base'', ''gs_base'', ''cs_arbytes'']"

definition regs_x86_4 :: "string list" where
  "regs_x86_4 = [''rcx'', ''rdx'', ''rbx'', ''rsp'', ''rbp'', ''rsi'', ''r8'', ''r9'', ''r10'', ''r11'', ''r12'',
     ''r13'', ''r14'', ''r15'', ''rflags'', ''dr6'', ''dr7'', ''sysenter_cs'', ''sysenter_esp'',
     ''sysenter_eip'', ''msr_star'', ''shadow_gs'', ''fs_base'', ''fs_sel'', ''fs_limit'', ''fs_arbytes'',
     ''gs_base'', ''gs_sel'', ''gs_limit'', ''gs_arbytes'', ''cs_base'', ''cs_sel'', ''cs_limit'',
     ''cs_arbytes'', ''ds_base'', ''ds_sel'', ''ds_limit'', ''ds_arbytes'', ''es_base'', ''es_sel'',
     ''es_limit'', ''es_arbytes'', ''ss_base'', ''ss_sel'', ''ss_limit'', ''ss_arbytes'']"

definition regs_x86_5 :: "string list" where
  "regs_x86_5 = [''rcx'', ''rdx'', ''rbx'', ''rsp'', ''rbp'', ''rsi'', ''r8'', ''r9'', ''r10'', ''r11'', ''r12'',
     ''r13'', ''r14'', ''r15'', ''rflags'', ''dr6'', ''dr7'', ''sysenter_cs'', ''sysenter_esp'',
     ''sysenter_eip'', ''msr_star'', ''gdtr_base'', ''gdtr_limit'', ''shadow_gs'', ''fs_base'', ''fs_sel'',
     ''fs_limit'', ''fs_arbytes'', ''gs_base'', ''gs_sel'', ''gs_limit'', ''gs_arbytes'', ''cs_base'',
     ''cs_sel'', ''cs_limit'', ''cs_arbytes'', ''ds_base'', ''ds_sel'', ''ds_limit'', ''ds_arbytes'',
     ''es_base'', ''es_sel'', ''es_limit'', ''es_arbytes'', ''ss_base'', ''ss_sel'', ''ss_limit'',
     ''ss_arbytes'']"

section \<open>Copying a request\<close>

text \<open>One structure serves all requests of a call; what a request does not set keeps the content
  it had.\<close>

definition vm_event_zero :: vm_event_compat where
  "vm_event_zero = \<lparr> vm_version = 0, vm_flags = 0, vm_reason = 0, vm_vcpu_id = 0, vm_pm = 0, vm_altp2m_idx = 0,
     vm_regs = x86_registers0, vm_mem_flags = 0, vm_mem_gfn = 0, vm_mem_gla = 0, vm_mem_offset = 0,
     vm_ctrlreg_index = 0, vm_ctrlreg_new = 0, vm_ctrlreg_old = 0, vm_msr = 0, vm_msr_new = 0, vm_msr_old = 0,
     vm_singlestep_gfn = 0, vm_bp_gfn = 0, vm_bp_insn_length = 0, vm_debug_gfn = 0, vm_debug_insn_length = 0,
     vm_debug_type = 0, vm_cpuid_insn_length = 0, vm_cpuid_leaf = 0, vm_cpuid_subleaf = 0, vm_int_vector = 0,
     vm_int_type = 0, vm_int_error_code = 0, vm_int_cr2 = 0, vm_vmexit_reason = 0, vm_vmexit_qualification = 0,
     vm_desc_exitinfo = 0, vm_desc_exit_qualification = 0, vm_desc_descriptor = 0, vm_desc_is_write = 0,
     vm_p2midx = 0, vm_emul_read_size = 0, vm_emul_read_data = [], vm_emul_insn_data = [] \<rparr>"

definition copy_regs :: "string list \<Rightarrow> x86_registers \<Rightarrow> x86_registers \<Rightarrow> x86_registers" where
  "copy_regs names src dst =
     src\<lparr> xr_npt_base := xr_npt_base dst,
          xr_rest := (\<lambda>n. if n \<in> set names then xr_rest src n else xr_rest dst n) \<rparr>"

definition copy_fixed :: "string list \<Rightarrow> vm_event_compat \<Rightarrow> vm_event_compat \<Rightarrow> vm_event_compat" where
  "copy_fixed names vmec req =
     vmec\<lparr> vm_version := vm_version req, vm_flags := vm_flags req, vm_reason := vm_reason req,
           vm_vcpu_id := vm_vcpu_id req, vm_altp2m_idx := vm_altp2m_idx req,
           vm_regs := copy_regs names (vm_regs req) (vm_regs vmec) \<rparr>"

definition copy_mem_access :: "vm_event_compat \<Rightarrow> vm_event_compat \<Rightarrow> vm_event_compat" where
  "copy_mem_access vmec req =
     vmec\<lparr> vm_mem_flags := vm_mem_flags req, vm_mem_gfn := vm_mem_gfn req, vm_mem_gla := vm_mem_gla req,
           vm_mem_offset := vm_mem_offset req \<rparr>"

definition copy_write_ctrlreg :: "vm_event_compat \<Rightarrow> vm_event_compat \<Rightarrow> vm_event_compat" where
  "copy_write_ctrlreg vmec req =
     vmec\<lparr> vm_ctrlreg_index := vm_ctrlreg_index req, vm_ctrlreg_new := vm_ctrlreg_new req,
           vm_ctrlreg_old := vm_ctrlreg_old req \<rparr>"

definition load_request_1 :: "vm_event_compat \<Rightarrow> vm_event_compat \<Rightarrow> vm_event_compat" where
  "load_request_1 vmec req =
     (let vmec = copy_fixed regs_x86_1 vmec req; r = vm_reason vmec in
      if r = 1 then copy_mem_access vmec req
      else if r = 4 then copy_write_ctrlreg vmec req
      else if r = 5 then vmec\<lparr> vm_msr := vm_msr req, vm_msr_new := vm_msr_new req \<rparr>
      else if r = 7 then vmec\<lparr> vm_singlestep_gfn := vm_singlestep_gfn req \<rparr>
      else if r = 6 then vmec\<lparr> vm_bp_gfn := vm_bp_gfn req \<rparr>
      else vmec)"

text \<open>The cases that versions 2 to 6 share.\<close>

definition copy_cases :: "vm_event_compat \<Rightarrow> vm_event_compat \<Rightarrow> vm_event_compat" where
  "copy_cases vmec req =
     (let r = vm_reason vmec in
      if r = 1 then copy_mem_access vmec req
      else if r = 4 then copy_write_ctrlreg vmec req
      else if r = 7 then vmec\<lparr> vm_singlestep_gfn := vm_singlestep_gfn req \<rparr>
      else if r = 6 then vmec\<lparr> vm_bp_gfn := vm_bp_gfn req, vm_bp_insn_length := vm_bp_insn_length req \<rparr>
      else if r = 12 then
        vmec\<lparr> vm_int_vector := vm_int_vector req, vm_int_type := vm_int_type req,
              vm_int_error_code := vm_int_error_code req, vm_int_cr2 := vm_int_cr2 req \<rparr>
      else if r = 9 then
        vmec\<lparr> vm_debug_gfn := vm_debug_gfn req, vm_debug_insn_length := vm_debug_insn_length req,
              vm_debug_type := vm_debug_type req \<rparr>
      else if r = 10 then
        vmec\<lparr> vm_cpuid_insn_length := vm_cpuid_insn_length req, vm_cpuid_leaf := vm_cpuid_leaf req,
              vm_cpuid_subleaf := vm_cpuid_subleaf req \<rparr>
      else vmec)"

definition load_request_2 :: "vm_event_compat \<Rightarrow> vm_event_compat \<Rightarrow> vm_event_compat" where
  "load_request_2 vmec req =
     (let vmec = copy_fixed regs_x86_1 vmec req in
      if vm_reason vmec = 5 then vmec\<lparr> vm_msr := vm_msr req, vm_msr_new := vm_msr_new req \<rparr>
      else copy_cases vmec req)"

text \<open>From version 3 on: the old value of a model-specific register and accesses to descriptor
  tables.\<close>

definition copy_cases_3 :: "vm_event_compat \<Rightarrow> vm_event_compat \<Rightarrow> vm_event_compat" where
  "copy_cases_3 vmec req =
     (if vm_reason vmec = 5
      then vmec\<lparr> vm_msr := vm_msr req, vm_msr_new := vm_msr_new req, vm_msr_old := vm_msr_old req \<rparr>
      else if vm_reason vmec = 13
      then vmec\<lparr> vm_desc_exitinfo := vm_desc_exitinfo req,
                 vm_desc_exit_qualification := vm_desc_exit_qualification req,
                 vm_desc_descriptor := vm_desc_descriptor req, vm_desc_is_write := vm_desc_is_write req \<rparr>
      else copy_cases vmec req)"

definition load_request_3 :: "vm_event_compat \<Rightarrow> vm_event_compat \<Rightarrow> vm_event_compat" where
  "load_request_3 vmec req = copy_cases_3 (copy_fixed regs_x86_1 vmec req) req"

definition load_request_4 :: "vm_event_compat \<Rightarrow> vm_event_compat \<Rightarrow> vm_event_compat" where
  "load_request_4 vmec req = copy_cases_3 (copy_fixed regs_x86_4 vmec req) req"

definition load_request_5 :: "vm_event_compat \<Rightarrow> vm_event_compat \<Rightarrow> vm_event_compat" where
  "load_request_5 vmec req = copy_cases_3 (copy_fixed regs_x86_5 vmec req) req"

definition load_request_6 :: "vm_event_compat \<Rightarrow> vm_event_compat \<Rightarrow> vm_event_compat" where
  "load_request_6 vmec req = copy_cases_3 (copy_fixed regs_x86_5 vmec req) req"

section \<open>Writing a response\<close>

definition store_fixed :: "string list \<Rightarrow> vm_event_compat \<Rightarrow> vm_event_response" where
  "store_fixed names vmec = (let f = vm_flags vmec in
     \<lparr> rs_version = vm_version vmec, rs_vcpu_id = vm_vcpu_id vmec, rs_flags = f,
       rs_reason = vm_reason vmec, rs_altp2m_idx = vm_altp2m_idx vmec,
       rs_emul_read = (if bit f 5
         then Some (vm_emul_read_size vmec, take (unat (vm_emul_read_size vmec)) (vm_emul_read_data vmec))
         else None),
       rs_emul_insn = None, rs_p2midx = None,
       rs_regs = (if bit f 8 then Some (copy_regs names (vm_regs vmec) x86_registers0) else None) \<rparr>)"

definition store_insn :: "vm_event_compat \<Rightarrow> vm_event_response \<Rightarrow> vm_event_response" where
  "store_insn vmec rsp =
     (if bit (vm_flags vmec) 9 then rsp\<lparr> rs_emul_insn := Some (vm_emul_insn_data vmec) \<rparr> else rsp)"

definition store_response_1 :: "vm_event_compat \<Rightarrow> vm_event_response" where
  "store_response_1 vmec = store_fixed regs_x86_1 vmec"

definition store_response_2 :: "vm_event_compat \<Rightarrow> vm_event_response" where
  "store_response_2 vmec = store_insn vmec (store_fixed regs_x86_1 vmec)"

definition store_response_3 :: "vm_event_compat \<Rightarrow> vm_event_response" where
  "store_response_3 vmec = store_insn vmec (store_fixed regs_x86_1 vmec)"

definition store_response_4 :: "vm_event_compat \<Rightarrow> vm_event_response" where
  "store_response_4 vmec = store_insn vmec (store_fixed regs_x86_4 vmec)"

definition store_response_5 :: "vm_event_compat \<Rightarrow> vm_event_response" where
  "store_response_5 vmec = store_insn vmec (store_fixed regs_x86_5 vmec)"

definition store_response_6 :: "vm_event_compat \<Rightarrow> vm_event_response" where
  "store_response_6 vmec =
     (let rsp = store_insn vmec (store_fixed regs_x86_5 vmec) in
      if bit (vm_flags vmec) 11 then rsp\<lparr> rs_p2midx := Some (vm_p2midx vmec) \<rparr> else rsp)"

section \<open>The loop\<close>

text \<open>\<open>rl_break\<close>: after a failing notification version 1 leaves the loop and reports the number
  of responses, the others return without a number.\<close>

record ring_layout =
  rl_version :: u32
  rl_load :: "vm_event_compat \<Rightarrow> vm_event_compat \<Rightarrow> vm_event_compat"
  rl_store :: "vm_event_compat \<Rightarrow> vm_event_response"
  rl_break :: bool

text \<open>The variants of a request, and the registers and the emulation data, share their bytes; \<open>punned\<close>
  is how the structure reads after a round.\<close>

function process_ring :: "ring_layout \<Rightarrow> (vm_event_compat \<Rightarrow> vm_event_compat) \<Rightarrow> ('s, 'u) client \<Rightarrow> 's libxc \<Rightarrow>
    vm_event_compat \<Rightarrow> status \<Rightarrow> u32 \<Rightarrow> ring \<Rightarrow> ('s, 'u) session \<Rightarrow>
    (status \<times> u32 \<times> ring \<times> ('s, 'u) session) option" where
  "process_ring L punned cl xc vmec vrc processed r s =
     (case ring_get_request_and_response_7 r of
        None \<Rightarrow> Some (vrc, processed, r, s)
      | Some (req, r) \<Rightarrow>
          if vm_version req \<noteq> rl_version L then Some (VMI_FAILURE, 0, r, s)
          else
            (case process_request cl xc (rl_load L vmec req) s of
               None \<Rightarrow> None
             | Some (VMI_FAILURE, vmec, s) \<Rightarrow> Some (VMI_FAILURE, processed, r, s)
             | Some (VMI_SUCCESS, vmec, s) \<Rightarrow>
                 let r = r\<lparr> rg_slots := butlast (rg_slots r) @ [Some (rl_store L vmec)],
                            rg_pushed := length (rg_slots r) \<rparr>;
                     (rc, s) = (if es_num_vcpus (fst s) \<ge> 7 then notify xc s else (0, s))
                 in if rc \<noteq> 0 then Some (VMI_FAILURE, if rl_break L then processed + 1 else 0, r, s)
                    else process_ring L punned cl xc (punned vmec) VMI_SUCCESS (processed + 1) r s))"
  by pat_completeness auto
termination
  by (relation "measure (\<lambda>(L, pn, cl, xc, v, vrc, n, r, s). length (rg_requests r))")
    (auto simp: ring_get_request_and_response_7_def split: list.splits)

declare process_ring.simps [simp del]

definition layout_1 :: ring_layout where
  "layout_1 = \<lparr> rl_version = 1, rl_load = load_request_1, rl_store = store_response_1, rl_break = True \<rparr>"

definition layout_2 :: ring_layout where
  "layout_2 = \<lparr> rl_version = 2, rl_load = load_request_2, rl_store = store_response_2, rl_break = False \<rparr>"

definition layout_3 :: ring_layout where
  "layout_3 = \<lparr> rl_version = 3, rl_load = load_request_3, rl_store = store_response_3, rl_break = False \<rparr>"

definition layout_4 :: ring_layout where
  "layout_4 = \<lparr> rl_version = 4, rl_load = load_request_4, rl_store = store_response_4, rl_break = False \<rparr>"

definition layout_5 :: ring_layout where
  "layout_5 = \<lparr> rl_version = 5, rl_load = load_request_5, rl_store = store_response_5, rl_break = False \<rparr>"

definition layout_6 :: ring_layout where
  "layout_6 = \<lparr> rl_version = 6, rl_load = load_request_6, rl_store = store_response_6, rl_break = False \<rparr>"

definition process_requests_1 :: "(vm_event_compat \<Rightarrow> vm_event_compat) \<Rightarrow> ('s, 'u) client \<Rightarrow> 's libxc \<Rightarrow> ring \<Rightarrow>
    ('s, 'u) session \<Rightarrow> (status \<times> u32 \<times> ring \<times> ('s, 'u) session) option" where
  "process_requests_1 punned cl xc = process_ring layout_1 punned cl xc vm_event_zero VMI_SUCCESS 0"

definition process_requests_2 :: "(vm_event_compat \<Rightarrow> vm_event_compat) \<Rightarrow> ('s, 'u) client \<Rightarrow> 's libxc \<Rightarrow> ring \<Rightarrow>
    ('s, 'u) session \<Rightarrow> (status \<times> u32 \<times> ring \<times> ('s, 'u) session) option" where
  "process_requests_2 punned cl xc = process_ring layout_2 punned cl xc vm_event_zero VMI_SUCCESS 0"

definition process_requests_3 :: "(vm_event_compat \<Rightarrow> vm_event_compat) \<Rightarrow> ('s, 'u) client \<Rightarrow> 's libxc \<Rightarrow> ring \<Rightarrow>
    ('s, 'u) session \<Rightarrow> (status \<times> u32 \<times> ring \<times> ('s, 'u) session) option" where
  "process_requests_3 punned cl xc = process_ring layout_3 punned cl xc vm_event_zero VMI_SUCCESS 0"

definition process_requests_4 :: "(vm_event_compat \<Rightarrow> vm_event_compat) \<Rightarrow> ('s, 'u) client \<Rightarrow> 's libxc \<Rightarrow> ring \<Rightarrow>
    ('s, 'u) session \<Rightarrow> (status \<times> u32 \<times> ring \<times> ('s, 'u) session) option" where
  "process_requests_4 punned cl xc = process_ring layout_4 punned cl xc vm_event_zero VMI_SUCCESS 0"

definition process_requests_5 :: "(vm_event_compat \<Rightarrow> vm_event_compat) \<Rightarrow> ('s, 'u) client \<Rightarrow> 's libxc \<Rightarrow> ring \<Rightarrow>
    ('s, 'u) session \<Rightarrow> (status \<times> u32 \<times> ring \<times> ('s, 'u) session) option" where
  "process_requests_5 punned cl xc = process_ring layout_5 punned cl xc vm_event_zero VMI_SUCCESS 0"

definition process_requests_6 :: "(vm_event_compat \<Rightarrow> vm_event_compat) \<Rightarrow> ('s, 'u) client \<Rightarrow> 's libxc \<Rightarrow> ring \<Rightarrow>
    ('s, 'u) session \<Rightarrow> (status \<times> u32 \<times> ring \<times> ('s, 'u) session) option" where
  "process_requests_6 punned cl xc = process_ring layout_6 punned cl xc vm_event_zero VMI_SUCCESS 0"

text \<open>Version 7 starts every request from the request alone.\<close>

definition layout_7 :: ring_layout where
  "layout_7 = \<lparr> rl_version = 7, rl_load = (\<lambda>vmec. load_request), rl_store = store_response, rl_break = False \<rparr>"

text \<open>The end of \<^verbatim>\<open>xen_init_events\<close>: the loop for the version the hypervisor reports, or, when it has no
  call for that, for its release.  \<open>None\<close> is a version that is not supported.\<close>

definition vm_event_version :: "int option \<Rightarrow> nat \<Rightarrow> nat option" where
  "vm_event_version reported minor_version =
     (case reported of
        Some abi \<Rightarrow> if abi \<in> {5, 6, 7} then Some (nat abi) else None
      | None \<Rightarrow>
          if minor_version \<in> {6, 7} then Some 1
          else if minor_version \<in> {8, 9, 10} then Some 2
          else if minor_version = 11 then Some 3
          else if minor_version = 12 then Some 4
          else None)"

definition process_requests :: "nat \<Rightarrow> (vm_event_compat \<Rightarrow> vm_event_compat) \<Rightarrow> ('s, 'u) client \<Rightarrow> 's libxc \<Rightarrow> ring \<Rightarrow>
    ('s, 'u) session \<Rightarrow> (status \<times> u32 \<times> ring \<times> ('s, 'u) session) option" where
  "process_requests version punned cl xc r s =
     (if version = 1 then process_requests_1 punned cl xc r s
      else if version = 2 then process_requests_2 punned cl xc r s
      else if version = 3 then process_requests_3 punned cl xc r s
      else if version = 4 then process_requests_4 punned cl xc r s
      else if version = 5 then process_requests_5 punned cl xc r s
      else if version = 6 then process_requests_6 punned cl xc r s
      else process_requests_7 cl xc VMI_SUCCESS 0 r s)"

section \<open>What the loop relies on\<close>

locale layout_laws =
  fixes L :: ring_layout
  assumes load_same: "same_request req (rl_load L vmec req)"
    and store_answers: "same_request req vmec \<Longrightarrow> answers req (rl_store L vmec)"
begin

lemma ring_Nil: "rg_requests r = [] \<Longrightarrow> process_ring L punned cl xc vmec vrc n r s = Some (vrc, n, r, s)"
  by (simp add: process_ring.simps [of L punned cl xc vmec vrc n r s] ring_get_request_and_response_7_def)

lemma ring_Cons:
  assumes "rg_requests r = req # rs" and "\<not> es_event_callback (fst s)"
    and "process_ring L punned cl xc vmec vrc n r s = Some (st, m, r', s')"
  obtains (failed) "st = VMI_FAILURE" "r' = claimed r rs" "\<not> es_event_callback (fst s')"
  | (unnotified) rsp where "st = VMI_FAILURE" "r' = answered r rs rsp" "answers req rsp"
      "\<not> es_event_callback (fst s')"
  | (round) rsp v s2 where "vm_version req = rl_version L" "answers req rsp" "\<not> es_event_callback (fst s2)"
      "process_ring L punned cl xc v VMI_SUCCESS (n + 1) (answered r rs rsp) s2 = Some (st, m, r', s')"
proof -
  have g: "ring_get_request_and_response_7 r = Some (req, claimed r rs)"
    by (simp add: ring_get_request_and_response_7_def assms(1) claimed_def)
  have slots: "(claimed r rs)\<lparr> rg_slots := butlast (rg_slots (claimed r rs)) @ [Some rsp],
      rg_pushed := length (rg_slots (claimed r rs)) \<rparr> = answered r rs rsp" for rsp
    by (simp add: claimed_def answered_def)
  let ?v = "rl_load L vmec req"
  have q: "quiet_outcome ?v (process_request cl xc ?v s)" by (rule process_request_quiet) (rule assms(2))
  have ans: "same_request ?v w \<Longrightarrow> answers req (rl_store L w)" for w
    by (rule store_answers) (rule same_request_trans [OF load_same])
  show thesis
    using assms(2,3) q failed
    unfolding process_ring.simps [of L punned cl xc vmec vrc n r s] g option.case prod.case slots Let_def
    by (auto split: if_splits option.splits status.splits prod.splits dest!: ans notify_flag
        intro: unnotified round)
qed

lemma ring_runs:
  assumes "process_ring L punned cl xc vmec VMI_SUCCESS n r s = Some (st, m, r', s')" and "\<not> es_event_callback (fst s)"
  shows "\<exists>reqs resps unw. ring_progress r r' reqs resps unw \<and> \<not> es_event_callback (fst s') \<and>
       (st = VMI_SUCCESS \<longrightarrow> unw = [] \<and> rg_requests r' = [] \<and> m = n + of_nat (length resps) \<and>
          (rg_pushed r = length (rg_slots r) \<longrightarrow> rg_pushed r' = length (rg_slots r')) \<and>
          (\<forall>q \<in> set reqs. vm_version q = rl_version L))"
  using assms
proof (induction "rg_requests r" arbitrary: vmec n r s)
  case Nil
  then show ?case using ring_progress_refl [of r] by (fastforce simp: ring_Nil)
next
  case (Cons req rs)
  have rq: "rg_requests r = req # rs" using Cons.hyps(2) by simp
  have step: "answers req rsp \<Longrightarrow> ring_progress (answered r rs rsp) r' reqs resps unw \<Longrightarrow>
      ring_progress r r' (req # reqs) (rsp # resps) unw" for rsp reqs resps unw
    unfolding answered_def by (rule ring_progress_step [OF rq])
  from rq Cons.prems(2,1) show ?case
  proof (cases rule: ring_Cons)
    case failed
    then have "ring_progress r r' [req] [] [None]" by (simp add: ring_progress_def rq claimed_def)
    with failed show ?thesis by blast
  next
    case (unnotified rsp)
    then show ?thesis using step ring_progress_refl by blast
  next
    case (round rsp v s2)
    obtain reqs resps unw where p: "ring_progress (answered r rs rsp) r' reqs resps unw" "\<not> es_event_callback (fst s')"
      "st = VMI_SUCCESS \<longrightarrow> unw = [] \<and> rg_requests r' = [] \<and> m = n + 1 + of_nat (length resps) \<and>
         rg_pushed r' = length (rg_slots r') \<and> (\<forall>q \<in> set reqs. vm_version q = rl_version L)"
      using Cons.hyps(1) [OF _ round(4,3)] by (auto simp: answered_def)
    show ?thesis
      using p step [OF round(2) p(1)] round(1)
      by (intro exI [of _ "req # reqs"] exI [of _ "rsp # resps"] exI [of _ unw]) simp
  qed
qed

end

lemma copy_cases_same [simp]: "same_request req (copy_cases v req') = same_request req v"
  "same_request req (copy_cases_3 v req') = same_request req v"
  by (simp_all add: copy_cases_def copy_cases_3_def copy_mem_access_def copy_write_ctrlreg_def same_request_def Let_def)

lemma copy_fixed_same [simp]: "same_request req (copy_fixed names v req)"
  by (simp add: copy_fixed_def same_request_def)

lemmas layout_defs = layout_1_def layout_2_def layout_3_def layout_4_def layout_5_def layout_6_def
lemmas load_defs = load_request_1_def load_request_2_def load_request_3_def load_request_4_def load_request_5_def load_request_6_def
lemmas store_defs = store_response_1_def store_response_2_def store_response_3_def store_response_4_def store_response_5_def store_response_6_def

lemma load_same_1: "same_request req (load_request_1 v req)"
  by (simp add: load_request_1_def Let_def copy_mem_access_def copy_write_ctrlreg_def copy_fixed_def same_request_def)

lemma load_same_2: "same_request req (load_request_2 v req)"
  using copy_fixed_same [of req regs_x86_1 v] by (simp add: load_request_2_def Let_def) (simp add: copy_fixed_def same_request_def)

lemma store_fixed_answers: "same_request req v \<Longrightarrow> answers req (store_fixed names v)"
  by (simp add: same_request_def answers_def store_fixed_def Let_def)

lemma answers_update [simp]: "answers req (rsp\<lparr> rs_emul_insn := x \<rparr>) = answers req rsp"
  "answers req (rsp\<lparr> rs_p2midx := y \<rparr>) = answers req rsp"
  by (simp_all add: answers_def)

lemma store_answers_all: "same_request req v \<Longrightarrow> answers req (store_response_1 v) \<and> answers req (store_response_2 v) \<and>
    answers req (store_response_3 v) \<and>
    answers req (store_response_4 v) \<and> answers req (store_response_5 v) \<and> answers req (store_response_6 v)"
  by (simp add: store_defs store_insn_def store_fixed_answers Let_def)

interpretation ring1: layout_laws layout_1
  by unfold_locales (simp_all add: layout_1_def load_same_1 store_answers_all)

interpretation ring2: layout_laws layout_2
  by unfold_locales (simp_all add: layout_2_def load_same_2 store_answers_all)

interpretation ring3: layout_laws layout_3
  by unfold_locales (simp_all add: layout_3_def load_request_3_def store_answers_all)

interpretation ring4: layout_laws layout_4
  by unfold_locales (simp_all add: layout_4_def load_request_4_def store_answers_all)

interpretation ring5: layout_laws layout_5
  by unfold_locales (simp_all add: layout_5_def load_request_5_def store_answers_all)

interpretation ring6: layout_laws layout_6
  by unfold_locales (simp_all add: layout_6_def load_request_6_def store_answers_all)

interpretation ring7: layout_laws layout_7
  by unfold_locales (simp_all add: layout_7_def store_response_answers)

text \<open>The function for version 7 is the same loop.\<close>

lemma process_requests_7_ring:
  "process_requests_7 cl xc vrc n r s = process_ring layout_7 punned cl xc vmec vrc n r s"
proof (induction "rg_requests r" arbitrary: vmec vrc n r s)
  case Nil
  then show ?case by (simp add: process_requests_Nil ring7.ring_Nil)
next
  case (Cons req rs)
  have g: "ring_get_request_and_response_7 r = Some (req, claimed r rs)"
    by (simp add: ring_get_request_and_response_7_def claimed_def Cons.hyps(2) [symmetric])
  have IH: "rg_requests r' = rs \<Longrightarrow> process_requests_7 cl xc vrc n r' s' = process_ring layout_7 punned cl xc v vrc n r' s'"
    for v vrc n r' s' by (rule Cons.hyps(1)) simp
  show ?case
    unfolding process_requests_7.simps [of cl xc vrc n r s] process_ring.simps [of layout_7 punned cl xc vmec vrc n r s] g
      option.case prod.case
    by (simp add: layout_7_def [THEN arg_cong, of rl_version] layout_7_def [THEN arg_cong, of rl_load]
        layout_7_def [THEN arg_cong, of rl_store] layout_7_def [THEN arg_cong, of rl_break] IH claimed_def Let_def
        split: option.split status.split prod.split)
qed

section \<open>Registers and emulation data\<close>

definition layout_of :: "nat \<Rightarrow> ring_layout" where
  "layout_of version = (if version = 1 then layout_1 else if version = 2 then layout_2 else if version = 3 then layout_3
     else if version = 4 then layout_4 else if version = 5 then layout_5 else if version = 6 then layout_6 else layout_7)"

lemma process_requests_ring:
  "process_requests version punned cl xc r s =
     process_ring (layout_of version) punned cl xc vm_event_zero VMI_SUCCESS 0 r s"
  by (simp add: process_requests_def layout_of_def process_requests_1_def process_requests_2_def process_requests_3_def
      process_requests_4_def process_requests_5_def process_requests_6_def process_requests_7_ring [symmetric])

interpretation rings: layout_laws "layout_of version" for version
  by (simp add: layout_of_def ring1.layout_laws_axioms ring2.layout_laws_axioms ring3.layout_laws_axioms
      ring4.layout_laws_axioms ring5.layout_laws_axioms ring6.layout_laws_axioms ring7.layout_laws_axioms)

lemma versions: "version \<in> {1..6 :: nat} \<longleftrightarrow>
    version = 1 \<or> version = 2 \<or> version = 3 \<or> version = 4 \<or> version = 5 \<or> version = 6"
  by auto

lemma layout_of_version:
  assumes "version \<in> {1..7}"
  shows "rl_version (layout_of version) = of_nat version"
proof -
  have "version \<in> {1..6} \<or> version = 7" using assms by auto
  then show ?thesis unfolding versions by (elim disjE) (simp_all add: layout_of_def layout_defs layout_7_def)
qed

definition regs_x86 :: "nat \<Rightarrow> string list" where
  "regs_x86 version = (if version < 4 then regs_x86_1 else if version = 4 then regs_x86_4 else regs_x86_5)"

text \<open>The room for emulation data in a response of the version, the size of the version's registers
  less four bytes.\<close>

definition emul_room :: "nat \<Rightarrow> nat" where
  "emul_room version = (if version < 4 then 252 else if version = 4 then 316 else 324)"

lemma copy_regs_twice: "copy_regs names (copy_regs names src old) dst = copy_regs names src dst"
  by (simp add: copy_regs_def fun_eq_iff cong: if_cong)

lemma loaded_regs:
  "vm_regs (copy_fixed names vmec req) = copy_regs names (vm_regs req) (vm_regs vmec)"
  "vm_regs (copy_mem_access v req) = vm_regs v" "vm_regs (copy_write_ctrlreg v req) = vm_regs v"
  "vm_regs (copy_cases v req) = vm_regs v" "vm_regs (copy_cases_3 v req) = vm_regs v"
  by (simp_all add: copy_fixed_def copy_mem_access_def copy_write_ctrlreg_def copy_cases_def copy_cases_3_def Let_def)

lemma old_layout_load:
  assumes "version \<in> {1..6}"
  shows "vm_regs (rl_load (layout_of version) vmec req) = copy_regs (regs_x86 version) (vm_regs req) (vm_regs vmec)"
proof -
  show ?thesis
    using assms unfolding versions
    by (elim disjE) (simp_all add: layout_of_def layout_defs regs_x86_def load_defs Let_def loaded_regs)
qed

lemma old_layout_store:
  assumes "version \<in> {1..6}"
  shows "rs_regs (rl_store (layout_of version) w) =
    (if bit (vm_flags w) 8 then Some (copy_regs (regs_x86 version) (vm_regs w) x86_registers0) else None)"
    "rs_emul_read (rl_store (layout_of version) w) =
    (if bit (vm_flags w) 5 then Some (vm_emul_read_size w, take (unat (vm_emul_read_size w)) (vm_emul_read_data w)) else None)"
proof -
  note v = assms [unfolded versions]
  then show "rs_regs (rl_store (layout_of version) w) =
      (if bit (vm_flags w) 8 then Some (copy_regs (regs_x86 version) (vm_regs w) x86_registers0) else None)"
    by (elim disjE) (simp_all add: layout_of_def layout_defs regs_x86_def store_defs store_insn_def store_fixed_def Let_def)
  from v show "rs_emul_read (rl_store (layout_of version) w) =
      (if bit (vm_flags w) 5 then Some (vm_emul_read_size w, take (unat (vm_emul_read_size w)) (vm_emul_read_data w)) else None)"
    by (elim disjE) (simp_all add: layout_of_def layout_defs store_defs store_insn_def store_fixed_def Let_def)
qed

section \<open>Properties\<close>

text \<open>C13. All seven versions of the ring: a request that is taken gets one response slot, in order, and a
  written response repeats version, virtual CPU, reason and pause bit of its request whatever the
  callbacks do and whatever an earlier request left in the structure.  When the loop succeeds the ring is
  empty, every request had the version of the loop, every slot is written and visible, and the count is
  exact.\<close>

theorem every_ring_answered:
  assumes "version \<in> {1..7}" and "process_requests version punned cl xc r s = Some (st, m, r', s')"
    and "\<not> es_event_callback (fst s)"
  shows "\<exists>reqs resps unwritten.
    rg_requests r = reqs @ rg_requests r' \<and> rg_slots r' = rg_slots r @ map Some resps @ unwritten \<and>
    list_all2 answers (take (length resps) reqs) resps \<and>
    length reqs = length resps + length unwritten \<and> unwritten \<in> {[], [None]} \<and> \<not> es_event_callback (fst s') \<and>
    (st = VMI_SUCCESS \<longrightarrow> unwritten = [] \<and> rg_requests r' = [] \<and> m = of_nat (length resps) \<and>
       (\<forall>q \<in> set reqs. vm_version q = of_nat version) \<and>
       (rg_pushed r = length (rg_slots r) \<longrightarrow> rg_pushed r' = length (rg_slots r')))"
  using rings.ring_runs [OF assms(2) [unfolded process_requests_ring] assms(3)] layout_of_version [OF assms(1)]
  unfolding ring_progress_def by simp blast

text \<open>The registers of a response: when a handler leaves the registers alone, what is written back is
  exactly the request's values for the registers of the version, and nothing that an earlier request
  or callback left in the structure.\<close>

theorem response_registers_exact:
  assumes "version \<in> {1..6}" and "vm_regs w = vm_regs (rl_load (layout_of version) vmec req)"
    and "bit (vm_flags w) 8"
  shows "\<exists>g. rs_regs (rl_store (layout_of version) w) = Some g \<and>
    xr_rip g = xr_rip (vm_regs req) \<and> xr_cr3 g = xr_cr3 (vm_regs req) \<and> xr_npt_base g = 0 \<and>
    (\<forall>n. xr_rest g n = (if n \<in> set (regs_x86 version) then xr_rest (vm_regs req) n else 0))"
  by (simp add: old_layout_store [OF assms(1)] assms(2,3) old_layout_load [OF assms(1)] copy_regs_twice)
    (simp add: copy_regs_def x86_registers0_def)

lemma response_read_size:
  "unat (vm_emul_read_size (snd ev)) \<le> 256 \<Longrightarrow> unat (vm_emul_read_size (snd (response_data i ev))) \<le> 256"
  by (cases ev) (auto simp: response_data_def Let_def word_less_nat_alt split: option.split)

lemma response_loop_read_size:
  "unat (vm_emul_read_size (snd ev)) \<le> 256 \<Longrightarrow> unat (vm_emul_read_size (snd (response_loop r is ev))) \<le> 256"
proof (induction "is" arbitrary: ev)
  case (Cons i "is")
  show ?case
    using Cons response_read_size [OF Cons.prems, of i] by (auto simp: Let_def split: prod.split)
qed simp

lemma process_response_read_size:
  "unat (vm_emul_read_size rsp) \<le> 256 \<Longrightarrow> unat (vm_emul_read_size (snd (process_response r e rsp))) \<le> 256"
  by (simp add: process_response_def Let_def response_loop_read_size)

definition full_read :: vmi_event where
  "full_read = event_zero\<lparr> ve_emul_read := Some \<lparr> er_size = 256, er_dont_free = True, er_data = replicate 256 0 \<rparr> \<rparr>"

lemma full_read_response:
  "bit (vm_flags (snd (process_response 8 full_read vm_event_zero))) 5 \<and>
   vm_emul_read_size (snd (process_response 8 full_read vm_event_zero)) = 256"
  by code_simp


section \<open>Concrete rings\<close>

definition request2 :: vm_event_compat where
  "request2 = vmec0\<lparr> vm_version := 2, vm_regs := x86_registers0\<lparr> xr_rip := 0x1000, xr_rest := (\<lambda>n. 9) \<rparr> \<rparr>"

abbreviation ring2 :: ring where
  "ring2 \<equiv> \<lparr> rg_requests = [request2, request2], rg_slots = [], rg_pushed = 0 \<rparr>"

lemma ring2_run: "map_option (\<lambda>(st, m, r', s'). (st, m, map (map_option rs_flags) (rg_slots r')))
   (process_requests 2 (\<lambda>v. v) cl0 xc0 ring2 session0) = Some (VMI_SUCCESS, 2, [Some 17, Some 17])"
  by code_simp

theorem every_ring_answered_witness:
  "\<exists>r' s' resps. process_requests 2 (\<lambda>v. v) cl0 xc0 ring2 session0 = Some (VMI_SUCCESS, 2, r', s') \<and>
     rg_slots r' = map Some resps \<and> list_all2 answers [request2, request2] resps"
proof -
  obtain r' s' where run: "process_requests 2 (\<lambda>v. v) cl0 xc0 ring2 session0 = Some (VMI_SUCCESS, 2, r', s')"
    using ring2_run by auto
  have cb: "\<not> es_event_callback (fst session0)" by (simp add: session0_def)
  have v: "(2 :: nat) \<in> {1..7}" by simp
  obtain resps where "rg_slots r' = map Some resps" "list_all2 answers [request2, request2] resps"
    using every_ring_answered [OF v run cb] by (fastforce simp: list_all2_lengthD)
  with run show ?thesis by (intro exI conjI)
qed

theorem response_registers_exact_witness:
  "\<exists>g. rs_regs (rl_store (layout_of 5) ((rl_load (layout_of 5) vm_event_zero request2)\<lparr> vm_flags := 256 \<rparr>)) = Some g \<and>
     xr_rip g = 0x1000 \<and> xr_rest g ''gdtr_base'' = 9 \<and> xr_rest g ''dr3'' = 0"
proof -
  let ?w = "(rl_load (layout_of 5) vm_event_zero request2)\<lparr> vm_flags := 256 \<rparr>"
  have n: "''gdtr_base'' \<in> set (regs_x86 5)" "''dr3'' \<notin> set (regs_x86 5)" by (simp_all add: regs_x86_def regs_x86_5_def)
  have q: "xr_rip (vm_regs request2) = 0x1000" "xr_rest (vm_regs request2) = (\<lambda>n. 9)" by (simp_all add: request2_def)
  have v: "(5 :: nat) \<in> {1..6}" by simp
  have r: "vm_regs ?w = vm_regs (rl_load (layout_of 5) vm_event_zero request2)" by simp
  have f: "bit (vm_flags ?w) 8" by (simp add: bit_numeral_rec bit_0)
  show ?thesis using response_registers_exact [OF v r f] by (auto simp: n q)
qed


end
