(* ===== verification/Xen_Monitor.thy ===== *)
theory Xen_Monitor
  imports Xen_Rings
begin

text \<open>
  The monitors with a single handler and the set-up of the event channel,
  \<^verbatim>\<open>driver/xen/xen_events.c\<close>: guest requests, CPUID, exits, debug exceptions, privileged calls,
  descriptor accesses, failed emulation and the watch for domains.  The locale \<open>monitored\<close> has
  what the event management relies on, that a switch that succeeds is a switch of the one monitor;
  inside it a monitor is on exactly while its event has a handler, and the Xen driver is an
  interpretation.
\<close>

section \<open>The switches\<close>

text \<open>\<open>mc_xs_watch\<close> and \<open>mc_xs_unwatch\<close> are calls of XenStore, with the watched path.\<close>

record 's monitor_calls =
  mc_guest_request :: "bool \<Rightarrow> 's \<Rightarrow> int \<times> 's"
  mc_guest_request2 :: "bool \<Rightarrow> 's \<Rightarrow> int \<times> 's"
  mc_debug_exceptions :: "bool \<Rightarrow> 's \<Rightarrow> int \<times> 's"
  mc_cpuid :: "bool \<Rightarrow> 's \<Rightarrow> int \<times> 's"
  mc_vmexit :: "bool \<Rightarrow> bool \<Rightarrow> 's \<Rightarrow> int \<times> 's"
  mc_privileged_call :: "bool \<Rightarrow> 's \<Rightarrow> int \<times> 's"
  mc_descriptor_access :: "bool \<Rightarrow> 's \<Rightarrow> int \<times> 's"
  mc_emul_unimplemented :: "bool \<Rightarrow> 's \<Rightarrow> int \<times> 's"
  mc_xs_watch :: "string \<Rightarrow> 's \<Rightarrow> bool \<times> 's"
  mc_xs_unwatch :: "string \<Rightarrow> 's \<Rightarrow> bool \<times> 's"
  mc_interface_close :: "'s \<Rightarrow> int \<times> 's"

type_synonym 's xstate = "'s xen_events events_state"

definition at_least :: "nat \<Rightarrow> 's xen_events \<Rightarrow> bool" where
  "at_least minor x \<longleftrightarrow> xe_major_version x = 4 \<and> minor \<le> xe_minor_version x"

definition monitor_call :: "('s \<Rightarrow> int \<times> 's) \<Rightarrow> 's xen_events \<Rightarrow> status \<times> 's xen_events" where
  "monitor_call f x = (let (rc, x) = xc_call f x in (if rc < 0 then VMI_FAILURE else VMI_SUCCESS, x))"

definition on_driver :: "('d \<Rightarrow> 'r \<times> 'd) \<Rightarrow> 'd events_state \<Rightarrow> 'r \<times> 'd events_state" where
  "on_driver f es =
     (let (r, x) = f (vi_driver (es_vmi es)) in (r, es\<lparr> es_vmi := (es_vmi es)\<lparr> vi_driver := x \<rparr> \<rparr>))"

definition guest_request_call :: "'s monitor_calls \<Rightarrow> bool \<Rightarrow> 's xen_events \<Rightarrow> status \<times> 's xen_events" where
  "guest_request_call mc enabled x =
     monitor_call (if xe_minor_version x < 10 then mc_guest_request mc enabled else mc_guest_request2 mc enabled) x"

definition xen_set_guest_requested_event :: "'s monitor_calls \<Rightarrow> bool \<Rightarrow> 's xstate \<Rightarrow> status \<times> 's xstate" where
  "xen_set_guest_requested_event mc enabled es =
     (if \<not> at_least 8 (vi_driver (es_vmi es)) then (VMI_FAILURE, es)
      else if \<not> enabled \<and> es_guest_requested_event es = None then (VMI_SUCCESS, es)
      else on_driver (guest_request_call mc enabled) es)"

definition xen_set_debug_event :: "'s monitor_calls \<Rightarrow> bool \<Rightarrow> 's xstate \<Rightarrow> status \<times> 's xstate" where
  "xen_set_debug_event mc enabled es =
     (if \<not> at_least 8 (vi_driver (es_vmi es)) then (VMI_FAILURE, es)
      else if \<not> enabled \<and> es_debug_event es = None then (VMI_SUCCESS, es)
      else on_driver (monitor_call (mc_debug_exceptions mc enabled)) es)"

definition xen_set_cpuid_event :: "'s monitor_calls \<Rightarrow> bool \<Rightarrow> 's xstate \<Rightarrow> status \<times> 's xstate" where
  "xen_set_cpuid_event mc enabled es =
     (if \<not> at_least 8 (vi_driver (es_vmi es)) then (VMI_FAILURE, es)
      else if \<not> enabled \<and> es_cpuid_event es = None then (VMI_SUCCESS, es)
      else case on_driver (monitor_call (mc_cpuid mc enabled)) es of
        (VMI_FAILURE, es) \<Rightarrow> (VMI_FAILURE, es)
      | (VMI_SUCCESS, es) \<Rightarrow> (VMI_SUCCESS, if enabled then es else es\<lparr> es_cpuid_event := None \<rparr>))"

definition xen_set_vmexit_event :: "'s monitor_calls \<Rightarrow> bool \<Rightarrow> bool \<Rightarrow> 's xstate \<Rightarrow> status \<times> 's xstate" where
  "xen_set_vmexit_event mc enabled sync es =
     (if \<not> at_least 17 (vi_driver (es_vmi es)) then (VMI_FAILURE, es)
      else if \<not> enabled \<and> es_vmexit_event es = None then (VMI_SUCCESS, es)
      else case on_driver (monitor_call (mc_vmexit mc enabled sync)) es of
        (VMI_FAILURE, es) \<Rightarrow> (VMI_FAILURE, es)
      | (VMI_SUCCESS, es) \<Rightarrow> (VMI_SUCCESS, if enabled then es else es\<lparr> es_vmexit_event := None \<rparr>))"

text \<open>Bit 7 of the capabilities: privileged calls.\<close>

definition xen_set_privcall_event :: "'s monitor_calls \<Rightarrow> bool \<Rightarrow> 's xstate \<Rightarrow> status \<times> 's xstate" where
  "xen_set_privcall_event mc enabled es =
     (if \<not> at_least 8 (vi_driver (es_vmi es)) then (VMI_FAILURE, es)
      else if \<not> bit (xe_monitor_capabilities (vi_driver (es_vmi es))) 7 then (VMI_FAILURE, es)
      else if \<not> enabled \<and> es_privcall_event es = None then (VMI_FAILURE, es)
      else case on_driver (monitor_call (mc_privileged_call mc enabled)) es of
        (VMI_FAILURE, es) \<Rightarrow> (VMI_FAILURE, es)
      | (VMI_SUCCESS, es) \<Rightarrow> (VMI_SUCCESS, if enabled then es else es\<lparr> es_privcall_event := None \<rparr>))"

definition xen_set_desc_access_event :: "'s monitor_calls \<Rightarrow> bool \<Rightarrow> 's xstate \<Rightarrow> status \<times> 's xstate" where
  "xen_set_desc_access_event mc enabled es =
     (if \<not> at_least 10 (vi_driver (es_vmi es)) then (VMI_FAILURE, es)
      else if \<not> enabled \<and> es_descriptor_access_event es = None then (VMI_SUCCESS, es)
      else case on_driver (monitor_call (mc_descriptor_access mc enabled)) es of
        (VMI_FAILURE, es) \<Rightarrow> (VMI_FAILURE, es)
      | (VMI_SUCCESS, es) \<Rightarrow> (VMI_SUCCESS, if enabled then es else es\<lparr> es_descriptor_access_event := None \<rparr>))"

definition xen_set_failed_emulation_event :: "'s monitor_calls \<Rightarrow> bool \<Rightarrow> 's xstate \<Rightarrow> status \<times> 's xstate" where
  "xen_set_failed_emulation_event mc enabled es =
     (if \<not> at_least 11 (vi_driver (es_vmi es)) then (VMI_FAILURE, es)
      else if \<not> enabled \<and> es_failed_emulation_event es = None then (VMI_SUCCESS, es)
      else case on_driver (monitor_call (mc_emul_unimplemented mc enabled)) es of
        (VMI_FAILURE, es) \<Rightarrow> (VMI_FAILURE, es)
      | (VMI_SUCCESS, es) \<Rightarrow> (VMI_SUCCESS, if enabled then es else es\<lparr> es_failed_emulation_event := None \<rparr>))"

text \<open>The watches are set whether the event is to be enabled or not; a failure closes the handle of
  the hypervisor.\<close>

definition watch_domains :: "'s monitor_calls \<Rightarrow> 's xen_events \<Rightarrow> status \<times> 's xen_events" where
  "watch_domains mc x =
     (case xc_call (mc_xs_watch mc ''@introduceDomain'') x of
        (False, x) \<Rightarrow> (VMI_FAILURE, snd (xc_call (mc_interface_close mc) x))
      | (True, x) \<Rightarrow>
     (case xc_call (mc_xs_watch mc ''@releaseDomain'') x of
        (False, x) \<Rightarrow> (VMI_FAILURE, snd (xc_call (mc_interface_close mc)
                                    (snd (xc_call (mc_xs_unwatch mc ''@introduceDomain'') x))))
      | (True, x) \<Rightarrow> (VMI_SUCCESS, x)))"

definition xen_set_domain_watch_event :: "'s monitor_calls \<Rightarrow> bool \<Rightarrow> 's xstate \<Rightarrow> status \<times> 's xstate" where
  "xen_set_domain_watch_event mc enabled es =
     (if \<not> enabled \<and> es_watch_domain_event es = None then (VMI_SUCCESS, es)
      else case on_driver (watch_domains mc) es of
        (VMI_FAILURE, es) \<Rightarrow> (VMI_FAILURE, es)
      | (VMI_SUCCESS, es) \<Rightarrow> (VMI_SUCCESS, if enabled then es else es\<lparr> es_watch_domain_event := None \<rparr>))"

section \<open>The driver with all switches\<close>

text \<open>The functions \<^verbatim>\<open>xen_init_events\<close> puts into the driver, as functions of the driver's state.\<close>

definition gated :: "('s xen_events \<Rightarrow> bool) \<Rightarrow> ('s xen_events \<Rightarrow> status \<times> 's xen_events) \<Rightarrow> 's xen_events \<Rightarrow>
    status \<times> 's xen_events" where
  "gated ok f x = (if ok x then f x else (VMI_FAILURE, x))"

definition xen_full_driver :: "'s libxc \<Rightarrow> 's monitor_calls \<Rightarrow> nat \<Rightarrow> 's xen_events event_driver" where
  "xen_full_driver xc mc n = (xen_event_driver xc n)\<lparr>
     ed_set_guest_requested := Some (\<lambda>en. gated (at_least 8) (guest_request_call mc en)),
     ed_set_cpuid_event := Some (\<lambda>en. gated (at_least 8) (monitor_call (mc_cpuid mc en))),
     ed_set_vmexit_event := Some (\<lambda>en sync. gated (at_least 17) (monitor_call (mc_vmexit mc en sync))),
     ed_set_debug_event := Some (\<lambda>en. gated (at_least 8) (monitor_call (mc_debug_exceptions mc en))),
     ed_set_privcall_event := Some (\<lambda>en. gated (\<lambda>x. at_least 8 x \<and> bit (xe_monitor_capabilities x) 7)
       (monitor_call (mc_privileged_call mc en))),
     ed_set_desc_access_event := Some (\<lambda>en. gated (at_least 10) (monitor_call (mc_descriptor_access mc en))),
     ed_set_failed_emulation_event := Some (\<lambda>en. gated (at_least 11) (monitor_call (mc_emul_unimplemented mc en))),
     ed_set_domain_watch_event := Some (\<lambda>en. watch_domains mc) \<rparr>"

text \<open>On the calls the event management makes, enabling an event without a handler and disabling one
  that has a handler, these are the functions of the source; taking the handler out of its slot
  is repeated by the caller.\<close>

lemma on_driver_gated:
  "on_driver (gated ok f) es = (if ok (vi_driver (es_vmi es)) then on_driver f es else (VMI_FAILURE, es))"
  by (simp add: on_driver_def gated_def)

lemma driver_ctl_on_driver: "ed_initialized ed \<Longrightarrow> driver_ctl ed (Some f) es = on_driver f es"
  by (simp add: driver_ctl_def on_driver_def)

lemma full_driver_enables:
  "driver_set_guest_requested_event (xen_full_driver xc mc n) True = xen_set_guest_requested_event mc True"
  "driver_set_debug_event (xen_full_driver xc mc n) True = xen_set_debug_event mc True"
  "driver_set_cpuid_event (xen_full_driver xc mc n) True = xen_set_cpuid_event mc True"
  "driver_set_vmexit_event (xen_full_driver xc mc n) True sync = xen_set_vmexit_event mc True sync"
  "driver_set_privcall_event (xen_full_driver xc mc n) True = xen_set_privcall_event mc True"
  "driver_set_desc_access_event (xen_full_driver xc mc n) True = xen_set_desc_access_event mc True"
  "driver_set_failed_emulation_event (xen_full_driver xc mc n) True = xen_set_failed_emulation_event mc True"
  "driver_set_watch_domain_event (xen_full_driver xc mc n) True = xen_set_domain_watch_event mc True"
  by (auto simp: fun_eq_iff driver_defs xen_full_driver_def xen_event_driver_def driver_ctl_on_driver on_driver_gated
      xen_set_guest_requested_event_def xen_set_debug_event_def xen_set_cpuid_event_def xen_set_vmexit_event_def
      xen_set_privcall_event_def xen_set_desc_access_event_def xen_set_failed_emulation_event_def
      xen_set_domain_watch_event_def split: prod.split status.split)

lemma full_driver_clears:
  "clear_guest_requested_event (xen_full_driver xc mc n) =
     clear_slot es_guest_requested_event (\<lambda>v s. s\<lparr> es_guest_requested_event := v \<rparr>) (xen_set_guest_requested_event mc False)"
  "clear_debug_event (xen_full_driver xc mc n) =
     clear_slot es_debug_event (\<lambda>v s. s\<lparr> es_debug_event := v \<rparr>) (xen_set_debug_event mc False)"
  "clear_cpuid_event (xen_full_driver xc mc n) =
     clear_slot es_cpuid_event (\<lambda>v s. s\<lparr> es_cpuid_event := v \<rparr>) (xen_set_cpuid_event mc False)"
  by (auto simp: fun_eq_iff clear_slot_def clear_guest_requested_event_def clear_debug_event_def clear_cpuid_event_def
      driver_defs xen_full_driver_def xen_event_driver_def driver_ctl_on_driver on_driver_gated
      xen_set_guest_requested_event_def xen_set_debug_event_def xen_set_cpuid_event_def split: prod.split status.split)

section \<open>What the event management relies on\<close>

datatype mon_kind = GuestRequests | Cpuid | VmExits | DebugExceptions | PrivilegedCalls | DescriptorAccess
  | FailedEmulation | DomainWatch

fun handler :: "mon_kind \<Rightarrow> 'd events_state \<Rightarrow> event_ptr option" where
  "handler GuestRequests s = es_guest_requested_event s"
| "handler Cpuid s = es_cpuid_event s"
| "handler VmExits s = es_vmexit_event s"
| "handler DebugExceptions s = es_debug_event s"
| "handler PrivilegedCalls s = es_privcall_event s"
| "handler DescriptorAccess s = es_descriptor_access_event s"
| "handler FailedEmulation s = es_failed_emulation_event s"
| "handler DomainWatch s = es_watch_domain_event s"

fun switch :: "'d event_driver \<Rightarrow> mon_kind \<Rightarrow> bool \<Rightarrow> bool \<Rightarrow> ('d \<Rightarrow> status \<times> 'd) option" where
  "switch ed GuestRequests sync en = map_option (\<lambda>f. f en) (ed_set_guest_requested ed)"
| "switch ed Cpuid sync en = map_option (\<lambda>f. f en) (ed_set_cpuid_event ed)"
| "switch ed VmExits sync en = map_option (\<lambda>f. f en sync) (ed_set_vmexit_event ed)"
| "switch ed DebugExceptions sync en = map_option (\<lambda>f. f en) (ed_set_debug_event ed)"
| "switch ed PrivilegedCalls sync en = map_option (\<lambda>f. f en) (ed_set_privcall_event ed)"
| "switch ed DescriptorAccess sync en = map_option (\<lambda>f. f en) (ed_set_desc_access_event ed)"
| "switch ed FailedEmulation sync en = map_option (\<lambda>f. f en) (ed_set_failed_emulation_event ed)"
| "switch ed DomainWatch sync en = map_option (\<lambda>f. f en) (ed_set_domain_watch_event ed)"

text \<open>The kinds that the event management can switch off again.\<close>

definition clearable :: "mon_kind set" where
  "clearable = {GuestRequests, Cpuid, DebugExceptions}"

locale monitored =
  fixes ed :: "'d event_driver" and mon :: "'d \<Rightarrow> mon_kind \<Rightarrow> bool"
  assumes switches: "switch ed k sync en = Some f \<Longrightarrow> en \<or> k \<in> clearable \<Longrightarrow>
      mon (snd (f d)) = (if fst (f d) = VMI_SUCCESS then (mon d)(k := en) else mon d)"
    and intr_calm: "ed_set_intr_access ed = Some f1 \<Longrightarrow> mon (snd (f1 e en d)) = mon d"
    and reg_calm: "ed_set_reg_access ed = Some f2 \<Longrightarrow> mon (snd (f2 e d)) = mon d"
    and mem_calm: "ed_set_mem_access ed = Some f3 \<Longrightarrow> mon (snd (f3 g a i d)) = mon d"
    and start_calm: "ed_start_single_step ed = Some f4 \<Longrightarrow> mon (snd (f4 e d)) = mon d"
    and stop_calm: "ed_stop_single_step ed = Some f5 \<Longrightarrow> mon (snd (f5 v d)) = mon d"
    and shutdown_calm: "ed_shutdown_single_step ed = Some f6 \<Longrightarrow> mon (snd (f6 d)) = mon d"
begin

definition matched :: "'d events_state \<Rightarrow> bool" where
  "matched s \<longleftrightarrow> (\<forall>k. mon (vi_driver (es_vmi s)) k \<longleftrightarrow> handler k s \<noteq> None)"

text \<open>Steps that leave monitors and handlers alone.\<close>

definition same_mon :: "'d events_state \<Rightarrow> 'd events_state \<Rightarrow> bool" where
  "same_mon s t \<longleftrightarrow> mon (vi_driver (es_vmi t)) = mon (vi_driver (es_vmi s)) \<and> (\<forall>k. handler k t = handler k s)"

lemma same_mon_refl [simp]: "same_mon s s"
  by (simp add: same_mon_def)

lemma same_mon_trans: "same_mon s t \<Longrightarrow> same_mon t u \<Longrightarrow> same_mon s u"
  by (simp add: same_mon_def)

lemma same_mon_matched: "same_mon s t \<Longrightarrow> matched s \<Longrightarrow> matched t"
  by (simp add: same_mon_def matched_def)

lemma handler_frame [simp]:
  "handler k (s\<lparr> es_vmi := v \<rparr>) = handler k s" "handler k (s\<lparr> es_heap := h \<rparr>) = handler k s"
  "handler k (s\<lparr> es_interrupt_events := a \<rparr>) = handler k s" "handler k (s\<lparr> es_mem_events_on_gfn := b \<rparr>) = handler k s"
  "handler k (s\<lparr> es_mem_events_generic := c \<rparr>) = handler k s" "handler k (s\<lparr> es_reg_events := d \<rparr>) = handler k s"
  "handler k (s\<lparr> es_msr_events := e \<rparr>) = handler k s" "handler k (s\<lparr> es_ss_events := f \<rparr>) = handler k s"
  "handler k (s\<lparr> es_clear_events := g \<rparr>) = handler k s" "handler k (s\<lparr> es_free_calls := i \<rparr>) = handler k s"
  "handler k (s\<lparr> es_event_callback := j \<rparr>) = handler k s"
  by (cases k; simp)+

lemma same_mon_update [simp]:
  "same_mon s (t\<lparr> es_heap := h \<rparr>) = same_mon s t" "same_mon s (t\<lparr> es_interrupt_events := a \<rparr>) = same_mon s t"
  "same_mon s (t\<lparr> es_mem_events_on_gfn := b \<rparr>) = same_mon s t" "same_mon s (t\<lparr> es_mem_events_generic := c \<rparr>) = same_mon s t"
  "same_mon s (t\<lparr> es_reg_events := d \<rparr>) = same_mon s t" "same_mon s (t\<lparr> es_msr_events := e \<rparr>) = same_mon s t"
  "same_mon s (t\<lparr> es_ss_events := f \<rparr>) = same_mon s t" "same_mon s (t\<lparr> es_clear_events := g \<rparr>) = same_mon s t"
  "same_mon s (t\<lparr> es_free_calls := i \<rparr>) = same_mon s t" "same_mon s (t\<lparr> es_event_callback := j \<rparr>) = same_mon s t"
  "same_mon s (raise_max_physical gfn t) = same_mon s t" "same_mon s (call_free fr p rc t) = same_mon s t"
  by (simp_all add: same_mon_def raise_max_physical_def call_free_def Let_def split: option.split)

lemma driver_ctl_mon:
  assumes "\<And>g d. f = Some g \<Longrightarrow> mon (snd (g d)) = mon d"
  shows "same_mon s (snd (driver_ctl ed f s))"
proof (cases f)
  case (Some g)
  then show ?thesis using assms [OF Some] by (simp add: driver_ctl_def same_mon_def case_prod_beta Let_def)
qed (simp add: driver_ctl_def)

lemma calm_drivers [simp]:
  "same_mon s (snd (driver_set_intr_access ed e en s))" "same_mon s (snd (driver_set_reg_access ed e s))"
  "same_mon s (snd (driver_set_mem_access ed g a i s))" "same_mon s (snd (driver_start_single_step ed e s))"
  "same_mon s (snd (driver_stop_single_step ed v s))" "same_mon s (snd (driver_shutdown_single_step ed s))"
  by (auto simp: driver_defs intr_calm reg_calm mem_calm start_calm stop_calm shutdown_calm intro!: driver_ctl_mon)

lemma register_calm:
  "same_mon s (snd (register_interrupt_event ed p s))" "same_mon s (snd (register_reg_event ed p s))"
  "same_mon s (snd (register_mem_event ed p s))" "same_mon s (snd (register_singlestep_event ed p s))"
  by (simp_all add: register_interrupt_event_def register_msr_event_def register_mem_event_generic_def
      register_singlestep_event_def register_reg_event_def register_mem_event_on_gfn_def register_mem_event_def
      Let_def case_prod_beta split: status.split)

lemma clear_ss_loop_mon: "same_mon s (snd (clear_ss_loop ed vs rc s))"
proof (induction vs arbitrary: rc s)
  case (Cons v vs)
  have "same_mon s t \<Longrightarrow> same_mon s (snd (clear_ss_loop ed vs rc t))" for rc t
    using same_mon_trans Cons.IH by blast
  then show ?case by (simp add: case_prod_beta)
qed simp

lemma shutdown_mon: "same_mon s (snd (vmi_shutdown_single_step ed s))"
  by (simp add: vmi_shutdown_single_step_def case_prod_beta split: status.split)

lemma clear_calm_mon:
  "same_mon s (snd (clear_interrupt_event ed p s))" "same_mon s (snd (clear_reg_event ed p s))"
  "same_mon s (snd (clear_mem_event ed p s))" "same_mon s (snd (clear_singlestep_event ed p s))"
proof -
  show "same_mon s (snd (clear_interrupt_event ed p s))" "same_mon s (snd (clear_reg_event ed p s))"
    "same_mon s (snd (clear_mem_event ed p s))"
    by (simp_all add: clear_reg_event_def clear_interrupt_event_def clear_mem_event_def Let_def case_prod_beta)
  show "same_mon s (snd (clear_singlestep_event ed p s))"
    using clear_ss_loop_mon [of s "ss_vcpus (es_heap s p) s" VMI_FAILURE]
    by (auto simp: clear_singlestep_event_def Let_def case_prod_beta intro: same_mon_trans [OF _ shutdown_mon])
qed

text \<open>Registering and clearing an event with a single handler.\<close>

lemma switched:
  assumes "driver_ctl ed (switch ed k sync en) s = (st, t)" and "en \<or> k \<in> clearable"
  shows "mon (vi_driver (es_vmi t)) = (if st = VMI_SUCCESS then (mon (vi_driver (es_vmi s)))(k := en) else mon (vi_driver (es_vmi s)))"
    "handler j t = handler j s"
proof -
  show "mon (vi_driver (es_vmi t)) = (if st = VMI_SUCCESS then (mon (vi_driver (es_vmi s)))(k := en) else mon (vi_driver (es_vmi s)))"
    using assms switches [of k sync en _ "vi_driver (es_vmi s)"]
    by (auto simp: driver_ctl_def case_prod_beta Let_def split: option.splits if_splits)
  show "handler j t = handler j s"
    using driver_ctl_frame [OF assms(1)] by (metis handler_frame(1))
qed

lemma register_slot_matched:
  assumes "matched s" and "\<And>t. drv t = driver_ctl ed (switch ed k sync True) t"
    and "\<And>t. slot t = handler k t" and "\<And>v t j. handler j (put v t) = (if j = k then v else handler j t)"
    and "\<And>v t. es_vmi (put v t) = es_vmi t"
  shows "matched (snd (register_slot slot put drv p s))"
proof -
  obtain st t where t: "driver_ctl ed (switch ed k sync True) s = (st, t)" by (cases "driver_ctl ed (switch ed k sync True) s")
  note m = switched [OF t]
  show ?thesis
    using assms(1) m by (cases st) (auto simp: register_slot_def assms(2-5) t matched_def)
qed

lemma clear_slot_matched:
  assumes "matched s" and "\<And>t. drv t = driver_ctl ed (switch ed k sync False) t" and "k \<in> clearable"
    and "\<And>t. slot t = handler k t" and "\<And>v t j. handler j (put v t) = (if j = k then v else handler j t)"
    and "\<And>v t. es_vmi (put v t) = es_vmi t"
  shows "matched (snd (clear_slot slot put drv s))"
proof -
  obtain st t where t: "driver_ctl ed (switch ed k sync False) s = (st, t)" by (cases "driver_ctl ed (switch ed k sync False) s")
  note m = switched [OF t]
  show ?thesis
    using assms(1,3) m by (cases st) (auto simp: clear_slot_def assms(2,4-6) t matched_def)
qed

lemma handler_put [simp]:
  "handler j (t\<lparr> es_guest_requested_event := v \<rparr>) = (if j = GuestRequests then v else handler j t)"
  "handler j (t\<lparr> es_cpuid_event := v \<rparr>) = (if j = Cpuid then v else handler j t)"
  "handler j (t\<lparr> es_vmexit_event := v \<rparr>) = (if j = VmExits then v else handler j t)"
  "handler j (t\<lparr> es_debug_event := v \<rparr>) = (if j = DebugExceptions then v else handler j t)"
  "handler j (t\<lparr> es_privcall_event := v \<rparr>) = (if j = PrivilegedCalls then v else handler j t)"
  "handler j (t\<lparr> es_descriptor_access_event := v \<rparr>) = (if j = DescriptorAccess then v else handler j t)"
  "handler j (t\<lparr> es_failed_emulation_event := v \<rparr>) = (if j = FailedEmulation then v else handler j t)"
  "handler j (t\<lparr> es_watch_domain_event := v \<rparr>) = (if j = DomainWatch then v else handler j t)"
  by (cases j; simp)+

lemma register_each_matched:
  assumes "matched s"
  shows "matched (snd (register_guest_requested_event ed p s))" "matched (snd (register_cpuid_event ed p s))"
    "matched (snd (register_vmexit_event ed p s))" "matched (snd (register_debug_event ed p s))"
    "matched (snd (register_privcall_event ed p s))" "matched (snd (register_desc_access_event ed p s))"
    "matched (snd (register_failed_emulation_event ed p s))" "matched (snd (register_watch_domain_event ed p s))"
  unfolding register_guest_requested_event_def register_cpuid_event_def register_vmexit_event_def register_debug_event_def
    register_privcall_event_def register_desc_access_event_def register_failed_emulation_event_def register_watch_domain_event_def
  by (rule register_slot_matched [OF assms], simp_all add: driver_defs)+

lemma clear_each_matched:
  assumes "matched s"
  shows "matched (snd (clear_guest_requested_event ed s))" "matched (snd (clear_cpuid_event ed s))"
    "matched (snd (clear_debug_event ed s))"
  unfolding clear_guest_requested_event_def clear_cpuid_event_def clear_debug_event_def
  by (rule clear_slot_matched [OF assms], simp_all add: driver_defs clearable_def)+

lemma register_matched: "matched s \<Longrightarrow> matched (snd (vmi_register_event ed p s))"
  by (simp add: vmi_register_event_def Let_def register_each_matched same_mon_matched [OF register_calm(1)]
      same_mon_matched [OF register_calm(2)] same_mon_matched [OF register_calm(3)] same_mon_matched [OF register_calm(4)])

lemma clear_matched: "matched s \<Longrightarrow> matched (snd (vmi_clear_event ed p fr s))"
proof -
  assume m: "matched s"
  have f: "matched (call_free fr p rc t) = matched t" "matched (t\<lparr> es_clear_events := c \<rparr>) = matched t" for rc t c
    by (simp_all add: matched_def call_free_def split: option.split)
  show ?thesis
    using m by (auto simp: vmi_clear_event_def Let_def case_prod_beta f clear_each_matched same_mon_matched [OF clear_calm_mon(1)]
        same_mon_matched [OF clear_calm_mon(2)] same_mon_matched [OF clear_calm_mon(3)] same_mon_matched [OF clear_calm_mon(4)]
        split: option.split)
qed

text \<open>A handler stays until it is cleared, and the kinds without a way to clear them keep theirs.\<close>

lemma register_slot_keeps:
  assumes "\<And>t. drv t = driver_ctl ed (switch ed j sync True) t"
    and "\<And>t. slot t = handler j t" and "\<And>v t i. handler i (put v t) = (if i = j then v else handler i t)"
    and "handler k s = Some q"
  shows "handler k (snd (register_slot slot put drv p s)) = Some q"
proof -
  obtain st t where t: "driver_ctl ed (switch ed j sync True) s = (st, t)" by (cases "driver_ctl ed (switch ed j sync True) s")
  show ?thesis
    using assms(4) switched(2) [OF t, of k] by (cases st) (auto simp: register_slot_def assms(1-3) t)
qed

lemma register_keeps:
  assumes "handler k s = Some q"
  shows "handler k (snd (vmi_register_event ed p s)) = Some q"
proof -
  have c: "handler k t = Some q" if "same_mon s t" for t using that assms by (simp add: same_mon_def)
  have slots: "handler k (snd (register_guest_requested_event ed p s)) = Some q" "handler k (snd (register_cpuid_event ed p s)) = Some q"
    "handler k (snd (register_vmexit_event ed p s)) = Some q" "handler k (snd (register_debug_event ed p s)) = Some q"
    "handler k (snd (register_privcall_event ed p s)) = Some q" "handler k (snd (register_desc_access_event ed p s)) = Some q"
    "handler k (snd (register_failed_emulation_event ed p s)) = Some q" "handler k (snd (register_watch_domain_event ed p s)) = Some q"
    unfolding register_guest_requested_event_def register_cpuid_event_def register_vmexit_event_def register_debug_event_def
      register_privcall_event_def register_desc_access_event_def register_failed_emulation_event_def register_watch_domain_event_def
    by (rule register_slot_keeps [OF _ _ _ assms], simp_all add: driver_defs)+
  show ?thesis
    by (simp add: vmi_register_event_def Let_def slots assms c [OF register_calm(1)] c [OF register_calm(2)]
        c [OF register_calm(3)] c [OF register_calm(4)])
qed

lemma clear_slot_keeps:
  assumes "\<And>t. drv t = driver_ctl ed (switch ed j sync False) t"
    and "\<And>v t i. handler i (put v t) = (if i = j then v else handler i t)" and "j \<in> clearable" and "k \<notin> clearable"
  shows "handler k (snd (clear_slot slot put drv s)) = handler k s"
proof -
  obtain st t where t: "driver_ctl ed (switch ed j sync False) s = (st, t)" by (cases "driver_ctl ed (switch ed j sync False) s")
  show ?thesis
    using assms(3,4) switched(2) [OF t, of k] by (cases st) (auto simp: clear_slot_def assms(1,2) t)
qed

lemma clear_keeps:
  assumes "k \<notin> clearable"
  shows "handler k (snd (vmi_clear_event ed p fr s)) = handler k s"
proof -
  have c: "handler k t = handler k s" if "same_mon s t" for t using that by (simp add: same_mon_def)
  have "handler k (snd (clear_guest_requested_event ed s)) = handler k s"
    unfolding clear_guest_requested_event_def
    by (rule clear_slot_keeps [where j = GuestRequests and k = k]) (use assms in \<open>simp_all add: driver_defs clearable_def\<close>)
  moreover have "handler k (snd (clear_cpuid_event ed s)) = handler k s"
    unfolding clear_cpuid_event_def
    by (rule clear_slot_keeps [where j = Cpuid and k = k]) (use assms in \<open>simp_all add: driver_defs clearable_def\<close>)
  moreover have "handler k (snd (clear_debug_event ed s)) = handler k s"
    unfolding clear_debug_event_def
    by (rule clear_slot_keeps [where j = DebugExceptions and k = k]) (use assms in \<open>simp_all add: driver_defs clearable_def\<close>)
  moreover have f: "handler k (call_free fr p rc t) = handler k t" for rc t by (simp add: call_free_def split: option.split)
  ultimately show ?thesis
    by (auto simp: vmi_clear_event_def Let_def case_prod_beta f c [OF clear_calm_mon(1)]
        c [OF clear_calm_mon(2)] c [OF clear_calm_mon(3)] c [OF clear_calm_mon(4)] split: option.split)
qed

end

section \<open>The Xen driver\<close>

text \<open>A hypervisor that remembers, beside its own state, which monitors it was last told to switch on
  and agreed to.\<close>

definition passed :: "('s \<Rightarrow> 'r \<times> 's) \<Rightarrow> 'm \<times> 's \<Rightarrow> 'r \<times> 'm \<times> 's" where
  "passed f d = (let (r, d') = f (snd d) in (r, fst d, d'))"

definition noted :: "('m \<Rightarrow> 'm) \<Rightarrow> ('r \<Rightarrow> bool) \<Rightarrow> ('s \<Rightarrow> 'r \<times> 's) \<Rightarrow> 'm \<times> 's \<Rightarrow> 'r \<times> 'm \<times> 's" where
  "noted g ok f d = (let (r, d') = f (snd d) in (r, if ok r then g (fst d) else fst d, d'))"

definition track_xc :: "'s libxc \<Rightarrow> ((mon_kind \<Rightarrow> bool) \<times> 's) libxc" where
  "track_xc xc =
     \<lparr> xc_set_mem_access = (\<lambda>a g. passed (xc_set_mem_access xc a g)),
       xc_altp2m_set_mem_access = (\<lambda>i g a. passed (xc_altp2m_set_mem_access xc i g a)),
       xc_monitor_write_ctrlreg = (\<lambda>r a b c. passed (xc_monitor_write_ctrlreg xc r a b c)),
       xc_monitor_write_ctrlreg2 = (\<lambda>r a b c. passed (xc_monitor_write_ctrlreg2 xc r a b c)),
       xc_monitor_mov_to_msr = (\<lambda>b. passed (xc_monitor_mov_to_msr xc b)),
       xc_monitor_mov_to_msr2 = (\<lambda>m b. passed (xc_monitor_mov_to_msr2 xc m b)),
       xc_monitor_software_breakpoint = (\<lambda>b. passed (xc_monitor_software_breakpoint xc b)),
       xc_monitor_singlestep = (\<lambda>b. passed (xc_monitor_singlestep xc b)),
       xc_domain_debug_control = (\<lambda>b v. passed (xc_domain_debug_control xc b v)),
       xc_hvm_inject_trap = (\<lambda>v a b c e. passed (xc_hvm_inject_trap xc v a b c e)),
       xc_domain_pause = passed (xc_domain_pause xc), xc_domain_unpause = passed (xc_domain_unpause xc),
       xc_evtchn_notify = (\<lambda>p. passed (xc_evtchn_notify xc p)), xc_evtchn_pending = passed (xc_evtchn_pending xc),
       xc_evtchn_unmask = (\<lambda>p. passed (xc_evtchn_unmask xc p)) \<rparr>"

definition track :: "'s monitor_calls \<Rightarrow> ((mon_kind \<Rightarrow> bool) \<times> 's) monitor_calls" where
  "track mc = (let sw = (\<lambda>k en. noted (\<lambda>m. m(k := en)) (\<lambda>rc. 0 \<le> rc)) in
     \<lparr> mc_guest_request = (\<lambda>en. sw GuestRequests en (mc_guest_request mc en)),
       mc_guest_request2 = (\<lambda>en. sw GuestRequests en (mc_guest_request2 mc en)),
       mc_debug_exceptions = (\<lambda>en. sw DebugExceptions en (mc_debug_exceptions mc en)),
       mc_cpuid = (\<lambda>en. sw Cpuid en (mc_cpuid mc en)),
       mc_vmexit = (\<lambda>en sync. sw VmExits en (mc_vmexit mc en sync)),
       mc_privileged_call = (\<lambda>en. sw PrivilegedCalls en (mc_privileged_call mc en)),
       mc_descriptor_access = (\<lambda>en. sw DescriptorAccess en (mc_descriptor_access mc en)),
       mc_emul_unimplemented = (\<lambda>en. sw FailedEmulation en (mc_emul_unimplemented mc en)),
       mc_xs_watch = (\<lambda>p. noted (\<lambda>m. if p = ''@releaseDomain'' then m(DomainWatch := True) else m) (\<lambda>ok. ok) (mc_xs_watch mc p)),
       mc_xs_unwatch = (\<lambda>p. passed (mc_xs_unwatch mc p)), mc_interface_close = passed (mc_interface_close mc) \<rparr>)"

abbreviation told :: "((mon_kind \<Rightarrow> bool) \<times> 's) xen_events \<Rightarrow> mon_kind \<Rightarrow> bool" where
  "told x \<equiv> fst (xe_xen x)"

lemma told_passed [simp]: "told (snd (xc_call (passed f) x)) = told x"
  by (simp add: xc_call_def passed_def case_prod_beta Let_def)

lemma told_noted:
  "told (snd (xc_call (noted g ok f) x)) = (if ok (fst (xc_call (noted g ok f) x)) then g (told x) else told x)"
  by (simp add: xc_call_def noted_def case_prod_beta Let_def)

lemma told_calls [simp]:
  "told (snd (xc_call (xc_set_mem_access (track_xc xc) a g) x)) = told x"
  "told (snd (xc_call (xc_altp2m_set_mem_access (track_xc xc) i g a) x)) = told x"
  "told (snd (xc_call (xc_monitor_write_ctrlreg (track_xc xc) r b c e) x)) = told x"
  "told (snd (xc_call (xc_monitor_write_ctrlreg2 (track_xc xc) r b c e) x)) = told x"
  "told (snd (xc_call (xc_monitor_mov_to_msr (track_xc xc) b) x)) = told x"
  "told (snd (xc_call (xc_monitor_mov_to_msr2 (track_xc xc) m b) x)) = told x"
  "told (snd (xc_call (xc_monitor_software_breakpoint (track_xc xc) b) x)) = told x"
  "told (snd (xc_call (xc_monitor_singlestep (track_xc xc) b) x)) = told x"
  "told (snd (xc_call (xc_domain_debug_control (track_xc xc) b v) x)) = told x"
  by (simp_all add: track_xc_def)

lemma told_msr_all [simp]: "told (set_msr_all (track_xc xc) b ms x) = told x"
  by (induction ms arbitrary: x) (simp_all add: Let_def case_prod_beta)

lemma told_ctrlreg [simp]: "told (snd (set_ctrlreg (track_xc xc) r e b x)) = told x"
  by (simp add: set_ctrlreg_def Let_def case_prod_beta)

lemma told_stop [simp]: "told (snd (xen_stop_single_step (track_xc xc) v x)) = told x"
  by (simp add: xen_stop_single_step_def case_prod_beta)

lemma told_rewind [simp]: "told (rewind_mtf (track_xc xc) n x) = told x"
  by (induction n arbitrary: x) simp_all

lemma told_start_mtf [simp]: "told (snd (start_mtf (track_xc xc) vs x)) = told x"
  by (induction vs arbitrary: x) (simp_all add: Let_def case_prod_beta split: prod.split)

lemma told_stop_all [simp]: "told (stop_all (track_xc xc) vs x) = told x"
  by (induction vs arbitrary: x) simp_all

lemma told_ctrlreg_event [simp]:
  "(\<And>x. told (sw x) = told x) \<Longrightarrow> told (snd (ctrlreg_event (track_xc xc) r on sw e en x)) = told x"
  by (simp add: ctrlreg_event_def Let_def case_prod_beta)

lemma told_switches [simp]:
  "told (snd (xen_set_mem_access (track_xc xc) g a i x)) = told x"
  "told (snd (xen_set_reg_access (track_xc xc) e x)) = told x"
  "told (snd (xen_set_intr_access (track_xc xc) e en x)) = told x"
  "told (snd (xen_start_single_step (track_xc xc) e x)) = told x"
  "told (snd (xen_shutdown_single_step (track_xc xc) n x)) = told x"
  by (simp_all add: xen_set_mem_access_def xen_set_reg_access_def xen_set_intr_access_def xen_set_int3_access_def
      xen_start_single_step_def xen_shutdown_single_step_def Let_def case_prod_beta split: option.split)

definition sets_monitor :: "mon_kind \<Rightarrow> bool \<Rightarrow> (((mon_kind \<Rightarrow> bool) \<times> 's) xen_events \<Rightarrow>
    status \<times> ((mon_kind \<Rightarrow> bool) \<times> 's) xen_events) \<Rightarrow> bool" where
  "sets_monitor k en f \<longleftrightarrow> (\<forall>x. told (snd (f x)) = (if fst (f x) = VMI_SUCCESS then (told x)(k := en) else told x))"

lemma gated_sets: "sets_monitor k en f \<Longrightarrow> sets_monitor k en (gated ok f)"
  by (simp add: sets_monitor_def gated_def)

lemma monitor_call_sets: "sets_monitor k en (monitor_call (noted (\<lambda>m. m(k := en)) (\<lambda>rc. 0 \<le> rc) f))"
  by (auto simp: sets_monitor_def monitor_call_def case_prod_beta told_noted not_le)

lemma guest_request_sets: "sets_monitor GuestRequests en (guest_request_call (track mc) en)"
  by (simp add: sets_monitor_def guest_request_call_def track_def Let_def monitor_call_sets [unfolded sets_monitor_def, rule_format])

lemma watch_sets: "sets_monitor DomainWatch True (watch_domains (track mc))"
proof -
  have w: "mc_xs_watch (track mc) p = noted (\<lambda>m. if p = ''@releaseDomain'' then m(DomainWatch := True) else m) (\<lambda>ok. ok) (mc_xs_watch mc p)"
    "mc_xs_unwatch (track mc) p = passed (mc_xs_unwatch mc p)" "mc_interface_close (track mc) = passed (mc_interface_close mc)" for p
    by (simp_all add: track_def Let_def)
  show ?thesis
    unfolding sets_monitor_def watch_domains_def w
    by (auto simp: case_prod_beta told_noted split: bool.split)
qed

lemma tracked_calls:
  "mc_debug_exceptions (track mc) en = noted (\<lambda>m. m(DebugExceptions := en)) (\<lambda>rc. 0 \<le> rc) (mc_debug_exceptions mc en)"
  "mc_cpuid (track mc) en = noted (\<lambda>m. m(Cpuid := en)) (\<lambda>rc. 0 \<le> rc) (mc_cpuid mc en)"
  "mc_vmexit (track mc) en sync = noted (\<lambda>m. m(VmExits := en)) (\<lambda>rc. 0 \<le> rc) (mc_vmexit mc en sync)"
  "mc_privileged_call (track mc) en = noted (\<lambda>m. m(PrivilegedCalls := en)) (\<lambda>rc. 0 \<le> rc) (mc_privileged_call mc en)"
  "mc_descriptor_access (track mc) en = noted (\<lambda>m. m(DescriptorAccess := en)) (\<lambda>rc. 0 \<le> rc) (mc_descriptor_access mc en)"
  "mc_emul_unimplemented (track mc) en = noted (\<lambda>m. m(FailedEmulation := en)) (\<lambda>rc. 0 \<le> rc) (mc_emul_unimplemented mc en)"
  by (simp_all add: track_def Let_def)

lemma xen_switch_sets:
  assumes "switch (xen_full_driver xc (track mc) n) k sync en = Some f" and "en \<or> k \<in> clearable"
  shows "sets_monitor k en f"
  using assms
  by (cases k) (auto simp: xen_full_driver_def clearable_def tracked_calls intro: gated_sets monitor_call_sets guest_request_sets watch_sets)

interpretation xenm: monitored "xen_full_driver (track_xc xc) (track mc) n" "\<lambda>x. told x" for xc mc n
proof unfold_locales
  show "told (snd (f d)) = (if fst (f d) = VMI_SUCCESS then (told d)(k := en) else told d)"
    if "switch (xen_full_driver (track_xc xc) (track mc) n) k sync en = Some f" and "en \<or> k \<in> clearable" for k sync en f d
    using xen_switch_sets [OF that] by (simp add: sets_monitor_def)
qed (auto simp: xen_full_driver_def xen_event_driver_def)

section \<open>Setting the event channel up\<close>

text \<open>\<^verbatim>\<open>xen->events\<close>: not set, an event structure, or one that was freed.\<close>

datatype 'x events_ptr = NoEvents | Events 'x | Freed

text \<open>\<open>ic_monitor_enable\<close> maps the ring and gives the remote port; \<open>ic_version\<close> is the reported
  version of the ring where the library has a call for it.\<close>

record 's init_calls =
  ic_monitor_enable :: "'s \<Rightarrow> u32 option \<times> 's"
  ic_evtchn_open :: "'s \<Rightarrow> bool \<times> 's"
  ic_bind_interdomain :: "u32 \<Rightarrow> 's \<Rightarrow> int \<times> 's"
  ic_get_capabilities :: "'s \<Rightarrow> u32 \<times> 's"
  ic_version :: "int option"

definition xen_events_zero :: "nat \<Rightarrow> nat \<Rightarrow> 's \<Rightarrow> 's xen_events" where
  "xen_events_zero major minor d =
     \<lparr> xe_major_version = major, xe_minor_version = minor, xe_monitor_capabilities = 0, xe_monitor_singlestep_on = False,
       xe_monitor_intr_on = False, xe_monitor_cr0_on = False, xe_monitor_cr3_on = False, xe_monitor_cr4_on = False,
       xe_monitor_xcr0_on = False, xe_monitor_msr_on = False, xe_port = 0, xe_external_poll = False, xe_xen = d \<rparr>"

text \<open>The ring and the event channel; an external channel is used as it is.\<close>

definition bind_ring :: "'s init_calls \<Rightarrow> bool \<Rightarrow> 's \<Rightarrow> int option \<times> 's" where
  "bind_ring ic external d =
     (case ic_monitor_enable ic d of
        (None, d) \<Rightarrow> (None, d)
      | (Some evtchn_port, d) \<Rightarrow>
     (case (if external then (True, d) else ic_evtchn_open ic d) of
        (False, d) \<Rightarrow> (None, d)
      | (True, d) \<Rightarrow>
     (case ic_bind_interdomain ic evtchn_port d of
        (rc, d) \<Rightarrow> (if rc < 0 then None else Some rc, d))))"

text \<open>\<open>old\<close> is the event structure that the watch for domains may have set up before.  Every failure after the
  check of the release frees the structure; the pointer to it is stored before the version is
  known.\<close>

definition xen_init_events :: "'s init_calls \<Rightarrow> nat \<Rightarrow> nat \<Rightarrow> bool \<Rightarrow> 's xen_events option \<Rightarrow> 's \<Rightarrow>
    status \<times> 's xen_events events_ptr \<times> nat option \<times> 's" where
  "xen_init_events ic major minor external old d =
     (if major \<noteq> 4 \<or> minor < 6 then (VMI_FAILURE, (case old of None \<Rightarrow> NoEvents | Some xe \<Rightarrow> Events xe), None, d)
      else
        let xe = (case old of None \<Rightarrow> xen_events_zero major minor d | Some xe \<Rightarrow> xe) in
        (case bind_ring ic external d of
           (None, d) \<Rightarrow> (VMI_FAILURE, (case old of None \<Rightarrow> NoEvents | Some xe \<Rightarrow> Freed), None, d)
         | (Some port, d) \<Rightarrow>
             let (cap, d) = ic_get_capabilities ic d;
                 xe = xe\<lparr> xe_port := port, xe_external_poll := external, xe_monitor_capabilities := cap, xe_xen := d \<rparr> in
             (case vm_event_version (ic_version ic) minor of
                None \<Rightarrow> (VMI_FAILURE, Freed, None, d)
              | Some version \<Rightarrow> (VMI_SUCCESS, Events xe, Some version, d))))"

section \<open>Properties\<close>

text \<open>What a client can do with its events, in any order: register, clear, change its event structures;
  \<open>es_event_callback\<close> is set while a callback runs.\<close>

inductive events_run :: "'d event_driver \<Rightarrow> 'd events_state \<Rightarrow> 'd events_state \<Rightarrow> bool" for ed s where
  start: "events_run ed s s"
| register: "events_run ed s t \<Longrightarrow> events_run ed s (snd (vmi_register_event ed p t))"
| clear: "events_run ed s t \<Longrightarrow> events_run ed s (snd (vmi_clear_event ed p fr t))"
| callback: "events_run ed s t \<Longrightarrow> events_run ed s (t\<lparr> es_event_callback := b \<rparr>)"
| edit: "events_run ed s t \<Longrightarrow> events_run ed s (t\<lparr> es_heap := h \<rparr>)"

text \<open>C38. The hypervisor reports guest requests, CPUID, exits, debug exceptions, privileged calls, descriptor
  accesses, failed emulation and new domains exactly while an event of the kind has a handler, whatever a
  client registers and clears and whichever calls of the hypervisor fail.  A handler for exits, privileged
  calls, descriptor accesses, failed emulation or new domains stays for ever: there is no way to clear it.\<close>

theorem monitors_follow_handlers:
  assumes "events_run (xen_full_driver (track_xc xc) (track mc) n) s t"
    and "\<And>j. told (vi_driver (es_vmi s)) j \<longleftrightarrow> handler j s \<noteq> None"
  shows "(told (vi_driver (es_vmi t)) k \<longleftrightarrow> handler k t \<noteq> None) \<and>
    (k \<notin> {GuestRequests, Cpuid, DebugExceptions} \<longrightarrow> handler k s \<noteq> None \<longrightarrow> handler k t = handler k s)"
proof -
  have "xenm.matched t \<and> (\<forall>k q. k \<notin> clearable \<longrightarrow> handler k s = Some q \<longrightarrow> handler k t = Some q)"
    using assms(1)
  proof induction
    case start
    show ?case using assms(2) by (simp add: xenm.matched_def)
  next
    case (register t p)
    then show ?case using xenm.register_matched [of t] xenm.register_keeps by blast
  next
    case (clear t p fr)
    then show ?case using xenm.clear_matched [of t] xenm.clear_keeps by metis
  qed (simp_all add: xenm.matched_def)
  then show ?thesis by (auto simp: xenm.matched_def clearable_def)
qed


section \<open>A concrete hypervisor\<close>

definition mc0 :: "unit monitor_calls" where
  "mc0 = \<lparr> mc_guest_request = (\<lambda>en d. (0, d)), mc_guest_request2 = (\<lambda>en d. (0, d)), mc_debug_exceptions = (\<lambda>en d. (0, d)),
     mc_cpuid = (\<lambda>en d. (0, d)), mc_vmexit = (\<lambda>en sync d. (-1, d)), mc_privileged_call = (\<lambda>en d. (0, d)),
     mc_descriptor_access = (\<lambda>en d. (0, d)), mc_emul_unimplemented = (\<lambda>en d. (0, d)), mc_xs_watch = (\<lambda>p d. (True, d)),
     mc_xs_unwatch = (\<lambda>p d. (True, d)), mc_interface_close = (\<lambda>d. (0, d)) \<rparr>"

abbreviation edm :: "((mon_kind \<Rightarrow> bool) \<times> unit) xen_events event_driver" where
  "edm \<equiv> xen_full_driver (track_xc xc0) (track mc0) 4"

definition esm :: "((mon_kind \<Rightarrow> bool) \<times> unit) xen_events events_state" where
  "esm = \<lparr> es_vmi = \<lparr> vi_mode = VMI_XEN, vi_os_type = VMI_OS_LINUX, vi_vm_type = HVM, vi_page_mode = VMI_PM_IA32E,
       vi_kpgd = 0, vi_page_shift = 12, vi_page_size = 0x1000, vi_pse = False, vi_transition_pages = False,
       vi_t0sz = 0, vi_t1sz = 0, vi_tg0 = 0, vi_tg1 = 0, vi_max_physical_address = 0, vi_caches = addr_caches_init,
       vi_driver = xen_events_zero 4 15 (\<lambda>k. False, ()) \<rparr>,
     es_init_flags = 4, es_num_vcpus = 4, es_event_callback = False, es_shutting_down = False,
     es_heap = (\<lambda>p. event_zero\<lparr> ve_version := 9, ve_type := (if p = 0 then VMI_EVENT_CPUID else VMI_EVENT_DESCRIPTOR_ACCESS),
       ve_callback := CB_user 0 \<rparr>),
     es_next = 5, es_interrupt_events = Mapping.empty, es_mem_events_on_gfn = Mapping.empty,
     es_mem_events_generic = Mapping.empty, es_reg_events = Mapping.empty, es_msr_events = Mapping.empty,
     es_ss_events = Mapping.empty, es_clear_events = Mapping.empty, es_step_events = [], es_step_vcpus = (\<lambda>v. 0),
     es_swap_events = [], es_guest_requested_event = None, es_cpuid_event = None, es_vmexit_event = None,
     es_debug_event = None, es_privcall_event = None, es_descriptor_access_event = None,
     es_failed_emulation_event = None, es_watch_domain_event = None, es_free_calls = [] \<rparr>"

definition esm2 :: "((mon_kind \<Rightarrow> bool) \<times> unit) xen_events events_state" where
  "esm2 = snd (vmi_register_event edm 1 (snd (vmi_clear_event edm 0 None (snd (vmi_register_event edm 0 esm)))))"

lemma esm2_told: "map (told (vi_driver (es_vmi esm2))) [Cpuid, DescriptorAccess, VmExits] = [False, True, False]"
  by code_simp

theorem monitors_follow_handlers_witness:
  "handler DescriptorAccess esm2 \<noteq> None \<and> handler Cpuid esm2 = None \<and> told (vi_driver (es_vmi esm2)) DescriptorAccess"
proof -
  have r: "events_run edm esm esm2"
    unfolding esm2_def by (intro events_run.intros)
  have m: "told (vi_driver (es_vmi esm)) j \<longleftrightarrow> handler j esm \<noteq> None" for j
    by (cases j) (simp_all add: esm_def xen_events_zero_def)
  show ?thesis
    using monitors_follow_handlers [OF r m, of DescriptorAccess] monitors_follow_handlers [OF r m, of Cpuid] esm2_told
    by simp
qed

definition ic0 :: "unit init_calls" where
  "ic0 = \<lparr> ic_monitor_enable = (\<lambda>d. (Some 3, d)), ic_evtchn_open = (\<lambda>d. (True, d)), ic_bind_interdomain = (\<lambda>p d. (5, d)),
     ic_get_capabilities = (\<lambda>d. (15, d)), ic_version = Some 8 \<rparr>"


end
