(* ===== verification/Disk_Image.thy ===== *)
theory Disk_Image
  imports Vmi_Types
begin

text \<open>
  \<^verbatim>\<open>disk/vbd.c\<close>: reading the virtual disk of a guest from its image, a raw device or a file in
  the \<^verbatim>\<open>qcow2\<close> format with clusters that may be compressed or missing, in which case the backing file is
  asked.

  The files are a function from paths to their bytes, and \<^verbatim>\<open>zlib\<close> is a parameter.  A result is the
  data, a failure, or \<open>Undefined\<close>, where the C program leaves a buffer, divides by zero or shifts
  too far.  Allocation does not fail.
\<close>

section \<open>Results and files\<close>

datatype 'a disk_result = Done 'a | Failed | Undefined

fun and_then :: "'a disk_result \<Rightarrow> ('a \<Rightarrow> 'b disk_result) \<Rightarrow> 'b disk_result" where
  "and_then (Done x) f = f x"
| "and_then Failed f = Failed"
| "and_then Undefined f = Undefined"

type_synonym disk_files = "string \<Rightarrow> u8 list option"

text \<open>\<^verbatim>\<open>fseek\<close> to a position that is negative as a \<^verbatim>\<open>long\<close> fails and the position stays;
  \<^verbatim>\<open>fread\<close> of one item of \<open>n\<close> bytes.\<close>

definition fseek :: "nat \<Rightarrow> u64 \<Rightarrow> nat" where
  "fseek pos off = (if bit off 63 then pos else unat off)"

definition fread :: "u8 list \<Rightarrow> nat \<Rightarrow> nat \<Rightarrow> u8 list option" where
  "fread f pos n = (if n = 0 \<or> length f < pos + n then None else Some (take n (drop pos f)))"

definition be_at :: "u8 list \<Rightarrow> nat \<Rightarrow> nat \<Rightarrow> 'w::len word" where
  "be_at f pos n = word_of_bytes (rev (take n (drop pos f)))"

section \<open>The header\<close>

record QCowHeader =
  qh_magic :: u32
  qh_version :: u32
  qh_backing_file_offset :: u64
  qh_backing_file_size :: u32
  qh_cluster_bits :: u32
  qh_size :: u64
  qh_crypt_method :: u32
  qh_l1_size :: u32
  qh_l1_table_offset :: u64
  qh_refcount_table_offset :: u64
  qh_refcount_table_clusters :: u32
  qh_nb_snapshots :: u32
  qh_snapshots_offset :: u64

abbreviation header_size :: nat where "header_size \<equiv> 72"

definition QCOW2_MAGIC :: u32 where "QCOW2_MAGIC = 0x514649fb"

definition vbd_qcow2_read_header :: "u8 list \<Rightarrow> QCowHeader disk_result" where
  "vbd_qcow2_read_header f =
     (if length f < header_size then Failed
      else let header = \<lparr> qh_magic = be_at f 0 4, qh_version = be_at f 4 4, qh_backing_file_offset = be_at f 8 8,
             qh_backing_file_size = be_at f 16 4, qh_cluster_bits = be_at f 20 4, qh_size = be_at f 24 8,
             qh_crypt_method = be_at f 32 4, qh_l1_size = be_at f 36 4, qh_l1_table_offset = be_at f 40 8,
             qh_refcount_table_offset = be_at f 48 8, qh_refcount_table_clusters = be_at f 56 4,
             qh_nb_snapshots = be_at f 60 4, qh_snapshots_offset = be_at f 64 8 \<rparr> in
           if qh_magic header \<noteq> QCOW2_MAGIC then Failed
           else if qh_version header < 2 \<or> 3 < qh_version header then Failed
           else Done header)"

section \<open>The name of the backing file\<close>

definition chars_of :: "u8 list \<Rightarrow> string" where
  "chars_of bs = map (\<lambda>b. char_of (unat b)) bs"

fun strstr :: "string \<Rightarrow> string \<Rightarrow> nat option" where
  "strstr [] needle = (if needle = [] then Some 0 else None)"
| "strstr (c # s) needle =
     (if take (length needle) (c # s) = needle then Some 0 else map_option Suc (strstr s needle))"

definition json_prefix :: string where
  "json_prefix = ''\"filename\": \"''"

text \<open>The buffer has 4096 bytes, the first ones from the file; \<open>s\<close> is the text up to the first NUL,
  or all of the buffer.\<close>

definition backing_name :: "string \<Rightarrow> u8 list \<Rightarrow> string disk_result" where
  "backing_name filename name =
     (let size = length name; s = chars_of (takeWhile (\<lambda>b. b \<noteq> 0) name);
          terminated = (size < 0x1000 \<or> length s < size) in
      if take 1 s = ''/'' then (if terminated then Done s else Undefined)
      else if take 5 s = ''json:'' then
        (case strstr s json_prefix of
           None \<Rightarrow> if terminated then Done [] else Undefined
         | Some i \<Rightarrow>
             let p = drop (i + length json_prefix) s in
             if CHR 0x22 \<in> set p then Done (takeWhile (\<lambda>c. c \<noteq> CHR 0x22) p) else Undefined)
      else if CHR ''/'' \<notin> set filename then Undefined
      else
        let dir = rev (dropWhile (\<lambda>c. c \<noteq> CHR ''/'') (rev filename)) in
        if length dir + size > 0x1000 then Failed
        else if length dir + length s \<ge> 0x1000 then Undefined
        else Done (dir @ s))"

section \<open>Opening an image\<close>

record QCowFile =
  qf_fp :: "u8 list"
  qf_header :: QCowHeader
  qf_cluster_size :: u32
  qf_l2_size :: u64
  qf_l2_bits :: u64
  qf_l1_table :: "u64 list"
  qf_filename :: string
  qf_backing_file :: string

definition be_table :: "u8 list \<Rightarrow> nat \<Rightarrow> u64 list" where
  "be_table bs n = map (\<lambda>i. be_at bs (8 * i) 8) [0..<n]"

definition vbd_qcow2_read_l1_table :: "u8 list \<Rightarrow> nat \<Rightarrow> QCowHeader \<Rightarrow> u64 list disk_result" where
  "vbd_qcow2_read_l1_table f pos header =
     (let n = unat (qh_l1_size header) in
      case fread f (fseek pos (qh_l1_table_offset header)) (8 * n) of
        None \<Rightarrow> Failed
      | Some bs \<Rightarrow> Done (be_table bs n))"

text \<open>The backing file with the position in the file after its name was read.\<close>

definition read_backing :: "string \<Rightarrow> u8 list \<Rightarrow> QCowHeader \<Rightarrow> (string \<times> nat) disk_result" where
  "read_backing filename f header =
     (if qh_backing_file_offset header = 0 then Done ([], header_size)
      else if qh_backing_file_size header > 0x1000 then Failed
      else
        let pos = fseek header_size (qh_backing_file_offset header); size = unat (qh_backing_file_size header) in
        case fread f pos size of
          None \<Rightarrow> Failed
        | Some name \<Rightarrow> and_then (backing_name filename name) (\<lambda>b. Done (b, pos + size)))"

definition vbd_qcow2_open :: "disk_files \<Rightarrow> string \<Rightarrow> QCowFile disk_result" where
  "vbd_qcow2_open files filename =
     (if length filename \<ge> 0x1000 then Undefined
      else case files filename of
        None \<Rightarrow> Failed
      | Some f \<Rightarrow>
          and_then (vbd_qcow2_read_header f) (\<lambda>header.
          and_then (read_backing filename f header) (\<lambda>(backing, pos).
            if qh_cluster_bits header \<ge> 32 then Undefined
            else
              let cluster_size = push_bit (unat (qh_cluster_bits header)) 1 in
              if cluster_size = 0 then Failed
              else and_then (vbd_qcow2_read_l1_table f pos header) (\<lambda>l1.
                Done \<lparr> qf_fp = f, qf_header = header, qf_cluster_size = cluster_size,
                  qf_l2_size = ucast cluster_size div 8, qf_l2_bits = ucast (qh_cluster_bits header - 3),
                  qf_l1_table = l1, qf_filename = filename, qf_backing_file = backing \<rparr>))))"

definition vbd_qcow2_read_l2_table :: "QCowFile \<Rightarrow> u64 \<Rightarrow> u64 list disk_result" where
  "vbd_qcow2_read_l2_table qf l2_offset =
     (case fread (qf_fp qf) (unat l2_offset) (unat (qf_cluster_size qf)) of
        None \<Rightarrow> Failed
      | Some bs \<Rightarrow> Done (be_table bs (unat (qf_l2_size qf))))"

section \<open>Reading\<close>

datatype zret = Z_STREAM_END | Z_BUF_ERROR | Z_OTHER

text \<open>\<open>zl_init\<close>: \<^verbatim>\<open>inflateInit2\<close> succeeds.  \<open>zl_inflate\<close>: what \<^verbatim>\<open>inflate\<close> returns and
  writes for a room of that many bytes.\<close>

record zlib =
  zl_init :: bool
  zl_inflate :: "nat \<Rightarrow> u8 list \<Rightarrow> zret \<times> u8 list"

definition vbd_qcow2_uncompress_cluster :: "zlib \<Rightarrow> nat \<Rightarrow> u8 list \<Rightarrow> u8 list option" where
  "vbd_qcow2_uncompress_cluster zl dest_size src =
     (if \<not> zl_init zl then None
      else case zl_inflate zl dest_size src of (ret, out) \<Rightarrow>
        if (ret = Z_STREAM_END \<or> ret = Z_BUF_ERROR) \<and> length out = dest_size then Some out else None)"

definition L1_ENTRY_L2_TABLE_OFFSET :: u64 where "L1_ENTRY_L2_TABLE_OFFSET = 0x00fffffffffffe00"
definition L2_ENTRY_CLUSTER_DESCRIPTOR :: u64 where "L2_ENTRY_CLUSTER_DESCRIPTOR = 0x3fffffffffffffff"
definition STANDARD_CLUSTER_CLUSTER_OFFSET :: u64 where "STANDARD_CLUSTER_CLUSTER_OFFSET = 0x3ffffffffffffffe"

text \<open>The position of a cluster in the file and, if it is compressed, its size there.\<close>

definition l2_target :: "QCowFile \<Rightarrow> u64 \<Rightarrow> (u64 \<times> u32 option) disk_result" where
  "l2_target qf l2_entry =
     (if bit l2_entry 62 then
        if qh_cluster_bits (qf_header qf) < 8 then Undefined
        else
          let x = unat (qh_cluster_bits (qf_header qf) - 8);
              csize_mask = push_bit x 1 - 1 :: u32; csize_shift = 62 - x;
              cluster_offset = l2_entry AND (push_bit csize_shift 1 - 1);
              nb_csectors = ucast ((drop_bit csize_shift l2_entry AND ucast csize_mask) + 1) :: u32;
              csize = ucast (ucast (nb_csectors * 512) - (cluster_offset AND 511)) :: u32 in
          if csize = 0 then Failed else Done (cluster_offset, Some csize)
      else Done ((l2_entry AND L2_ENTRY_CLUSTER_DESCRIPTOR) AND STANDARD_CLUSTER_CLUSTER_OFFSET, None))"

type_synonym disk_reader = "string \<Rightarrow> u64 \<Rightarrow> u64 \<Rightarrow> u8 list disk_result"

text \<open>An unallocated part: the whole rest of the request is read from the backing file.\<close>

definition read_backing_file :: "disk_reader \<Rightarrow> QCowFile \<Rightarrow> u64 \<Rightarrow> u64 \<Rightarrow> u32 \<Rightarrow> (u32 \<times> u8 list) disk_result" where
  "read_backing_file impl qf offset num num_bytes =
     (if qf_backing_file qf = [] then Failed
      else and_then (impl (qf_backing_file qf) offset num) (\<lambda>bs. Done (num_bytes, bs)))"

text \<open>The result is the number of bytes and what was written to the buffer.\<close>

definition vbd_qcow2_read_chunk :: "zlib \<Rightarrow> disk_reader \<Rightarrow> QCowFile \<Rightarrow> u64 \<Rightarrow> u64 \<Rightarrow> (u32 \<times> u8 list) disk_result" where
  "vbd_qcow2_read_chunk zl impl qf offset num =
     (let cs = ucast (qf_cluster_size qf) :: u64 in
      if cs div 8 = 0 then Undefined
      else
      let l1_idx = ucast (offset div cs div (cs div 8)) :: u32 in
      if l1_idx > qh_l1_size (qf_header qf) then Failed
      else
      let l2_idx = ucast ((offset div cs) mod (cs div 8)) :: u32 in
      if ucast l2_idx > qf_l2_size qf then Failed
      else
      let offset_in_cluster = ucast (offset mod cs) :: u32;
          rest = qf_cluster_size qf - offset_in_cluster;
          num_bytes = (if num < ucast rest then ucast num else rest) in
      if l1_idx = qh_l1_size (qf_header qf) then Undefined
      else
      let l2_offset = qf_l1_table qf ! unat l1_idx AND L1_ENTRY_L2_TABLE_OFFSET in
      if l2_offset = 0 then read_backing_file impl qf offset num num_bytes
      else and_then (vbd_qcow2_read_l2_table qf l2_offset) (\<lambda>l2_table.
        and_then (l2_target qf (l2_table ! unat l2_idx)) (\<lambda>(cluster_offset, compressed).
          if cluster_offset = 0 then read_backing_file impl qf offset num num_bytes
          else if num_bytes + offset_in_cluster > qf_cluster_size qf then Failed
          else
          let cluster_len = (case compressed of None \<Rightarrow> unat (qf_cluster_size qf) | Some csize \<Rightarrow> unat csize) in
          case fread (qf_fp qf) (unat cluster_offset) cluster_len of
            None \<Rightarrow> Failed
          | Some cluster \<Rightarrow>
              (case (if compressed = None then Some cluster
                     else vbd_qcow2_uncompress_cluster zl (unat (qf_cluster_size qf)) cluster) of
                 None \<Rightarrow> Failed
               | Some data \<Rightarrow> Done (num_bytes, take (unat num_bytes) (drop (unat offset_in_cluster) data))))))"

text \<open>Bytes of the backing file behind the chunk are overwritten by the chunks that follow.  A round reads
  at least one byte, so the number of bytes bounds the rounds.\<close>

fun vbd_qcow2_do_read :: "zlib \<Rightarrow> disk_reader \<Rightarrow> QCowFile \<Rightarrow> nat \<Rightarrow> u64 \<Rightarrow> u64 \<Rightarrow> u8 list disk_result" where
  "vbd_qcow2_do_read zl impl qf 0 offset left = (if left = 0 then Done [] else Undefined)"
| "vbd_qcow2_do_read zl impl qf (Suc fuel) offset left =
     (if left = 0 then Done []
      else and_then (vbd_qcow2_read_chunk zl impl qf offset left) (\<lambda>(bytes_read, bs).
        if sint bytes_read < 0 \<or> bytes_read > qf_cluster_size qf then Failed
        else and_then (vbd_qcow2_do_read zl impl qf fuel (offset + ucast bytes_read) (left - ucast bytes_read))
          (\<lambda>rest. Done (take (unat bytes_read) bs @ rest))))"

text \<open>Each backing file takes another frame of the stack; \<open>depth\<close> frames fit.\<close>

fun vbd_read_qcow2_disk_impl :: "zlib \<Rightarrow> disk_files \<Rightarrow> nat \<Rightarrow> disk_reader" where
  "vbd_read_qcow2_disk_impl zl files 0 backend_path offset cnt = Undefined"
| "vbd_read_qcow2_disk_impl zl files (Suc depth) backend_path offset cnt =
     and_then (vbd_qcow2_open files backend_path)
       (\<lambda>qf. vbd_qcow2_do_read zl (vbd_read_qcow2_disk_impl zl files depth) qf (unat cnt) offset cnt)"

definition vbd_read_qcow2_disk :: "zlib \<Rightarrow> disk_files \<Rightarrow> nat \<Rightarrow> disk_reader" where
  "vbd_read_qcow2_disk zl files depth backend_path offset cnt = vbd_read_qcow2_disk_impl zl files depth backend_path offset cnt"

definition vbd_read_raw_disk :: "disk_files \<Rightarrow> disk_reader" where
  "vbd_read_raw_disk files backend_path offset cnt =
     (case files backend_path of
        None \<Rightarrow> Failed
      | Some f \<Rightarrow>
          let bytes = take (unat cnt) (drop (fseek 0 offset) f) in
          if length bytes \<noteq> unat cnt \<or> bytes = [] then Failed else Done bytes)"

section \<open>Words\<close>

lemma unat_narrow: "unat (ucast (w :: u64) :: u32) = unat w mod 2 ^ 32"
  by (simp add: unsigned_ucast_eq take_bit_eq_mod)

lemma unat_widen [simp]: "unat (ucast (w :: u32) :: u64) = unat w"
proof -
  have "unat w < 2 ^ 32" using unsigned_less [of w] by simp
  then have "unat w < 2 ^ 64" by simp
  then show ?thesis by (simp add: unsigned_ucast_eq take_bit_nat_eq_self)
qed

lemma unat_exp32: "n < 32 \<Longrightarrow> unat (push_bit n 1 :: u32) = 2 ^ n"
proof -
  assume "n < 32"
  then have "(2 :: nat) ^ n < 2 ^ 32" by (rule power_strict_increasing) simp
  then show ?thesis using unat_of_nat [where x = "2 ^ n" and ?'a = 32] by simp
qed

lemma unat_of_small: "k < 2 ^ 32 \<Longrightarrow> unat (of_nat k :: u32) = k"
  by (simp add: unat_of_nat)

lemma unat_take_less: "unat (take_bit n (w :: 'a::len word)) < 2 ^ n"
  by (simp only: unsigned_take_bit_eq take_bit_nat_less_exp)

lemma masked_field: "w AND push_bit n (mask m) = push_bit n (take_bit m (drop_bit n (w :: u64)))"
  by (rule bit_word_eqI) (auto simp: bit_simps)

lemma small_top: "unat (w :: u64) < 2 ^ 63 \<Longrightarrow> \<not> bit w 63"
proof -
  assume "unat w < 2 ^ 63"
  then have "\<not> bit (unat w) 63" by (simp add: bit_iff_odd)
  then show ?thesis by (simp add: bit_unsigned_iff)
qed

lemma unat_standard:
  "unat ((w AND L2_ENTRY_CLUSTER_DESCRIPTOR) AND STANDARD_CLUSTER_CLUSTER_OFFSET) = 2 * unat (take_bit 61 (drop_bit 1 w))"
proof -
  have "L2_ENTRY_CLUSTER_DESCRIPTOR AND STANDARD_CLUSTER_CLUSTER_OFFSET = push_bit 1 (mask 61)"
    by (simp add: L2_ENTRY_CLUSTER_DESCRIPTOR_def STANDARD_CLUSTER_CLUSTER_OFFSET_def mask_eq_exp_minus_1)
  then have "(w AND L2_ENTRY_CLUSTER_DESCRIPTOR) AND STANDARD_CLUSTER_CLUSTER_OFFSET = push_bit 1 (take_bit 61 (drop_bit 1 w))"
    by (simp only: and.assoc masked_field)
  moreover have "unat (push_bit 1 x :: u64) = 2 * unat x" if "unat x < 2 ^ 61" for x :: u64
    using that by (simp add: unat_word_ariths)
  ultimately show ?thesis using unat_take_less by metis
qed

lemma packed_offset: "s < 64 \<Longrightarrow> (e :: u64) AND (push_bit s 1 - 1) = take_bit s e"
  by (simp add: take_bit_eq_mask push_bit_of_1 flip: mask_eq_exp_minus_1)

lemma packed_sectors:
  assumes "x \<le> 13"
  shows "unat (ucast ((drop_bit s (e :: u64) AND ucast (push_bit x 1 - 1 :: u32)) + 1) :: u32) = unat (take_bit x (drop_bit s e)) + 1"
proof -
  have "(ucast (push_bit x 1 - 1 :: u32) :: u64) = mask x"
    using assms by (simp add: push_bit_of_1 flip: mask_eq_exp_minus_1) (rule bit_word_eqI, auto simp: bit_simps)
  then have a: "drop_bit s e AND ucast (push_bit x 1 - 1 :: u32) = take_bit x (drop_bit s e)" by (simp add: take_bit_eq_mask)
  have "unat (take_bit x (drop_bit s e)) < 2 ^ x" by (rule unat_take_less)
  also have "(2 :: nat) ^ x \<le> 2 ^ 13" using assms by (rule power_increasing) simp
  finally show ?thesis unfolding a by (simp add: unat_narrow unat_word_ariths)
qed

lemma packed_size:
  assumes "0 < n" and "n \<le> 2 ^ 13"
  shows "unat (ucast (ucast ((of_nat n :: u32) * 512) - ((a :: u64) AND 511)) :: u32) = n * 512 - unat a mod 512"
proof -
  have m: "unat (a AND 511) = unat a mod 512"
  proof -
    have "(511 :: u64) = mask 9" by (simp add: mask_eq_exp_minus_1)
    then have "a AND 511 = take_bit 9 a" by (simp add: take_bit_eq_mask)
    then show ?thesis by (simp add: take_bit_eq_mod unat_mod)
  qed
  have u: "unat (of_nat n * 512 :: u32) = n * 512" using assms(2) by (simp add: unat_word_ariths unat_of_nat)
  have "unat a mod 512 \<le> n * 512" using assms(1) mod_less_divisor [of 512 "unat a"] by linarith
  then have "(a AND 511) \<le> ucast (of_nat n * 512 :: u32)" by (simp add: word_le_nat_alt m u)
  then have "unat (ucast (of_nat n * 512 :: u32) - (a AND 511)) = n * 512 - unat a mod 512"
    by (simp add: unat_sub m u)
  then show ?thesis using assms(2) by (simp add: unat_narrow)
qed

section \<open>The reference\<close>

text \<open>Where the format puts the \<open>c\<close>-th cluster of the disk: the entry of a table of tables, read from the
  file itself.\<close>

datatype cluster_state = Allocated "u8 list" | Unallocated | Broken

definition at_most :: "u8 list \<Rightarrow> nat \<Rightarrow> nat \<Rightarrow> u8 list option" where
  "at_most f pos n = (if pos + n \<le> length f then Some (take n (drop pos f)) else None)"

definition standard_cluster :: "u8 list \<Rightarrow> nat \<Rightarrow> u64 \<Rightarrow> cluster_state" where
  "standard_cluster f n e =
     (let host = 2 * unat (take_bit 61 (drop_bit 1 e)) in
      if host = 0 then Unallocated
      else case at_most f host (2 ^ n) of None \<Rightarrow> Broken | Some d \<Rightarrow> Allocated d)"

definition packed_cluster :: "zlib \<Rightarrow> u8 list \<Rightarrow> nat \<Rightarrow> u64 \<Rightarrow> cluster_state" where
  "packed_cluster zl f n e =
     (let host = unat (take_bit (70 - n) e);
          sectors = unat (take_bit (n - 8) (drop_bit (70 - n) e)) + 1 in
      if host = 0 then Unallocated
      else case at_most f host (sectors * 512 - host mod 512) of
        None \<Rightarrow> Broken
      | Some src \<Rightarrow> (case vbd_qcow2_uncompress_cluster zl (2 ^ n) src of None \<Rightarrow> Broken | Some d \<Rightarrow> Allocated d))"

definition find_cluster :: "zlib \<Rightarrow> QCowFile \<Rightarrow> nat \<Rightarrow> cluster_state" where
  "find_cluster zl qf c =
     (let f = qf_fp qf; n = unat (qh_cluster_bits (qf_header qf)); per = 2 ^ (n - 3);
          l2 = unat (qf_l1_table qf ! (c div per) AND L1_ENTRY_L2_TABLE_OFFSET);
          e = be_at f (l2 + 8 * (c mod per)) 8 :: u64 in
      if c div per \<ge> length (qf_l1_table qf) then Broken
      else if l2 = 0 then Unallocated
      else if length f < l2 + 2 ^ n then Broken
      else if bit e 62 then packed_cluster zl f n e else standard_cluster f n e)"

fun disk_byte :: "zlib \<Rightarrow> disk_files \<Rightarrow> nat \<Rightarrow> string \<Rightarrow> nat \<Rightarrow> u8 option" where
  "disk_byte zl files 0 path a = None"
| "disk_byte zl files (Suc depth) path a =
     (case vbd_qcow2_open files path of
        Done qf \<Rightarrow>
          let n = unat (qh_cluster_bits (qf_header qf)) in
          (case find_cluster zl qf (a div 2 ^ n) of
             Allocated d \<Rightarrow> Some (d ! (a mod 2 ^ n))
           | Unallocated \<Rightarrow> if qf_backing_file qf = [] then None else disk_byte zl files depth (qf_backing_file qf) a
           | Broken \<Rightarrow> None)
      | _ \<Rightarrow> None)"

definition raw_byte :: "disk_files \<Rightarrow> string \<Rightarrow> nat \<Rightarrow> u8 option" where
  "raw_byte files path a = (case files path of None \<Rightarrow> None | Some f \<Rightarrow> if a < length f then Some (f ! a) else None)"

text \<open>The cluster sizes the format allows.\<close>

definition conforming :: "disk_files \<Rightarrow> bool" where
  "conforming files \<longleftrightarrow> (\<forall>p qf. vbd_qcow2_open files p = Done qf \<longrightarrow>
     9 \<le> unat (qh_cluster_bits (qf_header qf)) \<and> unat (qh_cluster_bits (qf_header qf)) \<le> 21)"

section \<open>The contract of a disk\<close>

text \<open>What a reader of a disk promises: data that it returns are the bytes of the disk.  The first 128
  terabytes are those that an image with the smallest clusters can have.\<close>

locale disk_contract =
  fixes ok :: bool and impl :: disk_reader and byte :: "string \<Rightarrow> nat \<Rightarrow> u8 option"
  assumes sound: "ok \<Longrightarrow> unat offset + unat cnt \<le> 2 ^ 47 \<Longrightarrow> impl path offset cnt = Done bs \<Longrightarrow>
      map Some bs = map (\<lambda>i. byte path (unat offset + i)) [0..<unat cnt]"
begin

lemma sound_length: "ok \<Longrightarrow> unat offset + unat cnt \<le> 2 ^ 47 \<Longrightarrow> impl path offset cnt = Done bs \<Longrightarrow> length bs = unat cnt"
  using sound [of offset cnt path bs] by (metis length_map length_upt minus_nat.diff_0)

lemma sound_nth:
  "ok \<Longrightarrow> unat offset + unat cnt \<le> 2 ^ 47 \<Longrightarrow> impl path offset cnt = Done bs \<Longrightarrow> i < unat cnt \<Longrightarrow>
     byte path (unat offset + i) = Some (bs ! i)"
  using sound [of offset cnt path bs] sound_length [of offset cnt path bs]
  by (metis (no_types, lifting) add_0 diff_zero length_upt nth_map nth_upt)

end

interpretation raw: disk_contract True "vbd_read_raw_disk files" "raw_byte files" for files
proof
  fix offset cnt path bs
  assume b: "unat (offset :: u64) + unat (cnt :: u64) \<le> 2 ^ 47" and r: "vbd_read_raw_disk files path offset cnt = Done bs"
  have "\<not> bit offset 63" by (rule small_top) (use b in simp)
  then show "map Some bs = map (\<lambda>i. raw_byte files path (unat offset + i)) [0..<unat cnt]"
    using r by (auto simp: vbd_read_raw_disk_def fseek_def raw_byte_def Let_def intro!: nth_equalityI
        split: option.splits if_splits)
qed

section \<open>An opened image\<close>

abbreviation bits_of :: "QCowFile \<Rightarrow> nat" where
  "bits_of qf \<equiv> unat (qh_cluster_bits (qf_header qf))"

lemma and_then_Done: "and_then r f = Done y \<longleftrightarrow> (\<exists>x. r = Done x \<and> f x = Done y)"
  by (cases r) auto

lemma open_facts:
  assumes "vbd_qcow2_open files p = Done qf"
  shows "bits_of qf < 32" "unat (qf_cluster_size qf) = 2 ^ bits_of qf" "qf_l2_size qf = ucast (qf_cluster_size qf) div 8"
    "length (qf_l1_table qf) = unat (qh_l1_size (qf_header qf))"
proof -
  obtain h where c: "\<not> 32 \<le> qh_cluster_bits h" "qf_header qf = h" "qf_cluster_size qf = push_bit (unat (qh_cluster_bits h)) 1"
      "qf_l2_size qf = ucast (qf_cluster_size qf) div 8" "length (qf_l1_table qf) = unat (qh_l1_size h)"
    using assms
    by (auto simp: vbd_qcow2_open_def and_then_Done vbd_qcow2_read_l1_table_def be_table_def Let_def
        split: if_splits option.splits prod.splits)
  then have n: "bits_of qf < 32" by (simp add: word_le_nat_alt)
  show "bits_of qf < 32" by (rule n)
  show "unat (qf_cluster_size qf) = 2 ^ bits_of qf" using c unat_exp32 [OF n] by simp
  show "qf_l2_size qf = ucast (qf_cluster_size qf) div 8" "length (qf_l1_table qf) = unat (qh_l1_size (qf_header qf))"
    using c by simp_all
qed

lemma be_at_part:
  "pos + 8 \<le> n \<Longrightarrow> be_at (take n (drop p f)) pos 8 = be_at f (p + pos) 8"
  by (simp add: be_at_def drop_take add.commute min_def)

lemma fread_at_most: "n \<noteq> 0 \<Longrightarrow> fread f p n = at_most f p n"
  by (simp add: fread_def at_most_def not_le)

lemma of_unat: "unat (w :: 'a::len word) = k \<Longrightarrow> w = of_nat k"
  by (metis of_nat_unat ucast_id)

lemma l2_target_cases:
  assumes "9 \<le> bits_of qf" and "bits_of qf \<le> 21"
  shows "l2_target qf e =
    (if bit e 62 then
       let host = take_bit (70 - bits_of qf) e in
       Done (host, Some (of_nat ((unat (take_bit (bits_of qf - 8) (drop_bit (70 - bits_of qf) e)) + 1) * 512 - unat host mod 512)))
     else Done ((e AND L2_ENTRY_CLUSTER_DESCRIPTOR) AND STANDARD_CLUSTER_CLUSTER_OFFSET, None))"
proof (cases "bit e 62")
  case True
  let ?n = "bits_of qf" and ?h = "take_bit (70 - bits_of qf) e"
  let ?s = "unat (take_bit (?n - 8) (drop_bit (70 - ?n) e))"
  have x: "unat (qh_cluster_bits (qf_header qf) - 8) = ?n - 8"
    using assms(1) by (simp add: unat_sub word_le_nat_alt)
  have sh: "62 - (?n - 8) = 70 - ?n" using assms by simp
  have nb: "unat (ucast ((drop_bit (70 - ?n) e AND ucast (push_bit (?n - 8) 1 - 1 :: u32)) + 1) :: u32) = ?s + 1"
    by (rule packed_sectors) (use assms in simp)
  have nb': "(ucast ((drop_bit (70 - ?n) e AND ucast (push_bit (?n - 8) 1 - 1 :: u32)) + 1) :: u32) = of_nat (?s + 1)"
    by (rule of_unat [OF nb])
  have "?s < 2 ^ (?n - 8)" by (rule unat_take_less)
  also have "(2 :: nat) ^ (?n - 8) \<le> 2 ^ 13" using assms(2) by (intro power_increasing) simp_all
  finally have s: "?s + 1 \<le> 2 ^ 13" by simp
  have sz: "unat (ucast (ucast ((of_nat (?s + 1) :: u32) * 512) - (?h AND 511)) :: u32) = (?s + 1) * 512 - unat ?h mod 512"
    by (rule packed_size) (use s in simp_all)
  have pos: "(?s + 1) * 512 - unat ?h mod 512 \<noteq> 0"
    using mod_less_divisor [of 512 "unat ?h"] by simp
  have c: "(ucast (ucast ((of_nat (?s + 1) :: u32) * 512) - (?h AND 511)) :: u32) = of_nat ((?s + 1) * 512 - unat ?h mod 512)"
    by (rule of_unat [OF sz])
  have nz: "(of_nat ((?s + 1) * 512 - unat ?h mod 512) :: u32) \<noteq> 0" using sz pos c by (metis unat_0)
  have "\<not> qh_cluster_bits (qf_header qf) < 8" using assms(1) by (simp add: word_less_nat_alt)
  moreover have off: "e AND (push_bit (70 - ?n) 1 - 1) = ?h" by (rule packed_offset) (use assms in simp)
  ultimately show ?thesis
    using True nz unfolding l2_target_def Let_def x sh off nb' c by simp
next
  case False
  then show ?thesis by (simp add: l2_target_def)
qed

lemma table_entry:
  assumes "length bs = 2 ^ n" and "3 \<le> n" and "i < 2 ^ (n - 3)"
  shows "be_table bs (2 ^ (n - 3)) ! i = be_at bs (8 * i) 8"
  using assms(3) by (simp add: be_table_def)

text \<open>What a successful read of a chunk is: as many bytes as are wanted and left in the cluster, taken from the
  cluster of the reference or, if that is not allocated, everything wanted from the backing file.\<close>

definition chunk_spec :: "zlib \<Rightarrow> disk_reader \<Rightarrow> QCowFile \<Rightarrow> u64 \<Rightarrow> u64 \<Rightarrow> u32 \<Rightarrow> (u32 \<times> u8 list) disk_result" where
  "chunk_spec zl impl qf offset num num_bytes =
     (let n = bits_of qf in
      case find_cluster zl qf (unat offset div 2 ^ n) of
        Allocated d \<Rightarrow> Done (num_bytes, take (unat num_bytes) (drop (unat offset mod 2 ^ n) d))
      | Unallocated \<Rightarrow> read_backing_file impl qf offset num num_bytes
      | Broken \<Rightarrow> Failed)"

lemma chunk_indices:
  fixes offset :: u64
  assumes o: "vbd_qcow2_open files p = Done qf" and n: "9 \<le> bits_of qf" "bits_of qf \<le> 21" and lim: "unat offset < 2 ^ 47"
  shows "ucast (qf_cluster_size qf) div 8 \<noteq> (0 :: u64)"
    and "unat (ucast (offset div ucast (qf_cluster_size qf) div (ucast (qf_cluster_size qf) div 8)) :: u32) =
      unat offset div 2 ^ bits_of qf div 2 ^ (bits_of qf - 3)"
    and "unat (ucast ((offset div ucast (qf_cluster_size qf)) mod (ucast (qf_cluster_size qf) div 8)) :: u32) =
      unat offset div 2 ^ bits_of qf mod 2 ^ (bits_of qf - 3)"
    and "unat (ucast (offset mod ucast (qf_cluster_size qf)) :: u32) = unat offset mod 2 ^ bits_of qf"
    and "unat (qf_l2_size qf) = 2 ^ (bits_of qf - 3)"
proof -
  let ?n = "bits_of qf"
  define k where "k = ?n - 3"
  have k: "?n = k + 3" using n(1) by (simp add: k_def)
  have q: "(2 :: nat) ^ ?n div 8 = 2 ^ (?n - 3)" by (simp add: k power_add)
  have e: "unat (ucast (qf_cluster_size qf) div 8 :: u64) = 2 ^ (?n - 3)"
    using open_facts(2) [OF o] by (simp add: unat_div q)
  show "ucast (qf_cluster_size qf) div 8 \<noteq> (0 :: u64)" using e by (metis power_not_zero unat_0 zero_neq_numeral)
  have d: "unat offset div 2 ^ ?n div 2 ^ (?n - 3) < 2 ^ 32"
  proof -
    have "(2 :: nat) ^ 15 \<le> 2 ^ (?n + (?n - 3))" using n(1) by (intro power_increasing) simp_all
    then have "unat offset div 2 ^ (?n + (?n - 3)) \<le> unat offset div 2 ^ 15" by (rule div_le_mono2 [rotated]) simp
    also have "\<dots> < 2 ^ 32" using lim by (simp add: less_mult_imp_div_less)
    finally show ?thesis by (simp add: power_add div_mult2_eq)
  qed
  show "unat (ucast (offset div ucast (qf_cluster_size qf) div (ucast (qf_cluster_size qf) div 8)) :: u32) =
      unat offset div 2 ^ ?n div 2 ^ (?n - 3)"
    using d by (simp add: unat_narrow unat_div open_facts(2) [OF o] q)
  have p: "(2 :: nat) ^ (?n - 3) \<le> 2 ^ 31" "(2 :: nat) ^ ?n \<le> 2 ^ 31" using n(2) by (intro power_increasing; simp)+
  have b: "unat offset div 2 ^ ?n mod 2 ^ (?n - 3) < 2 ^ (?n - 3)" "unat offset mod 2 ^ ?n < 2 ^ ?n" by simp_all
  have m: "unat offset div 2 ^ ?n mod 2 ^ (?n - 3) < 2 ^ 32" "unat offset mod 2 ^ ?n < 2 ^ 32"
    using less_le_trans [OF b(1) p(1)] less_le_trans [OF b(2) p(2)] by simp_all
  show "unat (ucast ((offset div ucast (qf_cluster_size qf)) mod (ucast (qf_cluster_size qf) div 8)) :: u32) =
      unat offset div 2 ^ ?n mod 2 ^ (?n - 3)"
    using m(1) by (simp add: unat_narrow unat_mod unat_div open_facts(2) [OF o] q)
  show "unat (ucast (offset mod ucast (qf_cluster_size qf)) :: u32) = unat offset mod 2 ^ ?n"
    using m(2) by (simp add: unat_narrow unat_mod open_facts(2) [OF o])
  show "unat (qf_l2_size qf) = 2 ^ (?n - 3)" using e open_facts(3) [OF o] by simp
qed

lemma l2_entry:
  assumes o: "vbd_qcow2_open files p = Done qf" and n: "9 \<le> bits_of qf" "bits_of qf \<le> 21" and i: "i < 2 ^ (bits_of qf - 3)"
    and s: "unat (qf_l2_size qf) = 2 ^ (bits_of qf - 3)"
  shows "and_then (vbd_qcow2_read_l2_table qf l2) (\<lambda>t. g (t ! i)) =
    (if length (qf_fp qf) < unat l2 + 2 ^ bits_of qf then Failed else g (be_at (qf_fp qf) (unat l2 + 8 * i) 8))"
proof -
  have e: "8 * i + 8 \<le> 2 ^ bits_of qf"
  proof -
    define k where "k = bits_of qf - 3"
    have k: "bits_of qf = k + 3" using n(1) by (simp add: k_def)
    have "i + 1 \<le> 2 ^ k" using i by (simp add: k_def)
    then show ?thesis by (simp add: k power_add)
  qed
  show ?thesis
  proof (cases "length (qf_fp qf) < unat l2 + 2 ^ bits_of qf")
    case True
    then show ?thesis by (simp add: vbd_qcow2_read_l2_table_def open_facts(2) [OF o] fread_at_most at_most_def)
  next
    case False
    then have l: "length (take (2 ^ bits_of qf) (drop (unat l2) (qf_fp qf))) = 2 ^ bits_of qf" by simp
    have "3 \<le> bits_of qf" using n(1) by simp
    then show ?thesis
      using False table_entry [OF l _ i]
      by (simp add: be_at_part [OF e] vbd_qcow2_read_l2_table_def open_facts(2) [OF o] fread_at_most at_most_def s)
  qed
qed

lemma target_cluster:
  assumes o: "vbd_qcow2_open files p = Done qf" and n: "9 \<le> bits_of qf" "bits_of qf \<le> 21"
  shows "and_then (l2_target qf e) (\<lambda>(cluster_offset, compressed).
      if cluster_offset = 0 then b
      else case fread (qf_fp qf) (unat cluster_offset)
             (case compressed of None \<Rightarrow> unat (qf_cluster_size qf) | Some csize \<Rightarrow> unat csize) of
        None \<Rightarrow> Failed
      | Some cluster \<Rightarrow>
          (case (if compressed = None then Some cluster
                 else vbd_qcow2_uncompress_cluster zl (unat (qf_cluster_size qf)) cluster) of
             None \<Rightarrow> Failed | Some data \<Rightarrow> g data)) =
    (case (if bit e 62 then packed_cluster zl (qf_fp qf) (bits_of qf) e else standard_cluster (qf_fp qf) (bits_of qf) e) of
       Allocated d \<Rightarrow> g d | Unallocated \<Rightarrow> b | Broken \<Rightarrow> Failed)"
proof (cases "bit e 62")
  case True
  let ?h = "take_bit (70 - bits_of qf) e"
  let ?s = "(unat (take_bit (bits_of qf - 8) (drop_bit (70 - bits_of qf) e)) + 1) * 512 - unat ?h mod 512"
  define s where "s = ?s"
  have "unat (take_bit (bits_of qf - 8) (drop_bit (70 - bits_of qf) e)) < 2 ^ (bits_of qf - 8)" by (rule unat_take_less)
  also have "(2 :: nat) ^ (bits_of qf - 8) \<le> 2 ^ 13" using n(2) by (intro power_increasing) simp_all
  finally have "s < 2 ^ 32" by (simp add: s_def)
  then have u: "unat (of_nat s :: u32) = s" by (rule unat_of_small)
  have "s \<noteq> 0" using mod_less_divisor [of 512 "unat ?h"] by (simp add: s_def)
  then have f: "fread (qf_fp qf) (unat ?h) s = at_most (qf_fp qf) (unat ?h) s" by (rule fread_at_most)
  have t: "l2_target qf e = Done (?h, Some (of_nat s))" by (simp only: l2_target_cases [OF n] True if_True Let_def s_def)
  have p: "packed_cluster zl (qf_fp qf) (bits_of qf) e =
      (if ?h = 0 then Unallocated
       else case at_most (qf_fp qf) (unat ?h) s of
         None \<Rightarrow> Broken
       | Some src \<Rightarrow> (case vbd_qcow2_uncompress_cluster zl (2 ^ bits_of qf) src of None \<Rightarrow> Broken | Some d \<Rightarrow> Allocated d))"
    by (simp only: packed_cluster_def Let_def s_def unat_eq_zero)
  show ?thesis
    using True by (cases "at_most (qf_fp qf) (unat ?h) s") (simp_all add: t u f p open_facts(2) [OF o] split: option.split)
next
  case False
  define h where "h = (e AND L2_ENTRY_CLUSTER_DESCRIPTOR) AND STANDARD_CLUSTER_CLUSTER_OFFSET"
  have t: "l2_target qf e = Done (h, None)" by (simp only: l2_target_cases [OF n] False if_False h_def)
  have p: "standard_cluster (qf_fp qf) (bits_of qf) e =
      (if h = 0 then Unallocated
       else case at_most (qf_fp qf) (unat h) (2 ^ bits_of qf) of None \<Rightarrow> Broken | Some d \<Rightarrow> Allocated d)"
    by (simp only: standard_cluster_def Let_def h_def unat_standard [symmetric] unat_eq_zero)
  show ?thesis
    using False by (cases "at_most (qf_fp qf) (unat h) (2 ^ bits_of qf)")
      (simp_all add: t p open_facts(2) [OF o] fread_at_most)
qed

lemma chunk_exact:
  fixes offset :: u64
  assumes o: "vbd_qcow2_open files p = Done qf" and n: "9 \<le> bits_of qf" "bits_of qf \<le> 21" and lim: "unat offset < 2 ^ 47"
  shows "vbd_qcow2_read_chunk zl impl qf offset num =
    (if unat offset div 2 ^ bits_of qf div 2 ^ (bits_of qf - 3) = length (qf_l1_table qf) then Undefined
     else chunk_spec zl impl qf offset num (of_nat (min (unat num) (2 ^ bits_of qf - unat offset mod 2 ^ bits_of qf))))"
proof -
  let ?n = "bits_of qf" and ?cs = "ucast (qf_cluster_size qf) :: u64"
  note i = chunk_indices [OF o n lim]
  let ?l1 = "ucast (offset div ?cs div (?cs div 8)) :: u32" and ?l2 = "ucast ((offset div ?cs) mod (?cs div 8)) :: u32"
  let ?o = "ucast (offset mod ?cs) :: u32"
  let ?rest = "qf_cluster_size qf - ?o" and ?m = "min (unat num) (2 ^ ?n - unat offset mod 2 ^ ?n)"
  let ?nb = "if num < ucast ?rest then ucast num else ?rest"
  have c: "unat (qf_cluster_size qf) = 2 ^ ?n" by (rule open_facts(2) [OF o])
  have lt: "unat offset mod 2 ^ ?n < 2 ^ ?n" by simp
  have p: "(2 :: nat) ^ ?n \<le> 2 ^ 31" using n(2) by (intro power_increasing) simp_all
  have r: "unat ?rest = 2 ^ ?n - unat offset mod 2 ^ ?n"
    using lt by (simp add: unat_sub word_le_nat_alt c i(4))
  have nb: "unat ?nb = ?m"
  proof (cases "num < ucast ?rest")
    case True
    then have l: "unat num < 2 ^ ?n - unat offset mod 2 ^ ?n" using r by (simp add: word_less_nat_alt)
    then have "unat num < 2 ^ 32" using p by simp
    then show ?thesis using True l by (simp add: unat_narrow)
  next
    case False
    then show ?thesis using r by (simp add: word_less_nat_alt)
  qed
  have le: "\<not> qf_cluster_size qf < ?nb + ?o"
  proof -
    have s: "?m + unat offset mod 2 ^ ?n \<le> 2 ^ ?n" using lt by linarith
    then have "unat (?nb + ?o) = ?m + unat offset mod 2 ^ ?n"
      using p nb by (simp add: unat_word_ariths i(4) del: if_split)
    then show ?thesis using s c by (simp add: word_less_nat_alt not_less del: if_split)
  qed
  have l2: "\<not> qf_l2_size qf < ucast ?l2" using i(3,5) by (simp add: word_less_nat_alt not_less less_imp_le)
  have l1: "qh_l1_size (qf_header qf) < ?l1 \<longleftrightarrow> length (qf_l1_table qf) < unat offset div 2 ^ ?n div 2 ^ (?n - 3)"
      "?l1 = qh_l1_size (qf_header qf) \<longleftrightarrow> unat offset div 2 ^ ?n div 2 ^ (?n - 3) = length (qf_l1_table qf)"
    using i(2) open_facts(4) [OF o] by (simp_all add: word_less_nat_alt word_unat_eq_iff)
  let ?q = "unat offset div 2 ^ ?n"
  let ?a = "qf_l1_table qf ! (?q div 2 ^ (?n - 3)) AND L1_ENTRY_L2_TABLE_OFFSET"
  let ?b = "read_backing_file impl qf offset num (of_nat ?m)"
  define g where "g e = and_then (l2_target qf e) (\<lambda>(cluster_offset, compressed).
      if cluster_offset = 0 then ?b
      else case fread (qf_fp qf) (unat cluster_offset)
             (case compressed of None \<Rightarrow> unat (qf_cluster_size qf) | Some csize \<Rightarrow> unat csize) of
        None \<Rightarrow> Failed
      | Some cluster \<Rightarrow>
          (case (if compressed = None then Some cluster
                 else vbd_qcow2_uncompress_cluster zl (unat (qf_cluster_size qf)) cluster) of
             None \<Rightarrow> Failed
           | Some data \<Rightarrow> Done (of_nat ?m :: u32, take (unat (of_nat ?m :: u32)) (drop (unat offset mod 2 ^ ?n) data))))" for e
  have chunk: "vbd_qcow2_read_chunk zl impl qf offset num =
      (if length (qf_l1_table qf) < ?q div 2 ^ (?n - 3) then Failed
       else if ?q div 2 ^ (?n - 3) = length (qf_l1_table qf) then Undefined
       else if ?a = 0 then ?b
       else and_then (vbd_qcow2_read_l2_table qf ?a) (\<lambda>t. g (t ! (?q mod 2 ^ (?n - 3)))))"
    unfolding vbd_qcow2_read_chunk_def Let_def g_def
    by (simp only: i(1,2,3,4) l1 l2 le [unfolded of_unat [OF nb]] if_False of_unat [OF nb])
  have m: "?q mod 2 ^ (?n - 3) < 2 ^ (?n - 3)" by simp
  show ?thesis
    unfolding chunk l2_entry [OF o n m i(5), of ?a g] chunk_spec_def Let_def find_cluster_def
    unfolding g_def target_cluster [OF o n]
    by (auto simp: unat_eq_zero)
qed

section \<open>Reading against the reference\<close>

lemma find_cluster_length: "find_cluster zl qf c = Allocated d \<Longrightarrow> length d = 2 ^ bits_of qf"
proof -
  have p: "packed_cluster zl f n e = Allocated d \<Longrightarrow> length d = 2 ^ n" for f n e
    by (auto simp: packed_cluster_def vbd_qcow2_uncompress_cluster_def Let_def split: if_splits option.splits prod.splits)
  have s: "standard_cluster f n e = Allocated d \<Longrightarrow> length d = 2 ^ n" for f n e
    by (auto simp: standard_cluster_def at_most_def Let_def split: if_splits option.splits)
  assume "find_cluster zl qf c = Allocated d"
  then show ?thesis unfolding find_cluster_def Let_def by (auto split: if_splits dest: p s)
qed

lemma same_cluster:
  fixes a :: nat
  assumes "i < 2 ^ n - a mod 2 ^ n"
  shows "(a + i) div 2 ^ n = a div 2 ^ n" "(a + i) mod 2 ^ n = a mod 2 ^ n + i"
proof -
  have s: "a + i = a div 2 ^ n * 2 ^ n + (a mod 2 ^ n + i)" by (metis add.assoc div_mult_mod_eq)
  have "a mod 2 ^ n + i < 2 ^ n" using assms by simp
  then show "(a + i) div 2 ^ n = a div 2 ^ n" "(a + i) mod 2 ^ n = a mod 2 ^ n + i"
    by (subst s, simp)+
qed

text \<open>A byte of an image over a backing file.\<close>

definition image_byte :: "zlib \<Rightarrow> QCowFile \<Rightarrow> (string \<Rightarrow> nat \<Rightarrow> u8 option) \<Rightarrow> nat \<Rightarrow> u8 option" where
  "image_byte zl qf byte a =
     (case find_cluster zl qf (a div 2 ^ bits_of qf) of
        Allocated d \<Rightarrow> Some (d ! (a mod 2 ^ bits_of qf))
      | Unallocated \<Rightarrow> if qf_backing_file qf = [] then None else byte (qf_backing_file qf) a
      | Broken \<Rightarrow> None)"

lemma guest_byte_image:
  "vbd_qcow2_open files p = Done qf \<Longrightarrow> disk_byte zl files (Suc depth) p a = image_byte zl qf (disk_byte zl files depth) a"
  by (simp add: image_byte_def Let_def)

lemma small_sint: "unat (w :: u32) < 2 ^ 31 \<Longrightarrow> \<not> sint w < 0"
proof -
  assume "unat w < 2 ^ 31"
  then have "\<not> bit (unat w) 31" by (simp add: bit_iff_odd)
  then have "\<not> bit w 31" by (simp add: bit_unsigned_iff)
  then show ?thesis by (simp add: bit_last_iff [symmetric])
qed

text \<open>The sizes of a chunk: never empty, at most what is wanted, and small enough for every type.\<close>

lemma chunk_sizes:
  fixes left offset :: u64
  assumes "bits_of qf \<le> 21" and "left \<noteq> 0" and "unat offset + unat left \<le> 2 ^ 47"
    and m: "m = min (unat left) (2 ^ bits_of qf - unat offset mod 2 ^ bits_of qf)"
  shows "0 < m" "m \<le> unat left" "unat (of_nat m :: u32) = m" "\<not> sint (of_nat m :: u32) < 0"
    "unat (offset + ucast (of_nat m :: u32)) = unat offset + m" "unat (left - ucast (of_nat m :: u32)) = unat left - m"
proof -
  have "unat offset mod 2 ^ bits_of qf < 2 ^ bits_of qf" by simp
  moreover have "0 < unat left" using assms(2) by (simp add: unat_gt_0)
  ultimately show "0 < m" by (simp add: m)
  show le: "m \<le> unat left" by (simp add: m)
  have "(2 :: nat) ^ bits_of qf \<le> 2 ^ 21" using assms(1) by (intro power_increasing) simp_all
  then have s: "m \<le> 2 ^ 21" by (simp add: m)
  show u: "unat (of_nat m :: u32) = m" by (rule unat_of_small) (use s in simp)
  show "\<not> sint (of_nat m :: u32) < 0" by (rule small_sint) (use s u in simp)
  show "unat (offset + ucast (of_nat m :: u32)) = unat offset + m"
    using assms(3) le u by (simp add: unat_word_ariths)
  have "ucast (of_nat m :: u32) \<le> left" using le u by (simp add: word_le_nat_alt)
  then show "unat (left - ucast (of_nat m :: u32)) = unat left - m" using u by (simp add: unat_sub)
qed

lemma upt_split: "m \<le> k \<Longrightarrow> map f [0..<k] = map f [0..<m] @ map (\<lambda>i. f (m + i)) [0..<k - m]" for f :: "nat \<Rightarrow> 'a"
  by (intro nth_equalityI) (auto simp: nth_append)

lemma allocated_bytes:
  assumes "find_cluster zl qf (a div 2 ^ bits_of qf) = Allocated d" and "m \<le> 2 ^ bits_of qf - a mod 2 ^ bits_of qf"
  shows "map Some (take m (drop (a mod 2 ^ bits_of qf) d)) = map (\<lambda>i. image_byte zl qf byte (a + i)) [0..<m]"
  using assms find_cluster_length [OF assms(1)] same_cluster [of _ "bits_of qf" a]
  by (intro nth_equalityI) (simp_all add: image_byte_def)

context disk_contract
begin

lemma chunk_bytes:
  assumes ok and o: "vbd_qcow2_open files p = Done qf" and n: "9 \<le> bits_of qf" "bits_of qf \<le> 21"
    and lim: "unat offset + unat left \<le> 2 ^ 47" and l: "left \<noteq> 0"
    and c: "vbd_qcow2_read_chunk zl impl qf offset left = Done (nb, w)"
  defines "m \<equiv> min (unat left) (2 ^ bits_of qf - unat offset mod 2 ^ bits_of qf)"
  shows "nb = of_nat m" "map Some (take m w) = map (\<lambda>i. image_byte zl qf byte (unat offset + i)) [0..<m]"
proof -
  note z = chunk_sizes [OF n(2) l lim m_def [THEN meta_eq_to_obj_eq]]
  have "unat offset < 2 ^ 47" using lim z(1,2) by linarith
  from chunk_exact [OF o n this, of zl impl left] c have s: "chunk_spec zl impl qf offset left (of_nat m) = Done (nb, w)"
    by (simp add: m_def split: if_splits)
  let ?f = "find_cluster zl qf (unat offset div 2 ^ bits_of qf)"
  show "nb = of_nat m"
    using s by (auto simp: chunk_spec_def read_backing_file_def and_then_Done Let_def split: cluster_state.splits if_splits)
  show "map Some (take m w) = map (\<lambda>i. image_byte zl qf byte (unat offset + i)) [0..<m]"
  proof (cases ?f)
    case (Allocated d)
    then have "w = take m (drop (unat offset mod 2 ^ bits_of qf) d)" using s z(3) by (simp add: chunk_spec_def)
    then show ?thesis using allocated_bytes [OF Allocated, of m byte] by (simp add: m_def)
  next
    case Unallocated
    then have w: "qf_backing_file qf \<noteq> []" "impl (qf_backing_file qf) offset left = Done w"
      using s by (auto simp: chunk_spec_def read_backing_file_def and_then_Done split: if_splits)
    from sound_length [OF \<open>ok\<close> lim w(2)] have "length w = unat left" .
    moreover have "image_byte zl qf byte (unat offset + i) = Some (w ! i)" if "i < m" for i
      using same_cluster [of i "bits_of qf" "unat offset"] sound_nth [OF \<open>ok\<close> lim w(2), of i] that w(1) z(2) Unallocated
      by (simp add: image_byte_def m_def)
    ultimately show ?thesis using z(2) by (intro nth_equalityI) simp_all
  next
    case Broken
    then show ?thesis using s by (simp add: chunk_spec_def)
  qed
qed

lemma do_read_sound:
  assumes ok and o: "vbd_qcow2_open files p = Done qf" and n: "9 \<le> bits_of qf" "bits_of qf \<le> 21"
    and "unat offset + unat left \<le> 2 ^ 47" and "vbd_qcow2_do_read zl impl qf fuel offset left = Done bs"
  shows "map Some bs = map (\<lambda>i. image_byte zl qf byte (unat offset + i)) [0..<unat left]"
  using assms(5,6)
proof (induction fuel arbitrary: offset left bs)
  case 0
  then show ?case by (simp split: if_splits)
next
  case (Suc fuel)
  show ?case
  proof (cases "left = 0")
    case False
    let ?m = "min (unat left) (2 ^ bits_of qf - unat offset mod 2 ^ bits_of qf)"
    obtain nb w rest where c: "vbd_qcow2_read_chunk zl impl qf offset left = Done (nb, w)"
      and r: "vbd_qcow2_do_read zl impl qf fuel (offset + ucast nb) (left - ucast nb) = Done rest"
      and bs: "bs = take (unat nb) w @ rest"
      using Suc.prems(2) False by (auto simp: and_then_Done split: if_splits)
    note z = chunk_sizes [OF n(2) False Suc.prems(1) refl]
    have nb: "nb = of_nat ?m" and w: "map Some (take ?m w) = map (\<lambda>i. image_byte zl qf byte (unat offset + i)) [0..<?m]"
      by (rule chunk_bytes [OF \<open>ok\<close> o n Suc.prems(1) False c])+
    have "map Some rest = map (\<lambda>i. image_byte zl qf byte (unat offset + ?m + i)) [0..<unat left - ?m]"
      using Suc.IH [of "offset + ucast nb" "left - ucast nb" rest] r Suc.prems(1) z(5,6) by (simp add: nb)
    then show ?thesis
      using w upt_split [OF z(2), of "\<lambda>i. image_byte zl qf byte (unat offset + i)"]
      by (simp add: bs nb z(3) add.assoc)
  qed (use Suc.prems in simp)
qed

end

lemma qcow_contract: "disk_contract (conforming files) (vbd_read_qcow2_disk_impl zl files depth) (disk_byte zl files depth)"
proof (induction depth)
  case 0
  show ?case by unfold_locales simp
next
  case (Suc depth)
  show ?case
  proof
    fix offset cnt :: u64 and path bs
    assume c: "conforming files" and lim: "unat offset + unat cnt \<le> 2 ^ 47"
      and r: "vbd_read_qcow2_disk_impl zl files (Suc depth) path offset cnt = Done bs"
    then obtain qf where o: "vbd_qcow2_open files path = Done qf"
      and d: "vbd_qcow2_do_read zl (vbd_read_qcow2_disk_impl zl files depth) qf (unat cnt) offset cnt = Done bs"
      by (auto simp: and_then_Done)
    have n: "9 \<le> bits_of qf" "bits_of qf \<le> 21" using c o by (auto simp: conforming_def)
    show "map Some bs = map (\<lambda>i. disk_byte zl files (Suc depth) path (unat offset + i)) [0..<unat cnt]"
      unfolding guest_byte_image [OF o] by (rule disk_contract.do_read_sound [OF Suc.IH c o n lim d])
  qed
qed

interpretation qcow: disk_contract "conforming files" "vbd_read_qcow2_disk zl files depth" "disk_byte zl files depth"
  for zl files depth
proof -
  have "vbd_read_qcow2_disk zl files depth = vbd_read_qcow2_disk_impl zl files depth"
    by (intro ext) (simp add: vbd_read_qcow2_disk_def)
  then show "disk_contract (conforming files) (vbd_read_qcow2_disk zl files depth) (disk_byte zl files depth)"
    by (simp add: qcow_contract)
qed

text \<open>A range whose clusters are all in the image is read.\<close>

definition all_allocated :: "zlib \<Rightarrow> QCowFile \<Rightarrow> nat \<Rightarrow> nat \<Rightarrow> bool" where
  "all_allocated zl qf a k \<longleftrightarrow> (\<forall>i < k. \<exists>d. find_cluster zl qf ((a + i) div 2 ^ bits_of qf) = Allocated d)"

lemma find_cluster_indexed:
  "find_cluster zl qf c = Allocated d \<Longrightarrow> c div 2 ^ (bits_of qf - 3) < length (qf_l1_table qf)"
  by (simp add: find_cluster_def Let_def split: if_splits)

lemma do_read_complete:
  assumes o: "vbd_qcow2_open files p = Done qf" and n: "9 \<le> bits_of qf" "bits_of qf \<le> 21"
    and "unat offset + unat left \<le> 2 ^ 47" and "all_allocated zl qf (unat offset) (unat left)" and "unat left \<le> fuel"
  shows "\<exists>bs. vbd_qcow2_do_read zl impl qf fuel offset left = Done bs"
  using assms(4-6)
proof (induction fuel arbitrary: offset left)
  case 0
  then show ?case by (simp add: unat_eq_zero)
next
  case (Suc fuel)
  show ?case
  proof (cases "left = 0")
    case False
    let ?m = "min (unat left) (2 ^ bits_of qf - unat offset mod 2 ^ bits_of qf)"
    let ?o = "offset + ucast (of_nat ?m :: u32)" and ?l = "left - ucast (of_nat ?m :: u32)"
    note z = chunk_sizes [OF n(2) False Suc.prems(1) refl]
    have pos: "0 < unat left" using False by (simp add: unat_gt_0)
    then obtain d where d: "find_cluster zl qf (unat offset div 2 ^ bits_of qf) = Allocated d"
      using Suc.prems(2) by (fastforce simp: all_allocated_def)
    have "unat offset < 2 ^ 47" using Suc.prems(1) pos by linarith
    from chunk_exact [OF o n this, of zl impl left] d find_cluster_indexed [OF d]
    have c: "vbd_qcow2_read_chunk zl impl qf offset left = Done (of_nat ?m, take (unat (of_nat ?m :: u32)) (drop (unat offset mod 2 ^ bits_of qf) d))"
      by (simp add: chunk_spec_def Let_def)
    have "\<exists>bs. vbd_qcow2_do_read zl impl qf fuel ?o ?l = Done bs"
    proof (rule Suc.IH)
      show "unat ?o + unat ?l \<le> 2 ^ 47" using z(2,5,6) Suc.prems(1) by simp
      show "unat ?l \<le> fuel" using z(1,2,6) Suc.prems(3) by linarith
      show "all_allocated zl qf (unat ?o) (unat ?l)"
        unfolding all_allocated_def
      proof (intro allI impI)
        fix i assume "i < unat ?l"
        then have "?m + i < unat left" using z(2,6) by linarith
        then have "\<exists>d. find_cluster zl qf ((unat offset + (?m + i)) div 2 ^ bits_of qf) = Allocated d"
          using Suc.prems(2) unfolding all_allocated_def by blast
        then show "\<exists>d. find_cluster zl qf ((unat ?o + i) div 2 ^ bits_of qf) = Allocated d"
          using z(5) by (simp add: add.assoc)
      qed
    qed
    then obtain r where r: "vbd_qcow2_do_read zl impl qf fuel ?o ?l = Done r" by blast
    have "\<not> qf_cluster_size qf < (of_nat ?m :: u32)"
      using z(3) open_facts(2) [OF o] by (simp add: word_less_nat_alt not_less)
    then show ?thesis using c r z(4) False by simp
  qed simp
qed

section \<open>A concrete image\<close>

text \<open>An image with clusters of 512 bytes and one cluster, at 1024; its table of tables is behind the
  header and the second table at 512.\<close>

definition head7 :: "u8 list" where
  "head7 = [0x51, 0x46, 0x49, 0xfb, 0, 0, 0, 2, 0, 0, 0, 0, 0, 0, 0, 0, 0, 0, 0, 0, 0, 0, 0, 9, 0, 0, 0, 0, 0, 0, 2, 0,
     0, 0, 0, 0, 0, 0, 0, 1, 0, 0, 0, 0, 0, 0, 0, 72, 0, 0, 0, 0, 0, 0, 0, 0, 0, 0, 0, 0, 0, 0, 0, 0, 0, 0, 0, 0, 0, 0, 0, 0,
     0, 0, 0, 0, 0, 0, 2, 0]"

definition image7 :: "u8 list" where
  "image7 = head7 @ replicate 432 0 @ [0, 0, 0, 0, 0, 0, 4, 0] @ replicate 504 0 @ [1, 2, 3] @ replicate 509 7"

definition files7 :: disk_files where
  "files7 p = (if p = ''/d'' then Some image7 else None)"

definition zl7 :: zlib where
  "zl7 = \<lparr> zl_init = True, zl_inflate = (\<lambda>n src. (Z_OTHER, [])) \<rparr>"

lemma image7_length: "length head7 = 80" "length image7 = 1536"
  by (simp_all add: image7_def head7_def)

lemma be_at_front: "pos + n \<le> length xs \<Longrightarrow> be_at (xs @ ys) pos n = be_at xs pos n"
  by (simp add: be_at_def)

lemma be_at_behind: "be_at (xs @ ys) (length xs + pos) n = be_at ys pos n"
  by (simp add: be_at_def)

lemma words7:
  "be_at image7 0 4 = (0x514649fb :: u32)" "be_at image7 4 4 = (2 :: u32)" "be_at image7 8 8 = (0 :: u64)"
  "be_at image7 20 4 = (9 :: u32)" "be_at image7 36 4 = (1 :: u32)" "be_at image7 40 8 = (72 :: u64)" "be_at image7 72 8 = (0x200 :: u64)"
  unfolding image7_def by (simp_all add: be_at_front image7_length) (simp_all add: be_at_def head7_def)

lemma open7:
  "\<exists>h. vbd_qcow2_open files7 ''/d'' = Done \<lparr> qf_fp = image7, qf_header = h, qf_cluster_size = 512, qf_l2_size = 64,
     qf_l2_bits = 6, qf_l1_table = [0x200], qf_filename = ''/d'', qf_backing_file = [] \<rparr> \<and> qh_cluster_bits h = 9 \<and> qh_l1_size h = 1"
proof -
  have t: "be_table (take 8 (drop 72 image7)) (Suc 0) = [0x200]" using words7(7) by (simp add: be_table_def be_at_def)
  show ?thesis
    by (simp add: vbd_qcow2_open_def files7_def vbd_qcow2_read_header_def image7_length words7 read_backing_def
        vbd_qcow2_read_l1_table_def fread_def fseek_def Let_def QCOW2_MAGIC_def push_bit_eq_mult t)
qed

definition cluster7 :: "u8 list" where
  "cluster7 = [1, 2, 3] @ replicate 509 7"

lemma data7: "be_at image7 512 8 = (0x400 :: u64)" "take 512 (drop 1024 image7) = cluster7"
proof -
  have i: "image7 = (head7 @ replicate 432 0) @ [0, 0, 0, 0, 0, 0, 4, 0] @ replicate 504 0 @ cluster7"
    "image7 = (head7 @ replicate 432 0 @ [0, 0, 0, 0, 0, 0, 4, 0] @ replicate 504 0) @ cluster7"
    by (simp_all add: image7_def cluster7_def)
  have "be_at image7 (length (head7 @ replicate 432 (0 :: u8)) + 0) 8 = (0x400 :: u64)"
    unfolding i(1) be_at_behind by (simp add: be_at_def)
  then show "be_at image7 512 8 = (0x400 :: u64)" by (simp add: image7_length)
  show "take 512 (drop 1024 image7) = cluster7"
    unfolding i(2) by (simp add: image7_length) (simp add: cluster7_def)
qed

lemma cluster_found7:
  assumes "qf_fp qf = image7" and "qh_cluster_bits (qf_header qf) = 9" and "qf_l1_table qf = [0x200]"
  shows "find_cluster zl7 qf 0 = Allocated cluster7"
proof -
  have m: "(0x200 :: u64) AND L1_ENTRY_L2_TABLE_OFFSET = 0x200" by (simp add: L1_ENTRY_L2_TABLE_OFFSET_def)
  have h: "2 * unat (take_bit 61 (drop_bit 1 (0x400 :: u64))) = 1024" by (simp add: drop_bit_eq_div take_bit_eq_mod)
  have b: "\<not> bit (0x400 :: u64) 62" by (simp add: bit_numeral_rec)
  have s: "standard_cluster image7 9 0x400 = Allocated cluster7"
    unfolding standard_cluster_def h Let_def using data7(2) image7_length(2) by (simp add: at_most_def cluster7_def)
  show ?thesis
    using b s by (simp add: find_cluster_def assms m data7(1) image7_length(2) Let_def)
qed

lemma conforming7: "conforming files7"
proof -
  have "p = ''/d''" if "vbd_qcow2_open files7 p = Done qf" for p qf
  proof (rule ccontr)
    assume "p \<noteq> ''/d''"
    then have "files7 p = None" by (simp add: files7_def)
    then show False using that by (simp add: vbd_qcow2_open_def split: if_splits)
  qed
  then show ?thesis unfolding conforming_def using open7 by fastforce
qed

section \<open>Properties\<close>



text \<open>The index into the first table is compared with the number of its entries, but the entry with that number is
  outside too: reading the disk at the first byte behind what the table describes leaves the table.\<close>

theorem qcow2_table_overrun:
  assumes "vbd_qcow2_open files path = Done qf" and "9 \<le> bits_of qf" and "bits_of qf \<le> 21"
    and "unat offset < 2 ^ 47" and "unat offset div 2 ^ bits_of qf div 2 ^ (bits_of qf - 3) = length (qf_l1_table qf)" and "cnt \<noteq> 0"
  shows "vbd_read_qcow2_disk zl files (Suc depth) path offset cnt = Undefined"
proof -
  obtain k where "unat cnt = Suc k" using assms(6) by (cases "unat cnt") (auto simp: unat_eq_zero)
  then show ?thesis
    using chunk_exact [OF assms(1-4), of zl "vbd_read_qcow2_disk_impl zl files depth" cnt] assms(1,5,6)
    by (simp add: vbd_read_qcow2_disk_def)
qed

lemma qcow2_table_overrun_witness: "vbd_read_qcow2_disk zl7 files7 1 ''/d'' 0x8000 1 = Undefined"
proof -
  obtain qf where o: "vbd_qcow2_open files7 ''/d'' = Done qf"
    and f: "qh_cluster_bits (qf_header qf) = 9" "qf_l1_table qf = [0x200]"
    using open7 by auto
  show ?thesis
    using qcow2_table_overrun [OF o, where offset = "0x8000" and cnt = 1 and zl = zl7 and depth = 0] by (simp add: f)
qed

end
