(* ===== verification/Xen_Domain.thy ===== *)
theory Xen_Domain
  imports Page_Cache C_Strings Disk_Image
begin

text \<open>
  The parts of \<^verbatim>\<open>driver/xen/xen.c\<close> that find a domain and describe it: names and identifiers
  through the XenStore, the version of the hypervisor, the type and size of the domain, its disks; and
  \<^verbatim>\<open>libxc_wrapper.c\<close>, the functions of the toolstack library the driver needs for each version.

  The host is a parameter: the libraries with the functions they have, the files below
  \<^verbatim>\<open>/sys/hypervisor\<close>, the XenStore, and the answers of the hypervisor.
\<close>

section \<open>The host\<close>

record dominfo =
  di_domid :: u32
  di_hvm :: bool
  di_max_vcpu_id :: u32
  di_nr_pages :: u64
  di_nr_shared_pages :: u64
  di_max_memkb :: u64

text \<open>\<open>xh_getinfo\<close> is \<^verbatim>\<open>xc_domain_getinfo\<close> for one domain: the first one whose identifier is
  not smaller.  \<open>xh_address_size\<close> has no value when the call fails, and so has \<open>xh_maximum_gpfn2\<close>.\<close>

record xen_host =
  xh_sys :: "string \<Rightarrow> string option"
  xh_library :: "string \<Rightarrow> (string \<Rightarrow> bool) option"
  xh_xc_open :: bool
  xh_xs_open :: bool
  xh_xs_read :: "string \<Rightarrow> string option"
  xh_xs_directory :: "string \<Rightarrow> string list"
  xh_getinfo :: "u64 \<Rightarrow> dominfo option"
  xh_address_size :: "u64 \<Rightarrow> u32 option"
  xh_maximum_gpfn :: "u64 \<Rightarrow> 32 word"
  xh_maximum_gpfn2 :: "u64 \<Rightarrow> u64 option"

record xen_driver =
  xd_name :: "string option"
  xd_domainid :: u64
  xd_major_version :: int
  xd_minor_version :: int
  xd_info :: dominfo
  xd_max_gpfn :: u64
  xd_xshandle :: bool

text \<open>The part of the instance that the driver sets; \<open>xv_xen\<close> is \<^verbatim>\<open>driver_data\<close>.\<close>

record xen_vmi =
  xv_xen :: "xen_driver option"
  xv_vm_type :: vm_type
  xv_num_vcpus :: u32
  xv_init_flags :: u32

abbreviation VMI_INVALID_DOMID :: u64 where "VMI_INVALID_DOMID \<equiv> - 1"

section \<open>Numbers in text\<close>

fun digits_value :: "nat \<Rightarrow> nat \<Rightarrow> string \<Rightarrow> nat" where
  "digits_value b a [] = a"
| "digits_value b a (c # cs) =
     (case hex_digit c of None \<Rightarrow> a | Some d \<Rightarrow> if d < b then digits_value b (b * a + d) cs else a)"

text \<open>\<^verbatim>\<open>atoi\<close>, for numbers that fit.\<close>

definition atoi :: "string \<Rightarrow> int" where
  "atoi s = (let t = dropWhile is_space s in
     if take 1 t = ''-'' then - int (digits_value 10 0 (drop 1 t))
     else int (digits_value 10 0 (if take 1 t = ''+'' then drop 1 t else t)))"

text \<open>\<^verbatim>\<open>strtoull\<close> with base 0: the prefix tells the base, and a value that does not fit is the
  greatest one.\<close>

definition strtoull0 :: "string \<Rightarrow> u64" where
  "strtoull0 s =
     (let t = dropWhile is_space s; neg = (take 1 t = ''-'');
          u = (if neg \<or> take 1 t = ''+'' then drop 1 t else t);
          hex = (take 2 u = ''0x'' \<or> take 2 u = ''0X'') \<and> (case drop 2 u of [] \<Rightarrow> False | c # cs \<Rightarrow> hex_digit c \<noteq> None);
          v = (if hex then digits_value 16 0 (drop 2 u)
               else if take 1 u = ''0'' then digits_value 8 0 u else digits_value 10 0 u) in
      if v \<ge> 2 ^ 64 then - 1 else if neg then - of_nat v else of_nat v)"

section \<open>The functions of the library\<close>

definition basic_functions :: "string list" where
  "basic_functions = [''xc_interface_open'', ''xc_interface_close'', ''xc_version'', ''xc_map_foreign_range'',
     ''xc_vcpu_getcontext'', ''xc_vcpu_setcontext'', ''xc_domain_hvm_getcontext'', ''xc_domain_hvm_getcontext_partial'',
     ''xc_domain_hvm_setcontext'', ''xc_domain_getinfo'', ''xc_domain_getinfolist'', ''xc_domctl'', ''xc_domain_pause'',
     ''xc_domain_unpause'']"

definition functions_42 :: "string list" where
  "functions_42 = [''xc_domain_maximum_gpfn'', ''xc_map_foreign_batch'', ''xc_mem_access_enable'', ''xc_mem_access_disable'',
     ''xc_mem_access_resume'', ''xc_domain_debug_control'', ''xc_domain_set_access_required'', ''xc_hvm_inject_trap'',
     ''xc_domain_decrease_reservation_exact'', ''xc_domain_populate_physmap_exact'', ''xc_evtchn_open'', ''xc_evtchn_close'',
     ''xc_evtchn_fd'', ''xc_evtchn_notify'', ''xc_evtchn_pending'', ''xc_evtchn_unmask'', ''xc_evtchn_unbind'',
     ''xc_evtchn_bind_interdomain'', ''xc_set_hvm_param'', ''xc_get_hvm_param'', ''xc_domain_cacheflush'']"

definition functions_45 :: "string list" where
  "functions_45 = [''xc_domain_maximum_gpfn'', ''xc_set_mem_access'', ''xc_get_mem_access'', ''xc_mem_access_enable'',
     ''xc_mem_access_disable'', ''xc_hvm_param_set'', ''xc_hvm_param_get'', ''xc_domain_cacheflush'']"

definition functions_46 :: "string list" where
  "functions_46 = [''xc_domain_maximum_gpfn'', ''xc_set_mem_access'', ''xc_get_mem_access'', ''xc_monitor_enable'',
     ''xc_monitor_disable'', ''xc_monitor_resume'', ''xc_monitor_get_capabilities'', ''xc_monitor_write_ctrlreg'',
     ''xc_monitor_mov_to_msr'', ''xc_monitor_singlestep'', ''xc_monitor_software_breakpoint'', ''xc_monitor_guest_request'',
     ''xc_altp2m_get_domain_state'', ''xc_altp2m_set_domain_state'', ''xc_altp2m_set_vcpu_enable_notify'',
     ''xc_altp2m_create_view'', ''xc_altp2m_destroy_view'', ''xc_altp2m_switch_to_view'', ''xc_altp2m_set_mem_access'',
     ''xc_altp2m_change_gfn'', ''xc_hvm_param_set'', ''xc_hvm_param_get'', ''xc_domain_cacheflush'',
     ''xc_domain_set_access_required'']"

definition functions_48 :: "string list" where
  "functions_48 = [''xc_monitor_debug_exceptions'', ''xc_monitor_cpuid'', ''xc_monitor_mov_to_msr'', ''xc_monitor_privileged_call'']"

definition functions_410 :: "string list" where
  "functions_410 = [''xc_monitor_descriptor_access'', ''xc_monitor_write_ctrlreg'', ''xc_monitor_guest_request'']"

definition functions_411 :: "string list" where
  "functions_411 = [''xc_monitor_emul_unimplemented'']"

text \<open>The cases from 4.6 on fall through, from the newest release down.\<close>

definition sanity_check :: "xen_host \<Rightarrow> (string \<Rightarrow> bool) \<Rightarrow> int \<Rightarrow> int \<Rightarrow> bool" where
  "sanity_check h w major_version minor_version =
     (if \<not> list_all w basic_functions then False
      else if \<not> xh_xc_open h then False
      else if major_version \<noteq> 4 then False
      else if minor_version = 0 then False
      else if minor_version = 1 then w ''xc_domain_maximum_gpfn''
      else if minor_version = 2 \<or> minor_version = 3 \<or> minor_version = 4 then list_all w functions_42
      else if minor_version = 5 then list_all w functions_45
      else
        (minor_version \<in> {6, 7, 8, 9, 10} \<or> list_all w functions_411) \<and>
        (minor_version \<in> {6, 7, 8, 9} \<or> list_all w functions_410) \<and>
        (minor_version \<in> {6, 7} \<or> list_all w functions_48) \<and>
        list_all w functions_46)"

definition create_libxc_wrapper :: "xen_host \<Rightarrow> int \<Rightarrow> int \<Rightarrow> bool" where
  "create_libxc_wrapper h major_version minor_version =
     (let v = (\<lambda>i. print_u (of_int i :: u32)); mj = v major_version; mn = v minor_version in
      case (case xh_library h ''libxenctrl.so'' of
              Some w \<Rightarrow> Some w
            | None \<Rightarrow>
            (case xh_library h (''libxenctrl.so.'' @ mj @ ''.'' @ mn) of
               Some w \<Rightarrow> Some w
             | None \<Rightarrow> xh_library h (''libxenctrl-'' @ mj @ ''.'' @ mn @ ''.so''))) of
        None \<Rightarrow> False
      | Some w \<Rightarrow> sanity_check h w major_version minor_version)"

definition create_libxs_wrapper :: "xen_host \<Rightarrow> bool" where
  "create_libxs_wrapper h =
     (case xh_library h ''libxenstore.so'' of
        None \<Rightarrow> False
      | Some w \<Rightarrow> list_all w [''xs_open'', ''xs_close'', ''xs_read'', ''xs_directory''] \<and> xh_xs_open h)"

section \<open>Names and identifiers\<close>

text \<open>\<^verbatim>\<open>strncmp\<close> of two terminated strings is zero exactly if they agree in their first \<open>n\<close>
  characters.\<close>

definition strncmp_eq :: "nat \<Rightarrow> string \<Rightarrow> string \<Rightarrow> bool" where
  "strncmp_eq n s t \<longleftrightarrow> take n s = take n t"

definition domain_path :: "string \<Rightarrow> string \<Rightarrow> string" where
  "domain_path idStr item = ''/local/domain/'' @ idStr @ item"

definition xen_get_domainid_from_name :: "xen_host \<Rightarrow> string \<Rightarrow> u64" where
  "xen_get_domainid_from_name h name =
     (if \<not> xh_xs_open h then VMI_INVALID_DOMID
      else case find (\<lambda>idStr. case xh_xs_read h (domain_path idStr ''/name'') of
                        None \<Rightarrow> False | Some nameCandidate \<Rightarrow> strncmp_eq 100 name nameCandidate)
                  (xh_xs_directory h ''/local/domain'') of
        None \<Rightarrow> VMI_INVALID_DOMID
      | Some idStr \<Rightarrow> strtoull0 idStr)"

definition xen_get_name_from_domainid :: "xen_host \<Rightarrow> u64 \<Rightarrow> string option" where
  "xen_get_name_from_domainid h domainid =
     (if domainid = VMI_INVALID_DOMID \<or> \<not> xh_xs_open h then None
      else xh_xs_read h (domain_path (print_u domainid) ''/name''))"

definition xen_get_domainid_from_uuid :: "xen_host \<Rightarrow> string \<Rightarrow> u64" where
  "xen_get_domainid_from_uuid h uuid =
     (if \<not> xh_xs_open h then VMI_INVALID_DOMID
      else case find (\<lambda>idStr. case xh_xs_read h (domain_path idStr ''/vm'') of
                        None \<Rightarrow> False
                      | Some path \<Rightarrow> path \<noteq> [] \<and>
                          (case xh_xs_read h (path @ ''/uuid'') of
                             None \<Rightarrow> False | Some uuidCandidate \<Rightarrow> strncmp_eq 100 uuid uuidCandidate))
                  (xh_xs_directory h ''/local/domain'') of
        None \<Rightarrow> VMI_INVALID_DOMID
      | Some idStr \<Rightarrow> strtoull0 idStr)"

definition xen_get_domainid :: "xen_driver \<Rightarrow> u64" where
  "xen_get_domainid xen = xd_domainid xen"

definition xen_set_domainid :: "u64 \<Rightarrow> xen_driver \<Rightarrow> xen_driver" where
  "xen_set_domainid domainid xen = xen\<lparr> xd_domainid := domainid \<rparr>"

definition xen_set_domainname :: "string \<Rightarrow> xen_driver \<Rightarrow> xen_driver" where
  "xen_set_domainname name xen = xen\<lparr> xd_name := Some (take 500 name) \<rparr>"

definition xen_get_domainname :: "xen_host \<Rightarrow> xen_driver \<Rightarrow> string option" where
  "xen_get_domainname h xen =
     (if \<not> xd_xshandle xen then None else xh_xs_read h (domain_path (print_u (xd_domainid xen)) ''/name''))"

definition xen_destroy :: "xen_vmi \<Rightarrow> xen_vmi" where
  "xen_destroy v = v\<lparr> xv_xen := None \<rparr>"

definition xen_check_domainid :: "xen_host \<Rightarrow> u64 \<Rightarrow> xen_vmi \<Rightarrow> status \<times> xen_vmi" where
  "xen_check_domainid h domainid v =
     (if domainid > 0xffff then (VMI_FAILURE, v)
      else case xh_getinfo h domainid of
        None \<Rightarrow> (VMI_FAILURE, xen_destroy v)
      | Some info \<Rightarrow> if di_domid info = ucast domainid then (VMI_SUCCESS, v) else (VMI_FAILURE, xen_destroy v))"

section \<open>Version and set-up\<close>

text \<open>The first line of a file; a file without a line gives the end of file.\<close>

definition sys_line :: "xen_host \<Rightarrow> string \<Rightarrow> string option" where
  "sys_line h path = (case xh_sys h path of None \<Rightarrow> None | Some s \<Rightarrow> if s = [] then None else Some (fgets_line (length s) s))"

definition xen_get_version :: "xen_host \<Rightarrow> (int \<times> int) option" where
  "xen_get_version h =
     (case sys_line h ''/sys/hypervisor/type'' of
        None \<Rightarrow> None
      | Some line \<Rightarrow>
      if \<not> strncmp_eq 3 ''xen'' line then None
      else case sys_line h ''/sys/hypervisor/version/major'' of
        None \<Rightarrow> None
      | Some major \<Rightarrow>
      (case sys_line h ''/sys/hypervisor/version/minor'' of
         None \<Rightarrow> None
       | Some minor \<Rightarrow> Some (atoi major, atoi minor)))"

definition dominfo_zero :: dominfo where
  "dominfo_zero = \<lparr> di_domid = 0, di_hvm = False, di_max_vcpu_id = 0, di_nr_pages = 0, di_nr_shared_pages = 0, di_max_memkb = 0 \<rparr>"

definition xen_init :: "xen_host \<Rightarrow> xen_vmi \<Rightarrow> status \<times> xen_vmi" where
  "xen_init h v =
     (if xv_xen v \<noteq> None then (VMI_SUCCESS, v)
      else case xen_get_version h of
        None \<Rightarrow> (VMI_FAILURE, v)
      | Some (major, minor) \<Rightarrow>
          if \<not> create_libxc_wrapper h major minor then (VMI_FAILURE, v)
          else if \<not> create_libxs_wrapper h then (VMI_FAILURE, v)
          else (VMI_SUCCESS, v\<lparr> xv_xen := Some \<lparr> xd_name = None, xd_domainid = 0, xd_major_version = major,
                  xd_minor_version = minor, xd_info = dominfo_zero, xd_max_gpfn = 0, xd_xshandle = True \<rparr> \<rparr>))"

text \<open>A failing call is taken for success, and the type stays as it was.\<close>

definition xen_discover_pv_type :: "xen_host \<Rightarrow> xen_driver \<Rightarrow> xen_vmi \<Rightarrow> status \<times> xen_vmi" where
  "xen_discover_pv_type h xen v =
     (case xh_address_size h (xd_domainid xen) of
        None \<Rightarrow> (VMI_SUCCESS, v)
      | Some bits \<Rightarrow>
          let addr_width = bits div 8 in
          if addr_width = 8 then (VMI_SUCCESS, v\<lparr> xv_vm_type := PV64 \<rparr>)
          else if addr_width = 4 then (VMI_SUCCESS, v\<lparr> xv_vm_type := PV32 \<rparr>)
          else (VMI_FAILURE, v))"

definition is_pv :: "vm_type \<Rightarrow> bool" where \<comment> \<open>\<^verbatim>\<open>vm_type >= PV32\<close>\<close>
  "is_pv t \<longleftrightarrow> t = PV32 \<or> t = PV64"

text \<open>The number of the last frame, raised for paravirtualised guests.\<close>

definition ask_gpfn :: "xen_host \<Rightarrow> xen_driver \<Rightarrow> u64 option" where
  "ask_gpfn h xen =
     (if xd_major_version xen = 4 \<and> xd_minor_version xen < 6 then Some (scast (xh_maximum_gpfn h (xd_domainid xen)))
      else xh_maximum_gpfn2 h (xd_domainid xen))"

definition raise_gpfn :: "vm_type \<Rightarrow> xen_driver \<Rightarrow> xen_driver" where
  "raise_gpfn t xen =
     (let kb = di_max_memkb (xd_info xen) * 1024 in
      if is_pv t \<and> push_bit 12 (xd_max_gpfn xen) < kb then xen\<lparr> xd_max_gpfn := drop_bit 12 kb \<rparr> else xen)"

text \<open>\<open>init_events\<close> is \<^verbatim>\<open>xen_init_events\<close>, of the theory \<open>Xen_Monitor\<close>; here only whether it
  succeeds matters.\<close>

definition xen_init_vmi :: "xen_host \<Rightarrow> bool \<Rightarrow> xen_vmi \<Rightarrow> status \<times> xen_vmi" where
  "xen_init_vmi h init_events v =
     (case xv_xen v of
        None \<Rightarrow> (VMI_FAILURE, v)
      | Some xen \<Rightarrow>
      (case xh_getinfo h (xd_domainid xen) of
         None \<Rightarrow> (VMI_FAILURE, v)
       | Some info \<Rightarrow>
           let xen = xen\<lparr> xd_info := info \<rparr>;
               v = v\<lparr> xv_xen := Some xen, xv_num_vcpus := di_max_vcpu_id info + 1 \<rparr>;
               (st, v) = (if di_hvm info then (VMI_SUCCESS, v\<lparr> xv_vm_type := HVM \<rparr>) else xen_discover_pv_type h xen v) in
           if st = VMI_FAILURE then (VMI_FAILURE, v)
           else case ask_gpfn h xen of
             None \<Rightarrow> (VMI_FAILURE, v)
           | Some g \<Rightarrow>
               let xen = xen\<lparr> xd_max_gpfn := g \<rparr> in
               if g = 0 then (VMI_FAILURE, v\<lparr> xv_xen := Some xen \<rparr>)
               else
                 let v = v\<lparr> xv_xen := Some (raise_gpfn (xv_vm_type v) xen) \<rparr> in
                 if xv_vm_type v = HVM \<and> bit (xv_init_flags v) 2 \<and> \<not> init_events then (VMI_FAILURE, v)
                 else (VMI_SUCCESS, v)))"

text \<open>The two calls are made again, and their failures ignored.\<close>

definition xen_get_memsize :: "xen_host \<Rightarrow> xen_vmi \<Rightarrow> (u64 \<times> addr_t) option \<times> xen_vmi" where
  "xen_get_memsize h v =
     (case xv_xen v of
        None \<Rightarrow> (None, v)
      | Some xen \<Rightarrow>
          let xen = (case xh_getinfo h (xd_domainid xen) of None \<Rightarrow> xen | Some info \<Rightarrow> xen\<lparr> xd_info := info \<rparr>);
              xen = (case ask_gpfn h xen of None \<Rightarrow> xen | Some g \<Rightarrow> xen\<lparr> xd_max_gpfn := g \<rparr>) in
          if xd_max_gpfn xen = 0 then (None, v\<lparr> xv_xen := Some xen \<rparr>)
          else
            let pages = di_nr_pages (xd_info xen) + di_nr_shared_pages (xd_info xen);
                xen = raise_gpfn (xv_vm_type v) xen in
            (Some (0x1000 * pages, push_bit 12 (xd_max_gpfn xen + 1)), v\<lparr> xv_xen := Some xen \<rparr>))"

definition xen_test :: "xen_host \<Rightarrow> u64 \<Rightarrow> string option \<Rightarrow> status" where
  "xen_test h domainid name =
     (if domainid = VMI_INVALID_DOMID \<and> name = None then VMI_FAILURE
      else
        let v0 = \<lparr> xv_xen = None, xv_vm_type = NORMAL, xv_num_vcpus = 0, xv_init_flags = 0 \<rparr>;
            (st, v) = xen_init h v0 in
        if st = VMI_FAILURE then VMI_FAILURE
        else
          let domainid = (if domainid = VMI_INVALID_DOMID then xen_get_domainid_from_name h (the name) else domainid) in
          if domainid = VMI_INVALID_DOMID then VMI_FAILURE
          else fst (xen_check_domainid h domainid v))"

section \<open>Disks\<close>

datatype vbd_device_type = VBD_DEVICE_TYPE_DISK | VBD_DEVICE_TYPE_CDROM | VBD_DEVICE_TYPE_UNKNOWN
datatype vbd_backend_type = VBD_BACKEND_TYPE_PHY | VBD_BACKEND_TYPE_QDISK | VBD_BACKEND_TYPE_UNKNOWN

text \<open>The structure is filled with zeros first, and zero is none of the named formats.\<close>

datatype vbd_backend_format = VBD_BACKEND_FORMAT_ZERO | VBD_BACKEND_FORMAT_RAW | VBD_BACKEND_FORMAT_QCOW2
  | VBD_BACKEND_FORMAT_VHD | VBD_BACKEND_FORMAT_UNKNOWN

record vbd_backend =
  vb_type :: vbd_backend_type
  vb_format :: vbd_backend_format
  vb_bootable :: bool
  vb_path :: string

definition vbd_key :: "xen_driver \<Rightarrow> string \<Rightarrow> string" where
  "vbd_key xen item = domain_path (print_u (xd_domainid xen)) (''/device/vbd'' @ item)"

definition xen_get_vbd_state :: "xen_host \<Rightarrow> xen_driver \<Rightarrow> string \<Rightarrow> bool" where
  "xen_get_vbd_state h xen device_id \<longleftrightarrow> xh_xs_read h (vbd_key xen (''/'' @ device_id @ ''/state'')) = Some ''1''"

definition xen_vbd_get_type :: "xen_host \<Rightarrow> xen_driver \<Rightarrow> string \<Rightarrow> vbd_device_type" where
  "xen_vbd_get_type h xen device_id =
     (let device_type = xh_xs_read h (vbd_key xen (''/'' @ device_id @ ''/device-type'')) in
      if device_type = Some ''disk'' then VBD_DEVICE_TYPE_DISK
      else if device_type = Some ''cdrom'' then VBD_DEVICE_TYPE_CDROM
      else VBD_DEVICE_TYPE_UNKNOWN)"

text \<open>A missing path is printed as a text; missing parameters are dereferenced.\<close>

definition xen_vbd_get_backend :: "xen_host \<Rightarrow> xen_driver \<Rightarrow> string \<Rightarrow> vbd_backend disk_result" where
  "xen_vbd_get_backend h xen device_id =
     (let backend_path = (case xh_xs_read h (vbd_key xen (''/'' @ device_id @ ''/backend'')) of None \<Rightarrow> ''(null)'' | Some p \<Rightarrow> p);
          t = xh_xs_read h (backend_path @ ''/type'');
          type = (if t = Some ''qdisk'' then VBD_BACKEND_TYPE_QDISK else if t = Some ''phy'' then VBD_BACKEND_TYPE_PHY
                  else VBD_BACKEND_TYPE_UNKNOWN);
          params = xh_xs_read h (backend_path @ ''/params'');
          result = (\<lambda>format path. \<lparr> vb_type = type, vb_format = format,
            vb_bootable = (xh_xs_read h (backend_path @ ''/bootable'') = Some ''1''), vb_path = path \<rparr>);
          put = (\<lambda>format path. if length path \<ge> 0x1000 then Undefined else Done (result format path)) in
      case type of
        VBD_BACKEND_TYPE_QDISK \<Rightarrow>
          (case params of
             None \<Rightarrow> Undefined
           | Some p \<Rightarrow> if take 6 p = ''qcow2:'' then put VBD_BACKEND_FORMAT_QCOW2 (drop 6 p)
                       else Done (result VBD_BACKEND_FORMAT_ZERO []))
      | VBD_BACKEND_TYPE_PHY \<Rightarrow>
          (case params of None \<Rightarrow> Undefined | Some p \<Rightarrow> put VBD_BACKEND_FORMAT_RAW p)
      | VBD_BACKEND_TYPE_UNKNOWN \<Rightarrow> Done (result VBD_BACKEND_FORMAT_ZERO []))"

definition xen_read_disk :: "xen_host \<Rightarrow> zlib \<Rightarrow> disk_files \<Rightarrow> nat \<Rightarrow> xen_driver \<Rightarrow> disk_reader" where
  "xen_read_disk h zl files depth xen device_id offset cnt =
     (if cnt = 0 then Failed
      else if \<not> xen_get_vbd_state h xen device_id then Failed
      else and_then (xen_vbd_get_backend h xen device_id) (\<lambda>backend.
        case xen_vbd_get_type h xen device_id of
          VBD_DEVICE_TYPE_DISK \<Rightarrow>
            if vb_type backend = VBD_BACKEND_TYPE_PHY \<and> vb_format backend = VBD_BACKEND_FORMAT_RAW
            then vbd_read_raw_disk files (vb_path backend) offset cnt
            else if vb_type backend = VBD_BACKEND_TYPE_QDISK \<and> vb_format backend = VBD_BACKEND_FORMAT_QCOW2
            then vbd_read_qcow2_disk zl files depth (vb_path backend) offset cnt
            else Failed
        | _ \<Rightarrow> Failed))"

text \<open>The identifiers of the disks, and how many bytes were written behind the memory allocated for them: the
  terminator of each copy has no room.\<close>

definition xen_get_disks :: "xen_host \<Rightarrow> xen_driver \<Rightarrow> string list \<times> nat" where
  "xen_get_disks h xen =
     (let disks = filter (\<lambda>d. xen_vbd_get_type h xen d = VBD_DEVICE_TYPE_DISK) (xh_xs_directory h (vbd_key xen [])) in
      (disks, length disks))"

definition xen_disk_is_bootable :: "xen_host \<Rightarrow> xen_driver \<Rightarrow> string \<Rightarrow> bool disk_result" where
  "xen_disk_is_bootable h xen device_id =
     and_then (xen_vbd_get_backend h xen device_id) (\<lambda>backend. Done (vb_bootable backend))"

section \<open>Numbers\<close>

lemma print_nat_digits:
  assumes "2 \<le> b" and "b \<le> 16" and "c \<in> set (print_nat b n)"
  shows "\<exists>d < b. c = digit d"
  using assms(3)
proof (induction n rule: less_induct)
  case (less n)
  show ?case
  proof (cases "n < b")
    case True
    then show ?thesis using less.prems assms(1) by (auto simp: print_nat.simps [of b n])
  next
    case False
    have "n div b < n" using False assms(1) by (intro div_less_dividend) auto
    moreover have "n mod b < b" using assms(1) by simp
    moreover have "c \<in> set (print_nat b (n div b)) \<or> c = digit (n mod b)"
      using less.prems False assms(1) by (auto simp: print_nat.simps [of b n] split: if_splits)
    ultimately show ?thesis using less.IH [of "n div b"] by blast
  qed
qed

lemma digits_value_append:
  "\<forall>c \<in> set xs. \<exists>d < b. c = digit d \<Longrightarrow> b \<le> 16 \<Longrightarrow> digits_value b a (xs @ ys) = digits_value b (digits_value b a xs) ys"
  by (induction xs arbitrary: a) (auto simp: hex_digit_digit)

lemma digits_value_print:
  assumes "2 \<le> b" and "b \<le> 16"
  shows "digits_value b 0 (print_nat b n) = n"
proof (induction n rule: less_induct)
  case (less n)
  show ?case
  proof (cases "n < b")
    case True
    then show ?thesis using assms by (simp add: print_nat.simps [of b n] hex_digit_digit)
  next
    case False
    have m: "n mod b < b" using assms(1) by simp
    have "n div b < n" using False assms(1) by (intro div_less_dividend) auto
    then have "digits_value b 0 (print_nat b (n div b)) = n div b" by (rule less.IH)
    moreover have "\<forall>c \<in> set (print_nat b (n div b)). \<exists>d < b. c = digit d" using print_nat_digits [OF assms] by blast
    moreover have "hex_digit (digit (n mod b)) = Some (n mod b)" by (rule hex_digit_digit) (rule less_le_trans [OF m assms(2)])
    ultimately show ?thesis
      using False assms m by (simp add: print_nat.simps [of b n] digits_value_append)
  qed
qed

lemma print_nat_hd: "0 < n \<Longrightarrow> 2 \<le> b \<Longrightarrow> b \<le> 16 \<Longrightarrow> \<exists>d cs. 0 < d \<and> d < b \<and> print_nat b n = digit d # cs"
proof (induction n rule: less_induct)
  case (less n)
  show ?case
  proof (cases "n < b")
    case True
    then show ?thesis using less.prems by (intro exI [of _ n]) (simp add: print_nat.simps [of b n])
  next
    case False
    have "n div b < n" using False less.prems(2) by (intro div_less_dividend) auto
    moreover have "0 < n div b" using False less.prems(2) by (simp add: div_greater_zero_iff)
    ultimately obtain d cs where "0 < d" "d < b" "print_nat b (n div b) = digit d # cs" using less.IH less.prems by blast
    then show ?thesis using False by (intro exI [of _ d]) (simp add: print_nat.simps [of b n])
  qed
qed

lemma strtoull0_print: "strtoull0 (print_u (w :: u64)) = w"
proof (cases "unat w = 0")
  case True
  then show ?thesis
    by (simp add: print_u_def print_nat.simps [of 10 0] digit_def strtoull0_def is_space_def hex_digit_def Let_def unat_eq_zero)
next
  case False
  then obtain d cs where d: "0 < d" "d < 10" "print_nat 10 (unat w) = digit d # cs"
    using print_nat_hd [of "unat w" 10] by auto
  have c: "hex_digit (digit d) = Some d" using d(2) by (intro hex_digit_digit) simp
  then have "\<not> is_space (digit d)" "digit d \<noteq> CHR ''-''" "digit d \<noteq> CHR ''+''" using hex_digit_no_space by blast+
  moreover have "digit d \<noteq> CHR ''0''"
  proof
    assume "digit d = CHR ''0''"
    then have "hex_digit (digit d) = Some 0" by (simp add: hex_digit_def)
    then show False using c d(1) by simp
  qed
  moreover have "unat w < 2 ^ 64" using unsigned_less [of w] by simp
  ultimately show ?thesis
    using d(3) digits_value_print [of 10 "unat w"] by (simp add: strtoull0_def print_u_def Let_def not_le)
qed

section \<open>The contract of a guest's disk\<close>

definition xen_disk_byte :: "xen_host \<Rightarrow> zlib \<Rightarrow> disk_files \<Rightarrow> nat \<Rightarrow> xen_driver \<Rightarrow> string \<Rightarrow> nat \<Rightarrow> u8 option" where
  "xen_disk_byte h zl files depth xen device_id a =
     (case xen_vbd_get_backend h xen device_id of
        Done backend \<Rightarrow>
          if vb_type backend = VBD_BACKEND_TYPE_PHY then raw_byte files (vb_path backend) a
          else disk_byte zl files depth (vb_path backend) a
      | _ \<Rightarrow> None)"

interpretation xdisk: disk_contract "conforming files" "xen_read_disk h zl files depth xen" "xen_disk_byte h zl files depth xen"
  for h zl files depth xen
proof
  fix offset cnt :: u64 and device_id bs
  assume ok: "conforming files" and lim: "unat offset + unat cnt \<le> 2 ^ 47"
    and r: "xen_read_disk h zl files depth xen device_id offset cnt = Done bs"
  then obtain backend where b: "xen_vbd_get_backend h xen device_id = Done backend"
    and cases: "vb_type backend = VBD_BACKEND_TYPE_PHY \<and> vbd_read_raw_disk files (vb_path backend) offset cnt = Done bs \<or>
      vb_type backend = VBD_BACKEND_TYPE_QDISK \<and> vbd_read_qcow2_disk zl files depth (vb_path backend) offset cnt = Done bs"
    by (auto simp: xen_read_disk_def and_then_Done split: if_splits vbd_device_type.splits)
  from cases show "map Some bs = map (\<lambda>i. xen_disk_byte h zl files depth xen device_id (unat offset + i)) [0..<unat cnt]"
  proof
    assume "vb_type backend = VBD_BACKEND_TYPE_PHY \<and> vbd_read_raw_disk files (vb_path backend) offset cnt = Done bs"
    then show ?thesis using raw.sound [OF TrueI lim] b by (simp add: xen_disk_byte_def)
  next
    assume "vb_type backend = VBD_BACKEND_TYPE_QDISK \<and> vbd_read_qcow2_disk zl files depth (vb_path backend) offset cnt = Done bs"
    then show ?thesis using qcow.sound [OF ok lim] b by (simp add: xen_disk_byte_def)
  qed
qed

section \<open>The size of memory\<close>

lemma raise_gpfn_covers:
  assumes "is_pv t" and "unat (di_max_memkb (xd_info xen)) < 2 ^ 50" and "unat (xd_max_gpfn xen) < 2 ^ 51"
  shows "unat (xd_max_gpfn (raise_gpfn t xen)) < 2 ^ 51"
    and "unat (di_max_memkb (xd_info xen)) * 1024 < unat (push_bit 12 (xd_max_gpfn (raise_gpfn t xen) + 1))"
proof -
  let ?kb = "di_max_memkb (xd_info xen) * 1024" and ?g = "xd_max_gpfn (raise_gpfn t xen)"
  have kb: "unat ?kb = unat (di_max_memkb (xd_info xen)) * 1024" using assms(2) by (simp add: unat_word_ariths)
  have sh: "unat (push_bit 12 w) = unat w * 4096" if "unat w < 2 ^ 52" for w :: u64
    using that by (simp add: push_bit_eq_mult unat_word_ariths)
  have dr: "unat (drop_bit 12 ?kb) = unat ?kb div 4096" by (simp add: drop_bit_eq_div unat_div)
  have d: "unat ?kb div 4096 < 2 ^ 51" using assms(2) kb by (simp add: less_mult_imp_div_less)
  show g: "unat ?g < 2 ^ 51" using assms(3) d [folded dr] by (simp add: raise_gpfn_def Let_def)
  then have p: "unat (?g + 1) = unat ?g + 1" by (simp add: unat_word_ariths)
  have "unat ?kb < (unat ?g + 1) * 4096"
  proof (cases "push_bit 12 (xd_max_gpfn xen) < ?kb")
    case True
    then have "unat ?g = unat ?kb div 4096" using assms(1) dr by (simp add: raise_gpfn_def Let_def)
    then show ?thesis using div_mult_mod_eq [of "unat ?kb" 4096] mod_less_divisor [of 4096 "unat ?kb"] by simp
  next
    case False
    then have "unat ?kb \<le> unat (xd_max_gpfn xen) * 4096" using sh [of "xd_max_gpfn xen"] assms(3) by (simp add: word_less_nat_alt)
    moreover have "?g = xd_max_gpfn xen" using False by (simp add: raise_gpfn_def Let_def)
    ultimately show ?thesis by simp
  qed
  then show "unat (di_max_memkb (xd_info xen)) * 1024 < unat (push_bit 12 (?g + 1))"
    using g p kb sh [of "?g + 1"] by simp
qed

lemma find_of_map: "find P (map f xs) = map_option f (find (\<lambda>x. P (f x)) xs)"
  by (induction xs) auto

section \<open>Properties\<close>

text \<open>C22. Names of domains.  When the names in the XenStore differ in their first 100 characters, the
  identifier found for the name of a domain is its own, and the name found for the identifier the one we started from.\<close>

theorem domain_name_round_trip:
  assumes "xh_xs_open h" and "xh_xs_directory h ''/local/domain'' = map print_u ids"
    and "\<forall>j \<in> set ids. xh_xs_read h (domain_path (print_u j) ''/name'') = Some (nm j)"
    and "\<forall>j \<in> set ids. take 100 (nm j) = take 100 (nm i) \<longrightarrow> j = i" and "i \<in> set ids" and "i \<noteq> VMI_INVALID_DOMID"
  shows "xen_get_domainid_from_name h (nm i) = i \<and> xen_get_name_from_domainid h i = Some (nm i)"
proof -
  let ?P = "\<lambda>idStr. case xh_xs_read h (domain_path idStr ''/name'') of
      None \<Rightarrow> False | Some nameCandidate \<Rightarrow> strncmp_eq 100 (nm i) nameCandidate"
  have "find (\<lambda>j. ?P (print_u j)) ids = Some i"
    using assms(3-5)
  proof (induction ids)
    case (Cons j ids)
    show ?case
    proof (cases "j = i")
      case True
      then show ?thesis using Cons.prems by (simp add: strncmp_eq_def)
    next
      case False
      then have "take 100 (nm j) \<noteq> take 100 (nm i)" using Cons.prems(2) by (metis list.set_intros(1))
      moreover have "xh_xs_read h (domain_path (print_u j) ''/name'') = Some (nm j)" using Cons.prems(1) by simp
      ultimately have "\<not> ?P (print_u j)" by (simp add: strncmp_eq_def)
      moreover have "find (\<lambda>j. ?P (print_u j)) ids = Some i"
        by (rule Cons.IH) (use Cons.prems False in auto)
      ultimately show ?thesis by simp
    qed
  qed simp
  then have "find ?P (map print_u ids) = Some (print_u i)" by (simp add: find_of_map)
  then show ?thesis
    using assms by (simp add: xen_get_domainid_from_name_def xen_get_name_from_domainid_def strtoull0_print)
qed

definition host8 :: xen_host where
  "host8 = \<lparr> xh_sys = (\<lambda>p. None), xh_library = (\<lambda>n. None), xh_xc_open = True, xh_xs_open = True,
     xh_xs_read = (\<lambda>p. if p = ''/local/domain/0/name'' then Some ''Domain-0'' else
       if p = ''/local/domain/13/name'' then Some ''ubuntu'' else None),
     xh_xs_directory = (\<lambda>p. if p = ''/local/domain'' then [''0'', ''13''] else []),
     xh_getinfo = (\<lambda>d. if d \<le> 13 then Some \<lparr> di_domid = 13, di_hvm = False, di_max_vcpu_id = 1, di_nr_pages = 0x20000,
       di_nr_shared_pages = 0, di_max_memkb = 0x100000 \<rparr> else None),
     xh_address_size = (\<lambda>d. Some 64), xh_maximum_gpfn = (\<lambda>d. - 1), xh_maximum_gpfn2 = (\<lambda>d. Some 0x20000) \<rparr>"

lemma print8: "print_u (0 :: u64) = ''0''" "print_u (13 :: u64) = ''13''"
  by (simp_all add: print_u_def print_nat.simps digit_def char_of_def bit_numeral_rec bit_0)

lemma domain_name_round_trip_witness:
  "xen_get_domainid_from_name host8 ''ubuntu'' = 13 \<and> xen_get_name_from_domainid host8 13 = Some ''ubuntu''"
  using domain_name_round_trip [where h = host8 and ids = "[0, 13]" and i = 13
      and nm = "\<lambda>j. if j = 0 then ''Domain-0'' else ''ubuntu''"]
  by (simp add: host8_def print8 domain_path_def)

text \<open>C23. The size of memory: every frame the hypervisor names is below the end of memory that the library
  uses, and in a paravirtualised guest so is all the memory the domain may have.\<close>

theorem xen_memsize_covers:
  assumes "xv_xen v = Some xen" and "xh_getinfo h (xd_domainid xen) = Some info" and "ask_gpfn h xen = Some g"
    and "0 < unat g" and "unat g < 2 ^ 51" and "unat (di_max_memkb info) < 2 ^ 50"
  shows "\<exists>ram maxp v'. xen_get_memsize h v = (Some (ram, maxp), v') \<and> (unat g + 1) * 4096 \<le> unat maxp \<and>
    (is_pv (xv_vm_type v) \<longrightarrow> unat (di_max_memkb info) * 1024 < unat maxp)"
proof -
  let ?x = "xen\<lparr> xd_info := info, xd_max_gpfn := g \<rparr>"
  let ?y = "raise_gpfn (xv_vm_type v) ?x"
  let ?m = "push_bit 12 (xd_max_gpfn ?y + 1)"
  have a: "ask_gpfn h (xen\<lparr> xd_info := info \<rparr>) = Some g" using assms(3) by (auto simp: ask_gpfn_def split: if_splits)
  have nz: "g \<noteq> 0" using assms(4) by auto
  have r: "xen_get_memsize h v = (Some (0x1000 * (di_nr_pages info + di_nr_shared_pages info), ?m), v\<lparr> xv_xen := Some ?y \<rparr>)"
    using assms(1,2) a nz by (simp add: xen_get_memsize_def Let_def)
  have sh: "unat (push_bit 12 w) = unat w * 4096" if "unat w < 2 ^ 52" for w :: u64
    using that by (simp add: push_bit_eq_mult unat_word_ariths)
  have pv: "unat (di_max_memkb info) * 1024 < unat ?m \<and> unat (xd_max_gpfn ?y) < 2 ^ 51" if "is_pv (xv_vm_type v)"
    using raise_gpfn_covers [OF that, of ?x] assms(5,6) by simp
  have small: "unat (xd_max_gpfn ?y) < 2 ^ 51"
    using pv assms(5) by (cases "is_pv (xv_vm_type v)") (simp_all add: raise_gpfn_def Let_def)
  have ge: "unat g \<le> unat (xd_max_gpfn ?y)"
  proof (cases "is_pv (xv_vm_type v) \<and> push_bit 12 g < di_max_memkb info * 1024")
    case True
    have "drop_bit 12 (push_bit 12 g) = g"
      using assms(5) sh [of g] by (simp add: word_unat_eq_iff drop_bit_eq_div unat_div)
    moreover have "unat (drop_bit 12 (push_bit 12 g)) \<le> unat (drop_bit 12 (di_max_memkb info * 1024))"
      using True by (simp add: drop_bit_eq_div unat_div word_less_nat_alt div_le_mono)
    ultimately show ?thesis using True by (simp add: raise_gpfn_def Let_def)
  next
    case False
    then show ?thesis by (auto simp: raise_gpfn_def Let_def)
  qed
  have "unat (xd_max_gpfn ?y + 1) = unat (xd_max_gpfn ?y) + 1" using small by (simp add: unat_word_ariths)
  then have "(unat g + 1) * 4096 \<le> unat ?m" using ge small sh [of "xd_max_gpfn ?y + 1"] by simp
  then show ?thesis using r pv by blast
qed

abbreviation xen8 :: xen_driver where
  "xen8 \<equiv> \<lparr> xd_name = None, xd_domainid = 13, xd_major_version = 4, xd_minor_version = 15, xd_info = dominfo_zero,
     xd_max_gpfn = 0, xd_xshandle = True \<rparr>"

lemma xen_memsize_covers_witness:
  "\<exists>ram maxp v'. xen_get_memsize host8 \<lparr> xv_xen = Some xen8, xv_vm_type = PV64, xv_num_vcpus = 1, xv_init_flags = 0 \<rparr> =
     (Some (ram, maxp), v') \<and> 0x40000000 < unat maxp"
proof -
  have "ask_gpfn host8 xen8 = Some 0x20000" by (simp add: ask_gpfn_def host8_def)
  moreover have "xh_getinfo host8 13 = Some \<lparr> di_domid = 13, di_hvm = False, di_max_vcpu_id = 1, di_nr_pages = 0x20000,
       di_nr_shared_pages = 0, di_max_memkb = 0x100000 \<rparr>"
    by (simp add: host8_def)
  ultimately show ?thesis
    using xen_memsize_covers [where v = "\<lparr> xv_xen = Some xen8, xv_vm_type = PV64, xv_num_vcpus = 1, xv_init_flags = 0 \<rparr>"
        and h = host8 and xen = xen8 and g = "0x20000"] by (auto simp: is_pv_def)
qed

text \<open>Before version 4.6 the call reports a failure as a negative number, which is taken for the number of a frame: the
  memory then ends at zero.\<close>

theorem failed_gpfn_empties_memory:
  assumes "xv_xen v = Some xen" and "xd_major_version xen = 4" and "xd_minor_version xen < 6"
    and "xh_maximum_gpfn h (xd_domainid xen) = - 1" and "\<not> is_pv (xv_vm_type v)"
  shows "\<exists>ram v'. xen_get_memsize h v = (Some (ram, 0), v')"
  using assms by (auto simp: xen_get_memsize_def ask_gpfn_def raise_gpfn_def Let_def split: option.split)

text \<open>Asking for the boot flag of a disk never fails, also when there is no such disk.\<close>

theorem absent_disk_not_bootable:
  assumes "\<forall>p. xh_xs_read h p = None"
  shows "xen_disk_is_bootable h xen device_id = Done False"
  using assms by (simp add: xen_disk_is_bootable_def xen_vbd_get_backend_def Let_def)

end
